(* ===== verification/Prelude.thy ===== *)
theory Prelude
  imports Complex_Main "HOL-Library.Word" "HOL-Library.Monad_Syntax" "HOL-Library.Multiset"
begin

text \<open>
  Shared vocabulary of the development: the machine types of the Go code, nil-able big
  integers, the explicit object store that stands for Go pointers, association lists for Go
  maps that are iterated over, and the generic lemmas the component theories use.
  A value \<open>None\<close> of an operation's result stands for a Go panic (nil dereference, index out
  of range or an explicit \<open>panic\<close>).
\<close>

named_theorems ref_simps \<open>what an operation does to the object store\<close>
named_theorems frame_simps \<open>fields an operation leaves alone\<close>

section \<open>Machine types\<close>

type_synonym address = "160 word"
type_synonym hash = "256 word"
type_synonym byte = "8 word"
type_synonym bytes = "byte list"
type_synonym uint16 = "16 word"
type_synonym uint32 = "32 word"
type_synonym uint64 = "64 word"

text \<open>
  \<open>decimal.Decimal\<close>, \<open>big.Float\<close> and \<open>float32\<close> values are represented by the number they
  denote; every rounding operation on them is an argument of the definition that uses it.
\<close>

type_synonym decimal = rat
type_synonym bigfloat = rat
type_synonym float32 = rat

section \<open>Nil-able big integers\<close>

text \<open>A \<open>*big.Int\<close> is an \<open>int option\<close>, \<open>None\<close> being nil.\<close>

type_synonym bigint = "int option"

definition zeroOrNil :: "bigint \<Rightarrow> bool" where
  "zeroOrNil v = (case v of None \<Rightarrow> True | Some n \<Rightarrow> n = 0)"

definition zeroIfNil :: "bigint \<Rightarrow> int" where
  "zeroIfNil v = (case v of None \<Rightarrow> 0 | Some n \<Rightarrow> n)"

text \<open>
  \<open>x.Cmp(y)\<close> of \<open>math/big\<close>: equal pointers compare as equal (so two nils do), any other nil
  is dereferenced and panics.
\<close>

definition bigCmp :: "bigint \<Rightarrow> bigint \<Rightarrow> int option" where
  "bigCmp x y = (case (x, y) of
       (None, None) \<Rightarrow> Some 0
     | (Some a, Some b) \<Rightarrow> Some (if a < b then -1 else if a = b then 0 else 1)
     | _ \<Rightarrow> None)"

definition bigAdd :: "bigint \<Rightarrow> bigint \<Rightarrow> bigint option" where
  "bigAdd x y = (case (x, y) of (Some a, Some b) \<Rightarrow> Some (Some (a + b)) | _ \<Rightarrow> None)"

definition bigSub :: "bigint \<Rightarrow> bigint \<Rightarrow> bigint option" where
  "bigSub x y = (case (x, y) of (Some a, Some b) \<Rightarrow> Some (Some (a - b)) | _ \<Rightarrow> None)"

lemma zeroOrNil_iff: "zeroOrNil v \<longleftrightarrow> zeroIfNil v = 0"
  by (simp add: zeroOrNil_def zeroIfNil_def split: option.splits)

lemma zeroIfNil_simps [simp]: "zeroIfNil None = 0" "zeroIfNil (Some n) = n"
  by (simp_all add: zeroIfNil_def)

lemma zeroOrNil_simps [simp]: "zeroOrNil None" "zeroOrNil (Some n) \<longleftrightarrow> n = 0"
  by (simp_all add: zeroOrNil_def)

lemma big_simps [simp]:
  "bigCmp (Some a) (Some b) = Some (if a < b then -1 else if a = b then 0 else 1)"
  "bigCmp None None = Some 0"
  "bigAdd (Some a) (Some b) = Some (Some (a + b))"
  "bigSub (Some a) (Some b) = Some (Some (a - b))"
  by (simp_all add: bigCmp_def bigAdd_def bigSub_def)

section \<open>The object store\<close>

text \<open>
  A pointer to a mutable Go struct is an index into a store of such structs; allocation
  extends the store, so two allocations never alias and a pointer, once handed out, stays
  valid.
\<close>

type_synonym ref = nat
type_synonym 'a store = "'a list"

definition alloc :: "'a \<Rightarrow> 'a store \<Rightarrow> 'a store" where
  "alloc x st = st @ [x]"

definition fresh :: "'a store \<Rightarrow> ref" where
  "fresh st = length st"

definition deref :: "'a store \<Rightarrow> ref \<Rightarrow> 'a option" where
  "deref st r = (if r < length st then Some (st ! r) else None)"

definition modify :: "ref \<Rightarrow> ('a \<Rightarrow> 'a) \<Rightarrow> 'a store \<Rightarrow> 'a store" where
  "modify r f st = (if r < length st then st[r := f (st ! r)] else st)"

text \<open>What every client of a store may rely on.\<close>

locale object_store =
  fixes new :: "'a \<Rightarrow> 's \<Rightarrow> 's"
    and next_ref :: "'s \<Rightarrow> ref"
    and get :: "'s \<Rightarrow> ref \<Rightarrow> 'a option"
    and update :: "ref \<Rightarrow> ('a \<Rightarrow> 'a) \<Rightarrow> 's \<Rightarrow> 's"
  assumes get_new: "get (new x st) r = (if r = next_ref st then Some x else get st r)"
    and get_fresh: "get st (next_ref st) = None"
    and get_update: "get (update r f st) q = (if q = r then map_option f (get st r) else get st q)"
begin

lemma get_new_old: "get st r = Some y \<Longrightarrow> get (new x st) r = Some y"
  using get_fresh [of st] by (auto simp: get_new)

lemma map_get_new:
  assumes "\<And>r. r \<in> set rs \<Longrightarrow> get st r \<noteq> None"
  shows "map (get (new x st)) rs = map (get st) rs"
proof -
  have "next_ref st \<notin> set rs" using assms get_fresh [of st] by blast
  then show ?thesis by (auto simp: get_new)
qed

lemma map_get_update:
  "r \<notin> set rs \<Longrightarrow> map (get (update r f st)) rs = map (get st) rs"
  by (auto simp: get_update)

lemma update_keeps_defined: "get (update r f st) q = None \<longleftrightarrow> get st q = None"
  by (simp add: get_update)

end

lemma deref_alloc [ref_simps]:
  "deref (alloc x st) r = (if r = fresh st then Some x else deref st r)"
  by (auto simp: deref_def alloc_def fresh_def nth_append)

lemma deref_fresh [ref_simps]: "deref st (fresh st) = None"
  by (simp add: deref_def fresh_def)

lemma deref_modify [ref_simps]:
  "deref (modify r f st) q = (if q = r then map_option f (deref st r) else deref st q)"
  by (auto simp: deref_def modify_def)

interpretation heap: object_store alloc fresh deref modify
  by unfold_locales (simp_all add: ref_simps)

lemma fresh_modify [ref_simps]: "fresh (modify r f st) = fresh st"
  by (simp add: fresh_def modify_def)

lemma fresh_alloc [ref_simps]: "fresh (alloc x st) = Suc (fresh st)"
  by (simp add: fresh_def alloc_def)

lemma deref_Some_less: "deref st r = Some x \<Longrightarrow> r < fresh st"
  by (auto simp: deref_def fresh_def split: if_splits)

lemma deref_defined_iff: "deref st r \<noteq> None \<longleftrightarrow> r < fresh st"
  by (simp add: deref_def fresh_def)

section \<open>Lists, maps and options\<close>

lemma sum_list_map_cong_le:
  "(\<And>x. x \<in> set xs \<Longrightarrow> f x = g x) \<Longrightarrow> sum_list (map f xs) = (sum_list (map g xs) :: 'b :: comm_monoid_add)"
  by (rule arg_cong [where f = sum_list]) simp

lemma sum_list_map_change_one:
  fixes f g :: "'a \<Rightarrow> 'b :: ab_group_add"
  assumes "distinct xs" "x \<in> set xs" "\<And>y. y \<in> set xs \<Longrightarrow> y \<noteq> x \<Longrightarrow> g y = f y"
  shows "sum_list (map g xs) = sum_list (map f xs) + (g x - f x)"
  using assms
proof (induction xs)
  case Nil
  then show ?case by simp
next
  case (Cons a xs)
  show ?case
  proof (cases "a = x")
    case True
    with Cons.prems have "sum_list (map g xs) = sum_list (map f xs)"
      by (intro sum_list_map_cong_le) auto
    with True show ?thesis by simp
  next
    case False
    with Cons.prems have "g a = f a" by simp
    moreover have "sum_list (map g xs) = sum_list (map f xs) + (g x - f x)"
      using False Cons by simp
    ultimately show ?thesis by (simp add: add.assoc)
  qed
qed

lemma bind_Some_iff: "Option.bind m f = Some y \<longleftrightarrow> (\<exists>x. m = Some x \<and> f x = Some y)"
  by (cases m) auto

text \<open>
  Running a list of steps that may panic: the first panic ends the run.
\<close>

fun run_steps :: "('e \<Rightarrow> 's \<Rightarrow> 's option) \<Rightarrow> 'e list \<Rightarrow> 's \<Rightarrow> 's option" where
  "run_steps step [] s = Some s"
| "run_steps step (e # es) s = (case step e s of None \<Rightarrow> None | Some s' \<Rightarrow> run_steps step es s')"

lemma run_steps_append:
  "run_steps step (es @ fs) s = Option.bind (run_steps step es s) (run_steps step fs)"
  by (induction es arbitrary: s) (auto split: option.splits)

text \<open>
  A contract shared by every stateful component: each step keeps an invariant, hence so does
  every run.
\<close>

locale invariant_steps =
  fixes step :: "'e \<Rightarrow> 's \<Rightarrow> 's option"
    and inv :: "'s \<Rightarrow> bool"
  assumes step_inv: "inv s \<Longrightarrow> step e s = Some s' \<Longrightarrow> inv s'"
begin

lemma run_inv: "inv s \<Longrightarrow> run_steps step es s = Some s' \<Longrightarrow> inv s'"
  by (induction es arbitrary: s) (auto split: option.splits dest: step_inv)

end

text \<open>A component none of whose steps panics in a state of the invariant.\<close>

locale total_steps = invariant_steps +
  assumes step_defined: "inv s \<Longrightarrow> \<exists>s'. step e s = Some s'"
begin

lemma run_defined: "inv s \<Longrightarrow> \<exists>s'. run_steps step es s = Some s'"
proof (induction es arbitrary: s)
  case (Cons e es)
  obtain s1 where "step e s = Some s1" using step_defined [OF Cons.prems] by blast
  with Cons.IH [OF step_inv [OF Cons.prems this]] show ?case by simp
qed simp

end

end
