(* ===== verification/Db_Types.thy ===== *)
theory Db_Types
  imports Prelude
begin

text \<open>
  The row types of \<open>src/db/types.go\<close> that the collector and the indexer build: one record per
  struct, each field under the struct's abbreviation. A \<open>*big.Int\<close>, \<open>*common.Address\<close> or other
  nil-able pointer to a value is an option; \<open>uint8\<close> and \<open>byte\<close> are 8-bit words.
\<close>

section \<open>Constants\<close>

text \<open>Burnt-coins and balance-update reasons are both aliases of \<open>uint8\<close>.\<close>

abbreviation PenaltyBurntCoins :: byte where "PenaltyBurntCoins \<equiv> 0x0"
abbreviation InviteBurntCoins :: byte where "InviteBurntCoins \<equiv> 0x1"
abbreviation FeeBurntCoins :: byte where "FeeBurntCoins \<equiv> 0x2"
abbreviation KilledBurntCoins :: byte where "KilledBurntCoins \<equiv> 0x4"
abbreviation BurnTxBurntCoins :: byte where "BurnTxBurntCoins \<equiv> 0x5"
abbreviation DustClearingBurntCoins :: byte where "DustClearingBurntCoins \<equiv> 0x6"

abbreviation TxReason :: byte where "TxReason \<equiv> 0x0"
abbreviation VerifiedStakeTransferReason :: byte where "VerifiedStakeTransferReason \<equiv> 0x1"
abbreviation ProposerRewardReason :: byte where "ProposerRewardReason \<equiv> 0x2"
abbreviation CommitteeRewardReason :: byte where "CommitteeRewardReason \<equiv> 0x3"
abbreviation EpochRewardReason :: byte where "EpochRewardReason \<equiv> 0x4"
abbreviation FailedValidationReason :: byte where "FailedValidationReason \<equiv> 0x5"
abbreviation PenaltyReason :: byte where "PenaltyReason \<equiv> 0x6"
abbreviation EpochPenaltyResetReason :: byte where "EpochPenaltyResetReason \<equiv> 0x7"
abbreviation DustClearingReason :: byte where "DustClearingReason \<equiv> 0x9"
abbreviation ContractReason :: byte where "ContractReason \<equiv> 0xA"
abbreviation EmbeddedContractTerminationReason :: byte where
  "EmbeddedContractTerminationReason \<equiv> 0xB"
abbreviation DelegatorEpochRewardReason :: byte where "DelegatorEpochRewardReason \<equiv> 0xC"
abbreviation DelegateeEpochRewardReason :: byte where "DelegateeEpochRewardReason \<equiv> 0xD"
abbreviation IdentityClearingReason :: byte where "IdentityClearingReason \<equiv> 0xE"

abbreviation TimeLockCallTransfer :: byte where "TimeLockCallTransfer \<equiv> 0"
abbreviation OracleVotingCallStart :: byte where "OracleVotingCallStart \<equiv> 0"
abbreviation OracleVotingCallVoteProof :: byte where "OracleVotingCallVoteProof \<equiv> 1"
abbreviation OracleVotingCallVote :: byte where "OracleVotingCallVote \<equiv> 2"
abbreviation OracleVotingCallFinish :: byte where "OracleVotingCallFinish \<equiv> 3"
abbreviation OracleVotingCallProlong :: byte where "OracleVotingCallProlong \<equiv> 4"
abbreviation OracleVotingCallAddStake :: byte where "OracleVotingCallAddStake \<equiv> 5"
abbreviation OracleLockCallPush :: byte where "OracleLockCallPush \<equiv> 0"
abbreviation OracleLockCallCheckOracleVoting :: byte where "OracleLockCallCheckOracleVoting \<equiv> 1"
abbreviation MultisigCallAdd :: byte where "MultisigCallAdd \<equiv> 0"
abbreviation MultisigCallSend :: byte where "MultisigCallSend \<equiv> 1"
abbreviation MultisigCallPush :: byte where "MultisigCallPush \<equiv> 2"
abbreviation RefundableOracleLockCallDeposit :: byte where "RefundableOracleLockCallDeposit \<equiv> 0"
abbreviation RefundableOracleLockCallPush :: byte where "RefundableOracleLockCallPush \<equiv> 1"
abbreviation RefundableOracleLockCallRefund :: byte where "RefundableOracleLockCallRefund \<equiv> 2"

abbreviation UndelegationReasonUndelegation :: byte where "UndelegationReasonUndelegation \<equiv> 1"
abbreviation UndelegationReasonTermination :: byte where "UndelegationReasonTermination \<equiv> 2"
abbreviation UndelegationReasonValidationFailure :: byte where
  "UndelegationReasonValidationFailure \<equiv> 3"
abbreviation UndelegationReasonTransitionRemove :: byte where
  "UndelegationReasonTransitionRemove \<equiv> 4"
abbreviation UndelegationReasonInactiveIdentity :: byte where
  "UndelegationReasonInactiveIdentity \<equiv> 5"
abbreviation UndelegationReasonApplyingFailure :: byte where
  "UndelegationReasonApplyingFailure \<equiv> 6"

section \<open>Row types\<close>

record RewardedInvite =
  RI_TxHash :: string
  RI_Type :: byte
  RI_EpochHeight :: uint32

record RewardedInvitee =
  RIe_TxHash :: string
  RIe_EpochHeight :: uint32

record SavedInviteRewards =
  SIR_Address :: string
  SIR_Type :: byte
  SIR_Count :: byte

record ReportedFlipReward =
  RFR_Address :: string
  RFR_Balance :: decimal
  RFR_Stake :: decimal
  RFR_Cid :: string

record TotalRewards =
  TR_Total :: decimal
  TR_Validation :: decimal
  TR_Staking :: decimal
  TR_Candidate :: decimal
  TR_Flips :: decimal
  TR_FlipsExtra :: decimal
  TR_Reports :: decimal
  TR_Invitations :: decimal
  TR_FoundationPayouts :: decimal
  TR_ZeroWalletFund :: decimal
  TR_ValidationShare :: decimal
  TR_StakingShare :: decimal
  TR_CandidateShare :: decimal
  TR_FlipsShare :: decimal
  TR_FlipsExtraShare :: decimal
  TR_ReportsShare :: decimal
  TR_InvitationsShare :: decimal

record Reward =
  Rw_Address :: string
  Rw_Balance :: decimal
  Rw_Stake :: decimal
  Rw_Type :: byte

record BadAuthor =
  BA_Address :: string
  BA_Reason :: byte

record ActivationTxTransfer =
  ATT_TxHash :: string
  ATT_BalanceTransfer :: decimal

record KillTxTransfer =
  KTT_TxHash :: string
  KTT_StakeTransfer :: decimal

record KillInviteeTxTransfer =
  KITT_TxHash :: string
  KITT_StakeTransfer :: decimal

record ActivationTx =
  ATx_TxHash :: string
  ATx_InviteTxHash :: string
  ATx_ShardId :: uint32

record BurntCoins =
  BC_Amount :: decimal
  BC_Reason :: byte
  BC_TxHash :: string

record BalanceUpdate =
  BU_Address :: address
  BU_BalanceOld :: bigint
  BU_StakeOld :: bigint
  BU_PenaltyOld :: bigint
  BU_PenaltySecondsOld :: uint16
  BU_BalanceNew :: bigint
  BU_StakeNew :: bigint
  BU_PenaltyNew :: bigint
  BU_PenaltySecondsNew :: uint16
  BU_PenaltyPayment :: bigint
  BU_TxHash :: "hash option"
  BU_Reason :: byte
  BU_ContractAddress :: "address option"

record WasmContract =
  Ct_TxHash :: hash
  Ct_ContractAddress :: address
  Ct_Code :: bytes

record OracleVotingContract =
  OVC_TxHash :: hash
  OVC_ContractAddress :: address
  OVC_Stake :: bigint
  OVC_StartTime :: uint64
  OVC_VotingDuration :: uint64
  OVC_VotingMinPayment :: bigint
  OVC_Fact :: bytes
  OVC_State :: byte
  OVC_PublicVotingDuration :: uint64
  OVC_WinnerThreshold :: byte
  OVC_Quorum :: byte
  OVC_CommitteeSize :: uint64
  OVC_OwnerFee :: byte
  OVC_OwnerDeposit :: bigint
  OVC_OracleRewardFund :: bigint
  OVC_RefundRecipient :: "address option"
  OVC_Hash :: bytes
  OVC_NetworkSize :: uint64

record OracleVotingContractCallStart =
  OVCStart_TxHash :: hash
  OVCStart_State :: byte
  OVCStart_StartHeight :: uint64
  OVCStart_Epoch :: uint16
  OVCStart_VotingMinPayment :: bigint
  OVCStart_VrfSeed :: bytes
  OVCStart_Committee :: "address list"
  OVCStart_CommitteeSize :: uint64

record OracleVotingContractCallVoteProof =
  OVCProof_TxHash :: hash
  OVCProof_VoteHash :: bytes
  OVCProof_Votes :: uint64
  OVCProof_NewSecretVotesCount :: "uint64 option"
  OVCProof_DiscriminatedNewbie :: bool
  OVCProof_DiscriminatedDelegation :: bool
  OVCProof_DiscriminatedStake :: bool

record OracleVotingContractCallVote =
  OVCVote_TxHash :: hash
  OVCVote_Vote :: byte
  OVCVote_Salt :: bytes
  OVCVote_OptionVotes :: "uint64 option"
  OVCVote_OptionAllVotes :: uint64
  OVCVote_SecretVotesCount :: "uint64 option"
  OVCVote_Delegatee :: "address option"
  OVCVote_DiscriminatedNewbie :: bool
  OVCVote_DiscriminatedDelegation :: bool
  OVCVote_DiscriminatedStake :: bool
  OVCVote_PrevPoolVote :: "byte option"
  OVCVote_PrevOptionVotes :: "uint64 option"

record OracleVotingContractCallFinish =
  OVCFinish_TxHash :: hash
  OVCFinish_State :: byte
  OVCFinish_Result :: "byte option"
  OVCFinish_Fund :: bigint
  OVCFinish_OracleReward :: bigint
  OVCFinish_OwnerReward :: bigint

record OracleVotingContractCallProlongation =
  OVCProlong_TxHash :: hash
  OVCProlong_Epoch :: uint16
  OVCProlong_StartBlock :: "uint64 option"
  OVCProlong_VrfSeed :: bytes
  OVCProlong_EpochWithoutGrowth :: "byte option"
  OVCProlong_ProlongVoteCount :: "uint64 option"
  OVCProlong_Committee :: "address list"
  OVCProlong_CommitteeSize :: uint64

record OracleVotingContractCallAddStake =
  OVCAddStake_TxHash :: hash

record OracleVotingContractTermination =
  OVCTerm_TxHash :: hash
  OVCTerm_Fund :: bigint
  OVCTerm_OracleReward :: bigint
  OVCTerm_OwnerReward :: bigint

record OracleLockContract =
  OLC_TxHash :: hash
  OLC_ContractAddress :: address
  OLC_Stake :: bigint
  OLC_OracleVotingAddress :: address
  OLC_ExpectedValue :: byte
  OLC_SuccessAddress :: address
  OLC_FailAddress :: address

record OracleLockContractCallCheckOracleVoting =
  OLCCheck_TxHash :: hash
  OLCCheck_OracleVotingResult :: "byte option"

record OracleLockContractCallPush =
  OLCPush_TxHash :: hash
  OLCPush_Success :: bool
  OLCPush_OracleVotingResult :: byte
  OLCPush_Transfer :: bigint

record OracleLockContractTermination =
  OLCTerm_TxHash :: hash
  OLCTerm_Dest :: address

record RefundableOracleLockContract =
  ROLC_TxHash :: hash
  ROLC_ContractAddress :: address
  ROLC_Stake :: bigint
  ROLC_OracleVotingAddress :: address
  ROLC_ExpectedValue :: byte
  ROLC_SuccessAddress :: "address option"
  ROLC_FailAddress :: "address option"
  ROLC_RefundDelay :: uint64
  ROLC_DepositDeadline :: uint64
  ROLC_OracleVotingFeeOld :: byte
  ROLC_OracleVotingFee :: uint64

record RefundableOracleLockContractCallDeposit =
  ROLCDeposit_TxHash :: hash
  ROLCDeposit_OwnSum :: bigint
  ROLCDeposit_Sum :: bigint
  ROLCDeposit_Fee :: bigint

record RefundableOracleLockContractCallPush =
  ROLCPush_TxHash :: hash
  ROLCPush_State :: byte
  ROLCPush_OracleVotingExists :: bool
  ROLCPush_OracleVotingResult :: "byte option"
  ROLCPush_Transfer :: bigint
  ROLCPush_RefundBlock :: uint64

record RefundableOracleLockContractCallRefund =
  ROLCRefund_TxHash :: hash
  ROLCRefund_Balance :: bigint
  ROLCRefund_Coef :: rat

record RefundableOracleLockContractTermination =
  ROLCTerm_TxHash :: hash
  ROLCTerm_Dest :: address

record MultisigContract =
  MC_TxHash :: hash
  MC_ContractAddress :: address
  MC_Stake :: bigint
  MC_MinVotes :: byte
  MC_MaxVotes :: byte
  MC_State :: byte

record MultisigContractCallAdd =
  MCAdd_TxHash :: hash
  MCAdd_Address :: address
  MCAdd_NewState :: "byte option"

record MultisigContractCallSend =
  MCSend_TxHash :: hash
  MCSend_Dest :: address
  MCSend_Amount :: bigint

record MultisigContractCallPush =
  MCPush_TxHash :: hash
  MCPush_Dest :: address
  MCPush_Amount :: bigint
  MCPush_VoteAddressCnt :: byte
  MCPush_VoteAmountCnt :: byte

record MultisigContractTermination =
  MCTerm_TxHash :: hash
  MCTerm_Dest :: address

record TimeLockContract =
  TLC_TxHash :: hash
  TLC_ContractAddress :: address
  TLC_Stake :: bigint
  TLC_Timestamp :: uint64

record TimeLockContractCallTransfer =
  TLCTransfer_TxHash :: hash
  TLCTransfer_Dest :: address
  TLCTransfer_Amount :: bigint

record TimeLockContractTermination =
  TLCTerm_TxHash :: hash
  TLCTerm_Dest :: address

record ContractTxBalanceUpdate =
  CTBU_Address :: address
  CTBU_BalanceOld :: bigint
  CTBU_BalanceNew :: bigint
  CTBU_ContractAddress :: "address option"

record ContractTxBalanceUpdates =
  CTBUs_TxHash :: hash
  CTBUs_ContractAddress :: address
  CTBUs_ContractCallMethod :: "byte option"
  CTBUs_Updates :: "ContractTxBalanceUpdate list"

record RewardBound =
  RB_Amount :: bigint
  RB_Address :: address

record RewardBounds =
  RBs_Type :: byte
  RBs_Min :: "RewardBound option"
  RBs_Max :: "RewardBound option"

record DelegationSwitch =
  DS_Delegator :: address
  DS_Delegatee :: "address option"
  DS_BirthEpoch :: "uint16 option"

record RemovedTransitiveDelegation =
  RTD_Delegator :: address
  RTD_Delegatee :: address

record DelegationEpochReward =
  DER_Balance :: bigint
  DER_Type :: byte

record DelegatorEpochReward =
  DrER_Address :: address
  DrER_TotalRewards :: "DelegationEpochReward list"

record DelegateeEpochRewards =
  DeER_Address :: address
  DeER_TotalRewards :: "DelegationEpochReward list"
  DeER_DelegatorRewards :: "DelegatorEpochReward list"
  DeER_PenalizedDelegators :: uint32

record ValidationRewardSummary =
  VRS_Earned :: bigint
  VRS_Missed :: bigint
  VRS_MissedReason :: "byte option"

record ValidationRewardSummaries =
  VRSs_Address :: string
  VRSs_PrevStake :: bigint
  VRSs_Validation :: ValidationRewardSummary
  VRSs_Flips :: ValidationRewardSummary
  VRSs_ExtraFlips :: ValidationRewardSummary
  VRSs_Invitations :: ValidationRewardSummary
  VRSs_Reports :: ValidationRewardSummary
  VRSs_Candidate :: ValidationRewardSummary
  VRSs_Staking :: ValidationRewardSummary
  VRSs_Invitee :: ValidationRewardSummary

record EpochSummaryUpdate =
  ESU_CandidateCountDiff :: int

record DbToken =
  Tok_ContractAddress :: address
  Tok_Name :: string
  Tok_Symbol :: string
  Tok_Decimals :: byte

record TokenBalance =
  TokB_ContractAddress :: address
  TokB_Address :: address
  TokB_Balance :: bigint

record DelegationHistoryUpdate =
  DHU_DelegatorAddress :: address
  DHU_DelegationTx :: "hash option"
  DHU_DelegationBlockHeight :: "uint64 option"
  DHU_UndelegationReason :: "byte option"
  DHU_UndelegationTx :: "hash option"
  DHU_UndelegationBlockHeight :: "uint64 option"

record PoolSize =
  PS_Address :: address
  PS_Size :: uint64
  PS_TotalDelegated :: uint64


end
