(* ===== verification/Stats_Types.thy ===== *)
theory Stats_Types
  imports Db_Types
begin

text \<open>
  The state of the statistics collector: \<open>src/core/stats/types.go\<close> and the \<open>pending\<close> structs of
  \<open>src/core/stats/collector.go\<close>. The node (\<open>idena-go\<close>) and the libraries the indexer calls are
  not part of the repository: what the code reads from them are the records \<open>ext\<close> and
  \<open>app_state\<close>, arguments of the definitions that use them, and the observed fields of the
  node's transactions, receipts and validation results.
\<close>

section \<open>What the code reads from the node and from libraries\<close>

text \<open>Identity states, with the codes of the table \<open>dic_identity_states\<close>.\<close>

datatype identity_state = Undefined | Invite | CandidateSt | Verified | Suspended | Killed
  | Zombie | Newbie | Human

datatype tx_type = SendTx | ActivationTxT | InviteTx | KillTx | SubmitFlipTx | SubmitAnswersHashTx
  | SubmitShortAnswersTx | SubmitLongAnswersTx | EvidenceTx | OnlineStatusTx | KillInviteeTxT
  | ChangeGodAddressTx | BurnTx | ChangeProfileTx | DeleteFlipTx | DeployContractTx
  | CallContractTx | TerminateContractTx | DelegateTx | UndelegateTx | KillDelegatorTx
  | StoreToIpfsTx

text \<open>A transaction: \<open>Tx_Hash\<close> is \<open>tx.Hash()\<close> and \<open>Tx_Sender\<close> is \<open>types.Sender(tx)\<close>.\<close>

record Transaction =
  Tx_Hash :: hash
  Tx_Sender :: address
  Tx_Type :: tx_type
  Tx_To :: "address option"
  Tx_Amount :: bigint
  Tx_Tips :: bigint
  Tx_MaxFee :: bigint
  Tx_Epoch :: uint16
  Tx_Nonce :: uint32
  Tx_Size :: nat
  Tx_Payload :: bytes

record TxEvent =
  Ev_Contract :: address
  Ev_EventName :: string
  Ev_Data :: "bytes list"

record TxReceipt =
  Rc_Success :: bool
  Rc_ContractAddress :: address
  Rc_From :: address
  Rc_Method :: string
  Rc_Events :: "TxEvent list"
  Rc_GasUsed :: uint64
  Rc_GasCost :: bigint
  Rc_TxHash :: hash
  Rc_Error :: "string option"
  Rc_ActionResult :: bytes

record Identity =
  Id_State :: identity_state
  Id_Stake :: bigint
  Id_Penalty :: bigint
  Id_PenaltySeconds :: uint16
  Id_InviterTxHash :: "hash option"
  Id_PubKey :: bytes
  Id_Birthday :: uint16
  Id_Delegatee :: "address option"

text \<open>
  A node state as the code sees it. \<open>GetBalance\<close> and \<open>GetStakeBalance\<close> of the node return zero
  rather than nil for an unknown account, hence their type. \<open>AS_Identities\<close> is what
  \<open>IterateOverIdentities\<close> visits, in its order.
\<close>

record app_state =
  AS_GetBalance :: "address \<Rightarrow> int"
  AS_GetStakeBalance :: "address \<Rightarrow> int"
  AS_GetIdentityState :: "address \<Rightarrow> identity_state"
  AS_GetIdentity :: "address \<Rightarrow> Identity"
  AS_ShardId :: "address \<Rightarrow> uint32"
  AS_HasCodeHash :: "address \<Rightarrow> bool"
  AS_Identities :: "(address \<times> Identity) list"

text \<open>
  Library functions: hexadecimal forms, \<open>blockchain.ConvertToFloat\<close>, \<open>cid.Parse\<close> (None on an
  error, in which case the code prints the zero Cid), \<open>math.ToInt\<close>, \<open>decimal.NewFromFloat32\<close>,
  the float roundings and \<open>math.Pow\<close>, \<open>crypto.Hash\<close>, \<open>IdentityState.NewbieOrBetter\<close>.
\<close>

record ext =
  X_addrHex :: "address \<Rightarrow> string"
  X_hashHex :: "hash \<Rightarrow> string"
  X_convertToFloat :: "bigint \<Rightarrow> decimal"
  X_cidParse :: "bytes \<Rightarrow> string option"
  X_cidUndef :: string
  X_toInt :: "decimal \<Rightarrow> int"
  X_fromFloat32 :: "float32 \<Rightarrow> decimal"
  X_bfRound :: "rat \<Rightarrow> rat"
  X_f64 :: "rat \<Rightarrow> rat"
  X_f32 :: "rat \<Rightarrow> rat"
  X_pow :: "rat \<Rightarrow> rat \<Rightarrow> rat"
  X_hash :: "bytes \<Rightarrow> hash"
  X_newbieOrBetter :: "identity_state \<Rightarrow> bool"

text \<open>One instance of the library functions, for evaluating definitions on concrete inputs.\<close>

definition sampleExt :: ext where
  "sampleExt = \<lparr>X_addrHex = (\<lambda>a. replicate (unat a) (CHR ''1'')), X_hashHex = (\<lambda>h. replicate (unat h) (CHR ''1'')),
     X_convertToFloat = (\<lambda>v. of_int (zeroIfNil v)), X_cidParse = (\<lambda>b. Some (map (\<lambda>x. char_of (unat x)) b)),
     X_cidUndef = [], X_toInt = floor, X_fromFloat32 = id, X_bfRound = id, X_f64 = id, X_f32 = id,
     X_pow = (\<lambda>x y. x), X_hash = (\<lambda>b. of_nat (length b)),
     X_newbieOrBetter = (\<lambda>st. st \<in> {Newbie, Verified, Human})\<rparr>"

definition sampleIdentity :: Identity where
  "sampleIdentity = \<lparr>Id_State = Newbie, Id_Stake = Some 0, Id_Penalty = None, Id_PenaltySeconds = 0,
     Id_InviterTxHash = None, Id_PubKey = [], Id_Birthday = 0, Id_Delegatee = None\<rparr>"

definition sampleApp :: app_state where
  "sampleApp = \<lparr>AS_GetBalance = (\<lambda>_. 0), AS_GetStakeBalance = (\<lambda>_. 0),
     AS_GetIdentityState = (\<lambda>_. Newbie), AS_GetIdentity = (\<lambda>_. sampleIdentity), AS_ShardId = (\<lambda>_. 1),
     AS_HasCodeHash = (\<lambda>_. False), AS_Identities = []\<rparr>"

text \<open>\<open>conversion.ConvertAddress\<close> and \<open>conversion.ConvertHash\<close>.\<close>

definition ConvertAddress :: "ext \<Rightarrow> address \<Rightarrow> string" where
  "ConvertAddress e a = X_addrHex e a"

definition ConvertHash :: "ext \<Rightarrow> hash \<Rightarrow> string" where
  "ConvertHash e h = X_hashHex e h"

text \<open>The idiom \<open>flipCid, _ := cid.Parse(b); flipCid.String()\<close>.\<close>

definition cidString :: "ext \<Rightarrow> bytes \<Rightarrow> string" where
  "cidString e b = (case X_cidParse e b of None \<Rightarrow> X_cidUndef e | Some c \<Rightarrow> c)"

text \<open>
  What the code reads of \<open>statsTypes.ValidationStats\<close> and \<open>types.ValidationResults\<close>. Its maps are
  association lists, in the order of their iteration; the node puts no nil pointers into them.
\<close>

record FlipAnswerStats =
  FAS_Respondent :: address
  FAS_Answer :: byte
  FAS_Point :: float32
  FAS_Grade :: byte
  FAS_Index :: int
  FAS_Considered :: bool

record NodeFlipStats =
  NFS_ShortAnswers :: "FlipAnswerStats list"
  NFS_LongAnswers :: "FlipAnswerStats list"
  NFS_Status :: byte
  NFS_Answer :: byte
  NFS_Grade :: byte
  NFS_GradeScore :: decimal

record IdentityStats =
  IdS_ShortPoint :: float32
  IdS_ShortFlips :: uint32
  IdS_LongPoint :: float32
  IdS_LongFlips :: uint32
  IdS_Approved :: bool
  IdS_Missed :: bool
  IdS_ShortFlipsToSolve :: "nat list"
  IdS_LongFlipsToSolve :: "nat list"

record ShardStats =
  ShS_FlipCids :: "bytes list"
  ShS_FlipsPerIdx :: "(nat \<times> NodeFlipStats) list"
  ShS_IdentitiesPerAddr :: "(address \<times> IdentityStats) list"
  ShS_WrongGradeReasons :: "(address \<times> byte) list"

record ValidationStats =
  VSt_Shards :: "(uint32 \<times> ShardStats) list"
  VSt_Failed :: bool

definition ShS_FlipGrades :: "ShardStats \<Rightarrow> (nat \<times> byte) list" where
  "ShS_FlipGrades sh = map (\<lambda>(idx, flip). (idx, NFS_Grade flip)) (ShS_FlipsPerIdx sh)"

definition ShS_LongFlipsToSolve :: "ShardStats \<Rightarrow> (address \<times> nat list) list" where
  "ShS_LongFlipsToSolve sh = map (\<lambda>(addr, identity). (addr, IdS_LongFlipsToSolve identity)) (ShS_IdentitiesPerAddr sh)"

record ValidationResults =
  VR_BadAuthors :: "(address \<times> byte) list"
  VR_GoodAuthors :: "address \<rightharpoonup> bool"

text \<open>The row of a transaction; \<open>Data\<close> is the client type of short answers.\<close>

record DbTransaction =
  DT_Hash :: string
  DT_Type :: tx_type
  DT_From :: string
  DT_To :: string
  DT_Amount :: decimal
  DT_Tips :: decimal
  DT_MaxFee :: decimal
  DT_Fee :: decimal
  DT_Size :: nat
  DT_Raw :: string
  DT_Nonce :: uint32
  DT_UsedGas :: uint64
  DT_Data :: "byte option"

section \<open>Reward types\<close>

datatype RewardType = RtValidation | RtFlips | RtInvitations | RtFoundationPayouts
  | RtZeroWalletFund | RtInvitations2 | RtInvitations3 | RtSavedInvite | RtSavedInviteWin
  | RtReportedFlips | RtStaking | RtCandidate | RtExtraFlips | RtInvitee1 | RtInvitee2 | RtInvitee3

fun convertRewardType :: "RewardType \<Rightarrow> byte" where
  "convertRewardType RtValidation = 0"
| "convertRewardType RtFlips = 1"
| "convertRewardType RtInvitations = 2"
| "convertRewardType RtFoundationPayouts = 3"
| "convertRewardType RtZeroWalletFund = 4"
| "convertRewardType RtInvitations2 = 5"
| "convertRewardType RtInvitations3 = 6"
| "convertRewardType RtSavedInvite = 7"
| "convertRewardType RtSavedInviteWin = 8"
| "convertRewardType RtReportedFlips = 9"
| "convertRewardType RtStaking = 10"
| "convertRewardType RtCandidate = 11"
| "convertRewardType RtExtraFlips = 12"
| "convertRewardType RtInvitee1 = 13"
| "convertRewardType RtInvitee2 = 14"
| "convertRewardType RtInvitee3 = 15"

section \<open>Structs of the collector\<close>

record RewardStats =
  RS_Address :: address
  RS_Balance :: int
  RS_Stake :: int
  RS_Type :: RewardType

record EpochReward =
  ER_Balance :: int
  ER_Stake :: int

text \<open>\<open>DelegatorEpochRewards\<close> has the single field \<open>EpochRewards\<close>.\<close>

type_synonym DelegatorEpochRewards = "RewardType \<rightharpoonup> EpochReward"

record StatsDelegateeEpochRewards =
  SD_TotalRewards :: "RewardType \<rightharpoonup> EpochReward"
  SD_DelegatorsEpochRewards :: "address \<rightharpoonup> DelegatorEpochRewards"

record IdentityStateChange =
  ISC_PrevState :: identity_state
  ISC_NewState :: identity_state

record MiningReward =
  MR_Address :: address
  MR_Balance :: int
  MR_Stake :: int
  MR_StakeWeight :: bigfloat
  MR_Proposer :: bool

record Penalty =
  Pen_Seconds :: uint16
  Pen_InheritedFrom :: "address option"

text \<open>
  \<open>RewardsStats\<close>. Maps are finite maps, a nil map being the empty one (Go reads both alike);
  \<open>Rewards\<close> holds pointers into the session's store of reward objects.
\<close>

record RewardsStats =
  R_ValidationResults :: "uint32 \<rightharpoonup> ValidationResults"
  R_Total :: bigint
  R_Validation :: bigint
  R_Staking :: bigint
  R_Candidate :: bigint
  R_Flips :: bigint
  R_FlipsExtra :: bigint
  R_Reports :: bigint
  R_Invitations :: bigint
  R_FoundationPayouts :: bigint
  R_ZeroWalletFund :: bigint
  R_ValidationShare :: bigint
  R_StakingShare :: bigint
  R_CandidateShare :: bigint
  R_FlipsShare :: bigint
  R_FlipsExtraShare :: bigint
  R_ReportsShare :: bigint
  R_InvitationsShare :: bigint
  R_Rewards :: "ref list"
  R_DelegateesEpochRewards :: "address \<rightharpoonup> StatsDelegateeEpochRewards"
  R_AgesByAddress :: "string \<rightharpoonup> uint16"
  R_StakedAmountsByAddress :: "string \<rightharpoonup> int"
  R_FailedStakedAmountsByAddress :: "string \<rightharpoonup> int"
  R_RewardedFlipCids :: "string list"
  R_RewardedExtraFlipCids :: "string list"
  R_RewardedInvites :: "RewardedInvite list"
  R_RewardedInvitees :: "RewardedInvitee list"
  R_SavedInviteRewardsCount :: "address \<rightharpoonup> (RewardType \<rightharpoonup> byte)"
  R_ReportedFlipRewards :: "ReportedFlipReward list"
  R_TotalRewardsByAddr :: "address \<rightharpoonup> int"

definition emptyRewardsStats :: RewardsStats where
  "emptyRewardsStats = \<lparr>R_ValidationResults = Map.empty, R_Total = None, R_Validation = None,
     R_Staking = None, R_Candidate = None, R_Flips = None, R_FlipsExtra = None, R_Reports = None,
     R_Invitations = None, R_FoundationPayouts = None, R_ZeroWalletFund = None,
     R_ValidationShare = None, R_StakingShare = None, R_CandidateShare = None,
     R_FlipsShare = None, R_FlipsExtraShare = None, R_ReportsShare = None,
     R_InvitationsShare = None, R_Rewards = [], R_DelegateesEpochRewards = Map.empty,
     R_AgesByAddress = Map.empty, R_StakedAmountsByAddress = Map.empty,
     R_FailedStakedAmountsByAddress = Map.empty, R_RewardedFlipCids = [],
     R_RewardedExtraFlipCids = [], R_RewardedInvites = [], R_RewardedInvitees = [],
     R_SavedInviteRewardsCount = Map.empty, R_ReportedFlipRewards = [],
     R_TotalRewardsByAddr = Map.empty\<rparr>"

text \<open>
  \<open>contractBalanceUpdate\<close> embeds a pointer to a balance update; the two caches keep a list and an
  index by address of the same objects.
\<close>

record contractBalanceUpdate =
  CBU_BalanceUpdate :: ref
  CBU_contractAddress :: "address option"

record balanceUpdateCache =
  BUCa_updates :: "contractBalanceUpdate list"
  BUCa_updatesByAddress :: "address \<rightharpoonup> contractBalanceUpdate"

record pendingBurntCoins =
  PBC_address :: address
  PBC_amount :: int
  PBC_reason :: byte

record burntCoinsCache =
  BCC_coins :: "ref list"
  BCC_coinsByAddress :: "address \<rightharpoonup> ref"

record oracleVotingCommitteeStartCtx =
  OVCtx_committeeSize :: uint64
  OVCtx_networkSize :: int

text \<open>A \<open>balanceCachePtr\<close> is only compared: an opaque key.\<close>

type_synonym balanceCachePtr = nat

record pendingTx =
  T_tx :: Transaction
  T_contractBalanceUpdateCache :: "balanceCachePtr \<rightharpoonup> balanceUpdateCache"
  T_contractBalanceUpdates :: "contractBalanceUpdate list"
  T_contractBurntCoinsCache :: "balanceCachePtr \<rightharpoonup> burntCoinsCache"
  T_contractBurntCoins :: "ref list"
  T_oracleVotingContractDeploy :: "OracleVotingContract option"
  T_oracleVotingContractCallStart :: "OracleVotingContractCallStart option"
  T_oracleVotingCommitteeStartCtx :: "oracleVotingCommitteeStartCtx option"
  T_oracleVotingContractCallVoteProof :: "OracleVotingContractCallVoteProof option"
  T_oracleVotingContractCallVote :: "OracleVotingContractCallVote option"
  T_oracleVotingContractCallFinish :: "OracleVotingContractCallFinish option"
  T_oracleVotingContractCallProlongation :: "OracleVotingContractCallProlongation option"
  T_oracleVotingContractCallAddStake :: "OracleVotingContractCallAddStake option"
  T_oracleVotingContractTermination :: "OracleVotingContractTermination option"
  T_oracleLockContract :: "OracleLockContract option"
  T_oracleLockContractCallCheckOracleVoting :: "OracleLockContractCallCheckOracleVoting option"
  T_oracleLockContractCallPush :: "OracleLockContractCallPush option"
  T_oracleLockContractTermination :: "OracleLockContractTermination option"
  T_refundableOracleLockContract :: "RefundableOracleLockContract option"
  T_refundableOracleLockContractCallDeposit :: "RefundableOracleLockContractCallDeposit option"
  T_refundableOracleLockContractCallPush :: "RefundableOracleLockContractCallPush option"
  T_refundableOracleLockContractCallRefund :: "RefundableOracleLockContractCallRefund option"
  T_refundableOracleLockContractTermination :: "RefundableOracleLockContractTermination option"
  T_multisigContract :: "MultisigContract option"
  T_multisigContractCallAdd :: "MultisigContractCallAdd option"
  T_multisigContractCallSend :: "MultisigContractCallSend option"
  T_multisigContractCallPush :: "MultisigContractCallPush option"
  T_multisigContractTermination :: "MultisigContractTermination option"
  T_timeLockContract :: "TimeLockContract option"
  T_timeLockContractCallTransfer :: "TimeLockContractCallTransfer option"
  T_timeLockContractTermination :: "TimeLockContractTermination option"
  T_inviteTxHash :: "hash option"
  T_deployedWasmContracts :: "(address \<times> bytes) list"

record identityInfo =
  II_pubKey :: bytes
  II_state :: identity_state

record tokenBalanceUpdate =
  TBU_contractAddress :: address
  TBU_address :: address
  TBU_addressBytes :: bytes
  TBU_balance :: bigint

record tokenBalanceUpdateCollector =
  TBC_updates :: "ref list"
  TBC_byContractAndAddress :: "address \<rightharpoonup> (address \<rightharpoonup> ref)"
  TBC_store :: "tokenBalanceUpdate store"

record pending =
  P_epochRewardsByTypeAndAddr :: "RewardType \<rightharpoonup> (address \<rightharpoonup> ref)"
  P_balanceUpdates :: "ref list"
  P_balanceUpdatesByReasonAndAddr :: "byte \<rightharpoonup> (address \<rightharpoonup> ref)"
  P_identityStates :: "identity_state list"
  P_tx :: "pendingTx option"
  P_identitiesByAddr :: "(address \<times> identityInfo) list"
  P_finalCommitteeRewardsByAddr :: "address \<rightharpoonup> ref"
  P_linkedBalanceUpdatesByPrev :: "ref \<rightharpoonup> ref"
  P_linkedBalanceUpdatesByNext :: "ref \<rightharpoonup> ref"
  P_tokenBalanceUpdateCollector :: "tokenBalanceUpdateCollector option"

text \<open>\<open>Stats\<close>: the result of a block; the lists of contract rows are in the order of the struct.\<close>

record Stats =
  S_ValidationStats :: "ValidationStats option"
  S_MinScoreForInvite :: "float32 option"
  S_RewardsStats :: "RewardsStats option"
  S_MiningRewards :: "ref list"
  S_OriginalFinalCommittee :: "address set"
  S_PoolFinalCommittee :: "address set"
  S_ChargedPenaltySecondsByAddr :: "address \<rightharpoonup> Penalty"
  S_BurntCoins :: bigint
  S_BurntCoinsByAddr :: "address \<rightharpoonup> BurntCoins list"
  S_MintedCoins :: bigint
  S_BalanceUpdateAddrs :: "address set"
  S_ActivationTxTransfers :: "ActivationTxTransfer list"
  S_KillTxTransfers :: "KillTxTransfer list"
  S_KillInviteeTxTransfers :: "KillInviteeTxTransfer list"
  S_BalanceUpdates :: "ref list"
  S_CommitteeRewardShare :: bigint
  S_IdentityStateChanges :: "hash \<rightharpoonup> (address \<rightharpoonup> IdentityStateChange)"
  S_FeesByTxHash :: "hash \<rightharpoonup> bigint"
  S_UsedGasByTxHash :: "hash \<rightharpoonup> uint64"
  S_Contracts :: "WasmContract list"
  S_OracleVotingContracts :: "OracleVotingContract list"
  S_OracleVotingContractCallStarts :: "OracleVotingContractCallStart list"
  S_OracleVotingContractCallVoteProofs :: "OracleVotingContractCallVoteProof list"
  S_OracleVotingContractCallVotes :: "OracleVotingContractCallVote list"
  S_OracleVotingContractCallFinishes :: "OracleVotingContractCallFinish list"
  S_OracleVotingContractCallProlongations :: "OracleVotingContractCallProlongation list"
  S_OracleVotingContractCallAddStakes :: "OracleVotingContractCallAddStake list"
  S_OracleVotingContractTerminations :: "OracleVotingContractTermination list"
  S_NewActualOracleVotingContracts :: "address list"
  S_NewNotActualOracleVotingContracts :: "address list"
  S_OracleLockContracts :: "OracleLockContract list"
  S_OracleLockContractCallCheckOracleVotings :: "OracleLockContractCallCheckOracleVoting list"
  S_OracleLockContractCallPushes :: "OracleLockContractCallPush list"
  S_OracleLockContractTerminations :: "OracleLockContractTermination list"
  S_RefundableOracleLockContracts :: "RefundableOracleLockContract list"
  S_RefundableOracleLockContractCallDeposits :: "RefundableOracleLockContractCallDeposit list"
  S_RefundableOracleLockContractCallPushes :: "RefundableOracleLockContractCallPush list"
  S_RefundableOracleLockContractCallRefunds :: "RefundableOracleLockContractCallRefund list"
  S_RefundableOracleLockContractTerminations :: "RefundableOracleLockContractTermination list"
  S_MultisigContracts :: "MultisigContract list"
  S_MultisigContractCallAdds :: "MultisigContractCallAdd list"
  S_MultisigContractCallSends :: "MultisigContractCallSend list"
  S_MultisigContractCallPushes :: "MultisigContractCallPush list"
  S_MultisigContractTerminations :: "MultisigContractTermination list"
  S_TimeLockContracts :: "TimeLockContract list"
  S_TimeLockContractCallTransfers :: "TimeLockContractCallTransfer list"
  S_TimeLockContractTerminations :: "TimeLockContractTermination list"
  S_TxReceipts :: "TxReceipt list"
  S_ContractTxsBalanceUpdates :: "ContractTxBalanceUpdates list"
  S_ActivationTxs :: "ActivationTx list"
  S_RemovedTransitiveDelegations :: "RemovedTransitiveDelegation list"
  S_EpochSummaryUpdate :: EpochSummaryUpdate
  S_KilledInactiveIdentities :: "address set"
  S_BlockGasUsed :: uint64
  S_TokenBalanceUpdates :: "TokenBalance list"
  S_Tokens :: "DbToken list"
  S_DelegationHistoryUpdates :: "DelegationHistoryUpdate list"

end
