(* ===== verification/Collector_State.thy ===== *)
theory Collector_State
  imports Stats_Types
begin

text \<open>
  The collector itself (\<open>statsCollector\<close> of \<open>src/core/stats/collector.go\<close>) and its life cycle.
  A \<open>session\<close> is what exists between \<open>EnableCollecting\<close> and \<open>CompleteCollecting\<close>: the \<open>Stats\<close>
  and \<open>pending\<close> structs and the objects their pointers lead to. Every other operation of the
  collector is called on a session (on a collector without one it dereferences nil).
\<close>

record session =
  stats :: Stats
  pending :: pending
  rewardStore :: "RewardStats store"
  miningStore :: "MiningReward store"
  updateStore :: "BalanceUpdate store"
  burntStore :: "pendingBurntCoins store"

text \<open>What the collector reads of \<open>config.ConsensusConf\<close>.\<close>

record ConsensusConf =
  EnableUpgrade10 :: bool
  EnableUpgrade11 :: bool

record statsCollector =
  SC_session :: "session option"
  SC_statsEnabled :: bool

definition emptyStats :: Stats where
  "emptyStats = \<lparr>S_ValidationStats = None, S_MinScoreForInvite = None, S_RewardsStats = None,
     S_MiningRewards = [], S_OriginalFinalCommittee = {}, S_PoolFinalCommittee = {},
     S_ChargedPenaltySecondsByAddr = Map.empty, S_BurntCoins = None,
     S_BurntCoinsByAddr = Map.empty, S_MintedCoins = None, S_BalanceUpdateAddrs = {},
     S_ActivationTxTransfers = [], S_KillTxTransfers = [], S_KillInviteeTxTransfers = [],
     S_BalanceUpdates = [], S_CommitteeRewardShare = None, S_IdentityStateChanges = Map.empty,
     S_FeesByTxHash = Map.empty, S_UsedGasByTxHash = Map.empty, S_Contracts = [],
     S_OracleVotingContracts = [], S_OracleVotingContractCallStarts = [],
     S_OracleVotingContractCallVoteProofs = [], S_OracleVotingContractCallVotes = [],
     S_OracleVotingContractCallFinishes = [], S_OracleVotingContractCallProlongations = [],
     S_OracleVotingContractCallAddStakes = [], S_OracleVotingContractTerminations = [],
     S_NewActualOracleVotingContracts = [], S_NewNotActualOracleVotingContracts = [],
     S_OracleLockContracts = [], S_OracleLockContractCallCheckOracleVotings = [],
     S_OracleLockContractCallPushes = [], S_OracleLockContractTerminations = [],
     S_RefundableOracleLockContracts = [], S_RefundableOracleLockContractCallDeposits = [],
     S_RefundableOracleLockContractCallPushes = [], S_RefundableOracleLockContractCallRefunds = [],
     S_RefundableOracleLockContractTerminations = [], S_MultisigContracts = [],
     S_MultisigContractCallAdds = [], S_MultisigContractCallSends = [],
     S_MultisigContractCallPushes = [], S_MultisigContractTerminations = [],
     S_TimeLockContracts = [], S_TimeLockContractCallTransfers = [],
     S_TimeLockContractTerminations = [], S_TxReceipts = [], S_ContractTxsBalanceUpdates = [],
     S_ActivationTxs = [], S_RemovedTransitiveDelegations = [],
     S_EpochSummaryUpdate = \<lparr>ESU_CandidateCountDiff = 0\<rparr>, S_KilledInactiveIdentities = {},
     S_BlockGasUsed = 0, S_TokenBalanceUpdates = [], S_Tokens = [],
     S_DelegationHistoryUpdates = []\<rparr>"

definition emptyPending :: pending where
  "emptyPending = \<lparr>P_epochRewardsByTypeAndAddr = Map.empty, P_balanceUpdates = [],
     P_balanceUpdatesByReasonAndAddr = Map.empty, P_identityStates = [], P_tx = None,
     P_identitiesByAddr = [], P_finalCommitteeRewardsByAddr = Map.empty,
     P_linkedBalanceUpdatesByPrev = Map.empty, P_linkedBalanceUpdatesByNext = Map.empty,
     P_tokenBalanceUpdateCollector = None\<rparr>"

definition emptySession :: session where
  "emptySession = \<lparr>stats = emptyStats, pending = emptyPending, rewardStore = [],
     miningStore = [], updateStore = [], burntStore = []\<rparr>"

definition NewStatsCollector :: statsCollector where
  "NewStatsCollector = \<lparr>SC_session = None, SC_statsEnabled = False\<rparr>"

definition EnableCollecting :: "statsCollector \<Rightarrow> statsCollector" where
  "EnableCollecting c = c\<lparr>SC_session := Some emptySession\<rparr>"

definition CompleteCollecting :: "statsCollector \<Rightarrow> statsCollector" where
  "CompleteCollecting c = c\<lparr>SC_session := None\<rparr>"

definition Disable :: "statsCollector \<Rightarrow> statsCollector" where
  "Disable c = c\<lparr>SC_statsEnabled := False\<rparr>"

definition Enable :: "statsCollector \<Rightarrow> statsCollector" where
  "Enable c = c\<lparr>SC_statsEnabled := True\<rparr>"

text \<open>\<open>GetStats\<close> returns nil outside a session, the empty \<open>Stats\<close> when disabled.\<close>

definition GetStats :: "statsCollector \<Rightarrow> Stats option" where
  "GetStats c = (if \<not> SC_statsEnabled c then Some emptyStats else map_option stats (SC_session c))"

text \<open>An operation of the collector runs on its session and panics when there is none.\<close>

definition on_session :: "(session \<Rightarrow> session option) \<Rightarrow> statsCollector \<Rightarrow> statsCollector option" where
  "on_session f c = (case SC_session c of None \<Rightarrow> None
     | Some s \<Rightarrow> map_option (\<lambda>s'. c\<lparr>SC_session := Some s'\<rparr>) (f s))"

text \<open>Plain setters of \<open>Stats\<close>.\<close>

definition SetValidation :: "ValidationStats option \<Rightarrow> session \<Rightarrow> session" where
  "SetValidation v s = s\<lparr>stats := (stats s)\<lparr>S_ValidationStats := v\<rparr>\<rparr>"

definition SetMinScoreForInvite :: "float32 \<Rightarrow> session \<Rightarrow> session" where
  "SetMinScoreForInvite v s = s\<lparr>stats := (stats s)\<lparr>S_MinScoreForInvite := Some v\<rparr>\<rparr>"

definition SetCommitteeRewardShare :: "bigint \<Rightarrow> session \<Rightarrow> session" where
  "SetCommitteeRewardShare v s = s\<lparr>stats := (stats s)\<lparr>S_CommitteeRewardShare := v\<rparr>\<rparr>"

definition AddBlockGas :: "uint64 \<Rightarrow> session \<Rightarrow> session" where
  "AddBlockGas g s = s\<lparr>stats := (stats s)\<lparr>S_BlockGasUsed := g\<rparr>\<rparr>"

definition AddTxGas :: "Transaction \<Rightarrow> uint64 \<Rightarrow> session \<Rightarrow> session" where
  "AddTxGas tx g s = s\<lparr>stats := (stats s)\<lparr>S_UsedGasByTxHash :=
     (S_UsedGasByTxHash (stats s))(Tx_Hash tx \<mapsto> g)\<rparr>\<rparr>"

definition AddRemovedTransitiveDelegation :: "address \<Rightarrow> address \<Rightarrow> session \<Rightarrow> session" where
  "AddRemovedTransitiveDelegation delegator delegatee s = s\<lparr>stats := (stats s)
     \<lparr>S_RemovedTransitiveDelegations := S_RemovedTransitiveDelegations (stats s) @
        [\<lparr>RTD_Delegator = delegator, RTD_Delegatee = delegatee\<rparr>]\<rparr>\<rparr>"

end
