(* ===== verification/Merge_Index.thy ===== *)
theory Merge_Index
  imports Prelude
begin

text \<open>
  The pattern the collector uses again and again: a list of pointers to objects, appended to in
  the order the objects appear, together with a map from a key to the object of that key, so that
  a later item of the same key is merged into the first instead of being appended. \<open>key x = None\<close>
  means that objects like \<open>x\<close> are never merged. The theory states when list, map and store agree,
  and how sums over the listed objects change when an object is appended or updated.
\<close>

definition wf_index :: "('a \<Rightarrow> 'k option) \<Rightarrow> ref list \<Rightarrow> ('k \<Rightarrow> ref option) \<Rightarrow> 'a store \<Rightarrow> bool" where
  "wf_index key rs ix st \<longleftrightarrow> distinct rs \<and> (\<forall>r \<in> set rs. deref st r \<noteq> None)
     \<and> (\<forall>k r. ix k = Some r \<longrightarrow> r \<in> set rs \<and> (\<exists>x. deref st r = Some x \<and> key x = Some k))
     \<and> (\<forall>r \<in> set rs. \<forall>x k. deref st r = Some x \<longrightarrow> key x = Some k \<longrightarrow> ix k = Some r)"

definition total :: "('a \<Rightarrow> 'b :: ab_group_add) \<Rightarrow> 'a store \<Rightarrow> ref list \<Rightarrow> 'b" where
  "total v st rs = sum_list (map (\<lambda>r. case deref st r of None \<Rightarrow> 0 | Some x \<Rightarrow> v x) rs)"

section \<open>The index\<close>

lemma wf_indexD:
  assumes "wf_index key rs ix st"
  shows "distinct rs"
    and "r \<in> set rs \<Longrightarrow> \<exists>x. deref st r = Some x"
    and "ix k = Some r \<Longrightarrow> r \<in> set rs"
    and "ix k = Some r \<Longrightarrow> \<exists>x. deref st r = Some x \<and> key x = Some k"
    and "r \<in> set rs \<Longrightarrow> deref st r = Some x \<Longrightarrow> key x = Some k \<Longrightarrow> ix k = Some r"
  using assms unfolding wf_index_def by blast+

lemma wf_index_empty: "wf_index key [] (\<lambda>_. None) st"
  by (simp add: wf_index_def)

lemma wf_index_fresh: "wf_index key rs ix st \<Longrightarrow> fresh st \<notin> set rs"
  using deref_fresh [of st] by (force dest: wf_indexD(2))

text \<open>No two listed objects have the same key.\<close>

lemma wf_index_unique:
  assumes "wf_index key rs ix st" "p \<in> set rs" "deref st p = Some x" "q \<in> set rs" "deref st q = Some y"
    "key x = Some k" "key y = Some k"
  shows "p = q"
  using wf_indexD(5) [OF assms(1,2,3,6)] wf_indexD(5) [OF assms(1,4,5,7)] by simp

lemma wf_index_cong:
  assumes wf: "wf_index key rs ix st"
    and keep: "\<And>r x. r \<in> set rs \<Longrightarrow> deref st r = Some x \<Longrightarrow> \<exists>y. deref st' r = Some y \<and> key y = key x"
  shows "wf_index key rs ix st'"
  unfolding wf_index_def
proof (intro conjI ballI allI impI)
  show "distinct rs" by (rule wf_indexD(1) [OF wf])
  {
    fix r assume "r \<in> set rs"
    then show "deref st' r \<noteq> None" using wf_indexD(2) [OF wf] keep by fastforce
  }
  {
    fix k r assume r: "ix k = Some r"
    then show "r \<in> set rs" by (rule wf_indexD(3) [OF wf])
    then show "\<exists>x. deref st' r = Some x \<and> key x = Some k"
      using wf_indexD(4) [OF wf r] keep by fastforce
  }
  {
    fix r y k assume r: "r \<in> set rs" "deref st' r = Some y" "key y = Some k"
    then obtain x where "deref st r = Some x" using wf_indexD(2) [OF wf] by blast
    then show "ix k = Some r" using keep [of r x] r wf_indexD(5) [OF wf, of r x k] by auto
  }
qed

lemma wf_index_alloc: "wf_index key rs ix st \<Longrightarrow> wf_index key rs ix (alloc x st)"
  by (rule wf_index_cong) (auto simp: ref_simps dest: deref_Some_less)

lemma wf_index_modify:
  assumes "wf_index key rs ix st" "\<And>x. key (f x) = key x"
  shows "wf_index key rs ix (modify q f st)"
  by (rule wf_index_cong [OF assms(1)]) (auto simp: ref_simps assms(2))

text \<open>Listing an object that is in the store already, and listing a new one.\<close>

lemma wf_index_add:
  assumes wf: "wf_index key rs ix st" and r: "deref st p = Some x" "p \<notin> set rs"
    and n: "\<And>k. key x = Some k \<Longrightarrow> ix k = None"
    and ix': "\<And>k. ix' k = (if key x = Some k then Some p else ix k)"
  shows "wf_index key (rs @ [p]) ix' st"
  unfolding wf_index_def
proof (intro conjI ballI allI impI)
  show "distinct (rs @ [p])" using wf_indexD(1) [OF wf] r by simp
  {
    fix k q assume q: "ix' k = Some q"
    then show "q \<in> set (rs @ [p])"
      by (auto simp: ix' split: if_splits dest: wf_indexD(3) [OF wf])
    show "\<exists>y. deref st q = Some y \<and> key y = Some k"
      using q r wf_indexD(4) [OF wf, of k q] by (auto simp: ix' split: if_splits)
  }
  {
    fix q assume "q \<in> set (rs @ [p])"
    then show "deref st q \<noteq> None" using r by (auto dest: wf_indexD(2) [OF wf])
  }
  {
    fix q y k assume q: "q \<in> set (rs @ [p])" "deref st q = Some y" "key y = Some k"
    show "ix' k = Some q"
    proof (cases "q = p")
      case True
      with q r show ?thesis by (auto simp: ix')
    next
      case False
      with q have "ix k = Some q" using wf_indexD(5) [OF wf, of q y k] by auto
      with n show ?thesis by (auto simp: ix')
    qed
  }
qed

lemma wf_index_append:
  assumes "wf_index key rs ix st" and "\<And>k. key x = Some k \<Longrightarrow> ix k = None"
    and "\<And>k. ix' k = (if key x = Some k then Some (fresh st) else ix k)"
  shows "wf_index key (rs @ [fresh st]) ix' (alloc x st)"
  by (rule wf_index_add [OF wf_index_alloc [OF assms(1)]])
    (use wf_index_fresh [OF assms(1)] assms(2,3) in \<open>auto simp: ref_simps\<close>)

section \<open>Sums over the listed objects\<close>

lemma total_Nil [simp]: "total v st [] = 0"
  by (simp add: total_def)

lemma total_same:
  "(\<And>r. r \<in> set rs \<Longrightarrow> map_option v (deref st' r) = map_option v (deref st r)) \<Longrightarrow>
     total v st' rs = total v st rs"
  unfolding total_def by (rule sum_list_map_cong_le) (fastforce split: option.splits)

lemma total_alloc: "fresh st \<notin> set rs \<Longrightarrow> total v (alloc x st) rs = total v st rs"
  by (rule total_same) (auto simp: ref_simps)

lemma total_append:
  "fresh st \<notin> set rs \<Longrightarrow> total v (alloc x st) (rs @ [fresh st]) = total v st rs + v x"
  using total_alloc [of st rs v x] by (simp add: total_def ref_simps)

lemma total_modify_other: "q \<notin> set rs \<Longrightarrow> total v (modify q f st) rs = total v st rs"
  by (rule total_same) (auto simp: ref_simps)

lemma total_modify:
  assumes "distinct rs" "q \<in> set rs" "deref st q = Some x"
  shows "total v (modify q f st) rs = total v st rs + (v (f x) - v x)"
  using sum_list_map_change_one [OF assms(1,2), where f = "\<lambda>r. case deref st r of None \<Rightarrow> 0 | Some x \<Rightarrow> v x"
      and g = "\<lambda>r. case deref (modify q f st) r of None \<Rightarrow> 0 | Some x \<Rightarrow> v x"]
  by (simp add: total_def ref_simps assms(3))

end
