(* ===== verification/Coin_Collector.thy ===== *)
theory Coin_Collector
  imports Collector_State Merge_Index
begin

text \<open>
  Mining rewards, penalties, minted and burnt coins and stake transfers in the collector
  (\<open>src/core/stats/collector.go\<close>). The lemmas show that the mining rewards of a block add up, that
  a committee member has one reward object, and that the burnt total is the sum of the burnt rows.
\<close>

section \<open>Mining rewards\<close>

text \<open>\<open>addMiningReward\<close> returns the new object, or nil when there is nothing to reward.\<close>

definition addMiningReward ::
  "ext \<Rightarrow> address \<Rightarrow> bigint \<Rightarrow> bigint \<Rightarrow> bigfloat option \<Rightarrow> bool \<Rightarrow> session \<Rightarrow> session \<times> ref option" where
  "addMiningReward e addr balance stake stakeWeight isProposerReward s =
     (if zeroIfNil balance = 0 \<and> zeroIfNil stake = 0 then (s, None)
      else let weight = (case stakeWeight of None \<Rightarrow> 0 | Some w \<Rightarrow> w);
               p = fresh (miningStore s);
               res = \<lparr>MR_Address = addr, MR_Balance = zeroIfNil balance, MR_Stake = zeroIfNil stake,
                      MR_StakeWeight = X_bfRound e weight, MR_Proposer = isProposerReward\<rparr>
           in (s\<lparr>miningStore := alloc res (miningStore s),
                 stats := (stats s)\<lparr>S_MiningRewards := S_MiningRewards (stats s) @ [p]\<rparr>\<rparr>, Some p))"

definition AddProposerReward ::
  "ext \<Rightarrow> address \<Rightarrow> address \<Rightarrow> bigint \<Rightarrow> bigint \<Rightarrow> bigfloat option \<Rightarrow> session \<Rightarrow> session" where
  "AddProposerReward e balanceDest stakeDest balance stake stakeWeight s =
     (if balanceDest = stakeDest
      then fst (addMiningReward e balanceDest balance stake stakeWeight True s)
      else fst (addMiningReward e stakeDest (Some 0) stake stakeWeight True
             (fst (addMiningReward e balanceDest balance (Some 0) stakeWeight True s))))"

definition addFinalCommitteeReward ::
  "ext \<Rightarrow> address \<Rightarrow> int \<Rightarrow> int \<Rightarrow> bigfloat \<Rightarrow> session \<Rightarrow> session" where
  "addFinalCommitteeReward e addr balance stake stakeWeight s =
     (case P_finalCommitteeRewardsByAddr (pending s) addr of
        Some p \<Rightarrow> s\<lparr>miningStore := modify p (\<lambda>r. r\<lparr>MR_Balance := MR_Balance r + balance,
            MR_Stake := MR_Stake r + stake,
            MR_StakeWeight := X_bfRound e (MR_StakeWeight r + stakeWeight)\<rparr>) (miningStore s)\<rparr>
      | None \<Rightarrow> (case addMiningReward e addr (Some balance) (Some stake) (Some stakeWeight) False s of
            (s', Some p) \<Rightarrow> s'\<lparr>pending := (pending s')\<lparr>P_finalCommitteeRewardsByAddr :=
                (P_finalCommitteeRewardsByAddr (pending s'))(addr \<mapsto> p)\<rparr>\<rparr>
          | (s', None) \<Rightarrow> s'))"

definition AddFinalCommitteeReward ::
  "ext \<Rightarrow> address \<Rightarrow> address \<Rightarrow> bigint \<Rightarrow> bigint \<Rightarrow> bigfloat option \<Rightarrow> session \<Rightarrow> session" where
  "AddFinalCommitteeReward e balanceDest stakeDest balance stake stakeWeight s =
     (let weight = (case stakeWeight of None \<Rightarrow> 0 | Some w \<Rightarrow> w);
          s1 = (if zeroIfNil balance \<noteq> 0 \<or> zeroIfNil stake \<noteq> 0
                then if balanceDest = stakeDest
                     then addFinalCommitteeReward e balanceDest (zeroIfNil balance) (zeroIfNil stake) weight s
                     else addFinalCommitteeReward e stakeDest 0 (zeroIfNil stake) weight
                            (addFinalCommitteeReward e balanceDest (zeroIfNil balance) 0 weight s)
                else s)
      in s1\<lparr>stats := (stats s1)\<lparr>
            S_OriginalFinalCommittee := insert stakeDest (S_OriginalFinalCommittee (stats s1)),
            S_PoolFinalCommittee := insert balanceDest (S_PoolFinalCommittee (stats s1))\<rparr>\<rparr>)"

section \<open>Penalties\<close>

definition addChargedPenaltySeconds :: "address \<Rightarrow> uint16 \<Rightarrow> address option \<Rightarrow> session \<Rightarrow> session" where
  "addChargedPenaltySeconds addr v inheritedFrom s =
     (if v = 0 then s
      else s\<lparr>stats := (stats s)\<lparr>S_ChargedPenaltySecondsByAddr := (S_ChargedPenaltySecondsByAddr (stats s))
             (addr \<mapsto> \<lparr>Pen_Seconds = v, Pen_InheritedFrom = inheritedFrom\<rparr>)\<rparr>\<rparr>)"

definition BeforeSetPenalty :: "address \<Rightarrow> uint16 \<Rightarrow> address option \<Rightarrow> session \<Rightarrow> session" where
  "BeforeSetPenalty addr seconds inheritedFrom s = addChargedPenaltySeconds addr seconds inheritedFrom s"

section \<open>Minted and burnt coins\<close>

definition AddMintedCoins :: "bigint \<Rightarrow> session \<Rightarrow> session" where
  "AddMintedCoins amount s =
     (case amount of None \<Rightarrow> s
      | Some v \<Rightarrow> s\<lparr>stats := (stats s)\<lparr>S_MintedCoins :=
           Some (zeroIfNil (S_MintedCoins (stats s)) + v)\<rparr>\<rparr>)"

definition burntRows :: "session \<Rightarrow> address \<Rightarrow> BurntCoins list" where
  "burntRows s a = (case S_BurntCoinsByAddr (stats s) a of None \<Rightarrow> [] | Some rows \<Rightarrow> rows)"

definition addBurntCoins ::
  "ext \<Rightarrow> address \<Rightarrow> bigint \<Rightarrow> byte \<Rightarrow> Transaction option \<Rightarrow> session \<Rightarrow> session" where
  "addBurntCoins e addr amount reason tx s =
     (if zeroOrNil amount then s
      else let txHash = (case tx of None \<Rightarrow> [] | Some t \<Rightarrow> X_hashHex e (Tx_Hash t));
               row = \<lparr>BC_Amount = X_convertToFloat e amount, BC_Reason = reason, BC_TxHash = txHash\<rparr>
           in s\<lparr>stats := (stats s)\<lparr>
                S_BurntCoins := Some (zeroIfNil (S_BurntCoins (stats s)) + zeroIfNil amount),
                S_BurntCoinsByAddr := (S_BurntCoinsByAddr (stats s))(addr \<mapsto> burntRows s addr @ [row])\<rparr>\<rparr>)"

definition AddPenaltyBurntCoins :: "ext \<Rightarrow> address \<Rightarrow> bigint \<Rightarrow> session \<Rightarrow> session" where
  "AddPenaltyBurntCoins e addr amount s = addBurntCoins e addr amount PenaltyBurntCoins None s"

definition AddInviteBurntCoins :: "ext \<Rightarrow> address \<Rightarrow> bigint \<Rightarrow> Transaction option \<Rightarrow> session \<Rightarrow> session" where
  "AddInviteBurntCoins e addr amount tx s = addBurntCoins e addr amount InviteBurntCoins tx s"

definition AddFeeBurntCoins ::
  "ext \<Rightarrow> address \<Rightarrow> bigint \<Rightarrow> float32 \<Rightarrow> Transaction option \<Rightarrow> session \<Rightarrow> session" where
  "AddFeeBurntCoins e addr feeAmount burntRate tx s =
     (if zeroOrNil feeAmount then s
      else addBurntCoins e addr
             (Some (X_toInt e (of_int (zeroIfNil feeAmount) * X_fromFloat32 e burntRate))) FeeBurntCoins tx s)"

definition AddKilledBurntCoins :: "ext \<Rightarrow> address \<Rightarrow> bigint \<Rightarrow> session \<Rightarrow> session" where
  "AddKilledBurntCoins e addr amount s =
     addBurntCoins e addr amount KilledBurntCoins (map_option T_tx (P_tx (pending s))) s"

text \<open>\<open>tx.AmountOrZero()\<close>.\<close>

definition AddBurnTxBurntCoins :: "ext \<Rightarrow> address \<Rightarrow> Transaction \<Rightarrow> session \<Rightarrow> session" where
  "AddBurnTxBurntCoins e addr tx s =
     addBurntCoins e addr (Some (zeroIfNil (Tx_Amount tx))) BurnTxBurntCoins (Some tx) s"

definition AfterAddStake :: "ext \<Rightarrow> address \<Rightarrow> bigint \<Rightarrow> app_state \<Rightarrow> session \<Rightarrow> session" where
  "AfterAddStake e addr amount appState s =
     (if AS_GetIdentityState appState addr = Killed
      then addBurntCoins e addr amount KilledBurntCoins None s else s)"

section \<open>Transfers by identity transactions\<close>

text \<open>The outer None: \<open>*tx.To\<close> of a transaction without recipient.\<close>

definition AddActivationTxBalanceTransfer :: "ext \<Rightarrow> Transaction \<Rightarrow> bigint \<Rightarrow> session \<Rightarrow> session option" where
  "AddActivationTxBalanceTransfer e tx amount s =
     (case Tx_To tx of None \<Rightarrow> None
      | Some to' \<Rightarrow> Some (if Tx_Sender tx = to' \<or> zeroOrNil amount then s
          else s\<lparr>stats := (stats s)\<lparr>S_ActivationTxTransfers := S_ActivationTxTransfers (stats s) @
                 [\<lparr>ATT_TxHash = ConvertHash e (Tx_Hash tx), ATT_BalanceTransfer = X_convertToFloat e amount\<rparr>]\<rparr>\<rparr>))"

definition AddKillTxStakeTransfer :: "ext \<Rightarrow> Transaction \<Rightarrow> bigint \<Rightarrow> session \<Rightarrow> session" where
  "AddKillTxStakeTransfer e tx amount s =
     (if zeroOrNil amount then s
      else s\<lparr>stats := (stats s)\<lparr>S_KillTxTransfers := S_KillTxTransfers (stats s) @
             [\<lparr>KTT_TxHash = ConvertHash e (Tx_Hash tx), KTT_StakeTransfer = X_convertToFloat e amount\<rparr>]\<rparr>\<rparr>)"

definition AddKillInviteeTxStakeTransfer ::
  "ext \<Rightarrow> Transaction \<Rightarrow> bigint \<Rightarrow> bigint \<Rightarrow> session \<Rightarrow> session option" where
  "AddKillInviteeTxStakeTransfer e tx stake stakeToTransfer s =
     (let s1 = (if zeroOrNil stakeToTransfer then s
                else s\<lparr>stats := (stats s)\<lparr>S_KillInviteeTxTransfers := S_KillInviteeTxTransfers (stats s) @
                  [\<lparr>KITT_TxHash = ConvertHash e (Tx_Hash tx),
                    KITT_StakeTransfer = X_convertToFloat e stakeToTransfer\<rparr>]\<rparr>\<rparr>)
      in if \<not> zeroOrNil stake \<and> \<not> zeroOrNil stakeToTransfer \<and> zeroIfNil stakeToTransfer < zeroIfNil stake
         then case Tx_To tx of None \<Rightarrow> None
           | Some to' \<Rightarrow> Some (AddKilledBurntCoins e to'
               (Some (zeroIfNil stake - zeroIfNil stakeToTransfer)) s1)
         else Some s1)"

section \<open>Mining rewards add up\<close>

datatype mining_call =
    CallProposer address address bigint bigint "bigfloat option"
  | CallFinalCommittee address address bigint bigint "bigfloat option"

fun mining_step :: "ext \<Rightarrow> mining_call \<Rightarrow> session \<Rightarrow> session" where
  "mining_step e (CallProposer bd sd b st w) s = AddProposerReward e bd sd b st w s"
| "mining_step e (CallFinalCommittee bd sd b st w) s = AddFinalCommitteeReward e bd sd b st w s"

fun paidBalance :: "mining_call \<Rightarrow> address \<Rightarrow> int" where
  "paidBalance (CallProposer bd sd b st w) a = (if a = bd then zeroIfNil b else 0)"
| "paidBalance (CallFinalCommittee bd sd b st w) a = (if a = bd then zeroIfNil b else 0)"

fun paidStake :: "mining_call \<Rightarrow> address \<Rightarrow> int" where
  "paidStake (CallProposer bd sd b st w) a = (if a = sd then zeroIfNil st else 0)"
| "paidStake (CallFinalCommittee bd sd b st w) a = (if a = sd then zeroIfNil st else 0)"

definition mining_key :: "MiningReward \<Rightarrow> address option" where
  "mining_key x = (if MR_Proposer x then None else Some (MR_Address x))"

definition mining_wf :: "session \<Rightarrow> bool" where
  "mining_wf s \<longleftrightarrow> wf_index mining_key (S_MiningRewards (stats s))
     (P_finalCommitteeRewardsByAddr (pending s)) (miningStore s)"

definition balance_of :: "address \<Rightarrow> MiningReward \<Rightarrow> int" where
  "balance_of a x = (if MR_Address x = a then MR_Balance x else 0)"

definition stake_of :: "address \<Rightarrow> MiningReward \<Rightarrow> int" where
  "stake_of a x = (if MR_Address x = a then MR_Stake x else 0)"

definition minedBalance :: "session \<Rightarrow> address \<Rightarrow> int" where
  "minedBalance s a = total (balance_of a) (miningStore s) (S_MiningRewards (stats s))"

definition minedStake :: "session \<Rightarrow> address \<Rightarrow> int" where
  "minedStake s a = total (stake_of a) (miningStore s) (S_MiningRewards (stats s))"

lemma proposer_reward:
  assumes wf: "mining_wf s"
  shows "mining_wf (fst (addMiningReward e addr b st w True s))"
    and "minedBalance (fst (addMiningReward e addr b st w True s)) a =
           minedBalance s a + (if a = addr then zeroIfNil b else 0)"
    and "minedStake (fst (addMiningReward e addr b st w True s)) a =
           minedStake s a + (if a = addr then zeroIfNil st else 0)"
proof -
  note ix = wf [unfolded mining_wf_def]
  have f: "fresh (miningStore s) \<notin> set (S_MiningRewards (stats s))" by (rule wf_index_fresh [OF ix])
  show "mining_wf (fst (addMiningReward e addr b st w True s))"
    using wf_index_append [OF ix, of "\<lparr>MR_Address = addr, MR_Balance = zeroIfNil b, MR_Stake = zeroIfNil st,
        MR_StakeWeight = X_bfRound e (case w of None \<Rightarrow> 0 | Some w \<Rightarrow> w), MR_Proposer = True\<rparr>"
        "P_finalCommitteeRewardsByAddr (pending s)"] wf
    by (simp add: addMiningReward_def Let_def mining_wf_def mining_key_def)
  show "minedBalance (fst (addMiningReward e addr b st w True s)) a =
           minedBalance s a + (if a = addr then zeroIfNil b else 0)"
    by (simp add: addMiningReward_def Let_def minedBalance_def total_append [OF f] balance_of_def)
  show "minedStake (fst (addMiningReward e addr b st w True s)) a =
           minedStake s a + (if a = addr then zeroIfNil st else 0)"
    by (simp add: addMiningReward_def Let_def minedStake_def total_append [OF f] stake_of_def)
qed

lemma committee_reward_new:
  assumes wf: "mining_wf s" and none: "P_finalCommitteeRewardsByAddr (pending s) addr = None"
  shows "mining_wf (addFinalCommitteeReward e addr b st w s)"
    and "minedBalance (addFinalCommitteeReward e addr b st w s) a =
           minedBalance s a + (if a = addr then b else 0)"
    and "minedStake (addFinalCommitteeReward e addr b st w s) a =
           minedStake s a + (if a = addr then st else 0)"
proof -
  note ix = wf [unfolded mining_wf_def]
  have f: "fresh (miningStore s) \<notin> set (S_MiningRewards (stats s))" by (rule wf_index_fresh [OF ix])
  show "mining_wf (addFinalCommitteeReward e addr b st w s)"
    using wf_index_append [OF ix, of "\<lparr>MR_Address = addr, MR_Balance = b, MR_Stake = st,
        MR_StakeWeight = X_bfRound e w, MR_Proposer = False\<rparr>"
        "(P_finalCommitteeRewardsByAddr (pending s))(addr \<mapsto> fresh (miningStore s))"] wf none
    by (auto simp: addFinalCommitteeReward_def addMiningReward_def Let_def mining_wf_def mining_key_def)
  show "minedBalance (addFinalCommitteeReward e addr b st w s) a =
           minedBalance s a + (if a = addr then b else 0)"
    using none by (simp add: addFinalCommitteeReward_def addMiningReward_def Let_def minedBalance_def
        total_append [OF f] balance_of_def)
  show "minedStake (addFinalCommitteeReward e addr b st w s) a =
           minedStake s a + (if a = addr then st else 0)"
    using none by (simp add: addFinalCommitteeReward_def addMiningReward_def Let_def minedStake_def
        total_append [OF f] stake_of_def)
qed

lemma committee_reward_merge:
  assumes wf: "mining_wf s" and p: "P_finalCommitteeRewardsByAddr (pending s) addr = Some p"
  shows "mining_wf (addFinalCommitteeReward e addr b st w s)"
    and "minedBalance (addFinalCommitteeReward e addr b st w s) a =
           minedBalance s a + (if a = addr then b else 0)"
    and "minedStake (addFinalCommitteeReward e addr b st w s) a =
           minedStake s a + (if a = addr then st else 0)"
proof -
  note ix = wf [unfolded mining_wf_def]
  obtain x where x: "deref (miningStore s) p = Some x" "MR_Address x = addr"
    using wf_indexD(4) [OF ix p] by (auto simp: mining_key_def split: if_splits)
  note mod = total_modify [OF wf_indexD(1) [OF ix] wf_indexD(3) [OF ix p] x(1)]
  show "mining_wf (addFinalCommitteeReward e addr b st w s)"
    using p ix by (auto simp: addFinalCommitteeReward_def mining_wf_def mining_key_def
        intro!: wf_index_modify)
  show "minedBalance (addFinalCommitteeReward e addr b st w s) a =
           minedBalance s a + (if a = addr then b else 0)"
    using p x(2) by (simp add: addFinalCommitteeReward_def minedBalance_def mod balance_of_def)
  show "minedStake (addFinalCommitteeReward e addr b st w s) a =
           minedStake s a + (if a = addr then st else 0)"
    using p x(2) by (simp add: addFinalCommitteeReward_def minedStake_def mod stake_of_def)
qed

lemma committee_reward:
  assumes "mining_wf s"
  shows "mining_wf (addFinalCommitteeReward e addr b st w s)"
    and "minedBalance (addFinalCommitteeReward e addr b st w s) a =
           minedBalance s a + (if a = addr then b else 0)"
    and "minedStake (addFinalCommitteeReward e addr b st w s) a =
           minedStake s a + (if a = addr then st else 0)"
  by (cases "P_finalCommitteeRewardsByAddr (pending s) addr";
      simp add: committee_reward_new [OF assms] committee_reward_merge [OF assms])+

text \<open>The committee sets are outside the views.\<close>

lemma mining_views_frame [simp]:
  "mining_wf (s\<lparr>stats := (stats s)\<lparr>S_OriginalFinalCommittee := A, S_PoolFinalCommittee := B\<rparr>\<rparr>) = mining_wf s"
  "minedBalance (s\<lparr>stats := (stats s)\<lparr>S_OriginalFinalCommittee := A, S_PoolFinalCommittee := B\<rparr>\<rparr>) = minedBalance s"
  "minedStake (s\<lparr>stats := (stats s)\<lparr>S_OriginalFinalCommittee := A, S_PoolFinalCommittee := B\<rparr>\<rparr>) = minedStake s"
  by (simp_all add: mining_wf_def minedBalance_def [abs_def] minedStake_def [abs_def])

lemma mining_step_views:
  assumes "mining_wf s"
  shows "mining_wf (mining_step e c s)"
    and "minedBalance (mining_step e c s) a = minedBalance s a + paidBalance c a"
    and "minedStake (mining_step e c s) a = minedStake s a + paidStake c a"
  using assms
  by (cases c; simp add: AddProposerReward_def AddFinalCommitteeReward_def Let_def proposer_reward
      committee_reward)+

lemma mining_run_views:
  assumes "mining_wf s"
  shows "mining_wf (fold (mining_step e) calls s)"
    and "minedBalance (fold (mining_step e) calls s) a = minedBalance s a + (\<Sum>c\<leftarrow>calls. paidBalance c a)"
    and "minedStake (fold (mining_step e) calls s) a = minedStake s a + (\<Sum>c\<leftarrow>calls. paidStake c a)"
  using assms by (induction calls arbitrary: s) (simp_all add: mining_step_views)

lemma mining_start:
  "mining_wf emptySession" "minedBalance emptySession a = 0" "minedStake emptySession a = 0"
  by (simp_all add: mining_wf_def minedBalance_def minedStake_def emptySession_def emptyStats_def
      emptyPending_def wf_index_def)

section \<open>Burnt coins add up\<close>

datatype burn_call =
    CallPenaltyBurnt address bigint
  | CallInviteBurnt address bigint "Transaction option"
  | CallFeeBurnt address bigint float32 "Transaction option"
  | CallKilledBurnt address bigint
  | CallBurnTx address Transaction
  | CallAfterAddStake address bigint app_state
  | CallKillInvitee Transaction bigint bigint

fun burn_step :: "ext \<Rightarrow> burn_call \<Rightarrow> session \<Rightarrow> session option" where
  "burn_step e (CallPenaltyBurnt a v) s = Some (AddPenaltyBurntCoins e a v s)"
| "burn_step e (CallInviteBurnt a v tx) s = Some (AddInviteBurntCoins e a v tx s)"
| "burn_step e (CallFeeBurnt a v rate tx) s = Some (AddFeeBurntCoins e a v rate tx s)"
| "burn_step e (CallKilledBurnt a v) s = Some (AddKilledBurntCoins e a v s)"
| "burn_step e (CallBurnTx a tx) s = Some (AddBurnTxBurntCoins e a tx s)"
| "burn_step e (CallAfterAddStake a v st) s = Some (AfterAddStake e a v st s)"
| "burn_step e (CallKillInvitee tx st tr) s = AddKillInviteeTxStakeTransfer e tx st tr s"

definition rowsAmount :: "session \<Rightarrow> decimal" where
  "rowsAmount s = (\<Sum>a \<in> dom (S_BurntCoinsByAddr (stats s)). sum_list (map BC_Amount (burntRows s a)))"

text \<open>\<open>blockchain.ConvertToFloat\<close> divides by a power of ten without loss: it is additive.\<close>

definition additiveConversion :: "ext \<Rightarrow> bool" where
  "additiveConversion e \<longleftrightarrow> (\<forall>x y. X_convertToFloat e (Some (x + y)) =
     X_convertToFloat e (Some x) + X_convertToFloat e (Some y))"

definition burnt_inv :: "ext \<Rightarrow> session \<Rightarrow> bool" where
  "burnt_inv e s \<longleftrightarrow> finite (dom (S_BurntCoinsByAddr (stats s)))
     \<and> X_convertToFloat e (Some (zeroIfNil (S_BurntCoins (stats s)))) = rowsAmount s"

lemma additive_zero: "additiveConversion e \<Longrightarrow> X_convertToFloat e (Some 0) = 0"
  unfolding additiveConversion_def by (metis add.right_neutral add_left_cancel)

lemma burntRows_outside: "a \<notin> dom (S_BurntCoinsByAddr (stats s)) \<Longrightarrow> burntRows s a = []"
  by (simp add: burntRows_def domIff)

lemma sum_insert_replace:
  fixes f g :: "'a \<Rightarrow> 'b :: ab_group_add"
  assumes "finite A" "\<And>x. x \<noteq> a \<Longrightarrow> g x = f x" "a \<notin> A \<Longrightarrow> f a = 0"
  shows "sum g (insert a A) = sum f A + (g a - f a)"
proof -
  have "sum g (A - {a}) = sum f (A - {a})" by (rule sum.cong) (auto simp: assms(2))
  moreover have "sum f A = f a + sum f (A - {a})"
    using assms(1,3) by (cases "a \<in> A") (auto simp: sum.remove)
  ultimately show ?thesis using assms(1) by (simp add: sum.insert_remove)
qed

lemma addBurntCoins_rows:
  assumes "finite (dom (S_BurntCoinsByAddr (stats s)))" "\<not> zeroOrNil v"
  shows "rowsAmount (addBurntCoins e a v r tx s) = rowsAmount s + X_convertToFloat e v"
proof -
  let ?s = "addBurntCoins e a v r tx s"
  have d: "dom (S_BurntCoinsByAddr (stats ?s)) = insert a (dom (S_BurntCoinsByAddr (stats s)))"
    using assms(2) by (simp add: addBurntCoins_def Let_def)
  have rows: "sum_list (map BC_Amount (burntRows ?s x)) =
      sum_list (map BC_Amount (burntRows s x)) + (if x = a then X_convertToFloat e v else 0)" for x
    using assms(2) by (simp add: addBurntCoins_def Let_def burntRows_def)
  show ?thesis
    unfolding rowsAmount_def d
    by (subst sum_insert_replace [OF assms(1), where f = "\<lambda>x. sum_list (map BC_Amount (burntRows s x))"])
      (simp_all add: rows burntRows_outside)
qed

lemma addBurntCoins_inv:
  assumes "additiveConversion e" "burnt_inv e s"
  shows "burnt_inv e (addBurntCoins e a v r tx s)"
proof (cases "zeroOrNil v")
  case True
  then show ?thesis using assms(2) by (simp add: addBurntCoins_def)
next
  case False
  then obtain n where v: "v = Some n" by (cases v) auto
  have "S_BurntCoins (stats (addBurntCoins e a v r tx s)) = Some (zeroIfNil (S_BurntCoins (stats s)) + n)"
    and "dom (S_BurntCoinsByAddr (stats (addBurntCoins e a v r tx s))) =
      insert a (dom (S_BurntCoinsByAddr (stats s)))"
    using False v by (simp_all add: addBurntCoins_def Let_def)
  then show ?thesis
    using assms False v
    by (simp add: burnt_inv_def addBurntCoins_rows additiveConversion_def)
qed

lemma burnt_inv_frame:
  "burnt_inv e (s\<lparr>stats := (stats s)\<lparr>S_KillInviteeTxTransfers := xs\<rparr>\<rparr>) = burnt_inv e s"
  by (simp add: burnt_inv_def rowsAmount_def burntRows_def)

lemma burn_step_inv:
  assumes "additiveConversion e \<and> burnt_inv e s" "burn_step e c s = Some s'"
  shows "additiveConversion e \<and> burnt_inv e s'"
  using assms
  by (cases c) (auto simp: AddPenaltyBurntCoins_def AddInviteBurntCoins_def AddFeeBurntCoins_def
      AddKilledBurntCoins_def AddBurnTxBurntCoins_def AfterAddStake_def AddKillInviteeTxStakeTransfer_def
      Let_def addBurntCoins_inv burnt_inv_frame split: if_splits option.splits)

interpretation burns: invariant_steps "burn_step e" "\<lambda>s. additiveConversion e \<and> burnt_inv e s"
  by unfold_locales (rule burn_step_inv)

lemma burnt_inv_start: "additiveConversion e \<Longrightarrow> burnt_inv e emptySession"
  by (simp add: burnt_inv_def rowsAmount_def emptySession_def emptyStats_def additive_zero)

section \<open>Properties\<close>

text \<open>over any sequence of proposer and committee rewards of a block, the mining rewards the
  collector lists for an address sum up, in balance and in stake, to exactly what the calls paid to
  that address; the merging of committee rewards loses and duplicates nothing.\<close>

theorem mining_rewards_add_up:
  "minedBalance (fold (mining_step e) calls emptySession) a = (\<Sum>c\<leftarrow>calls. paidBalance c a)
   \<and> minedStake (fold (mining_step e) calls emptySession) a = (\<Sum>c\<leftarrow>calls. paidStake c a)"
  by (simp add: mining_run_views [OF mining_start(1)] mining_start)

text \<open>an address has at most one mining reward that is not a proposer's, however often it is
  rewarded as a committee member or as the pool of one.\<close>

theorem committee_reward_unique:
  assumes "s = fold (mining_step e) calls emptySession"
    and "p \<in> set (S_MiningRewards (stats s))" "deref (miningStore s) p = Some x" "\<not> MR_Proposer x"
    and "q \<in> set (S_MiningRewards (stats s))" "deref (miningStore s) q = Some y" "\<not> MR_Proposer y"
    and "MR_Address x = MR_Address y"
  shows "p = q"
  using wf_index_unique [OF mining_run_views(1) [OF mining_start(1), of e calls, unfolded mining_wf_def], of p x q y]
    assms by (simp add: mining_key_def)

theorem committee_reward_unique_witness:
  "\<exists>s. s = fold (mining_step sampleExt)
       [CallFinalCommittee 9 1 (Some 4) (Some 1) None, CallFinalCommittee 9 2 (Some 6) None None] emptySession
    \<and> {p \<in> set (S_MiningRewards (stats s)). \<exists>x. deref (miningStore s) p = Some x \<and> \<not> MR_Proposer x \<and> MR_Address x = 9} = {0}"
proof -
  define s where "s = fold (mining_step sampleExt)
     [CallFinalCommittee 9 1 (Some 4) (Some 1) None, CallFinalCommittee 9 2 (Some 6) None None] emptySession"
  have "0 \<in> set (S_MiningRewards (stats s))" "map_option MR_Address (deref (miningStore s) 0) = Some 9"
    "map_option MR_Proposer (deref (miningStore s) 0) = Some False"
    unfolding s_def by code_simp+
  then have "{p \<in> set (S_MiningRewards (stats s)). \<exists>x. deref (miningStore s) p = Some x \<and> \<not> MR_Proposer x \<and> MR_Address x = 9} = {0}"
    using committee_reward_unique [OF s_def, of _ _ 0] by fastforce
  then show ?thesis unfolding s_def by blast
qed

text \<open>whatever sequence of burns the collector sees, the burnt total of the block, converted to
  coins, is the sum of the amounts of the burnt rows over all addresses (\<open>ConvertToFloat\<close> being
  additive).\<close>

theorem burnt_total_is_sum_of_rows:
  assumes "additiveConversion e" and "run_steps (burn_step e) calls emptySession = Some s"
  shows "X_convertToFloat e (Some (zeroIfNil (S_BurntCoins (stats s)))) =
     (\<Sum>a \<in> dom (S_BurntCoinsByAddr (stats s)). sum_list (map BC_Amount (burntRows s a)))"
  using burns.run_inv [of e emptySession calls s] assms burnt_inv_start [OF assms(1)]
  by (simp add: burnt_inv_def rowsAmount_def)

theorem burnt_total_is_sum_of_rows_witness:
  "\<exists>s. run_steps (burn_step sampleExt) [CallPenaltyBurnt 1 (Some 5), CallFeeBurnt 2 (Some 10) (1/2) None,
       CallKilledBurnt 1 (Some 7)] emptySession = Some s
     \<and> S_BurntCoins (stats s) = Some 17
     \<and> (\<Sum>a \<in> dom (S_BurntCoinsByAddr (stats s)). sum_list (map BC_Amount (burntRows s a))) = 17"
proof -
  have "map_option (\<lambda>s. S_BurntCoins (stats s)) (run_steps (burn_step sampleExt) [CallPenaltyBurnt 1 (Some 5),
      CallFeeBurnt 2 (Some 10) (1/2) None, CallKilledBurnt 1 (Some 7)] emptySession) = Some (Some 17)"
    by code_simp
  then obtain s where s: "run_steps (burn_step sampleExt) [CallPenaltyBurnt 1 (Some 5),
      CallFeeBurnt 2 (Some 10) (1/2) None, CallKilledBurnt 1 (Some 7)] emptySession = Some s"
      "S_BurntCoins (stats s) = Some 17"
    by auto
  have "additiveConversion sampleExt" by (simp add: additiveConversion_def sampleExt_def)
  from burnt_total_is_sum_of_rows [OF this s(1)] s show ?thesis by (simp add: sampleExt_def)
qed

end
