(* ===== verification/Balance_Collector.thy ===== *)
theory Balance_Collector
  imports Coin_Collector
begin

text \<open>
  Balance updates in the collector (\<open>src/core/stats/collector.go\<close>): the \<open>Begin...BalanceUpdate\<close>
  calls take a snapshot of an address before a state change, \<open>CompleteBalanceUpdate\<close> takes the one
  after it, drops what did not change, merges the repeated updates of one reason and address, and
  splits an epoch reward paid to a pool into the delegator's and the delegatee's part.
\<close>

section \<open>Snapshots\<close>

definition getStakeIfNotKilled :: "address \<Rightarrow> app_state \<Rightarrow> bigint" where
  "getStakeIfNotKilled addr appState =
     (if AS_GetIdentityState appState addr = Killed then Some 0 else Some (AS_GetStakeBalance appState addr))"

definition getPenaltyIfNotKilled :: "address \<Rightarrow> app_state \<Rightarrow> bigint" where
  "getPenaltyIfNotKilled addr appState =
     (if AS_GetIdentityState appState addr = Killed then Some 0 else Id_Penalty (AS_GetIdentity appState addr))"

definition getPenaltySecondsIfNotKilled :: "address \<Rightarrow> app_state \<Rightarrow> uint16" where
  "getPenaltySecondsIfNotKilled addr appState =
     (if AS_GetIdentityState appState addr = Killed then 0
      else Id_PenaltySeconds (AS_GetIdentity appState addr))"

definition valueOrZero :: "bigint \<Rightarrow> bigint" where
  "valueOrZero v = (case v of None \<Rightarrow> Some 0 | Some n \<Rightarrow> Some n)"

definition addPendingBalanceUpdate ::
  "address \<Rightarrow> app_state \<Rightarrow> byte \<Rightarrow> hash option \<Rightarrow> bigint \<Rightarrow> session \<Rightarrow> session" where
  "addPendingBalanceUpdate addr appState reason txHash potentialPenaltyPayment s =
     (let penaltySecondsOld = getPenaltySecondsIfNotKilled addr appState;
          penaltyPayment = (if penaltySecondsOld > 0 then potentialPenaltyPayment else None);
          p = fresh (updateStore s);
          bu = \<lparr>BU_Address = addr, BU_BalanceOld = Some (AS_GetBalance appState addr),
                BU_StakeOld = getStakeIfNotKilled addr appState,
                BU_PenaltyOld = getPenaltyIfNotKilled addr appState,
                BU_PenaltySecondsOld = penaltySecondsOld, BU_BalanceNew = None, BU_StakeNew = None,
                BU_PenaltyNew = None, BU_PenaltySecondsNew = 0, BU_PenaltyPayment = penaltyPayment,
                BU_TxHash = txHash, BU_Reason = reason, BU_ContractAddress = None\<rparr>
      in s\<lparr>updateStore := alloc bu (updateStore s),
           pending := (pending s)\<lparr>P_balanceUpdates := P_balanceUpdates (pending s) @ [p]\<rparr>\<rparr>)"

section \<open>The beginnings\<close>

definition BeginVerifiedStakeTransferBalanceUpdate ::
  "address \<Rightarrow> address \<Rightarrow> app_state \<Rightarrow> session \<Rightarrow> session" where
  "BeginVerifiedStakeTransferBalanceUpdate addrFrom addrTo appState s =
     (let s1 = addPendingBalanceUpdate addrFrom appState VerifiedStakeTransferReason None None s
      in if addrFrom \<noteq> addrTo
         then addPendingBalanceUpdate addrTo appState VerifiedStakeTransferReason None None s1 else s1)"

text \<open>The loop over the additional addresses, with the set of those already seen.\<close>

fun addAdditional :: "app_state \<Rightarrow> hash \<Rightarrow> address set \<Rightarrow> address list \<Rightarrow> session \<Rightarrow> session" where
  "addAdditional appState txHash addressMap [] s = s"
| "addAdditional appState txHash addressMap (address # rest) s =
     (if address \<in> addressMap then addAdditional appState txHash addressMap rest s
      else addAdditional appState txHash (insert address addressMap) rest
             (addPendingBalanceUpdate address appState TxReason (Some txHash) None s))"

definition BeginTxBalanceUpdate ::
  "Transaction \<Rightarrow> app_state \<Rightarrow> address list \<Rightarrow> session \<Rightarrow> session" where
  "BeginTxBalanceUpdate tx appState additionalAddresses s =
     (let sender = Tx_Sender tx; txHash = Tx_Hash tx;
          s1 = addPendingBalanceUpdate sender appState TxReason (Some txHash) None s;
          s2 = (case Tx_To tx of None \<Rightarrow> s1
                | Some to' \<Rightarrow> if to' \<noteq> sender
                    then addPendingBalanceUpdate to' appState TxReason (Some txHash) None s1 else s1)
      in addAdditional appState txHash ({sender} \<union> set_option (Tx_To tx)) additionalAddresses s2)"

definition BeginProposerRewardBalanceUpdate ::
  "address \<Rightarrow> address \<Rightarrow> bigint \<Rightarrow> app_state \<Rightarrow> session \<Rightarrow> session" where
  "BeginProposerRewardBalanceUpdate balanceDest stakeDest potentialPenaltyPayment appState s =
     (let s1 = addPendingBalanceUpdate balanceDest appState ProposerRewardReason None potentialPenaltyPayment s
      in if balanceDest \<noteq> stakeDest
         then addPendingBalanceUpdate stakeDest appState ProposerRewardReason None None s1 else s1)"

definition BeginCommitteeRewardBalanceUpdate ::
  "address \<Rightarrow> address \<Rightarrow> bigint \<Rightarrow> app_state \<Rightarrow> session \<Rightarrow> session" where
  "BeginCommitteeRewardBalanceUpdate balanceDest stakeDest potentialPenaltyPayment appState s =
     (let s1 = addPendingBalanceUpdate balanceDest appState CommitteeRewardReason None potentialPenaltyPayment s
      in if balanceDest \<noteq> stakeDest
         then addPendingBalanceUpdate stakeDest appState CommitteeRewardReason None None s1 else s1)"

definition BeginEpochRewardBalanceUpdate :: "address \<Rightarrow> address \<Rightarrow> app_state \<Rightarrow> session \<Rightarrow> session" where
  "BeginEpochRewardBalanceUpdate balanceDest stakeDest appState s =
     (let s1 = addPendingBalanceUpdate balanceDest appState EpochRewardReason None None s
      in if balanceDest \<noteq> stakeDest
         then addPendingBalanceUpdate stakeDest appState EpochRewardReason None None s1 else s1)"

definition BeginFailedValidationBalanceUpdate :: "address \<Rightarrow> app_state \<Rightarrow> session \<Rightarrow> session" where
  "BeginFailedValidationBalanceUpdate addr appState s =
     addPendingBalanceUpdate addr appState FailedValidationReason None None s"

definition BeginPenaltyBalanceUpdate :: "address \<Rightarrow> app_state \<Rightarrow> session \<Rightarrow> session" where
  "BeginPenaltyBalanceUpdate addr appState s =
     addPendingBalanceUpdate addr appState PenaltyReason None None s"

definition BeginEpochPenaltyResetBalanceUpdate :: "address \<Rightarrow> app_state \<Rightarrow> session \<Rightarrow> session" where
  "BeginEpochPenaltyResetBalanceUpdate addr appState s =
     addPendingBalanceUpdate addr appState EpochPenaltyResetReason None None s"

definition BeginIdentityClearingBalanceUpdate :: "ext \<Rightarrow> address \<Rightarrow> app_state \<Rightarrow> session \<Rightarrow> session" where
  "BeginIdentityClearingBalanceUpdate e addr appState s =
     (let s1 = addPendingBalanceUpdate addr appState IdentityClearingReason None None s;
          stake = getStakeIfNotKilled addr appState;
          s2 = (if zeroIfNil stake > 0 then AddKilledBurntCoins e addr stake s1 else s1)
      in s2\<lparr>stats := (stats s2)\<lparr>S_KilledInactiveIdentities :=
            insert addr (S_KilledInactiveIdentities (stats s2))\<rparr>\<rparr>)"

definition BeginDustClearingBalanceUpdate :: "address \<Rightarrow> app_state \<Rightarrow> session \<Rightarrow> session" where
  "BeginDustClearingBalanceUpdate addr appState s =
     addPendingBalanceUpdate addr appState DustClearingReason None None s"

text \<open>\<open>BeginSavedStakeBalanceUpdate\<close> does nothing.\<close>

definition BeginSavedStakeBalanceUpdate :: "address \<Rightarrow> app_state \<Rightarrow> session \<Rightarrow> session" where
  "BeginSavedStakeBalanceUpdate addr appState s = s"

section \<open>The completion\<close>

definition completeOne :: "app_state \<Rightarrow> BalanceUpdate \<Rightarrow> BalanceUpdate" where
  "completeOne appState bu = bu\<lparr>BU_BalanceNew := Some (AS_GetBalance appState (BU_Address bu)),
     BU_StakeNew := getStakeIfNotKilled (BU_Address bu) appState,
     BU_PenaltyNew := getPenaltyIfNotKilled (BU_Address bu) appState,
     BU_PenaltySecondsNew := getPenaltySecondsIfNotKilled (BU_Address bu) appState\<rparr>"

definition completeBalanceUpdates :: "app_state \<Rightarrow> session \<Rightarrow> session \<times> ref list" where
  "completeBalanceUpdates appState s =
     (s\<lparr>updateStore := fold (\<lambda>r. modify r (completeOne appState)) (P_balanceUpdates (pending s)) (updateStore s),
        pending := (pending s)\<lparr>P_balanceUpdates := []\<rparr>\<rparr>, P_balanceUpdates (pending s))"

text \<open>Comparisons of \<open>*big.Int\<close> values panic on a single nil; \<open>||\<close> stops at the first true.\<close>

definition isBalanceChanged :: "BalanceUpdate \<Rightarrow> bool option" where
  "isBalanceChanged bu = map_option (\<lambda>c. c \<noteq> 0) (bigCmp (BU_BalanceOld bu) (BU_BalanceNew bu))"

definition isBalanceOrStakeOrPenaltyChanged :: "BalanceUpdate \<Rightarrow> bool option" where
  "isBalanceOrStakeOrPenaltyChanged bu = do {
     b \<leftarrow> bigCmp (BU_BalanceOld bu) (BU_BalanceNew bu);
     if b \<noteq> 0 then Some True else do {
       st \<leftarrow> bigCmp (BU_StakeOld bu) (BU_StakeNew bu);
       if st \<noteq> 0 then Some True else do {
         p \<leftarrow> bigCmp (valueOrZero (BU_PenaltyOld bu)) (valueOrZero (BU_PenaltyNew bu));
         Some (p \<noteq> 0 \<or> BU_PenaltySecondsOld bu \<noteq> BU_PenaltySecondsNew bu
               \<or> (case BU_PenaltyPayment bu of None \<Rightarrow> False | Some v \<Rightarrow> v > 0)) } } }"

definition getPendingBalanceUpdate :: "byte \<Rightarrow> address \<Rightarrow> session \<Rightarrow> ref option" where
  "getPendingBalanceUpdate reason addr s =
     (case P_balanceUpdatesByReasonAndAddr (pending s) reason of None \<Rightarrow> None | Some m \<Rightarrow> m addr)"

definition linkedReasons :: "byte set" where
  "linkedReasons = {DelegateeEpochRewardReason, EpochRewardReason, DelegatorEpochRewardReason}"

definition updateLinkedBalanceUpdates :: "ref \<Rightarrow> session \<Rightarrow> session option" where
  "updateLinkedBalanceUpdates r s = do {
     bu \<leftarrow> deref (updateStore s) r;
     if BU_Reason bu \<notin> linkedReasons then Some s
     else case P_linkedBalanceUpdatesByNext (pending s) r of
       Some p \<Rightarrow> do {
         prev \<leftarrow> deref (updateStore s) p;
         Some (s\<lparr>updateStore := modify r (\<lambda>b. b\<lparr>BU_BalanceOld := BU_BalanceNew prev,
                   BU_StakeOld := BU_StakeNew prev\<rparr>) (updateStore s)\<rparr>) }
     | None \<Rightarrow> (case P_linkedBalanceUpdatesByPrev (pending s) r of
         None \<Rightarrow> Some s
       | Some n \<Rightarrow> do {
           nx \<leftarrow> deref (updateStore s) n;
           db \<leftarrow> bigSub (BU_BalanceNew nx) (BU_BalanceOld nx);
           balanceNew \<leftarrow> bigSub (BU_BalanceNew bu) db;
           ds \<leftarrow> bigSub (BU_StakeNew nx) (BU_StakeOld nx);
           stakeNew \<leftarrow> bigSub (BU_StakeNew bu) ds;
           db' \<leftarrow> bigSub balanceNew (BU_BalanceOld nx);
           nextBalanceNew \<leftarrow> bigAdd (BU_BalanceNew nx) db';
           ds' \<leftarrow> bigSub stakeNew (BU_StakeOld nx);
           nextStakeNew \<leftarrow> bigAdd (BU_StakeNew nx) ds';
           Some (s\<lparr>updateStore := modify n (\<lambda>b. b\<lparr>BU_BalanceNew := nextBalanceNew, BU_BalanceOld := balanceNew,
                     BU_StakeNew := nextStakeNew, BU_StakeOld := stakeNew\<rparr>)
                   (modify r (\<lambda>b. b\<lparr>BU_BalanceNew := balanceNew, BU_StakeNew := stakeNew\<rparr>) (updateStore s))\<rparr>) }) }"

text \<open>The second update of a reason and an address goes into the first one.\<close>

definition mergeBalanceUpdate :: "BalanceUpdate \<Rightarrow> BalanceUpdate \<Rightarrow> BalanceUpdate" where
  "mergeBalanceUpdate x bu =
     (let b1 = bu\<lparr>BU_BalanceNew := BU_BalanceNew x, BU_StakeNew := BU_StakeNew x,
                 BU_PenaltyNew := BU_PenaltyNew x, BU_PenaltySecondsNew := BU_PenaltySecondsNew x\<rparr>;
          b2 = (case BU_PenaltyPayment x of None \<Rightarrow> b1
                | Some v \<Rightarrow> b1\<lparr>BU_PenaltyPayment := Some (zeroIfNil (BU_PenaltyPayment b1) + v)\<rparr>)
      in if BU_Reason x = DelegatorEpochRewardReason
         then b2\<lparr>BU_BalanceOld := BU_BalanceOld x, BU_StakeOld := BU_StakeOld x,
                 BU_PenaltyOld := BU_PenaltyOld x, BU_PenaltySecondsOld := BU_PenaltySecondsOld x,
                 BU_PenaltyPayment := BU_PenaltyPayment x\<rparr>
         else b2)"

definition linkBalanceUpdates :: "ref \<Rightarrow> ref \<Rightarrow> session \<Rightarrow> session" where
  "linkBalanceUpdates prev nxt s = s\<lparr>pending := (pending s)\<lparr>
     P_linkedBalanceUpdatesByNext := (P_linkedBalanceUpdatesByNext (pending s))(nxt \<mapsto> prev),
     P_linkedBalanceUpdatesByPrev := (P_linkedBalanceUpdatesByPrev (pending s))(prev \<mapsto> nxt)\<rparr>\<rparr>"

definition putBalanceUpdate :: "ref \<Rightarrow> byte \<Rightarrow> address \<Rightarrow> session \<Rightarrow> session" where
  "putBalanceUpdate r c a s = s\<lparr>pending := (pending s)\<lparr>P_balanceUpdatesByReasonAndAddr :=
      (P_balanceUpdatesByReasonAndAddr (pending s))(c \<mapsto>
         (case P_balanceUpdatesByReasonAndAddr (pending s) c of None \<Rightarrow> Map.empty | Some b \<Rightarrow> b)(a \<mapsto> r))\<rparr>\<rparr>"

text \<open>Entering a new update into the index and linking it.\<close>

definition enterBalanceUpdate :: "ref \<Rightarrow> byte \<Rightarrow> address \<Rightarrow> session \<Rightarrow> session" where
  "enterBalanceUpdate r c a s =
     (let s1 = putBalanceUpdate r c a s;
          s2 = (if c = EpochRewardReason
                then case getPendingBalanceUpdate DelegatorEpochRewardReason a s1 of
                       Some d \<Rightarrow> linkBalanceUpdates d r s1
                     | None \<Rightarrow> (case getPendingBalanceUpdate DelegateeEpochRewardReason a s1 of
                                  Some d \<Rightarrow> linkBalanceUpdates d r s1 | None \<Rightarrow> s1)
                else s1)
      in if c = DelegatorEpochRewardReason \<or> c = DelegateeEpochRewardReason
         then case getPendingBalanceUpdate EpochRewardReason a s2 of
                Some q \<Rightarrow> linkBalanceUpdates q r s2 | None \<Rightarrow> s2
         else s2)"

definition handleMultipleBalanceUpdate :: "ref \<Rightarrow> session \<Rightarrow> (session \<times> bool) option" where
  "handleMultipleBalanceUpdate r s = do {
     x \<leftarrow> deref (updateStore s) r;
     case getPendingBalanceUpdate (BU_Reason x) (BU_Address x) s of
       Some q \<Rightarrow> do {
         s' \<leftarrow> updateLinkedBalanceUpdates q
                (s\<lparr>updateStore := modify q (mergeBalanceUpdate x) (updateStore s)\<rparr>);
         Some (s', True) }
     | None \<Rightarrow> do {
         s' \<leftarrow> updateLinkedBalanceUpdates r (enterBalanceUpdate r (BU_Reason x) (BU_Address x) s);
         Some (s', False) } }"

definition afterBalanceUpdate :: "address \<Rightarrow> session \<Rightarrow> session" where
  "afterBalanceUpdate addr s =
     s\<lparr>stats := (stats s)\<lparr>S_BalanceUpdateAddrs := insert addr (S_BalanceUpdateAddrs (stats s))\<rparr>\<rparr>"

text \<open>Appending an update to \<open>BalanceUpdates\<close> is always followed by \<open>afterBalanceUpdate\<close>.\<close>

definition appendBalanceUpdate :: "ref \<Rightarrow> address \<Rightarrow> session \<Rightarrow> session" where
  "appendBalanceUpdate r addr s =
     afterBalanceUpdate addr (s\<lparr>stats := (stats s)\<lparr>S_BalanceUpdates := S_BalanceUpdates (stats s) @ [r]\<rparr>\<rparr>)"

definition handleOrAppend :: "ref \<Rightarrow> address \<Rightarrow> session \<Rightarrow> session option" where
  "handleOrAppend r addr s = do {
     (s', handled) \<leftarrow> handleMultipleBalanceUpdate r s;
     Some (if handled then s' else appendBalanceUpdate r addr s') }"

text \<open>The reward of a delegator, seen as paid to the delegator and passed on to the pool.\<close>

definition splitEpochReward :: "ref \<Rightarrow> ref \<Rightarrow> session \<Rightarrow> session option" where
  "splitEpochReward delegatorRef delegateeRef s = do {
     delegator \<leftarrow> deref (updateStore s) delegatorRef;
     delegatee \<leftarrow> deref (updateStore s) delegateeRef;
     change \<leftarrow> bigSub (BU_BalanceNew delegatee) (BU_BalanceOld delegatee);
     rewardBalance \<leftarrow> bigAdd (BU_BalanceOld delegator) change;
     let reward = delegator\<lparr>BU_BalanceNew := rewardBalance, BU_PenaltyPayment := None,
           BU_TxHash := None, BU_Reason := EpochRewardReason, BU_ContractAddress := None\<rparr>;
     let transfer = \<lparr>BU_Address = BU_Address reward, BU_BalanceOld = BU_BalanceNew reward,
           BU_StakeOld = BU_StakeNew reward, BU_PenaltyOld = BU_PenaltyNew reward,
           BU_PenaltySecondsOld = BU_PenaltySecondsNew reward, BU_BalanceNew = BU_BalanceNew delegator,
           BU_StakeNew = BU_StakeNew delegator, BU_PenaltyNew = BU_PenaltyNew delegator,
           BU_PenaltySecondsNew = BU_PenaltySecondsNew delegator, BU_PenaltyPayment = None,
           BU_TxHash = None, BU_Reason = DelegatorEpochRewardReason, BU_ContractAddress = None\<rparr>;
     let st1 = alloc reward (updateStore s);
     let st2 = alloc transfer st1;
     let s1 = s\<lparr>updateStore := modify delegateeRef (\<lambda>b. b\<lparr>BU_Reason := DelegateeEpochRewardReason\<rparr>) st2\<rparr>;
     s2 \<leftarrow> handleOrAppend (fresh (updateStore s)) (BU_Address reward) s1;
     s3 \<leftarrow> handleOrAppend (fresh st1) (BU_Address transfer) s2;
     handleOrAppend delegateeRef (BU_Address delegatee) s3 }"

text \<open>The body of the loop over the completed updates.\<close>

definition completeLoopStep :: "ext \<Rightarrow> ref \<Rightarrow> session \<Rightarrow> session option" where
  "completeLoopStep e r s = do {
     bu \<leftarrow> deref (updateStore s) r;
     changed \<leftarrow> isBalanceOrStakeOrPenaltyChanged bu;
     if \<not> changed then Some s
     else let s1 = (if BU_Reason bu = DustClearingReason
                    then addBurntCoins e (BU_Address bu) (BU_BalanceOld bu) DustClearingBurntCoins None s
                    else s)
          in if BU_Reason bu \<in> {EpochRewardReason, CommitteeRewardReason, VerifiedStakeTransferReason}
             then handleOrAppend r (BU_Address bu) s1
             else Some (appendBalanceUpdate r (BU_Address bu) s1) }"

definition isDelegatedReward :: "BalanceUpdate \<Rightarrow> BalanceUpdate \<Rightarrow> bool" where
  "isDelegatedReward x y \<longleftrightarrow> BU_Reason x = BU_Reason y \<and> BU_Reason x = EpochRewardReason
     \<and> BU_Address x \<noteq> BU_Address y"

definition CompleteBalanceUpdate :: "ext \<Rightarrow> app_state \<Rightarrow> session \<Rightarrow> session option" where
  "CompleteBalanceUpdate e appState s0 =
     (let (s, balanceUpdates) = completeBalanceUpdates appState s0;
          generic = run_steps (completeLoopStep e) balanceUpdates s
      in case balanceUpdates of
           [p, q] \<Rightarrow> do {
             x \<leftarrow> deref (updateStore s) p;
             y \<leftarrow> deref (updateStore s) q;
             if isDelegatedReward x y
             then do {
               changed \<leftarrow> isBalanceChanged x;
               if changed then splitEpochReward q p s else splitEpochReward p q s }
             else generic }
         | _ \<Rightarrow> generic)"

section \<open>Sequences of balance calls\<close>

datatype balance_call =
    CallBeginVerifiedStakeTransfer address address app_state
  | CallBeginTx Transaction app_state "address list"
  | CallBeginProposerReward address address bigint app_state
  | CallBeginCommitteeReward address address bigint app_state
  | CallBeginEpochReward address address app_state
  | CallBeginFailedValidation address app_state
  | CallBeginPenalty address app_state
  | CallBeginEpochPenaltyReset address app_state
  | CallBeginIdentityClearing address app_state
  | CallBeginDustClearing address app_state
  | CallComplete app_state

fun balance_step :: "ext \<Rightarrow> balance_call \<Rightarrow> session \<Rightarrow> session option" where
  "balance_step e (CallBeginVerifiedStakeTransfer a b st) s = Some (BeginVerifiedStakeTransferBalanceUpdate a b st s)"
| "balance_step e (CallBeginTx tx st adds) s = Some (BeginTxBalanceUpdate tx st adds s)"
| "balance_step e (CallBeginProposerReward bd sd v st) s = Some (BeginProposerRewardBalanceUpdate bd sd v st s)"
| "balance_step e (CallBeginCommitteeReward bd sd v st) s = Some (BeginCommitteeRewardBalanceUpdate bd sd v st s)"
| "balance_step e (CallBeginEpochReward bd sd st) s = Some (BeginEpochRewardBalanceUpdate bd sd st s)"
| "balance_step e (CallBeginFailedValidation a st) s = Some (BeginFailedValidationBalanceUpdate a st s)"
| "balance_step e (CallBeginPenalty a st) s = Some (BeginPenaltyBalanceUpdate a st s)"
| "balance_step e (CallBeginEpochPenaltyReset a st) s = Some (BeginEpochPenaltyResetBalanceUpdate a st s)"
| "balance_step e (CallBeginIdentityClearing a st) s = Some (BeginIdentityClearingBalanceUpdate e a st s)"
| "balance_step e (CallBeginDustClearing a st) s = Some (BeginDustClearingBalanceUpdate a st s)"
| "balance_step e (CallComplete st) s = CompleteBalanceUpdate e st s"

end
