(* ===== verification/Balance_Invariant.thy ===== *)
theory Balance_Invariant
  imports Balance_Collector
begin

text \<open>
  Correctness of the balance-update collection: the invariant that ties the list of updates, the
  index that merges them, the links between the parts of a delegated reward and the set of touched
  addresses together; it is kept by every call and makes every call defined.
\<close>

section \<open>The invariant\<close>

definition merged_reasons :: "byte set" where
  "merged_reasons = {EpochRewardReason, CommitteeRewardReason, VerifiedStakeTransferReason,
     DelegatorEpochRewardReason, DelegateeEpochRewardReason}"

definition bu_key :: "BalanceUpdate \<Rightarrow> (byte \<times> address) option" where
  "bu_key x = (if BU_Reason x \<in> merged_reasons then Some (BU_Reason x, BU_Address x) else None)"

definition bu_index :: "session \<Rightarrow> byte \<times> address \<Rightarrow> ref option" where
  "bu_index s k = getPendingBalanceUpdate (fst k) (snd k) s"

definition completed :: "BalanceUpdate \<Rightarrow> bool" where
  "completed x \<longleftrightarrow> BU_BalanceOld x \<noteq> None \<and> BU_BalanceNew x \<noteq> None \<and> BU_StakeOld x \<noteq> None
     \<and> BU_StakeNew x \<noteq> None"

text \<open>\<open>rs\<close> are the listed updates, \<open>A\<close> the touched addresses.\<close>

definition bu_wf :: "ref list \<Rightarrow> address set \<Rightarrow> session \<Rightarrow> bool" where
  "bu_wf rs A s \<longleftrightarrow> wf_index bu_key rs (bu_index s) (updateStore s)
     \<and> (\<forall>r \<in> set rs. \<forall>x. deref (updateStore s) r = Some x \<longrightarrow>
          BU_Address x \<in> A \<and> (bu_key x \<noteq> None \<longrightarrow> completed x))
     \<and> ran (P_linkedBalanceUpdatesByNext (pending s)) \<subseteq> ran (bu_index s)
     \<and> ran (P_linkedBalanceUpdatesByPrev (pending s)) \<subseteq> ran (bu_index s)"

lemma bu_wfD:
  assumes "bu_wf rs A s"
  shows "wf_index bu_key rs (bu_index s) (updateStore s)"
    and "r \<in> set rs \<Longrightarrow> deref (updateStore s) r = Some x \<Longrightarrow> BU_Address x \<in> A"
    and "r \<in> set rs \<Longrightarrow> deref (updateStore s) r = Some x \<Longrightarrow> bu_key x \<noteq> None \<Longrightarrow> completed x"
    and "ran (P_linkedBalanceUpdatesByNext (pending s)) \<subseteq> ran (bu_index s)"
    and "ran (P_linkedBalanceUpdatesByPrev (pending s)) \<subseteq> ran (bu_index s)"
  using assms unfolding bu_wf_def by blast+

lemma bu_wf_indexed:
  assumes "bu_wf rs A s" "bu_index s k = Some p"
  shows "\<exists>x. p \<in> set rs \<and> deref (updateStore s) p = Some x \<and> completed x \<and> bu_key x = Some k"
proof -
  note ix = bu_wfD(1) [OF assms(1)]
  obtain x where x: "deref (updateStore s) p = Some x" "bu_key x = Some k"
    using wf_indexD(4) [OF ix assms(2)] by blast
  have p: "p \<in> set rs" by (rule wf_indexD(3) [OF ix assms(2)])
  then have "completed x" by (rule bu_wfD(3) [OF assms(1) _ x(1)]) (simp add: x(2))
  with p x show ?thesis by blast
qed

text \<open>Updates that keep reason, address and completeness keep the invariant.\<close>

lemma bu_wf_store:
  assumes wf: "bu_wf rs A s"
    and keep: "\<And>r x. r \<in> set rs \<Longrightarrow> deref (updateStore s) r = Some x \<Longrightarrow> \<exists>y. deref st r = Some y
       \<and> bu_key y = bu_key x \<and> BU_Address y = BU_Address x \<and> (bu_key x \<noteq> None \<longrightarrow> completed x \<longrightarrow> completed y)"
  shows "bu_wf rs A (s\<lparr>updateStore := st\<rparr>)"
proof -
  have ix: "bu_index (s\<lparr>updateStore := st\<rparr>) = bu_index s"
    by (rule ext) (simp add: bu_index_def getPendingBalanceUpdate_def)
  have w: "wf_index bu_key rs (bu_index s) st"
    by (rule wf_index_cong [OF bu_wfD(1) [OF wf]]) (use keep in blast)
  have "BU_Address y \<in> A \<and> (bu_key y \<noteq> None \<longrightarrow> completed y)"
    if r: "r \<in> set rs" and y: "deref st r = Some y" for r y
  proof -
    obtain x where x: "deref (updateStore s) r = Some x" using wf_indexD(2) [OF bu_wfD(1) [OF wf] r] by blast
    show ?thesis
      using keep [OF r x] y bu_wfD(2) [OF wf r x] bu_wfD(3) [OF wf r x] by auto
  qed
  with w show ?thesis using bu_wfD(4,5) [OF wf] by (simp add: bu_wf_def ix)
qed

section \<open>Linked updates\<close>

lemma linked_store_keeps:
  assumes wf: "bu_wf rs A s" and f: "\<And>x. BU_Reason (f x) = BU_Reason x" "\<And>x. BU_Address (f x) = BU_Address x"
    and c: "\<And>x. completed x \<Longrightarrow> completed (f x)"
  shows "bu_wf rs A (s\<lparr>updateStore := modify r f (updateStore s)\<rparr>)"
proof (rule bu_wf_store [OF wf])
  fix q x assume "deref (updateStore s) q = Some x"
  moreover have "bu_key (f x) = bu_key x" by (simp add: bu_key_def f)
  ultimately show "\<exists>y. deref (modify r f (updateStore s)) q = Some y \<and> bu_key y = bu_key x
      \<and> BU_Address y = BU_Address x \<and> (bu_key x \<noteq> None \<longrightarrow> completed x \<longrightarrow> completed y)"
    by (cases "q = r") (simp_all add: ref_simps f c)
qed

text \<open>The three effects: nothing, the start moved to the end of the previous update, or the end
  cut back by what the next update covers and that one moved behind it.\<close>

lemma updateLinked_prev:
  assumes "deref (updateStore s) r = Some x"
    "BU_Reason x \<in> linkedReasons"
    "P_linkedBalanceUpdatesByNext (pending s) r = Some p" "deref (updateStore s) p = Some y"
  shows "updateLinkedBalanceUpdates r s = Some (s\<lparr>updateStore :=
    modify r (\<lambda>b. b\<lparr>BU_BalanceOld := BU_BalanceNew y, BU_StakeOld := BU_StakeNew y\<rparr>) (updateStore s)\<rparr>)"
  using assms by (simp add: updateLinkedBalanceUpdates_def)

lemma updateLinked_next:
  assumes "deref (updateStore s) r = Some x"
    "BU_Reason x \<in> linkedReasons"
    "P_linkedBalanceUpdatesByNext (pending s) r = None" "P_linkedBalanceUpdatesByPrev (pending s) r = Some p"
    "deref (updateStore s) p = Some y" "BU_BalanceNew x = Some xn" "BU_StakeNew x = Some xt"
    "BU_BalanceOld y = Some yo" "BU_BalanceNew y = Some yn" "BU_StakeOld y = Some ys" "BU_StakeNew y = Some yt"
  shows "updateLinkedBalanceUpdates r s = Some (s\<lparr>updateStore :=
    modify p (\<lambda>b. b\<lparr>BU_BalanceNew := Some xn, BU_BalanceOld := Some (xn - (yn - yo)),
        BU_StakeNew := Some xt, BU_StakeOld := Some (xt - (yt - ys))\<rparr>)
      (modify r (\<lambda>b. b\<lparr>BU_BalanceNew := Some (xn - (yn - yo)), BU_StakeNew := Some (xt - (yt - ys))\<rparr>) (updateStore s))\<rparr>)"
  using assms by (simp add: updateLinkedBalanceUpdates_def)

lemma updateLinked_none:
  assumes "deref (updateStore s) r = Some x"
    "BU_Reason x \<in> linkedReasons \<longrightarrow>
       P_linkedBalanceUpdatesByNext (pending s) r = None \<and> P_linkedBalanceUpdatesByPrev (pending s) r = None"
  shows "updateLinkedBalanceUpdates r s = Some s"
  using assms by (auto simp: updateLinkedBalanceUpdates_def)

text \<open>What an operation on a listed update guarantees.\<close>

definition store_step :: "ref list \<Rightarrow> address set \<Rightarrow> session \<Rightarrow> session option \<Rightarrow> bool" where
  "store_step rs A s res \<longleftrightarrow> (\<exists>st. res = Some (s\<lparr>updateStore := st\<rparr>) \<and> bu_wf rs A (s\<lparr>updateStore := st\<rparr>)
     \<and> (\<forall>q. q \<notin> set rs \<longrightarrow> deref st q = deref (updateStore s) q) \<and> fresh st = fresh (updateStore s))"

lemma store_stepI:
  assumes "res = Some (s\<lparr>updateStore := st\<rparr>)" "bu_wf rs A (s\<lparr>updateStore := st\<rparr>)"
    "\<And>q. q \<notin> set rs \<Longrightarrow> deref st q = deref (updateStore s) q" "fresh st = fresh (updateStore s)"
  shows "store_step rs A s res"
  using assms by (auto simp: store_step_def)

lemma updateLinked_keeps:
  assumes wf: "bu_wf rs A s" and r: "r \<in> set rs" "deref (updateStore s) r = Some x" "bu_key x \<noteq> None"
  shows "store_step rs A s (updateLinkedBalanceUpdates r s)"
proof -
  let ?rel = "BU_Reason x \<in> linkedReasons"
  have x: "completed x" by (rule bu_wfD(3) [OF wf r])
  consider "\<not> (?rel \<and> (P_linkedBalanceUpdatesByNext (pending s) r \<noteq> None \<or> P_linkedBalanceUpdatesByPrev (pending s) r \<noteq> None))"
    | (prev) p where ?rel "P_linkedBalanceUpdatesByNext (pending s) r = Some p"
    | (nxt) p where ?rel "P_linkedBalanceUpdatesByNext (pending s) r = None"
        "P_linkedBalanceUpdatesByPrev (pending s) r = Some p"
    by (cases "P_linkedBalanceUpdatesByNext (pending s) r"; cases "P_linkedBalanceUpdatesByPrev (pending s) r") auto
  then show ?thesis
  proof cases
    case 1
    then have "updateLinkedBalanceUpdates r s = Some s"
      by (intro updateLinked_none [OF r(2)]) auto
    then show ?thesis using wf by (intro store_stepI [where st = "updateStore s"]) simp_all
  next
    case prev
    obtain k where k: "bu_index s k = Some p" using bu_wfD(4) [OF wf] prev(2) unfolding ran_def by blast
    obtain y where y: "deref (updateStore s) p = Some y" "completed y" using bu_wf_indexed [OF wf k] by blast
    show ?thesis
      by (rule store_stepI [OF updateLinked_prev [OF r(2) prev y(1)] linked_store_keeps [OF wf]])
        (use y r in \<open>auto simp: completed_def ref_simps\<close>)
  next
    case nxt
    obtain k where k: "bu_index s k = Some p" using bu_wfD(5) [OF wf] nxt(3) unfolding ran_def by blast
    obtain y where y: "deref (updateStore s) p = Some y" "completed y" and p: "p \<in> set rs"
      using bu_wf_indexed [OF wf k] by blast
    obtain xn xt where xv: "BU_BalanceNew x = Some xn" "BU_StakeNew x = Some xt"
      using x by (auto simp: completed_def)
    obtain yo yn ys yt where yv: "BU_BalanceOld y = Some yo" "BU_BalanceNew y = Some yn"
      "BU_StakeOld y = Some ys" "BU_StakeNew y = Some yt" using y(2) by (auto simp: completed_def)
    let ?f = "\<lambda>b. b\<lparr>BU_BalanceNew := Some (xn - (yn - yo)), BU_StakeNew := Some (xt - (yt - ys))\<rparr>"
    have "bu_wf rs A (s\<lparr>updateStore := modify r ?f (updateStore s)\<rparr>)"
      by (rule linked_store_keeps [OF wf]) (auto simp: completed_def)
    from linked_store_keeps [OF this, where r = p and f = "\<lambda>b. b\<lparr>BU_BalanceNew := Some xn,
        BU_BalanceOld := Some (xn - (yn - yo)), BU_StakeNew := Some xt, BU_StakeOld := Some (xt - (yt - ys))\<rparr>"]
    show ?thesis
      by (intro store_stepI [OF updateLinked_next [OF r(2) nxt y(1) xv yv]])
        (use r p in \<open>auto simp: completed_def ref_simps\<close>)
  qed
qed

section \<open>Merging or listing an update\<close>

lemma mergeBalanceUpdate_keeps:
  "BU_Reason (mergeBalanceUpdate x b) = BU_Reason b" "BU_Address (mergeBalanceUpdate x b) = BU_Address b"
  "bu_key (mergeBalanceUpdate x b) = bu_key b"
  "completed x \<Longrightarrow> completed b \<Longrightarrow> completed (mergeBalanceUpdate x b)"
  by (simp_all add: mergeBalanceUpdate_def Let_def completed_def bu_key_def split: option.splits)

lemma link_frame [simp]:
  "updateStore (linkBalanceUpdates p n s) = updateStore s" "stats (linkBalanceUpdates p n s) = stats s"
  "bu_index (linkBalanceUpdates p n s) = bu_index s"
  "P_balanceUpdates (pending (linkBalanceUpdates p n s)) = P_balanceUpdates (pending s)"
  by (simp_all add: linkBalanceUpdates_def bu_index_def [abs_def] getPendingBalanceUpdate_def)

lemma bu_wf_link:
  assumes "bu_wf rs A s" "bu_index s k = Some p" "bu_index s k' = Some n"
  shows "bu_wf rs A (linkBalanceUpdates p n s)"
proof -
  have "p \<in> ran (bu_index s)" "n \<in> ran (bu_index s)" using assms(2,3) by (auto intro: ranI)
  then have "ran ((P_linkedBalanceUpdatesByNext (pending s))(n \<mapsto> p)) \<subseteq> ran (bu_index s)"
    "ran ((P_linkedBalanceUpdatesByPrev (pending s))(p \<mapsto> n)) \<subseteq> ran (bu_index s)"
    using bu_wfD(4,5) [OF assms(1)] by (auto simp: ran_def)
  with assms(1) show ?thesis
    unfolding bu_wf_def link_frame by (simp add: linkBalanceUpdates_def)
qed

lemma put_frame [simp]:
  "updateStore (putBalanceUpdate r c a s) = updateStore s" "stats (putBalanceUpdate r c a s) = stats s"
  "P_balanceUpdates (pending (putBalanceUpdate r c a s)) = P_balanceUpdates (pending s)"
  "P_linkedBalanceUpdatesByNext (pending (putBalanceUpdate r c a s)) = P_linkedBalanceUpdatesByNext (pending s)"
  "P_linkedBalanceUpdatesByPrev (pending (putBalanceUpdate r c a s)) = P_linkedBalanceUpdatesByPrev (pending s)"
  by (simp_all add: putBalanceUpdate_def)

lemma bu_index_put [simp]:
  "bu_index (putBalanceUpdate r c a s) k = (if k = (c, a) then Some r else bu_index s k)"
  by (cases k) (auto simp: putBalanceUpdate_def bu_index_def getPendingBalanceUpdate_def split: option.splits)

lemma bu_wf_put:
  assumes wf: "bu_wf rs A s" and r: "deref (updateStore s) r = Some x" "r \<notin> set rs"
    and x: "bu_key x = Some (c, a)" "completed x" and none: "bu_index s (c, a) = None"
  shows "bu_wf (rs @ [r]) (insert a A) (putBalanceUpdate r c a s)"
proof -
  have a: "BU_Address x = a" using x(1) by (auto simp: bu_key_def split: if_splits)
  have "wf_index bu_key (rs @ [r]) (bu_index (putBalanceUpdate r c a s)) (updateStore s)"
    by (rule wf_index_add [OF bu_wfD(1) [OF wf] r]) (use x none in auto)
  moreover have "ran (bu_index s) \<subseteq> ran (bu_index (putBalanceUpdate r c a s))"
    using none by (force simp: ran_def)
  moreover have "BU_Address y \<in> insert a A \<and> (bu_key y \<noteq> None \<longrightarrow> completed y)"
    if "q \<in> set (rs @ [r])" "deref (updateStore s) q = Some y" for q y
    using that bu_wfD(2,3) [OF wf, of q y] r(1) x(2) a by auto
  ultimately show ?thesis
    using bu_wfD(4,5) [OF wf] unfolding bu_wf_def put_frame by blast
qed

lemma handleMultiple_alt:
  "handleMultipleBalanceUpdate r s = do {
     x \<leftarrow> deref (updateStore s) r;
     case bu_index s (BU_Reason x, BU_Address x) of
       Some q \<Rightarrow> map_option (\<lambda>s'. (s', True)) (updateLinkedBalanceUpdates q
                (s\<lparr>updateStore := modify q (mergeBalanceUpdate x) (updateStore s)\<rparr>))
     | None \<Rightarrow> map_option (\<lambda>s'. (s', False)) (updateLinkedBalanceUpdates r
                (enterBalanceUpdate r (BU_Reason x) (BU_Address x) s)) }"
  by (cases "deref (updateStore s) r")
    (simp_all add: handleMultipleBalanceUpdate_def bu_index_def map_conv_bind_option comp_def split: option.split)

lemma enter_frame [simp]:
  "updateStore (enterBalanceUpdate r c a s) = updateStore s" "stats (enterBalanceUpdate r c a s) = stats s"
  "P_balanceUpdates (pending (enterBalanceUpdate r c a s)) = P_balanceUpdates (pending s)"
  by (simp_all add: enterBalanceUpdate_def Let_def split: option.splits)

lemma bu_wf_enter:
  assumes "bu_wf rs A s" "deref (updateStore s) r = Some x" "r \<notin> set rs"
    "bu_key x = Some (c, a)" "completed x" "bu_index s (c, a) = None"
  shows "bu_wf (rs @ [r]) (insert a A) (enterBalanceUpdate r c a s)"
proof -
  let ?s1 = "putBalanceUpdate r c a s"
  have w: "bu_wf (rs @ [r]) (insert a A) ?s1" by (rule bu_wf_put [OF assms])
  have link: "bu_wf (rs @ [r]) (insert a A) (linkBalanceUpdates d r ?s1)"
    if "getPendingBalanceUpdate t a ?s1 = Some d" for t d
  proof (rule bu_wf_link [OF w])
    show "bu_index ?s1 (t, a) = Some d" using that by (simp only: bu_index_def fst_conv snd_conv)
    show "bu_index ?s1 (c, a) = Some r" by simp
  qed
  show ?thesis
    using w link by (auto simp: enterBalanceUpdate_def Let_def split: option.splits)
qed

definition bu_inv :: "session \<Rightarrow> bool" where
  "bu_inv s \<longleftrightarrow> bu_wf (S_BalanceUpdates (stats s)) (S_BalanceUpdateAddrs (stats s)) s"

text \<open>What processing the update \<open>r\<close> guarantees of the result.\<close>

definition processed :: "ref \<Rightarrow> session \<Rightarrow> session option \<Rightarrow> bool" where
  "processed r s res \<longleftrightarrow> (\<exists>s'. res = Some s' \<and> bu_inv s'
     \<and> set (S_BalanceUpdates (stats s')) \<subseteq> insert r (set (S_BalanceUpdates (stats s)))
     \<and> (\<forall>q. q \<noteq> r \<longrightarrow> q \<notin> set (S_BalanceUpdates (stats s)) \<longrightarrow>
          deref (updateStore s') q = deref (updateStore s) q)
     \<and> P_balanceUpdates (pending s') = P_balanceUpdates (pending s))"

lemma processedI:
  assumes "res = Some s'" "bu_inv s'"
    "set (S_BalanceUpdates (stats s')) \<subseteq> insert r (set (S_BalanceUpdates (stats s)))"
    "\<And>q. q \<noteq> r \<Longrightarrow> q \<notin> set (S_BalanceUpdates (stats s)) \<Longrightarrow> deref (updateStore s') q = deref (updateStore s) q"
    "P_balanceUpdates (pending s') = P_balanceUpdates (pending s)"
  shows "processed r s res"
  using assms by (auto simp: processed_def)

lemma append_frame [simp]:
  "updateStore (appendBalanceUpdate r a s) = updateStore s" "pending (appendBalanceUpdate r a s) = pending s"
  "S_BalanceUpdates (stats (appendBalanceUpdate r a s)) = S_BalanceUpdates (stats s) @ [r]"
  "S_BalanceUpdateAddrs (stats (appendBalanceUpdate r a s)) = insert a (S_BalanceUpdateAddrs (stats s))"
  by (simp_all add: appendBalanceUpdate_def afterBalanceUpdate_def)

text \<open>The invariant depends on the store, the index and the links only.\<close>

lemma bu_wf_cong:
  assumes "updateStore s' = updateStore s" "pending s' = pending s"
  shows "bu_wf rs A s' = bu_wf rs A s"
proof -
  have "bu_index s' = bu_index s"
    by (rule ext) (simp add: bu_index_def getPendingBalanceUpdate_def assms)
  then show ?thesis by (simp add: bu_wf_def assms)
qed

lemma handleOrAppend_keeps:
  assumes inv: "bu_inv s" and r: "deref (updateStore s) r = Some x" "r \<notin> set (S_BalanceUpdates (stats s))"
    and x: "bu_key x \<noteq> None" "completed x"
  shows "processed r s (handleOrAppend r (BU_Address x) s)"
proof -
  let ?rs = "S_BalanceUpdates (stats s)" and ?A = "S_BalanceUpdateAddrs (stats s)"
  let ?k = "(BU_Reason x, BU_Address x)"
  have wf: "bu_wf ?rs ?A s" using inv by (simp add: bu_inv_def)
  have k: "bu_key x = Some ?k" using x(1) by (auto simp: bu_key_def split: if_splits)
  show ?thesis
  proof (cases "bu_index s ?k")
    case (Some q)
    let ?s1 = "s\<lparr>updateStore := modify q (mergeBalanceUpdate x) (updateStore s)\<rparr>"
    obtain y where y: "q \<in> set ?rs" "deref (updateStore s) q = Some y" "completed y" "bu_key y = Some ?k"
      using bu_wf_indexed [OF wf Some] by blast
    have w1: "bu_wf ?rs ?A ?s1"
      by (rule linked_store_keeps [OF wf]) (use x(2) in \<open>simp_all add: mergeBalanceUpdate_keeps\<close>)
    have "store_step ?rs ?A ?s1 (updateLinkedBalanceUpdates q ?s1)"
      by (rule updateLinked_keeps [OF w1 y(1), where x = "mergeBalanceUpdate x y"])
        (use y in \<open>simp_all add: ref_simps mergeBalanceUpdate_keeps\<close>)
    then obtain st where st: "updateLinkedBalanceUpdates q ?s1 = Some (?s1\<lparr>updateStore := st\<rparr>)"
      "bu_wf ?rs ?A (?s1\<lparr>updateStore := st\<rparr>)" "\<And>p. p \<notin> set ?rs \<Longrightarrow> deref st p = deref (updateStore ?s1) p"
      unfolding store_step_def by blast
    show ?thesis
      by (rule processedI [of _ "?s1\<lparr>updateStore := st\<rparr>"])
        (use st y(1) r Some in \<open>auto simp: handleOrAppend_def handleMultiple_alt bu_inv_def ref_simps\<close>)
  next
    case None
    let ?s1 = "enterBalanceUpdate r (BU_Reason x) (BU_Address x) s"
    have w1: "bu_wf (?rs @ [r]) (insert (BU_Address x) ?A) ?s1"
      by (rule bu_wf_enter [OF wf r k x(2) None])
    have "store_step (?rs @ [r]) (insert (BU_Address x) ?A) ?s1 (updateLinkedBalanceUpdates r ?s1)"
      by (rule updateLinked_keeps [OF w1]) (use r x in simp_all)
    then obtain st where st: "updateLinkedBalanceUpdates r ?s1 = Some (?s1\<lparr>updateStore := st\<rparr>)"
      "bu_wf (?rs @ [r]) (insert (BU_Address x) ?A) (?s1\<lparr>updateStore := st\<rparr>)"
      "\<And>p. p \<notin> set (?rs @ [r]) \<Longrightarrow> deref st p = deref (updateStore ?s1) p"
      unfolding store_step_def by blast
    let ?s2 = "appendBalanceUpdate r (BU_Address x) (?s1\<lparr>updateStore := st\<rparr>)"
    have "bu_wf (?rs @ [r]) (insert (BU_Address x) ?A) ?s2"
      using st(2) bu_wf_cong [of ?s2 "?s1\<lparr>updateStore := st\<rparr>"] by simp
    then show ?thesis
      by (intro processedI [of _ ?s2])
        (use st r None in \<open>auto simp: handleOrAppend_def handleMultiple_alt bu_inv_def\<close>)
  qed
qed

section \<open>The completion of the pending updates\<close>

definition ready :: "session \<Rightarrow> ref \<Rightarrow> bool" where
  "ready s r \<longleftrightarrow> r \<notin> set (S_BalanceUpdates (stats s)) \<and> (\<exists>x. deref (updateStore s) r = Some x \<and> completed x
     \<and> BU_Reason x \<notin> {DelegatorEpochRewardReason, DelegateeEpochRewardReason})"

lemma burnt_bu_frame [simp]:
  "updateStore (addBurntCoins e a v c tx s) = updateStore s" "pending (addBurntCoins e a v c tx s) = pending s"
  "S_BalanceUpdates (stats (addBurntCoins e a v c tx s)) = S_BalanceUpdates (stats s)"
  "S_BalanceUpdateAddrs (stats (addBurntCoins e a v c tx s)) = S_BalanceUpdateAddrs (stats s)"
  by (simp_all add: addBurntCoins_def Let_def)

lemma bu_inv_cong:
  assumes "updateStore s' = updateStore s" "pending s' = pending s"
    "S_BalanceUpdates (stats s') = S_BalanceUpdates (stats s)"
    "S_BalanceUpdateAddrs (stats s') = S_BalanceUpdateAddrs (stats s)"
  shows "bu_inv s' = bu_inv s"
  using bu_wf_cong [OF assms(1,2)] by (simp add: bu_inv_def assms(3,4))

lemma bu_wf_plain:
  assumes wf: "bu_wf rs A s" and r: "deref (updateStore s) r = Some x" "r \<notin> set rs" "bu_key x = None"
  shows "bu_wf (rs @ [r]) (insert (BU_Address x) A) s"
proof -
  have "wf_index bu_key (rs @ [r]) (bu_index s) (updateStore s)"
    by (rule wf_index_add [OF bu_wfD(1) [OF wf] r(1,2)]) (simp_all add: r(3))
  then show ?thesis using bu_wfD(2-5) [OF wf] r unfolding bu_wf_def by fastforce
qed

lemma processed_cong:
  assumes "processed r s1 res" "updateStore s1 = updateStore s" "pending s1 = pending s"
    "S_BalanceUpdates (stats s1) = S_BalanceUpdates (stats s)"
  shows "processed r s res"
  using assms by (simp add: processed_def)

lemma isChanged_defined: "completed x \<Longrightarrow> \<exists>c. isBalanceOrStakeOrPenaltyChanged x = Some c"
  by (auto simp: completed_def isBalanceOrStakeOrPenaltyChanged_def valueOrZero_def split: option.splits)

lemma completeLoopStep_keeps:
  assumes inv: "bu_inv s" and ready: "ready s r"
  shows "processed r s (completeLoopStep e r s)"
proof -
  obtain x where x: "deref (updateStore s) r = Some x" "completed x" "r \<notin> set (S_BalanceUpdates (stats s))"
    "BU_Reason x \<notin> {DelegatorEpochRewardReason, DelegateeEpochRewardReason}"
    using ready by (auto simp: ready_def)
  obtain c where c: "isBalanceOrStakeOrPenaltyChanged x = Some c" using isChanged_defined [OF x(2)] by blast
  let ?s1 = "if BU_Reason x = DustClearingReason
    then addBurntCoins e (BU_Address x) (BU_BalanceOld x) DustClearingBurntCoins None s else s"
  have s1: "updateStore ?s1 = updateStore s" "pending ?s1 = pending s"
    "S_BalanceUpdates (stats ?s1) = S_BalanceUpdates (stats s)"
    "S_BalanceUpdateAddrs (stats ?s1) = S_BalanceUpdateAddrs (stats s)" by simp_all
  have inv1: "bu_inv ?s1" using inv bu_inv_cong [OF s1] by simp
  consider "\<not> c" | (merged) "c" "BU_Reason x \<in> {EpochRewardReason, CommitteeRewardReason, VerifiedStakeTransferReason}"
    | (plain) "c" "BU_Reason x \<notin> {EpochRewardReason, CommitteeRewardReason, VerifiedStakeTransferReason}" by blast
  then show ?thesis
  proof cases
    case 1
    then show ?thesis
      using inv x(1) c by (intro processedI [of _ s]) (auto simp: completeLoopStep_def)
  next
    case merged
    have "processed r ?s1 (handleOrAppend r (BU_Address x) ?s1)"
      by (rule handleOrAppend_keeps [OF inv1])
        (use x s1 merged(2) in \<open>auto simp: bu_key_def merged_reasons_def\<close>)
    from processed_cong [OF this s1(1-3)] show ?thesis
      using x(1) c merged by (auto simp: completeLoopStep_def Let_def)
  next
    case plain
    let ?s2 = "appendBalanceUpdate r (BU_Address x) ?s1"
    have "bu_wf (S_BalanceUpdates (stats s) @ [r]) (insert (BU_Address x) (S_BalanceUpdateAddrs (stats s))) ?s1"
      using inv1 x s1 plain(2) unfolding bu_inv_def
      by (intro bu_wf_plain) (auto simp: bu_key_def merged_reasons_def)
    then have "bu_wf (S_BalanceUpdates (stats s) @ [r]) (insert (BU_Address x) (S_BalanceUpdateAddrs (stats s))) ?s2"
      using bu_wf_cong [of ?s2 ?s1] by simp
    then have "bu_inv ?s2" using s1 by (simp add: bu_inv_def)
    then show ?thesis
      using x(1) c plain s1 by (intro processedI [of _ ?s2]) (auto simp: completeLoopStep_def Let_def)
  qed
qed

lemma ready_step:
  assumes "processed r s (Some s')" "ready s q" "q \<noteq> r"
  shows "ready s' q"
  using assms unfolding processed_def ready_def by auto

lemma completeLoop_keeps:
  assumes "bu_inv s" "distinct todo" "\<forall>r \<in> set todo. ready s r"
  shows "\<exists>s'. run_steps (completeLoopStep e) todo s = Some s' \<and> bu_inv s'
    \<and> P_balanceUpdates (pending s') = P_balanceUpdates (pending s)"
  using assms
proof (induction todo arbitrary: s)
  case Nil
  then show ?case by simp
next
  case (Cons r todo)
  have p: "processed r s (completeLoopStep e r s)"
    by (rule completeLoopStep_keeps) (use Cons.prems in auto)
  then obtain s1 where s1: "completeLoopStep e r s = Some s1" "bu_inv s1"
    "P_balanceUpdates (pending s1) = P_balanceUpdates (pending s)"
    by (auto simp: processed_def)
  have "\<forall>q \<in> set todo. ready s1 q"
    using ready_step [OF p [unfolded s1(1)]] Cons.prems by auto
  from Cons.IH [OF s1(2) _ this] Cons.prems s1 show ?case by auto
qed

section \<open>The split of a delegated reward\<close>

definition listable :: "session \<Rightarrow> ref \<times> address \<Rightarrow> bool" where
  "listable s q \<longleftrightarrow> fst q \<notin> set (S_BalanceUpdates (stats s)) \<and> (\<exists>x. deref (updateStore s) (fst q) = Some x
     \<and> completed x \<and> bu_key x \<noteq> None \<and> BU_Address x = snd q)"

lemma handleAll_keeps:
  assumes "bu_inv s" "distinct (map fst todo)" "\<forall>q \<in> set todo. listable s q"
  shows "\<exists>s'. run_steps (\<lambda>(r, a). handleOrAppend r a) todo s = Some s' \<and> bu_inv s'
    \<and> P_balanceUpdates (pending s') = P_balanceUpdates (pending s)"
  using assms
proof (induction todo arbitrary: s)
  case Nil
  then show ?case by simp
next
  case (Cons q todo)
  obtain r a where q: "q = (r, a)" by (cases q)
  have p: "processed r s (handleOrAppend r a s)"
    using Cons.prems q handleOrAppend_keeps [OF Cons.prems(1), of r] by (auto simp: listable_def)
  then obtain s1 where s1: "handleOrAppend r a s = Some s1" "bu_inv s1"
    "P_balanceUpdates (pending s1) = P_balanceUpdates (pending s)"
    by (auto simp: processed_def)
  have "listable s1 q'" if "q' \<in> set todo" for q'
  proof -
    have "fst q' \<noteq> r" using that Cons.prems(2) q by force
    moreover have "listable s q'" using that Cons.prems(3) by simp
    ultimately show ?thesis using p s1(1) unfolding processed_def listable_def by auto
  qed
  with Cons.IH [OF s1(2)] Cons.prems(2) s1 q show ?case by auto
qed

text \<open>The updates a split makes of the delegator's update \<open>x\<close> and the change \<open>d\<close> of the pool.\<close>

definition rewardPart :: "BalanceUpdate \<Rightarrow> int \<Rightarrow> BalanceUpdate" where
  "rewardPart x b = x\<lparr>BU_BalanceNew := Some b, BU_PenaltyPayment := None, BU_TxHash := None,
     BU_Reason := EpochRewardReason, BU_ContractAddress := None\<rparr>"

definition transferPart :: "BalanceUpdate \<Rightarrow> int \<Rightarrow> BalanceUpdate" where
  "transferPart x b = \<lparr>BU_Address = BU_Address x, BU_BalanceOld = Some b,
     BU_StakeOld = BU_StakeNew x, BU_PenaltyOld = BU_PenaltyNew x,
     BU_PenaltySecondsOld = BU_PenaltySecondsNew x, BU_BalanceNew = BU_BalanceNew x,
     BU_StakeNew = BU_StakeNew x, BU_PenaltyNew = BU_PenaltyNew x,
     BU_PenaltySecondsNew = BU_PenaltySecondsNew x, BU_PenaltyPayment = None,
     BU_TxHash = None, BU_Reason = DelegatorEpochRewardReason, BU_ContractAddress = None\<rparr>"

definition splitStore :: "ref \<Rightarrow> BalanceUpdate \<Rightarrow> int \<Rightarrow> BalanceUpdate store \<Rightarrow> BalanceUpdate store" where
  "splitStore q x b st = modify q (\<lambda>y. y\<lparr>BU_Reason := DelegateeEpochRewardReason\<rparr>)
     (alloc (transferPart x b) (alloc (rewardPart x b) st))"

lemma splitEpochReward_alt:
  assumes "deref (updateStore s) p = Some x" "deref (updateStore s) q = Some y"
    "BU_BalanceOld x = Some xo" "BU_BalanceOld y = Some yo" "BU_BalanceNew y = Some yn"
  shows "splitEpochReward p q s = run_steps (\<lambda>(r, a). handleOrAppend r a)
    [(fresh (updateStore s), BU_Address x), (Suc (fresh (updateStore s)), BU_Address x), (q, BU_Address y)]
    (s\<lparr>updateStore := splitStore q x (xo + (yn - yo)) (updateStore s)\<rparr>)"
  using assms
  by (simp add: splitEpochReward_def Let_def splitStore_def rewardPart_def transferPart_def ref_simps
      split: option.split)

lemma splitEpochReward_keeps:
  assumes inv: "bu_inv s" and p: "ready s p" and q: "ready s q" "p \<noteq> q"
  shows "\<exists>s'. splitEpochReward p q s = Some s' \<and> bu_inv s'
    \<and> P_balanceUpdates (pending s') = P_balanceUpdates (pending s)"
proof -
  let ?rs = "S_BalanceUpdates (stats s)" and ?st = "updateStore s"
  obtain x where x: "deref ?st p = Some x" "completed x" using p by (auto simp: ready_def)
  obtain y where y: "deref ?st q = Some y" "completed y" "q \<notin> set ?rs" using q by (auto simp: ready_def)
  obtain xo where xo: "BU_BalanceOld x = Some xo" using x(2) by (auto simp: completed_def)
  obtain yo yn where yv: "BU_BalanceOld y = Some yo" "BU_BalanceNew y = Some yn"
    using y(2) by (auto simp: completed_def)
  let ?s1 = "s\<lparr>updateStore := splitStore q x (xo + (yn - yo)) ?st\<rparr>"
  have wf: "bu_wf ?rs (S_BalanceUpdateAddrs (stats s)) s" using inv by (simp add: bu_inv_def)
  have old: "r \<noteq> fresh ?st \<and> r \<noteq> Suc (fresh ?st)" if "deref ?st r = Some z" for r z
    using deref_Some_less [OF that] by auto
  have new: "fresh ?st \<notin> set ?rs" "Suc (fresh ?st) \<notin> set ?rs"
    using wf_indexD(2) [OF bu_wfD(1) [OF wf]] old by blast+
  have inv1: "bu_inv ?s1"
    unfolding bu_inv_def
    by (simp, rule bu_wf_store [OF wf]) (use old y(3) in \<open>auto simp: ref_simps splitStore_def\<close>)
  have "\<forall>t \<in> set [(fresh ?st, BU_Address x), (Suc (fresh ?st), BU_Address x), (q, BU_Address y)]. listable ?s1 t"
    using new y x(2) old [OF y(1)]
    by (auto simp: listable_def splitStore_def ref_simps rewardPart_def transferPart_def completed_def
        bu_key_def merged_reasons_def)
  from handleAll_keeps [OF inv1 _ this] show ?thesis
    using old [OF y(1)] by (simp add: splitEpochReward_alt [OF x(1) y(1) xo yv] del: run_steps.simps)
qed

section \<open>Every balance call\<close>

definition opened :: "session \<Rightarrow> ref \<Rightarrow> bool" where
  "opened s r \<longleftrightarrow> r \<notin> set (S_BalanceUpdates (stats s)) \<and> (\<exists>x. deref (updateStore s) r = Some x
     \<and> BU_BalanceOld x \<noteq> None \<and> BU_StakeOld x \<noteq> None
     \<and> BU_Reason x \<notin> {DelegatorEpochRewardReason, DelegateeEpochRewardReason})"

definition balance_inv :: "session \<Rightarrow> bool" where
  "balance_inv s \<longleftrightarrow> bu_inv s \<and> distinct (P_balanceUpdates (pending s))
     \<and> (\<forall>r \<in> set (P_balanceUpdates (pending s)). opened s r)"

lemma deref_fold_modify:
  "distinct ps \<Longrightarrow> deref (fold (\<lambda>r. modify r f) ps st) q =
     (if q \<in> set ps then map_option f (deref st q) else deref st q)"
  by (induction ps arbitrary: st) (auto simp: ref_simps)

lemma completeOne_simps:
  "BU_Reason (completeOne st x) = BU_Reason x"
  "completed (completeOne st x) \<longleftrightarrow> BU_BalanceOld x \<noteq> None \<and> BU_StakeOld x \<noteq> None"
  by (simp_all add: completeOne_def completed_def getStakeIfNotKilled_def)

lemma complete_ready:
  assumes inv: "balance_inv s"
  shows "bu_inv (fst (completeBalanceUpdates st s))"
    and "\<forall>r \<in> set (P_balanceUpdates (pending s)). ready (fst (completeBalanceUpdates st s)) r"
    and "P_balanceUpdates (pending (fst (completeBalanceUpdates st s))) = []"
    and "distinct (P_balanceUpdates (pending s))"
proof -
  let ?ps = "P_balanceUpdates (pending s)"
  let ?st = "fold (\<lambda>r. modify r (completeOne st)) ?ps (updateStore s)"
  let ?s1 = "fst (completeBalanceUpdates st s)"
  show d: "distinct ?ps" using inv by (simp add: balance_inv_def)
  have wf: "bu_wf (S_BalanceUpdates (stats s)) (S_BalanceUpdateAddrs (stats s)) s"
    using inv by (simp add: balance_inv_def bu_inv_def)
  have "bu_wf (S_BalanceUpdates (stats s)) (S_BalanceUpdateAddrs (stats s)) (s\<lparr>updateStore := ?st\<rparr>)"
    by (rule bu_wf_store [OF wf])
      (use inv in \<open>auto simp: deref_fold_modify [OF d] balance_inv_def opened_def\<close>)
  moreover have ix: "bu_index ?s1 = bu_index (s\<lparr>updateStore := ?st\<rparr>)"
    by (rule ext) (simp add: completeBalanceUpdates_def bu_index_def getPendingBalanceUpdate_def)
  ultimately show "bu_inv ?s1"
    by (simp add: bu_inv_def bu_wf_def ix) (simp add: completeBalanceUpdates_def)
  show "\<forall>r \<in> set ?ps. ready ?s1 r"
    using inv d by (auto simp: completeBalanceUpdates_def deref_fold_modify ready_def balance_inv_def
        opened_def completeOne_simps)
  show "P_balanceUpdates (pending ?s1) = []" by (simp add: completeBalanceUpdates_def)
qed

lemma CompleteBalanceUpdate_keeps:
  assumes inv: "balance_inv s"
  shows "\<exists>s'. CompleteBalanceUpdate e st s = Some s' \<and> balance_inv s'"
proof -
  obtain s1 ps where c: "completeBalanceUpdates st s = (s1, ps)" by fastforce
  have ps: "ps = P_balanceUpdates (pending s)" using c by (simp add: completeBalanceUpdates_def)
  have b: "bu_inv s1" "\<forall>r \<in> set ps. ready s1 r" "P_balanceUpdates (pending s1) = []" "distinct ps"
    using complete_ready(1-3) [OF inv, of st] complete_ready(4) [OF inv] c ps by simp_all
  have generic: "\<exists>s'. run_steps (completeLoopStep e) ps s1 = Some s' \<and> balance_inv s'"
    using completeLoop_keeps [OF b(1,4,2), of e] b(3) by (auto simp: balance_inv_def)
  have split: "\<exists>s'. splitEpochReward p q s1 = Some s' \<and> balance_inv s'"
    if "p \<in> set ps" "q \<in> set ps" "p \<noteq> q" for p q
    using splitEpochReward_keeps [of s1 p q] b that by (auto simp: balance_inv_def)
  show ?thesis
  proof (cases "\<exists>p q. ps = [p, q]")
    case False
    then show ?thesis
      using generic by (auto simp: CompleteBalanceUpdate_def c Let_def split: list.splits)
  next
    case True
    then obtain p q where pq: "ps = [p, q]" by blast
    then obtain x y where xy: "deref (updateStore s1) p = Some x" "deref (updateStore s1) q = Some y" "completed x"
      using b(2) by (auto simp: ready_def)
    obtain ch where ch: "isBalanceChanged x = Some ch"
      using xy(3) by (auto simp: isBalanceChanged_def completed_def)
    have "\<exists>s'. splitEpochReward p q s1 = Some s' \<and> balance_inv s'"
      "\<exists>s'. splitEpochReward q p s1 = Some s' \<and> balance_inv s'"
      using split pq b(4) by auto
    then show ?thesis
      using generic by (simp add: CompleteBalanceUpdate_def c pq xy ch Let_def del: run_steps.simps)
  qed
qed

lemma addPending_keeps:
  assumes inv: "balance_inv s" and c: "c \<notin> {DelegatorEpochRewardReason, DelegateeEpochRewardReason}"
  shows "balance_inv (addPendingBalanceUpdate a st c h v s)"
proof -
  let ?s1 = "addPendingBalanceUpdate a st c h v s"
  obtain bu where bu: "updateStore ?s1 = alloc bu (updateStore s)" "BU_BalanceOld bu \<noteq> None"
    "BU_StakeOld bu \<noteq> None" "BU_Reason bu = c"
    by (simp add: addPendingBalanceUpdate_def Let_def getStakeIfNotKilled_def)
  have pend: "P_balanceUpdates (pending ?s1) = P_balanceUpdates (pending s) @ [fresh (updateStore s)]"
    and stats: "stats ?s1 = stats s"
    by (simp_all add: addPendingBalanceUpdate_def Let_def)
  have wf: "bu_wf (S_BalanceUpdates (stats s)) (S_BalanceUpdateAddrs (stats s)) s"
    using inv by (simp add: balance_inv_def bu_inv_def)
  have new: "fresh (updateStore s) \<notin> set (S_BalanceUpdates (stats s))"
    by (rule wf_index_fresh [OF bu_wfD(1) [OF wf]])
  have old: "fresh (updateStore s) \<notin> set (P_balanceUpdates (pending s))"
    using inv deref_fresh [of "updateStore s"] by (auto simp: balance_inv_def opened_def)
  have "bu_wf (S_BalanceUpdates (stats s)) (S_BalanceUpdateAddrs (stats s)) (s\<lparr>updateStore := alloc bu (updateStore s)\<rparr>)"
    by (rule bu_wf_store [OF wf]) (use new in \<open>auto simp: ref_simps\<close>)
  moreover have ix: "bu_index ?s1 = bu_index (s\<lparr>updateStore := alloc bu (updateStore s)\<rparr>)"
    by (rule ext) (simp add: addPendingBalanceUpdate_def Let_def bu_index_def getPendingBalanceUpdate_def)
  moreover have "P_linkedBalanceUpdatesByNext (pending ?s1) = P_linkedBalanceUpdatesByNext (pending s)"
    "P_linkedBalanceUpdatesByPrev (pending ?s1) = P_linkedBalanceUpdatesByPrev (pending s)"
    by (simp_all add: addPendingBalanceUpdate_def Let_def)
  ultimately have "bu_inv ?s1" by (simp add: bu_inv_def bu_wf_def stats bu(1))
  moreover have "opened ?s1 r" if "r \<in> set (P_balanceUpdates (pending ?s1))" for r
    using that inv new bu c by (auto simp: pend stats opened_def balance_inv_def ref_simps)
  ultimately show ?thesis using inv old by (simp add: balance_inv_def pend)
qed

lemma addAdditional_keeps: "balance_inv s \<Longrightarrow> balance_inv (addAdditional st h A adds s)"
  by (induction st h A adds s rule: addAdditional.induct) (simp_all add: addPending_keeps)

lemma balance_inv_cong:
  assumes "updateStore s' = updateStore s" "pending s' = pending s"
    "S_BalanceUpdates (stats s') = S_BalanceUpdates (stats s)"
    "S_BalanceUpdateAddrs (stats s') = S_BalanceUpdateAddrs (stats s)"
  shows "balance_inv s' = balance_inv s"
  using bu_inv_cong [OF assms] by (simp add: balance_inv_def opened_def assms)

lemma clearing_keeps:
  assumes "balance_inv s"
  shows "balance_inv (BeginIdentityClearingBalanceUpdate e a st s)"
proof -
  have "balance_inv (addPendingBalanceUpdate a st IdentityClearingReason None None s)"
    by (rule addPending_keeps [OF assms]) simp
  then show ?thesis
    by (subst balance_inv_cong [of _ "addPendingBalanceUpdate a st IdentityClearingReason None None s"])
      (simp_all add: BeginIdentityClearingBalanceUpdate_def Let_def AddKilledBurntCoins_def)
qed

lemma balance_step_defined:
  assumes "balance_inv s"
  shows "\<exists>s'. balance_step e c s = Some s' \<and> balance_inv s'"
  using assms
  by (cases c) (auto simp: BeginVerifiedStakeTransferBalanceUpdate_def BeginTxBalanceUpdate_def
      BeginProposerRewardBalanceUpdate_def BeginCommitteeRewardBalanceUpdate_def
      BeginEpochRewardBalanceUpdate_def BeginFailedValidationBalanceUpdate_def BeginPenaltyBalanceUpdate_def
      BeginEpochPenaltyResetBalanceUpdate_def BeginDustClearingBalanceUpdate_def Let_def
      CompleteBalanceUpdate_keeps clearing_keeps addAdditional_keeps addPending_keeps split: option.splits)

interpretation balances: total_steps "balance_step e" balance_inv
  by unfold_locales (metis balance_step_defined option.inject, metis balance_step_defined)

lemma balance_inv_start: "balance_inv emptySession"
  by (simp add: balance_inv_def bu_inv_def bu_wf_def wf_index_def bu_index_def getPendingBalanceUpdate_def
      emptySession_def emptyStats_def emptyPending_def)

section \<open>Properties\<close>

text \<open>A state of the node in which the address 8 has the balance \<open>v\<close> and the others none.\<close>

definition sampleState :: "int \<Rightarrow> app_state" where
  "sampleState v = sampleApp\<lparr>AS_GetBalance := (\<lambda>a. if a = 8 then v else 0)\<rparr>"

definition sampleBalanceCalls :: "balance_call list" where
  "sampleBalanceCalls = [CallBeginEpochReward 8 8 (sampleState 1), CallComplete (sampleState 5),
     CallBeginEpochReward 8 8 (sampleState 5), CallComplete (sampleState 9)]"

definition samplePart :: "int \<Rightarrow> int \<Rightarrow> BalanceUpdate" where
  "samplePart old new = \<lparr>BU_Address = 8, BU_BalanceOld = Some old, BU_StakeOld = Some 0, BU_PenaltyOld = None,
     BU_PenaltySecondsOld = 0, BU_BalanceNew = Some new, BU_StakeNew = Some 0, BU_PenaltyNew = None,
     BU_PenaltySecondsNew = 0, BU_PenaltyPayment = None, BU_TxHash = None, BU_Reason = EpochRewardReason,
     BU_ContractAddress = None\<rparr>"

lemmas balance_eval = CompleteBalanceUpdate_def BeginEpochRewardBalanceUpdate_def Let_def
  completeBalanceUpdates_def addPendingBalanceUpdate_def emptySession_def emptyPending_def emptyStats_def
  isDelegatedReward_def completeOne_def isBalanceChanged_def deref_def alloc_def fresh_def modify_def
  splitEpochReward_def nth_append handleOrAppend_def handleMultipleBalanceUpdate_def
  getPendingBalanceUpdate_def enterBalanceUpdate_def putBalanceUpdate_def updateLinkedBalanceUpdates_def
  linkedReasons_def linkBalanceUpdates_def appendBalanceUpdate_def afterBalanceUpdate_def

text \<open>C18: no sequence of balance calls panics: every \<open>Begin...\<close> call and every completion returns,
  from a new session on, whatever the node's states, addresses and amounts are.\<close>

theorem balance_calls_complete:
  "\<exists>s. run_steps (balance_step e) calls emptySession = Some s"
  by (rule balances.run_defined [OF balance_inv_start])

text \<open>after any sequence of balance calls, every listed balance update is an update of an
  address in \<open>BalanceUpdateAddrs\<close> (the addresses whose balances the indexer then stores).\<close>

theorem balance_updates_touch_addresses:
  assumes "run_steps (balance_step e) calls emptySession = Some s" "r \<in> set (S_BalanceUpdates (stats s))"
  shows "\<exists>x. deref (updateStore s) r = Some x \<and> BU_Address x \<in> S_BalanceUpdateAddrs (stats s)"
proof -
  have wf: "bu_wf (S_BalanceUpdates (stats s)) (S_BalanceUpdateAddrs (stats s)) s"
    using balances.run_inv [OF balance_inv_start assms(1)] by (simp add: balance_inv_def bu_inv_def)
  obtain x where "deref (updateStore s) r = Some x"
    using wf_indexD(2) [OF bu_wfD(1) [OF wf] assms(2)] by blast
  with bu_wfD(2) [OF wf assms(2)] show ?thesis by blast
qed

theorem balance_updates_touch_addresses_witness:
  "\<exists>s. run_steps (balance_step sampleExt) sampleBalanceCalls emptySession = Some s
     \<and> S_BalanceUpdates (stats s) = [0] \<and> (\<exists>x. deref (updateStore s) 0 = Some x \<and> BU_Address x \<in> S_BalanceUpdateAddrs (stats s))"
proof -
  have "map_option (\<lambda>s. S_BalanceUpdates (stats s)) (run_steps (balance_step sampleExt) sampleBalanceCalls emptySession)
      = Some [0]"
    by code_simp
  then obtain s where s: "run_steps (balance_step sampleExt) sampleBalanceCalls emptySession = Some s"
      "S_BalanceUpdates (stats s) = [0]"
    by auto
  with balance_updates_touch_addresses [OF s(1), of 0] show ?thesis by simp
qed

text \<open>C9: after any sequence of balance calls, there is at most one listed update of an address for
  each of the merged reasons: epoch reward, committee reward, verified-stake transfer and the two
  parts of a delegated reward.\<close>

theorem merged_balance_updates_unique:
  assumes "run_steps (balance_step e) calls emptySession = Some s"
    and "p \<in> set (S_BalanceUpdates (stats s))" "deref (updateStore s) p = Some x"
    and "q \<in> set (S_BalanceUpdates (stats s))" "deref (updateStore s) q = Some y"
    and "BU_Reason x = BU_Reason y" "BU_Address x = BU_Address y" "BU_Reason x \<in> merged_reasons"
  shows "p = q"
proof -
  have wf: "bu_wf (S_BalanceUpdates (stats s)) (S_BalanceUpdateAddrs (stats s)) s"
    using balances.run_inv [OF balance_inv_start assms(1)] by (simp add: balance_inv_def bu_inv_def)
  show ?thesis
    by (rule wf_index_unique [OF bu_wfD(1) [OF wf] assms(2-5)]) (use assms(6-8) in \<open>simp_all add: bu_key_def\<close>)
qed

theorem merged_balance_updates_unique_witness:
  "\<exists>s. run_steps (balance_step sampleExt) sampleBalanceCalls emptySession = Some s
     \<and> (\<forall>p x. p \<in> set (S_BalanceUpdates (stats s)) \<longrightarrow> deref (updateStore s) p = Some x \<longrightarrow>
          BU_Reason x = EpochRewardReason \<longrightarrow> BU_Address x = 8 \<longrightarrow> p = 0)"
proof -
  have "map_option (\<lambda>s. (S_BalanceUpdates (stats s), map_option (\<lambda>x. (BU_Reason x, BU_Address x)) (deref (updateStore s) 0)))
      (run_steps (balance_step sampleExt) sampleBalanceCalls emptySession) = Some ([0], Some (EpochRewardReason, 8))"
    by code_simp
  then obtain s y where s: "run_steps (balance_step sampleExt) sampleBalanceCalls emptySession = Some s"
      "S_BalanceUpdates (stats s) = [0]" "deref (updateStore s) 0 = Some y" "BU_Reason y = EpochRewardReason"
      "BU_Address y = 8"
    by auto
  with merged_balance_updates_unique [OF s(1) _ _ _ s(3)] show ?thesis
    by (auto simp: merged_reasons_def)
qed

text \<open>when an update that another one follows (\<open>linkedBalanceUpdatesByPrev\<close>) ends at a new
  balance, the following update is moved behind it: it starts where the first one now ends, it ends
  at the new balance and stake, and its own change is what it was.\<close>

theorem linked_updates_stay_adjacent:
  assumes "deref (updateStore s) r = Some x" "deref (updateStore s) n = Some y" "n \<noteq> r"
    and "BU_Reason x \<in> {EpochRewardReason, DelegatorEpochRewardReason, DelegateeEpochRewardReason}"
    and "P_linkedBalanceUpdatesByNext (pending s) r = None" "P_linkedBalanceUpdatesByPrev (pending s) r = Some n"
    and "BU_BalanceNew x = Some xn" "BU_StakeNew x = Some xt"
    and "BU_BalanceOld y = Some yo" "BU_BalanceNew y = Some yn" "BU_StakeOld y = Some ys" "BU_StakeNew y = Some yt"
  shows "\<exists>s' x' y'. updateLinkedBalanceUpdates r s = Some s'
    \<and> deref (updateStore s') r = Some x' \<and> deref (updateStore s') n = Some y'
    \<and> BU_BalanceOld x' = BU_BalanceOld x \<and> BU_BalanceOld y' = BU_BalanceNew x' \<and> BU_BalanceNew y' = Some xn
    \<and> bigSub (BU_BalanceNew y') (BU_BalanceOld y') = bigSub (BU_BalanceNew y) (BU_BalanceOld y)
    \<and> BU_StakeOld x' = BU_StakeOld x \<and> BU_StakeOld y' = BU_StakeNew x' \<and> BU_StakeNew y' = Some xt
    \<and> bigSub (BU_StakeNew y') (BU_StakeOld y') = bigSub (BU_StakeNew y) (BU_StakeOld y)"
proof -
  have rel: "BU_Reason x \<in> linkedReasons"
    using assms(4) by (auto simp: linkedReasons_def)
  show ?thesis
    unfolding updateLinked_next [OF assms(1) rel assms(5,6,2,7-12)]
    using assms(1,2,3,9-12) by (simp add: ref_simps)
qed

theorem linked_updates_stay_adjacent_witness:
  "\<exists>s' x' y'. updateLinkedBalanceUpdates 0 (linkBalanceUpdates 0 1 (emptySession\<lparr>updateStore :=
       [rewardPart (transferPart (samplePart 5 9) 3) 9, transferPart (samplePart 4 4) 7]\<rparr>)) = Some s'
    \<and> deref (updateStore s') 0 = Some x' \<and> deref (updateStore s') 1 = Some y'
    \<and> BU_BalanceNew x' = BU_BalanceOld y' \<and> BU_BalanceNew y' = Some 9"
proof -
  let ?x = "rewardPart (transferPart (samplePart 5 9) 3) 9" and ?y = "transferPart (samplePart 4 4) 7"
  let ?s = "linkBalanceUpdates 0 1 (emptySession\<lparr>updateStore := [?x, ?y]\<rparr>)"
  have "deref (updateStore ?s) 0 = Some ?x" "deref (updateStore ?s) 1 = Some ?y"
    by (simp_all add: deref_def)
  from linked_updates_stay_adjacent [OF this, where xn = 9 and xt = 0 and yo = 7 and yn = 4 and ys = 0 and yt = 0]
  show ?thesis
    by (auto simp: linkBalanceUpdates_def emptySession_def emptyPending_def rewardPart_def transferPart_def
        samplePart_def)
qed

text \<open>the epoch reward of a delegator that its pool receives becomes three adjacent updates: the
  delegator's balance grows by the pool's gain, then falls back to what it really is, and the pool's
  balance goes from its old to its new value.\<close>

theorem delegated_reward_split:
  assumes "pool \<noteq> delegator" "AS_GetBalance st1 pool \<noteq> AS_GetBalance st0 pool"
  shows "\<exists>s rw tr dt. CompleteBalanceUpdate e st1 (BeginEpochRewardBalanceUpdate pool delegator st0 emptySession) = Some s
    \<and> map (deref (updateStore s)) (S_BalanceUpdates (stats s)) = [Some rw, Some tr, Some dt]
    \<and> map BU_Address [rw, tr, dt] = [delegator, delegator, pool]
    \<and> map BU_Reason [rw, tr, dt] = [EpochRewardReason, DelegatorEpochRewardReason, DelegateeEpochRewardReason]
    \<and> map BU_BalanceOld [rw, tr, dt] = [Some (AS_GetBalance st0 delegator), BU_BalanceNew rw, Some (AS_GetBalance st0 pool)]
    \<and> map BU_BalanceNew [rw, tr, dt] = [Some (AS_GetBalance st0 delegator + (AS_GetBalance st1 pool - AS_GetBalance st0 pool)),
        Some (AS_GetBalance st1 delegator), Some (AS_GetBalance st1 pool)]"
  using assms by (simp add: balance_eval)

theorem delegated_reward_split_witness:
  "\<exists>s rw tr dt. CompleteBalanceUpdate sampleExt (sampleState 30)
      (BeginEpochRewardBalanceUpdate 8 7 (sampleState 10) emptySession) = Some s
    \<and> map (deref (updateStore s)) (S_BalanceUpdates (stats s)) = [Some rw, Some tr, Some dt]
    \<and> map BU_BalanceNew [rw, tr, dt] = [Some 20, Some 0, Some 30]"
  using delegated_reward_split [of 8 7 "sampleState 30" "sampleState 10" sampleExt]
  by (auto simp: sampleState_def)

text \<open>C21: the completion takes the first of the two updates, the pool's, for the delegator's when
  the balance of the pool has not changed (a reward that only adds to the delegator's stake): the
  three updates then name the pool as the delegator and the delegator as the pool.\<close>

theorem stake_only_reward_swaps_roles:
  assumes "pool \<noteq> delegator" "AS_GetBalance st1 pool = AS_GetBalance st0 pool"
  shows "\<exists>s rw tr dt. CompleteBalanceUpdate e st1 (BeginEpochRewardBalanceUpdate pool delegator st0 emptySession) = Some s
    \<and> map (deref (updateStore s)) (S_BalanceUpdates (stats s)) = [Some rw, Some tr, Some dt]
    \<and> map BU_Address [rw, tr, dt] = [pool, pool, delegator]
    \<and> map BU_Reason [rw, tr, dt] = [EpochRewardReason, DelegatorEpochRewardReason, DelegateeEpochRewardReason]"
  using assms by (simp add: balance_eval)

theorem stake_only_reward_swaps_roles_witness:
  "\<exists>s rw tr dt. CompleteBalanceUpdate sampleExt (sampleState 10)
      (BeginEpochRewardBalanceUpdate 8 7 (sampleState 10) emptySession) = Some s
    \<and> map (deref (updateStore s)) (S_BalanceUpdates (stats s)) = [Some rw, Some tr, Some dt]
    \<and> map BU_Address [rw, tr, dt] = [8, 8, 7]"
  using stake_only_reward_swaps_roles [of 8 7 "sampleState 10" "sampleState 10" sampleExt] by auto

end
