(* ===== verification/Token_Collector.thy ===== *)
theory Token_Collector
  imports Stats_Types Merge_Index
begin

text \<open>
  Token balances (\<open>src/core/stats/collector_contract.go\<close>): calls of a token contract through the
  virtual machine, the detection of the holders a receipt touches, and the collector that keeps
  one balance per contract and holder over the receipts of a block and asks the contract again
  for every holder a receipt touches.
\<close>

section \<open>Calls of a token contract\<close>

text \<open>
  The virtual machine, the payload and protobuf codecs, \<open>helpers.ExtractByte\<close> and the address
  conversions belong to the node and are arguments. An error is a string, \<open>Inl\<close>.
\<close>

record vm_result =
  VM_Success :: bool
  VM_Error :: "string option"
  VM_ActionResult :: bytes

record token_env =
  TE_payload :: "string \<Rightarrow> bytes list \<Rightarrow> string + bytes"
  TE_run :: "app_state \<Rightarrow> address \<Rightarrow> bytes \<Rightarrow> vm_result"
  TE_unmarshal :: "bytes \<Rightarrow> bytes option"
  TE_extractByte :: "bytes \<Rightarrow> string + byte"
  TE_balanceArgs :: "bytes \<Rightarrow> bytes list"
  TE_addressBytes :: "address \<Rightarrow> bytes"
  TE_setBytes :: "bytes \<Rightarrow> address"

text \<open>The names of the token standard.\<close>

definition eventNameTransfer :: string where "eventNameTransfer = ''transfer''"
definition methodNameBalance :: string where "methodNameBalance = ''getBalance''"
definition methodNameName :: string where "methodNameName = ''name''"
definition methodNameSymbol :: string where "methodNameSymbol = ''symbol''"
definition methodNameDecimals :: string where "methodNameDecimals = ''decimals''"
definition eventNameAirdrop :: string where "eventNameAirdrop = ''airdrop''"
definition methodNameBurn :: string where "methodNameBurn = ''burn''"

text \<open>\<open>errors.Wrapf\<close>: wrapping nil gives nil, so the call then returns no data and no error.\<close>

definition wrapf :: "string option \<Rightarrow> string \<Rightarrow> string + bytes" where
  "wrapf err msg = (case err of None \<Rightarrow> Inr [] | Some m \<Rightarrow> Inl (msg @ '': '' @ m))"

definition call :: "token_env \<Rightarrow> address \<Rightarrow> string \<Rightarrow> bytes list \<Rightarrow> app_state \<Rightarrow> string + bytes" where
  "call env contractAddress method args appState =
     (case TE_payload env method args of
        Inl m \<Rightarrow> Inl (''failed to build payload: '' @ m)
      | Inr payload \<Rightarrow>
          (let txReceipt = TE_run env appState contractAddress payload
           in if \<not> VM_Success txReceipt then wrapf (VM_Error txReceipt) (''failed to call '' @ methodNameBalance)
              else case TE_unmarshal env (VM_ActionResult txReceipt) of
                  None \<Rightarrow> wrapf (VM_Error txReceipt) ''invalid ActionResult''
                | Some outputData \<Rightarrow> Inr outputData))"

record StatsToken =
  Tkn_Name :: string
  Tkn_Symbol :: string
  Tkn_Decimals :: byte

text \<open>\<open>string(outputData)\<close>, and \<open>big.Int.SetBytes\<close>: big-endian, unsigned.\<close>

definition goString :: "bytes \<Rightarrow> string" where
  "goString b = map (\<lambda>x. char_of (unat x)) b"

definition setBytes :: "bytes \<Rightarrow> int" where
  "setBytes b = foldl (\<lambda>n x. n * 256 + uint x) 0 b"

definition Info :: "token_env \<Rightarrow> app_state \<Rightarrow> address \<Rightarrow> string + StatsToken" where
  "Info env appState contractAddress =
     (case call env contractAddress methodNameName [] appState of Inl err \<Rightarrow> Inl err
      | Inr name \<Rightarrow> (case call env contractAddress methodNameSymbol [] appState of Inl err \<Rightarrow> Inl err
      | Inr symbol \<Rightarrow> (case call env contractAddress methodNameDecimals [] appState of Inl err \<Rightarrow> Inl err
      | Inr outputData \<Rightarrow> (case TE_extractByte env outputData of Inl err \<Rightarrow> Inl err
      | Inr decimals \<Rightarrow> Inr \<lparr>Tkn_Name = goString name, Tkn_Symbol = goString symbol,
                              Tkn_Decimals = decimals\<rparr>))))"

definition Balance :: "token_env \<Rightarrow> app_state \<Rightarrow> address \<Rightarrow> bytes \<Rightarrow> string + int" where
  "Balance env appState contractAddress address =
     (case call env contractAddress methodNameBalance (TE_balanceArgs env address) appState of
        Inl err \<Rightarrow> Inl err
      | Inr outputData \<Rightarrow> Inr (setBytes outputData))"

definition detectTokens :: "token_env \<Rightarrow> address list \<Rightarrow> app_state \<Rightarrow> DbToken list" where
  "detectTokens env contracts appState =
     List.map_filter (\<lambda>contract. case Info env appState contract of
         Inl err \<Rightarrow> None
       | Inr info \<Rightarrow> Some \<lparr>Tok_ContractAddress = contract, Tok_Name = Tkn_Name info,
                           Tok_Symbol = Tkn_Symbol info, Tok_Decimals = Tkn_Decimals info\<rparr>) contracts"

section \<open>Detection\<close>

text \<open>\<open>strings.ToLower\<close>, on the ASCII letters.\<close>

definition lowerChar :: "char \<Rightarrow> char" where
  "lowerChar c = (let n = (of_char c :: nat) in if 65 \<le> n \<and> n \<le> 90 then char_of (n + 32) else c)"

definition toLower :: "string \<Rightarrow> string" where
  "toLower s = map lowerChar s"

text \<open>A holder shorter than an address is padded with zeros on the right.\<close>

definition bytesToAddress :: "token_env \<Rightarrow> bytes \<Rightarrow> address" where
  "bytesToAddress env b =
     TE_setBytes env (if length b < 20 then b @ replicate (20 - length b) 0 else b)"

definition detectTokenBalanceUpdate :: "token_env \<Rightarrow> bytes \<Rightarrow> address \<Rightarrow> tokenBalanceUpdate option" where
  "detectTokenBalanceUpdate env holder contract =
     (let address = bytesToAddress env holder
      in if address = 0 then None
         else Some \<lparr>TBU_contractAddress = contract, TBU_address = address,
                    TBU_addressBytes = holder, TBU_balance = None\<rparr>)"

definition detectTransferTokenBalanceUpdates :: "token_env \<Rightarrow> TxEvent \<Rightarrow> tokenBalanceUpdate list" where
  "detectTransferTokenBalanceUpdates env event =
     (if length (Ev_Data event) \<noteq> 3 then []
      else List.map_filter (\<lambda>b. detectTokenBalanceUpdate env b (Ev_Contract event))
             [Ev_Data event ! 0, Ev_Data event ! 1])"

definition detectAirdropTokenBalanceUpdate :: "token_env \<Rightarrow> TxEvent \<Rightarrow> tokenBalanceUpdate option" where
  "detectAirdropTokenBalanceUpdate env event =
     (if length (Ev_Data event) \<noteq> 2 then None
      else detectTokenBalanceUpdate env (Ev_Data event ! 0) (Ev_Contract event))"

fun optionList :: "'a option \<Rightarrow> 'a list" where
  "optionList None = []"
| "optionList (Some x) = [x]"

lemma set_optionList [simp]: "set (optionList x) = set_option x"
  by (cases x) simp_all

definition detectTokenBalanceUpdates :: "token_env \<Rightarrow> TxEvent \<Rightarrow> tokenBalanceUpdate list" where
  "detectTokenBalanceUpdates env event =
     (if toLower (Ev_EventName event) = eventNameTransfer then detectTransferTokenBalanceUpdates env event
      else if toLower (Ev_EventName event) = eventNameAirdrop
      then optionList (detectAirdropTokenBalanceUpdate env event)
      else [])"

section \<open>The collector of one block\<close>

definition newTokenBalanceUpdateCollector :: tokenBalanceUpdateCollector where
  "newTokenBalanceUpdateCollector =
     \<lparr>TBC_updates = [], TBC_byContractAndAddress = Map.empty, TBC_store = []\<rparr>"

definition tokenIndex :: "tokenBalanceUpdateCollector \<Rightarrow> address \<times> address \<Rightarrow> ref option" where
  "tokenIndex c k = (case TBC_byContractAndAddress c (fst k) of None \<Rightarrow> None | Some m \<Rightarrow> m (snd k))"

definition addTokenUpdate ::
  "tokenBalanceUpdate \<Rightarrow> tokenBalanceUpdateCollector \<Rightarrow> tokenBalanceUpdateCollector" where
  "addTokenUpdate u c =
     (let ct = TBU_contractAddress u; a = TBU_address u;
          contractUpdates = (case TBC_byContractAndAddress c ct of None \<Rightarrow> Map.empty | Some m \<Rightarrow> m);
          p = fresh (TBC_store c)
      in case contractUpdates a of
           None \<Rightarrow> c\<lparr>TBC_updates := TBC_updates c @ [p],
                     TBC_byContractAndAddress := (TBC_byContractAndAddress c)(ct \<mapsto> contractUpdates(a \<mapsto> p)),
                     TBC_store := alloc u (TBC_store c)\<rparr>
         | Some v \<Rightarrow> c\<lparr>TBC_store := modify v (\<lambda>x. x\<lparr>TBU_balance := None\<rparr>) (TBC_store c)\<rparr>)"

text \<open>The updates a receipt touches, in the order they are added.\<close>

definition receiptUpdates :: "token_env \<Rightarrow> TxReceipt \<Rightarrow> tokenBalanceUpdate list" where
  "receiptUpdates env r =
     (if toLower (Rc_Method r) = methodNameBurn \<and> Rc_Events r = []
      then optionList (detectTokenBalanceUpdate env (TE_addressBytes env (Rc_From r)) (Rc_ContractAddress r))
      else []) @ concat (map (detectTokenBalanceUpdates env) (Rc_Events r))"

fun collectBalances ::
  "token_env \<Rightarrow> app_state \<Rightarrow> ref list \<Rightarrow> tokenBalanceUpdate store
     \<Rightarrow> tokenBalanceUpdate store \<times> TokenBalance list" where
  "collectBalances env appState [] st = (st, [])"
| "collectBalances env appState (r # rs) st =
     (case deref st r of
        None \<Rightarrow> collectBalances env appState rs st
      | Some u \<Rightarrow>
          (case (case TBU_balance u of Some b \<Rightarrow> Inr b
                 | None \<Rightarrow> Balance env appState (TBU_contractAddress u) (TBU_addressBytes u)) of
             Inl err \<Rightarrow> collectBalances env appState rs st
           | Inr b \<Rightarrow>
               (let (st', rows) = collectBalances env appState rs
                      (modify r (\<lambda>x. x\<lparr>TBU_balance := Some b\<rparr>) st)
                in (st', \<lparr>TokB_ContractAddress = TBU_contractAddress u, TokB_Address = TBU_address u,
                          TokB_Balance = Some b\<rparr> # rows))))"

definition applyTxReceipt ::
  "token_env \<Rightarrow> TxReceipt \<Rightarrow> app_state \<Rightarrow> tokenBalanceUpdateCollector
     \<Rightarrow> tokenBalanceUpdateCollector \<times> TokenBalance list" where
  "applyTxReceipt env txReceipt appState c =
     (let c1 = fold addTokenUpdate (receiptUpdates env txReceipt) c;
          (st, rows) = collectBalances env appState (TBC_updates c1) (TBC_store c1)
      in (c1\<lparr>TBC_store := st\<rparr>, rows))"

section \<open>One balance per contract and holder\<close>

definition token_key :: "tokenBalanceUpdate \<Rightarrow> (address \<times> address) option" where
  "token_key u = Some (TBU_contractAddress u, TBU_address u)"

definition token_wf :: "tokenBalanceUpdateCollector \<Rightarrow> bool" where
  "token_wf c \<longleftrightarrow> wf_index token_key (TBC_updates c) (tokenIndex c) (TBC_store c)"

lemma addTokenUpdate_cases:
  "tokenIndex c (TBU_contractAddress u, TBU_address u) = None \<Longrightarrow>
     TBC_updates (addTokenUpdate u c) = TBC_updates c @ [fresh (TBC_store c)]
     \<and> TBC_store (addTokenUpdate u c) = alloc u (TBC_store c)
     \<and> (\<forall>k. tokenIndex (addTokenUpdate u c) k =
           (if k = (TBU_contractAddress u, TBU_address u) then Some (fresh (TBC_store c)) else tokenIndex c k))"
  "tokenIndex c (TBU_contractAddress u, TBU_address u) = Some v \<Longrightarrow>
     TBC_updates (addTokenUpdate u c) = TBC_updates c
     \<and> TBC_store (addTokenUpdate u c) = modify v (\<lambda>x. x\<lparr>TBU_balance := None\<rparr>) (TBC_store c)
     \<and> tokenIndex (addTokenUpdate u c) = tokenIndex c"
  by (auto simp: addTokenUpdate_def tokenIndex_def [abs_def] Let_def split: option.splits)

lemma addTokenUpdate_wf:
  assumes wf: "token_wf c"
  shows "token_wf (addTokenUpdate u c)"
proof (cases "tokenIndex c (TBU_contractAddress u, TBU_address u)")
  case None
  note new = addTokenUpdate_cases(1) [OF None]
  have "wf_index token_key (TBC_updates c @ [fresh (TBC_store c)]) (tokenIndex (addTokenUpdate u c))
      (alloc u (TBC_store c))"
    by (rule wf_index_append [OF wf [unfolded token_wf_def]]) (use None new in \<open>auto simp: token_key_def split: if_splits\<close>)
  with new show ?thesis by (simp add: token_wf_def)
next
  case (Some v)
  note old = addTokenUpdate_cases(2) [OF Some]
  have "wf_index token_key (TBC_updates c) (tokenIndex c) (modify v (\<lambda>x. x\<lparr>TBU_balance := None\<rparr>) (TBC_store c))"
    by (rule wf_index_modify [OF wf [unfolded token_wf_def]]) (simp add: token_key_def)
  with old show ?thesis by (simp add: token_wf_def)
qed

lemma fold_add_wf: "token_wf c \<Longrightarrow> token_wf (fold addTokenUpdate us c)"
  by (induction us arbitrary: c) (simp_all add: addTokenUpdate_wf)

text \<open>Querying the balances changes nothing but balances.\<close>

lemma collect_store:
  "map_option (\<lambda>u. u\<lparr>TBU_balance := None\<rparr>) (deref (fst (collectBalances env st rs store)) r) =
     map_option (\<lambda>u. u\<lparr>TBU_balance := None\<rparr>) (deref store r)"
proof (induction env st rs store rule: collectBalances.induct)
  case (2 env st q rs store)
  show ?case
  proof (cases "deref store q")
    case None
    then show ?thesis using 2(1) by simp
  next
    case (Some u)
    let ?b = "case TBU_balance u of Some b \<Rightarrow> Inr b
       | None \<Rightarrow> Balance env st (TBU_contractAddress u) (TBU_addressBytes u)"
    show ?thesis
    proof (cases ?b)
      case (Inl er)
      then show ?thesis using Some 2(2) [OF Some Inl] by simp
    next
      case (Inr b)
      have "map_option (\<lambda>u. u\<lparr>TBU_balance := None\<rparr>) (deref (modify q (\<lambda>x. x\<lparr>TBU_balance := Some b\<rparr>) store) r) =
          map_option (\<lambda>u. u\<lparr>TBU_balance := None\<rparr>) (deref store r)"
        by (cases "deref store r") (auto simp: ref_simps)
      then show ?thesis using Some Inr 2(3) [OF Some Inr] by (simp add: case_prod_beta)
    qed
  qed
qed simp

lemma collect_key:
  assumes "deref store r = Some u"
  shows "\<exists>u'. deref (fst (collectBalances env st rs store)) r = Some u' \<and> token_key u' = token_key u"
proof -
  obtain u' where u': "deref (fst (collectBalances env st rs store)) r = Some u'"
      "u'\<lparr>TBU_balance := None\<rparr> = u\<lparr>TBU_balance := None\<rparr>"
    using collect_store [of env st rs store r] assms by auto
  from arg_cong [OF u'(2), of TBU_address] arg_cong [OF u'(2), of TBU_contractAddress] u'(1)
  show ?thesis by (simp add: token_key_def)
qed

lemma applyTxReceipt_wf: "token_wf c \<Longrightarrow> token_wf (fst (applyTxReceipt env r st c))"
proof -
  assume "token_wf c"
  then have wf: "token_wf (fold addTokenUpdate (receiptUpdates env r) c)" by (rule fold_add_wf)
  let ?c1 = "fold addTokenUpdate (receiptUpdates env r) c"
  have "wf_index token_key (TBC_updates ?c1) (tokenIndex ?c1) (fst (collectBalances env st (TBC_updates ?c1) (TBC_store ?c1)))"
    by (rule wf_index_cong [OF wf [unfolded token_wf_def]]) (rule collect_key)
  then show ?thesis
    by (simp add: applyTxReceipt_def Let_def case_prod_beta token_wf_def tokenIndex_def [abs_def])
qed

section \<open>The rows of a receipt\<close>

lemma map_filter_cong:
  "(\<And>x. x \<in> set xs \<Longrightarrow> f x = g x) \<Longrightarrow> List.map_filter f xs = List.map_filter g xs"
  by (induction xs) (simp_all add: List.map_filter_simps split: option.split)

lemma in_map_filter: "y \<in> set (List.map_filter f xs) \<longleftrightarrow> (\<exists>x \<in> set xs. f x = Some y)"
  by (induction xs) (auto simp: List.map_filter_simps split: option.splits)

text \<open>What becomes of one stored update: a row with the stored or the queried balance, or nothing
  when the query fails.\<close>

definition rowOf :: "token_env \<Rightarrow> app_state \<Rightarrow> tokenBalanceUpdate store \<Rightarrow> ref \<Rightarrow> TokenBalance option" where
  "rowOf env appState st r = (case deref st r of None \<Rightarrow> None
     | Some u \<Rightarrow> (case (case TBU_balance u of Some b \<Rightarrow> Inr b
                      | None \<Rightarrow> Balance env appState (TBU_contractAddress u) (TBU_addressBytes u)) of
          Inl err \<Rightarrow> None
        | Inr b \<Rightarrow> Some \<lparr>TokB_ContractAddress = TBU_contractAddress u, TokB_Address = TBU_address u,
                          TokB_Balance = Some b\<rparr>))"

lemma rowOf_modify: "q \<noteq> r \<Longrightarrow> rowOf env st (modify r f store) q = rowOf env st store q"
  by (simp add: rowOf_def ref_simps)

lemma collect_rows:
  "distinct rs \<Longrightarrow> snd (collectBalances env st rs store) = List.map_filter (rowOf env st store) rs"
proof (induction env st rs store rule: collectBalances.induct)
  case (1 env st store)
  then show ?case by (simp add: List.map_filter_simps)
next
  case (2 env st q rs store)
  have d: "distinct rs" "q \<notin> set rs" using 2(4) by simp_all
  show ?case
  proof (cases "deref store q")
    case None
    then show ?thesis using 2(1) [OF None d(1)] by (simp add: List.map_filter_simps rowOf_def)
  next
    case (Some u)
    let ?b = "case TBU_balance u of Some b \<Rightarrow> Inr b
       | None \<Rightarrow> Balance env st (TBU_contractAddress u) (TBU_addressBytes u)"
    show ?thesis
    proof (cases ?b)
      case (Inl er)
      then show ?thesis using Some 2(2) [OF Some Inl d(1)] by (simp add: List.map_filter_simps rowOf_def)
    next
      case (Inr b)
      have "rowOf env st (modify q (\<lambda>x. x\<lparr>TBU_balance := Some b\<rparr>) store) x = rowOf env st store x"
        if "x \<in> set rs" for x using that d(2) by (intro rowOf_modify) auto
      then have "List.map_filter (rowOf env st (modify q (\<lambda>x. x\<lparr>TBU_balance := Some b\<rparr>) store)) rs =
          List.map_filter (rowOf env st store) rs"
        by (rule map_filter_cong)
      moreover have "rowOf env st store q = Some \<lparr>TokB_ContractAddress = TBU_contractAddress u,
          TokB_Address = TBU_address u, TokB_Balance = Some b\<rparr>"
        using Some Inr by (simp add: rowOf_def)
      ultimately show ?thesis
        using Some Inr 2(3) [OF Some Inr d(1)] by (simp add: List.map_filter_simps case_prod_beta)
    qed
  qed
qed

definition row_key :: "TokenBalance \<Rightarrow> address \<times> address" where
  "row_key row = (TokB_ContractAddress row, TokB_Address row)"

lemma rowOf_key: "rowOf env st store r = Some row \<Longrightarrow> \<exists>u. deref store r = Some u \<and> token_key u = Some (row_key row)"
  by (auto simp: rowOf_def row_key_def token_key_def split: option.splits sum.splits)

lemma distinct_row_keys:
  assumes "distinct rs"
    and inj: "\<And>p q x y. p \<in> set rs \<Longrightarrow> q \<in> set rs \<Longrightarrow> rowOf env st store p = Some x \<Longrightarrow>
       rowOf env st store q = Some y \<Longrightarrow> row_key x = row_key y \<Longrightarrow> p = q"
  shows "distinct (map row_key (List.map_filter (rowOf env st store) rs))"
  using assms
proof (induction rs)
  case Nil
  then show ?case by (simp add: List.map_filter_simps)
next
  case (Cons r rs)
  have tail: "distinct (map row_key (List.map_filter (rowOf env st store) rs))"
    using Cons.IH Cons.prems by (meson distinct.simps(2) list.set_intros(2))
  show ?case
  proof (cases "rowOf env st store r")
    case None
    then show ?thesis using tail by (simp add: List.map_filter_simps)
  next
    case (Some x)
    have "row_key x \<notin> row_key ` set (List.map_filter (rowOf env st store) rs)"
    proof
      assume "row_key x \<in> row_key ` set (List.map_filter (rowOf env st store) rs)"
      then obtain q y where q: "q \<in> set rs" "rowOf env st store q = Some y" "row_key x = row_key y"
        by (auto simp: in_map_filter)
      have "r = q" by (rule Cons.prems(2) [OF _ _ Some q(2,3)]) (use q in auto)
      with q(1) Cons.prems(1) show False by simp
    qed
    then show ?thesis using tail Some by (simp add: List.map_filter_simps)
  qed
qed

lemma applyTxReceipt_rows:
  fixes env r
  assumes "token_wf c"
  defines "c1 \<equiv> fold addTokenUpdate (receiptUpdates env r) c"
  shows "token_wf c1"
    and "snd (applyTxReceipt env r st c) = List.map_filter (rowOf env st (TBC_store c1)) (TBC_updates c1)"
proof -
  show wf: "token_wf c1" unfolding c1_def by (rule fold_add_wf [OF assms(1)])
  show "snd (applyTxReceipt env r st c) = List.map_filter (rowOf env st (TBC_store c1)) (TBC_updates c1)"
    using collect_rows [OF wf_indexD(1) [OF wf [unfolded token_wf_def]]]
    by (simp add: applyTxReceipt_def Let_def case_prod_beta c1_def)
qed

lemma applyTxReceipt_distinct:
  assumes "token_wf c"
  shows "distinct (map row_key (snd (applyTxReceipt env r st c)))"
proof -
  note wf = applyTxReceipt_rows(1) [OF assms, of env r, unfolded token_wf_def]
  show ?thesis
    unfolding applyTxReceipt_rows(2) [OF assms]
  proof (rule distinct_row_keys [OF wf_indexD(1) [OF wf]])
    fix p q x y
    assume *: "p \<in> set (TBC_updates (fold addTokenUpdate (receiptUpdates env r) c))"
      "q \<in> set (TBC_updates (fold addTokenUpdate (receiptUpdates env r) c))"
      "rowOf env st (TBC_store (fold addTokenUpdate (receiptUpdates env r) c)) p = Some x"
      "rowOf env st (TBC_store (fold addTokenUpdate (receiptUpdates env r) c)) q = Some y" "row_key x = row_key y"
    obtain u v where "deref (TBC_store (fold addTokenUpdate (receiptUpdates env r) c)) p = Some u"
      "token_key u = Some (row_key x)" "deref (TBC_store (fold addTokenUpdate (receiptUpdates env r) c)) q = Some v"
      "token_key v = Some (row_key y)" using rowOf_key [OF *(3)] rowOf_key [OF *(4)] by blast
    with wf_index_unique [OF wf *(1) _ *(2)] *(5) show "p = q" by simp
  qed
qed

section \<open>Touched holders are queried again\<close>

definition stale :: "tokenBalanceUpdateCollector \<Rightarrow> address \<times> address \<Rightarrow> bool" where
  "stale c k \<longleftrightarrow> (\<exists>p u. tokenIndex c k = Some p \<and> deref (TBC_store c) p = Some u \<and> TBU_balance u = None)"

lemma addTokenUpdate_stale:
  assumes wf: "token_wf c" and none: "TBU_balance u = None"
  shows "stale (addTokenUpdate u c) (TBU_contractAddress u, TBU_address u)"
    and "stale c k \<Longrightarrow> stale (addTokenUpdate u c) k"
proof -
  let ?k = "(TBU_contractAddress u, TBU_address u)"
  note ix = wf [unfolded token_wf_def]
  show "stale (addTokenUpdate u c) ?k"
  proof (cases "tokenIndex c ?k")
    case None
    then show ?thesis using addTokenUpdate_cases(1) [OF None] none by (simp add: stale_def ref_simps)
  next
    case (Some v)
    obtain x where "deref (TBC_store c) v = Some x" using wf_indexD(4) [OF ix Some] by blast
    then show ?thesis using addTokenUpdate_cases(2) [OF Some] Some by (simp add: stale_def ref_simps)
  qed
  assume "stale c k"
  then obtain p x where p: "tokenIndex c k = Some p" "deref (TBC_store c) p = Some x" "TBU_balance x = None"
    by (auto simp: stale_def)
  show "stale (addTokenUpdate u c) k"
  proof (cases "tokenIndex c ?k")
    case None
    then have "k \<noteq> ?k" using p by auto
    then show ?thesis
      using addTokenUpdate_cases(1) [OF None] p deref_Some_less [OF p(2)]
      by (intro stale_def [THEN iffD2] exI [of _ p] exI [of _ x]) (simp add: ref_simps del: split_paired_All)
  next
    case (Some v)
    then show ?thesis
      using addTokenUpdate_cases(2) [OF Some] p by (auto simp: stale_def ref_simps)
  qed
qed

lemma fold_add_stale:
  assumes "token_wf c" "\<forall>u \<in> set us. TBU_balance u = None"
  shows "u \<in> set us \<Longrightarrow> stale (fold addTokenUpdate us c) (TBU_contractAddress u, TBU_address u)"
    and "stale c k \<Longrightarrow> stale (fold addTokenUpdate us c) k"
proof -
  have keep: "\<lbrakk>stale c k; token_wf c; \<forall>u \<in> set us. TBU_balance u = None\<rbrakk> \<Longrightarrow> stale (fold addTokenUpdate us c) k" for c k us
    by (induction us arbitrary: c) (simp_all add: addTokenUpdate_stale addTokenUpdate_wf)
  show "stale c k \<Longrightarrow> stale (fold addTokenUpdate us c) k" using keep assms by simp
  show "u \<in> set us \<Longrightarrow> stale (fold addTokenUpdate us c) (TBU_contractAddress u, TBU_address u)"
    using assms by (induction us arbitrary: c) (auto simp: keep addTokenUpdate_stale addTokenUpdate_wf)
qed

lemma detect_balance: "detectTokenBalanceUpdate env h ct = Some u \<Longrightarrow> TBU_balance u = None"
  by (auto simp: detectTokenBalanceUpdate_def Let_def split: if_splits)

lemma transfer_balance:
  assumes "u \<in> set (detectTransferTokenBalanceUpdates env ev)"
  shows "TBU_balance u = None"
proof (cases "length (Ev_Data ev) = 3")
  case True
  then have "\<exists>h. detectTokenBalanceUpdate env h (Ev_Contract ev) = Some u"
    using assms in_map_filter [of u "\<lambda>b. detectTokenBalanceUpdate env b (Ev_Contract ev)"
        "[Ev_Data ev ! 0, Ev_Data ev ! 1]"]
    by (auto simp: detectTransferTokenBalanceUpdates_def simp del: List.map_filter_simps)
  then show ?thesis by (blast dest: detect_balance)
next
  case False
  then show ?thesis using assms by (simp add: detectTransferTokenBalanceUpdates_def)
qed

lemma airdrop_balance: "detectAirdropTokenBalanceUpdate env ev = Some u \<Longrightarrow> TBU_balance u = None"
  by (cases "length (Ev_Data ev) = 2") (simp_all add: detectAirdropTokenBalanceUpdate_def detect_balance)

lemma event_balance: "u \<in> set (detectTokenBalanceUpdates env ev) \<Longrightarrow> TBU_balance u = None"
  by (auto simp: detectTokenBalanceUpdates_def transfer_balance airdrop_balance split: if_splits)

lemma receiptUpdates_balance: "\<forall>u \<in> set (receiptUpdates env r). TBU_balance u = None"
  by (auto simp: receiptUpdates_def detect_balance event_balance split: if_splits)

lemma receipt_row_queried:
  assumes wf: "token_wf c" and row: "row \<in> set (snd (applyTxReceipt env r st c))"
    and touched: "u \<in> set (receiptUpdates env r)" "row_key row = (TBU_contractAddress u, TBU_address u)"
  shows "\<exists>h b. Balance env st (TokB_ContractAddress row) h = Inr b \<and> TokB_Balance row = Some b"
proof -
  let ?c = "fold addTokenUpdate (receiptUpdates env r) c"
  note ix = applyTxReceipt_rows(1) [OF wf, of env r, unfolded token_wf_def]
  obtain q where q: "q \<in> set (TBC_updates ?c)" "rowOf env st (TBC_store ?c) q = Some row"
    using row unfolding applyTxReceipt_rows(2) [OF wf] by (auto simp: in_map_filter)
  obtain y where y: "deref (TBC_store ?c) q = Some y" "token_key y = Some (row_key row)"
    using rowOf_key [OF q(2)] by blast
  have "stale ?c (row_key row)"
    using fold_add_stale(1) [OF wf receiptUpdates_balance touched(1)] touched(2) by simp
  moreover have "tokenIndex ?c (row_key row) = Some q" by (rule wf_indexD(5) [OF ix q(1) y])
  ultimately have "TBU_balance y = None" using y(1) by (auto simp: stale_def)
  then show ?thesis using q(2) y(1) by (auto simp: rowOf_def split: sum.splits)
qed

section \<open>Sequences of receipts\<close>

fun applyReceipts ::
  "token_env \<Rightarrow> (TxReceipt \<times> app_state) list \<Rightarrow> tokenBalanceUpdateCollector \<Rightarrow> tokenBalanceUpdateCollector" where
  "applyReceipts env [] c = c"
| "applyReceipts env ((r, st) # rs) c = applyReceipts env rs (fst (applyTxReceipt env r st c))"

lemma applyReceipts_wf: "token_wf c \<Longrightarrow> token_wf (applyReceipts env rs c)"
  by (induction env rs c rule: applyReceipts.induct) (simp_all add: applyTxReceipt_wf)

lemma token_wf_new: "token_wf newTokenBalanceUpdateCollector"
  by (simp add: token_wf_def newTokenBalanceUpdateCollector_def wf_index_def tokenIndex_def)

section \<open>Properties\<close>

text \<open>A node on which every contract answers with the number of its address, and one whose answers
  cannot be decoded.\<close>

definition sampleTokenEnv :: "bool \<Rightarrow> token_env" where
  "sampleTokenEnv decodable = \<lparr>TE_payload = (\<lambda>m args. Inr []),
     TE_run = (\<lambda>st ct p. \<lparr>VM_Success = True, VM_Error = None, VM_ActionResult = [word_of_int (uint ct)]\<rparr>),
     TE_unmarshal = (\<lambda>b. if decodable then Some b else None), TE_extractByte = (\<lambda>b. Inr 0),
     TE_balanceArgs = (\<lambda>b. [b]), TE_addressBytes = (\<lambda>a. [word_of_int (uint a)]),
     TE_setBytes = (\<lambda>b. word_of_int (uint (hd b)))\<rparr>"

definition sampleReceipt :: TxReceipt where
  "sampleReceipt = \<lparr>Rc_Success = True, Rc_ContractAddress = 5, Rc_From = 1, Rc_Method = ''transfer'',
     Rc_Events = [\<lparr>Ev_Contract = 5, Ev_EventName = ''Transfer'', Ev_Data = [[1], [2], [9]]\<rparr>],
     Rc_GasUsed = 0, Rc_GasCost = Some 0, Rc_TxHash = 0, Rc_Error = None, Rc_ActionResult = []\<rparr>"

text \<open>however many receipts of a block touch the same token holder, the balances reported
  after any receipt contain one row per contract and holder.\<close>

theorem token_rows_distinct:
  "distinct (map row_key (snd (applyTxReceipt env r st (applyReceipts env rs newTokenBalanceUpdateCollector))))"
  by (rule applyTxReceipt_distinct [OF applyReceipts_wf [OF token_wf_new]])

text \<open>the balance reported for a holder that the receipt touches (by a transfer, an airdrop
  or a burn) is what the contract answers in the state after that receipt, whatever an earlier
  receipt of the block has cached.\<close>

theorem touched_holder_queried:
  assumes "row \<in> set (snd (applyTxReceipt env r st (applyReceipts env rs newTokenBalanceUpdateCollector)))"
    and "u \<in> set (receiptUpdates env r)"
    and "TokB_ContractAddress row = TBU_contractAddress u" "TokB_Address row = TBU_address u"
  shows "\<exists>h b. Balance env st (TokB_ContractAddress row) h = Inr b \<and> TokB_Balance row = Some b"
  by (rule receipt_row_queried [OF applyReceipts_wf [OF token_wf_new] assms(1,2)])
    (simp add: row_key_def assms(3,4))

theorem touched_holder_queried_witness:
  "\<exists>h b. Balance (sampleTokenEnv True) sampleApp 5 h = Inr b \<and> Some 5 = Some b"
proof -
  have "\<lparr>TokB_ContractAddress = 5, TokB_Address = 1, TokB_Balance = Some 5\<rparr> \<in> set (snd (applyTxReceipt
      (sampleTokenEnv True) sampleReceipt sampleApp (applyReceipts (sampleTokenEnv True) [] newTokenBalanceUpdateCollector)))"
    by code_simp
  moreover have "\<lparr>TBU_contractAddress = 5, TBU_address = 1, TBU_addressBytes = [1], TBU_balance = None\<rparr>
      \<in> set (receiptUpdates (sampleTokenEnv True) sampleReceipt)"
    by code_simp
  ultimately show ?thesis
    using touched_holder_queried [of "\<lparr>TokB_ContractAddress = 5, TokB_Address = 1, TokB_Balance = Some 5\<rparr>"
        "sampleTokenEnv True" sampleReceipt sampleApp "[]"] by fastforce
qed

text \<open>C22: a token contract whose successful call returns data that cannot be decoded is not an
  error: \<open>errors.Wrapf\<close> of the nil error of the receipt is nil, and the balance reported is zero.\<close>

theorem undecodable_result_is_zero_balance:
  assumes "TE_payload env methodNameBalance (TE_balanceArgs env h) = Inr payload"
    and "VM_Success (TE_run env st ct payload)" "VM_Error (TE_run env st ct payload) = None"
    and "TE_unmarshal env (VM_ActionResult (TE_run env st ct payload)) = None"
  shows "Balance env st ct h = Inr 0"
  using assms by (simp add: Balance_def call_def wrapf_def setBytes_def)

theorem undecodable_result_is_zero_balance_witness: "Balance (sampleTokenEnv False) sampleApp 5 [1] = Inr 0"
  by (rule undecodable_result_is_zero_balance [where payload = "[]"]) (simp_all add: sampleTokenEnv_def)

end
