(* ===== verification/Contract_Collector.thy ===== *)
theory Contract_Collector
  imports Balance_Collector Token_Collector
begin

text \<open>
  Transactions and contracts in the collector (\<open>src/core/stats/collector.go\<close>): the life cycle of
  the pending transaction, the caches of balance updates and burnt coins that nested contract calls
  fill and merge into their parents, the rows of the embedded contracts, and the receipt that
  decides whether what is pending becomes part of the statistics.
\<close>

section \<open>The pending transaction\<close>

text \<open>\<open>c.pending.tx\<close> is dereferenced: an operation outside a transaction panics.\<close>

definition onTx :: "(pendingTx \<Rightarrow> pendingTx) \<Rightarrow> session \<Rightarrow> session option" where
  "onTx f s = (case P_tx (pending s) of None \<Rightarrow> None
     | Some t \<Rightarrow> Some (s\<lparr>pending := (pending s)\<lparr>P_tx := Some (f t)\<rparr>\<rparr>))"

definition onStats :: "(Stats \<Rightarrow> Stats) \<Rightarrow> session \<Rightarrow> session" where
  "onStats f s = s\<lparr>stats := f (stats s)\<rparr>"

definition newPendingTx :: "Transaction \<Rightarrow> pendingTx" where
  "newPendingTx tx = \<lparr>T_tx = tx, T_contractBalanceUpdateCache = Map.empty, T_contractBalanceUpdates = [],
     T_contractBurntCoinsCache = Map.empty, T_contractBurntCoins = [], T_oracleVotingContractDeploy = None,
     T_oracleVotingContractCallStart = None, T_oracleVotingCommitteeStartCtx = None,
     T_oracleVotingContractCallVoteProof = None, T_oracleVotingContractCallVote = None,
     T_oracleVotingContractCallFinish = None, T_oracleVotingContractCallProlongation = None,
     T_oracleVotingContractCallAddStake = None, T_oracleVotingContractTermination = None,
     T_oracleLockContract = None, T_oracleLockContractCallCheckOracleVoting = None,
     T_oracleLockContractCallPush = None, T_oracleLockContractTermination = None,
     T_refundableOracleLockContract = None, T_refundableOracleLockContractCallDeposit = None,
     T_refundableOracleLockContractCallPush = None, T_refundableOracleLockContractCallRefund = None,
     T_refundableOracleLockContractTermination = None, T_multisigContract = None,
     T_multisigContractCallAdd = None, T_multisigContractCallSend = None,
     T_multisigContractCallPush = None, T_multisigContractTermination = None, T_timeLockContract = None,
     T_timeLockContractCallTransfer = None, T_timeLockContractTermination = None, T_inviteTxHash = None,
     T_deployedWasmContracts = []\<rparr>"

definition BeginApplyingTx :: "Transaction \<Rightarrow> app_state \<Rightarrow> session \<Rightarrow> session" where
  "BeginApplyingTx tx appState s =
     (let sender = Tx_Sender tx;
          t = newPendingTx tx;
          t' = (if Tx_Type tx = ActivationTxT
                then case Id_InviterTxHash (AS_GetIdentity appState sender) of
                       None \<Rightarrow> t | Some h \<Rightarrow> t\<lparr>T_inviteTxHash := Some h\<rparr>
                else t);
          states = [AS_GetIdentityState appState sender] @
            (case Tx_To tx of None \<Rightarrow> []
             | Some to' \<Rightarrow> if to' \<noteq> sender then [AS_GetIdentityState appState to'] else [])
      in s\<lparr>pending := (pending s)\<lparr>P_tx := Some t', P_identityStates := states\<rparr>\<rparr>)"

text \<open>The changes of the identity states, as the map \<open>changesByAddress\<close> with its (at most two)
  entries listed; None is the index out of range of \<open>identityStates\<close>.\<close>

definition stateChange :: "app_state \<Rightarrow> address \<Rightarrow> identity_state \<Rightarrow> (address \<times> IdentityStateChange) list" where
  "stateChange appState addr prev =
     (let new = AS_GetIdentityState appState addr
      in if prev \<noteq> new then [(addr, \<lparr>ISC_PrevState = prev, ISC_NewState = new\<rparr>)] else [])"

definition stateChanges ::
  "Transaction \<Rightarrow> app_state \<Rightarrow> identity_state list \<Rightarrow> (address \<times> IdentityStateChange) list option" where
  "stateChanges tx appState states =
     (let sender = Tx_Sender tx
      in if states = [] then None
         else case Tx_To tx of
             None \<Rightarrow> Some (stateChange appState sender (states ! 0))
           | Some to' \<Rightarrow>
               if to' = sender then Some (stateChange appState sender (states ! 0))
               else if length states < 2 then None
               else Some (stateChange appState sender (states ! 0) @ stateChange appState to' (states ! 1)))"

definition candidateDiff :: "IdentityStateChange \<Rightarrow> int" where
  "candidateDiff c =
     (if ISC_PrevState c = CandidateSt \<and> ISC_NewState c \<noteq> CandidateSt then -1 else 0) +
     (if ISC_NewState c = CandidateSt \<and> ISC_PrevState c \<noteq> CandidateSt then 1 else 0)"

definition isContractTx :: "Transaction \<Rightarrow> bool" where
  "isContractTx tx \<longleftrightarrow> Tx_Type tx \<in> {DeployContractTx, CallContractTx, TerminateContractTx}"

definition isContractAddress :: "address \<Rightarrow> app_state \<Rightarrow> bool" where
  "isContractAddress addr appState = AS_HasCodeHash appState addr"

definition collectTxSentToContract :: "app_state \<Rightarrow> pendingTx \<Rightarrow> session \<Rightarrow> session" where
  "collectTxSentToContract appState t s =
     (case Tx_To (T_tx t) of None \<Rightarrow> s
      | Some to' \<Rightarrow>
          if isContractTx (T_tx t) \<or> \<not> isContractAddress to' appState then s
          else onStats (\<lambda>st. st\<lparr>S_ContractTxsBalanceUpdates := S_ContractTxsBalanceUpdates st @
             [\<lparr>CTBUs_TxHash = Tx_Hash (T_tx t), CTBUs_ContractAddress = to', CTBUs_ContractCallMethod = None,
               CTBUs_Updates = [\<lparr>CTBU_Address = Tx_Sender (T_tx t), CTBU_BalanceOld = None,
                 CTBU_BalanceNew = None, CTBU_ContractAddress = None\<rparr>]\<rparr>]\<rparr>) s)"

text \<open>None: an activation without a recipient or without an invitation.\<close>

definition collectActivationTx :: "ext \<Rightarrow> app_state \<Rightarrow> pendingTx \<Rightarrow> session \<Rightarrow> session option" where
  "collectActivationTx e appState t s =
     (if Tx_Type (T_tx t) \<noteq> ActivationTxT then Some s
      else case (Tx_To (T_tx t), T_inviteTxHash t) of
          (Some recipient, Some h) \<Rightarrow> Some (onStats (\<lambda>st. st\<lparr>S_ActivationTxs := S_ActivationTxs st @
             [\<lparr>ATx_TxHash = ConvertHash e (Tx_Hash (T_tx t)), ATx_InviteTxHash = ConvertHash e h,
               ATx_ShardId = AS_ShardId appState recipient\<rparr>]\<rparr>) s)
        | _ \<Rightarrow> None)"

definition collectDelegationHistoryUpdate :: "pendingTx \<Rightarrow> session \<Rightarrow> session" where
  "collectDelegationHistoryUpdate t s =
     (let tx = T_tx t;
          put = (\<lambda>u. onStats (\<lambda>st. st\<lparr>S_DelegationHistoryUpdates := S_DelegationHistoryUpdates st @ [u]\<rparr>) s)
      in if Tx_Type tx = DelegateTx
         then put \<lparr>DHU_DelegatorAddress = Tx_Sender tx, DHU_DelegationTx = Some (Tx_Hash tx),
                DHU_DelegationBlockHeight = None, DHU_UndelegationReason = None, DHU_UndelegationTx = None,
                DHU_UndelegationBlockHeight = None\<rparr>
         else if Tx_Type tx = UndelegateTx
         then put \<lparr>DHU_DelegatorAddress = Tx_Sender tx, DHU_DelegationTx = None,
                DHU_DelegationBlockHeight = None, DHU_UndelegationReason = Some UndelegationReasonUndelegation,
                DHU_UndelegationTx = Some (Tx_Hash tx), DHU_UndelegationBlockHeight = None\<rparr>
         else s)"

definition recordStateChanges ::
  "Transaction \<Rightarrow> (address \<times> IdentityStateChange) list \<Rightarrow> session \<Rightarrow> session" where
  "recordStateChanges tx changes s =
     (if changes = [] then s
      else onStats (\<lambda>st. st\<lparr>
             S_IdentityStateChanges := (S_IdentityStateChanges st)(Tx_Hash tx \<mapsto> map_of changes),
             S_EpochSummaryUpdate := \<lparr>ESU_CandidateCountDiff = ESU_CandidateCountDiff (S_EpochSummaryUpdate st)
               + sum_list (map (candidateDiff \<circ> snd) changes)\<rparr>\<rparr>) s)"

definition CompleteApplyingTx :: "ext \<Rightarrow> app_state \<Rightarrow> session \<Rightarrow> session option" where
  "CompleteApplyingTx e appState s = do {
     t \<leftarrow> P_tx (pending s);
     changes \<leftarrow> stateChanges (T_tx t) appState (P_identityStates (pending s));
     s1 \<leftarrow> collectActivationTx e appState t
            (collectTxSentToContract appState t (recordStateChanges (T_tx t) changes s));
     let s2 = collectDelegationHistoryUpdate t s1;
     Some (s2\<lparr>pending := (pending s2)\<lparr>P_tx := None\<rparr>\<rparr>) }"

definition AddTxFee :: "bigint \<Rightarrow> session \<Rightarrow> session option" where
  "AddTxFee feeAmount s = (case P_tx (pending s) of None \<Rightarrow> None
     | Some t \<Rightarrow> Some (onStats (\<lambda>st. st\<lparr>S_FeesByTxHash := (S_FeesByTxHash st)(Tx_Hash (T_tx t) \<mapsto> feeAmount)\<rparr>) s))"

section \<open>Balance updates and burnt coins of nested calls\<close>

definition emptyUpdateCache :: balanceUpdateCache where
  "emptyUpdateCache = \<lparr>BUCa_updates = [], BUCa_updatesByAddress = Map.empty\<rparr>"

definition emptyBurntCache :: burntCoinsCache where
  "emptyBurntCache = \<lparr>BCC_coins = [], BCC_coinsByAddress = Map.empty\<rparr>"

text \<open>\<open>getOrPutContractBalanceUpdateCache\<close> and \<open>getOrPutContractBurntCoinsCache\<close>: the cache that is
  there or a new one; the new one is stored by the write that follows.\<close>

definition getOrPutContractBalanceUpdateCache :: "balanceCachePtr \<Rightarrow> pendingTx \<Rightarrow> balanceUpdateCache" where
  "getOrPutContractBalanceUpdateCache ptr t =
     (case T_contractBalanceUpdateCache t ptr of None \<Rightarrow> emptyUpdateCache | Some c \<Rightarrow> c)"

definition getOrPutContractBurntCoinsCache :: "balanceCachePtr \<Rightarrow> pendingTx \<Rightarrow> burntCoinsCache" where
  "getOrPutContractBurntCoinsCache ptr t =
     (case T_contractBurntCoinsCache t ptr of None \<Rightarrow> emptyBurntCache | Some c \<Rightarrow> c)"

definition newContractBalanceUpdate ::
  "hash \<Rightarrow> address \<Rightarrow> bigint \<Rightarrow> address option \<Rightarrow> app_state \<Rightarrow> BalanceUpdate" where
  "newContractBalanceUpdate txHash addr balanceOld contractAddress appState =
     \<lparr>BU_Address = addr, BU_BalanceOld = balanceOld, BU_StakeOld = getStakeIfNotKilled addr appState,
      BU_PenaltyOld = getPenaltyIfNotKilled addr appState,
      BU_PenaltySecondsOld = getPenaltySecondsIfNotKilled addr appState, BU_BalanceNew = None,
      BU_StakeNew = None, BU_PenaltyNew = None, BU_PenaltySecondsNew = 0, BU_PenaltyPayment = None,
      BU_TxHash = Some txHash, BU_Reason = ContractReason, BU_ContractAddress = contractAddress\<rparr>"

definition refreshContractBalanceUpdate :: "bigint \<Rightarrow> BalanceUpdate \<Rightarrow> BalanceUpdate" where
  "refreshContractBalanceUpdate newBalance bu = bu\<lparr>BU_BalanceNew := newBalance,
     BU_StakeNew := BU_StakeOld bu, BU_PenaltyNew := BU_PenaltyOld bu,
     BU_PenaltySecondsNew := BU_PenaltySecondsOld bu\<rparr>"

text \<open>\<open>balanceUpdateCache.add\<close> with \<open>updateBalanceUpdate\<close>: an address of the cache is refreshed, a
  new one gets an update that starts at its current balance.\<close>

definition updateCacheAdd ::
  "hash \<Rightarrow> address \<Rightarrow> (address \<Rightarrow> bigint) \<Rightarrow> bigint \<Rightarrow> address option \<Rightarrow> app_state
     \<Rightarrow> balanceUpdateCache \<times> BalanceUpdate store \<Rightarrow> balanceUpdateCache \<times> BalanceUpdate store" where
  "updateCacheAdd txHash addr getCurrentBalance newBalance contractAddress appState = (\<lambda>(cache, st).
     case BUCa_updatesByAddress cache addr of
       Some u \<Rightarrow> (cache, modify (CBU_BalanceUpdate u) (refreshContractBalanceUpdate newBalance) st)
     | None \<Rightarrow>
         (let u = \<lparr>CBU_BalanceUpdate = fresh st, CBU_contractAddress = contractAddress\<rparr>
          in (\<lparr>BUCa_updates = BUCa_updates cache @ [u],
               BUCa_updatesByAddress = (BUCa_updatesByAddress cache)(addr \<mapsto> u)\<rparr>,
              alloc (refreshContractBalanceUpdate newBalance (newContractBalanceUpdate txHash addr
                (getCurrentBalance addr) contractAddress appState)) st)))"

definition AddContractBalanceUpdate ::
  "address option \<Rightarrow> address \<Rightarrow> (address \<Rightarrow> bigint) \<Rightarrow> bigint \<Rightarrow> app_state \<Rightarrow> balanceCachePtr
     \<Rightarrow> session \<Rightarrow> session option" where
  "AddContractBalanceUpdate contractAddress addr getCurrentBalance newBalance appState balancesCache s =
     (case P_tx (pending s) of None \<Rightarrow> None
      | Some t \<Rightarrow>
          (let (cache, st) = updateCacheAdd (Tx_Hash (T_tx t)) addr getCurrentBalance newBalance contractAddress
                 appState (getOrPutContractBalanceUpdateCache balancesCache t, updateStore s);
               t' = t\<lparr>T_contractBalanceUpdateCache := (T_contractBalanceUpdateCache t)(balancesCache \<mapsto> cache)\<rparr>
           in Some (s\<lparr>updateStore := st, pending := (pending s)\<lparr>P_tx := Some t'\<rparr>\<rparr>)))"

definition burntCacheAdd ::
  "address \<Rightarrow> int \<Rightarrow> burntCoinsCache \<times> pendingBurntCoins store \<Rightarrow> burntCoinsCache \<times> pendingBurntCoins store" where
  "burntCacheAdd addr amount = (\<lambda>(cache, st).
     if amount = 0 then (cache, st)
     else case BCC_coinsByAddress cache addr of
         Some p \<Rightarrow> (cache, modify p (\<lambda>c. c\<lparr>PBC_amount := PBC_amount c + amount\<rparr>) st)
       | None \<Rightarrow>
           (\<lparr>BCC_coins = BCC_coins cache @ [fresh st],
             BCC_coinsByAddress = (BCC_coinsByAddress cache)(addr \<mapsto> fresh st)\<rparr>,
            alloc \<lparr>PBC_address = addr, PBC_amount = amount, PBC_reason = ContractReason\<rparr> st))"

definition AddContractBurntCoins ::
  "address \<Rightarrow> (address \<Rightarrow> bigint) \<Rightarrow> balanceCachePtr \<Rightarrow> session \<Rightarrow> session option" where
  "AddContractBurntCoins addr getAmount balancesCache s =
     (if zeroOrNil (getAmount addr) then Some s
      else case P_tx (pending s) of None \<Rightarrow> None
      | Some t \<Rightarrow>
          (let (cache, st) = burntCacheAdd addr (zeroIfNil (getAmount addr))
                 (getOrPutContractBurntCoinsCache balancesCache t, burntStore s);
               t' = t\<lparr>T_contractBurntCoinsCache := (T_contractBurntCoinsCache t)(balancesCache \<mapsto> cache)\<rparr>
           in Some (s\<lparr>burntStore := st, pending := (pending s)\<lparr>P_tx := Some t'\<rparr>\<rparr>)))"

text \<open>\<open>importFrom\<close> appends the items of another cache and leaves the index alone.\<close>

definition updateCacheImport :: "balanceUpdateCache \<Rightarrow> balanceUpdateCache \<Rightarrow> balanceUpdateCache" where
  "updateCacheImport cache external = cache\<lparr>BUCa_updates := BUCa_updates cache @ BUCa_updates external\<rparr>"

definition burntCacheImport :: "burntCoinsCache \<Rightarrow> burntCoinsCache \<Rightarrow> burntCoinsCache" where
  "burntCacheImport cache external = cache\<lparr>BCC_coins := BCC_coins cache @ BCC_coins external\<rparr>"

definition applyUpdateCache :: "balanceCachePtr \<Rightarrow> balanceCachePtr option \<Rightarrow> pendingTx \<Rightarrow> pendingTx" where
  "applyUpdateCache balancesCache parent t =
     (let cache = getOrPutContractBalanceUpdateCache balancesCache t;
          t1 = t\<lparr>T_contractBalanceUpdateCache := (T_contractBalanceUpdateCache t)(balancesCache := None)\<rparr>
      in case parent of
           Some p \<Rightarrow> t1\<lparr>T_contractBalanceUpdateCache := (T_contractBalanceUpdateCache t1)(p \<mapsto>
               updateCacheImport (getOrPutContractBalanceUpdateCache p t1) cache)\<rparr>
         | None \<Rightarrow> t1\<lparr>T_contractBalanceUpdates := T_contractBalanceUpdates t1 @ BUCa_updates cache\<rparr>)"

definition applyBurntCache :: "balanceCachePtr \<Rightarrow> balanceCachePtr option \<Rightarrow> pendingTx \<Rightarrow> pendingTx" where
  "applyBurntCache balancesCache parent t =
     (let cache = getOrPutContractBurntCoinsCache balancesCache t;
          t1 = t\<lparr>T_contractBurntCoinsCache := (T_contractBurntCoinsCache t)(balancesCache := None)\<rparr>
      in case parent of
           Some p \<Rightarrow> t1\<lparr>T_contractBurntCoinsCache := (T_contractBurntCoinsCache t1)(p \<mapsto>
               burntCacheImport (getOrPutContractBurntCoinsCache p t1) cache)\<rparr>
         | None \<Rightarrow> t1\<lparr>T_contractBurntCoins := T_contractBurntCoins t1 @ BCC_coins cache\<rparr>)"

definition ApplyContractBalanceUpdates ::
  "balanceCachePtr \<Rightarrow> balanceCachePtr option \<Rightarrow> session \<Rightarrow> session option" where
  "ApplyContractBalanceUpdates balancesCache parentBalancesCache =
     onTx (\<lambda>t. applyBurntCache balancesCache parentBalancesCache
                 (applyUpdateCache balancesCache parentBalancesCache t))"

definition AddContractTerminationBurntCoins :: "address \<Rightarrow> bigint \<Rightarrow> bigint \<Rightarrow> session \<Rightarrow> session option" where
  "AddContractTerminationBurntCoins addr stake refund s =
     (case (stake, refund) of
        (Some st, Some rf) \<Rightarrow>
          if st = rf then Some s
          else (case P_tx (pending s) of None \<Rightarrow> None
            | Some t \<Rightarrow> Some (s\<lparr>burntStore := alloc \<lparr>PBC_address = addr, PBC_amount = st - rf,
                    PBC_reason = EmbeddedContractTerminationReason\<rparr> (burntStore s),
                  pending := (pending s)\<lparr>P_tx := Some (t\<lparr>T_contractBurntCoins :=
                    T_contractBurntCoins t @ [fresh (burntStore s)]\<rparr>)\<rparr>\<rparr>))
      | _ \<Rightarrow> Some s)"

section \<open>Rows of the embedded contracts\<close>

datatype discrimination = DiscriminatedNewbie | DiscriminatedDelegation | DiscriminatedStake

definition AddContractStake :: "bigint \<Rightarrow> session \<Rightarrow> session option" where
  "AddContractStake amount s =
     (if zeroOrNil amount then Some s
      else onTx (\<lambda>t. t\<lparr>
        T_oracleVotingContractDeploy := map_option (\<lambda>c. c\<lparr>OVC_Stake := amount\<rparr>) (T_oracleVotingContractDeploy t),
        T_oracleLockContract := map_option (\<lambda>c. c\<lparr>OLC_Stake := amount\<rparr>) (T_oracleLockContract t),
        T_refundableOracleLockContract := map_option (\<lambda>c. c\<lparr>ROLC_Stake := amount\<rparr>) (T_refundableOracleLockContract t),
        T_timeLockContract := map_option (\<lambda>c. c\<lparr>TLC_Stake := amount\<rparr>) (T_timeLockContract t),
        T_multisigContract := map_option (\<lambda>c. c\<lparr>MC_Stake := amount\<rparr>) (T_multisigContract t)\<rparr>) s)"

definition AddOracleVotingDeploy ::
  "address \<Rightarrow> uint64 \<Rightarrow> bigint \<Rightarrow> bytes \<Rightarrow> byte
     \<Rightarrow> uint64 \<Rightarrow> uint64 \<Rightarrow> byte \<Rightarrow> byte
     \<Rightarrow> uint64 \<Rightarrow> uint64 \<Rightarrow> byte \<Rightarrow> bigint
     \<Rightarrow> bigint \<Rightarrow> address option \<Rightarrow> bytes \<Rightarrow>
     session \<Rightarrow> session option" where
  "AddOracleVotingDeploy contractAddress startTime votingMinPayment fact' state' votingDuration publicVotingDuration winnerThreshold quorum committeeSize networkSize ownerFee ownerDeposit oracleRewardFund refundRecipient hash' =
     onTx (\<lambda>t. t\<lparr>T_oracleVotingContractDeploy := Some \<lparr>
        OVC_TxHash = Tx_Hash (T_tx t), OVC_ContractAddress = contractAddress, OVC_Stake = None,
        OVC_StartTime = startTime, OVC_VotingDuration = votingDuration,
        OVC_VotingMinPayment = votingMinPayment, OVC_Fact = fact', OVC_State = state',
        OVC_PublicVotingDuration = publicVotingDuration, OVC_WinnerThreshold = winnerThreshold,
        OVC_Quorum = quorum, OVC_CommitteeSize = committeeSize, OVC_OwnerFee = ownerFee,
        OVC_OwnerDeposit = ownerDeposit, OVC_OracleRewardFund = oracleRewardFund,
        OVC_RefundRecipient = refundRecipient, OVC_Hash = hash', OVC_NetworkSize = networkSize\<rparr>\<rparr>)"

definition AddOracleVotingCallStart ::
  "byte \<Rightarrow> uint64 \<Rightarrow> uint16 \<Rightarrow> bigint \<Rightarrow> bytes
     \<Rightarrow> uint64 \<Rightarrow> int \<Rightarrow> session \<Rightarrow> session option" where
  "AddOracleVotingCallStart state' startBlock epoch votingMinPayment vrfSeed committeeSize networkSize =
     onTx (\<lambda>t. t\<lparr>T_oracleVotingContractCallStart := Some \<lparr>
        OVCStart_TxHash = Tx_Hash (T_tx t), OVCStart_State = state',
        OVCStart_StartHeight = startBlock, OVCStart_Epoch = epoch,
        OVCStart_VotingMinPayment = votingMinPayment, OVCStart_VrfSeed = vrfSeed,
        OVCStart_Committee = [], OVCStart_CommitteeSize = committeeSize\<rparr>,
      T_oracleVotingCommitteeStartCtx := Some \<lparr>OVCtx_committeeSize = committeeSize, OVCtx_networkSize = networkSize\<rparr>\<rparr>)"

definition AddOracleVotingCallVoteProof ::
  "bytes \<Rightarrow> uint64 option \<Rightarrow> (discrimination \<Rightarrow> bool)
     \<Rightarrow> session \<Rightarrow> session option" where
  "AddOracleVotingCallVoteProof voteHash newSecretVotesCount discriminationFlags =
     onTx (\<lambda>t. t\<lparr>T_oracleVotingContractCallVoteProof := Some \<lparr>
        OVCProof_TxHash = Tx_Hash (T_tx t), OVCProof_VoteHash = voteHash, OVCProof_Votes = 0,
        OVCProof_NewSecretVotesCount = newSecretVotesCount,
        OVCProof_DiscriminatedNewbie = discriminationFlags DiscriminatedNewbie,
        OVCProof_DiscriminatedDelegation = discriminationFlags DiscriminatedDelegation,
        OVCProof_DiscriminatedStake = discriminationFlags DiscriminatedStake\<rparr>\<rparr>)"

definition AddOracleVotingCallVote ::
  "(bytes \<Rightarrow> byte) \<Rightarrow> byte \<Rightarrow> bytes \<Rightarrow> uint64 option
     \<Rightarrow> uint64 \<Rightarrow> uint64 option \<Rightarrow> address option
     \<Rightarrow> bytes option \<Rightarrow> uint64 option \<Rightarrow> (discrimination
     \<Rightarrow> bool) \<Rightarrow> session \<Rightarrow> session option" where
  "AddOracleVotingCallVote extractByte vote salt newOptionVotes newOptionAllVotes newSecretVotesCount delegatee prevPoolVote newPrevOptionVotes discriminationFlags =
     onTx (\<lambda>t. t\<lparr>T_oracleVotingContractCallVote := Some \<lparr>
        OVCVote_TxHash = Tx_Hash (T_tx t), OVCVote_Vote = vote, OVCVote_Salt = salt,
        OVCVote_OptionVotes = newOptionVotes, OVCVote_OptionAllVotes = newOptionAllVotes,
        OVCVote_SecretVotesCount = newSecretVotesCount, OVCVote_Delegatee = delegatee,
        OVCVote_DiscriminatedNewbie = discriminationFlags DiscriminatedNewbie,
        OVCVote_DiscriminatedDelegation = discriminationFlags DiscriminatedDelegation,
        OVCVote_DiscriminatedStake = discriminationFlags DiscriminatedStake,
        OVCVote_PrevPoolVote = map_option extractByte prevPoolVote,
        OVCVote_PrevOptionVotes = newPrevOptionVotes\<rparr>\<rparr>)"

definition AddOracleVotingCallFinish ::
  "byte \<Rightarrow> byte option \<Rightarrow> bigint \<Rightarrow> bigint \<Rightarrow> bigint
     \<Rightarrow> session \<Rightarrow> session option" where
  "AddOracleVotingCallFinish state' result fund oracleReward ownerReward =
     onTx (\<lambda>t. t\<lparr>T_oracleVotingContractCallFinish := Some \<lparr>
        OVCFinish_TxHash = Tx_Hash (T_tx t), OVCFinish_State = state', OVCFinish_Result = result,
        OVCFinish_Fund = fund, OVCFinish_OracleReward = oracleReward,
        OVCFinish_OwnerReward = ownerReward\<rparr>\<rparr>)"

definition AddOracleVotingCallProlongation ::
  "uint64 option \<Rightarrow> uint16 \<Rightarrow> bytes \<Rightarrow> uint64 \<Rightarrow>
     uint64 \<Rightarrow> uint64 \<Rightarrow> byte option \<Rightarrow> uint64 option
     \<Rightarrow> session \<Rightarrow> session option" where
  "AddOracleVotingCallProlongation startBlock epoch vrfSeed committeeSize networkSize newCommitteeSize newEpochWithoutGrowth newProlongVoteCount =
     onTx (\<lambda>t. t\<lparr>T_oracleVotingContractCallProlongation := Some \<lparr>
        OVCProlong_TxHash = Tx_Hash (T_tx t), OVCProlong_Epoch = epoch,
        OVCProlong_StartBlock = startBlock, OVCProlong_VrfSeed = vrfSeed,
        OVCProlong_EpochWithoutGrowth = newEpochWithoutGrowth,
        OVCProlong_ProlongVoteCount = newProlongVoteCount, OVCProlong_Committee = [],
        OVCProlong_CommitteeSize = newCommitteeSize\<rparr>,
      T_oracleVotingCommitteeStartCtx := Some \<lparr>OVCtx_committeeSize = newCommitteeSize, OVCtx_networkSize = sint networkSize\<rparr>\<rparr>)"

definition AddOracleVotingCallAddStake ::
  "session \<Rightarrow> session option" where
  "AddOracleVotingCallAddStake =
     onTx (\<lambda>t. t\<lparr>T_oracleVotingContractCallAddStake := Some \<lparr>
        OVCAddStake_TxHash = Tx_Hash (T_tx t)\<rparr>\<rparr>)"

definition AddOracleVotingTermination ::
  "bigint \<Rightarrow> bigint \<Rightarrow> bigint \<Rightarrow> session \<Rightarrow> session
     option" where
  "AddOracleVotingTermination fund oracleReward ownerReward =
     onTx (\<lambda>t. t\<lparr>T_oracleVotingContractTermination := Some \<lparr>
        OVCTerm_TxHash = Tx_Hash (T_tx t), OVCTerm_Fund = fund,
        OVCTerm_OracleReward = oracleReward, OVCTerm_OwnerReward = ownerReward\<rparr>\<rparr>)"

definition AddOracleLockDeploy ::
  "address \<Rightarrow> address \<Rightarrow> byte \<Rightarrow> address \<Rightarrow> address
     \<Rightarrow> session \<Rightarrow> session option" where
  "AddOracleLockDeploy contractAddress oracleVotingAddress v successAddress failAddress =
     onTx (\<lambda>t. t\<lparr>T_oracleLockContract := Some \<lparr>
        OLC_TxHash = Tx_Hash (T_tx t), OLC_ContractAddress = contractAddress, OLC_Stake = None,
        OLC_OracleVotingAddress = oracleVotingAddress, OLC_ExpectedValue = v,
        OLC_SuccessAddress = successAddress, OLC_FailAddress = failAddress\<rparr>\<rparr>)"

definition AddOracleLockCallPush ::
  "bool \<Rightarrow> byte \<Rightarrow> bigint \<Rightarrow> session \<Rightarrow> session
     option" where
  "AddOracleLockCallPush success oracleVotingResult transfer =
     onTx (\<lambda>t. t\<lparr>T_oracleLockContractCallPush := Some \<lparr>
        OLCPush_TxHash = Tx_Hash (T_tx t), OLCPush_Success = success,
        OLCPush_OracleVotingResult = oracleVotingResult, OLCPush_Transfer = transfer\<rparr>\<rparr>)"

definition AddOracleLockCallCheckOracleVoting ::
  "byte \<Rightarrow> string option \<Rightarrow> session \<Rightarrow> session option" where
  "AddOracleLockCallCheckOracleVoting votedValue err =
     onTx (\<lambda>t. t\<lparr>T_oracleLockContractCallCheckOracleVoting := Some \<lparr>
        OLCCheck_TxHash = Tx_Hash (T_tx t),
        OLCCheck_OracleVotingResult = (if err = None then Some votedValue else None)\<rparr>\<rparr>)"

definition AddOracleLockTermination ::
  "address \<Rightarrow> session \<Rightarrow> session option" where
  "AddOracleLockTermination dest =
     onTx (\<lambda>t. t\<lparr>T_oracleLockContractTermination := Some \<lparr>
        OLCTerm_TxHash = Tx_Hash (T_tx t), OLCTerm_Dest = dest\<rparr>\<rparr>)"

definition AddRefundableOracleLockDeploy ::
  "address \<Rightarrow> address \<Rightarrow> byte \<Rightarrow> address \<Rightarrow> string
     option \<Rightarrow> address \<Rightarrow> string option \<Rightarrow> uint64
     \<Rightarrow> uint64 \<Rightarrow> byte \<Rightarrow> uint64 \<Rightarrow> byte
     \<Rightarrow> bigint \<Rightarrow> session \<Rightarrow> session option" where
  "AddRefundableOracleLockDeploy contractAddress oracleVotingAddress v successAddress successAddressErr failAddress failAddressErr refundDelay depositDeadline oracleVotingFeeOld oracleVotingFee state' amountSum =
     onTx (\<lambda>t. t\<lparr>T_refundableOracleLockContract := Some \<lparr>
        ROLC_TxHash = Tx_Hash (T_tx t), ROLC_ContractAddress = contractAddress,
        ROLC_Stake = None, ROLC_OracleVotingAddress = oracleVotingAddress,
        ROLC_ExpectedValue = v,
        ROLC_SuccessAddress = (if successAddressErr = None then Some successAddress else None),
        ROLC_FailAddress = (if failAddressErr = None then Some failAddress else None),
        ROLC_RefundDelay = refundDelay, ROLC_DepositDeadline = depositDeadline,
        ROLC_OracleVotingFeeOld = oracleVotingFeeOld, ROLC_OracleVotingFee = oracleVotingFee\<rparr>\<rparr>)"

definition AddRefundableOracleLockCallDeposit ::
  "bigint \<Rightarrow> bigint \<Rightarrow> bigint \<Rightarrow> session \<Rightarrow> session
     option" where
  "AddRefundableOracleLockCallDeposit ownSum amountSum fee =
     onTx (\<lambda>t. t\<lparr>T_refundableOracleLockContractCallDeposit := Some \<lparr>
        ROLCDeposit_TxHash = Tx_Hash (T_tx t), ROLCDeposit_OwnSum = ownSum,
        ROLCDeposit_Sum = amountSum, ROLCDeposit_Fee = fee\<rparr>\<rparr>)"

definition AddRefundableOracleLockCallPush ::
  "byte \<Rightarrow> bool \<Rightarrow> byte \<Rightarrow> string option \<Rightarrow> bigint
     \<Rightarrow> uint64 \<Rightarrow> session \<Rightarrow> session option" where
  "AddRefundableOracleLockCallPush state' oracleVotingExists oracleVotingResult oracleVotingResultErr transfer refundBlock =
     onTx (\<lambda>t. t\<lparr>T_refundableOracleLockContractCallPush := Some \<lparr>
        ROLCPush_TxHash = Tx_Hash (T_tx t), ROLCPush_State = state',
        ROLCPush_OracleVotingExists = oracleVotingExists,
        ROLCPush_OracleVotingResult = (if oracleVotingResultErr = None then Some oracleVotingResult else None),
        ROLCPush_Transfer = transfer, ROLCPush_RefundBlock = refundBlock\<rparr>\<rparr>)"

definition AddRefundableOracleLockCallRefund ::
  "ext \<Rightarrow> bigint \<Rightarrow> decimal \<Rightarrow> session \<Rightarrow> session
     option" where
  "AddRefundableOracleLockCallRefund e balance coef =
     onTx (\<lambda>t. t\<lparr>T_refundableOracleLockContractCallRefund := Some \<lparr>
        ROLCRefund_TxHash = Tx_Hash (T_tx t), ROLCRefund_Balance = balance,
        ROLCRefund_Coef = X_f64 e coef\<rparr>\<rparr>)"

definition AddRefundableOracleLockTermination ::
  "address \<Rightarrow> session \<Rightarrow> session option" where
  "AddRefundableOracleLockTermination dest =
     onTx (\<lambda>t. t\<lparr>T_refundableOracleLockContractTermination := Some \<lparr>
        ROLCTerm_TxHash = Tx_Hash (T_tx t), ROLCTerm_Dest = dest\<rparr>\<rparr>)"

definition AddMultisigDeploy ::
  "address \<Rightarrow> byte \<Rightarrow> byte \<Rightarrow> byte \<Rightarrow> session
     \<Rightarrow> session option" where
  "AddMultisigDeploy contractAddress minVotes maxVotes state' =
     onTx (\<lambda>t. t\<lparr>T_multisigContract := Some \<lparr>
        MC_TxHash = Tx_Hash (T_tx t), MC_ContractAddress = contractAddress, MC_Stake = None,
        MC_MinVotes = minVotes, MC_MaxVotes = maxVotes, MC_State = state'\<rparr>\<rparr>)"

definition AddMultisigCallAdd ::
  "address \<Rightarrow> byte option \<Rightarrow> session \<Rightarrow> session option" where
  "AddMultisigCallAdd addr newState =
     onTx (\<lambda>t. t\<lparr>T_multisigContractCallAdd := Some \<lparr>
        MCAdd_TxHash = Tx_Hash (T_tx t), MCAdd_Address = addr, MCAdd_NewState = newState\<rparr>\<rparr>)"

definition AddMultisigCallSend ::
  "address \<Rightarrow> bytes \<Rightarrow> session \<Rightarrow> session option" where
  "AddMultisigCallSend dest amount =
     onTx (\<lambda>t. t\<lparr>T_multisigContractCallSend := Some \<lparr>
        MCSend_TxHash = Tx_Hash (T_tx t), MCSend_Dest = dest,
        MCSend_Amount = Some (setBytes amount)\<rparr>\<rparr>)"

definition AddMultisigCallPush ::
  "address \<Rightarrow> bytes \<Rightarrow> int \<Rightarrow> int \<Rightarrow> session
     \<Rightarrow> session option" where
  "AddMultisigCallPush dest amount voteAddressCnt voteAmountCnt =
     onTx (\<lambda>t. t\<lparr>T_multisigContractCallPush := Some \<lparr>
        MCPush_TxHash = Tx_Hash (T_tx t), MCPush_Dest = dest,
        MCPush_Amount = Some (setBytes amount),
        MCPush_VoteAddressCnt = word_of_int voteAddressCnt,
        MCPush_VoteAmountCnt = word_of_int voteAmountCnt\<rparr>\<rparr>)"

definition AddMultisigTermination ::
  "address \<Rightarrow> session \<Rightarrow> session option" where
  "AddMultisigTermination dest =
     onTx (\<lambda>t. t\<lparr>T_multisigContractTermination := Some \<lparr>
        MCTerm_TxHash = Tx_Hash (T_tx t), MCTerm_Dest = dest\<rparr>\<rparr>)"

definition AddTimeLockDeploy ::
  "address \<Rightarrow> uint64 \<Rightarrow> session \<Rightarrow> session option" where
  "AddTimeLockDeploy contractAddress timestamp =
     onTx (\<lambda>t. t\<lparr>T_timeLockContract := Some \<lparr>
        TLC_TxHash = Tx_Hash (T_tx t), TLC_ContractAddress = contractAddress, TLC_Stake = None,
        TLC_Timestamp = timestamp\<rparr>\<rparr>)"

definition AddTimeLockCallTransfer ::
  "address \<Rightarrow> bigint \<Rightarrow> session \<Rightarrow> session option" where
  "AddTimeLockCallTransfer dest amount =
     onTx (\<lambda>t. t\<lparr>T_timeLockContractCallTransfer := Some \<lparr>
        TLCTransfer_TxHash = Tx_Hash (T_tx t), TLCTransfer_Dest = dest,
        TLCTransfer_Amount = amount\<rparr>\<rparr>)"

definition AddTimeLockTermination ::
  "address \<Rightarrow> session \<Rightarrow> session option" where
  "AddTimeLockTermination dest =
     onTx (\<lambda>t. t\<lparr>T_timeLockContractTermination := Some \<lparr>
        TLCTerm_TxHash = Tx_Hash (T_tx t), TLCTerm_Dest = dest\<rparr>\<rparr>)"


text \<open>The map of deployed contracts, as an association list.\<close>

definition putAssoc :: "'k \<Rightarrow> 'v \<Rightarrow> ('k \<times> 'v) list \<Rightarrow> ('k \<times> 'v) list" where
  "putAssoc k v xs = (if k \<in> fst ` set xs then map (\<lambda>(k', v'). if k' = k then (k, v) else (k', v')) xs
     else xs @ [(k, v)])"

definition AddWasmContract :: "address \<Rightarrow> bytes \<Rightarrow> session \<Rightarrow> session option" where
  "AddWasmContract addr code =
     onTx (\<lambda>t. t\<lparr>T_deployedWasmContracts := putAssoc addr code (T_deployedWasmContracts t)\<rparr>)"

section \<open>The committee of an oracle voting\<close>

definition maxOracleVotingHash :: int where
  "maxOracleVotingHash = setBytes (replicate 32 255)"

definition inCommittee :: "ext \<Rightarrow> uint64 \<Rightarrow> int \<Rightarrow> bytes \<Rightarrow> identityInfo \<Rightarrow> bool" where
  "inCommittee e committeeSize networkSize vrfSeed i \<longleftrightarrow>
     X_newbieOrBetter e (II_state i)
     \<and> (let v = of_int (uint (X_hash e (II_pubKey i @ vrfSeed)));
            q = X_bfRound e (v / of_int maxOracleVotingHash);
            networkSizeF = (if networkSize = 0 then 1 else X_f64 e (of_int networkSize))
        in \<not> q < X_f64 e (1 - X_f64 e (X_f64 e (of_int (uint committeeSize)) / networkSizeF)))"

text \<open>The identities are read from the state by the first call of a block and kept.\<close>

definition getOracleVotingCommittee ::
  "ext \<Rightarrow> uint64 \<Rightarrow> int \<Rightarrow> bytes \<Rightarrow> app_state \<Rightarrow> session \<Rightarrow> session \<times> address list" where
  "getOracleVotingCommittee e committeeSize networkSize vrfSeed appState s =
     (let cached = P_identitiesByAddr (pending s);
          identities = (if cached \<noteq> [] then cached
            else map (\<lambda>(a, i). (a, \<lparr>II_pubKey = Id_PubKey i, II_state = Id_State i\<rparr>)) (AS_Identities appState))
      in (s\<lparr>pending := (pending s)\<lparr>P_identitiesByAddr := identities\<rparr>\<rparr>,
          map fst (filter (\<lambda>(a, i). inCommittee e committeeSize networkSize vrfSeed i) identities)))"

section \<open>The receipt\<close>

definition addRow :: "'r option \<Rightarrow> (('r list \<Rightarrow> 'r list) \<Rightarrow> Stats \<Rightarrow> Stats) \<Rightarrow> session \<Rightarrow> session" where
  "addRow row update = (case row of None \<Rightarrow> (\<lambda>s. s) | Some r \<Rightarrow> onStats (update (\<lambda>rs. rs @ [r])))"

text \<open>The last of the calls that is present gives the method.\<close>

definition contractCallMethod :: "pendingTx \<Rightarrow> byte option" where
  "contractCallMethod t = fold (\<lambda>(present, m) acc. if present then Some m else acc)
     [(T_oracleVotingContractCallStart t \<noteq> None, OracleVotingCallStart),
      (T_oracleVotingContractCallVoteProof t \<noteq> None, OracleVotingCallVoteProof),
      (T_oracleVotingContractCallVote t \<noteq> None, OracleVotingCallVote),
      (T_oracleVotingContractCallFinish t \<noteq> None, OracleVotingCallFinish),
      (T_oracleVotingContractCallProlongation t \<noteq> None, OracleVotingCallProlong),
      (T_oracleVotingContractCallAddStake t \<noteq> None, OracleVotingCallAddStake),
      (T_oracleLockContractCallCheckOracleVoting t \<noteq> None, OracleLockCallCheckOracleVoting),
      (T_oracleLockContractCallPush t \<noteq> None, OracleLockCallPush),
      (T_refundableOracleLockContractCallDeposit t \<noteq> None, RefundableOracleLockCallDeposit),
      (T_refundableOracleLockContractCallPush t \<noteq> None, RefundableOracleLockCallPush),
      (T_refundableOracleLockContractCallRefund t \<noteq> None, RefundableOracleLockCallRefund),
      (T_multisigContractCallAdd t \<noteq> None, MultisigCallAdd),
      (T_multisigContractCallSend t \<noteq> None, MultisigCallSend),
      (T_multisigContractCallPush t \<noteq> None, MultisigCallPush),
      (T_timeLockContractCallTransfer t \<noteq> None, TimeLockCallTransfer)] None"

text \<open>The starts and prolongations of oracle votings; the context or the recipient may be nil.\<close>

definition applyOracleVotingStart :: "ext \<Rightarrow> app_state \<Rightarrow> pendingTx \<Rightarrow> session \<Rightarrow> session option" where
  "applyOracleVotingStart e appState t s =
     (case T_oracleVotingContractCallStart t of None \<Rightarrow> Some s
      | Some row \<Rightarrow> do {
          ctx \<leftarrow> T_oracleVotingCommitteeStartCtx t;
          to' \<leftarrow> Tx_To (T_tx t);
          let (s1, committee) = getOracleVotingCommittee e (OVCtx_committeeSize ctx) (OVCtx_networkSize ctx)
            (OVCStart_VrfSeed row) appState s;
          Some (onStats (\<lambda>st. st\<lparr>
            S_OracleVotingContractCallStarts := S_OracleVotingContractCallStarts st @ [row\<lparr>OVCStart_Committee := committee\<rparr>],
            S_NewActualOracleVotingContracts := S_NewActualOracleVotingContracts st @ [to']\<rparr>) s1) })"

definition applyOracleVotingProlongation :: "ext \<Rightarrow> app_state \<Rightarrow> pendingTx \<Rightarrow> session \<Rightarrow> session option" where
  "applyOracleVotingProlongation e appState t s =
     (case T_oracleVotingContractCallProlongation t of None \<Rightarrow> Some s
      | Some row \<Rightarrow> do {
          ctx \<leftarrow> T_oracleVotingCommitteeStartCtx t;
          to' \<leftarrow> Tx_To (T_tx t);
          let (s1, committee) = getOracleVotingCommittee e (OVCtx_committeeSize ctx) (OVCtx_networkSize ctx)
            (OVCProlong_VrfSeed row) appState s;
          Some (onStats (\<lambda>st. st\<lparr>
            S_OracleVotingContractCallProlongations := S_OracleVotingContractCallProlongations st @ [row\<lparr>OVCProlong_Committee := committee\<rparr>],
            S_NewActualOracleVotingContracts := S_NewActualOracleVotingContracts st @ [to']\<rparr>) s1) })"

text \<open>A finish or a termination makes the voting not actual.\<close>

definition endOracleVoting :: "bool \<Rightarrow> pendingTx \<Rightarrow> session \<Rightarrow> session option" where
  "endOracleVoting present t s =
     (if \<not> present then Some s
      else map_option (\<lambda>to'. onStats (\<lambda>st. st\<lparr>S_NewNotActualOracleVotingContracts :=
             S_NewNotActualOracleVotingContracts st @ [to']\<rparr>) s) (Tx_To (T_tx t)))"

definition applyLockRows :: "pendingTx \<Rightarrow> session \<Rightarrow> session" where
  "applyLockRows t s =
     addRow (T_timeLockContractTermination t) S_TimeLockContractTerminations_update
    (addRow (T_timeLockContractCallTransfer t) S_TimeLockContractCallTransfers_update
    (addRow (T_timeLockContract t) S_TimeLockContracts_update
    (addRow (T_multisigContractTermination t) S_MultisigContractTerminations_update
    (addRow (T_multisigContractCallPush t) S_MultisigContractCallPushes_update
    (addRow (T_multisigContractCallSend t) S_MultisigContractCallSends_update
    (addRow (T_multisigContractCallAdd t) S_MultisigContractCallAdds_update
    (addRow (T_multisigContract t) S_MultisigContracts_update
    (addRow (T_refundableOracleLockContractTermination t) S_RefundableOracleLockContractTerminations_update
    (addRow (T_refundableOracleLockContractCallRefund t) S_RefundableOracleLockContractCallRefunds_update
    (addRow (T_refundableOracleLockContractCallPush t) S_RefundableOracleLockContractCallPushes_update
    (addRow (T_refundableOracleLockContractCallDeposit t) S_RefundableOracleLockContractCallDeposits_update
    (addRow (T_refundableOracleLockContract t) S_RefundableOracleLockContracts_update
    (addRow (T_oracleLockContractTermination t) S_OracleLockContractTerminations_update
    (addRow (T_oracleLockContractCallPush t) S_OracleLockContractCallPushes_update
    (addRow (T_oracleLockContractCallCheckOracleVoting t) S_OracleLockContractCallCheckOracleVotings_update
    (addRow (T_oracleLockContract t) S_OracleLockContracts_update s))))))))))))))))"

definition applyEmbeddedContractTxReceipt :: "ext \<Rightarrow> app_state \<Rightarrow> pendingTx \<Rightarrow> session \<Rightarrow> session option" where
  "applyEmbeddedContractTxReceipt e appState t s = do {
     s1 \<leftarrow> applyOracleVotingStart e appState t
            (addRow (T_oracleVotingContractDeploy t) S_OracleVotingContracts_update s);
     s2 \<leftarrow> endOracleVoting (T_oracleVotingContractCallFinish t \<noteq> None) t
            (addRow (T_oracleVotingContractCallFinish t) S_OracleVotingContractCallFinishes_update
            (addRow (T_oracleVotingContractCallVote t) S_OracleVotingContractCallVotes_update
            (addRow (T_oracleVotingContractCallVoteProof t) S_OracleVotingContractCallVoteProofs_update s1)));
     s3 \<leftarrow> applyOracleVotingProlongation e appState t s2;
     s4 \<leftarrow> endOracleVoting (T_oracleVotingContractTermination t \<noteq> None) t
            (addRow (T_oracleVotingContractTermination t) S_OracleVotingContractTerminations_update
            (addRow (T_oracleVotingContractCallAddStake t) S_OracleVotingContractCallAddStakes_update s3));
     Some (applyLockRows t s4) }"

text \<open>The loop over the balance updates: the state, the sender's row and the other rows.\<close>

fun applyContractBalances ::
  "address \<Rightarrow> contractBalanceUpdate list \<Rightarrow> session \<times> ContractTxBalanceUpdate \<times> ContractTxBalanceUpdate list
     \<Rightarrow> (session \<times> ContractTxBalanceUpdate \<times> ContractTxBalanceUpdate list) option" where
  "applyContractBalances sender [] acc = Some acc"
| "applyContractBalances sender (u # us) (s, senderRow, rows) = do {
     bu \<leftarrow> deref (updateStore s) (CBU_BalanceUpdate u);
     changed \<leftarrow> isBalanceOrStakeOrPenaltyChanged bu;
     if \<not> changed then applyContractBalances sender us (s, senderRow, rows)
     else let s1 = appendBalanceUpdate (CBU_BalanceUpdate u) (BU_Address bu) s
          in if BU_Address bu = sender
             then applyContractBalances sender us (s1, senderRow\<lparr>CTBU_BalanceOld := BU_BalanceOld bu,
                    CTBU_BalanceNew := BU_BalanceNew bu\<rparr>, rows)
             else applyContractBalances sender us (s1, senderRow, rows @ [\<lparr>CTBU_Address = BU_Address bu,
                    CTBU_BalanceOld = BU_BalanceOld bu, CTBU_BalanceNew = BU_BalanceNew bu,
                    CTBU_ContractAddress = CBU_contractAddress u\<rparr>]) }"

fun applyContractBurntCoins :: "ext \<Rightarrow> Transaction \<Rightarrow> ref list \<Rightarrow> session \<Rightarrow> session option" where
  "applyContractBurntCoins e tx [] s = Some s"
| "applyContractBurntCoins e tx (p # ps) s = do {
     c \<leftarrow> deref (burntStore s) p;
     applyContractBurntCoins e tx ps
       (addBurntCoins e (PBC_address c) (Some (PBC_amount c)) (PBC_reason c) (Some tx) s) }"

definition collectTokens :: "token_env \<Rightarrow> address list \<Rightarrow> app_state \<Rightarrow> session \<Rightarrow> session" where
  "collectTokens env contracts appState =
     onStats (\<lambda>st. st\<lparr>S_Tokens := S_Tokens st @ detectTokens env contracts appState\<rparr>)"

definition collectTokenBalanceUpdates :: "token_env \<Rightarrow> TxReceipt \<Rightarrow> app_state \<Rightarrow> session \<Rightarrow> session" where
  "collectTokenBalanceUpdates env txReceipt appState s =
     (let c = (case P_tokenBalanceUpdateCollector (pending s) of
                 None \<Rightarrow> newTokenBalanceUpdateCollector | Some c \<Rightarrow> c);
          (c', rows) = applyTxReceipt env txReceipt appState c
      in s\<lparr>pending := (pending s)\<lparr>P_tokenBalanceUpdateCollector := Some c'\<rparr>,
           stats := (stats s)\<lparr>S_TokenBalanceUpdates := rows\<rparr>\<rparr>)"

definition emptySenderRow :: "Transaction \<Rightarrow> ContractTxBalanceUpdate" where
  "emptySenderRow tx = \<lparr>CTBU_Address = Tx_Sender tx, CTBU_BalanceOld = None, CTBU_BalanceNew = None,
     CTBU_ContractAddress = None\<rparr>"

text \<open>What a successful receipt adds, and the rows of the transaction's balance updates.\<close>

definition applySuccessfulReceipt ::
  "ext \<Rightarrow> app_state \<Rightarrow> pendingTx \<Rightarrow> session \<Rightarrow> (session \<times> ContractTxBalanceUpdate list) option" where
  "applySuccessfulReceipt e appState t s = do {
     s1 \<leftarrow> applyEmbeddedContractTxReceipt e appState t s;
     let s2 = onStats (\<lambda>st. st\<lparr>S_Contracts := S_Contracts st @ map (\<lambda>(a, code).
           \<lparr>Ct_TxHash = Tx_Hash (T_tx t), Ct_ContractAddress = a, Ct_Code = code\<rparr>) (T_deployedWasmContracts t)\<rparr>) s1;
     (s3, senderRow, rows) \<leftarrow> applyContractBalances (Tx_Sender (T_tx t)) (T_contractBalanceUpdates t)
       (s2, emptySenderRow (T_tx t), []);
     s4 \<leftarrow> applyContractBurntCoins e (T_tx t) (T_contractBurntCoins t) s3;
     Some (s4, senderRow # rows) }"

definition AddTxReceipt :: "ext \<Rightarrow> token_env \<Rightarrow> TxReceipt \<Rightarrow> app_state \<Rightarrow> session \<Rightarrow> session option" where
  "AddTxReceipt e env txReceipt appState s = do {
     t \<leftarrow> P_tx (pending s);
     let s1 = onStats (\<lambda>st. st\<lparr>S_TxReceipts := S_TxReceipts st @ [txReceipt]\<rparr>) s;
     (s2, updates) \<leftarrow> (if Rc_Success txReceipt then applySuccessfulReceipt e appState t s1
                       else Some (s1, [emptySenderRow (T_tx t)]));
     let isFailedDeploy = (Tx_Type (T_tx t) = DeployContractTx \<and> \<not> Rc_Success txReceipt);
     let s3 = (if Rc_ContractAddress txReceipt \<noteq> 0 \<and> \<not> isFailedDeploy
               then onStats (\<lambda>st. st\<lparr>S_ContractTxsBalanceUpdates := S_ContractTxsBalanceUpdates st @
                 [\<lparr>CTBUs_TxHash = Tx_Hash (T_tx t), CTBUs_ContractAddress = Rc_ContractAddress txReceipt,
                   CTBUs_ContractCallMethod = (if Rc_Success txReceipt then contractCallMethod t else None),
                   CTBUs_Updates = updates\<rparr>]\<rparr>) s2
               else s2);
     let deployed = (if Rc_Success txReceipt then map fst (T_deployedWasmContracts t) else []);
     Some (collectTokenBalanceUpdates env txReceipt appState (collectTokens env deployed appState s3)) }"

text \<open>A transfer of 5 from the address 1 to the address 2, for evaluating definitions.\<close>

definition sampleTx :: Transaction where
  "sampleTx = \<lparr>Tx_Hash = 100, Tx_Sender = 1, Tx_Type = SendTx, Tx_To = Some 2, Tx_Amount = Some 5,
     Tx_Tips = None, Tx_MaxFee = Some 1, Tx_Epoch = 1, Tx_Nonce = 1, Tx_Size = 100, Tx_Payload = []\<rparr>"

end
