(* ===== verification/Contract_Properties.thy ===== *)
theory Contract_Properties
  imports Contract_Collector
begin

text \<open>
  Properties of transactions and contracts in the collector: when the completion of a transaction
  panics and what it does to the number of candidates, that a failed receipt adds no contract rows,
  that the updates and burnt coins of nested calls reach the transaction unchanged, and that the
  burnt coins of a receipt are added in full.
\<close>

section \<open>The life cycle of a transaction\<close>

lemma onStats_simps [simp]:
  "stats (onStats f s) = f (stats s)" "pending (onStats f s) = pending s"
  "updateStore (onStats f s) = updateStore s" "burntStore (onStats f s) = burntStore s"
  by (simp_all add: onStats_def)

definition candidates :: "Transaction \<Rightarrow> app_state \<Rightarrow> int" where
  "candidates tx appState = (\<Sum>a \<in> {Tx_Sender tx} \<union> set_option (Tx_To tx).
     if AS_GetIdentityState appState a = CandidateSt then 1 else 0)"

lemma BeginApplyingTx_pending:
  "\<exists>t. P_tx (pending (BeginApplyingTx tx st s)) = Some t \<and> T_tx t = tx
     \<and> T_inviteTxHash t = (if Tx_Type tx = ActivationTxT then Id_InviterTxHash (AS_GetIdentity st (Tx_Sender tx)) else None)"
  "P_identityStates (pending (BeginApplyingTx tx st s)) = [AS_GetIdentityState st (Tx_Sender tx)] @
     (case Tx_To tx of None \<Rightarrow> [] | Some a \<Rightarrow> if a \<noteq> Tx_Sender tx then [AS_GetIdentityState st a] else [])"
  "stats (BeginApplyingTx tx st s) = stats s"
  by (auto simp: BeginApplyingTx_def Let_def newPendingTx_def split: option.splits)

lemma stateChange_diff:
  "sum_list (map (candidateDiff \<circ> snd) (stateChange st1 a (AS_GetIdentityState st0 a))) =
     (if AS_GetIdentityState st1 a = CandidateSt then 1 else 0) - (if AS_GetIdentityState st0 a = CandidateSt then 1 else 0)"
  by (simp add: stateChange_def Let_def candidateDiff_def)

lemma stateChanges_begun:
  "\<exists>changes. stateChanges tx st1 (P_identityStates (pending (BeginApplyingTx tx st0 s))) = Some changes
     \<and> sum_list (map (candidateDiff \<circ> snd) changes) = candidates tx st1 - candidates tx st0"
proof (cases "Tx_To tx")
  case None
  then show ?thesis
    by (simp add: BeginApplyingTx_pending stateChanges_def Let_def stateChange_diff candidates_def)
next
  case (Some a)
  then show ?thesis
    by (cases "a = Tx_Sender tx")
      (simp_all add: BeginApplyingTx_pending stateChanges_def Let_def stateChange_diff candidates_def insert_commute)
qed

lemma recordStateChanges_diff:
  "ESU_CandidateCountDiff (S_EpochSummaryUpdate (stats (recordStateChanges tx changes s))) =
     ESU_CandidateCountDiff (S_EpochSummaryUpdate (stats s)) + sum_list (map (candidateDiff \<circ> snd) changes)"
  by (simp add: recordStateChanges_def)

lemma collect_diff_frame [simp]:
  "S_EpochSummaryUpdate (stats (collectTxSentToContract st t s)) = S_EpochSummaryUpdate (stats s)"
  "S_EpochSummaryUpdate (stats (collectDelegationHistoryUpdate t s)) = S_EpochSummaryUpdate (stats s)"
  "collectActivationTx e st t s = Some s' \<Longrightarrow> S_EpochSummaryUpdate (stats s') = S_EpochSummaryUpdate (stats s)"
  by (auto simp: collectTxSentToContract_def collectDelegationHistoryUpdate_def collectActivationTx_def Let_def
      split: option.splits if_splits)

lemma CompleteApplyingTx_begun:
  assumes "P_tx (pending (BeginApplyingTx tx st0 s)) = Some t"
  shows "\<exists>changes. CompleteApplyingTx e st1 (BeginApplyingTx tx st0 s) =
      map_option (\<lambda>s1. (collectDelegationHistoryUpdate t s1)\<lparr>pending :=
          (pending (collectDelegationHistoryUpdate t s1))\<lparr>P_tx := None\<rparr>\<rparr>)
        (collectActivationTx e st1 t (collectTxSentToContract st1 t
          (recordStateChanges tx changes (BeginApplyingTx tx st0 s))))
    \<and> sum_list (map (candidateDiff \<circ> snd) changes) = candidates tx st1 - candidates tx st0"
proof -
  obtain changes where c: "stateChanges tx st1 (P_identityStates (pending (BeginApplyingTx tx st0 s))) = Some changes"
      "sum_list (map (candidateDiff \<circ> snd) changes) = candidates tx st1 - candidates tx st0"
    using stateChanges_begun by blast
  have "T_tx t = tx" using BeginApplyingTx_pending(1) [of tx st0 s] assms by auto
  then show ?thesis
    using assms c
    by (intro exI [of _ changes]) (simp add: CompleteApplyingTx_def Let_def map_conv_bind_option comp_def)
qed

section \<open>Nested calls\<close>

lemma applyUpdateCache_top:
  "T_contractBalanceUpdates (applyUpdateCache c None t) =
     T_contractBalanceUpdates t @ BUCa_updates (getOrPutContractBalanceUpdateCache c t)"
  by (simp add: applyUpdateCache_def Let_def)

lemma applyUpdateCache_parent:
  "c \<noteq> p \<Longrightarrow> BUCa_updates (getOrPutContractBalanceUpdateCache p (applyUpdateCache c (Some p) t)) =
     BUCa_updates (getOrPutContractBalanceUpdateCache p t) @ BUCa_updates (getOrPutContractBalanceUpdateCache c t)"
  "T_contractBalanceUpdates (applyUpdateCache c (Some p) t) = T_contractBalanceUpdates t"
  "getOrPutContractBalanceUpdateCache q (applyBurntCache c pp t) = getOrPutContractBalanceUpdateCache q t"
  "T_contractBalanceUpdates (applyBurntCache c pp t) = T_contractBalanceUpdates t"
  by (simp_all add: applyUpdateCache_def applyBurntCache_def getOrPutContractBalanceUpdateCache_def
      updateCacheImport_def Let_def split: option.splits)

lemma applyBurntCache_top:
  "T_contractBurntCoins (applyBurntCache c None t) =
     T_contractBurntCoins t @ BCC_coins (getOrPutContractBurntCoinsCache c t)"
  by (simp add: applyBurntCache_def Let_def)

lemma applyBurntCache_parent:
  "c \<noteq> p \<Longrightarrow> BCC_coins (getOrPutContractBurntCoinsCache p (applyBurntCache c (Some p) t)) =
     BCC_coins (getOrPutContractBurntCoinsCache p t) @ BCC_coins (getOrPutContractBurntCoinsCache c t)"
  "T_contractBurntCoins (applyBurntCache c (Some p) t) = T_contractBurntCoins t"
  "getOrPutContractBurntCoinsCache q (applyUpdateCache c pp t) = getOrPutContractBurntCoinsCache q t"
  "T_contractBurntCoins (applyUpdateCache c pp t) = T_contractBurntCoins t"
  by (simp_all add: applyUpdateCache_def applyBurntCache_def getOrPutContractBurntCoinsCache_def
      burntCacheImport_def Let_def split: option.splits)

section \<open>Burnt coins of one call\<close>

definition coin_amount :: "address \<Rightarrow> pendingBurntCoins \<Rightarrow> int" where
  "coin_amount a c = (if PBC_address c = a then PBC_amount c else 0)"

definition burnt_cache_wf :: "burntCoinsCache \<times> pendingBurntCoins store \<Rightarrow> bool" where
  "burnt_cache_wf = (\<lambda>(cache, st). wf_index (\<lambda>c. Some (PBC_address c)) (BCC_coins cache) (BCC_coinsByAddress cache) st)"

lemma burntCacheAdd_step:
  assumes wf: "burnt_cache_wf (cache, st)"
  shows "burnt_cache_wf (burntCacheAdd addr v (cache, st))"
    and "case burntCacheAdd addr v (cache, st) of (cache', st') \<Rightarrow>
      total (coin_amount a) st' (BCC_coins cache') = total (coin_amount a) st (BCC_coins cache) + (if a = addr then v else 0)"
proof -
  note ix = wf [unfolded burnt_cache_wf_def case_prod_conv]
  have f: "fresh st \<notin> set (BCC_coins cache)" by (rule wf_index_fresh [OF ix])
  show "burnt_cache_wf (burntCacheAdd addr v (cache, st))"
  proof (cases "BCC_coinsByAddress cache addr")
    case None
    have "wf_index (\<lambda>c. Some (PBC_address c)) (BCC_coins cache @ [fresh st]) ((BCC_coinsByAddress cache)(addr \<mapsto> fresh st))
        (alloc \<lparr>PBC_address = addr, PBC_amount = v, PBC_reason = ContractReason\<rparr> st)"
      by (rule wf_index_append [OF ix]) (auto simp: None)
    then show ?thesis using wf None by (simp add: burntCacheAdd_def burnt_cache_wf_def)
  next
    case (Some p)
    have "wf_index (\<lambda>c. Some (PBC_address c)) (BCC_coins cache) (BCC_coinsByAddress cache)
        (modify p (\<lambda>c. c\<lparr>PBC_amount := PBC_amount c + v\<rparr>) st)"
      by (rule wf_index_modify [OF ix]) simp
    then show ?thesis using wf Some by (simp add: burntCacheAdd_def burnt_cache_wf_def)
  qed
  show "case burntCacheAdd addr v (cache, st) of (cache', st') \<Rightarrow>
      total (coin_amount a) st' (BCC_coins cache') = total (coin_amount a) st (BCC_coins cache) + (if a = addr then v else 0)"
  proof (cases "BCC_coinsByAddress cache addr")
    case None
    then show ?thesis by (simp add: burntCacheAdd_def total_append [OF f] coin_amount_def)
  next
    case (Some p)
    obtain c where c: "deref st p = Some c" "PBC_address c = addr" using wf_indexD(4) [OF ix Some] by auto
    show ?thesis
      using Some c(2) total_modify [OF wf_indexD(1) [OF ix] wf_indexD(3) [OF ix Some] c(1), of "coin_amount a"]
      by (simp add: burntCacheAdd_def coin_amount_def)
  qed
qed

lemma burntCacheAdd_run:
  assumes "burnt_cache_wf cs"
  shows "burnt_cache_wf (fold (\<lambda>(addr, v). burntCacheAdd addr v) burns cs)"
    and "total (coin_amount a) (snd (fold (\<lambda>(addr, v). burntCacheAdd addr v) burns cs))
        (BCC_coins (fst (fold (\<lambda>(addr, v). burntCacheAdd addr v) burns cs))) =
      total (coin_amount a) (snd cs) (BCC_coins (fst cs)) + (\<Sum>(addr, v)\<leftarrow>burns. if a = addr then v else 0)"
proof -
  have "burnt_cache_wf (fold (\<lambda>(addr, v). burntCacheAdd addr v) burns cs)
    \<and> total (coin_amount a) (snd (fold (\<lambda>(addr, v). burntCacheAdd addr v) burns cs))
        (BCC_coins (fst (fold (\<lambda>(addr, v). burntCacheAdd addr v) burns cs))) =
      total (coin_amount a) (snd cs) (BCC_coins (fst cs)) + (\<Sum>(addr, v)\<leftarrow>burns. if a = addr then v else 0)"
    using assms
  proof (induction burns arbitrary: cs)
    case Nil
    then show ?case by simp
  next
    case (Cons b burns)
    obtain addr v where b: "b = (addr, v)" by (cases b)
    obtain cache st where cs: "cs = (cache, st)" by (cases cs)
    obtain cache' st' where cs': "burntCacheAdd addr v (cache, st) = (cache', st')" by fastforce
    have "burnt_cache_wf (cache', st')" using burntCacheAdd_step(1) [where cache = cache and st = st and addr = addr and v = v] Cons.prems cs cs' by simp
    from Cons.IH [OF this] burntCacheAdd_step(2) [where cache = cache and st = st and addr = addr and v = v and a = a]
      Cons.prems show ?case by (simp add: b cs cs')
  qed
  then show "burnt_cache_wf (fold (\<lambda>(addr, v). burntCacheAdd addr v) burns cs)"
    and "total (coin_amount a) (snd (fold (\<lambda>(addr, v). burntCacheAdd addr v) burns cs))
        (BCC_coins (fst (fold (\<lambda>(addr, v). burntCacheAdd addr v) burns cs))) =
      total (coin_amount a) (snd cs) (BCC_coins (fst cs)) + (\<Sum>(addr, v)\<leftarrow>burns. if a = addr then v else 0)"
    by simp_all
qed

section \<open>What a receipt adds\<close>

lemma burnt_total_add:
  "zeroIfNil (S_BurntCoins (stats (addBurntCoins e a v c tx s))) = zeroIfNil (S_BurntCoins (stats s)) + zeroIfNil v"
  "burntStore (addBurntCoins e a v c tx s) = burntStore s"
  by (auto simp: addBurntCoins_def Let_def zeroOrNil_iff)

lemma applyContractBurntCoins_total:
  assumes "\<forall>p \<in> set ps. deref (burntStore s) p \<noteq> None"
  shows "\<exists>s'. applyContractBurntCoins e tx ps s = Some s' \<and> zeroIfNil (S_BurntCoins (stats s')) =
    zeroIfNil (S_BurntCoins (stats s)) + total PBC_amount (burntStore s) ps"
  using assms
proof (induction ps arbitrary: s)
  case Nil
  then show ?case by simp
next
  case (Cons p ps)
  then obtain c where c: "deref (burntStore s) p = Some c" by auto
  let ?s1 = "addBurntCoins e (PBC_address c) (Some (PBC_amount c)) (PBC_reason c) (Some tx) s"
  have "\<forall>q \<in> set ps. deref (burntStore ?s1) q \<noteq> None" using Cons.prems by (simp add: burnt_total_add)
  from Cons.IH [OF this] show ?case
    using c by (auto simp: burnt_total_add total_def add.assoc)
qed

text \<open>The updates that changed something, among those of a transaction.\<close>

definition changedUpdates :: "BalanceUpdate store \<Rightarrow> contractBalanceUpdate list \<Rightarrow> ref list" where
  "changedUpdates st us = filter (\<lambda>r. case deref st r of None \<Rightarrow> False
     | Some bu \<Rightarrow> isBalanceOrStakeOrPenaltyChanged bu = Some True) (map CBU_BalanceUpdate us)"

lemma applyContractBalances_updates:
  assumes "applyContractBalances sender us (s, sr, rows) = Some (s', sr', rows')"
  shows "S_BalanceUpdates (stats s') = S_BalanceUpdates (stats s) @ changedUpdates (updateStore s) us
    \<and> burntStore s' = burntStore s \<and> S_BurntCoins (stats s') = S_BurntCoins (stats s)
    \<and> S_Contracts (stats s') = S_Contracts (stats s)"
  using assms
proof (induction us arbitrary: s sr rows)
  case Nil
  then show ?case by (simp add: changedUpdates_def)
next
  case (Cons u us)
  obtain bu ch where b: "deref (updateStore s) (CBU_BalanceUpdate u) = Some bu"
      "isBalanceOrStakeOrPenaltyChanged bu = Some ch"
    using Cons.prems by (auto simp: bind_Some_iff)
  have frame: "updateStore (appendBalanceUpdate r a s) = updateStore s"
    "S_BalanceUpdates (stats (appendBalanceUpdate r a s)) = S_BalanceUpdates (stats s) @ [r]"
    "burntStore (appendBalanceUpdate r a s) = burntStore s"
    "S_BurntCoins (stats (appendBalanceUpdate r a s)) = S_BurntCoins (stats s)"
    "S_Contracts (stats (appendBalanceUpdate r a s)) = S_Contracts (stats s)" for r a
    by (simp_all add: appendBalanceUpdate_def afterBalanceUpdate_def)
  show ?case
  proof (cases ch)
    case False
    then have "applyContractBalances sender us (s, sr, rows) = Some (s', sr', rows')"
      using Cons.prems b by simp
    from Cons.IH [OF this] False b show ?thesis by (simp add: changedUpdates_def)
  next
    case True
    then obtain sr1 rows1 where "applyContractBalances sender us
        (appendBalanceUpdate (CBU_BalanceUpdate u) (BU_Address bu) s, sr1, rows1) = Some (s', sr', rows')"
      using Cons.prems b by (auto simp: Let_def split: if_splits)
    from Cons.IH [OF this] True b show ?thesis by (simp add: changedUpdates_def frame)
  qed
qed

text \<open>The rows of the embedded contracts leave the balances, burnt coins and stores alone.\<close>

definition same_money :: "session \<Rightarrow> session \<Rightarrow> bool" where
  "same_money s s' \<longleftrightarrow> updateStore s' = updateStore s \<and> burntStore s' = burntStore s
     \<and> S_BalanceUpdates (stats s') = S_BalanceUpdates (stats s) \<and> S_BurntCoins (stats s') = S_BurntCoins (stats s)
     \<and> S_Contracts (stats s') = S_Contracts (stats s)"

lemma same_money_addRow:
  "same_money s0 s \<Longrightarrow> (\<And>f st. S_BalanceUpdates (update f st) = S_BalanceUpdates st) \<Longrightarrow>
     (\<And>f st. S_BurntCoins (update f st) = S_BurntCoins st) \<Longrightarrow> (\<And>f st. S_Contracts (update f st) = S_Contracts st) \<Longrightarrow>
     same_money s0 (addRow row update s)"
  by (cases row) (simp_all add: addRow_def same_money_def)

lemma same_money_voting:
  "applyOracleVotingStart e st t s = Some s' \<Longrightarrow> same_money s0 s \<Longrightarrow> same_money s0 s'"
  "applyOracleVotingProlongation e st t s = Some s' \<Longrightarrow> same_money s0 s \<Longrightarrow> same_money s0 s'"
  "endOracleVoting b t s = Some s' \<Longrightarrow> same_money s0 s \<Longrightarrow> same_money s0 s'"
  by (auto simp: applyOracleVotingStart_def applyOracleVotingProlongation_def endOracleVoting_def
      getOracleVotingCommittee_def Let_def same_money_def bind_Some_iff split: option.splits if_splits)

lemma same_money_lockRows: "same_money s0 s \<Longrightarrow> same_money s0 (applyLockRows t s)"
  unfolding applyLockRows_def by (intro same_money_addRow) simp_all

lemma same_money_embedded:
  assumes "applyEmbeddedContractTxReceipt e st t s = Some s'"
  shows "same_money s s'"
proof -
  have refl: "same_money s s" by (simp add: same_money_def)
  from assms obtain s1 s2 s3 s4 where
    s1: "applyOracleVotingStart e st t (addRow (T_oracleVotingContractDeploy t) S_OracleVotingContracts_update s) = Some s1"
    and s2: "endOracleVoting (T_oracleVotingContractCallFinish t \<noteq> None) t
            (addRow (T_oracleVotingContractCallFinish t) S_OracleVotingContractCallFinishes_update
            (addRow (T_oracleVotingContractCallVote t) S_OracleVotingContractCallVotes_update
            (addRow (T_oracleVotingContractCallVoteProof t) S_OracleVotingContractCallVoteProofs_update s1))) = Some s2"
    and s3: "applyOracleVotingProlongation e st t s2 = Some s3"
    and s4: "endOracleVoting (T_oracleVotingContractTermination t \<noteq> None) t
            (addRow (T_oracleVotingContractTermination t) S_OracleVotingContractTerminations_update
            (addRow (T_oracleVotingContractCallAddStake t) S_OracleVotingContractCallAddStakes_update s3)) = Some s4"
    and s': "s' = applyLockRows t s4"
    unfolding applyEmbeddedContractTxReceipt_def bind_Some_iff by blast
  have "same_money s s1" by (rule same_money_voting(1) [OF s1 same_money_addRow [OF refl]]) simp_all
  then have "same_money s s2" by (intro same_money_voting(3) [OF s2] same_money_addRow) simp_all
  then have "same_money s s3" by (rule same_money_voting(2) [OF s3])
  then have "same_money s s4" by (intro same_money_voting(3) [OF s4] same_money_addRow) simp_all
  then show ?thesis unfolding s' by (rule same_money_lockRows)
qed

lemma burnt_coins_frame:
  "applyContractBurntCoins e tx ps s = Some s' \<Longrightarrow>
     S_BalanceUpdates (stats s') = S_BalanceUpdates (stats s) \<and> S_Contracts (stats s') = S_Contracts (stats s)
     \<and> (\<forall>p \<in> set ps. deref (burntStore s) p \<noteq> None)"
proof (induction ps arbitrary: s)
  case (Cons p ps)
  obtain c where c: "deref (burntStore s) p = Some c" "applyContractBurntCoins e tx ps
      (addBurntCoins e (PBC_address c) (Some (PBC_amount c)) (PBC_reason c) (Some tx) s) = Some s'"
    using Cons.prems by (auto simp: bind_Some_iff)
  have "S_BalanceUpdates (stats (addBurntCoins e a v r x s)) = S_BalanceUpdates (stats s)"
    "S_Contracts (stats (addBurntCoins e a v r x s)) = S_Contracts (stats s)" for a v r x
    by (simp_all add: addBurntCoins_def Let_def)
  with Cons.IH [OF c(2)] c(1) show ?case by (simp add: burnt_total_add)
qed simp

lemma applySuccessfulReceipt_money:
  assumes "applySuccessfulReceipt e st t s = Some (s', updates)"
  shows "S_BalanceUpdates (stats s') = S_BalanceUpdates (stats s) @ changedUpdates (updateStore s) (T_contractBalanceUpdates t)
    \<and> zeroIfNil (S_BurntCoins (stats s')) = zeroIfNil (S_BurntCoins (stats s)) + total PBC_amount (burntStore s) (T_contractBurntCoins t)
    \<and> map Ct_ContractAddress (S_Contracts (stats s')) = map Ct_ContractAddress (S_Contracts (stats s)) @ map fst (T_deployedWasmContracts t)"
proof -
  obtain s1 s2 s3 sr rows where
    s1: "applyEmbeddedContractTxReceipt e st t s = Some s1"
    and s2: "s2 = onStats (\<lambda>x. x\<lparr>S_Contracts := S_Contracts x @ map (\<lambda>(a, code).
           \<lparr>Ct_TxHash = Tx_Hash (T_tx t), Ct_ContractAddress = a, Ct_Code = code\<rparr>) (T_deployedWasmContracts t)\<rparr>) s1"
    and s3: "applyContractBalances (Tx_Sender (T_tx t)) (T_contractBalanceUpdates t) (s2, emptySenderRow (T_tx t), []) = Some (s3, sr, rows)"
    and s4: "applyContractBurntCoins e (T_tx t) (T_contractBurntCoins t) s3 = Some s'"
    using assms by (auto simp: applySuccessfulReceipt_def Let_def bind_Some_iff)
  note e1 = same_money_embedded [OF s1, unfolded same_money_def]
  note e3 = applyContractBalances_updates [OF s3]
  note e4 = burnt_coins_frame [OF s4]
  have "zeroIfNil (S_BurntCoins (stats s')) = zeroIfNil (S_BurntCoins (stats s3)) + total PBC_amount (burntStore s3) (T_contractBurntCoins t)"
    using applyContractBurntCoins_total [of "T_contractBurntCoins t" s3 e "T_tx t"] e4 s4 by auto
  moreover have "map Ct_ContractAddress (map (\<lambda>(a, code). \<lparr>Ct_TxHash = Tx_Hash (T_tx t), Ct_ContractAddress = a,
      Ct_Code = code\<rparr>) (T_deployedWasmContracts t)) = map fst (T_deployedWasmContracts t)"
    by (simp add: case_prod_beta comp_def)
  ultimately show ?thesis using e1 e3 e4 by (simp add: s2)
qed

section \<open>Properties\<close>

text \<open>A transaction in which the balance of the address 5 goes from 1 to 4 and 7 coins are burnt.\<close>

definition sampleContractSession :: session where
  "sampleContractSession = emptySession\<lparr>pending := (pending emptySession)\<lparr>P_tx := Some ((newPendingTx sampleTx)
     \<lparr>T_contractBalanceUpdates := [\<lparr>CBU_BalanceUpdate = 0, CBU_contractAddress = None\<rparr>], T_contractBurntCoins := [0]\<rparr>)\<rparr>,
     updateStore := [refreshContractBalanceUpdate (Some 4) (newContractBalanceUpdate 100 5 (Some 1) None sampleApp)],
     burntStore := [\<lparr>PBC_address = 5, PBC_amount = 7, PBC_reason = ContractReason\<rparr>]\<rparr>"

text \<open>over the life of a transaction the collector's candidate counter moves by the number of
  candidates among the sender and the recipient after it, less the number before it, and the
  pending transaction is gone.\<close>

theorem candidate_count_follows_states:
  assumes "CompleteApplyingTx e st1 (BeginApplyingTx tx st0 s) = Some s'"
  shows "ESU_CandidateCountDiff (S_EpochSummaryUpdate (stats s')) =
      ESU_CandidateCountDiff (S_EpochSummaryUpdate (stats s)) + candidates tx st1 - candidates tx st0
    \<and> P_tx (pending s') = None"
proof -
  obtain t where t: "P_tx (pending (BeginApplyingTx tx st0 s)) = Some t" using BeginApplyingTx_pending(1) by blast
  obtain changes where c: "CompleteApplyingTx e st1 (BeginApplyingTx tx st0 s) =
      map_option (\<lambda>s1. (collectDelegationHistoryUpdate t s1)\<lparr>pending :=
          (pending (collectDelegationHistoryUpdate t s1))\<lparr>P_tx := None\<rparr>\<rparr>)
        (collectActivationTx e st1 t (collectTxSentToContract st1 t
          (recordStateChanges tx changes (BeginApplyingTx tx st0 s))))"
      "sum_list (map (candidateDiff \<circ> snd) changes) = candidates tx st1 - candidates tx st0"
    using CompleteApplyingTx_begun [OF t] by blast
  from assms [unfolded c(1)] obtain s1 where "collectActivationTx e st1 t (collectTxSentToContract st1 t
      (recordStateChanges tx changes (BeginApplyingTx tx st0 s))) = Some s1"
      "s' = (collectDelegationHistoryUpdate t s1)\<lparr>pending :=
          (pending (collectDelegationHistoryUpdate t s1))\<lparr>P_tx := None\<rparr>\<rparr>"
    by auto
  then show ?thesis using c(2) by (simp add: recordStateChanges_diff BeginApplyingTx_pending(3))
qed

theorem candidate_count_follows_states_witness:
  "\<exists>s'. CompleteApplyingTx sampleExt (sampleApp\<lparr>AS_GetIdentityState := (\<lambda>_. CandidateSt)\<rparr>)
      (BeginApplyingTx sampleTx sampleApp emptySession) = Some s'
    \<and> ESU_CandidateCountDiff (S_EpochSummaryUpdate (stats s')) = 2"
proof -
  let ?st1 = "sampleApp\<lparr>AS_GetIdentityState := (\<lambda>_. CandidateSt)\<rparr>"
  have "map_option (\<lambda>s. ()) (CompleteApplyingTx sampleExt ?st1 (BeginApplyingTx sampleTx sampleApp emptySession)) = Some ()"
    by code_simp
  then obtain s' where s': "CompleteApplyingTx sampleExt ?st1 (BeginApplyingTx sampleTx sampleApp emptySession) = Some s'"
    by auto
  with candidate_count_follows_states [OF s'] show ?thesis
    by (simp add: candidates_def sampleTx_def sampleApp_def emptySession_def emptyStats_def)
qed

text \<open>completing a transaction panics exactly when it is an activation without a recipient or
  of a sender that has no inviter.\<close>

theorem complete_tx_panics_iff:
  "CompleteApplyingTx e st1 (BeginApplyingTx tx st0 s) = None \<longleftrightarrow>
     Tx_Type tx = ActivationTxT \<and> (Tx_To tx = None \<or> Id_InviterTxHash (AS_GetIdentity st0 (Tx_Sender tx)) = None)"
proof -
  obtain t where t: "P_tx (pending (BeginApplyingTx tx st0 s)) = Some t" "T_tx t = tx"
      "T_inviteTxHash t = (if Tx_Type tx = ActivationTxT then Id_InviterTxHash (AS_GetIdentity st0 (Tx_Sender tx)) else None)"
    using BeginApplyingTx_pending(1) by blast
  obtain changes where "CompleteApplyingTx e st1 (BeginApplyingTx tx st0 s) =
      map_option (\<lambda>s1. (collectDelegationHistoryUpdate t s1)\<lparr>pending :=
          (pending (collectDelegationHistoryUpdate t s1))\<lparr>P_tx := None\<rparr>\<rparr>)
        (collectActivationTx e st1 t (collectTxSentToContract st1 t
          (recordStateChanges tx changes (BeginApplyingTx tx st0 s))))"
    using CompleteApplyingTx_begun [OF t(1)] by blast
  then show ?thesis
    using t(2,3) by (auto simp: collectActivationTx_def split: option.splits)
qed

text \<open>C10: the receipt of a failed contract transaction adds itself, at most one row with the empty
  update of the sender (none for a failed deployment), and no contract row, balance update, burnt
  coin or token: everything else in the statistics but the re-queried token balances is unchanged.\<close>

theorem failed_receipt_adds_no_rows:
  assumes "P_tx (pending s) = Some t" "\<not> Rc_Success r"
  shows "\<exists>s'. AddTxReceipt e env r st s = Some s'
    \<and> stats s' = (stats s)\<lparr>S_TxReceipts := S_TxReceipts (stats s) @ [r],
        S_ContractTxsBalanceUpdates := S_ContractTxsBalanceUpdates (stats s) @
          (if Rc_ContractAddress r \<noteq> 0 \<and> Tx_Type (T_tx t) \<noteq> DeployContractTx
           then [\<lparr>CTBUs_TxHash = Tx_Hash (T_tx t), CTBUs_ContractAddress = Rc_ContractAddress r,
                  CTBUs_ContractCallMethod = None, CTBUs_Updates = [emptySenderRow (T_tx t)]\<rparr>] else []),
        S_TokenBalanceUpdates := S_TokenBalanceUpdates (stats s')\<rparr>
    \<and> P_tx (pending s') = Some t"
  using assms
  by (simp add: AddTxReceipt_def Let_def collectTokenBalanceUpdates_def collectTokens_def detectTokens_def
      case_prod_beta List.map_filter_simps)

theorem failed_receipt_adds_no_rows_witness:
  "\<exists>s'. AddTxReceipt sampleExt (sampleTokenEnv True) (sampleReceipt\<lparr>Rc_Success := False\<rparr>) sampleApp
      (BeginApplyingTx sampleTx sampleApp emptySession) = Some s'
    \<and> S_BalanceUpdates (stats s') = [] \<and> length (S_TxReceipts (stats s')) = 1"
proof -
  obtain t where t: "P_tx (pending (BeginApplyingTx sampleTx sampleApp emptySession)) = Some t"
    using BeginApplyingTx_pending(1) by blast
  have "\<not> Rc_Success (sampleReceipt\<lparr>Rc_Success := False\<rparr>)" by simp
  from failed_receipt_adds_no_rows [OF t this, of sampleExt "sampleTokenEnv True" sampleApp] obtain s' rows where
    s': "AddTxReceipt sampleExt (sampleTokenEnv True) (sampleReceipt\<lparr>Rc_Success := False\<rparr>) sampleApp
      (BeginApplyingTx sampleTx sampleApp emptySession) = Some s'"
      "stats s' = (stats (BeginApplyingTx sampleTx sampleApp emptySession))\<lparr>S_TxReceipts :=
        S_TxReceipts (stats (BeginApplyingTx sampleTx sampleApp emptySession)) @ [sampleReceipt\<lparr>Rc_Success := False\<rparr>],
        S_ContractTxsBalanceUpdates := rows, S_TokenBalanceUpdates := S_TokenBalanceUpdates (stats s')\<rparr>"
    by blast
  from arg_cong [OF s'(2), of S_BalanceUpdates] arg_cong [OF s'(2), of S_TxReceipts] s'(1) show ?thesis
    by (simp add: BeginApplyingTx_pending emptySession_def emptyStats_def)
qed

text \<open>C19: the balance updates and burnt coins of a nested call reach the transaction in order and
  in full: applying a child cache to its parent and the parent to the transaction appends the
  parent's own items and then the child's.\<close>

theorem nested_caches_reach_transaction:
  assumes "child \<noteq> parent" "P_tx (pending s) = Some t"
  shows "\<exists>s' t'. Option.bind (ApplyContractBalanceUpdates child (Some parent) s)
        (ApplyContractBalanceUpdates parent None) = Some s' \<and> P_tx (pending s') = Some t'
    \<and> T_contractBalanceUpdates t' = T_contractBalanceUpdates t
        @ BUCa_updates (getOrPutContractBalanceUpdateCache parent t)
        @ BUCa_updates (getOrPutContractBalanceUpdateCache child t)
    \<and> T_contractBurntCoins t' = T_contractBurntCoins t
        @ BCC_coins (getOrPutContractBurntCoinsCache parent t)
        @ BCC_coins (getOrPutContractBurntCoinsCache child t)"
  using assms
  by (simp add: ApplyContractBalanceUpdates_def onTx_def applyUpdateCache_top applyUpdateCache_parent
      applyBurntCache_top applyBurntCache_parent)

theorem nested_caches_reach_transaction_witness:
  "\<exists>s' t'. Option.bind (ApplyContractBalanceUpdates 2 (Some 1) (emptySession\<lparr>pending := (pending emptySession)\<lparr>P_tx :=
        Some ((newPendingTx sampleTx)\<lparr>T_contractBurntCoinsCache := [1 \<mapsto> emptyBurntCache\<lparr>BCC_coins := [4]\<rparr>,
          2 \<mapsto> emptyBurntCache\<lparr>BCC_coins := [5]\<rparr>]\<rparr>)\<rparr>\<rparr>))
      (ApplyContractBalanceUpdates 1 None) = Some s' \<and> P_tx (pending s') = Some t' \<and> T_contractBurntCoins t' = [4, 5]"
  using nested_caches_reach_transaction [where child = 2 and parent = 1 and t = "(newPendingTx sampleTx)\<lparr>T_contractBurntCoinsCache :=
        [1 \<mapsto> emptyBurntCache\<lparr>BCC_coins := [4]\<rparr>, 2 \<mapsto> emptyBurntCache\<lparr>BCC_coins := [5]\<rparr>]\<rparr>"
      and s = "emptySession\<lparr>pending := (pending emptySession)\<lparr>P_tx :=
        Some ((newPendingTx sampleTx)\<lparr>T_contractBurntCoinsCache := [1 \<mapsto> emptyBurntCache\<lparr>BCC_coins := [4]\<rparr>,
          2 \<mapsto> emptyBurntCache\<lparr>BCC_coins := [5]\<rparr>]\<rparr>)\<rparr>\<rparr>"]
  by (fastforce simp: newPendingTx_def getOrPutContractBurntCoinsCache_def)

text \<open>however often one call burns coins of an address, the items of its cache hold exactly the
  sum of what was burnt for each address.\<close>

theorem burnt_cache_conserves:
  "total (coin_amount a) (snd (fold (\<lambda>(addr, v). burntCacheAdd addr v) burns (emptyBurntCache, [])))
     (BCC_coins (fst (fold (\<lambda>(addr, v). burntCacheAdd addr v) burns (emptyBurntCache, [])))) =
   (\<Sum>(addr, v)\<leftarrow>burns. if a = addr then v else 0)"
  by (subst burntCacheAdd_run(2))
    (simp_all add: burnt_cache_wf_def emptyBurntCache_def wf_index_def)

text \<open>a successful receipt lists exactly those balance updates of the transaction that changed
  something, in order, one contract row per deployed contract, and adds the amounts of all its burnt
  coins to the burnt total of the block.\<close>

theorem successful_receipt_lists_changes:
  assumes "AddTxReceipt e env r st s = Some s'" "Rc_Success r" "P_tx (pending s) = Some t"
  shows "S_BalanceUpdates (stats s') = S_BalanceUpdates (stats s) @ changedUpdates (updateStore s) (T_contractBalanceUpdates t)
    \<and> zeroIfNil (S_BurntCoins (stats s')) = zeroIfNil (S_BurntCoins (stats s)) + total PBC_amount (burntStore s) (T_contractBurntCoins t)
    \<and> map Ct_ContractAddress (S_Contracts (stats s')) = map Ct_ContractAddress (S_Contracts (stats s)) @ map fst (T_deployedWasmContracts t)"
proof -
  let ?s1 = "onStats (\<lambda>x. x\<lparr>S_TxReceipts := S_TxReceipts x @ [r]\<rparr>) s"
  obtain s2 updates where s2: "applySuccessfulReceipt e st t ?s1 = Some (s2, updates)"
      and "S_BalanceUpdates (stats s') = S_BalanceUpdates (stats s2)" "S_BurntCoins (stats s') = S_BurntCoins (stats s2)"
      "S_Contracts (stats s') = S_Contracts (stats s2)"
    using assms by (auto simp: AddTxReceipt_def Let_def bind_Some_iff collectTokenBalanceUpdates_def
        collectTokens_def case_prod_beta)
  with applySuccessfulReceipt_money [OF s2] show ?thesis by simp
qed

theorem successful_receipt_lists_changes_witness:
  "\<exists>s'. AddTxReceipt sampleExt (sampleTokenEnv True) sampleReceipt sampleApp sampleContractSession = Some s'
    \<and> S_BalanceUpdates (stats s') = [0] \<and> zeroIfNil (S_BurntCoins (stats s')) = 7"
proof -
  have "map_option (\<lambda>s. ()) (AddTxReceipt sampleExt (sampleTokenEnv True) sampleReceipt sampleApp sampleContractSession) = Some ()"
    by code_simp
  then obtain s' where s': "AddTxReceipt sampleExt (sampleTokenEnv True) sampleReceipt sampleApp sampleContractSession = Some s'"
    by auto
  obtain t where t: "P_tx (pending sampleContractSession) = Some t" "changedUpdates (updateStore sampleContractSession) (T_contractBalanceUpdates t) = [0]"
    "total PBC_amount (burntStore sampleContractSession) (T_contractBurntCoins t) = 7"
    by (simp add: sampleContractSession_def)
      (simp add: changedUpdates_def total_def deref_def isBalanceOrStakeOrPenaltyChanged_def newContractBalanceUpdate_def
        refreshContractBalanceUpdate_def)
  have "S_BalanceUpdates (stats sampleContractSession) = []" "S_BurntCoins (stats sampleContractSession) = None"
    by (simp_all add: sampleContractSession_def emptySession_def emptyStats_def)
  with successful_receipt_lists_changes [OF s' _ t(1)] t(2,3) s' show ?thesis
    by (auto simp: sampleReceipt_def)
qed

end
