(* ===== verification/Mempool_Timestamps.thy ===== *)
theory Mempool_Timestamps
  imports Stats_Types
begin

text \<open>
  The indexer of mem-pool actions, \<open>src/core/mempool/mempool.go\<close>: bus handlers put events into
  bounded channels, one listener per channel turns them into timestamps in a cache, and a saver
  takes the cached timestamps, writes them and puts them back when the write fails. These run
  concurrently; the critical sections of the code are the steps of a step relation, and any
  interleaving of the steps is a run. (A listener's receive and its append to the cache are one
  step, as are the four appends after a failed write: what lies between them is local.) An event carries what the code reads of it: its sender
  (\<open>None\<close> when the sender cannot be determined), its epoch and the time of its arrival.
\<close>

section \<open>Data\<close>

definition queueSize :: nat where "queueSize = 20000"

record MemPoolActionTimestamp =
  MPT_Address :: string
  MPT_Epoch :: uint64
  MPT_Time :: int

record MemPoolData =
  MPD_FlipPrivateKeysPackageTimestamps :: "MemPoolActionTimestamp list"
  MPD_FlipKeyTimestamps :: "MemPoolActionTimestamp list"
  MPD_AnswersHashTxTimestamps :: "MemPoolActionTimestamp list"
  MPD_ShortAnswersTxTimestamps :: "MemPoolActionTimestamp list"

text \<open>The wrappers of the channels: \<open>flipPrivateKeysPackageWrapper\<close>, \<open>flipKeyWrapper\<close> and \<open>txWrapper\<close>.\<close>

record keyWrapper =
  KW_sender :: "address option"
  KW_epoch :: uint16
  KW_time :: int

record txWrapper =
  TW_sender :: "address option"
  TW_type :: tx_type
  TW_epoch :: uint16
  TW_time :: int

record indexerCache =
  IC_flipPrivateKeysPackageTimestamps :: "MemPoolActionTimestamp list"
  IC_flipKeyTimestamps :: "MemPoolActionTimestamp list"
  IC_answersHashTxTimestamps :: "MemPoolActionTimestamp list"
  IC_shortAnswersTxTimestamps :: "MemPoolActionTimestamp list"

text \<open>
  The saver is idle, or has taken the first \<open>n\<close> kinds of timestamps, or is waiting for the database.
\<close>

datatype saver = Idle | Taking nat MemPoolData | Saving MemPoolData

record memIndexer =
  MI_flipPrivateKeysPackageChan :: "keyWrapper list"
  MI_flipKeyChan :: "keyWrapper list"
  MI_answerHashTxChan :: "txWrapper list"
  MI_shortAnswersTxChan :: "txWrapper list"
  MI_cache :: indexerCache
  MI_saver :: saver
  MI_db :: "MemPoolData list"

definition emptyCache :: indexerCache where
  "emptyCache = \<lparr>IC_flipPrivateKeysPackageTimestamps = [], IC_flipKeyTimestamps = [],
     IC_answersHashTxTimestamps = [], IC_shortAnswersTxTimestamps = []\<rparr>"

definition NewIndexer :: memIndexer where
  "NewIndexer = \<lparr>MI_flipPrivateKeysPackageChan = [], MI_flipKeyChan = [], MI_answerHashTxChan = [],
     MI_shortAnswersTxChan = [], MI_cache = emptyCache, MI_saver = Idle, MI_db = []\<rparr>"

section \<open>The bus handlers\<close>

text \<open>A send on a full channel blocks: the handler has no step then.\<close>

definition onNewFlipKeysPackage :: "keyWrapper \<Rightarrow> memIndexer \<Rightarrow> memIndexer option" where
  "onNewFlipKeysPackage w i = (if length (MI_flipPrivateKeysPackageChan i) < queueSize
     then Some (i\<lparr>MI_flipPrivateKeysPackageChan := MI_flipPrivateKeysPackageChan i @ [w]\<rparr>) else None)"

definition onNewFlipKey :: "keyWrapper \<Rightarrow> memIndexer \<Rightarrow> memIndexer option" where
  "onNewFlipKey w i = (if length (MI_flipKeyChan i) < queueSize
     then Some (i\<lparr>MI_flipKeyChan := MI_flipKeyChan i @ [w]\<rparr>) else None)"

definition onNewTx :: "txWrapper \<Rightarrow> memIndexer \<Rightarrow> memIndexer option" where
  "onNewTx w i =
     (if TW_type w = SubmitAnswersHashTx then
        (if length (MI_answerHashTxChan i) < queueSize
         then Some (i\<lparr>MI_answerHashTxChan := MI_answerHashTxChan i @ [w]\<rparr>) else None)
      else if TW_type w = SubmitShortAnswersTx then
        (if length (MI_shortAnswersTxChan i) < queueSize
         then Some (i\<lparr>MI_shortAnswersTxChan := MI_shortAnswersTxChan i @ [w]\<rparr>) else None)
      else Some i)"

section \<open>The cache\<close>

definition addFlipPrivateKeysPackageTimestamp :: "MemPoolActionTimestamp \<Rightarrow> memIndexer \<Rightarrow> memIndexer" where
  "addFlipPrivateKeysPackageTimestamp t i = i\<lparr>MI_cache := (MI_cache i)\<lparr>IC_flipPrivateKeysPackageTimestamps :=
     IC_flipPrivateKeysPackageTimestamps (MI_cache i) @ [t]\<rparr>\<rparr>"

definition addFlipPrivateKeysPackageTimestamps :: "MemPoolActionTimestamp list \<Rightarrow> memIndexer \<Rightarrow> memIndexer" where
  "addFlipPrivateKeysPackageTimestamps ts i = i\<lparr>MI_cache := (MI_cache i)\<lparr>IC_flipPrivateKeysPackageTimestamps :=
     IC_flipPrivateKeysPackageTimestamps (MI_cache i) @ ts\<rparr>\<rparr>"

definition getFlipKeysPackageTimestampsToSave :: "memIndexer \<Rightarrow> MemPoolActionTimestamp list \<times> memIndexer" where
  "getFlipKeysPackageTimestampsToSave i = (IC_flipPrivateKeysPackageTimestamps (MI_cache i),
     i\<lparr>MI_cache := (MI_cache i)\<lparr>IC_flipPrivateKeysPackageTimestamps := []\<rparr>\<rparr>)"

definition addFlipKeyTimestamp :: "MemPoolActionTimestamp \<Rightarrow> memIndexer \<Rightarrow> memIndexer" where
  "addFlipKeyTimestamp t i = i\<lparr>MI_cache := (MI_cache i)\<lparr>IC_flipKeyTimestamps := IC_flipKeyTimestamps (MI_cache i) @ [t]\<rparr>\<rparr>"

definition addFlipKeyTimestamps :: "MemPoolActionTimestamp list \<Rightarrow> memIndexer \<Rightarrow> memIndexer" where
  "addFlipKeyTimestamps ts i = i\<lparr>MI_cache := (MI_cache i)\<lparr>IC_flipKeyTimestamps := IC_flipKeyTimestamps (MI_cache i) @ ts\<rparr>\<rparr>"

definition getFlipKeyTimestampsToSave :: "memIndexer \<Rightarrow> MemPoolActionTimestamp list \<times> memIndexer" where
  "getFlipKeyTimestampsToSave i = (IC_flipKeyTimestamps (MI_cache i),
     i\<lparr>MI_cache := (MI_cache i)\<lparr>IC_flipKeyTimestamps := []\<rparr>\<rparr>)"

definition addAnswersHashTxTimestamp :: "MemPoolActionTimestamp \<Rightarrow> memIndexer \<Rightarrow> memIndexer" where
  "addAnswersHashTxTimestamp t i = i\<lparr>MI_cache := (MI_cache i)\<lparr>IC_answersHashTxTimestamps :=
     IC_answersHashTxTimestamps (MI_cache i) @ [t]\<rparr>\<rparr>"

definition addAnswersHashTxTimestamps :: "MemPoolActionTimestamp list \<Rightarrow> memIndexer \<Rightarrow> memIndexer" where
  "addAnswersHashTxTimestamps ts i = i\<lparr>MI_cache := (MI_cache i)\<lparr>IC_answersHashTxTimestamps :=
     IC_answersHashTxTimestamps (MI_cache i) @ ts\<rparr>\<rparr>"

definition getAnswersHashTxTimestampsToSave :: "memIndexer \<Rightarrow> MemPoolActionTimestamp list \<times> memIndexer" where
  "getAnswersHashTxTimestampsToSave i = (IC_answersHashTxTimestamps (MI_cache i),
     i\<lparr>MI_cache := (MI_cache i)\<lparr>IC_answersHashTxTimestamps := []\<rparr>\<rparr>)"

definition addShortAnswersTxTimestamp :: "MemPoolActionTimestamp \<Rightarrow> memIndexer \<Rightarrow> memIndexer" where
  "addShortAnswersTxTimestamp t i = i\<lparr>MI_cache := (MI_cache i)\<lparr>IC_shortAnswersTxTimestamps :=
     IC_shortAnswersTxTimestamps (MI_cache i) @ [t]\<rparr>\<rparr>"

definition addShortAnswersTxTimestamps :: "MemPoolActionTimestamp list \<Rightarrow> memIndexer \<Rightarrow> memIndexer" where
  "addShortAnswersTxTimestamps ts i = i\<lparr>MI_cache := (MI_cache i)\<lparr>IC_shortAnswersTxTimestamps :=
     IC_shortAnswersTxTimestamps (MI_cache i) @ ts\<rparr>\<rparr>"

definition getShortAnswersTxTimestampsToSave :: "memIndexer \<Rightarrow> MemPoolActionTimestamp list \<times> memIndexer" where
  "getShortAnswersTxTimestampsToSave i = (IC_shortAnswersTxTimestamps (MI_cache i),
     i\<lparr>MI_cache := (MI_cache i)\<lparr>IC_shortAnswersTxTimestamps := []\<rparr>\<rparr>)"

lemmas cache_defs = addFlipPrivateKeysPackageTimestamp_def addFlipPrivateKeysPackageTimestamps_def
  getFlipKeysPackageTimestampsToSave_def addFlipKeyTimestamp_def addFlipKeyTimestamps_def getFlipKeyTimestampsToSave_def
  addAnswersHashTxTimestamp_def addAnswersHashTxTimestamps_def getAnswersHashTxTimestampsToSave_def
  addShortAnswersTxTimestamp_def addShortAnswersTxTimestamps_def getShortAnswersTxTimestampsToSave_def

section \<open>The listeners\<close>

text \<open>One turn of each listener; an event without a sender is logged and dropped.\<close>

definition keyTimestamp :: "ext \<Rightarrow> keyWrapper \<Rightarrow> MemPoolActionTimestamp option" where
  "keyTimestamp e w = (case KW_sender w of None \<Rightarrow> None
     | Some sender \<Rightarrow> Some \<lparr>MPT_Address = ConvertAddress e sender, MPT_Epoch = ucast (KW_epoch w), MPT_Time = KW_time w\<rparr>)"

definition txTimestamp :: "ext \<Rightarrow> txWrapper \<Rightarrow> MemPoolActionTimestamp option" where
  "txTimestamp e w = (case TW_sender w of None \<Rightarrow> None
     | Some sender \<Rightarrow> Some \<lparr>MPT_Address = ConvertAddress e sender, MPT_Epoch = ucast (TW_epoch w), MPT_Time = TW_time w\<rparr>)"

definition listenFlipPrivateKeysPackages :: "ext \<Rightarrow> memIndexer \<Rightarrow> memIndexer option" where
  "listenFlipPrivateKeysPackages e i = (case MI_flipPrivateKeysPackageChan i of [] \<Rightarrow> None
     | w # ws \<Rightarrow> let i1 = i\<lparr>MI_flipPrivateKeysPackageChan := ws\<rparr> in
         Some (case keyTimestamp e w of None \<Rightarrow> i1 | Some t \<Rightarrow> addFlipPrivateKeysPackageTimestamp t i1))"

definition listenFlipKeys :: "ext \<Rightarrow> memIndexer \<Rightarrow> memIndexer option" where
  "listenFlipKeys e i = (case MI_flipKeyChan i of [] \<Rightarrow> None
     | w # ws \<Rightarrow> let i1 = i\<lparr>MI_flipKeyChan := ws\<rparr> in
         Some (case keyTimestamp e w of None \<Rightarrow> i1 | Some t \<Rightarrow> addFlipKeyTimestamp t i1))"

definition listenAnswersHashTxs :: "ext \<Rightarrow> memIndexer \<Rightarrow> memIndexer option" where
  "listenAnswersHashTxs e i = (case MI_answerHashTxChan i of [] \<Rightarrow> None
     | w # ws \<Rightarrow> let i1 = i\<lparr>MI_answerHashTxChan := ws\<rparr> in
         Some (case txTimestamp e w of None \<Rightarrow> i1 | Some t \<Rightarrow> addAnswersHashTxTimestamp t i1))"

definition listenShortAnswersTxs :: "ext \<Rightarrow> memIndexer \<Rightarrow> memIndexer option" where
  "listenShortAnswersTxs e i = (case MI_shortAnswersTxChan i of [] \<Rightarrow> None
     | w # ws \<Rightarrow> let i1 = i\<lparr>MI_shortAnswersTxChan := ws\<rparr> in
         Some (case txTimestamp e w of None \<Rightarrow> i1 | Some t \<Rightarrow> addShortAnswersTxTimestamp t i1))"

section \<open>The saver\<close>

definition emptyData :: MemPoolData where
  "emptyData = \<lparr>MPD_FlipPrivateKeysPackageTimestamps = [], MPD_FlipKeyTimestamps = [],
     MPD_AnswersHashTxTimestamps = [], MPD_ShortAnswersTxTimestamps = []\<rparr>"

text \<open>
  \<open>saveData\<close>, one critical section at a time: the four kinds are taken in order, then the data is
  written unless there is none; \<open>ok\<close> is whether the database accepted it.
\<close>

definition saveBegin :: "memIndexer \<Rightarrow> memIndexer option" where
  "saveBegin i = (if MI_saver i = Idle then Some (i\<lparr>MI_saver := Taking 0 emptyData\<rparr>) else None)"

definition saveTake :: "memIndexer \<Rightarrow> memIndexer option" where
  "saveTake i = (case MI_saver i of
       Taking n data \<Rightarrow>
        (if n = 0 then case getFlipKeysPackageTimestampsToSave i of (ts, i1) \<Rightarrow>
             Some (i1\<lparr>MI_saver := Taking 1 (data\<lparr>MPD_FlipPrivateKeysPackageTimestamps := ts\<rparr>)\<rparr>)
         else if n = 1 then case getFlipKeyTimestampsToSave i of (ts, i1) \<Rightarrow>
             Some (i1\<lparr>MI_saver := Taking 2 (data\<lparr>MPD_FlipKeyTimestamps := ts\<rparr>)\<rparr>)
         else if n = 2 then case getAnswersHashTxTimestampsToSave i of (ts, i1) \<Rightarrow>
             Some (i1\<lparr>MI_saver := Taking 3 (data\<lparr>MPD_AnswersHashTxTimestamps := ts\<rparr>)\<rparr>)
         else if n = 3 then case getShortAnswersTxTimestampsToSave i of (ts, i1) \<Rightarrow>
             (let data1 = data\<lparr>MPD_ShortAnswersTxTimestamps := ts\<rparr>
              in Some (i1\<lparr>MI_saver := (if length (MPD_FlipPrivateKeysPackageTimestamps data1) + length (MPD_FlipKeyTimestamps data1) +
                  length (MPD_AnswersHashTxTimestamps data1) + length (MPD_ShortAnswersTxTimestamps data1) = 0
                then Idle else Saving data1)\<rparr>))
         else None)
     | _ \<Rightarrow> None)"

definition saveFinish :: "bool \<Rightarrow> memIndexer \<Rightarrow> memIndexer option" where
  "saveFinish ok i = (case MI_saver i of
       Saving data \<Rightarrow>
         Some (if ok then i\<lparr>MI_saver := Idle, MI_db := MI_db i @ [data]\<rparr>
          else addShortAnswersTxTimestamps (MPD_ShortAnswersTxTimestamps data)
            (addAnswersHashTxTimestamps (MPD_AnswersHashTxTimestamps data)
              (addFlipKeyTimestamps (MPD_FlipKeyTimestamps data)
                (addFlipPrivateKeysPackageTimestamps (MPD_FlipPrivateKeysPackageTimestamps data) (i\<lparr>MI_saver := Idle\<rparr>)))))
     | _ \<Rightarrow> None)"

section \<open>Runs\<close>

datatype mem_label = PublishPackage keyWrapper | PublishKey keyWrapper | PublishTx txWrapper | Internal

inductive mem_step :: "ext \<Rightarrow> memIndexer \<Rightarrow> mem_label \<Rightarrow> memIndexer \<Rightarrow> bool" for e where
  publish_package: "onNewFlipKeysPackage w i = Some j \<Longrightarrow> mem_step e i (PublishPackage w) j"
| publish_key: "onNewFlipKey w i = Some j \<Longrightarrow> mem_step e i (PublishKey w) j"
| publish_tx: "onNewTx w i = Some j \<Longrightarrow> mem_step e i (PublishTx w) j"
| listen_packages: "listenFlipPrivateKeysPackages e i = Some j \<Longrightarrow> mem_step e i Internal j"
| listen_keys: "listenFlipKeys e i = Some j \<Longrightarrow> mem_step e i Internal j"
| listen_hashes: "listenAnswersHashTxs e i = Some j \<Longrightarrow> mem_step e i Internal j"
| listen_answers: "listenShortAnswersTxs e i = Some j \<Longrightarrow> mem_step e i Internal j"
| save_begin: "saveBegin i = Some j \<Longrightarrow> mem_step e i Internal j"
| save_take: "saveTake i = Some j \<Longrightarrow> mem_step e i Internal j"
| save_finish: "saveFinish ok i = Some j \<Longrightarrow> mem_step e i Internal j"

inductive mem_run :: "ext \<Rightarrow> memIndexer \<Rightarrow> mem_label list \<Rightarrow> memIndexer \<Rightarrow> bool" for e where
  run_nil: "mem_run e i [] i"
| run_snoc: "mem_run e i ls j \<Longrightarrow> mem_step e j l k \<Longrightarrow> mem_run e i (ls @ [l]) k"

inductive_cases mem_step_publish: "mem_step e i (PublishTx w) j"

section \<open>Where the timestamps are\<close>

datatype kind = Packages | Keys | Hashes | Answers

fun cached :: "kind \<Rightarrow> indexerCache \<Rightarrow> MemPoolActionTimestamp list" where
  "cached Packages c = IC_flipPrivateKeysPackageTimestamps c"
| "cached Keys c = IC_flipKeyTimestamps c"
| "cached Hashes c = IC_answersHashTxTimestamps c"
| "cached Answers c = IC_shortAnswersTxTimestamps c"

fun dataOf :: "kind \<Rightarrow> MemPoolData \<Rightarrow> MemPoolActionTimestamp list" where
  "dataOf Packages d = MPD_FlipPrivateKeysPackageTimestamps d"
| "dataOf Keys d = MPD_FlipKeyTimestamps d"
| "dataOf Hashes d = MPD_AnswersHashTxTimestamps d"
| "dataOf Answers d = MPD_ShortAnswersTxTimestamps d"

definition known :: "MemPoolActionTimestamp option list \<Rightarrow> MemPoolActionTimestamp multiset" where
  "known ts = mset (map the (filter (\<lambda>t. t \<noteq> None) ts))"

fun queued :: "ext \<Rightarrow> kind \<Rightarrow> memIndexer \<Rightarrow> MemPoolActionTimestamp multiset" where
  "queued e Packages i = known (map (keyTimestamp e) (MI_flipPrivateKeysPackageChan i))"
| "queued e Keys i = known (map (keyTimestamp e) (MI_flipKeyChan i))"
| "queued e Hashes i = known (map (txTimestamp e) (MI_answerHashTxChan i))"
| "queued e Answers i = known (map (txTimestamp e) (MI_shortAnswersTxChan i))"

fun inSaver :: "kind \<Rightarrow> saver \<Rightarrow> MemPoolActionTimestamp multiset" where
  "inSaver k Idle = {#}"
| "inSaver k (Taking n d) = mset (dataOf k d)"
| "inSaver k (Saving d) = mset (dataOf k d)"

definition saved :: "kind \<Rightarrow> memIndexer \<Rightarrow> MemPoolActionTimestamp multiset" where
  "saved k i = mset (concat (map (dataOf k) (MI_db i)))"

definition held :: "ext \<Rightarrow> kind \<Rightarrow> memIndexer \<Rightarrow> MemPoolActionTimestamp multiset" where
  "held e k i = queued e k i + mset (cached k (MI_cache i)) + inSaver k (MI_saver i) + saved k i"

text \<open>The kinds the saver has not taken yet are empty in its data.\<close>

fun kindIndex :: "kind \<Rightarrow> nat" where
  "kindIndex Packages = 0" | "kindIndex Keys = 1" | "kindIndex Hashes = 2" | "kindIndex Answers = 3"

fun saver_ok :: "saver \<Rightarrow> bool" where
  "saver_ok Idle \<longleftrightarrow> True"
| "saver_ok (Taking n d) \<longleftrightarrow> n < 4 \<and> (\<forall>k. n \<le> kindIndex k \<longrightarrow> dataOf k d = [])"
| "saver_ok (Saving d) \<longleftrightarrow> True"

text \<open>What a published event adds to its kind.\<close>

fun published :: "ext \<Rightarrow> kind \<Rightarrow> mem_label \<Rightarrow> MemPoolActionTimestamp multiset" where
  "published e k (PublishPackage w) = (if k = Packages then known [keyTimestamp e w] else {#})"
| "published e k (PublishKey w) = (if k = Keys then known [keyTimestamp e w] else {#})"
| "published e k (PublishTx w) =
     (if k = Hashes \<and> TW_type w = SubmitAnswersHashTx \<or> k = Answers \<and> TW_type w = SubmitShortAnswersTx
      then known [txTimestamp e w] else {#})"
| "published e k Internal = {#}"

lemma known_simps [simp]:
  "known [] = {#}" "known (xs @ ys) = known xs + known ys"
  "known (None # ts) = known ts" "known (Some t # ts) = add_mset t (known ts)"
  by (simp_all add: known_def)

lemma known_one: "known (t # ts) = known [t] + known ts"
  by (cases t) simp_all

definition mem_inv :: "memIndexer \<Rightarrow> bool" where
  "mem_inv i \<longleftrightarrow> saver_ok (MI_saver i)
     \<and> length (MI_flipPrivateKeysPackageChan i) \<le> queueSize \<and> length (MI_flipKeyChan i) \<le> queueSize
     \<and> length (MI_answerHashTxChan i) \<le> queueSize \<and> length (MI_shortAnswersTxChan i) \<le> queueSize"

section \<open>Nothing is lost\<close>

lemma queued_listen:
  assumes "chan = w # ws"
  shows "known (map f chan) = known [f w] + known (map f ws)"
  using assms by (cases "f w") simp_all

lemma step_publish:
  "onNewFlipKeysPackage w i = Some j \<Longrightarrow> mem_inv i \<Longrightarrow> mem_inv j \<and> held e k j = held e k i + published e k (PublishPackage w)"
  "onNewFlipKey w i = Some j \<Longrightarrow> mem_inv i \<Longrightarrow> mem_inv j \<and> held e k j = held e k i + published e k (PublishKey w)"
  "onNewTx x i = Some j \<Longrightarrow> mem_inv i \<Longrightarrow> mem_inv j \<and> held e k j = held e k i + published e k (PublishTx x)"
  by (cases k; auto simp: onNewFlipKeysPackage_def onNewFlipKey_def onNewTx_def mem_inv_def held_def saved_def split: if_splits)+

lemma step_listen:
  "listenFlipPrivateKeysPackages e i = Some j \<Longrightarrow> mem_inv i \<Longrightarrow> mem_inv j \<and> held e k j = held e k i"
  "listenFlipKeys e i = Some j \<Longrightarrow> mem_inv i \<Longrightarrow> mem_inv j \<and> held e k j = held e k i"
  "listenAnswersHashTxs e i = Some j \<Longrightarrow> mem_inv i \<Longrightarrow> mem_inv j \<and> held e k j = held e k i"
  "listenShortAnswersTxs e i = Some j \<Longrightarrow> mem_inv i \<Longrightarrow> mem_inv j \<and> held e k j = held e k i"
  by (cases k; auto simp: listenFlipPrivateKeysPackages_def listenFlipKeys_def listenAnswersHashTxs_def
      listenShortAnswersTxs_def cache_defs mem_inv_def held_def saved_def Let_def split: list.splits option.splits)+

lemma all_kinds: "(\<forall>k. P k) \<longleftrightarrow> P Packages \<and> P Keys \<and> P Hashes \<and> P Answers"
  by (metis kind.exhaust)

lemma step_save_begin: "saveBegin i = Some j \<Longrightarrow> mem_inv i \<Longrightarrow> mem_inv j \<and> held e k j = held e k i"
  by (cases k) (auto simp: saveBegin_def mem_inv_def held_def saved_def emptyData_def all_kinds split: if_splits)

lemma step_save_take:
  assumes "saveTake i = Some j" "mem_inv i"
  shows "mem_inv j \<and> held e k j = held e k i"
proof -
  obtain n d where t: "MI_saver i = Taking n d" "n < 4"
    using assms by (auto simp: saveTake_def split: saver.splits if_splits)
  then consider "n = 0" | "n = 1" | "n = 2" | "n = 3" by linarith
  then show ?thesis
  proof cases
    case 4
    with t assms show ?thesis
      by (cases k) (auto simp: saveTake_def mem_inv_def held_def saved_def cache_defs all_kinds Let_def split: if_splits)
  qed (use t assms in \<open>cases k; auto simp: saveTake_def mem_inv_def held_def saved_def cache_defs all_kinds\<close>)+
qed

lemma step_save_finish: "saveFinish ok i = Some j \<Longrightarrow> mem_inv i \<Longrightarrow> mem_inv j \<and> held e k j = held e k i"
  by (cases k) (auto simp: saveFinish_def mem_inv_def held_def saved_def cache_defs split: saver.splits if_splits)

lemmas step_facts = step_publish step_listen step_save_begin step_save_take step_save_finish

lemma mem_step_held:
  "mem_step e i l j \<Longrightarrow> mem_inv i \<Longrightarrow> mem_inv j \<and> held e k j = held e k i + published e k l"
  by (induction rule: mem_step.induct) (simp_all only: step_facts published.simps add_0_right simp_thms)

lemma mem_run_held:
  "mem_run e i ls j \<Longrightarrow> mem_inv i \<Longrightarrow> mem_inv j \<and> held e k j = held e k i + sum_list (map (published e k) ls)"
proof (induction rule: mem_run.induct)
  case (run_nil i)
  then show ?case by simp
next
  case (run_snoc i ls j l k')
  then show ?case using mem_step_held [OF run_snoc.hyps(2), of k] by (simp add: ac_simps)
qed

lemma mem_start: "mem_inv NewIndexer" "held e k NewIndexer = {#}"
  by (simp add: mem_inv_def NewIndexer_def, cases k, simp_all add: held_def saved_def NewIndexer_def emptyCache_def)

section \<open>Properties\<close>


definition samplePackage :: keyWrapper where
  "samplePackage = \<lparr>KW_sender = Some 3, KW_epoch = 2, KW_time = 100\<rparr>"


end
