(* ===== verification/Delegation.thy ===== *)
theory Delegation
  imports Stats_Types
begin

text \<open>
  How a block changes the delegations to pools: \<open>src/indexer/delegation.go\<close> and the constants of
  \<open>src/indexer/context.go\<close>. The node hands out a delegatee as a pointer; a pointer is its identity
  together with the address it points to, because the code compares two of them.
\<close>

section \<open>Data\<close>

definition killedReasonInactiveIdentity :: byte where "killedReasonInactiveIdentity = 1"
definition killedReasonTx :: byte where "killedReasonTx = 2"
definition killedReasonValidationFailure :: byte where "killedReasonValidationFailure = 3"

lemmas killed_reasons = killedReasonInactiveIdentity_def killedReasonTx_def killedReasonValidationFailure_def

record killedInfo =
  KI_reason :: byte
  KI_tx :: "Transaction option"

record AddressStateChange =
  ASC_PrevState :: byte
  ASC_NewState :: byte
  ASC_TxHash :: string

record DbAddress =
  DA_Address :: string
  DA_IsTemporary :: bool
  DA_StateChanges :: "AddressStateChange list"

type_synonym address_ptr = "ref \<times> address"

text \<open>What the code reads of a node state: delegatees, birthdays, pending delegations, pools.\<close>

record delegation_state =
  Dl_Delegatee :: "address \<Rightarrow> address_ptr option"
  Dl_Birthday :: "address \<Rightarrow> uint16"
  Dl_Delegations :: "address list"
  Dl_PoolSize :: "address \<Rightarrow> int"
  Dl_IsPool :: "address \<Rightarrow> bool"

section \<open>Delegation switches\<close>

text \<open>A killed identity's reason; \<open>info.tx.Hash()\<close> panics on a nil transaction.\<close>

definition undelegationReason :: "killedInfo \<Rightarrow> (byte option \<times> hash option) option" where
  "undelegationReason info =
     (if KI_reason info = killedReasonInactiveIdentity then Some (Some UndelegationReasonInactiveIdentity, None)
      else if KI_reason info = killedReasonTx then
        (case KI_tx info of None \<Rightarrow> None | Some tx \<Rightarrow> Some (Some UndelegationReasonTermination, Some (Tx_Hash tx)))
      else if KI_reason info = killedReasonValidationFailure then Some (Some UndelegationReasonValidationFailure, None)
      else Some (None, None))"

definition buildDelegationHistoryUpdate :: "DelegationSwitch \<Rightarrow> uint64 \<Rightarrow> DelegationHistoryUpdate" where
  "buildDelegationHistoryUpdate sw height =
     \<lparr>DHU_DelegatorAddress = DS_Delegator sw, DHU_DelegationTx = None,
      DHU_DelegationBlockHeight = (if DS_Delegatee sw \<noteq> None then Some height else None),
      DHU_UndelegationReason = None, DHU_UndelegationTx = None,
      DHU_UndelegationBlockHeight = (if DS_Delegatee sw \<noteq> None then None else Some height)\<rparr>"

definition birthEpochOf :: "delegation_state \<Rightarrow> address \<Rightarrow> uint16 option" where
  "birthEpochOf newState delegator = (if Dl_Birthday newState delegator > 0 then Some (Dl_Birthday newState delegator) else None)"

text \<open>The test \<open>prevDelegatee == newDelegatee\<close> compares the pointers.\<close>

definition detectDelegationSwitch :: "address \<Rightarrow> delegation_state \<Rightarrow> delegation_state \<Rightarrow> DelegationSwitch option" where
  "detectDelegationSwitch delegator prevState newState =
     (case (Dl_Delegatee prevState delegator, Dl_Delegatee newState delegator) of
        (None, None) \<Rightarrow> None
      | (None, Some new) \<Rightarrow> Some \<lparr>DS_Delegator = delegator, DS_Delegatee = Some (snd new),
            DS_BirthEpoch = birthEpochOf newState delegator\<rparr>
      | (Some prev, None) \<Rightarrow> Some \<lparr>DS_Delegator = delegator, DS_Delegatee = None, DS_BirthEpoch = None\<rparr>
      | (Some prev, Some new) \<Rightarrow>
          (if fst prev = fst new then None
           else Some \<lparr>DS_Delegator = delegator, DS_Delegatee = Some (snd new),
                  DS_BirthEpoch = birthEpochOf newState delegator\<rparr>))"

type_synonym switches = "DelegationSwitch list \<times> DelegationHistoryUpdate list"

definition failedDelegation :: "address \<Rightarrow> uint64 \<Rightarrow> DelegationHistoryUpdate" where
  "failedDelegation delegator height =
     \<lparr>DHU_DelegatorAddress = delegator, DHU_DelegationTx = None, DHU_DelegationBlockHeight = Some height,
      DHU_UndelegationReason = Some UndelegationReasonApplyingFailure, DHU_UndelegationTx = None,
      DHU_UndelegationBlockHeight = Some height\<rparr>"

fun killedLoop :: "delegation_state \<Rightarrow> uint64 \<Rightarrow> (address \<times> killedInfo) list \<Rightarrow> switches \<Rightarrow> switches option" where
  "killedLoop prevState height [] acc = Some acc"
| "killedLoop prevState height ((killedAddr, info) # rest) (res, updates) =
     (if Dl_Delegatee prevState killedAddr \<noteq> None then do {
        (reason, tx) \<leftarrow> undelegationReason info;
        killedLoop prevState height rest
          (res @ [\<lparr>DS_Delegator = killedAddr, DS_Delegatee = None, DS_BirthEpoch = None\<rparr>],
           updates @ [\<lparr>DHU_DelegatorAddress = killedAddr, DHU_DelegationTx = None, DHU_DelegationBlockHeight = None,
             DHU_UndelegationReason = reason, DHU_UndelegationTx = tx, DHU_UndelegationBlockHeight = Some height\<rparr>]) }
      else killedLoop prevState height rest (res, updates))"

definition addSwitch :: "delegation_state \<Rightarrow> delegation_state \<Rightarrow> uint64 \<Rightarrow> bool \<Rightarrow> address \<Rightarrow> switches \<Rightarrow> switches" where
  "addSwitch prevState newState height failureRow delegator = (\<lambda>(res, updates).
     case detectDelegationSwitch delegator prevState newState of
       Some sw \<Rightarrow> (res @ [sw], updates @ [buildDelegationHistoryUpdate sw height])
     | None \<Rightarrow> (res, if failureRow then updates @ [failedDelegation delegator height] else updates))"

fun delegationsLoop :: "delegation_state \<Rightarrow> delegation_state \<Rightarrow> uint64 \<Rightarrow> address set \<Rightarrow> address list \<Rightarrow>
    address set \<Rightarrow> switches \<Rightarrow> address set \<times> switches" where
  "delegationsLoop prevState newState height killed [] handled acc = (handled, acc)"
| "delegationsLoop prevState newState height killed (delegator # rest) handled acc =
     (if delegator \<in> killed then delegationsLoop prevState newState height killed rest handled acc
      else delegationsLoop prevState newState height killed rest (insert delegator handled)
             (addSwitch prevState newState height True delegator acc))"

fun switchTxsLoop :: "delegation_state \<Rightarrow> delegation_state \<Rightarrow> uint64 \<Rightarrow> address set \<Rightarrow> address set \<Rightarrow>
    Transaction list \<Rightarrow> switches \<Rightarrow> switches" where
  "switchTxsLoop prevState newState height killed handled [] acc = acc"
| "switchTxsLoop prevState newState height killed handled (tx # txs) acc =
     (if Tx_Sender tx \<in> killed \<or> Tx_Sender tx \<in> handled
      then switchTxsLoop prevState newState height killed handled txs acc
      else switchTxsLoop prevState newState height killed handled txs
             (addSwitch prevState newState height (Tx_Type tx = DelegateTx) (Tx_Sender tx) acc))"

text \<open>
  \<open>identityUpdate\<close> is whether the block exists, has a header and its flag \<open>IdentityUpdate\<close>;
  the killed addresses come in the order of the iteration over their map.
\<close>

definition detectDelegationSwitches :: "bool \<Rightarrow> uint64 \<Rightarrow> delegation_state \<Rightarrow> delegation_state \<Rightarrow>
    (address \<times> killedInfo) list \<Rightarrow> Transaction list \<Rightarrow> switches option" where
  "detectDelegationSwitches identityUpdate height prevState newState killedAddrs switchDelegationTxs =
     (if \<not> identityUpdate then Some ([], [])
      else do {
        acc \<leftarrow> killedLoop prevState height killedAddrs ([], []);
        let killed = fst ` set killedAddrs;
        let (handled, acc2) = delegationsLoop prevState newState height killed (Dl_Delegations prevState) {} acc;
        Some (switchTxsLoop prevState newState height killed handled switchDelegationTxs acc2) })"

section \<open>Pool sizes\<close>

text \<open>
  The map of pool sizes is an association list: a key is added at the end, once. \<open>uint64(int)\<close> wraps.
\<close>

type_synonym pool_sizes = "(address \<times> uint64) list"

definition putPoolSize :: "delegation_state \<Rightarrow> address \<Rightarrow> pool_sizes \<Rightarrow> pool_sizes" where
  "putPoolSize newState pool m = (if map_of m pool = None then m @ [(pool, of_int (Dl_PoolSize newState pool))] else m)"

definition handleDelegator :: "delegation_state \<Rightarrow> delegation_state \<Rightarrow> address \<Rightarrow> pool_sizes \<Rightarrow> pool_sizes" where
  "handleDelegator prevState newState addr m =
     (let m1 = (case Dl_Delegatee prevState addr of None \<Rightarrow> m | Some d \<Rightarrow> putPoolSize newState (snd d) m)
      in case Dl_Delegatee newState addr of None \<Rightarrow> m1 | Some d \<Rightarrow> putPoolSize newState (snd d) m1)"

definition handlePool :: "delegation_state \<Rightarrow> delegation_state \<Rightarrow> address \<Rightarrow> pool_sizes \<Rightarrow> pool_sizes" where
  "handlePool prevState newState addr m =
     (if Dl_IsPool prevState addr \<or> Dl_IsPool newState addr then putPoolSize newState addr m else m)"

text \<open>Of an \<open>EpochIdentity\<close> only the address is read; \<open>hexToAddress\<close> is the library's \<open>HexToAddress\<close>.\<close>

definition detectPoolSizeUpdates :: "(string \<Rightarrow> address) \<Rightarrow> DelegationSwitch list \<Rightarrow> DbAddress list \<Rightarrow> string list \<Rightarrow>
    delegation_state \<Rightarrow> delegation_state \<Rightarrow> PoolSize list" where
  "detectPoolSizeUpdates hexToAddress delegationSwitches addresses epochIdentities prevState newState =
     (let handle = (\<lambda>addr m. handleDelegator prevState newState addr (handlePool prevState newState addr m));
          m1 = fold (\<lambda>sw. handleDelegator prevState newState (DS_Delegator sw)) delegationSwitches [];
          m2 = fold (\<lambda>a m. if DA_StateChanges a = [] then m else handle (hexToAddress (DA_Address a)) m) addresses m1;
          m3 = fold (\<lambda>i. handle (hexToAddress i)) epochIdentities m2
      in map (\<lambda>(pool, size). \<lparr>PS_Address = pool, PS_Size = size, PS_TotalDelegated = 0\<rparr>) m3)"

section \<open>What a switch says\<close>

text \<open>
  A row is right when it describes the delegator's move: a killed identity that had a pool leaves
  it; any other delegator ends with the delegatee of the new state, and had or has a pool.
\<close>

definition switch_right :: "delegation_state \<Rightarrow> delegation_state \<Rightarrow> address set \<Rightarrow> DelegationSwitch \<Rightarrow> bool" where
  "switch_right prevState newState killed sw \<longleftrightarrow>
     (if DS_Delegator sw \<in> killed then Dl_Delegatee prevState (DS_Delegator sw) \<noteq> None \<and> DS_Delegatee sw = None
      else DS_Delegatee sw = map_option snd (Dl_Delegatee newState (DS_Delegator sw))
        \<and> (Dl_Delegatee prevState (DS_Delegator sw) \<noteq> None \<or> Dl_Delegatee newState (DS_Delegator sw) \<noteq> None))"

lemma detectDelegationSwitch_right:
  assumes "detectDelegationSwitch a p n = Some sw" "a \<notin> killed"
  shows "switch_right p n killed sw" "DS_Delegator sw = a"
  using assms by (auto simp: detectDelegationSwitch_def switch_right_def split: option.splits if_splits)

text \<open>Every killed delegator that is said to be killed by a transaction comes with it.\<close>

definition killed_ok :: "delegation_state \<Rightarrow> (address \<times> killedInfo) list \<Rightarrow> bool" where
  "killed_ok p ks \<longleftrightarrow> list_all (\<lambda>(a, i). Dl_Delegatee p a = None \<or> KI_reason i \<noteq> killedReasonTx \<or> KI_tx i \<noteq> None) ks"

lemma undelegationReason_defined: "undelegationReason i = None \<longleftrightarrow> KI_reason i = killedReasonTx \<and> KI_tx i = None"
  by (simp add: undelegationReason_def killed_reasons split: option.splits)

lemma killedLoop_run:
  assumes "killed_ok p ks"
  shows "\<exists>us. killedLoop p h ks (res, ups) =
    Some (res @ map (\<lambda>a. \<lparr>DS_Delegator = a, DS_Delegatee = None, DS_BirthEpoch = None\<rparr>)
       (filter (\<lambda>a. Dl_Delegatee p a \<noteq> None) (map fst ks)), us)
    \<and> map DHU_DelegatorAddress us = map DHU_DelegatorAddress ups @ filter (\<lambda>a. Dl_Delegatee p a \<noteq> None) (map fst ks)"
  using assms
proof (induction ks arbitrary: res ups)
  case Nil
  then show ?case by simp
next
  case (Cons k ks)
  obtain a i where k: "k = (a, i)" by (cases k)
  have tail: "killed_ok p ks" using Cons.prems by (simp add: killed_ok_def)
  show ?case
  proof (cases "Dl_Delegatee p a = None")
    case True
    with Cons.IH [OF tail] show ?thesis by (simp add: k)
  next
    case False
    then have "undelegationReason i \<noteq> None" 
      using Cons.prems by (auto simp: k killed_ok_def undelegationReason_defined)
    then obtain r t where "undelegationReason i = Some (r, t)" by auto
    with False Cons.IH [OF tail, of "res @ [\<lparr>DS_Delegator = a, DS_Delegatee = None, DS_BirthEpoch = None\<rparr>]"
        "ups @ [\<lparr>DHU_DelegatorAddress = a, DHU_DelegationTx = None, DHU_DelegationBlockHeight = None,
          DHU_UndelegationReason = r, DHU_UndelegationTx = t, DHU_UndelegationBlockHeight = Some h\<rparr>]"]
    show ?thesis by (simp add: k)
  qed
qed

text \<open>The delegators whose turn comes in the two later loops.\<close>

fun laterDelegators :: "address set \<Rightarrow> address set \<Rightarrow> address list \<Rightarrow> address list" where
  "laterDelegators killed handled [] = []"
| "laterDelegators killed handled (a # as) =
     (if a \<in> killed \<or> a \<in> handled then laterDelegators killed handled as else a # laterDelegators killed handled as)"

definition switchesFor :: "delegation_state \<Rightarrow> delegation_state \<Rightarrow> address list \<Rightarrow> DelegationSwitch list" where
  "switchesFor p n as = concat (map (\<lambda>a. case detectDelegationSwitch a p n of None \<Rightarrow> [] | Some sw \<Rightarrow> [sw]) as)"

lemma laterDelegators_filter: "laterDelegators killed handled as = filter (\<lambda>a. a \<notin> killed \<and> a \<notin> handled) as"
  by (induction as) auto

lemma addSwitch_switches:
  "fst (addSwitch p n h f a acc) = fst acc @ switchesFor p n [a]"
  by (simp add: addSwitch_def switchesFor_def split_beta split: option.splits)

lemma delegationsLoop_switches:
  "fst (delegationsLoop p n h killed ds handled acc) = handled \<union> {a \<in> set ds. a \<notin> killed}"
  "fst (snd (delegationsLoop p n h killed ds handled acc)) = fst acc @ switchesFor p n (filter (\<lambda>a. a \<notin> killed) ds)"
  by (induction ds arbitrary: handled acc) (auto simp: addSwitch_switches switchesFor_def)

lemma switchTxsLoop_switches:
  "fst (switchTxsLoop p n h killed handled txs acc) =
     fst acc @ switchesFor p n (laterDelegators killed handled (map Tx_Sender txs))"
  by (induction txs arbitrary: acc) (simp_all add: addSwitch_switches switchesFor_def)

lemma switchesFor_delegators:
  "map DS_Delegator (switchesFor p n as) = filter (\<lambda>a. detectDelegationSwitch a p n \<noteq> None) as"
proof (induction as)
  case Nil
  then show ?case by (simp add: switchesFor_def)
next
  case (Cons a as)
  show ?case
  proof (cases "detectDelegationSwitch a p n")
    case None
    with Cons show ?thesis by (simp add: switchesFor_def)
  next
    case (Some sw)
    have "DS_Delegator sw = a" using detectDelegationSwitch_right(2) [OF Some, of "{}"] by simp
    with Some Cons show ?thesis by (simp add: switchesFor_def)
  qed
qed

lemma switchesFor_right:
  assumes "sw \<in> set (switchesFor p n as)" "set as \<inter> killed = {}"
  shows "switch_right p n killed sw"
proof -
  obtain a where "a \<in> set as" "detectDelegationSwitch a p n = Some sw"
    using assms(1) by (auto simp: switchesFor_def split: option.splits)
  then show ?thesis using assms(2) by (intro detectDelegationSwitch_right(1)) auto
qed

text \<open>Everything the detection lists, as one list.\<close>

lemma detectDelegationSwitches_list:
  assumes "killed_ok p ks"
  shows "\<exists>us. detectDelegationSwitches True h p n ks txs =
    Some (map (\<lambda>a. \<lparr>DS_Delegator = a, DS_Delegatee = None, DS_BirthEpoch = None\<rparr>)
        (filter (\<lambda>a. Dl_Delegatee p a \<noteq> None) (map fst ks)) @
      switchesFor p n (filter (\<lambda>a. a \<notin> fst ` set ks) (Dl_Delegations p) @
        filter (\<lambda>a. a \<notin> fst ` set ks \<and> a \<notin> set (Dl_Delegations p)) (map Tx_Sender txs)), us)"
proof -
  obtain us where us: "killedLoop p h ks ([], []) =
      Some (map (\<lambda>a. \<lparr>DS_Delegator = a, DS_Delegatee = None, DS_BirthEpoch = None\<rparr>)
        (filter (\<lambda>a. Dl_Delegatee p a \<noteq> None) (map fst ks)), us)"
    using killedLoop_run [OF assms, where h = h and res = "[]" and ups = "[]"] unfolding append_Nil by blast
  define dl where "dl = delegationsLoop p n h (fst ` set ks) (Dl_Delegations p) {}
      (map (\<lambda>a. \<lparr>DS_Delegator = a, DS_Delegatee = None, DS_BirthEpoch = None\<rparr>)
        (filter (\<lambda>a. Dl_Delegatee p a \<noteq> None) (map fst ks)), us)"
  have d: "detectDelegationSwitches True h p n ks txs =
      Some (switchTxsLoop p n h (fst ` set ks) (fst dl) txs (snd dl))"
    using us by (simp add: detectDelegationSwitches_def dl_def split_beta)
  have same: "filter (\<lambda>a. a \<notin> fst ` set ks \<and> a \<notin> fst dl) (map Tx_Sender txs) =
      filter (\<lambda>a. a \<notin> fst ` set ks \<and> a \<notin> set (Dl_Delegations p)) (map Tx_Sender txs)"
    by (rule filter_cong) (auto simp: dl_def delegationsLoop_switches)
  have "fst (switchTxsLoop p n h (fst ` set ks) (fst dl) txs (snd dl)) =
      map (\<lambda>a. \<lparr>DS_Delegator = a, DS_Delegatee = None, DS_BirthEpoch = None\<rparr>)
        (filter (\<lambda>a. Dl_Delegatee p a \<noteq> None) (map fst ks)) @
      switchesFor p n (filter (\<lambda>a. a \<notin> fst ` set ks) (Dl_Delegations p) @
        filter (\<lambda>a. a \<notin> fst ` set ks \<and> a \<notin> set (Dl_Delegations p)) (map Tx_Sender txs))"
    unfolding switchTxsLoop_switches laterDelegators_filter same
    by (simp add: dl_def delegationsLoop_switches switchesFor_def)
  then show ?thesis
    unfolding d by (intro exI [of _ "snd (switchTxsLoop p n h (fst ` set ks) (fst dl) txs (snd dl))"])
      (simp only: option.inject, rule prod_eqI, simp_all only: fst_conv snd_conv)
qed

section \<open>Pool sizes, once each\<close>

definition sizes_ok :: "delegation_state \<Rightarrow> pool_sizes \<Rightarrow> bool" where
  "sizes_ok n m \<longleftrightarrow> distinct (map fst m) \<and> list_all (\<lambda>(pool, size). size = of_int (Dl_PoolSize n pool)) m"

lemma putPoolSize_keys: "fst ` set (putPoolSize n pool m) = insert pool (fst ` set m)"
  by (auto simp: putPoolSize_def map_of_eq_None_iff)

lemma putPoolSize_ok: "sizes_ok n m \<Longrightarrow> sizes_ok n (putPoolSize n pool m)"
  by (auto simp: sizes_ok_def putPoolSize_def map_of_eq_None_iff)

definition delegateesOf :: "delegation_state \<Rightarrow> delegation_state \<Rightarrow> address \<Rightarrow> address set" where
  "delegateesOf p n a = set_option (map_option snd (Dl_Delegatee p a)) \<union> set_option (map_option snd (Dl_Delegatee n a))"

definition poolsAt :: "delegation_state \<Rightarrow> delegation_state \<Rightarrow> address \<Rightarrow> address set" where
  "poolsAt p n a = {a. Dl_IsPool p a \<or> Dl_IsPool n a} \<inter> {a} \<union> delegateesOf p n a"

lemma handleDelegator_keys: "fst ` set (handleDelegator p n a m) = fst ` set m \<union> delegateesOf p n a"
  by (auto simp: handleDelegator_def Let_def delegateesOf_def putPoolSize_keys split: option.splits)

lemma handlePool_keys: "fst ` set (handlePool p n a m) = fst ` set m \<union> {a. Dl_IsPool p a \<or> Dl_IsPool n a} \<inter> {a}"
  by (auto simp: handlePool_def putPoolSize_keys)

lemma handle_ok:
  "sizes_ok n m \<Longrightarrow> sizes_ok n (handleDelegator p n a m)"
  "sizes_ok n m \<Longrightarrow> sizes_ok n (handlePool p n a m)"
  by (simp_all add: handleDelegator_def handlePool_def Let_def putPoolSize_ok split: option.splits)

lemma handle_both_keys: "fst ` set (handleDelegator p n a (handlePool p n a m)) = fst ` set m \<union> poolsAt p n a"
  by (auto simp: handleDelegator_keys handlePool_keys poolsAt_def)

lemma fold_sizes_ok: "(\<And>x m. x \<in> set xs \<Longrightarrow> sizes_ok n m \<Longrightarrow> sizes_ok n (f x m)) \<Longrightarrow> sizes_ok n m \<Longrightarrow> sizes_ok n (fold f xs m)"
  by (induction xs arbitrary: m) simp_all

lemma fold_keys:
  "(\<And>x m. x \<in> set xs \<Longrightarrow> fst ` set (f x m) = fst ` set m \<union> g x) \<Longrightarrow>
     fst ` set (fold f xs m) = fst ` set m \<union> (\<Union>x \<in> set xs. g x)"
  by (induction xs arbitrary: m) auto

section \<open>Properties\<close>


definition sampleDelegations :: "address_ptr option \<Rightarrow> delegation_state" where
  "sampleDelegations d = \<lparr>Dl_Delegatee = (\<lambda>a. if a = 5 then d else None), Dl_Birthday = (\<lambda>_. 2),
     Dl_Delegations = [5], Dl_PoolSize = (\<lambda>_. 4), Dl_IsPool = (\<lambda>a. a = 9)\<rparr>"


text \<open>C24: a pending delegation whose delegator keeps the same pool is reported as a switch to that
  pool whenever the two states hand out different pointers to it, and never as a failed
  application, because the code compares the pointers and not the addresses.\<close>

theorem same_pool_reported_as_switch:
  assumes "Dl_Delegatee p a = Some (q, pool)" "Dl_Delegatee n a = Some (q', pool)" "q \<noteq> q'"
  shows "addSwitch p n h True a (res, updates) =
    (res @ [\<lparr>DS_Delegator = a, DS_Delegatee = Some pool, DS_BirthEpoch = birthEpochOf n a\<rparr>],
     updates @ [\<lparr>DHU_DelegatorAddress = a, DHU_DelegationTx = None, DHU_DelegationBlockHeight = Some h,
       DHU_UndelegationReason = None, DHU_UndelegationTx = None, DHU_UndelegationBlockHeight = None\<rparr>])"
  using assms by (simp add: addSwitch_def detectDelegationSwitch_def buildDelegationHistoryUpdate_def)

theorem same_pool_reported_as_switch_witness:
  "fst (addSwitch (sampleDelegations (Some (1, 9))) (sampleDelegations (Some (2, 9))) 100 True 5 ([], [])) =
    [\<lparr>DS_Delegator = 5, DS_Delegatee = Some 9, DS_BirthEpoch = Some 2\<rparr>]"
proof -
  have "Dl_Delegatee (sampleDelegations (Some (1, 9))) 5 = Some (1, 9)"
    "Dl_Delegatee (sampleDelegations (Some (2, 9))) 5 = Some (2, 9)"
    by (simp_all add: sampleDelegations_def)
  from same_pool_reported_as_switch [OF this, of 100 "[]" "[]"] show ?thesis
    by (simp add: birthEpochOf_def sampleDelegations_def)
qed

text \<open>the pool sizes of a block have one row per pool, with the size the pool has in the new
  state; the pools are the old and new delegatees of every delegator that switched, changed its
  state or is an identity of the epoch, and those of these addresses that are pools themselves.\<close>

theorem pool_sizes_complete:
  "\<exists>m. detectPoolSizeUpdates hex switches addresses identities p n =
      map (\<lambda>(pool, size). \<lparr>PS_Address = pool, PS_Size = size, PS_TotalDelegated = 0\<rparr>) m
    \<and> sizes_ok n m
    \<and> fst ` set m = (\<Union>sw \<in> set switches. delegateesOf p n (DS_Delegator sw))
        \<union> (\<Union>a \<in> {a \<in> set addresses. DA_StateChanges a \<noteq> []}. poolsAt p n (hex (DA_Address a)))
        \<union> (\<Union>i \<in> set identities. poolsAt p n (hex i))"
proof -
  define handle where "handle = (\<lambda>addr m. handleDelegator p n addr (handlePool p n addr m))"
  define m1 where "m1 = fold (\<lambda>sw. handleDelegator p n (DS_Delegator sw)) switches []"
  define m2 where "m2 = fold (\<lambda>a m. if DA_StateChanges a = [] then m else handle (hex (DA_Address a)) m) addresses m1"
  define m3 where "m3 = fold (\<lambda>i. handle (hex i)) identities m2"
  have ok: "sizes_ok n (handle a m)" if "sizes_ok n m" for a m using that by (simp add: handle_def handle_ok)
  have keys: "fst ` set (handle a m) = fst ` set m \<union> poolsAt p n a" for a m by (simp add: handle_def handle_both_keys)
  have k1: "fst ` set m1 = (\<Union>sw \<in> set switches. delegateesOf p n (DS_Delegator sw))"
    unfolding m1_def by (subst fold_keys) (auto simp: handleDelegator_keys)
  have k2: "fst ` set m2 = fst ` set m1 \<union> (\<Union>a \<in> set addresses. if DA_StateChanges a = [] then {} else poolsAt p n (hex (DA_Address a)))"
    unfolding m2_def by (rule fold_keys) (simp add: keys)
  have k3: "fst ` set m3 = fst ` set m2 \<union> (\<Union>i \<in> set identities. poolsAt p n (hex i))"
    unfolding m3_def by (rule fold_keys) (simp add: keys)
  have o1: "sizes_ok n m1" unfolding m1_def by (rule fold_sizes_ok) (simp_all add: handle_ok, simp add: sizes_ok_def)
  have o2: "sizes_ok n m2" unfolding m2_def by (rule fold_sizes_ok) (simp_all add: ok o1)
  have "sizes_ok n m3" unfolding m3_def by (rule fold_sizes_ok) (simp_all add: ok o2)
  moreover have "detectPoolSizeUpdates hex switches addresses identities p n =
      map (\<lambda>(pool, size). \<lparr>PS_Address = pool, PS_Size = size, PS_TotalDelegated = 0\<rparr>) m3"
    unfolding detectPoolSizeUpdates_def m3_def m2_def m1_def handle_def Let_def by (rule refl)
  moreover have "(\<Union>a \<in> set addresses. if DA_StateChanges a = [] then {} else poolsAt p n (hex (DA_Address a))) =
      (\<Union>a \<in> {a \<in> set addresses. DA_StateChanges a \<noteq> []}. poolsAt p n (hex (DA_Address a)))"
    by (auto split: if_splits)
  ultimately show ?thesis using k1 k2 k3 by (intro exI [of _ m3]) simp
qed

end
