(* ===== verification/Tx_Conversion.thy ===== *)
theory Tx_Conversion
  imports Delegation Collector_State "HOL-Library.AList"
begin

text \<open>
  The conversion of the transactions of a block, \<open>src/indexer/indexer.go\<close> (\<open>convertTransactions\<close>
  and what it calls) with the collector of \<open>src/indexer/context.go\<close>. The maps \<open>addresses\<close> and
  \<open>killedAddrs\<close> of the collector are ranged over later, so they are association lists. What the
  node's parsers, encoders and word functions return is the record \<open>tx_env\<close>; what the conversion
  reads of the states is \<open>node_state\<close>.
\<close>

section \<open>Rows\<close>

record Flip =
  Fl_TxId :: uint64
  Fl_TxHash :: string
  Fl_Cid :: string
  Fl_Pair :: byte

record DeletedFlip =
  DF_TxHash :: string
  DF_Cid :: string

record FlipKey =
  FK_TxHash :: string
  FK_Key :: string

record FlipWords =
  FW_Cid :: string
  FW_TxHash :: string
  FW_Word1 :: uint16
  FW_Word2 :: uint16

record KillInviteeTx =
  KIT_TxHash :: string
  KIT_InviteTxHash :: string

record flipTx =
  FT_txHash :: hash
  FT_cid :: bytes

section \<open>What is read from the node\<close>

text \<open>
  \<open>NI_ShardId\<close> is \<open>ShiftedShardId()\<close>, \<open>NI_AvailableFlips\<close> is \<open>GetMaximumAvailableFlips()\<close>,
  \<open>NI_WordPairs\<close> is \<open>GetTotalWordPairsCount()\<close>; a flip is its cid and its pair.
\<close>

record node_identity =
  NI_State :: identity_state
  NI_ShardId :: uint32
  NI_AvailableFlips :: byte
  NI_Delegatee :: "address option"
  NI_Scores :: bytes
  NI_Birthday :: uint16
  NI_Flips :: "(bytes \<times> byte) list"
  NI_Stake :: bigint
  NI_WordPairs :: int

text \<open>\<open>NS_inviterTxHash\<close> is \<open>GetInviter(a)\<close>, of which only the hash is read; it may be nil.\<close>

record node_state =
  NS_app :: app_state
  NS_dl :: delegation_state
  NS_identity :: "address \<Rightarrow> node_identity"
  NS_identities :: "(address \<times> node_identity) list"
  NS_accountKeys :: "bytes option list"
  NS_inviterTxHash :: "address \<Rightarrow> hash option"
  NS_epoch :: uint16
  NS_epochBlock :: uint64
  NS_godAddress :: address
  NS_requiredFlips :: "address \<Rightarrow> byte"
  NS_madeFlips :: "address \<Rightarrow> byte"
  NS_invites :: "address \<Rightarrow> byte"
  NS_scores :: "address \<Rightarrow> bytes"
  NS_shortFlipPoints :: "address \<Rightarrow> float32"
  NS_qualifiedFlips :: "address \<Rightarrow> uint32"
  NS_onlineSize :: int
  NS_validatorsSize :: int
  NS_vrfThreshold :: rat
  NS_feePerGas :: bigint
  NS_root :: hash
  NS_nextValidationTime :: int
  NS_discriminationStakeThreshold :: bigint

text \<open>
  The parsers return the parts of an attachment the code reads, or nil; \<open>TE_HashFromProof\<close> is the
  32-byte hash (its error is ignored), \<open>TE_GetWords\<close> may fail.
\<close>

record tx_env =
  TE_ParseFlipSubmit :: "Transaction \<Rightarrow> (bytes \<times> byte) option"
  TE_ParseDeleteFlip :: "Transaction \<Rightarrow> bytes option"
  TE_ParseOnlineStatus :: "Transaction \<Rightarrow> bool option"
  TE_ParseLongAnswer :: "Transaction \<Rightarrow> (bytes \<times> bytes) option"
  TE_ParseShortAnswer :: "Transaction \<Rightarrow> byte option"
  TE_ToBytes :: "Transaction \<Rightarrow> bytes"
  TE_HashFromProof :: "bytes \<Rightarrow> bytes"
  TE_GetWords :: "uint64 \<Rightarrow> int \<Rightarrow> int \<Rightarrow> int \<Rightarrow> int \<Rightarrow> (int \<times> int) option"
  TE_WordRange :: "int \<times> int"

section \<open>Standard library\<close>

text \<open>\<open>hex.EncodeToString\<close>, and the inverse used to state that nothing is lost.\<close>

definition hexDigits :: string where "hexDigits = ''0123456789abcdef''"

definition hexEncode :: "bytes \<Rightarrow> string" where
  "hexEncode bs = concat (map (\<lambda>b. [hexDigits ! (unat b div 16), hexDigits ! (unat b mod 16)]) bs)"

definition hexValue :: "char \<Rightarrow> nat" where
  "hexValue c = (if of_char c > (96 :: nat) then of_char c - 87 else of_char c - 48)"

fun hexDecode :: "string \<Rightarrow> bytes" where
  "hexDecode (c # d # s) = of_nat (16 * hexValue c + hexValue d) # hexDecode s"
| "hexDecode s = []"

text \<open>\<open>binary.LittleEndian.Uint64\<close> panics on fewer than eight bytes.\<close>

definition littleEndian64 :: "bytes \<Rightarrow> uint64 option" where
  "littleEndian64 bs = (if length bs < 8 then None
     else Some (foldr (\<lambda>b acc. acc * 256 + ucast b) (take 8 bs) 0))"

section \<open>The collector\<close>

record conversionCollector =
  CC_submittedFlips :: "Flip list"
  CC_deletedFlips :: "DeletedFlip list"
  CC_flipTxs :: "flipTx list"
  CC_flipKeys :: "FlipKey list"
  CC_flipsWords :: "FlipWords list"
  CC_addresses :: "(string \<times> DbAddress) list"
  CC_killInviteeTxs :: "KillInviteeTx list"
  CC_becomeOnlineTxs :: "string list"
  CC_becomeOfflineTxs :: "string list"
  CC_killedAddrs :: "(address \<times> killedInfo) list"
  CC_switchDelegationTxs :: "Transaction list"

definition emptyCollector :: conversionCollector where
  "emptyCollector = \<lparr>CC_submittedFlips = [], CC_deletedFlips = [], CC_flipTxs = [], CC_flipKeys = [],
     CC_flipsWords = [], CC_addresses = [], CC_killInviteeTxs = [], CC_becomeOnlineTxs = [],
     CC_becomeOfflineTxs = [], CC_killedAddrs = [], CC_switchDelegationTxs = []\<rparr>"

definition getAddresses :: "conversionCollector \<Rightarrow> DbAddress list" where
  "getAddresses c = map snd (CC_addresses c)"

section \<open>Detections\<close>

definition detectSubmittedFlip :: "ext \<Rightarrow> tx_env \<Rightarrow> Transaction \<Rightarrow> (Flip \<times> flipTx) option" where
  "detectSubmittedFlip e env tx =
     (if Tx_Type tx \<noteq> SubmitFlipTx then None
      else case TE_ParseFlipSubmit env tx of
        None \<Rightarrow> None
      | Some (cid, pair) \<Rightarrow> (case X_cidParse e cid of
            None \<Rightarrow> None
          | Some flipCid \<Rightarrow> Some (\<lparr>Fl_TxId = 0, Fl_TxHash = ConvertHash e (Tx_Hash tx), Fl_Cid = flipCid, Fl_Pair = pair\<rparr>,
                \<lparr>FT_txHash = Tx_Hash tx, FT_cid = cid\<rparr>)))"

definition detectDeletedFlip :: "ext \<Rightarrow> tx_env \<Rightarrow> Transaction \<Rightarrow> DeletedFlip option" where
  "detectDeletedFlip e env tx =
     (if Tx_Type tx \<noteq> DeleteFlipTx then None
      else case TE_ParseDeleteFlip env tx of
        None \<Rightarrow> None
      | Some cid \<Rightarrow> map_option (\<lambda>flipCid. \<lparr>DF_TxHash = ConvertHash e (Tx_Hash tx), DF_Cid = flipCid\<rparr>) (X_cidParse e cid))"

text \<open>\<open>*tx.To\<close> and \<open>inviter.TxHash\<close> dereference pointers: the outer option is a panic.\<close>

definition detectKillInviteeTx :: "ext \<Rightarrow> Transaction \<Rightarrow> node_state \<Rightarrow> KillInviteeTx option option" where
  "detectKillInviteeTx e tx prevState =
     (if Tx_Type tx \<noteq> KillInviteeTxT then Some None
      else do {
        invitee \<leftarrow> Tx_To tx;
        inviteTxHash \<leftarrow> NS_inviterTxHash prevState invitee;
        Some (Some \<lparr>KIT_TxHash = ConvertHash e (Tx_Hash tx), KIT_InviteTxHash = ConvertHash e inviteTxHash\<rparr>) })"

definition detectOnlineStatusTx :: "ext \<Rightarrow> tx_env \<Rightarrow> Transaction \<Rightarrow> string option \<times> string option" where
  "detectOnlineStatusTx e env tx =
     (if Tx_Type tx \<noteq> OnlineStatusTx then (None, None)
      else case TE_ParseOnlineStatus env tx of
        None \<Rightarrow> (None, None)
      | Some online \<Rightarrow> (let h = ConvertHash e (Tx_Hash tx) in if online then (Some h, None) else (None, Some h)))"

definition getFlipWords :: "tx_env \<Rightarrow> address \<Rightarrow> bytes \<Rightarrow> int \<Rightarrow> int \<Rightarrow> int \<Rightarrow> node_state \<Rightarrow> (int \<times> int) option option" where
  "getFlipWords env addr proof firstIndex dictionarySize pairId appState = do {
     rnd \<leftarrow> littleEndian64 (TE_HashFromProof env proof);
     Some (TE_GetWords env rnd firstIndex dictionarySize (NI_WordPairs (NS_identity appState addr)) pairId) }"

fun flipWordsLoop :: "ext \<Rightarrow> tx_env \<Rightarrow> Transaction \<Rightarrow> bytes \<Rightarrow> node_state \<Rightarrow> (bytes \<times> byte) list \<Rightarrow> FlipWords list option" where
  "flipWordsLoop e env tx proof prevState [] = Some []"
| "flipWordsLoop e env tx proof prevState ((cid, pair) # flips) = do {
     words \<leftarrow> getFlipWords env (Tx_Sender tx) proof (fst (TE_WordRange env)) (snd (TE_WordRange env)) (int (unat pair)) prevState;
     rest \<leftarrow> flipWordsLoop e env tx proof prevState flips;
     Some ((case words of None \<Rightarrow> [] | Some (word1, word2) \<Rightarrow>
         [\<lparr>FW_Cid = cidString e cid, FW_TxHash = ConvertHash e (Tx_Hash tx), FW_Word1 = of_int word1, FW_Word2 = of_int word2\<rparr>])
       @ rest) }"

definition handleLongAnswers :: "ext \<Rightarrow> tx_env \<Rightarrow> Transaction \<Rightarrow> node_state \<Rightarrow> conversionCollector \<Rightarrow> conversionCollector option" where
  "handleLongAnswers e env tx prevState c =
     (if Tx_Type tx \<noteq> SubmitLongAnswersTx then Some c
      else case TE_ParseLongAnswer env tx of
        None \<Rightarrow> Some c
      | Some (key, proof) \<Rightarrow> do {
          let c1 = (if key = [] then c else c\<lparr>CC_flipKeys := CC_flipKeys c @
             [\<lparr>FK_TxHash = ConvertHash e (Tx_Hash tx), FK_Key = hexEncode key\<rparr>]\<rparr>);
          words \<leftarrow> (if proof = [] then Some [] else flipWordsLoop e env tx proof prevState (NI_Flips (NS_identity prevState (Tx_Sender tx))));
          Some (c1\<lparr>CC_flipsWords := CC_flipsWords c1 @ words\<rparr>) })"

text \<open>The codes of \<open>dic_identity_states\<close>.\<close>

fun convertIdentityState :: "identity_state \<Rightarrow> byte" where
  "convertIdentityState Undefined = 0"
| "convertIdentityState Invite = 1"
| "convertIdentityState CandidateSt = 2"
| "convertIdentityState Verified = 3"
| "convertIdentityState Suspended = 4"
| "convertIdentityState Killed = 5"
| "convertIdentityState Zombie = 6"
| "convertIdentityState Newbie = 7"
| "convertIdentityState Human = 8"

section \<open>A transaction\<close>

text \<open>\<open>if _, present := collector.addresses[a]; !present\<close>: an empty row is added.\<close>

definition ensureAddress :: "string \<Rightarrow> conversionCollector \<Rightarrow> conversionCollector" where
  "ensureAddress a c = (if map_of (CC_addresses c) a = None
     then c\<lparr>CC_addresses := CC_addresses c @ [(a, \<lparr>DA_Address = a, DA_IsTemporary = False, DA_StateChanges = []\<rparr>)]\<rparr>
     else c)"

definition getIdentityStateChange :: "Stats \<Rightarrow> Transaction \<Rightarrow> address \<Rightarrow> IdentityStateChange option" where
  "getIdentityStateChange st tx addr = (case S_IdentityStateChanges st (Tx_Hash tx) of
       None \<Rightarrow> None
     | Some txChanges \<Rightarrow> txChanges addr)"

text \<open>A state change of the sender or the recipient: its row, and the set of killed addresses.\<close>

definition stateChangeRow :: "ext \<Rightarrow> Transaction \<Rightarrow> IdentityStateChange \<Rightarrow> AddressStateChange" where
  "stateChangeRow e tx change = \<lparr>ASC_PrevState = convertIdentityState (ISC_PrevState change),
     ASC_NewState = convertIdentityState (ISC_NewState change), ASC_TxHash = ConvertHash e (Tx_Hash tx)\<rparr>"

definition addStateChange :: "ext \<Rightarrow> Transaction \<Rightarrow> address \<Rightarrow> IdentityStateChange \<Rightarrow> conversionCollector \<Rightarrow> conversionCollector" where
  "addStateChange e tx addr change c =
     c\<lparr>CC_addresses := AList.map_entry (ConvertAddress e addr)
          (\<lambda>row. row\<lparr>DA_StateChanges := DA_StateChanges row @ [stateChangeRow e tx change]\<rparr>) (CC_addresses c),
       CC_killedAddrs := (if ISC_NewState change = Killed
          then AList.update addr \<lparr>KI_reason = killedReasonTx, KI_tx = Some tx\<rparr> (CC_killedAddrs c)
          else AList.delete addr (CC_killedAddrs c))\<rparr>"

definition handleSender :: "ext \<Rightarrow> Stats \<Rightarrow> Transaction \<Rightarrow> conversionCollector \<Rightarrow> conversionCollector" where
  "handleSender e st tx c =
     (let key = ConvertAddress e (Tx_Sender tx); c1 = ensureAddress key c in
      case getIdentityStateChange st tx (Tx_Sender tx) of
        None \<Rightarrow> c1
      | Some change \<Rightarrow> addStateChange e tx (Tx_Sender tx) change
          (if Tx_Type tx = ActivationTxT \<and> ISC_NewState change = Killed
           then c1\<lparr>CC_addresses := AList.map_entry key (\<lambda>row. row\<lparr>DA_IsTemporary := True\<rparr>) (CC_addresses c1)\<rparr>
           else c1))"

definition handleRecipient :: "ext \<Rightarrow> Stats \<Rightarrow> Transaction \<Rightarrow> conversionCollector \<Rightarrow> conversionCollector" where
  "handleRecipient e st tx c = (case Tx_To tx of
       None \<Rightarrow> c
     | Some recipient \<Rightarrow>
         (let c1 = ensureAddress (ConvertAddress e recipient) c in
          if recipient = Tx_Sender tx then c1
          else case getIdentityStateChange st tx recipient of
            None \<Rightarrow> c1
          | Some change \<Rightarrow> addStateChange e tx recipient change c1))"

definition detectTx :: "ext \<Rightarrow> tx_env \<Rightarrow> Transaction \<Rightarrow> node_state \<Rightarrow> conversionCollector \<Rightarrow> conversionCollector option" where
  "detectTx e env tx prevState c = do {
     let c1 = (case detectSubmittedFlip e env tx of None \<Rightarrow> c | Some (f, h) \<Rightarrow>
        c\<lparr>CC_submittedFlips := CC_submittedFlips c @ [f], CC_flipTxs := CC_flipTxs c @ [h]\<rparr>);
     let c2 = (case detectDeletedFlip e env tx of None \<Rightarrow> c1 | Some f \<Rightarrow> c1\<lparr>CC_deletedFlips := CC_deletedFlips c1 @ [f]\<rparr>);
     killInvitee \<leftarrow> detectKillInviteeTx e tx prevState;
     let c3 = (case killInvitee of None \<Rightarrow> c2 | Some k \<Rightarrow> c2\<lparr>CC_killInviteeTxs := CC_killInviteeTxs c2 @ [k]\<rparr>);
     let c4 = (case detectOnlineStatusTx e env tx of
          (Some h, _) \<Rightarrow> c3\<lparr>CC_becomeOnlineTxs := CC_becomeOnlineTxs c3 @ [h]\<rparr>
        | (None, Some h) \<Rightarrow> c3\<lparr>CC_becomeOfflineTxs := CC_becomeOfflineTxs c3 @ [h]\<rparr>
        | (None, None) \<Rightarrow> c3);
     let c5 = (if Tx_Type tx = DelegateTx \<or> Tx_Type tx = UndelegateTx
        then c4\<lparr>CC_switchDelegationTxs := CC_switchDelegationTxs c4 @ [tx]\<rparr> else c4);
     handleLongAnswers e env tx prevState c5 }"

definition txRow :: "ext \<Rightarrow> tx_env \<Rightarrow> Stats \<Rightarrow> Transaction \<Rightarrow> DbTransaction" where
  "txRow e env st tx =
     \<lparr>DT_Hash = ConvertHash e (Tx_Hash tx), DT_Type = Tx_Type tx, DT_From = ConvertAddress e (Tx_Sender tx),
      DT_To = (case Tx_To tx of None \<Rightarrow> [] | Some a \<Rightarrow> ConvertAddress e a),
      DT_Amount = X_convertToFloat e (Tx_Amount tx), DT_Tips = X_convertToFloat e (Tx_Tips tx),
      DT_MaxFee = X_convertToFloat e (Tx_MaxFee tx),
      DT_Fee = X_convertToFloat e (case S_FeesByTxHash st (Tx_Hash tx) of None \<Rightarrow> None | Some fee \<Rightarrow> fee),
      DT_Size = Tx_Size tx, DT_Raw = hexEncode (TE_ToBytes env tx), DT_Nonce = Tx_Nonce tx,
      DT_UsedGas = (case S_UsedGasByTxHash st (Tx_Hash tx) of None \<Rightarrow> 0 | Some gas \<Rightarrow> gas),
      DT_Data = (if Tx_Type tx = SubmitShortAnswersTx then TE_ParseShortAnswer env tx else None)\<rparr>"

definition convertTransaction :: "ext \<Rightarrow> tx_env \<Rightarrow> Stats \<Rightarrow> node_state \<Rightarrow> Transaction \<Rightarrow> conversionCollector \<Rightarrow>
    (DbTransaction \<times> conversionCollector) option" where
  "convertTransaction e env st prevState tx c = do {
     c1 \<leftarrow> detectTx e env tx prevState c;
     Some (txRow e env st tx, handleRecipient e st tx (handleSender e st tx c1)) }"

fun convertTransactions :: "ext \<Rightarrow> tx_env \<Rightarrow> Stats \<Rightarrow> node_state \<Rightarrow> Transaction list \<Rightarrow> conversionCollector \<Rightarrow>
    (DbTransaction list \<times> conversionCollector) option" where
  "convertTransactions e env st prevState [] c = Some ([], c)"
| "convertTransactions e env st prevState (tx # txs) c = do {
     (row, c1) \<leftarrow> convertTransaction e env st prevState tx c;
     (rows, c2) \<leftarrow> convertTransactions e env st prevState txs c1;
     Some (row # rows, c2) }"

section \<open>Nothing of the raw transaction is lost\<close>

lemma hexValue_digits: "n < 16 \<Longrightarrow> hexValue (hexDigits ! n) = n"
proof -
  have "\<forall>n \<in> set [0..<16]. hexValue (hexDigits ! n) = n" by code_simp
  then show "n < 16 \<Longrightarrow> ?thesis" by simp
qed

lemma hexDecode_encode: "hexDecode (hexEncode bs) = bs"
proof (induction bs)
  case (Cons b bs)
  have "unat b < 256" using unsigned_less [of b] by simp
  then have "unat b div 16 < 16" "unat b mod 16 < 16" by auto
  then have "of_nat (16 * hexValue (hexDigits ! (unat b div 16)) + hexValue (hexDigits ! (unat b mod 16))) = b"
    by (simp add: hexValue_digits)
  then show ?case using Cons by (simp add: hexEncode_def)
qed (simp add: hexEncode_def)

section \<open>State changes\<close>

text \<open>What the collector holds for an address.\<close>

definition listed :: "ext \<Rightarrow> conversionCollector \<Rightarrow> address \<Rightarrow> bool" where
  "listed e c a \<longleftrightarrow> map_of (CC_addresses c) (ConvertAddress e a) \<noteq> None"

definition changesAt :: "ext \<Rightarrow> conversionCollector \<Rightarrow> address \<Rightarrow> AddressStateChange list" where
  "changesAt e c a = (case map_of (CC_addresses c) (ConvertAddress e a) of None \<Rightarrow> [] | Some row \<Rightarrow> DA_StateChanges row)"

text \<open>The specification: the change of an address by a transaction it takes part in.\<close>

definition txParties :: "Transaction \<Rightarrow> address set" where
  "txParties tx = insert (Tx_Sender tx) (set_option (Tx_To tx))"

definition txChange :: "Stats \<Rightarrow> address \<Rightarrow> Transaction \<Rightarrow> (Transaction \<times> IdentityStateChange) option" where
  "txChange st a tx = (if a \<in> txParties tx then map_option (Pair tx) (getIdentityStateChange st tx a) else None)"

definition changeRows :: "ext \<Rightarrow> Stats \<Rightarrow> address \<Rightarrow> Transaction \<Rightarrow> AddressStateChange list" where
  "changeRows e st a tx = (case txChange st a tx of None \<Rightarrow> [] | Some (tx', ch) \<Rightarrow> [stateChangeRow e tx' ch])"

definition killedBy :: "killedInfo option \<Rightarrow> (Transaction \<times> IdentityStateChange) option \<Rightarrow> killedInfo option" where
  "killedBy old change = (case change of None \<Rightarrow> old
     | Some (tx, ch) \<Rightarrow> if ISC_NewState ch = Killed then Some \<lparr>KI_reason = killedReasonTx, KI_tx = Some tx\<rparr> else None)"

definition collector_wf :: "conversionCollector \<Rightarrow> bool" where
  "collector_wf c \<longleftrightarrow> distinct (map fst (CC_addresses c)) \<and> distinct (map fst (CC_killedAddrs c))
     \<and> (\<forall>(k, row) \<in> set (CC_addresses c). DA_Address row = k)"

lemma detectTx_frame:
  assumes "detectTx e env tx prevState c = Some c'"
  shows "CC_addresses c' = CC_addresses c" "CC_killedAddrs c' = CC_killedAddrs c"
  using assms
  by (auto simp: detectTx_def handleLongAnswers_def Let_def split: option.splits bind_splits if_splits prod.splits)

lemma map_fst_map_entry: "map fst (AList.map_entry k f xs) = map fst xs"
  by (induction xs) auto

lemma set_map_entry: "(k', v) \<in> set (AList.map_entry k f xs) \<Longrightarrow> \<exists>w. (k', w) \<in> set xs \<and> (v = w \<or> v = f w)"
  by (induction xs) (auto split: if_splits)

lemma ensureAddress_simps [simp]:
  "CC_killedAddrs (ensureAddress k c) = CC_killedAddrs c"
  "map_of (CC_addresses (ensureAddress k c)) = (map_of (CC_addresses c))(k \<mapsto>
     (case map_of (CC_addresses c) k of None \<Rightarrow> \<lparr>DA_Address = k, DA_IsTemporary = False, DA_StateChanges = []\<rparr> | Some row \<Rightarrow> row))"
  by (auto simp: ensureAddress_def map_add_def fun_eq_iff split: option.splits)

lemma ensureAddress_wf: "collector_wf c \<Longrightarrow> collector_wf (ensureAddress k c)"
  by (auto simp: collector_wf_def ensureAddress_def map_of_eq_None_iff)

lemma addStateChange_wf: "collector_wf c \<Longrightarrow> collector_wf (addStateChange e tx a ch c)"
  by (auto simp: collector_wf_def addStateChange_def map_fst_map_entry AList.distinct_update AList.distinct_delete
      dest!: set_map_entry)

lemma map_entry_wf:
  "collector_wf c \<Longrightarrow> collector_wf (c\<lparr>CC_addresses := AList.map_entry k (\<lambda>row. row\<lparr>DA_IsTemporary := True\<rparr>) (CC_addresses c)\<rparr>)"
  by (auto simp: collector_wf_def map_fst_map_entry dest!: set_map_entry)

lemma handleSender_wf: "collector_wf c \<Longrightarrow> collector_wf (handleSender e st tx c)"
  by (simp add: handleSender_def Let_def addStateChange_wf ensureAddress_wf map_entry_wf split: option.splits)

lemma handleRecipient_wf: "collector_wf c \<Longrightarrow> collector_wf (handleRecipient e st tx c)"
  by (simp add: handleRecipient_def Let_def ensureAddress_wf addStateChange_wf split: option.splits)

text \<open>One address's part of the collector after its row is made sure of, or changed.\<close>

lemma listed_simps:
  assumes "inj (X_addrHex e)"
  shows "listed e (ensureAddress (ConvertAddress e b) c) a \<longleftrightarrow> a = b \<or> listed e c a"
    and "listed e (addStateChange e tx b ch c) a \<longleftrightarrow> listed e c a"
    and "listed e (c\<lparr>CC_addresses := AList.map_entry k f (CC_addresses c)\<rparr>) a \<longleftrightarrow> listed e c a"
  using assms by (auto simp: listed_def addStateChange_def ConvertAddress_def map_of_map_entry inj_eq split: option.splits)

lemma changesAt_simps:
  assumes "inj (X_addrHex e)"
  shows "changesAt e (ensureAddress (ConvertAddress e b) c) a = changesAt e c a"
    and "listed e c b \<Longrightarrow> changesAt e (addStateChange e tx b ch c) a =
           changesAt e c a @ (if a = b then [stateChangeRow e tx ch] else [])"
    and "changesAt e (c\<lparr>CC_addresses := AList.map_entry k (\<lambda>row. row\<lparr>DA_IsTemporary := t\<rparr>) (CC_addresses c)\<rparr>) a = changesAt e c a"
  using assms
  by (auto simp: changesAt_def listed_def addStateChange_def ConvertAddress_def map_of_map_entry inj_eq split: option.splits)

lemma killed_simps:
  "map_of (CC_killedAddrs (addStateChange e tx b ch c)) a =
     (if a = b then killedBy (map_of (CC_killedAddrs c) a) (Some (tx, ch)) else map_of (CC_killedAddrs c) a)"
  by (simp add: addStateChange_def killedBy_def AList.update_conv' AList.delete_conv')

lemma handleSender_at:
  assumes "inj (X_addrHex e)"
  shows "listed e (handleSender e st tx c) a \<longleftrightarrow> a = Tx_Sender tx \<or> listed e c a"
    and "changesAt e (handleSender e st tx c) a = changesAt e c a @
      (if a = Tx_Sender tx then (case getIdentityStateChange st tx a of None \<Rightarrow> [] | Some ch \<Rightarrow> [stateChangeRow e tx ch]) else [])"
    and "map_of (CC_killedAddrs (handleSender e st tx c)) a = killedBy (map_of (CC_killedAddrs c) a)
      (if a = Tx_Sender tx then map_option (Pair tx) (getIdentityStateChange st tx a) else None)"
  using assms
  by (auto simp: handleSender_def Let_def listed_simps changesAt_simps killed_simps killedBy_def split: option.splits)

lemma handleRecipient_at:
  assumes "inj (X_addrHex e)"
  shows "listed e (handleRecipient e st tx c) a \<longleftrightarrow> Tx_To tx = Some a \<or> listed e c a"
    and "changesAt e (handleRecipient e st tx c) a = changesAt e c a @
      (if Tx_To tx = Some a \<and> a \<noteq> Tx_Sender tx
       then (case getIdentityStateChange st tx a of None \<Rightarrow> [] | Some ch \<Rightarrow> [stateChangeRow e tx ch]) else [])"
    and "map_of (CC_killedAddrs (handleRecipient e st tx c)) a = killedBy (map_of (CC_killedAddrs c) a)
      (if Tx_To tx = Some a \<and> a \<noteq> Tx_Sender tx then map_option (Pair tx) (getIdentityStateChange st tx a) else None)"
  using assms
  by (auto simp: handleRecipient_def Let_def listed_simps changesAt_simps killed_simps killedBy_def split: option.splits)

lemma convertTransaction_at:
  assumes "convertTransaction e env st prevState tx c = Some (row, c')" "inj (X_addrHex e)"
  shows "row = txRow e env st tx"
    and "listed e c' a \<longleftrightarrow> a \<in> txParties tx \<or> listed e c a"
    and "changesAt e c' a = changesAt e c a @ changeRows e st a tx"
    and "map_of (CC_killedAddrs c') a = killedBy (map_of (CC_killedAddrs c) a) (txChange st a tx)"
    and "collector_wf c \<Longrightarrow> collector_wf c'"
proof -
  from assms(1) obtain c1 where c1: "detectTx e env tx prevState c = Some c1" and row: "row = txRow e env st tx"
    and c': "c' = handleRecipient e st tx (handleSender e st tx c1)"
    by (auto simp: convertTransaction_def split: bind_splits)
  note frame = detectTx_frame [OF c1]
  have same: "listed e c1 a = listed e c a" "changesAt e c1 a = changesAt e c a"
    by (simp_all add: listed_def changesAt_def frame)
  show "row = txRow e env st tx" by (rule row)
  show "listed e c' a \<longleftrightarrow> a \<in> txParties tx \<or> listed e c a"
    by (auto simp: c' handleRecipient_at [OF assms(2)] handleSender_at [OF assms(2)] same txParties_def)
  show "changesAt e c' a = changesAt e c a @ changeRows e st a tx"
    by (auto simp: c' handleRecipient_at [OF assms(2)] handleSender_at [OF assms(2)] same txParties_def txChange_def
        changeRows_def split: option.splits)
  show "map_of (CC_killedAddrs c') a = killedBy (map_of (CC_killedAddrs c) a) (txChange st a tx)"
    by (auto simp: c' handleRecipient_at [OF assms(2)] handleSender_at [OF assms(2)] frame txParties_def txChange_def
        killedBy_def split: option.splits)
  show "collector_wf c'" if "collector_wf c"
  proof -
    have "collector_wf c1" using that by (simp add: collector_wf_def frame)
    then show ?thesis by (simp add: c' handleRecipient_wf handleSender_wf)
  qed
qed

lemma convertTransactions_at:
  assumes "convertTransactions e env st prevState txs c = Some (rows, c')" "inj (X_addrHex e)"
  shows "rows = map (txRow e env st) txs"
    and "listed e c' a \<longleftrightarrow> (\<exists>tx \<in> set txs. a \<in> txParties tx) \<or> listed e c a"
    and "changesAt e c' a = changesAt e c a @ concat (map (changeRows e st a) txs)"
    and "map_of (CC_killedAddrs c') a = foldl killedBy (map_of (CC_killedAddrs c) a) (map (txChange st a) txs)"
    and "collector_wf c \<Longrightarrow> collector_wf c'"
proof -
  have "rows = map (txRow e env st) txs
      \<and> (listed e c' a \<longleftrightarrow> (\<exists>tx \<in> set txs. a \<in> txParties tx) \<or> listed e c a)
      \<and> changesAt e c' a = changesAt e c a @ concat (map (changeRows e st a) txs)
      \<and> map_of (CC_killedAddrs c') a = foldl killedBy (map_of (CC_killedAddrs c) a) (map (txChange st a) txs)
      \<and> (collector_wf c \<longrightarrow> collector_wf c')"
    using assms(1)
  proof (induction txs arbitrary: c rows)
    case Nil
    then show ?case by simp
  next
    case (Cons tx txs)
    then obtain row c1 rows2 where 1: "convertTransaction e env st prevState tx c = Some (row, c1)"
      and 2: "convertTransactions e env st prevState txs c1 = Some (rows2, c')" and rows: "rows = row # rows2"
      by (auto split: bind_splits)
    note step = convertTransaction_at [OF 1 assms(2)]
    show ?case
      using Cons.IH [OF 2] step by (auto simp: rows)
  qed
  then show "rows = map (txRow e env st) txs"
    and "listed e c' a \<longleftrightarrow> (\<exists>tx \<in> set txs. a \<in> txParties tx) \<or> listed e c a"
    and "changesAt e c' a = changesAt e c a @ concat (map (changeRows e st a) txs)"
    and "map_of (CC_killedAddrs c') a = foldl killedBy (map_of (CC_killedAddrs c) a) (map (txChange st a) txs)"
    and "collector_wf c \<Longrightarrow> collector_wf c'" by blast+
qed

section \<open>When the conversion panics\<close>

definition killInviteePanics :: "node_state \<Rightarrow> Transaction \<Rightarrow> bool" where
  "killInviteePanics prevState tx \<longleftrightarrow> Tx_Type tx = KillInviteeTxT
     \<and> (case Tx_To tx of None \<Rightarrow> True | Some invitee \<Rightarrow> NS_inviterTxHash prevState invitee = None)"

definition longAnswersPanic :: "tx_env \<Rightarrow> node_state \<Rightarrow> Transaction \<Rightarrow> bool" where
  "longAnswersPanic env prevState tx \<longleftrightarrow> Tx_Type tx = SubmitLongAnswersTx
     \<and> (case TE_ParseLongAnswer env tx of None \<Rightarrow> False | Some (key, proof) \<Rightarrow> proof \<noteq> []
          \<and> NI_Flips (NS_identity prevState (Tx_Sender tx)) \<noteq> [] \<and> length (TE_HashFromProof env proof) < 8)"

lemma flipWordsLoop_None:
  "flipWordsLoop e env tx proof prevState flips = None \<longleftrightarrow> flips \<noteq> [] \<and> length (TE_HashFromProof env proof) < 8"
  by (induction flips) (auto simp: getFlipWords_def littleEndian64_def bind_eq_None_conv split: if_splits)

lemma detectTx_None: "detectTx e env tx prevState c = None \<longleftrightarrow> killInviteePanics prevState tx \<or> longAnswersPanic env prevState tx"
proof -
  have "handleLongAnswers e env tx prevState c = None \<longleftrightarrow> longAnswersPanic env prevState tx" for c
    by (auto simp: handleLongAnswers_def longAnswersPanic_def flipWordsLoop_None Let_def bind_eq_None_conv split: option.splits)
  moreover have "detectKillInviteeTx e tx prevState = None \<longleftrightarrow> killInviteePanics prevState tx"
    by (auto simp: detectKillInviteeTx_def killInviteePanics_def bind_eq_None_conv split: option.splits)
  ultimately show ?thesis by (auto simp: detectTx_def Let_def bind_eq_None_conv)
qed

lemma convertTransactions_None:
  "convertTransactions e env st prevState txs c = None \<longleftrightarrow>
     (\<exists>tx \<in> set txs. killInviteePanics prevState tx \<or> longAnswersPanic env prevState tx)"
proof (induction txs arbitrary: c)
  case (Cons tx txs)
  have "convertTransaction e env st prevState tx c = None \<longleftrightarrow> killInviteePanics prevState tx \<or> longAnswersPanic env prevState tx"
    by (simp add: convertTransaction_def detectTx_None bind_eq_None_conv)
  then show ?case using Cons.IH by (auto simp: bind_eq_None_conv split: prod.splits)
qed simp

section \<open>A sample block\<close>

definition sampleTxEnv :: tx_env where
  "sampleTxEnv = \<lparr>TE_ParseFlipSubmit = (\<lambda>_. None), TE_ParseDeleteFlip = (\<lambda>_. None), TE_ParseOnlineStatus = (\<lambda>_. None),
     TE_ParseLongAnswer = (\<lambda>_. None), TE_ParseShortAnswer = (\<lambda>_. None), TE_ToBytes = (\<lambda>tx. [1, 254]),
     TE_HashFromProof = (\<lambda>_. replicate 32 0), TE_GetWords = (\<lambda>_ _ _ _ _. None), TE_WordRange = (0, 10)\<rparr>"

definition sampleNodeIdentity :: node_identity where
  "sampleNodeIdentity = \<lparr>NI_State = Newbie, NI_ShardId = 1, NI_AvailableFlips = 3, NI_Delegatee = None, NI_Scores = [],
     NI_Birthday = 1, NI_Flips = [], NI_Stake = Some 0, NI_WordPairs = 9\<rparr>"

definition sampleNodeState :: node_state where
  "sampleNodeState = \<lparr>NS_app = sampleApp, NS_dl = sampleDelegations None, NS_identity = (\<lambda>_. sampleNodeIdentity), NS_identities = [],
     NS_accountKeys = [], NS_inviterTxHash = (\<lambda>_. None), NS_epoch = 1, NS_epochBlock = 0, NS_godAddress = 0,
     NS_requiredFlips = (\<lambda>_. 3), NS_madeFlips = (\<lambda>_. 3), NS_invites = (\<lambda>_. 0), NS_scores = (\<lambda>_. []),
     NS_shortFlipPoints = (\<lambda>_. 0), NS_qualifiedFlips = (\<lambda>_. 0), NS_onlineSize = 1, NS_validatorsSize = 1,
     NS_vrfThreshold = 0, NS_feePerGas = Some 1, NS_root = 0, NS_nextValidationTime = 0, NS_discriminationStakeThreshold = None\<rparr>"

definition killTx :: Transaction where
  "killTx = \<lparr>Tx_Hash = 9, Tx_Sender = 7, Tx_Type = KillTx, Tx_To = None, Tx_Amount = None, Tx_Tips = None, Tx_MaxFee = None,
     Tx_Epoch = 1, Tx_Nonce = 1, Tx_Size = 10, Tx_Payload = []\<rparr>"

definition killStats :: Stats where
  "killStats = emptyStats\<lparr>S_IdentityStateChanges := [9 \<mapsto> [7 \<mapsto> \<lparr>ISC_PrevState = Newbie, ISC_NewState = Killed\<rparr>]]\<rparr>"

lemma sampleExt_inj: "inj (X_addrHex sampleExt)"
  by (rule injI) (simp add: sampleExt_def word_unat_eq_iff replicate_eq_replicate)

lemma kill_block_converts:
  "\<exists>rows c'. convertTransactions sampleExt sampleTxEnv killStats sampleNodeState [killTx] emptyCollector = Some (rows, c')"
proof -
  have "convertTransactions sampleExt sampleTxEnv killStats sampleNodeState [killTx] emptyCollector \<noteq> None"
    by (simp add: convertTransaction_def bind_eq_None_conv detectTx_None killInviteePanics_def longAnswersPanic_def killTx_def)
  then show ?thesis by auto
qed

section \<open>Properties\<close>

text \<open>C14: After the transactions of a block are converted, every sender and recipient has a row; the
  state changes of an address are, in the order of the transactions, exactly the changes that the
  collector recorded for the transactions it takes part in (each once, also when it sends to
  itself); and an address counts as killed by a transaction exactly when its last change in the
  block is to \<open>Killed\<close>. The keys of the two maps stay distinct.\<close>
theorem tx_state_changes_recorded:
  assumes "convertTransactions e env st prevState txs c = Some (rows, c')" "inj (X_addrHex e)" "collector_wf c"
  shows "collector_wf c'
    \<and> (listed e c' a \<longleftrightarrow> (\<exists>tx \<in> set txs. a \<in> txParties tx) \<or> listed e c a)
    \<and> changesAt e c' a = changesAt e c a @ concat (map (changeRows e st a) txs)
    \<and> map_of (CC_killedAddrs c') a = foldl killedBy (map_of (CC_killedAddrs c) a) (map (txChange st a) txs)"
  using convertTransactions_at [OF assms(1,2)] assms(3) by blast

theorem tx_state_changes_recorded_witness:
  "\<exists>rows c'. convertTransactions sampleExt sampleTxEnv killStats sampleNodeState [killTx] emptyCollector = Some (rows, c')
     \<and> map_of (CC_killedAddrs c') 7 = Some \<lparr>KI_reason = killedReasonTx, KI_tx = Some killTx\<rparr>
     \<and> length (changesAt sampleExt c' 7) = 1"
proof -
  obtain rows c' where c': "convertTransactions sampleExt sampleTxEnv killStats sampleNodeState [killTx] emptyCollector = Some (rows, c')"
    using kill_block_converts by blast
  have "collector_wf emptyCollector" by (simp add: collector_wf_def emptyCollector_def)
  from tx_state_changes_recorded [OF c' sampleExt_inj this, of 7] c' show ?thesis
    by (simp add: changesAt_def emptyCollector_def changeRows_def txChange_def txParties_def killTx_def killStats_def
        getIdentityStateChange_def killedBy_def)
qed

text \<open>The raw form stored with a transaction is the hexadecimal form of its encoding: decoding it
  gives the encoding back, for every transaction of a block and in their order.\<close>
theorem raw_transactions_roundtrip:
  assumes "convertTransactions e env st prevState txs c = Some (rows, c')" "inj (X_addrHex e)"
  shows "map (hexDecode \<circ> DT_Raw) rows = map (TE_ToBytes env) txs"
  by (simp add: convertTransactions_at(1) [OF assms] txRow_def hexDecode_encode)

theorem raw_transactions_roundtrip_witness:
  "\<exists>rows c'. convertTransactions sampleExt sampleTxEnv killStats sampleNodeState [killTx] emptyCollector = Some (rows, c')
     \<and> map (hexDecode \<circ> DT_Raw) rows = [[1, 254]]"
proof -
  obtain rows c' where c': "convertTransactions sampleExt sampleTxEnv killStats sampleNodeState [killTx] emptyCollector = Some (rows, c')"
    using kill_block_converts by blast
  from raw_transactions_roundtrip [OF c' sampleExt_inj] c' show ?thesis by (simp add: sampleTxEnv_def)
qed

text \<open>The conversion of the transactions of a block panics exactly when one of them kills an
  invitee without naming it, or names one without an inviter in the previous state, or carries long
  answers with a proof whose hash has fewer than eight bytes while its sender has flips.\<close>
theorem tx_conversion_panics_iff:
  "convertTransactions e env st prevState txs c = None \<longleftrightarrow>
     (\<exists>tx \<in> set txs. killInviteePanics prevState tx \<or> longAnswersPanic env prevState tx)"
  by (rule convertTransactions_None)

end
