(* ===== verification/Db_Text.thy ===== *)
theory Db_Text
  imports Tx_Conversion
begin

text \<open>
  Texts that the database layer writes and reads, \<open>src/db/postgres_types.go\<close>: the rows that
  \<open>fmt.Sprintf\<close> builds with \<open>%v\<close> and the scanner of the pairs of transaction hash and id that the
  database answers with, down to \<open>strings.Trim\<close>, \<open>strings.Split\<close> and \<open>strconv.ParseInt\<close>.
  \<open>rowColumns\<close> reads a row back; a row determines its columns when these have no comma.
\<close>

section \<open>Numbers\<close>

definition digitChar :: "nat \<Rightarrow> char" where
  "digitChar n = char_of (48 + n)"

fun showNat :: "nat \<Rightarrow> string" where
  "showNat n = (if n \<ge> 10 then showNat (n div 10) else []) @ [digitChar (n mod 10)]"

declare showNat.simps [simp del]

definition showInt :: "int \<Rightarrow> string" where
  "showInt i = (if i \<ge> 0 then [] else ''-'') @ showNat (nat (abs i))"

definition showWord :: "'a::len word \<Rightarrow> string" where
  "showWord w = showNat (unat w)"

definition showBool :: "bool \<Rightarrow> string" where
  "showBool b = (if b then ''true'' else ''false'')"

definition isDigit :: "char \<Rightarrow> bool" where
  "isDigit c \<longleftrightarrow> 48 \<le> (of_char c :: nat) \<and> (of_char c :: nat) \<le> 57"

text \<open>A word below the greatest has its successor above it.\<close>

lemma unat_successor:
  fixes x :: "'a::len word"
  assumes "x \<noteq> -1"
  shows "unat (x + 1) = unat x + 1"
proof -
  have "x + 1 \<noteq> 0" using assms max_word_wrap by blast
  then show ?thesis by (metis unatSuc Suc_eq_plus1 add.commute)
qed

lemma word_successor_less: "x \<noteq> -1 \<Longrightarrow> x < x + 1" for x :: "'a::len word"
  by (simp add: word_less_nat_alt unat_successor)

section \<open>Rows\<close>

fun joinComma :: "string list \<Rightarrow> string" where
  "joinComma [] = []"
| "joinComma [x] = x"
| "joinComma (x # xs) = x @ CHR '','' # joinComma xs"

definition rowText :: "string list \<Rightarrow> string" where
  "rowText cols = ''('' @ joinComma cols @ '')''"

text \<open>\<open>strings.Split(s, ",")\<close> and \<open>strings.Trim(s, cutset)\<close>.\<close>

fun splitComma :: "string \<Rightarrow> string list" where
  "splitComma [] = [[]]"
| "splitComma (c # s) =
     (if c = CHR '','' then [] # splitComma s
      else (case splitComma s of [] \<Rightarrow> [[c]] | x # xs \<Rightarrow> (c # x) # xs))"

definition trimChars :: "string \<Rightarrow> string \<Rightarrow> string" where
  "trimChars cutset s = rev (dropWhile (\<lambda>c. c \<in> set cutset) (rev (dropWhile (\<lambda>c. c \<in> set cutset) s)))"

section \<open>\<open>strconv.ParseInt(s, 0, 64)\<close>\<close>

text \<open>\<open>lower\<close> of \<open>strconv\<close> on the letters that occur; the value of a digit of any base up to 36.\<close>

definition parseDigit :: "char \<Rightarrow> nat option" where
  "parseDigit c =
     (let n = of_char c :: nat
      in if 48 \<le> n \<and> n \<le> 57 then Some (n - 48)
         else if 97 \<le> n \<and> n \<le> 122 then Some (n - 87)
         else if 65 \<le> n \<and> n \<le> 90 then Some (n - 55)
         else None)"

fun parseDigits :: "nat \<Rightarrow> string \<Rightarrow> nat \<Rightarrow> nat option" where
  "parseDigits base [] acc = Some acc"
| "parseDigits base (c # s) acc =
     (if c = CHR ''_'' then parseDigits base s acc
      else case parseDigit c of
        None \<Rightarrow> None
      | Some d \<Rightarrow> if d \<ge> base then None else parseDigits base s (acc * base + d))"

definition prefixBase :: "char \<Rightarrow> nat option" where
  "prefixBase c =
     (if c \<in> set ''bB'' then Some 2 else if c \<in> set ''oO'' then Some 8 else if c \<in> set ''xX'' then Some 16 else None)"

text \<open>The base and the rest of the number.\<close>

fun splitBase :: "string \<Rightarrow> nat \<times> string" where
  "splitBase (c # d # e # s) =
     (if c = CHR ''0'' then (case prefixBase d of Some b \<Rightarrow> (b, e # s) | None \<Rightarrow> (8, d # e # s)) else (10, c # d # e # s))"
| "splitBase (c # s) = (if c = CHR ''0'' then (8, s) else (10, c # s))"
| "splitBase [] = (10, [])"

text \<open>
  \<open>underscoreOK\<close>: an underscore stands between digits, where a base prefix counts as a digit; the third
  argument is what was seen last: nothing, a digit, an underscore or another character.
\<close>

datatype seen = SawStart | SawDigit | SawUnderscore | SawOther

fun underscoreLoop :: "bool \<Rightarrow> string \<Rightarrow> seen \<Rightarrow> bool" where
  "underscoreLoop hexa [] saw = (saw \<noteq> SawUnderscore)"
| "underscoreLoop hexa (c # s) saw =
     (if isDigit c \<or> hexa \<and> c \<in> set ''abcdefABCDEF'' then underscoreLoop hexa s SawDigit
      else if c = CHR ''_'' then saw = SawDigit \<and> underscoreLoop hexa s SawUnderscore
      else saw \<noteq> SawUnderscore \<and> underscoreLoop hexa s SawOther)"

fun underscoreOK :: "string \<Rightarrow> bool" where
  "underscoreOK (c # d # s) =
     (if c = CHR ''0'' \<and> prefixBase d \<noteq> None then underscoreLoop (d \<in> set ''xX'') s SawDigit
      else underscoreLoop False (c # d # s) SawStart)"
| "underscoreOK s = underscoreLoop False s SawStart"

text \<open>\<open>ParseUint\<close> without the bound of 64 bits, and \<open>ParseInt\<close>, which checks it with the sign.\<close>

definition parseUint :: "string \<Rightarrow> nat option" where
  "parseUint s =
     (if s = [] then None
      else let (base, digits) = splitBase s
           in case parseDigits base digits 0 of
             None \<Rightarrow> None
           | Some n \<Rightarrow> if CHR ''_'' \<in> set digits \<and> \<not> underscoreOK s then None else Some n)"

definition ParseInt :: "string \<Rightarrow> int option" where
  "ParseInt s = (case s of
       [] \<Rightarrow> None
     | c # rest \<Rightarrow>
         (let neg = (c = CHR ''-'');
              body = (if c = CHR ''-'' \<or> c = CHR ''+'' then rest else s)
          in case parseUint body of
            None \<Rightarrow> None
          | Some n \<Rightarrow>
              (if \<not> neg \<and> n \<ge> 2 ^ 63 then None
               else if neg \<and> n > 2 ^ 63 then None
               else Some (if neg then - int n else int n))))"

section \<open>The scanner\<close>

datatype scan_error = WrongTxHashId | UnknownTxHashId string | InvalidTxHashId string

record txHashId =
  TH_Hash :: string
  TH_Id :: int

text \<open>\<open>None\<close> is a value of the driver that is not a byte slice.\<close>

definition Scan :: "string option \<Rightarrow> scan_error + txHashId" where
  "Scan value = (case value of
       None \<Rightarrow> Inl WrongTxHashId
     | Some s \<Rightarrow>
         (case splitComma (trimChars ''()'' s) of
            [h, n] \<Rightarrow> (case ParseInt n of None \<Rightarrow> Inl (InvalidTxHashId s) | Some i \<Rightarrow> Inr \<lparr>TH_Hash = h, TH_Id = i\<rparr>)
          | _ \<Rightarrow> Inl (UnknownTxHashId s)))"

section \<open>Reading a row back\<close>

definition plain :: "string \<Rightarrow> bool" where
  "plain s \<longleftrightarrow> CHR '','' \<notin> set s"

definition rowColumns :: "string \<Rightarrow> string list" where
  "rowColumns s = splitComma (butlast (tl s))"

lemma splitComma_nonempty [simp]: "splitComma s \<noteq> []"
  by (induction s) (auto split: list.splits)

lemma splitComma_plain: "plain s \<Longrightarrow> splitComma s = [s]"
  by (induction s) (auto simp: plain_def)

lemma splitComma_append: "plain s \<Longrightarrow> splitComma (s @ CHR '','' # t) = s # splitComma t"
  by (induction s) (auto simp: plain_def)

lemma splitComma_join:
  "cols \<noteq> [] \<Longrightarrow> list_all plain cols \<Longrightarrow> splitComma (joinComma cols) = cols"
  by (induction cols rule: joinComma.induct) (auto simp: splitComma_plain splitComma_append)

lemma rowColumns_rowText:
  "cols \<noteq> [] \<Longrightarrow> list_all plain cols \<Longrightarrow> rowColumns (rowText cols) = cols"
  by (simp add: rowColumns_def rowText_def splitComma_join butlast_append)

lemma rowText_inject:
  assumes "rowText cols = rowText cols'" "cols \<noteq> []" "list_all plain cols" "cols' \<noteq> []" "list_all plain cols'"
  shows "cols = cols'"
  using rowColumns_rowText assms by metis

section \<open>Decimal texts\<close>

lemma of_char_digit: "n < 10 \<Longrightarrow> of_char (digitChar n) = 48 + (n :: nat)"
  by (simp add: digitChar_def)

lemma isDigit_digit: "n < 10 \<Longrightarrow> isDigit (digitChar n)"
  by (simp add: isDigit_def of_char_digit)

lemma showNat_digits: "list_all isDigit (showNat n)"
proof (induction n rule: showNat.induct)
  case (1 n)
  then show ?case by (subst showNat.simps) (auto simp: isDigit_digit)
qed

lemma showNat_nonempty [simp]: "showNat n \<noteq> []"
  by (subst showNat.simps) simp

lemma isDigit_not: "isDigit c \<Longrightarrow> c \<noteq> CHR '','' \<and> c \<noteq> CHR ''_'' \<and> c \<noteq> CHR ''-'' \<and> c \<noteq> CHR ''+'' \<and> c \<notin> set ''()''"
  by (auto simp: isDigit_def)

lemma plain_digits: "list_all isDigit s \<Longrightarrow> plain s"
  using isDigit_not by (auto simp: plain_def list_all_iff)

lemma plain_showNat [simp]: "plain (showNat n)"
  by (rule plain_digits [OF showNat_digits])

lemma plain_showInt [simp]: "plain (showInt i)"
  using plain_showNat by (auto simp: showInt_def plain_def)

lemma plain_showWord [simp]: "plain (showWord w)"
  by (simp add: showWord_def)

lemma plain_showBool [simp]: "plain (showBool b)"
  by (simp add: showBool_def plain_def)

lemma parseDigits_append:
  "parseDigits base (s @ t) acc = (case parseDigits base s acc of None \<Rightarrow> None | Some n \<Rightarrow> parseDigits base t n)"
  by (induction s arbitrary: acc) (auto split: option.splits)

lemma parseDigit_digit: "n < 10 \<Longrightarrow> parseDigit (digitChar n) = Some n"
  by (simp add: parseDigit_def of_char_digit)

lemma parseDigits_showNat: "parseDigits 10 (showNat n) 0 = Some n"
proof (induction n rule: showNat.induct)
  case (1 n)
  have u: "digitChar (n mod 10) \<noteq> CHR ''_''" using isDigit_digit isDigit_not by simp
  have d: "parseDigits 10 [digitChar (n mod 10)] acc = Some (acc * 10 + n mod 10)" for acc
    using u parseDigit_digit [of "n mod 10"] by simp
  show ?case
  proof (cases "10 \<le> n")
    case True
    then show ?thesis using 1 by (subst showNat.simps) (simp add: parseDigits_append d del: parseDigits.simps)
  next
    case False
    then show ?thesis using d [of 0] by (subst showNat.simps) (simp del: parseDigits.simps)
  qed
qed

lemma showNat_first: "0 < n \<Longrightarrow> hd (showNat n) \<noteq> CHR ''0''"
proof (induction n rule: showNat.induct)
  case (1 n)
  show ?case
  proof (cases "n < 10")
    case True
    have "of_char (digitChar n) \<noteq> (of_char (CHR ''0'') :: nat)" using of_char_digit [OF True] 1(2) by simp
    then have "digitChar n \<noteq> CHR ''0''" by metis
    then show ?thesis using True by (subst showNat.simps) simp
  next
    case False
    then show ?thesis using 1 by (subst showNat.simps) (simp add: hd_append)
  qed
qed

lemma splitBase_decimal: "s \<noteq> [] \<Longrightarrow> hd s \<noteq> CHR ''0'' \<Longrightarrow> splitBase s = (10, s)"
  by (cases s rule: splitBase.cases) auto

lemma showNat_zero [simp]: "showNat 0 = ''0''"
  by code_simp

lemma no_underscore: "CHR ''_'' \<notin> set (showNat n)"
  using showNat_digits [of n] isDigit_not by (auto simp: list_all_iff)

lemma parseUint_showNat: "parseUint (showNat n) = Some n"
proof (cases "n = 0")
  case True
  then show ?thesis by (simp add: parseUint_def)
next
  case False
  then show ?thesis
    using splitBase_decimal [OF showNat_nonempty showNat_first, of n] no_underscore [of n]
    by (simp add: parseUint_def parseDigits_showNat)
qed

lemma showNat_Cons: obtains c s where "showNat n = c # s" "c \<noteq> CHR ''-''" "c \<noteq> CHR ''+''"
  using showNat_digits [of n] isDigit_not by (cases "showNat n") auto

lemma ParseInt_showInt:
  assumes "- (2 ^ 63) \<le> i" "i < 2 ^ 63"
  shows "ParseInt (showInt i) = Some i"
proof (cases "i < 0")
  case True
  then have "nat (- i) \<le> 2 ^ 63" using assms(1) by (simp add: nat_le_iff)
  then show ?thesis using True by (simp add: showInt_def ParseInt_def parseUint_showNat)
next
  case False
  obtain c s where c: "showNat (nat i) = c # s" "c \<noteq> CHR ''-''" "c \<noteq> CHR ''+''" by (rule showNat_Cons)
  have "nat i < 2 ^ 63" using assms(2) False by (simp add: nat_less_iff)
  then show ?thesis
    using False c parseUint_showNat [of "nat i"] by (simp add: showInt_def ParseInt_def)
qed

lemma showNat_inject [simp]: "showNat m = showNat n \<longleftrightarrow> m = n"
  using parseUint_showNat by (metis option.inject)

lemma showWord_inject [simp]: "showWord v = showWord w \<longleftrightarrow> v = w"
  by (simp add: showWord_def unsigned_word_eqI word_unat_eq_iff)

lemma showBool_inject [simp]: "showBool a = showBool b \<longleftrightarrow> a = b"
  by (simp add: showBool_def)

section \<open>The pairs of hash and id\<close>

definition unquoted :: "string \<Rightarrow> bool" where
  "unquoted h \<longleftrightarrow> plain h \<and> (h = [] \<or> hd h \<notin> set ''()'')"

lemma trimChars_row:
  assumes "unquoted h" "n \<noteq> []" "last n \<notin> set ''()''"
  shows "trimChars ''()'' (rowText [h, n]) = h @ CHR '','' # n"
proof -
  have l: "dropWhile (\<lambda>c. c \<in> set ''()'') (rowText [h, n]) = h @ CHR '','' # n @ '')''"
    using assms(1) by (cases h) (auto simp: rowText_def unquoted_def)
  have "dropWhile (\<lambda>c. c \<in> set ''()'') (rev (h @ CHR '','' # n @ '')'')) = rev n @ CHR '','' # rev h"
    using assms(2,3) by (cases n rule: rev_cases) auto
  moreover have "rev (rev n @ CHR '','' # rev h) = h @ CHR '','' # n"
    by simp
  ultimately show ?thesis unfolding trimChars_def l by (rule arg_cong [of _ _ rev, THEN trans])
qed

lemma showInt_last: "last (showInt i) \<notin> set ''()''" "showInt i \<noteq> []"
proof -
  have "isDigit (last (showNat n))" for n
    using showNat_digits [of n] showNat_nonempty [of n] by (simp add: list_all_iff)
  then show "last (showInt i) \<notin> set ''()''" using isDigit_not by (auto simp: showInt_def)
qed (simp add: showInt_def)

text \<open>C29: The text of a pair of transaction hash and id, as the database writes a row of them, is read back as
  that pair: for every hash that has no comma and does not begin with a parenthesis, and every id of 64
  bits.\<close>

theorem tx_hash_id_roundtrip:
  assumes "unquoted (TH_Hash v)" "- (2 ^ 63) \<le> TH_Id v" "TH_Id v < 2 ^ 63"
  shows "Scan (Some (rowText [TH_Hash v, showInt (TH_Id v)])) = Inr v"
proof -
  have "plain (TH_Hash v)" using assms(1) by (simp add: unquoted_def)
  then have "splitComma (TH_Hash v @ CHR '','' # showInt (TH_Id v)) = [TH_Hash v, showInt (TH_Id v)]"
    by (simp add: splitComma_append splitComma_plain)
  then show ?thesis
    using trimChars_row [OF assms(1) showInt_last(2) showInt_last(1)] ParseInt_showInt [OF assms(2,3)]
    by (simp add: Scan_def)
qed

theorem tx_hash_id_roundtrip_witness:
  "Scan (Some (rowText [''0xab'', showInt (- 42)])) = Inr \<lparr>TH_Hash = ''0xab'', TH_Id = - 42\<rparr>"
  using tx_hash_id_roundtrip [of "\<lparr>TH_Hash = ''0xab'', TH_Id = - 42\<rparr>"] by (simp add: unquoted_def plain_def)

lemma scan_fails:
  assumes "length (splitComma (trimChars ''()'' s)) \<noteq> 2"
  shows "Scan (Some s) = Inl (UnknownTxHashId s)"
proof -
  obtain xs where xs: "splitComma (trimChars ''()'' s) = xs" by simp
  have "length xs \<noteq> 2" using assms xs by simp
  then show ?thesis by (auto simp: Scan_def xs split: list.split)
qed

end
