(* ===== verification/Reward_Collector.thy ===== *)
theory Reward_Collector
  imports Collector_State
begin

text \<open>
  Epoch rewards in the collector (\<open>src/core/stats/collector.go\<close>): the \<open>SetTotal...\<close> setters, the
  reward additions of one validation and the helpers they share. The big integers passed in are
  values: the callers hand over numbers that nobody else mutates.
  The ledger lemmas show that the list of reward objects, the index that merges them and the
  totals per address always agree; the delegatee lemmas that a pool's totals are the sums over
  its delegators.
\<close>

section \<open>Access to the rewards part of the session\<close>

definition initRewardStats :: "session \<Rightarrow> session" where
  "initRewardStats s = (case S_RewardsStats (stats s) of
       Some _ \<Rightarrow> s
     | None \<Rightarrow> s\<lparr>stats := (stats s)\<lparr>S_RewardsStats := Some emptyRewardsStats\<rparr>\<rparr>)"

text \<open>A write through \<open>c.stats.RewardsStats\<close>; it always follows \<open>initRewardStats\<close>.\<close>

definition onRewards :: "(RewardsStats \<Rightarrow> RewardsStats) \<Rightarrow> session \<Rightarrow> session" where
  "onRewards f s = s\<lparr>stats := (stats s)\<lparr>S_RewardsStats := map_option f (S_RewardsStats (stats s))\<rparr>\<rparr>"

definition rewardsOf :: "session \<Rightarrow> RewardsStats" where
  "rewardsOf s = (case S_RewardsStats (stats s) of None \<Rightarrow> emptyRewardsStats | Some r \<Rightarrow> r)"

section \<open>Setters\<close>

definition SetValidationResults :: "(uint32 \<rightharpoonup> ValidationResults) \<Rightarrow> session \<Rightarrow> session" where
  "SetValidationResults v s = onRewards (\<lambda>r. r\<lparr>R_ValidationResults := v\<rparr>) (initRewardStats s)"

definition SetTotalReward :: "bigint \<Rightarrow> session \<Rightarrow> session" where
  "SetTotalReward amount s = onRewards (\<lambda>r. r\<lparr>R_Total := amount\<rparr>) (initRewardStats s)"

definition SetTotalValidationReward :: "bigint \<Rightarrow> bigint \<Rightarrow> session \<Rightarrow> session" where
  "SetTotalValidationReward amount share s =
     onRewards (\<lambda>r. r\<lparr>R_Validation := amount, R_ValidationShare := share\<rparr>) (initRewardStats s)"

definition SetTotalStakingReward :: "bigint \<Rightarrow> bigint \<Rightarrow> session \<Rightarrow> session" where
  "SetTotalStakingReward amount share s =
     onRewards (\<lambda>r. r\<lparr>R_Staking := amount, R_StakingShare := share\<rparr>) (initRewardStats s)"

definition SetTotalCandidateReward :: "bigint \<Rightarrow> bigint \<Rightarrow> session \<Rightarrow> session" where
  "SetTotalCandidateReward amount share s =
     onRewards (\<lambda>r. r\<lparr>R_Candidate := amount, R_CandidateShare := share\<rparr>) (initRewardStats s)"

definition SetTotalFlipsBasicReward :: "bigint \<Rightarrow> bigint \<Rightarrow> session \<Rightarrow> session" where
  "SetTotalFlipsBasicReward amount share s =
     onRewards (\<lambda>r. r\<lparr>R_Flips := amount, R_FlipsShare := share\<rparr>) (initRewardStats s)"

definition SetTotalFlipsExtraReward :: "bigint \<Rightarrow> bigint \<Rightarrow> session \<Rightarrow> session" where
  "SetTotalFlipsExtraReward amount share s =
     onRewards (\<lambda>r. r\<lparr>R_FlipsExtra := amount, R_FlipsExtraShare := share\<rparr>) (initRewardStats s)"

definition SetTotalReportsReward :: "bigint \<Rightarrow> bigint \<Rightarrow> session \<Rightarrow> session" where
  "SetTotalReportsReward amount share s =
     onRewards (\<lambda>r. r\<lparr>R_Reports := amount, R_ReportsShare := share\<rparr>) (initRewardStats s)"

definition SetTotalInvitationsReward :: "bigint \<Rightarrow> bigint \<Rightarrow> session \<Rightarrow> session" where
  "SetTotalInvitationsReward amount share s =
     onRewards (\<lambda>r. r\<lparr>R_Invitations := amount, R_InvitationsShare := share\<rparr>) (initRewardStats s)"

definition SetTotalFoundationPayouts :: "bigint \<Rightarrow> session \<Rightarrow> session" where
  "SetTotalFoundationPayouts amount s =
     onRewards (\<lambda>r. r\<lparr>R_FoundationPayouts := amount\<rparr>) (initRewardStats s)"

definition SetTotalZeroWalletFund :: "bigint \<Rightarrow> session \<Rightarrow> session" where
  "SetTotalZeroWalletFund amount s =
     onRewards (\<lambda>r. r\<lparr>R_ZeroWalletFund := amount\<rparr>) (initRewardStats s)"

section \<open>Reward objects\<close>

text \<open>The condition of \<open>increaseEpochRewardIfExists\<close>: these types are merged per address.\<close>

definition mergesEpochRewards :: "RewardType \<Rightarrow> bool" where
  "mergesEpochRewards t \<longleftrightarrow> t \<in> {RtInvitations, RtInvitations2, RtInvitations3, RtSavedInvite,
     RtSavedInviteWin, RtReportedFlips, RtFlips, RtExtraFlips, RtValidation}"

definition increaseEpochRewardIfExists :: "ref \<Rightarrow> RewardStats \<Rightarrow> session \<Rightarrow> session \<times> bool" where
  "increaseEpochRewardIfExists p rewardsStats s =
     (let t = RS_Type rewardsStats; a = RS_Address rewardsStats;
          m = P_epochRewardsByTypeAndAddr (pending s);
          put = (\<lambda>byAddr. s\<lparr>pending := (pending s)\<lparr>P_epochRewardsByTypeAndAddr :=
                   m(t \<mapsto> byAddr(a \<mapsto> p))\<rparr>\<rparr>)
      in if \<not> mergesEpochRewards t then (s, False)
         else case m t of
             Some rewardsByAddr \<Rightarrow> (case rewardsByAddr a of
                 Some q \<Rightarrow> (s\<lparr>rewardStore := modify q
                     (\<lambda>r. r\<lparr>RS_Balance := RS_Balance r + RS_Balance rewardsStats,
                            RS_Stake := RS_Stake r + RS_Stake rewardsStats\<rparr>) (rewardStore s)\<rparr>, True)
               | None \<Rightarrow> (put rewardsByAddr, False))
           | None \<Rightarrow> (put Map.empty, False))"

definition addReward :: "address \<Rightarrow> bigint \<Rightarrow> bigint \<Rightarrow> RewardType \<Rightarrow> session \<Rightarrow> session" where
  "addReward addr balance stake rewardType s0 =
     (if zeroOrNil balance \<and> zeroOrNil stake then s0
      else let s = initRewardStats s0;
               rewardsStats = \<lparr>RS_Address = addr, RS_Balance = zeroIfNil balance,
                               RS_Stake = zeroIfNil stake, RS_Type = rewardType\<rparr>;
               p = fresh (rewardStore s);
               s1 = s\<lparr>rewardStore := alloc rewardsStats (rewardStore s)\<rparr>
           in case increaseEpochRewardIfExists p rewardsStats s1 of
                (s2, True) \<Rightarrow> s2
              | (s2, False) \<Rightarrow> onRewards (\<lambda>r. r\<lparr>R_Rewards := R_Rewards r @ [p]\<rparr>) s2)"

definition initTotalRewardsByAddr :: "session \<Rightarrow> session" where
  "initTotalRewardsByAddr s = initRewardStats s"

definition addAddrTotalReward :: "address \<Rightarrow> bigint \<Rightarrow> bigint \<Rightarrow> session \<Rightarrow> session" where
  "addAddrTotalReward addr balance stake s =
     (if zeroOrNil balance \<and> zeroOrNil stake then s
      else let reward = zeroIfNil balance + zeroIfNil stake
           in onRewards (\<lambda>r. r\<lparr>R_TotalRewardsByAddr := (R_TotalRewardsByAddr r)(addr \<mapsto>
                (case R_TotalRewardsByAddr r addr of Some amount \<Rightarrow> amount + reward | None \<Rightarrow> reward))\<rparr>)
              (initTotalRewardsByAddr s))"

text \<open>\<open>TotalRewards[t]\<close> (or \<open>EpochRewards[t]\<close>) is created when missing and increased.\<close>

definition incEpochReward ::
  "RewardType \<Rightarrow> int \<Rightarrow> int \<Rightarrow> (RewardType \<rightharpoonup> EpochReward) \<Rightarrow> (RewardType \<rightharpoonup> EpochReward)" where
  "incEpochReward t balance stake m =
     (let r = (case m t of Some r \<Rightarrow> r | None \<Rightarrow> \<lparr>ER_Balance = 0, ER_Stake = 0\<rparr>)
      in m(t \<mapsto> \<lparr>ER_Balance = ER_Balance r + balance, ER_Stake = ER_Stake r + stake\<rparr>))"

definition incDelegatee ::
  "address \<Rightarrow> RewardType \<Rightarrow> int \<Rightarrow> int \<Rightarrow> StatsDelegateeEpochRewards \<Rightarrow> StatsDelegateeEpochRewards" where
  "incDelegatee delegator t balance stake d =
     (let m = (case SD_DelegatorsEpochRewards d delegator of Some m \<Rightarrow> m | None \<Rightarrow> Map.empty)
      in \<lparr>SD_TotalRewards = incEpochReward t balance stake (SD_TotalRewards d),
          SD_DelegatorsEpochRewards = (SD_DelegatorsEpochRewards d)(delegator \<mapsto>
             incEpochReward t balance stake m)\<rparr>)"

definition addDelegateeReward ::
  "address \<Rightarrow> address \<Rightarrow> bigint \<Rightarrow> bigint \<Rightarrow> RewardType \<Rightarrow> session \<Rightarrow> session" where
  "addDelegateeReward delegator delegatee balance stake rewardType s =
     (if zeroOrNil balance \<and> zeroOrNil stake then s
      else onRewards (\<lambda>r.
             let d = (case R_DelegateesEpochRewards r delegatee of
                        Some d \<Rightarrow> d
                      | None \<Rightarrow> \<lparr>SD_TotalRewards = Map.empty, SD_DelegatorsEpochRewards = Map.empty\<rparr>)
             in r\<lparr>R_DelegateesEpochRewards := (R_DelegateesEpochRewards r)(delegatee \<mapsto>
                    incDelegatee delegator rewardType (zeroIfNil balance) (zeroIfNil stake) d)\<rparr>)
           (initRewardStats s))"

text \<open>The common start of the reward additions: the reward and its pool's share.\<close>

definition addRewardWithDelegatee ::
  "address \<Rightarrow> address \<Rightarrow> bigint \<Rightarrow> bigint \<Rightarrow> RewardType \<Rightarrow> session \<Rightarrow> session" where
  "addRewardWithDelegatee balanceDest stakeDest balance stake t s =
     (let s1 = addReward stakeDest balance stake t s
      in if balanceDest \<noteq> stakeDest then addDelegateeReward stakeDest balanceDest balance None t s1
         else s1)"

section \<open>The reward additions\<close>

definition AddValidationReward ::
  "ext \<Rightarrow> address \<Rightarrow> address \<Rightarrow> uint16 \<Rightarrow> bigint \<Rightarrow> bigint \<Rightarrow> session \<Rightarrow> session" where
  "AddValidationReward e balanceDest stakeDest age balance stake s =
     (let s1 = initRewardStats (addRewardWithDelegatee balanceDest stakeDest balance stake RtValidation s);
          s2 = onRewards (\<lambda>r. r\<lparr>R_AgesByAddress :=
                 (R_AgesByAddress r)(ConvertAddress e stakeDest \<mapsto> age + 1)\<rparr>) s1
      in addAddrTotalReward stakeDest balance stake s2)"

definition AddCandidateReward ::
  "address \<Rightarrow> address \<Rightarrow> bigint \<Rightarrow> bigint \<Rightarrow> session \<Rightarrow> session" where
  "AddCandidateReward balanceDest stakeDest balance stake s =
     addAddrTotalReward stakeDest balance stake
       (initRewardStats (addRewardWithDelegatee balanceDest stakeDest balance stake RtCandidate s))"

definition AddStakingReward ::
  "ext \<Rightarrow> address \<Rightarrow> address \<Rightarrow> bigint \<Rightarrow> bigint \<Rightarrow> bigint \<Rightarrow> session \<Rightarrow> session" where
  "AddStakingReward e balanceDest stakeDest stakedAmount balance stake s =
     (let s1 = initRewardStats (addRewardWithDelegatee balanceDest stakeDest balance stake RtStaking s);
          s2 = (case stakedAmount of None \<Rightarrow> s1
                | Some v \<Rightarrow> onRewards (\<lambda>r. r\<lparr>R_StakedAmountsByAddress :=
                    (R_StakedAmountsByAddress r)(ConvertAddress e stakeDest \<mapsto> v)\<rparr>) s1)
      in addAddrTotalReward stakeDest balance stake s2)"

definition addRewardedFlips :: "ext \<Rightarrow> bytes list \<Rightarrow> session \<Rightarrow> session" where
  "addRewardedFlips e flipsToReward s =
     (if flipsToReward = [] then s
      else onRewards (\<lambda>r. r\<lparr>R_RewardedFlipCids :=
             R_RewardedFlipCids r @ map (cidString e) flipsToReward\<rparr>) (initRewardStats s))"

definition addRewardedExtraFlips :: "ext \<Rightarrow> bytes list \<Rightarrow> session \<Rightarrow> session" where
  "addRewardedExtraFlips e flipsToReward s =
     (if flipsToReward = [] then s
      else onRewards (\<lambda>r. r\<lparr>R_RewardedExtraFlipCids :=
             R_RewardedExtraFlipCids r @ map (cidString e) flipsToReward\<rparr>) (initRewardStats s))"

definition AddFlipsBasicReward ::
  "ext \<Rightarrow> ConsensusConf \<Rightarrow> address \<Rightarrow> address \<Rightarrow> bigint \<Rightarrow> bigint \<Rightarrow> bytes list \<Rightarrow> session \<Rightarrow> session" where
  "AddFlipsBasicReward e conf balanceDest stakeDest balance stake flipsToReward s =
     (let s1 = addRewardWithDelegatee balanceDest stakeDest balance stake RtFlips s;
          s2 = (if \<not> EnableUpgrade11 conf \<or> length flipsToReward \<le> 3
                then addRewardedFlips e flipsToReward s1
                else addRewardedExtraFlips e (drop 3 flipsToReward)
                       (addRewardedFlips e (take 3 flipsToReward) s1))
      in addAddrTotalReward stakeDest balance stake s2)"

definition AddFlipsExtraReward ::
  "ext \<Rightarrow> ConsensusConf \<Rightarrow> address \<Rightarrow> address \<Rightarrow> bigint \<Rightarrow> bigint \<Rightarrow> bytes list \<Rightarrow> session \<Rightarrow> session" where
  "AddFlipsExtraReward e conf balanceDest stakeDest balance stake flipsToReward s =
     (let s1 = addRewardWithDelegatee balanceDest stakeDest balance stake RtExtraFlips s;
          s2 = (if \<not> EnableUpgrade11 conf then addRewardedExtraFlips e flipsToReward s1 else s1)
      in addAddrTotalReward stakeDest balance stake s2)"

text \<open>\<open>getFlipCid\<close>: the outer None is the nil dereference of \<open>ValidationStats\<close>.\<close>

definition getFlipCid :: "uint32 \<Rightarrow> int \<Rightarrow> session \<Rightarrow> bytes option option" where
  "getFlipCid shardId flipIdx s =
     (if flipIdx < 0 then Some None
      else case S_ValidationStats (stats s) of
          None \<Rightarrow> None
        | Some v \<Rightarrow> (case map_of (VSt_Shards v) shardId of
              None \<Rightarrow> Some None
            | Some sh \<Rightarrow> if nat flipIdx \<ge> length (ShS_FlipCids sh) then Some None
                         else Some (Some (ShS_FlipCids sh ! nat flipIdx))))"

definition addReportedFlipReward ::
  "ext \<Rightarrow> address \<Rightarrow> uint32 \<Rightarrow> int \<Rightarrow> bigint \<Rightarrow> bigint \<Rightarrow> session \<Rightarrow> session option" where
  "addReportedFlipReward e addr shardId flipIdx balance stake s =
     (case getFlipCid shardId flipIdx s of
        None \<Rightarrow> None
      | Some None \<Rightarrow> Some s
      | Some (Some cidBytes) \<Rightarrow> Some (onRewards (\<lambda>r. r\<lparr>R_ReportedFlipRewards :=
            R_ReportedFlipRewards r @ [\<lparr>RFR_Address = ConvertAddress e addr,
              RFR_Balance = X_convertToFloat e balance, RFR_Stake = X_convertToFloat e stake,
              RFR_Cid = cidString e cidBytes\<rparr>]\<rparr>) (initRewardStats s)))"

definition AddReportedFlipsReward ::
  "ext \<Rightarrow> address \<Rightarrow> address \<Rightarrow> uint32 \<Rightarrow> int \<Rightarrow> bigint \<Rightarrow> bigint \<Rightarrow> session \<Rightarrow> session option" where
  "AddReportedFlipsReward e balanceDest stakeDest shardId flipIdx balance stake s =
     map_option (addAddrTotalReward stakeDest balance stake)
       (addReportedFlipReward e stakeDest shardId flipIdx balance stake
          (addRewardWithDelegatee balanceDest stakeDest balance stake RtReportedFlips s))"

text \<open>\<open>determineInviteeRewardType\<close> panics outside the ages 1 to 3.\<close>

definition determineInviteeRewardType :: "uint16 \<Rightarrow> RewardType option" where
  "determineInviteeRewardType age =
     (if age = 1 then Some RtInvitee1 else if age = 2 then Some RtInvitee2
      else if age = 3 then Some RtInvitee3 else None)"

definition addRewardedInvitee :: "ext \<Rightarrow> hash \<Rightarrow> uint32 \<Rightarrow> session \<Rightarrow> session" where
  "addRewardedInvitee e txHash epochHeight s =
     onRewards (\<lambda>r. r\<lparr>R_RewardedInvitees := R_RewardedInvitees r @
       [\<lparr>RIe_TxHash = ConvertHash e txHash, RIe_EpochHeight = epochHeight\<rparr>]\<rparr>) (initRewardStats s)"

definition AddInviteeReward ::
  "ext \<Rightarrow> address \<Rightarrow> bigint \<Rightarrow> uint16 \<Rightarrow> hash \<Rightarrow> uint32 \<Rightarrow> session \<Rightarrow> session option" where
  "AddInviteeReward e addr stake age txHash epochHeight s =
     (case determineInviteeRewardType age of
        None \<Rightarrow> None
      | Some rewardType \<Rightarrow> Some (addAddrTotalReward addr None stake
          (addRewardedInvitee e txHash epochHeight (addReward addr None stake rewardType s))))"

text \<open>\<open>determineInvitationsRewardType\<close> returns an error outside the ages 0 to 3.\<close>

definition determineInvitationsRewardType :: "uint16 \<Rightarrow> bool \<Rightarrow> RewardType option" where
  "determineInvitationsRewardType age isSavedInviteWinner =
     (if age = 0 then Some (if isSavedInviteWinner then RtSavedInviteWin else RtSavedInvite)
      else if age = 1 then Some RtInvitations else if age = 2 then Some RtInvitations2
      else if age = 3 then Some RtInvitations3 else None)"

definition addRewardedInvite ::
  "ext \<Rightarrow> address \<Rightarrow> hash option \<Rightarrow> RewardType \<Rightarrow> uint32 \<Rightarrow> session \<Rightarrow> session" where
  "addRewardedInvite e addr txHash rewardType epochHeight s =
     (if rewardType = RtSavedInviteWin \<or> rewardType = RtSavedInvite
      then onRewards (\<lambda>r.
             let m = (case R_SavedInviteRewardsCount r addr of Some m \<Rightarrow> m | None \<Rightarrow> Map.empty);
                 n = (case m rewardType of Some n \<Rightarrow> n | None \<Rightarrow> 0)
             in r\<lparr>R_SavedInviteRewardsCount := (R_SavedInviteRewardsCount r)(addr \<mapsto>
                    m(rewardType \<mapsto> n + 1))\<rparr>) (initRewardStats s)
      else case txHash of
          None \<Rightarrow> s
        | Some h \<Rightarrow> onRewards (\<lambda>r. r\<lparr>R_RewardedInvites := R_RewardedInvites r @
              [\<lparr>RI_TxHash = ConvertHash e h, RI_Type = convertRewardType rewardType,
                RI_EpochHeight = epochHeight\<rparr>]\<rparr>) (initRewardStats s))"

definition AddInvitationsReward ::
  "ext \<Rightarrow> address \<Rightarrow> address \<Rightarrow> bigint \<Rightarrow> bigint \<Rightarrow> uint16 \<Rightarrow> hash option \<Rightarrow> uint32 \<Rightarrow> bool
     \<Rightarrow> session \<Rightarrow> session" where
  "AddInvitationsReward e balanceDest stakeDest balance stake age txHash epochHeight isSavedInviteWinner s =
     (case determineInvitationsRewardType age isSavedInviteWinner of
        None \<Rightarrow> s
      | Some rewardType \<Rightarrow> addAddrTotalReward stakeDest balance stake
          (addRewardedInvite e stakeDest txHash rewardType epochHeight
             (addRewardWithDelegatee balanceDest stakeDest balance stake rewardType s)))"

definition AddFoundationPayout :: "address \<Rightarrow> bigint \<Rightarrow> session \<Rightarrow> session" where
  "AddFoundationPayout addr balance s = addReward addr balance None RtFoundationPayouts s"

definition AddZeroWalletFund :: "address \<Rightarrow> bigint \<Rightarrow> session \<Rightarrow> session" where
  "AddZeroWalletFund addr balance s = addReward addr balance None RtZeroWalletFund s"

definition AddNonValidatedStake :: "ext \<Rightarrow> address \<Rightarrow> bigint \<Rightarrow> session \<Rightarrow> session" where
  "AddNonValidatedStake e addr amount s =
     (case amount of None \<Rightarrow> s
      | Some v \<Rightarrow> onRewards (\<lambda>r. r\<lparr>R_FailedStakedAmountsByAddress :=
          (R_FailedStakedAmountsByAddress r)(ConvertAddress e addr \<mapsto> v)\<rparr>) (initRewardStats s))"

definition AddPenalizedStake :: "ext \<Rightarrow> address \<Rightarrow> bigint \<Rightarrow> session \<Rightarrow> session" where
  "AddPenalizedStake e addr amount s = AddNonValidatedStake e addr amount s"

section \<open>Sequences of reward calls\<close>

text \<open>The calls the node makes while it distributes the rewards of a validation.\<close>

datatype reward_call =
    CallValidation address address uint16 bigint bigint
  | CallCandidate address address bigint bigint
  | CallStaking address address bigint bigint bigint
  | CallFlipsBasic address address bigint bigint "bytes list"
  | CallFlipsExtra address address bigint bigint "bytes list"
  | CallReportedFlips address address uint32 int bigint bigint
  | CallInvitee address bigint uint16 hash uint32
  | CallInvitations address address bigint bigint uint16 "hash option" uint32 bool
  | CallFoundationPayout address bigint
  | CallZeroWalletFund address bigint
  | CallNonValidatedStake address bigint

fun reward_step :: "ext \<Rightarrow> ConsensusConf \<Rightarrow> reward_call \<Rightarrow> session \<Rightarrow> session option" where
  "reward_step e conf (CallValidation bd sd age b st) s = Some (AddValidationReward e bd sd age b st s)"
| "reward_step e conf (CallCandidate bd sd b st) s = Some (AddCandidateReward bd sd b st s)"
| "reward_step e conf (CallStaking bd sd amt b st) s = Some (AddStakingReward e bd sd amt b st s)"
| "reward_step e conf (CallFlipsBasic bd sd b st fl) s = Some (AddFlipsBasicReward e conf bd sd b st fl s)"
| "reward_step e conf (CallFlipsExtra bd sd b st fl) s = Some (AddFlipsExtraReward e conf bd sd b st fl s)"
| "reward_step e conf (CallReportedFlips bd sd sh i b st) s = AddReportedFlipsReward e bd sd sh i b st s"
| "reward_step e conf (CallInvitee a st age h eh) s = AddInviteeReward e a st age h eh s"
| "reward_step e conf (CallInvitations bd sd b st age h eh w) s =
     Some (AddInvitationsReward e bd sd b st age h eh w s)"
| "reward_step e conf (CallFoundationPayout a b) s = Some (AddFoundationPayout a b s)"
| "reward_step e conf (CallZeroWalletFund a b) s = Some (AddZeroWalletFund a b s)"
| "reward_step e conf (CallNonValidatedStake a v) s = Some (AddNonValidatedStake e a v s)"

end
