(* ===== verification/Reward_Ledger.thy ===== *)
theory Reward_Ledger
  imports Reward_Collector Merge_Index
begin

text \<open>
  Correctness of the epoch-reward collection: the invariant that ties the list of reward
  objects, the merging index and the totals per address together, and the invariant of the
  delegatee rewards. Both are kept by every reward call, hence by every sequence of them.
\<close>

section \<open>Reading a session after a write\<close>

lemma init_defined [simp]: "S_RewardsStats (stats (initRewardStats s)) \<noteq> None"
  by (simp add: initRewardStats_def split: option.splits)

lemma rewardsOf_init [simp]: "rewardsOf (initRewardStats s) = rewardsOf s"
  by (simp add: initRewardStats_def rewardsOf_def split: option.splits)

lemma rewardsOf_on [simp]:
  "S_RewardsStats (stats s) \<noteq> None \<Longrightarrow> rewardsOf (onRewards f s) = f (rewardsOf s)"
  by (auto simp: onRewards_def rewardsOf_def)

lemma on_defined [simp]:
  "S_RewardsStats (stats (onRewards f s)) = map_option f (S_RewardsStats (stats s))"
  by (simp add: onRewards_def)

lemma session_frame [frame_simps, simp]:
  "rewardStore (onRewards f s) = rewardStore s" "rewardStore (initRewardStats s) = rewardStore s"
  "pending (onRewards f s) = pending s" "pending (initRewardStats s) = pending s"
  by (simp_all add: onRewards_def initRewardStats_def split: option.splits)

section \<open>The ledger\<close>

definition ledger_refs :: "session \<Rightarrow> ref list" where
  "ledger_refs s = R_Rewards (rewardsOf s)"

definition ledger_index :: "session \<Rightarrow> RewardType \<Rightarrow> address \<Rightarrow> ref option" where
  "ledger_index s t a =
     (case P_epochRewardsByTypeAndAddr (pending s) t of None \<Rightarrow> None | Some m \<Rightarrow> m a)"

text \<open>Foundation payouts and the zero-wallet fund are not validation rewards of an address.\<close>

definition countsInTotal :: "RewardType \<Rightarrow> bool" where
  "countsInTotal t \<longleftrightarrow> t \<noteq> RtFoundationPayouts \<and> t \<noteq> RtZeroWalletFund"

definition reward_value :: "address \<Rightarrow> RewardStats \<Rightarrow> int" where
  "reward_value a x = (if RS_Address x = a \<and> countsInTotal (RS_Type x) then RS_Balance x + RS_Stake x else 0)"

definition rewardsValue :: "session \<Rightarrow> address \<Rightarrow> int" where
  "rewardsValue s a = total (reward_value a) (rewardStore s) (ledger_refs s)"

definition totalReward :: "session \<Rightarrow> address \<Rightarrow> int" where
  "totalReward s a = zeroIfNil (R_TotalRewardsByAddr (rewardsOf s) a)"

text \<open>
  Reward objects are listed once each; the index leads from a merged type and an address to
  the only listed object of that type and address.
\<close>

definition reward_key :: "RewardStats \<Rightarrow> (RewardType \<times> address) option" where
  "reward_key x = (if mergesEpochRewards (RS_Type x) then Some (RS_Type x, RS_Address x) else None)"

definition ledger_wf :: "session \<Rightarrow> bool" where
  "ledger_wf s \<longleftrightarrow> wf_index reward_key (ledger_refs s) (\<lambda>(t, a). ledger_index s t a) (rewardStore s)"

text \<open>The ledger balances: the total of an address is the sum over its reward objects.\<close>

definition ledger_inv :: "session \<Rightarrow> bool" where
  "ledger_inv s \<longleftrightarrow> ledger_wf s \<and> (\<forall>a. totalReward s a = rewardsValue s a)"

text \<open>The part of a session the ledger lives in.\<close>

definition same_ledger :: "session \<Rightarrow> session \<Rightarrow> bool" where
  "same_ledger s s' \<longleftrightarrow> R_Rewards (rewardsOf s') = R_Rewards (rewardsOf s)
     \<and> rewardStore s' = rewardStore s
     \<and> P_epochRewardsByTypeAndAddr (pending s') = P_epochRewardsByTypeAndAddr (pending s)"

lemma same_ledger_wf: "same_ledger s s' \<Longrightarrow> ledger_wf s' = ledger_wf s"
  by (simp add: same_ledger_def ledger_wf_def ledger_refs_def ledger_index_def [abs_def])

lemma same_ledger_value: "same_ledger s s' \<Longrightarrow> rewardsValue s' a = rewardsValue s a"
  by (simp add: same_ledger_def rewardsValue_def ledger_refs_def)

subsection \<open>What \<open>addReward\<close> does to it\<close>

lemma addReward_none: "zeroOrNil b \<Longrightarrow> zeroOrNil st \<Longrightarrow> addReward a b st t s = s"
  by (simp add: addReward_def)

lemma addReward_merge:
  assumes "\<not> (zeroOrNil b \<and> zeroOrNil st)" "mergesEpochRewards t" "ledger_index s t a = Some q"
  shows "ledger_refs (addReward a b st t s) = ledger_refs s"
    and "ledger_index (addReward a b st t s) t' a' = ledger_index s t' a'"
    and "rewardStore (addReward a b st t s) =
           modify q (\<lambda>r. r\<lparr>RS_Balance := RS_Balance r + zeroIfNil b, RS_Stake := RS_Stake r + zeroIfNil st\<rparr>)
             (alloc \<lparr>RS_Address = a, RS_Balance = zeroIfNil b, RS_Stake = zeroIfNil st, RS_Type = t\<rparr> (rewardStore s))"
  using assms
  by (auto simp: addReward_def increaseEpochRewardIfExists_def Let_def ledger_refs_def
      ledger_index_def rewardsOf_def initRewardStats_def split: option.splits)

lemma addReward_append:
  assumes "\<not> (zeroOrNil b \<and> zeroOrNil st)" "mergesEpochRewards t \<longrightarrow> ledger_index s t a = None"
  shows "ledger_refs (addReward a b st t s) = ledger_refs s @ [fresh (rewardStore s)]"
    and "ledger_index (addReward a b st t s) t' a' =
           (if mergesEpochRewards t \<and> t' = t \<and> a' = a then Some (fresh (rewardStore s))
            else ledger_index s t' a')"
    and "rewardStore (addReward a b st t s) =
           alloc \<lparr>RS_Address = a, RS_Balance = zeroIfNil b, RS_Stake = zeroIfNil st, RS_Type = t\<rparr> (rewardStore s)"
  using assms
  by (auto simp: addReward_def increaseEpochRewardIfExists_def Let_def ledger_refs_def
      ledger_index_def rewardsOf_def initRewardStats_def onRewards_def emptyRewardsStats_def
      split: option.splits)

lemma addReward_frame:
  "R_TotalRewardsByAddr (rewardsOf (addReward a b st t s)) = R_TotalRewardsByAddr (rewardsOf s)"
  "R_DelegateesEpochRewards (rewardsOf (addReward a b st t s)) = R_DelegateesEpochRewards (rewardsOf s)"
  "R_RewardedFlipCids (rewardsOf (addReward a b st t s)) = R_RewardedFlipCids (rewardsOf s)"
  "R_RewardedExtraFlipCids (rewardsOf (addReward a b st t s)) = R_RewardedExtraFlipCids (rewardsOf s)"
  "S_ValidationStats (stats (addReward a b st t s)) = S_ValidationStats (stats s)"
  by (auto simp: addReward_def increaseEpochRewardIfExists_def Let_def rewardsOf_def
      initRewardStats_def onRewards_def emptyRewardsStats_def split: option.splits)

lemma addReward_wf:
  assumes wf: "ledger_wf s"
  shows "ledger_wf (addReward a b st t s)"
proof (cases "zeroOrNil b \<and> zeroOrNil st")
  case True
  then show ?thesis using wf by (simp add: addReward_none)
next
  case nz: False
  show ?thesis
  proof (cases "mergesEpochRewards t \<and> ledger_index s t a \<noteq> None")
    case True
    then obtain q where q: "mergesEpochRewards t" "ledger_index s t a = Some q" by auto
    have ix: "ledger_index (addReward a b st t s) = ledger_index s"
      by (intro ext) (rule addReward_merge(2) [OF nz q])
    show ?thesis
      unfolding ledger_wf_def ix addReward_merge(1,3) [OF nz q]
      by (intro wf_index_modify wf_index_alloc)
        (use wf in \<open>simp_all add: ledger_wf_def reward_key_def\<close>)
  next
    case False
    then have n: "mergesEpochRewards t \<longrightarrow> ledger_index s t a = None" by auto
    show ?thesis
      unfolding ledger_wf_def addReward_append(1,3) [OF nz n]
      by (rule wf_index_append [where ix = "\<lambda>(t, a). ledger_index s t a"])
        (use wf n addReward_append(2) [OF nz n] in \<open>auto simp: ledger_wf_def reward_key_def split: if_splits\<close>)
  qed
qed

subsection \<open>Sums over the ledger\<close>

lemma addReward_value:
  assumes wf: "ledger_wf s"
  shows "rewardsValue (addReward a b st t s) a' = rewardsValue s a' +
     (if a' = a \<and> countsInTotal t then zeroIfNil b + zeroIfNil st else 0)"
proof (cases "zeroOrNil b \<and> zeroOrNil st")
  case True
  then show ?thesis by (auto simp: addReward_none zeroOrNil_iff)
next
  case nz: False
  note ix = wf [unfolded ledger_wf_def]
  have f: "fresh (rewardStore s) \<notin> set (ledger_refs s)" by (rule wf_index_fresh [OF ix])
  show ?thesis
  proof (cases "mergesEpochRewards t \<and> ledger_index s t a \<noteq> None")
    case True
    then obtain q where q: "mergesEpochRewards t" "ledger_index s t a = Some q" by auto
    have qin: "q \<in> set (ledger_refs s)" using wf_indexD(3) [OF ix, of "(t, a)" q] q(2) by simp
    obtain x where x: "deref (rewardStore s) q = Some x" "RS_Type x = t" "RS_Address x = a"
      using wf_indexD(4) [OF ix, of "(t, a)" q] q(2) by (auto simp: reward_key_def split: if_splits)
    have "q \<noteq> fresh (rewardStore s)" using qin f by auto
    then have "deref (alloc y (rewardStore s)) q = Some x" for y using x(1) by (simp add: ref_simps)
    then show ?thesis
      using x(2,3) by (auto simp: rewardsValue_def addReward_merge(1,3) [OF nz q] total_alloc [OF f]
          total_modify [OF wf_indexD(1) [OF ix] qin] reward_value_def)
  next
    case False
    then have n: "mergesEpochRewards t \<longrightarrow> ledger_index s t a = None" by auto
    then show ?thesis
      by (auto simp: rewardsValue_def addReward_append(1,3) [OF nz n] total_append [OF f] reward_value_def)
  qed
qed

lemma addReward_total [frame_simps]: "totalReward (addReward a b st t s) a' = totalReward s a'"
  by (simp add: totalReward_def addReward_frame)

lemma addAddrTotalReward_total:
  "totalReward (addAddrTotalReward a b st s) a' =
     totalReward s a' + (if a' = a then zeroIfNil b + zeroIfNil st else 0)"
  by (auto simp: addAddrTotalReward_def totalReward_def initTotalRewardsByAddr_def Let_def
      zeroOrNil_iff zeroIfNil_def split: option.splits)

lemma addAddrTotalReward_same: "same_ledger s (addAddrTotalReward a b st s)"
  by (simp add: addAddrTotalReward_def same_ledger_def initTotalRewardsByAddr_def Let_def)

subsection \<open>Every reward call keeps the ledger balanced\<close>

text \<open>Writes that touch neither the ledger nor the totals.\<close>

definition keeps_ledger :: "session \<Rightarrow> session \<Rightarrow> bool" where
  "keeps_ledger s s' \<longleftrightarrow> same_ledger s s'
     \<and> R_TotalRewardsByAddr (rewardsOf s') = R_TotalRewardsByAddr (rewardsOf s)"

lemma keeps_ledger_refl [simp]: "keeps_ledger s s"
  by (simp add: keeps_ledger_def same_ledger_def)

lemma keeps_ledger_trans [trans]: "keeps_ledger s s' \<Longrightarrow> keeps_ledger s' s'' \<Longrightarrow> keeps_ledger s s''"
  by (simp add: keeps_ledger_def same_ledger_def)

lemma keeps_ledger_init [simp]: "keeps_ledger s (initRewardStats s')  \<longleftrightarrow> keeps_ledger s s'"
  by (simp add: keeps_ledger_def same_ledger_def)

lemma keeps_ledger_on:
  "keeps_ledger s s' \<Longrightarrow> (\<And>r. R_Rewards (f r) = R_Rewards r) \<Longrightarrow>
     (\<And>r. R_TotalRewardsByAddr (f r) = R_TotalRewardsByAddr r) \<Longrightarrow>
     keeps_ledger s (onRewards f (initRewardStats s'))"
  by (simp add: keeps_ledger_def same_ledger_def)

lemma keeps_ledger_helpers:
  "keeps_ledger s (addDelegateeReward d p b st t s)"
  "keeps_ledger s (addRewardedFlips e fl s)"
  "keeps_ledger s (addRewardedExtraFlips e fl s)"
  "keeps_ledger s (addRewardedInvitee e h eh s)"
  "keeps_ledger s (addRewardedInvite e a th t eh s)"
  "keeps_ledger s (AddNonValidatedStake e a v s)"
  by (auto simp: addDelegateeReward_def addRewardedFlips_def addRewardedExtraFlips_def
      addRewardedInvitee_def addRewardedInvite_def AddNonValidatedStake_def Let_def
      intro!: keeps_ledger_on split: option.splits)

lemma keeps_ledger_reported:
  "addReportedFlipReward e a sh i b st s = Some s' \<Longrightarrow> keeps_ledger s s'"
  by (auto simp: addReportedFlipReward_def intro!: keeps_ledger_on split: option.splits)

lemma keeps_ledger_delegatee:
  "keeps_ledger (addReward sd b st t s) (addRewardWithDelegatee bd sd b st t s)"
  by (simp add: addRewardWithDelegatee_def Let_def keeps_ledger_helpers)

lemma ledger_inv_keeps:
  assumes "ledger_inv s" "keeps_ledger s s'"
  shows "ledger_inv s'"
proof -
  have same: "same_ledger s s'" using assms(2) by (simp add: keeps_ledger_def)
  have "totalReward s' a = totalReward s a" for a
    using assms(2) by (simp add: keeps_ledger_def totalReward_def)
  then show ?thesis
    using assms(1) by (simp add: ledger_inv_def same_ledger_wf [OF same] same_ledger_value [OF same])
qed

text \<open>The shape all validation rewards share: the reward object first, its total last.\<close>

lemma ledger_inv_reward:
  assumes "ledger_inv s" "keeps_ledger (addReward a b st t s) s'" "countsInTotal t"
  shows "ledger_inv (addAddrTotalReward a b st s')"
proof -
  have wf: "ledger_wf (addReward a b st t s)" using assms(1) by (simp add: ledger_inv_def addReward_wf)
  have same: "same_ledger (addReward a b st t s) s'" using assms(2) by (simp add: keeps_ledger_def)
  have tot: "totalReward s' x = totalReward s x" for x
    using assms(2) by (simp add: keeps_ledger_def totalReward_def addReward_frame)
  show ?thesis
    using assms(1,3) wf
    by (simp add: ledger_inv_def same_ledger_wf [OF addAddrTotalReward_same] same_ledger_wf [OF same]
        same_ledger_value [OF addAddrTotalReward_same] same_ledger_value [OF same]
        addAddrTotalReward_total tot addReward_value)
qed

lemma ledger_inv_fund:
  "ledger_inv s \<Longrightarrow> \<not> countsInTotal t \<Longrightarrow> ledger_inv (addReward a b st t s)"
  by (simp add: ledger_inv_def addReward_wf addReward_value addReward_total)

lemma countsInTotal_simps [simp]:
  "countsInTotal RtValidation" "countsInTotal RtCandidate" "countsInTotal RtStaking"
  "countsInTotal RtFlips" "countsInTotal RtExtraFlips" "countsInTotal RtReportedFlips"
  "\<not> countsInTotal RtFoundationPayouts" "\<not> countsInTotal RtZeroWalletFund"
  by (simp_all add: countsInTotal_def)

lemma determine_counts:
  "determineInviteeRewardType age = Some t \<Longrightarrow> countsInTotal t"
  "determineInvitationsRewardType age' w = Some t \<Longrightarrow> countsInTotal t"
  by (auto simp: determineInviteeRewardType_def determineInvitationsRewardType_def countsInTotal_def
      split: if_splits)

text \<open>What lies between the reward object and its total in each call.\<close>

lemma keeps_ledger_on_delegatee:
  assumes "\<And>r. R_Rewards (f r) = R_Rewards r" "\<And>r. R_TotalRewardsByAddr (f r) = R_TotalRewardsByAddr r"
  shows "keeps_ledger (addReward sd b st t s)
     (onRewards f (initRewardStats (addRewardWithDelegatee bd sd b st t s)))"
  by (rule keeps_ledger_on [OF keeps_ledger_delegatee]) (simp_all add: assms)

lemma keeps_ledger_flips:
  "keeps_ledger (addReward sd b st t s) (addRewardedFlips e fl (addRewardWithDelegatee bd sd b st t s))"
  "keeps_ledger (addReward sd b st t s) (addRewardedExtraFlips e fl (addRewardWithDelegatee bd sd b st t s))"
  "keeps_ledger (addReward sd b st t s)
     (addRewardedExtraFlips e gl (addRewardedFlips e fl (addRewardWithDelegatee bd sd b st t s)))"
  by (blast intro: keeps_ledger_trans keeps_ledger_delegatee keeps_ledger_helpers)+

lemma keeps_ledger_invite:
  "keeps_ledger (addReward sd b st t s)
     (addRewardedInvite e a h t eh (addRewardWithDelegatee bd sd b st t s))"
  by (blast intro: keeps_ledger_trans keeps_ledger_delegatee keeps_ledger_helpers)

lemma validation_rewards_ledger_inv:
  assumes inv: "ledger_inv s"
  shows "ledger_inv (AddValidationReward e bd sd age b st s)"
    and "ledger_inv (AddCandidateReward bd sd b st s)"
    and "ledger_inv (AddStakingReward e bd sd amt b st s)"
proof -
  show "ledger_inv (AddValidationReward e bd sd age b st s)"
    unfolding AddValidationReward_def Let_def
    by (rule ledger_inv_reward [OF inv keeps_ledger_on_delegatee]) simp_all
  show "ledger_inv (AddCandidateReward bd sd b st s)"
    unfolding AddCandidateReward_def
    by (rule ledger_inv_reward [OF inv, where t = RtCandidate]) (simp_all add: keeps_ledger_delegatee)
  show "ledger_inv (AddStakingReward e bd sd amt b st s)"
  proof (cases amt)
    case None
    show ?thesis unfolding AddStakingReward_def Let_def None option.case
      by (rule ledger_inv_reward [OF inv, where t = RtStaking]) (simp_all add: keeps_ledger_delegatee)
  next
    case (Some v)
    show ?thesis unfolding AddStakingReward_def Let_def Some option.case
      by (rule ledger_inv_reward [OF inv keeps_ledger_on_delegatee]) simp_all
  qed
qed

lemma flips_rewards_ledger_inv:
  assumes inv: "ledger_inv s"
  shows "ledger_inv (AddFlipsBasicReward e conf bd sd b st fl s)"
    and "ledger_inv (AddFlipsExtraReward e conf bd sd b st fl s)"
proof -
  show "ledger_inv (AddFlipsBasicReward e conf bd sd b st fl s)"
    unfolding AddFlipsBasicReward_def Let_def
    by (rule ledger_inv_reward [OF inv, where t = RtFlips])
      (simp_all only: keeps_ledger_flips countsInTotal_simps split: if_split, simp)
  show "ledger_inv (AddFlipsExtraReward e conf bd sd b st fl s)"
    unfolding AddFlipsExtraReward_def Let_def
    by (rule ledger_inv_reward [OF inv, where t = RtExtraFlips])
      (simp_all add: keeps_ledger_flips keeps_ledger_delegatee)
qed

lemma invitations_rewards_ledger_inv:
  assumes inv: "ledger_inv s"
  shows "ledger_inv (AddInvitationsReward e bd sd b st age h eh w s)"
proof (cases "determineInvitationsRewardType age w")
  case None
  then show ?thesis using inv by (simp add: AddInvitationsReward_def)
next
  case (Some t)
  show ?thesis unfolding AddInvitationsReward_def Some option.case
    by (rule ledger_inv_reward [OF inv keeps_ledger_invite determine_counts(2) [OF Some]])
qed

lemma reported_rewards_ledger_inv:
  assumes inv: "ledger_inv s" and step: "AddReportedFlipsReward e bd sd sh i b st s = Some s'"
  shows "ledger_inv s'"
proof -
  obtain s1 where s1: "addReportedFlipReward e sd sh i b st
      (addRewardWithDelegatee bd sd b st RtReportedFlips s) = Some s1"
    and s': "s' = addAddrTotalReward sd b st s1"
    using step by (auto simp: AddReportedFlipsReward_def)
  show ?thesis unfolding s'
    by (rule ledger_inv_reward [OF inv keeps_ledger_trans [OF keeps_ledger_delegatee keeps_ledger_reported [OF s1]]]) simp
qed

lemma invitee_rewards_ledger_inv:
  assumes inv: "ledger_inv s" and step: "AddInviteeReward e a st age h eh s = Some s'"
  shows "ledger_inv s'"
proof -
  obtain t where t: "determineInviteeRewardType age = Some t"
    and s': "s' = addAddrTotalReward a None st (addRewardedInvitee e h eh (addReward a None st t s))"
    using step by (auto simp: AddInviteeReward_def split: option.splits)
  show ?thesis unfolding s'
    by (rule ledger_inv_reward [OF inv keeps_ledger_helpers(4) determine_counts(1) [OF t]])
qed

lemma reward_step_ledger_inv:
  assumes inv: "ledger_inv s" and step: "reward_step e conf c s = Some s'"
  shows "ledger_inv s'"
proof (cases c)
  case (CallReportedFlips bd sd sh i b st)
  with step show ?thesis by (auto intro: reported_rewards_ledger_inv [OF inv])
next
  case (CallInvitee a st age h eh)
  with step show ?thesis by (auto intro: invitee_rewards_ledger_inv [OF inv])
next
  case (CallNonValidatedStake a v)
  with step show ?thesis by (auto intro: ledger_inv_keeps [OF inv keeps_ledger_helpers(6)])
next
  case (CallFoundationPayout a b)
  with step show ?thesis by (auto simp: AddFoundationPayout_def intro: ledger_inv_fund [OF inv])
next
  case (CallZeroWalletFund a b)
  with step show ?thesis by (auto simp: AddZeroWalletFund_def intro: ledger_inv_fund [OF inv])
qed (use step validation_rewards_ledger_inv [OF inv] flips_rewards_ledger_inv [OF inv]
      invitations_rewards_ledger_inv [OF inv] in auto)

interpretation ledger: invariant_steps "reward_step e conf" ledger_inv
  by unfold_locales (rule reward_step_ledger_inv)

lemma ledger_inv_start: "ledger_inv (SetValidation v emptySession)"
  by (simp add: ledger_inv_def ledger_wf_def wf_index_def ledger_refs_def ledger_index_def
      totalReward_def rewardsValue_def rewardsOf_def emptyRewardsStats_def SetValidation_def
      emptySession_def emptyStats_def emptyPending_def)

end
