(* ===== verification/Reward_Properties.thy ===== *)
theory Reward_Properties
  imports Reward_Ledger
begin

text \<open>
  The pools' part of the epoch rewards (the totals of a delegatee are the sums over its
  delegators), when a sequence of reward calls panics, the split of rewarded flips, and the
  properties of the reward collection.
\<close>

section \<open>Totals of a pool\<close>

definition reward_amount :: "EpochReward option \<Rightarrow> int \<times> int" where
  "reward_amount r = (case r of None \<Rightarrow> (0, 0) | Some x \<Rightarrow> (ER_Balance x, ER_Stake x))"

definition delegatorReward :: "StatsDelegateeEpochRewards \<Rightarrow> address \<Rightarrow> RewardType \<Rightarrow> int \<times> int" where
  "delegatorReward d p t = (case SD_DelegatorsEpochRewards d p of None \<Rightarrow> (0, 0) | Some m \<Rightarrow> reward_amount (m t))"

text \<open>For every type, the pool's total is the sum over its delegators.\<close>

definition delegatee_ok :: "StatsDelegateeEpochRewards \<Rightarrow> bool" where
  "delegatee_ok d \<longleftrightarrow> finite (dom (SD_DelegatorsEpochRewards d)) \<and> (\<forall>t.
     fst (reward_amount (SD_TotalRewards d t)) = (\<Sum>p \<in> dom (SD_DelegatorsEpochRewards d). fst (delegatorReward d p t))
   \<and> snd (reward_amount (SD_TotalRewards d t)) = (\<Sum>p \<in> dom (SD_DelegatorsEpochRewards d). snd (delegatorReward d p t)))"

definition delegatees_inv :: "session \<Rightarrow> bool" where
  "delegatees_inv s \<longleftrightarrow> (\<forall>a d. R_DelegateesEpochRewards (rewardsOf s) a = Some d \<longrightarrow> delegatee_ok d)"

lemma reward_amount_inc:
  "reward_amount (incEpochReward t b st m t') =
     (fst (reward_amount (m t')) + (if t' = t then b else 0), snd (reward_amount (m t')) + (if t' = t then st else 0))"
  by (cases "m t"; cases "t' = t") (simp_all add: incEpochReward_def reward_amount_def Let_def)

lemma reward_amount_none: "reward_amount None = (0, 0)"
  by (simp add: reward_amount_def)

lemma delegatorReward_inc:
  "delegatorReward (incDelegatee q t b st d) p t' =
     (fst (delegatorReward d p t') + (if p = q \<and> t' = t then b else 0),
      snd (delegatorReward d p t') + (if p = q \<and> t' = t then st else 0))"
  by (cases "SD_DelegatorsEpochRewards d q"; cases "p = q")
    (simp_all add: delegatorReward_def incDelegatee_def Let_def reward_amount_inc reward_amount_none)

lemma delegatorReward_outside: "p \<notin> dom (SD_DelegatorsEpochRewards d) \<Longrightarrow> delegatorReward d p t = (0, 0)"
  by (simp add: delegatorReward_def domIff)

lemma incDelegatee_simps:
  "SD_TotalRewards (incDelegatee q t b st d) = incEpochReward t b st (SD_TotalRewards d)"
  "dom (SD_DelegatorsEpochRewards (incDelegatee q t b st d)) = insert q (dom (SD_DelegatorsEpochRewards d))"
  by (simp_all add: incDelegatee_def Let_def)

lemma sum_insert_zero:
  fixes f :: "'a \<Rightarrow> int"
  assumes "finite A" "q \<notin> A \<Longrightarrow> f q = 0"
  shows "sum f (insert q A) = sum f A"
  using assms by (cases "q \<in> A") (auto simp: insert_absorb)

lemma incDelegatee_ok:
  assumes "delegatee_ok d"
  shows "delegatee_ok (incDelegatee q t b st d)"
proof -
  let ?A = "dom (SD_DelegatorsEpochRewards d)"
  have fin: "finite ?A" using assms by (simp add: delegatee_ok_def)
  have f: "(\<Sum>p \<in> insert q ?A. fst (delegatorReward d p t')) = (\<Sum>p \<in> ?A. fst (delegatorReward d p t'))" for t'
    by (rule sum_insert_zero [OF fin]) (simp add: delegatorReward_outside)
  have g: "(\<Sum>p \<in> insert q ?A. snd (delegatorReward d p t')) = (\<Sum>p \<in> ?A. snd (delegatorReward d p t'))" for t'
    by (rule sum_insert_zero [OF fin]) (simp add: delegatorReward_outside)
  have one: "(\<Sum>p \<in> insert q ?A. if p = q \<and> t' = t then c else 0) = (if t' = t then c else (0::int))" for t' c
    using fin by (cases "t' = t") (simp_all add: sum.delta)
  show ?thesis
    unfolding delegatee_ok_def incDelegatee_simps
    using fin assms
    by (simp add: delegatorReward_inc reward_amount_inc sum.distrib one f g delegatee_ok_def
        del: sum.insert)
qed

lemma empty_delegatee_ok:
  "delegatee_ok \<lparr>SD_TotalRewards = Map.empty, SD_DelegatorsEpochRewards = Map.empty\<rparr>"
  by (simp add: delegatee_ok_def reward_amount_def)

lemma delegatees_inv_same:
  "R_DelegateesEpochRewards (rewardsOf s') = R_DelegateesEpochRewards (rewardsOf s) \<Longrightarrow>
     delegatees_inv s' = delegatees_inv s"
  by (simp add: delegatees_inv_def)

lemma delegatees_inv_addDelegateeReward:
  "delegatees_inv s \<Longrightarrow> delegatees_inv (addDelegateeReward p a b st t s)"
  by (auto simp: addDelegateeReward_def delegatees_inv_def Let_def incDelegatee_ok empty_delegatee_ok
      split: option.splits)

lemma delegatees_inv_with:
  "delegatees_inv s \<Longrightarrow> delegatees_inv (addRewardWithDelegatee bd sd b st t s)"
  by (simp add: addRewardWithDelegatee_def Let_def delegatees_inv_addDelegateeReward
      delegatees_inv_same [OF addReward_frame(2)])

text \<open>The rest of a reward call leaves the pools alone.\<close>

lemma delegatees_frame [frame_simps]:
  "R_DelegateesEpochRewards (rewardsOf (addAddrTotalReward a b st s)) = R_DelegateesEpochRewards (rewardsOf s)"
  "R_DelegateesEpochRewards (rewardsOf (addRewardedFlips e fl s)) = R_DelegateesEpochRewards (rewardsOf s)"
  "R_DelegateesEpochRewards (rewardsOf (addRewardedExtraFlips e fl s)) = R_DelegateesEpochRewards (rewardsOf s)"
  "R_DelegateesEpochRewards (rewardsOf (addRewardedInvitee e h eh s)) = R_DelegateesEpochRewards (rewardsOf s)"
  "R_DelegateesEpochRewards (rewardsOf (addRewardedInvite e a th t eh s)) = R_DelegateesEpochRewards (rewardsOf s)"
  "R_DelegateesEpochRewards (rewardsOf (AddNonValidatedStake e a v s)) = R_DelegateesEpochRewards (rewardsOf s)"
  "R_DelegateesEpochRewards (rewardsOf (addReward a b st t s)) = R_DelegateesEpochRewards (rewardsOf s)"
  by (simp_all add: addAddrTotalReward_def initTotalRewardsByAddr_def addRewardedFlips_def
      addRewardedExtraFlips_def addRewardedInvitee_def addRewardedInvite_def AddNonValidatedStake_def
      Let_def addReward_frame split: option.splits)

lemma reported_frame:
  "addReportedFlipReward e a sh i b st s = Some s' \<Longrightarrow>
     R_DelegateesEpochRewards (rewardsOf s') = R_DelegateesEpochRewards (rewardsOf s)"
  by (auto simp: addReportedFlipReward_def split: option.splits)

lemmas reward_call_defs = AddValidationReward_def AddCandidateReward_def AddStakingReward_def
  AddFlipsBasicReward_def AddFlipsExtraReward_def AddReportedFlipsReward_def AddInviteeReward_def
  AddInvitationsReward_def AddFoundationPayout_def AddZeroWalletFund_def

lemma delegatees_inv_on:
  "(\<And>r. R_DelegateesEpochRewards (f r) = R_DelegateesEpochRewards r) \<Longrightarrow>
     delegatees_inv (onRewards f (initRewardStats s)) = delegatees_inv s"
  by (rule delegatees_inv_same) simp

lemma delegatees_inv_init: "delegatees_inv (initRewardStats s) = delegatees_inv s"
  by (rule delegatees_inv_same) simp

lemmas delegatees_inv_frame = delegatees_frame [THEN delegatees_inv_same] delegatees_inv_init

lemma reward_step_delegatees_inv:
  assumes "delegatees_inv s" "reward_step e conf c s = Some s'"
  shows "delegatees_inv s'"
proof -
  note frame = delegatees_inv_frame delegatees_inv_on delegatees_inv_with [OF assms(1)]
  show ?thesis
    using assms
    by (cases c) (auto simp: reward_call_defs Let_def frame dest!: reported_frame delegatees_inv_same
        split: option.splits if_splits)
qed

interpretation pools: invariant_steps "reward_step e conf" delegatees_inv
  by unfold_locales (rule reward_step_delegatees_inv)

lemma delegatees_inv_start: "delegatees_inv (SetValidation v emptySession)"
  by (simp add: delegatees_inv_def rewardsOf_def emptyRewardsStats_def SetValidation_def
      emptySession_def emptyStats_def)

section \<open>When a reward call panics\<close>

text \<open>Only the age of an invitee makes a reward call panic, once the validation statistics are set.\<close>

definition call_ok :: "reward_call \<Rightarrow> bool" where
  "call_ok c = (case c of CallInvitee a st age h eh \<Rightarrow> age = 1 \<or> age = 2 \<or> age = 3 | _ \<Rightarrow> True)"

lemma validation_on [simp]:
  "S_ValidationStats (stats (onRewards f s)) = S_ValidationStats (stats s)"
  "S_ValidationStats (stats (initRewardStats s)) = S_ValidationStats (stats s)"
  by (simp_all add: onRewards_def initRewardStats_def split: option.splits)

lemma validation_frame [frame_simps]:
  "S_ValidationStats (stats (addAddrTotalReward a b st s)) = S_ValidationStats (stats s)"
  "S_ValidationStats (stats (addRewardedFlips e fl s)) = S_ValidationStats (stats s)"
  "S_ValidationStats (stats (addRewardedExtraFlips e fl s)) = S_ValidationStats (stats s)"
  "S_ValidationStats (stats (addRewardedInvitee e h eh s)) = S_ValidationStats (stats s)"
  "S_ValidationStats (stats (addRewardedInvite e a th t eh s)) = S_ValidationStats (stats s)"
  "S_ValidationStats (stats (AddNonValidatedStake e a v s)) = S_ValidationStats (stats s)"
  "S_ValidationStats (stats (addReward a b st t s)) = S_ValidationStats (stats s)"
  "S_ValidationStats (stats (addRewardWithDelegatee bd sd b st t s)) = S_ValidationStats (stats s)"
  by (simp_all add: addAddrTotalReward_def initTotalRewardsByAddr_def addRewardedFlips_def
      addRewardedExtraFlips_def addRewardedInvitee_def addRewardedInvite_def AddNonValidatedStake_def
      addRewardWithDelegatee_def addDelegateeReward_def Let_def addReward_frame split: option.splits)

lemma reported_defined:
  assumes "S_ValidationStats (stats s) = Some v"
  shows "\<exists>s'. addReportedFlipReward e a sh i b st s = Some s' \<and> S_ValidationStats (stats s') = Some v"
  using assms by (auto simp: addReportedFlipReward_def getFlipCid_def split: option.splits)

lemma reward_step_defined:
  assumes "S_ValidationStats (stats s) = Some v"
  shows "(\<exists>s'. reward_step e conf c s = Some s') \<longleftrightarrow> call_ok c"
    and "reward_step e conf c s = Some s' \<Longrightarrow> S_ValidationStats (stats s') = Some v"
proof -
  show "(\<exists>s'. reward_step e conf c s = Some s') \<longleftrightarrow> call_ok c"
  proof (cases c)
    case (CallReportedFlips bd sd sh i b st)
    then show ?thesis
      using reported_defined [of "addRewardWithDelegatee bd sd b st RtReportedFlips s"] assms
      by (fastforce simp: call_ok_def AddReportedFlipsReward_def frame_simps)
  next
    case (CallInvitee a st age h eh)
    then show ?thesis
      by (auto simp: call_ok_def AddInviteeReward_def determineInviteeRewardType_def)
  qed (simp_all add: call_ok_def)
  assume step: "reward_step e conf c s = Some s'"
  show "S_ValidationStats (stats s') = Some v"
  proof (cases c)
    case (CallReportedFlips bd sd sh i b st)
    then show ?thesis
      using reported_defined [of "addRewardWithDelegatee bd sd b st RtReportedFlips s" v e sd sh i b st] assms step
      by (auto simp: AddReportedFlipsReward_def frame_simps)
  qed (use step assms in \<open>auto simp: reward_call_defs frame_simps Let_def split: option.splits if_splits\<close>)
qed

lemma reward_run_defined:
  assumes "S_ValidationStats (stats s) = Some v"
  shows "(\<exists>s'. run_steps (reward_step e conf) cs s = Some s') \<longleftrightarrow> list_all call_ok cs"
  using assms
proof (induction cs arbitrary: s)
  case Nil
  then show ?case by simp
next
  case (Cons c cs)
  show ?case
  proof (cases "reward_step e conf c s")
    case None
    then show ?thesis using reward_step_defined(1) [OF Cons.prems, of e conf c] by simp
  next
    case (Some s')
    then have "call_ok c" using reward_step_defined(1) [OF Cons.prems, of e conf c] by simp
    moreover have "S_ValidationStats (stats s') = Some v"
      by (rule reward_step_defined(2) [OF Cons.prems Some])
    ultimately show ?thesis using Some Cons.IH by simp
  qed
qed

section \<open>Properties\<close>

text \<open>A short validation: the identity 7, first on its own, then delegating to the pool 8.\<close>

definition sampleConf :: ConsensusConf where
  "sampleConf = \<lparr>EnableUpgrade10 = True, EnableUpgrade11 = True\<rparr>"

definition sampleRewardCalls :: "reward_call list" where
  "sampleRewardCalls = [CallValidation 7 7 1 (Some 10) (Some 3), CallFlipsBasic 8 7 (Some 5) (Some 2) [[1]],
     CallFlipsBasic 8 7 (Some 6) None [[2], [3], [4], [5]], CallFoundationPayout 7 (Some 100)]"

text \<open>C1: after any sequence of reward calls of a validation that does not panic, the total
  reward recorded for an address (\<open>TotalRewardsByAddr\<close>) is the sum of balance and stake over the
  listed reward objects of that address, foundation payouts and the zero-wallet fund apart.\<close>

theorem rewards_ledger_balanced:
  assumes "run_steps (reward_step e conf) calls (SetValidation v emptySession) = Some s"
  shows "totalReward s a = rewardsValue s a"
  using ledger.run_inv [OF ledger_inv_start assms] by (simp add: ledger_inv_def)

theorem rewards_ledger_balanced_witness:
  "\<exists>s. run_steps (reward_step sampleExt sampleConf) sampleRewardCalls (SetValidation None emptySession) = Some s
     \<and> totalReward s 7 = 26 \<and> rewardsValue s 7 = 26"
proof -
  have "map_option (\<lambda>s. totalReward s 7) (run_steps (reward_step sampleExt sampleConf) sampleRewardCalls
      (SetValidation None emptySession)) = Some 26"
    by code_simp
  then obtain s where s: "run_steps (reward_step sampleExt sampleConf) sampleRewardCalls
      (SetValidation None emptySession) = Some s" "totalReward s 7 = 26"
    by auto
  with rewards_ledger_balanced [OF s(1), of 7] show ?thesis by simp
qed

text \<open>after any sequence of reward calls no two reward objects have the same address and the
  same merged type (validation, flips, extra flips, reported flips, invitations, saved invites):
  \<open>increaseEpochRewardIfExists\<close> merges every later reward into the first.\<close>

theorem merged_rewards_unique:
  assumes "run_steps (reward_step e conf) calls (SetValidation v emptySession) = Some s"
    and "p \<in> set (R_Rewards (rewardsOf s))" "deref (rewardStore s) p = Some x"
    and "q \<in> set (R_Rewards (rewardsOf s))" "deref (rewardStore s) q = Some y"
    and "RS_Type x = RS_Type y" "RS_Address x = RS_Address y" "mergesEpochRewards (RS_Type x)"
  shows "p = q"
proof -
  have wf: "wf_index reward_key (R_Rewards (rewardsOf s)) (\<lambda>(t, a). ledger_index s t a) (rewardStore s)"
    using ledger.run_inv [OF ledger_inv_start assms(1)]
    by (simp add: ledger_inv_def ledger_wf_def ledger_refs_def)
  show ?thesis
    by (rule wf_index_unique [OF wf assms(2-5)]) (use assms(6-8) in \<open>simp_all add: reward_key_def\<close>)
qed

theorem merged_rewards_unique_witness:
  "\<exists>s. run_steps (reward_step sampleExt sampleConf) sampleRewardCalls (SetValidation None emptySession) = Some s
     \<and> (\<forall>p x. p \<in> set (R_Rewards (rewardsOf s)) \<longrightarrow> deref (rewardStore s) p = Some x \<longrightarrow>
          RS_Type x = RtFlips \<longrightarrow> RS_Address x = 7 \<longrightarrow> p = 1)"
proof -
  have "map_option (\<lambda>s. (R_Rewards (rewardsOf s), deref (rewardStore s) 1)) (run_steps (reward_step sampleExt sampleConf)
      sampleRewardCalls (SetValidation None emptySession)) =
      Some ([0, 1, 3], Some \<lparr>RS_Address = 7, RS_Balance = 11, RS_Stake = 2, RS_Type = RtFlips\<rparr>)"
    by code_simp
  then obtain s where s: "run_steps (reward_step sampleExt sampleConf) sampleRewardCalls
      (SetValidation None emptySession) = Some s" "R_Rewards (rewardsOf s) = [0, 1, 3]"
      "deref (rewardStore s) 1 = Some \<lparr>RS_Address = 7, RS_Balance = 11, RS_Stake = 2, RS_Type = RtFlips\<rparr>"
    by auto
  with merged_rewards_unique [OF s(1) _ _ _ s(3)] show ?thesis
    by (simp add: mergesEpochRewards_def)
qed

text \<open>after any sequence of reward calls the total of a pool for a reward type, as the
  collector records it, is the sum of what it records for the pool's delegators, in balance and in
  stake.\<close>

theorem delegatee_totals_are_sums:
  assumes "run_steps (reward_step e conf) calls (SetValidation v emptySession) = Some s"
    and "R_DelegateesEpochRewards (rewardsOf s) pool = Some d"
  shows "finite (dom (SD_DelegatorsEpochRewards d))
    \<and> fst (reward_amount (SD_TotalRewards d t)) =
        (\<Sum>p \<in> dom (SD_DelegatorsEpochRewards d). fst (delegatorReward d p t))
    \<and> snd (reward_amount (SD_TotalRewards d t)) =
        (\<Sum>p \<in> dom (SD_DelegatorsEpochRewards d). snd (delegatorReward d p t))"
  using pools.run_inv [OF delegatees_inv_start assms(1)] assms(2)
  by (simp add: delegatees_inv_def delegatee_ok_def)

theorem delegatee_totals_are_sums_witness:
  "\<exists>s d. run_steps (reward_step sampleExt sampleConf) sampleRewardCalls (SetValidation None emptySession) = Some s
     \<and> R_DelegateesEpochRewards (rewardsOf s) 8 = Some d
     \<and> (\<Sum>p \<in> dom (SD_DelegatorsEpochRewards d). fst (delegatorReward d p RtFlips)) = 11"
proof -
  have "map_option (\<lambda>s. map_option (\<lambda>d. reward_amount (SD_TotalRewards d RtFlips)) (R_DelegateesEpochRewards (rewardsOf s) 8))
      (run_steps (reward_step sampleExt sampleConf) sampleRewardCalls (SetValidation None emptySession)) =
      Some (Some (11, 0))"
    by code_simp
  then obtain s d where s: "run_steps (reward_step sampleExt sampleConf) sampleRewardCalls
      (SetValidation None emptySession) = Some s" "R_DelegateesEpochRewards (rewardsOf s) 8 = Some d"
      "reward_amount (SD_TotalRewards d RtFlips) = (11, 0)"
    by auto
  with delegatee_totals_are_sums [OF s(1,2), of RtFlips] show ?thesis by simp
qed

text \<open>once the validation statistics are set, a sequence of reward calls completes exactly
  when every invitee reward in it is for an age from 1 to 3; no other call can panic, whatever its
  amounts, shard and flip index are.\<close>

theorem reward_calls_panic_iff:
  "(\<exists>s. run_steps (reward_step e conf) calls (SetValidation (Some shards) emptySession) = Some s)
     \<longleftrightarrow> list_all call_ok calls"
  by (rule reward_run_defined) (simp add: SetValidation_def)

end
