(* ===== verification/Epoch_Rewards.thy ===== *)
theory Epoch_Rewards
  imports Reward_Properties Coin_Collector
begin

text \<open>
  What the indexer makes of the collected rewards at the end of a validation:
  \<open>src/indexer/rewards.go\<close>, \<open>src/indexer/delegatee_epoch_rewards.go\<close>, the wrapper of
  \<open>src/indexer/context.go\<close>, \<open>src/indexer/penalty.go\<close> and \<open>src/indexer/balance.go\<close>. A Go map that
  the code ranges over is an association list, in the order of the iteration; where the
  collector keeps the map as a function, the iteration order is an argument.
\<close>

section \<open>Rows written to the database\<close>

record EpochRewards =
  EpR_BadAuthors :: "BadAuthor list"
  EpR_Total :: "TotalRewards option"
  EpR_ValidationRewards :: "Reward list"
  EpR_FundRewards :: "Reward list"
  EpR_AgesByAddress :: "string \<rightharpoonup> uint16"
  EpR_StakedAmountsByAddress :: "string \<rightharpoonup> int"
  EpR_FailedStakedAmountsByAddress :: "string \<rightharpoonup> int"
  EpR_RewardedFlipCids :: "string list"
  EpR_RewardedExtraFlipCids :: "string list"
  EpR_RewardedInvitations :: "RewardedInvite list"
  EpR_RewardedInvitees :: "RewardedInvitee list"
  EpR_SavedInviteRewards :: "SavedInviteRewards list"
  EpR_ReportedFlipRewards :: "ReportedFlipReward list"

record DbMiningReward =
  DMR_Address :: string
  DMR_Balance :: decimal
  DMR_Stake :: decimal
  DMR_Proposer :: bool
  DMR_StakeWeight :: bigfloat

record DbPenalty =
  DP_Address :: string
  DP_Penalty :: decimal
  DP_Seconds :: uint16
  DP_InheritedFrom :: string

record DbBalance =
  DB_Address :: string
  DB_TxHash :: string
  DB_Balance :: decimal
  DB_Stake :: decimal

section \<open>The pools' rewards of an epoch\<close>

record delegateeEpochRewardsWrapper =
  W_rewards :: "DelegateeEpochRewards list"
  W_indexesByDelegatee :: "address \<rightharpoonup> nat"

definition newDelegateeEpochRewardsWrapper :: delegateeEpochRewardsWrapper where
  "newDelegateeEpochRewardsWrapper = \<lparr>W_rewards = [], W_indexesByDelegatee = Map.empty\<rparr>"

definition wrapperAppend :: "DelegateeEpochRewards \<Rightarrow> delegateeEpochRewardsWrapper \<Rightarrow> delegateeEpochRewardsWrapper" where
  "wrapperAppend item w = \<lparr>W_rewards = W_rewards w @ [item],
     W_indexesByDelegatee = (W_indexesByDelegatee w)(DeER_Address item \<mapsto> length (W_rewards w))\<rparr>"

text \<open>\<open>w.rewards[i]\<close> panics when the index is out of range; the counter is a \<open>uint32\<close> and wraps.\<close>

definition incPenalizedDelegators ::
    "address \<Rightarrow> delegateeEpochRewardsWrapper \<Rightarrow> delegateeEpochRewardsWrapper option" where
  "incPenalizedDelegators delegatee w = (case W_indexesByDelegatee w delegatee of
       Some i \<Rightarrow> if i < length (W_rewards w)
         then Some (w\<lparr>W_rewards := (W_rewards w)[i := (W_rewards w ! i)\<lparr>DeER_PenalizedDelegators :=
                DeER_PenalizedDelegators (W_rewards w ! i) + 1\<rparr>]\<rparr>)
         else None
     | None \<Rightarrow> Some (wrapperAppend \<lparr>DeER_Address = delegatee, DeER_TotalRewards = [],
                DeER_DelegatorRewards = [], DeER_PenalizedDelegators = 1\<rparr> w))"

text \<open>
  The iteration orders of the maps the conversion ranges over.
\<close>

record iteration =
  It_validationResults :: "(uint32 \<rightharpoonup> ValidationResults) \<Rightarrow> (uint32 \<times> ValidationResults) list"
  It_savedInvites :: "(address \<rightharpoonup> (RewardType \<rightharpoonup> byte)) \<Rightarrow> (address \<times> (RewardType \<rightharpoonup> byte)) list"
  It_savedInviteTypes :: "(RewardType \<rightharpoonup> byte) \<Rightarrow> (RewardType \<times> byte) list"
  It_delegatees :: "(address \<rightharpoonup> StatsDelegateeEpochRewards) \<Rightarrow> (address \<times> StatsDelegateeEpochRewards) list"
  It_delegators :: "(address \<rightharpoonup> DelegatorEpochRewards) \<Rightarrow> (address \<times> DelegatorEpochRewards) list"
  It_rewardTypes :: "(RewardType \<rightharpoonup> EpochReward) \<Rightarrow> (RewardType \<times> EpochReward) list"

text \<open>Ranging over a Go map visits every entry once.\<close>

definition enumerates :: "('k \<rightharpoonup> 'v) \<Rightarrow> ('k \<times> 'v) list \<Rightarrow> bool" where
  "enumerates m xs \<longleftrightarrow> map_of xs = m \<and> distinct (map fst xs)"

definition convertDelegationEpochReward :: "RewardType \<times> EpochReward \<Rightarrow> DelegationEpochReward" where
  "convertDelegationEpochReward = (\<lambda>(rewardType, epochReward).
     \<lparr>DER_Balance = Some (ER_Balance epochReward), DER_Type = convertRewardType rewardType\<rparr>)"

definition convertDelegatorEpochRewards :: "iteration \<Rightarrow> address \<times> DelegatorEpochRewards \<Rightarrow> DelegatorEpochReward" where
  "convertDelegatorEpochRewards it = (\<lambda>(delegator, rewards). \<lparr>DrER_Address = delegator,
     DrER_TotalRewards = map convertDelegationEpochReward (It_rewardTypes it rewards)\<rparr>)"

definition convertDelegateeEpochRewards :: "iteration \<Rightarrow> address \<times> StatsDelegateeEpochRewards \<Rightarrow> DelegateeEpochRewards" where
  "convertDelegateeEpochRewards it = (\<lambda>(delegatee, incoming). \<lparr>DeER_Address = delegatee,
     DeER_TotalRewards = map convertDelegationEpochReward (It_rewardTypes it (SD_TotalRewards incoming)),
     DeER_DelegatorRewards = map (convertDelegatorEpochRewards it) (It_delegators it (SD_DelegatorsEpochRewards incoming)),
     DeER_PenalizedDelegators = 0\<rparr>)"

definition convertDelegateesEpochRewards ::
    "iteration \<Rightarrow> (address \<rightharpoonup> StatsDelegateeEpochRewards) \<Rightarrow> delegateeEpochRewardsWrapper" where
  "convertDelegateesEpochRewards it m =
     fold (\<lambda>x w. wrapperAppend (convertDelegateeEpochRewards it x) w) (It_delegatees it m) newDelegateeEpochRewardsWrapper"

section \<open>The rewards of an epoch\<close>

definition convertBadAuthors :: "ext \<Rightarrow> (uint32 \<times> ValidationResults) list \<Rightarrow> BadAuthor list" where
  "convertBadAuthors e vrs = concat (map (\<lambda>(shard, vr). map (\<lambda>(addr, reason).
     \<lparr>BA_Address = ConvertAddress e addr, BA_Reason = reason\<rparr>) (VR_BadAuthors vr)) vrs)"

definition convertTotalRewards :: "ext \<Rightarrow> RewardsStats option \<Rightarrow> TotalRewards option" where
  "convertTotalRewards e rewardsStats = (case rewardsStats of None \<Rightarrow> None | Some r \<Rightarrow> Some
     \<lparr>TR_Total = X_convertToFloat e (R_Total r),
      TR_Validation = X_convertToFloat e (R_Validation r),
      TR_Staking = X_convertToFloat e (R_Staking r),
      TR_Candidate = X_convertToFloat e (R_Candidate r),
      TR_Flips = X_convertToFloat e (R_Flips r),
      TR_FlipsExtra = X_convertToFloat e (R_FlipsExtra r),
      TR_Reports = X_convertToFloat e (R_Reports r),
      TR_Invitations = X_convertToFloat e (R_Invitations r),
      TR_FoundationPayouts = X_convertToFloat e (R_FoundationPayouts r),
      TR_ZeroWalletFund = X_convertToFloat e (R_ZeroWalletFund r),
      TR_ValidationShare = X_convertToFloat e (R_ValidationShare r),
      TR_StakingShare = X_convertToFloat e (R_StakingShare r),
      TR_CandidateShare = X_convertToFloat e (R_CandidateShare r),
      TR_FlipsShare = X_convertToFloat e (R_FlipsShare r),
      TR_FlipsExtraShare = X_convertToFloat e (R_FlipsExtraShare r),
      TR_ReportsShare = X_convertToFloat e (R_ReportsShare r),
      TR_InvitationsShare = X_convertToFloat e (R_InvitationsShare r)\<rparr>)"

definition convertReward :: "ext \<Rightarrow> RewardStats \<Rightarrow> Reward" where
  "convertReward e r = \<lparr>Rw_Address = ConvertAddress e (RS_Address r),
     Rw_Balance = X_convertToFloat e (Some (RS_Balance r)),
     Rw_Stake = X_convertToFloat e (Some (RS_Stake r)),
     Rw_Type = convertRewardType (RS_Type r)\<rparr>"

definition fundReward :: "RewardType \<Rightarrow> bool" where
  "fundReward t \<longleftrightarrow> t = RtFoundationPayouts \<or> t = RtZeroWalletFund"

fun convertRewardsLoop :: "ext \<Rightarrow> RewardStats list \<Rightarrow> Reward list \<times> Reward list \<times> address set \<Rightarrow>
    Reward list \<times> Reward list \<times> address set" where
  "convertRewardsLoop e [] acc = acc"
| "convertRewardsLoop e (r # rs) (validationRewards, fundRewards, addrs) =
     (if fundReward (RS_Type r)
      then convertRewardsLoop e rs (validationRewards, fundRewards @ [convertReward e r], addrs)
      else convertRewardsLoop e rs (validationRewards @ [convertReward e r], fundRewards, insert (RS_Address r) addrs))"

definition convertRewards :: "ext \<Rightarrow> RewardStats list \<Rightarrow> Reward list \<times> Reward list \<times> address set" where
  "convertRewards e rewards = convertRewardsLoop e rewards ([], [], {})"

definition convertSavedInviteRewards :: "ext \<Rightarrow> iteration \<Rightarrow> (address \<rightharpoonup> (RewardType \<rightharpoonup> byte)) \<Rightarrow> SavedInviteRewards list" where
  "convertSavedInviteRewards e it m = concat (map (\<lambda>(addr, countByType). map (\<lambda>(rewardType, count).
     \<lparr>SIR_Address = ConvertAddress e addr, SIR_Type = convertRewardType rewardType, SIR_Count = count\<rparr>)
       (It_savedInviteTypes it countByType)) (It_savedInvites it m))"

definition convertMiningRewards :: "ext \<Rightarrow> MiningReward list \<Rightarrow> DbMiningReward list" where
  "convertMiningRewards e rewards = map (\<lambda>r. \<lparr>DMR_Address = ConvertAddress e (MR_Address r),
     DMR_Balance = X_convertToFloat e (Some (MR_Balance r)),
     DMR_Stake = X_convertToFloat e (Some (MR_Stake r)),
     DMR_Proposer = MR_Proposer r,
     DMR_StakeWeight = MR_StakeWeight r\<rparr>) rewards"

text \<open>
  \<open>detectEpochRewards\<close>, over the session of the collector: the rows, the addresses with a
  validation reward and the pools' rewards.
\<close>

definition detectEpochRewards :: "ext \<Rightarrow> iteration \<Rightarrow> bool \<Rightarrow> session \<Rightarrow>
    (EpochRewards option \<times> address set \<times> delegateeEpochRewardsWrapper) option" where
  "detectEpochRewards e it validationFinished s =
     (if \<not> validationFinished then Some (None, {}, newDelegateeEpochRewardsWrapper)
      else case S_RewardsStats (stats s) of
        None \<Rightarrow> Some (None, {}, newDelegateeEpochRewardsWrapper)
      | Some r \<Rightarrow> do {
          rewards \<leftarrow> those (map (deref (rewardStore s)) (R_Rewards r));
          let (validationRewards, fundRewards, addrs) = convertRewards e rewards;
          Some (Some \<lparr>EpR_BadAuthors = convertBadAuthors e (It_validationResults it (R_ValidationResults r)),
              EpR_Total = convertTotalRewards e (Some r),
              EpR_ValidationRewards = validationRewards,
              EpR_FundRewards = fundRewards,
              EpR_AgesByAddress = R_AgesByAddress r,
              EpR_StakedAmountsByAddress = R_StakedAmountsByAddress r,
              EpR_FailedStakedAmountsByAddress = R_FailedStakedAmountsByAddress r,
              EpR_RewardedFlipCids = R_RewardedFlipCids r,
              EpR_RewardedExtraFlipCids = R_RewardedExtraFlipCids r,
              EpR_RewardedInvitations = R_RewardedInvites r,
              EpR_RewardedInvitees = R_RewardedInvitees r,
              EpR_SavedInviteRewards = convertSavedInviteRewards e it (R_SavedInviteRewardsCount r),
              EpR_ReportedFlipRewards = R_ReportedFlipRewards r\<rparr>,
            addrs,
            convertDelegateesEpochRewards it (R_DelegateesEpochRewards r)) })"

section \<open>Bounds of the validation rewards by age\<close>

definition determineRewardBoundType :: "uint64 \<Rightarrow> byte" where
  "determineRewardBoundType age = (if age \<le> 5 then ucast age else 6)"

text \<open>
  \<open>rewardBoundsByType\<close>; the fields \<open>Min\<close> and \<open>Max\<close> are pointers, a nil one would be dereferenced.
\<close>

definition addIfBound :: "address \<Rightarrow> uint64 \<Rightarrow> bigint \<Rightarrow> (byte \<rightharpoonup> RewardBounds) \<Rightarrow> (byte \<rightharpoonup> RewardBounds) option" where
  "addIfBound address age amount rb =
     (if zeroOrNil amount then Some rb
      else let boundType = determineRewardBoundType age; bound = \<lparr>RB_Amount = amount, RB_Address = address\<rparr> in
        case rb boundType of
          None \<Rightarrow> Some (rb(boundType \<mapsto> \<lparr>RBs_Type = boundType, RBs_Min = Some bound, RBs_Max = Some bound\<rparr>))
        | Some b \<Rightarrow> do {
            mn \<leftarrow> RBs_Min b;
            cmpMin \<leftarrow> bigCmp (RB_Amount mn) amount;
            let b1 = (if cmpMin = 1 then b\<lparr>RBs_Min := Some bound\<rparr> else b);
            mx \<leftarrow> RBs_Max b1;
            cmpMax \<leftarrow> bigCmp (RB_Amount mx) amount;
            let b2 = (if cmpMax = -1 then b1\<lparr>RBs_Max := Some bound\<rparr> else b1);
            Some (rb(boundType \<mapsto> b2)) })"

definition boundsGetResult :: "(byte \<times> RewardBounds) list \<Rightarrow> RewardBounds list" where
  "boundsGetResult rb = map snd rb"

section \<open>Penalties and balances\<close>

definition convertChargedPenalties :: "ext \<Rightarrow> (address \<times> bigint) list \<Rightarrow> (address \<times> Penalty) list \<Rightarrow> DbPenalty list" where
  "convertChargedPenalties e amounts seconds =
     map (\<lambda>(addr, amount). \<lparr>DP_Address = ConvertAddress e addr, DP_Penalty = X_convertToFloat e amount,
        DP_Seconds = 0, DP_InheritedFrom = []\<rparr>) amounts @
     map (\<lambda>(addr, penalty). \<lparr>DP_Address = ConvertAddress e addr, DP_Penalty = 0,
        DP_Seconds = Pen_Seconds penalty,
        DP_InheritedFrom = (case Pen_InheritedFrom penalty of None \<Rightarrow> [] | Some a \<Rightarrow> ConvertAddress e a)\<rparr>) seconds"

record balanceDiff =
  Diff_balance :: int
  Diff_stake :: int

text \<open>
  \<open>conversion.BytesToAddr\<close> drops the first byte of a key, and panics on an empty one; \<open>setBytes\<close> is
  the library's \<open>Address.SetBytes\<close> on a zero address.
\<close>

definition BytesToAddr :: "(bytes \<Rightarrow> address) \<Rightarrow> bytes \<Rightarrow> address option" where
  "BytesToAddr setBytes b = (case b of [] \<Rightarrow> None | _ # rest \<Rightarrow> Some (setBytes rest))"

text \<open>
  The iteration over the accounts stops at a nil key; \<open>toSlice\<close> is the order in which the set
  library lists its elements.
\<close>

fun collectAccounts :: "(bytes \<Rightarrow> address) \<Rightarrow> bytes option list \<Rightarrow> address set \<Rightarrow> address set option" where
  "collectAccounts setBytes [] addrs = Some addrs"
| "collectAccounts setBytes (None # keys) addrs = Some addrs"
| "collectAccounts setBytes (Some key # keys) addrs =
     do { addr \<leftarrow> BytesToAddr setBytes key; collectAccounts setBytes keys (insert addr addrs) }"

fun balanceLoop :: "ext \<Rightarrow> app_state \<Rightarrow> app_state \<Rightarrow> address list \<Rightarrow> DbBalance list \<times> balanceDiff \<Rightarrow> DbBalance list \<times> balanceDiff" where
  "balanceLoop e prevState newState [] acc = acc"
| "balanceLoop e prevState newState (addr # addrs) (res, diff) =
     balanceLoop e prevState newState addrs
       (res @ [\<lparr>DB_Address = ConvertAddress e addr, DB_TxHash = [],
          DB_Balance = X_convertToFloat e (Some (AS_GetBalance newState addr)),
          DB_Stake = X_convertToFloat e (Some (AS_GetStakeBalance newState addr))\<rparr>],
        \<lparr>Diff_balance = Diff_balance diff + AS_GetBalance newState addr - AS_GetBalance prevState addr,
         Diff_stake = Diff_stake diff + AS_GetStakeBalance newState addr - AS_GetStakeBalance prevState addr\<rparr>)"

definition determineBalanceUpdates :: "ext \<Rightarrow> (bytes \<Rightarrow> address) \<Rightarrow> (address set \<Rightarrow> address list) \<Rightarrow> bool \<Rightarrow>
    address set option \<Rightarrow> bytes option list \<Rightarrow> app_state \<Rightarrow> app_state \<Rightarrow> (DbBalance list \<times> balanceDiff) option" where
  "determineBalanceUpdates e setBytes toSlice isFirstBlock balanceUpdateAddrs accountKeys prevState newState = do {
     addrs \<leftarrow> (if isFirstBlock
        then map_option Some (collectAccounts setBytes accountKeys (case balanceUpdateAddrs of None \<Rightarrow> {} | Some a \<Rightarrow> a))
        else Some balanceUpdateAddrs);
     let diff = \<lparr>Diff_balance = 0, Diff_stake = 0\<rparr>;
     Some (case addrs of None \<Rightarrow> ([], diff)
       | Some a \<Rightarrow> balanceLoop e prevState newState (toSlice a) ([], diff)) }"

section \<open>The wrapper keeps one row per pool\<close>

definition wrapper_ok :: "delegateeEpochRewardsWrapper \<Rightarrow> bool" where
  "wrapper_ok w \<longleftrightarrow>
     (\<forall>a i. W_indexesByDelegatee w a = Some i \<longleftrightarrow> i < length (W_rewards w) \<and> DeER_Address (W_rewards w ! i) = a)"

definition penalizedOf :: "delegateeEpochRewardsWrapper \<Rightarrow> address \<Rightarrow> uint32" where
  "penalizedOf w a = (case W_indexesByDelegatee w a of None \<Rightarrow> 0 | Some i \<Rightarrow> DeER_PenalizedDelegators (W_rewards w ! i))"

lemma wrapper_ok_new: "wrapper_ok newDelegateeEpochRewardsWrapper"
  by (simp add: wrapper_ok_def newDelegateeEpochRewardsWrapper_def)

lemma wrapper_ok_index: "wrapper_ok w \<Longrightarrow> W_indexesByDelegatee w a = Some i \<Longrightarrow>
    i < length (W_rewards w) \<and> DeER_Address (W_rewards w ! i) = a"
  unfolding wrapper_ok_def by blast

lemma wrapper_ok_distinct:
  assumes "wrapper_ok w"
  shows "distinct (map DeER_Address (W_rewards w))"
  unfolding distinct_conv_nth length_map
proof (intro allI impI)
  fix i j assume "i < length (W_rewards w)" "j < length (W_rewards w)" "i \<noteq> j"
  moreover from this have "W_indexesByDelegatee w (DeER_Address (W_rewards w ! i)) = Some i"
      "W_indexesByDelegatee w (DeER_Address (W_rewards w ! j)) = Some j"
    using assms by (simp_all add: wrapper_ok_def)
  ultimately show "map DeER_Address (W_rewards w) ! i \<noteq> map DeER_Address (W_rewards w) ! j" by auto
qed

lemma wrapper_ok_dom:
  assumes "wrapper_ok w"
  shows "dom (W_indexesByDelegatee w) = DeER_Address ` set (W_rewards w)"
proof -
  have "a \<in> dom (W_indexesByDelegatee w) \<longleftrightarrow> (\<exists>i. i < length (W_rewards w) \<and> DeER_Address (W_rewards w ! i) = a)" for a
    using assms by (simp add: wrapper_ok_def dom_def)
  moreover have "a \<in> DeER_Address ` set (W_rewards w) \<longleftrightarrow> (\<exists>i. i < length (W_rewards w) \<and> DeER_Address (W_rewards w ! i) = a)" for a
    by (auto simp: set_conv_nth)
  ultimately show ?thesis by blast
qed

lemma wrapperAppend_ok:
  assumes "wrapper_ok w" "W_indexesByDelegatee w (DeER_Address item) = None"
  shows "wrapper_ok (wrapperAppend item w)"
proof -
  have "\<not> (i < length (W_rewards w) \<and> DeER_Address (W_rewards w ! i) = DeER_Address item)" for i
    using assms unfolding wrapper_ok_def by (metis option.distinct(1))
  then show ?thesis
    using assms(1) by (auto simp: wrapper_ok_def wrapperAppend_def nth_append less_Suc_eq)
qed

lemma wrapperAppend_penalized:
  assumes "wrapper_ok w"
  shows "penalizedOf (wrapperAppend item w) a =
    (if a = DeER_Address item then DeER_PenalizedDelegators item else penalizedOf w a)"
  using wrapper_ok_index [OF assms]
  by (auto simp: penalizedOf_def wrapperAppend_def nth_append split: option.splits)

lemma incPenalizedDelegators_step:
  assumes ok: "wrapper_ok w"
  shows "\<exists>w'. incPenalizedDelegators d w = Some w' \<and> wrapper_ok w'
    \<and> dom (W_indexesByDelegatee w') = insert d (dom (W_indexesByDelegatee w))
    \<and> (\<forall>a. penalizedOf w' a = (if a = d then penalizedOf w a + 1 else penalizedOf w a))"
proof (cases "W_indexesByDelegatee w d")
  case None
  let ?item = "\<lparr>DeER_Address = d, DeER_TotalRewards = [], DeER_DelegatorRewards = [], DeER_PenalizedDelegators = 1\<rparr>"
  have "wrapper_ok (wrapperAppend ?item w)" using ok None by (intro wrapperAppend_ok) simp_all
  moreover have "dom (W_indexesByDelegatee (wrapperAppend ?item w)) = insert d (dom (W_indexesByDelegatee w))"
    by (simp add: wrapperAppend_def)
  moreover have "penalizedOf w d = 0" using None by (simp add: penalizedOf_def)
  then have "penalizedOf (wrapperAppend ?item w) a = (if a = d then penalizedOf w a + 1 else penalizedOf w a)" for a
    by (simp add: wrapperAppend_penalized [OF ok])
  ultimately show ?thesis using None by (simp add: incPenalizedDelegators_def)
next
  case (Some i)
  define rs where "rs = (W_rewards w)[i := (W_rewards w ! i)\<lparr>DeER_PenalizedDelegators :=
    DeER_PenalizedDelegators (W_rewards w ! i) + 1\<rparr>]"
  have i: "i < length (W_rewards w)" "DeER_Address (W_rewards w ! i) = d" using wrapper_ok_index [OF ok Some] by simp_all
  have rs: "length rs = length (W_rewards w)" "\<And>j. DeER_Address (rs ! j) = DeER_Address (W_rewards w ! j)"
      "\<And>j. DeER_PenalizedDelegators (rs ! j) =
        (if j = i then DeER_PenalizedDelegators (W_rewards w ! j) + 1 else DeER_PenalizedDelegators (W_rewards w ! j))"
    by (simp_all only: rs_def length_list_update nth_list_update [OF i(1)] DelegateeEpochRewards.simps if_distrib split: if_split) simp_all
  have inc: "incPenalizedDelegators d w = Some (w\<lparr>W_rewards := rs\<rparr>)"
    using Some i(1) by (simp add: incPenalizedDelegators_def rs_def)
  have "wrapper_ok (w\<lparr>W_rewards := rs\<rparr>)" using ok by (simp add: wrapper_ok_def rs(1,2))
  moreover have "penalizedOf (w\<lparr>W_rewards := rs\<rparr>) a = (if a = d then penalizedOf w a + 1 else penalizedOf w a)" for a
  proof (cases "W_indexesByDelegatee w a")
    case None
    with Some have "a \<noteq> d" by auto
    with None show ?thesis by (simp add: penalizedOf_def)
  next
    case (Some j)
    have "j = i \<longleftrightarrow> a = d"
      using wrapper_ok_index [OF ok Some] i \<open>W_indexesByDelegatee w d = Some i\<close> Some by (metis option.inject)
    with Some show ?thesis by (auto simp: penalizedOf_def rs(3))
  qed
  moreover have "dom (W_indexesByDelegatee (w\<lparr>W_rewards := rs\<rparr>)) = insert d (dom (W_indexesByDelegatee w))"
    using Some by (simp add: insert_absorb domI)
  ultimately show ?thesis using inc by simp
qed

interpretation wrapper: total_steps incPenalizedDelegators wrapper_ok
proof unfold_locales
  show "wrapper_ok s'" if "wrapper_ok s" "incPenalizedDelegators e s = Some s'" for s e s'
    using incPenalizedDelegators_step [OF that(1), of e] that(2) by auto
  show "\<exists>s'. incPenalizedDelegators e s = Some s'" if "wrapper_ok s" for s e
    using incPenalizedDelegators_step [OF that, of e] by blast
qed

lemma run_penalties:
  assumes "wrapper_ok w"
    and "run_steps incPenalizedDelegators ds w = Some w'"
  shows "dom (W_indexesByDelegatee w') = dom (W_indexesByDelegatee w) \<union> set ds
    \<and> penalizedOf w' a = penalizedOf w a + of_nat (count_list ds a)"
  using assms
proof (induction ds arbitrary: w)
  case Nil
  then show ?case by simp
next
  case (Cons d ds)
  obtain w1 where w1: "incPenalizedDelegators d w = Some w1" "wrapper_ok w1"
      "dom (W_indexesByDelegatee w1) = insert d (dom (W_indexesByDelegatee w))"
      "penalizedOf w1 a = (if a = d then penalizedOf w a + 1 else penalizedOf w a)"
    using incPenalizedDelegators_step [OF Cons.prems(1), of d] by auto
  with Cons.prems(2) have "run_steps incPenalizedDelegators ds w1 = Some w'" by simp
  from Cons.IH [OF w1(2) this] w1(3,4) show ?case by auto
qed

lemma convertDelegatees_fold:
  assumes "wrapper_ok w" "distinct (map fst xs)" "fst ` set xs \<inter> dom (W_indexesByDelegatee w) = {}"
  shows "wrapper_ok (fold (\<lambda>x w. wrapperAppend (convertDelegateeEpochRewards it x) w) xs w)
    \<and> W_rewards (fold (\<lambda>x w. wrapperAppend (convertDelegateeEpochRewards it x) w) xs w) =
        W_rewards w @ map (convertDelegateeEpochRewards it) xs
    \<and> dom (W_indexesByDelegatee (fold (\<lambda>x w. wrapperAppend (convertDelegateeEpochRewards it x) w) xs w)) =
        dom (W_indexesByDelegatee w) \<union> fst ` set xs
    \<and> (penalizedOf w = (\<lambda>_. 0) \<longrightarrow>
        penalizedOf (fold (\<lambda>x w. wrapperAppend (convertDelegateeEpochRewards it x) w) xs w) = (\<lambda>_. 0))"
  using assms
proof (induction xs arbitrary: w)
  case Nil
  then show ?case by simp
next
  case (Cons x xs)
  let ?w = "wrapperAppend (convertDelegateeEpochRewards it x) w"
  have fresh: "DeER_Address (convertDelegateeEpochRewards it x) = fst x" "DeER_PenalizedDelegators (convertDelegateeEpochRewards it x) = 0"
    by (simp_all add: convertDelegateeEpochRewards_def split_beta)
  have ok: "wrapper_ok ?w"
    using Cons.prems fresh by (intro wrapperAppend_ok) auto
  have app: "W_rewards ?w = W_rewards w @ [convertDelegateeEpochRewards it x]"
      "dom (W_indexesByDelegatee ?w) = insert (fst x) (dom (W_indexesByDelegatee w))"
    by (simp_all add: wrapperAppend_def fresh)
  have pen: "penalizedOf w = (\<lambda>_. 0) \<longrightarrow> penalizedOf ?w = (\<lambda>_. 0)"
    using wrapperAppend_penalized [OF Cons.prems(1)] fresh by (auto simp: fun_eq_iff)
  have "fst ` set xs \<inter> dom (W_indexesByDelegatee ?w) = {}" using Cons.prems(2,3) app(2) by auto
  from Cons.IH [OF ok _ this] Cons.prems(2) app pen show ?case by auto
qed

lemma convertDelegateesEpochRewards_ok:
  assumes "enumerates m (It_delegatees it m)"
  shows "wrapper_ok (convertDelegateesEpochRewards it m)"
    and "W_rewards (convertDelegateesEpochRewards it m) = map (convertDelegateeEpochRewards it) (It_delegatees it m)"
    and "dom (W_indexesByDelegatee (convertDelegateesEpochRewards it m)) = dom m"
    and "penalizedOf (convertDelegateesEpochRewards it m) a = 0"
proof -
  have "penalizedOf newDelegateeEpochRewardsWrapper = (\<lambda>_. 0)" "dom (W_indexesByDelegatee newDelegateeEpochRewardsWrapper) = {}"
      "W_rewards newDelegateeEpochRewardsWrapper = []"
    by (simp_all add: newDelegateeEpochRewardsWrapper_def penalizedOf_def fun_eq_iff)
  moreover have "distinct (map fst (It_delegatees it m))" "fst ` set (It_delegatees it m) = dom m"
    using assms dom_map_of_conv_image_fst [of "It_delegatees it m"] by (simp_all add: enumerates_def)
  ultimately show "wrapper_ok (convertDelegateesEpochRewards it m)"
    "W_rewards (convertDelegateesEpochRewards it m) = map (convertDelegateeEpochRewards it) (It_delegatees it m)"
    "dom (W_indexesByDelegatee (convertDelegateesEpochRewards it m)) = dom m"
    "penalizedOf (convertDelegateesEpochRewards it m) a = 0"
    using convertDelegatees_fold [OF wrapper_ok_new, of "It_delegatees it m" it]
    by (simp_all add: convertDelegateesEpochRewards_def)
qed

section \<open>The rows of a pool add up\<close>

lemma those_defined: "(\<exists>ys. those (map f xs) = Some ys) \<longleftrightarrow> (\<forall>x \<in> set xs. f x \<noteq> None)"
  by (induction xs) (auto split: option.splits)

definition rowsBalance :: "DelegationEpochReward list \<Rightarrow> byte \<Rightarrow> int" where
  "rowsBalance rows t = sum_list (map (\<lambda>r. zeroIfNil (DER_Balance r)) (filter (\<lambda>r. DER_Type r = t) rows))"

text \<open>The iteration orders visit every entry of the maps of pools, delegators and reward types.\<close>

definition iterates :: "iteration \<Rightarrow> (address \<rightharpoonup> StatsDelegateeEpochRewards) \<Rightarrow> bool" where
  "iterates it m \<longleftrightarrow> enumerates m (It_delegatees it m) \<and>
     (\<forall>d \<in> ran m. enumerates (SD_TotalRewards d) (It_rewardTypes it (SD_TotalRewards d)) \<and>
        enumerates (SD_DelegatorsEpochRewards d) (It_delegators it (SD_DelegatorsEpochRewards d)) \<and>
        (\<forall>r \<in> ran (SD_DelegatorsEpochRewards d). enumerates r (It_rewardTypes it r)))"

lemma convertRewardType_inj: "convertRewardType s = convertRewardType t \<longleftrightarrow> s = t"
  by (cases s; cases t; simp)

lemma rowsBalance_map_of:
  "distinct (map fst xs) \<Longrightarrow>
     rowsBalance (map convertDelegationEpochReward xs) (convertRewardType t) = fst (reward_amount (map_of xs t))"
proof (induction xs)
  case Nil
  then show ?case by (simp add: rowsBalance_def reward_amount_def)
next
  case (Cons x xs)
  show ?case
  proof (cases "fst x = t")
    case True
    with Cons.prems have "map_of xs t = None" by (auto simp: map_of_eq_None_iff)
    with Cons True show ?thesis
      by (simp add: rowsBalance_def convertDelegationEpochReward_def split_beta reward_amount_def)
  next
    case False
    with Cons show ?thesis
      by (simp add: rowsBalance_def convertDelegationEpochReward_def split_beta convertRewardType_inj)
  qed
qed

lemma rowsBalance_convert:
  assumes "enumerates m (It_rewardTypes it m)"
  shows "rowsBalance (map convertDelegationEpochReward (It_rewardTypes it m)) (convertRewardType t) = fst (reward_amount (m t))"
  using assms rowsBalance_map_of [of "It_rewardTypes it m" t] by (simp add: enumerates_def)

lemma sum_list_enumerates:
  assumes "enumerates m xs"
  shows "sum_list (map (\<lambda>x. f (fst x)) xs) = (\<Sum>k \<in> dom m. f k :: int)"
proof -
  have "dom m = fst ` set xs" using assms dom_map_of_conv_image_fst [of xs] by (simp add: enumerates_def)
  moreover have "distinct (map fst xs)" using assms by (simp add: enumerates_def)
  ultimately show ?thesis
    using sum_list_distinct_conv_sum_set [of "map fst xs" f] by (simp add: comp_def)
qed

lemma delegator_rows_sum:
  assumes "iterates it m" "m pool = Some d"
  shows "sum_list (map (\<lambda>r. rowsBalance (DrER_TotalRewards r) (convertRewardType t))
      (DeER_DelegatorRewards (convertDelegateeEpochRewards it (pool, d)))) =
    (\<Sum>p \<in> dom (SD_DelegatorsEpochRewards d). fst (delegatorReward d p t))"
proof -
  let ?ds = "It_delegators it (SD_DelegatorsEpochRewards d)"
  have en: "enumerates (SD_DelegatorsEpochRewards d) ?ds"
      "\<And>r. r \<in> ran (SD_DelegatorsEpochRewards d) \<Longrightarrow> enumerates r (It_rewardTypes it r)"
    using assms by (auto simp: iterates_def ran_def)
  have "rowsBalance (DrER_TotalRewards (convertDelegatorEpochRewards it x)) (convertRewardType t) =
      fst (delegatorReward d (fst x) t)" if "x \<in> set ?ds" for x
  proof -
    have "SD_DelegatorsEpochRewards d (fst x) = Some (snd x)"
      using en(1) that map_of_eq_Some_iff [of ?ds "fst x" "snd x"] by (auto simp: enumerates_def)
    moreover from this have "enumerates (snd x) (It_rewardTypes it (snd x))" by (intro en(2) ranI)
    ultimately show ?thesis
      by (simp add: convertDelegatorEpochRewards_def split_beta rowsBalance_convert delegatorReward_def)
  qed
  then have "sum_list (map (\<lambda>x. rowsBalance (DrER_TotalRewards (convertDelegatorEpochRewards it x)) (convertRewardType t)) ?ds) =
      sum_list (map (\<lambda>x. fst (delegatorReward d (fst x) t)) ?ds)"
    by (rule sum_list_map_cong_le)
  then show ?thesis
    using sum_list_enumerates [OF en(1), of "\<lambda>p. fst (delegatorReward d p t)"]
    by (simp add: convertDelegateeEpochRewards_def comp_def)
qed

lemma pool_rows_balanced:
  assumes "delegatees_inv s" "S_RewardsStats (stats s) = Some r" "iterates it (R_DelegateesEpochRewards r)"
    and "row \<in> set (W_rewards (convertDelegateesEpochRewards it (R_DelegateesEpochRewards r)))"
  shows "rowsBalance (DeER_TotalRewards row) (convertRewardType t) =
    sum_list (map (\<lambda>p. rowsBalance (DrER_TotalRewards p) (convertRewardType t)) (DeER_DelegatorRewards row))"
proof -
  let ?m = "R_DelegateesEpochRewards r"
  have en: "enumerates ?m (It_delegatees it ?m)" using assms(3) by (simp add: iterates_def)
  then obtain pool d where row: "row = convertDelegateeEpochRewards it (pool, d)" "(pool, d) \<in> set (It_delegatees it ?m)"
    using assms(4) by (auto simp: convertDelegateesEpochRewards_ok(2))
  then have d: "?m pool = Some d"
    using en map_of_eq_Some_iff [of "It_delegatees it ?m" pool d] by (simp add: enumerates_def)
  then have ok: "delegatee_ok d" using assms(1,2) by (auto simp: delegatees_inv_def rewardsOf_def)
  have "enumerates (SD_TotalRewards d) (It_rewardTypes it (SD_TotalRewards d))"
    using assms(3) d by (auto simp: iterates_def ran_def)
  then have "rowsBalance (DeER_TotalRewards row) (convertRewardType t) = fst (reward_amount (SD_TotalRewards d t))"
    by (simp add: row(1) convertDelegateeEpochRewards_def rowsBalance_convert)
  also have "\<dots> = (\<Sum>p \<in> dom (SD_DelegatorsEpochRewards d). fst (delegatorReward d p t))"
    using ok by (simp add: delegatee_ok_def)
  finally show ?thesis using delegator_rows_sum [OF assms(3) d, of t] row(1) by simp
qed

section \<open>Reward bounds are minima and maxima\<close>

type_synonym bound_call = "address \<times> uint64 \<times> bigint"

definition bound_step :: "bound_call \<Rightarrow> (byte \<rightharpoonup> RewardBounds) \<Rightarrow> (byte \<rightharpoonup> RewardBounds) option" where
  "bound_step = (\<lambda>(a, age, amount). addIfBound a age amount)"

text \<open>The non-zero amounts of a bound type among the calls, with their addresses.\<close>

definition boundPairs :: "bound_call list \<Rightarrow> byte \<Rightarrow> (address \<times> int) list" where
  "boundPairs calls t = concat (map (\<lambda>(a, age, amount). case amount of None \<Rightarrow> []
     | Some v \<Rightarrow> if v \<noteq> 0 \<and> determineRewardBoundType age = t then [(a, v)] else []) calls)"

definition bounds_of :: "(address \<times> int) list \<Rightarrow> byte \<Rightarrow> RewardBounds option \<Rightarrow> bool" where
  "bounds_of pairs t b \<longleftrightarrow> (case b of None \<Rightarrow> pairs = []
     | Some b \<Rightarrow> RBs_Type b = t \<and> (\<exists>lo aLo hi aHi. RBs_Min b = Some \<lparr>RB_Amount = Some lo, RB_Address = aLo\<rparr>
         \<and> RBs_Max b = Some \<lparr>RB_Amount = Some hi, RB_Address = aHi\<rparr>
         \<and> (aLo, lo) \<in> set pairs \<and> (aHi, hi) \<in> set pairs \<and> (\<forall>v \<in> snd ` set pairs. lo \<le> v \<and> v \<le> hi)))"

lemma boundPairs_snoc:
  "boundPairs (calls @ [(a, age, amount)]) t = boundPairs calls t @
     (if zeroOrNil amount \<or> determineRewardBoundType age \<noteq> t then [] else [(a, zeroIfNil amount)])"
  by (cases amount) (simp_all add: boundPairs_def)

lemma addIfBound_step:
  assumes "\<And>t. bounds_of (boundPairs calls t) t (rb t)"
  shows "\<exists>rb'. addIfBound a age amount rb = Some rb' \<and>
    (\<forall>t. bounds_of (boundPairs (calls @ [(a, age, amount)]) t) t (rb' t))"
proof (cases amount)
  case None
  then show ?thesis using assms by (simp add: addIfBound_def boundPairs_snoc)
next
  case (Some v)
  let ?t = "determineRewardBoundType age"
  show ?thesis
  proof (cases "v = 0")
    case True
    then show ?thesis using Some assms by (simp add: addIfBound_def boundPairs_snoc)
  next
    case False
    show ?thesis
    proof (cases "rb ?t")
      case None
      with assms [of ?t] have "boundPairs calls ?t = []" by (simp add: bounds_of_def)
      moreover have "bounds_of [(a, v)] ?t (Some \<lparr>RBs_Type = ?t, RBs_Min = Some \<lparr>RB_Amount = amount, RB_Address = a\<rparr>,
          RBs_Max = Some \<lparr>RB_Amount = amount, RB_Address = a\<rparr>\<rparr>)"
        using Some by (simp add: bounds_of_def)
      ultimately show ?thesis using None False Some assms by (simp add: addIfBound_def Let_def boundPairs_snoc)
    next
      case (Some b)
      with assms [of ?t] obtain lo aLo hi aHi where b: "RBs_Type b = ?t"
          "RBs_Min b = Some \<lparr>RB_Amount = Some lo, RB_Address = aLo\<rparr>"
          "RBs_Max b = Some \<lparr>RB_Amount = Some hi, RB_Address = aHi\<rparr>"
          "(aLo, lo) \<in> set (boundPairs calls ?t)" "(aHi, hi) \<in> set (boundPairs calls ?t)"
          "\<forall>v \<in> snd ` set (boundPairs calls ?t). lo \<le> v \<and> v \<le> hi"
        by (auto simp: bounds_of_def)
      define b' where "b' = b\<lparr>RBs_Min := Some (if v < lo then \<lparr>RB_Amount = Some v, RB_Address = a\<rparr> else \<lparr>RB_Amount = Some lo, RB_Address = aLo\<rparr>),
        RBs_Max := Some (if hi < v then \<lparr>RB_Amount = Some v, RB_Address = a\<rparr> else \<lparr>RB_Amount = Some hi, RB_Address = aHi\<rparr>)\<rparr>"
      have "addIfBound a age amount rb = Some (rb(?t \<mapsto> b'))"
        using \<open>amount = Some v\<close> False Some b(2,3) by (auto simp: addIfBound_def Let_def b'_def)
      moreover have "bounds_of (boundPairs calls ?t @ [(a, v)]) ?t (Some b')"
        using b by (auto simp: bounds_of_def b'_def)
      ultimately show ?thesis
        using \<open>amount = Some v\<close> False assms by (simp add: boundPairs_snoc)
    qed
  qed
qed

lemma bound_run:
  assumes "\<And>t. bounds_of (boundPairs before t) t (rb t)"
  shows "\<exists>rb'. run_steps bound_step calls rb = Some rb' \<and> (\<forall>t. bounds_of (boundPairs (before @ calls) t) t (rb' t))"
  using assms
proof (induction calls arbitrary: before rb)
  case Nil
  then show ?case by simp
next
  case (Cons c calls)
  obtain a age amount where c: "c = (a, age, amount)" by (cases c)
  have "\<exists>rb1. bound_step c rb = Some rb1 \<and> (\<forall>t. bounds_of (boundPairs (before @ [c]) t) t (rb1 t))"
    using addIfBound_step [OF Cons.prems, of a age amount] by (simp add: c bound_step_def)
  then obtain rb1 where rb1: "bound_step c rb = Some rb1"
      "\<And>t. bounds_of (boundPairs (before @ [c]) t) t (rb1 t)"
    by blast
  from Cons.IH [OF rb1(2)] rb1(1) show ?case by simp
qed

section \<open>Balance totals\<close>

lemma balanceLoop_diff:
  "snd (balanceLoop e p n addrs (res, diff)) =
     \<lparr>Diff_balance = Diff_balance diff + sum_list (map (\<lambda>a. AS_GetBalance n a - AS_GetBalance p a) addrs),
      Diff_stake = Diff_stake diff + sum_list (map (\<lambda>a. AS_GetStakeBalance n a - AS_GetStakeBalance p a) addrs)\<rparr>"
  by (induction addrs arbitrary: res diff) (simp_all add: algebra_simps)

lemma balanceLoop_rows:
  "fst (balanceLoop e p n addrs (res, diff)) = res @ map (\<lambda>a. \<lparr>DB_Address = ConvertAddress e a, DB_TxHash = [],
      DB_Balance = X_convertToFloat e (Some (AS_GetBalance n a)),
      DB_Stake = X_convertToFloat e (Some (AS_GetStakeBalance n a))\<rparr>) addrs"
  by (induction addrs arbitrary: res diff) simp_all

lemma sum_changes:
  fixes f g :: "address \<Rightarrow> int"
  assumes "distinct xs" "set xs \<subseteq> U" "finite U" "\<And>a. a \<in> U - set xs \<Longrightarrow> g a = f a"
  shows "(\<Sum>a \<in> U. g a) = (\<Sum>a \<in> U. f a) + sum_list (map (\<lambda>a. g a - f a) xs)"
proof -
  have "(\<Sum>a \<in> U. g a) - (\<Sum>a \<in> U. f a) = (\<Sum>a \<in> U. g a - f a)" by (simp add: sum_subtractf)
  also have "\<dots> = (\<Sum>a \<in> set xs. g a - f a)" using assms by (intro sum.mono_neutral_right) auto
  also have "\<dots> = sum_list (map (\<lambda>a. g a - f a) xs)" using assms(1) by (simp add: sum_list_distinct_conv_sum_set)
  finally show ?thesis by simp
qed

section \<open>Properties\<close>

lemma detect_defined:
  assumes "ledger_inv s"
  shows "\<exists>rows addrs w. detectEpochRewards e it True s = Some (rows, addrs, w)
    \<and> W_rewards w = (case S_RewardsStats (stats s) of None \<Rightarrow> []
        | Some r \<Rightarrow> W_rewards (convertDelegateesEpochRewards it (R_DelegateesEpochRewards r)))"
proof (cases "S_RewardsStats (stats s)")
  case None
  then show ?thesis by (simp add: detectEpochRewards_def newDelegateeEpochRewardsWrapper_def)
next
  case (Some r)
  have "wf_index reward_key (R_Rewards r) (\<lambda>(t, a). ledger_index s t a) (rewardStore s)"
    using assms Some by (simp add: ledger_inv_def ledger_wf_def ledger_refs_def rewardsOf_def)
  then have "\<forall>p \<in> set (R_Rewards r). deref (rewardStore s) p \<noteq> None"
    unfolding wf_index_def by (elim conjE)
  then obtain rewards where rewards: "those (map (deref (rewardStore s)) (R_Rewards r)) = Some rewards"
    using those_defined [of "deref (rewardStore s)" "R_Rewards r"] by (elim iffD2 [THEN exE])
  obtain vs fs addrs where "convertRewards e rewards = (vs, fs, addrs)" by (cases "convertRewards e rewards")
  with Some rewards show ?thesis by (simp add: detectEpochRewards_def)
qed

text \<open>Listing a map along a list of keys; an iteration order for concrete inputs.\<close>

definition listing :: "'k list \<Rightarrow> ('k \<rightharpoonup> 'v) \<Rightarrow> ('k \<times> 'v) list" where
  "listing ks m = concat (map (\<lambda>k. case m k of None \<Rightarrow> [] | Some v \<Rightarrow> [(k, v)]) ks)"

lemma map_of_listing: "map_of (listing ks m) k = (if k \<in> set ks then m k else None)"
  by (induction ks) (auto simp: listing_def split: option.splits)

lemma fst_listing: "map fst (listing ks m) = filter (\<lambda>k. m k \<noteq> None) ks"
  by (induction ks) (auto simp: listing_def split: option.splits)

lemma enumerates_listing:
  assumes "distinct ks" "dom m \<subseteq> set ks"
  shows "enumerates m (listing ks m)"
proof -
  have "map_of (listing ks m) k = m k" for k
    using assms(2) by (cases "m k") (auto simp: map_of_listing)
  then show ?thesis using assms(1) by (auto simp: enumerates_def fst_listing fun_eq_iff)
qed

definition sampleIteration :: iteration where
  "sampleIteration = \<lparr>It_validationResults = listing [1], It_savedInvites = listing [7, 8],
     It_savedInviteTypes = listing [RtSavedInvite, RtSavedInviteWin], It_delegatees = listing [7, 8],
     It_delegators = listing [7, 8], It_rewardTypes = listing [RtValidation, RtFlips]\<rparr>"

definition samplePool :: StatsDelegateeEpochRewards where
  "samplePool = incDelegatee 7 RtValidation 10 0 \<lparr>SD_TotalRewards = Map.empty, SD_DelegatorsEpochRewards = Map.empty\<rparr>"

lemma sample_pools:
  "R_DelegateesEpochRewards (rewardsOf (AddValidationReward e 8 7 age (Some 10) (Some 3) (SetValidation v emptySession))) = [8 \<mapsto> samplePool]"
proof -
  have "R_DelegateesEpochRewards (rewardsOf (SetValidation v emptySession)) = Map.empty"
    by (simp add: rewardsOf_def SetValidation_def emptySession_def emptyStats_def emptyRewardsStats_def)
  then show ?thesis
    by (simp add: AddValidationReward_def addRewardWithDelegatee_def addDelegateeReward_def frame_simps samplePool_def Let_def)
qed

lemma sample_iterates: "iterates sampleIteration [8 \<mapsto> samplePool]"
proof -
  have "enumerates [8 \<mapsto> samplePool] (listing [7, 8 :: address] [8 \<mapsto> samplePool])"
    by (rule enumerates_listing) simp_all
  moreover have "enumerates m (listing [RtValidation, RtFlips] m)" if "dom m \<subseteq> {RtValidation}" for m :: "RewardType \<rightharpoonup> EpochReward"
    using that by (intro enumerates_listing) auto
  moreover have "enumerates m (listing [7, 8 :: address] m)" if "dom m \<subseteq> {7}" for m :: "address \<rightharpoonup> DelegatorEpochRewards"
    using that by (intro enumerates_listing) auto
  ultimately show ?thesis
    by (simp add: iterates_def sampleIteration_def samplePool_def incDelegatee_def incEpochReward_def Let_def)
qed

text \<open>C17: after any sequence of reward calls \<open>detectEpochRewards\<close> does not panic, and in the rows it
  writes the total of a pool for a reward type is the sum of the amounts of that type in the rows
  of its delegators, whatever the order in which the maps are iterated.\<close>

theorem pool_rows_add_up:
  assumes "run_steps (reward_step e conf) calls (SetValidation v emptySession) = Some s"
    and "iterates it (R_DelegateesEpochRewards (rewardsOf s))"
  shows "\<exists>rows addrs w. detectEpochRewards e it True s = Some (rows, addrs, w)
    \<and> (\<forall>row \<in> set (W_rewards w). rowsBalance (DeER_TotalRewards row) (convertRewardType t) =
        sum_list (map (\<lambda>p. rowsBalance (DrER_TotalRewards p) (convertRewardType t)) (DeER_DelegatorRewards row)))"
proof -
  obtain rows addrs w where d: "detectEpochRewards e it True s = Some (rows, addrs, w)"
      "W_rewards w = (case S_RewardsStats (stats s) of None \<Rightarrow> []
        | Some r \<Rightarrow> W_rewards (convertDelegateesEpochRewards it (R_DelegateesEpochRewards r)))"
    using detect_defined [OF ledger.run_inv [OF ledger_inv_start assms(1)]] by blast
  show ?thesis
  proof (cases "S_RewardsStats (stats s)")
    case None
    with d show ?thesis by simp
  next
    case (Some r)
    then have "iterates it (R_DelegateesEpochRewards r)" using assms(2) by (simp add: rewardsOf_def)
    note rows = pool_rows_balanced [OF pools.run_inv [OF delegatees_inv_start assms(1)] Some this]
    have w: "W_rewards w = W_rewards (convertDelegateesEpochRewards it (R_DelegateesEpochRewards r))"
      using d(2) Some by simp
    show ?thesis
      by (intro exI conjI, rule d(1), rule ballI, rule rows) (simp add: w)
  qed
qed

theorem pool_rows_add_up_witness:
  "\<exists>rows addrs w. detectEpochRewards sampleExt sampleIteration True
      (AddValidationReward sampleExt 8 7 1 (Some 10) (Some 3) (SetValidation None emptySession)) = Some (rows, addrs, w)
    \<and> (\<forall>row \<in> set (W_rewards w). rowsBalance (DeER_TotalRewards row) 0 =
        sum_list (map (\<lambda>p. rowsBalance (DrER_TotalRewards p) 0) (DeER_DelegatorRewards row)))"
proof -
  let ?s = "AddValidationReward sampleExt 8 7 1 (Some 10) (Some 3) (SetValidation None emptySession)"
  have "run_steps (reward_step sampleExt sampleConf) [CallValidation 8 7 1 (Some 10) (Some 3)]
      (SetValidation None emptySession) = Some ?s"
    by simp
  from pool_rows_add_up [OF this, of sampleIteration RtValidation] show ?thesis
    by (simp add: sample_pools sample_iterates)
qed

text \<open>the wrapper of the pools' rewards has one row per pool with a reward or a penalized
  delegator, in whatever order penalties come; no call of \<open>incPenalizedDelegators\<close> indexes out of
  range, and the counter of a pool is the number of its penalized delegators modulo \<open>2 ^ 32\<close>.\<close>

theorem penalized_delegators_counted:
  assumes "enumerates m (It_delegatees it m)"
  shows "\<exists>w. run_steps incPenalizedDelegators pools (convertDelegateesEpochRewards it m) = Some w
    \<and> distinct (map DeER_Address (W_rewards w))
    \<and> DeER_Address ` set (W_rewards w) = dom m \<union> set pools
    \<and> (\<forall>a. penalizedOf w a = of_nat (count_list pools a))"
proof -
  note c = convertDelegateesEpochRewards_ok [OF assms]
  obtain w where w: "run_steps incPenalizedDelegators pools (convertDelegateesEpochRewards it m) = Some w"
    using wrapper.run_defined [OF c(1)] by blast
  have ok: "wrapper_ok w" by (rule wrapper.run_inv [OF c(1) w])
  with w run_penalties [OF c(1) w] c(3,4) show ?thesis
    by (auto simp: wrapper_ok_distinct wrapper_ok_dom [OF ok, symmetric])
qed

theorem penalized_delegators_counted_witness:
  "\<exists>w. run_steps incPenalizedDelegators [8, 9, 8] (convertDelegateesEpochRewards sampleIteration [8 \<mapsto> samplePool]) = Some w
    \<and> penalizedOf w 8 = 2 \<and> penalizedOf w 9 = 1 \<and> DeER_Address ` set (W_rewards w) = {8, 9}"
proof -
  have "enumerates [8 \<mapsto> samplePool] (It_delegatees sampleIteration [8 \<mapsto> samplePool])"
    using sample_iterates by (simp add: iterates_def)
  from penalized_delegators_counted [OF this, of "[8, 9, 8]"] show ?thesis by auto
qed

text \<open>after any sequence of \<open>addIfBound\<close> calls the bounds of an age type are present exactly
  when a non-zero amount of that type was added, and they are its smallest and its largest amount,
  each with an address that was added with it; no call panics.\<close>

theorem reward_bounds_are_extremes:
  "\<exists>rb. run_steps bound_step calls Map.empty = Some rb
    \<and> (\<forall>t. bounds_of (boundPairs calls t) t (rb t))"
  using bound_run [of "[]" Map.empty calls] by (simp add: bounds_of_def boundPairs_def)

text \<open>when every account whose balance differs between two states is in the set of updated
  addresses, adding the difference returned by \<open>determineBalanceUpdates\<close> to the total of the
  previous state gives the total of the new state, for balances and for stakes, and there is one
  row for each updated address.\<close>

theorem balance_totals_follow_diff:
  assumes "determineBalanceUpdates e setBytes toSlice False (Some addrs) keys prevState newState = Some (rows, diff)"
    and "set (toSlice addrs) = addrs" "distinct (toSlice addrs)" "finite U" "addrs \<subseteq> U"
    and "\<And>a. a \<in> U - addrs \<Longrightarrow> AS_GetBalance newState a = AS_GetBalance prevState a
      \<and> AS_GetStakeBalance newState a = AS_GetStakeBalance prevState a"
  shows "(\<Sum>a \<in> U. AS_GetBalance prevState a) + Diff_balance diff = (\<Sum>a \<in> U. AS_GetBalance newState a)
    \<and> (\<Sum>a \<in> U. AS_GetStakeBalance prevState a) + Diff_stake diff = (\<Sum>a \<in> U. AS_GetStakeBalance newState a)
    \<and> map DB_Address rows = map (ConvertAddress e) (toSlice addrs)"
proof -
  define loop where "loop = balanceLoop e prevState newState (toSlice addrs) ([], \<lparr>Diff_balance = 0, Diff_stake = 0\<rparr>)"
  have loop: "rows = fst loop" "diff = snd loop"
    using assms(1) by (simp_all add: determineBalanceUpdates_def loop_def)
  have "(\<Sum>a \<in> U. AS_GetBalance newState a) = (\<Sum>a \<in> U. AS_GetBalance prevState a) +
      sum_list (map (\<lambda>a. AS_GetBalance newState a - AS_GetBalance prevState a) (toSlice addrs))"
    "(\<Sum>a \<in> U. AS_GetStakeBalance newState a) = (\<Sum>a \<in> U. AS_GetStakeBalance prevState a) +
      sum_list (map (\<lambda>a. AS_GetStakeBalance newState a - AS_GetStakeBalance prevState a) (toSlice addrs))"
    using assms(2-6) by (intro sum_changes; simp)+
  then show ?thesis by (simp add: loop loop_def balanceLoop_diff balanceLoop_rows comp_def)
qed

theorem balance_totals_follow_diff_witness:
  "\<exists>rows diff. determineBalanceUpdates sampleExt (\<lambda>_. 0) (\<lambda>_. [2]) False (Some {2}) [] sampleApp
      (sampleApp\<lparr>AS_GetBalance := (\<lambda>a. if a = 2 then 5 else 0)\<rparr>) = Some (rows, diff)
    \<and> Diff_balance diff = 5 \<and> map DB_Address rows = [ConvertAddress sampleExt 2]"
proof -
  let ?new = "sampleApp\<lparr>AS_GetBalance := (\<lambda>a. if a = 2 then 5 else 0)\<rparr>"
  obtain rows diff where r: "determineBalanceUpdates sampleExt (\<lambda>_. 0) (\<lambda>_. [2]) False (Some {2}) [] sampleApp ?new =
      Some (rows, diff)"
    by (simp add: determineBalanceUpdates_def)
  have "(\<Sum>a \<in> {1, 2}. AS_GetBalance sampleApp a) + Diff_balance diff = (\<Sum>a \<in> {1, 2}. AS_GetBalance ?new a)
    \<and> (\<Sum>a \<in> {1, 2}. AS_GetStakeBalance sampleApp a) + Diff_stake diff = (\<Sum>a \<in> {1, 2}. AS_GetStakeBalance ?new a)
    \<and> map DB_Address rows = map (ConvertAddress sampleExt) [2]"
    by (rule balance_totals_follow_diff [OF r]) (auto simp: sampleApp_def)
  with r show ?thesis by (simp add: sampleApp_def)
qed

end
