(* ===== verification/Validation_Summary.thy ===== *)
theory Validation_Summary
  imports Reward_Properties
begin

text \<open>
  The summary of the rewards an identity earned and missed in a validation:
  \<open>src/indexer/validation_summary.go\<close>. A \<open>uint8\<close> is an 8-bit word, so the subtractions of flip
  counts wrap as they do in the code. \<open>gradeReported\<close> is the node's constant \<open>GradeReported\<close>;
  the shards of the validation statistics come as an association list in the order of the
  iteration.
\<close>

section \<open>Constants and the calculator\<close>

definition missedRewardReasonEmpty :: byte where "missedRewardReasonEmpty = 0"
definition missedRewardReasonPenalty :: byte where "missedRewardReasonPenalty = 1"
definition missedRewardReasonNotValidated :: byte where "missedRewardReasonNotValidated = 2"
definition missedRewardReasonMissedValidation :: byte where "missedRewardReasonMissedValidation = 3"
definition missedRewardReasonNotAllFlips :: byte where "missedRewardReasonNotAllFlips = 4"
definition missedRewardReasonNotAllReports :: byte where "missedRewardReasonNotAllReports = 5"
definition missedRewardReasonIgnoredGrades :: byte where "missedRewardReasonIgnoredGrades = 10"
definition requiredFlips :: byte where "requiredFlips = 3"

lemmas missed_reasons = missedRewardReasonEmpty_def missedRewardReasonPenalty_def
  missedRewardReasonNotValidated_def missedRewardReasonMissedValidation_def
  missedRewardReasonNotAllFlips_def missedRewardReasonNotAllReports_def missedRewardReasonIgnoredGrades_def

record validationRewardSummariesCalculator =
  VC_initialized :: bool
  VC_rewardsStats :: RewardsStats
  VC_rewards :: "RewardStats list"
  VC_validationStats :: "(uint32 \<times> ShardStats) list option"
  VC_rewardsByAddrAndType :: "address \<rightharpoonup> (RewardType \<rightharpoonup> int)"
  VC_rewardedReportedFlipsByAddr :: "string \<rightharpoonup> string set"
  VC_flipsWithReportConsensusByRespondent :: "address \<rightharpoonup> string list"
  VC_rewardedFlips :: "string set"
  VC_rewardedExtraFlips :: "string set"
  VC_consensusConfig :: ConsensusConf

text \<open>\<open>VC_rewards\<close> are the objects the pointers of \<open>VC_rewardsStats\<close> lead to.\<close>

definition newValidationRewardSummariesCalculator ::
    "RewardsStats \<Rightarrow> RewardStats list \<Rightarrow> (uint32 \<times> ShardStats) list option \<Rightarrow> ConsensusConf \<Rightarrow>
     validationRewardSummariesCalculator" where
  "newValidationRewardSummariesCalculator rewardsStats rewards validationStats conf =
     \<lparr>VC_initialized = False, VC_rewardsStats = rewardsStats, VC_rewards = rewards,
      VC_validationStats = validationStats, VC_rewardsByAddrAndType = Map.empty,
      VC_rewardedReportedFlipsByAddr = Map.empty, VC_flipsWithReportConsensusByRespondent = Map.empty,
      VC_rewardedFlips = {}, VC_rewardedExtraFlips = {}, VC_consensusConfig = conf\<rparr>"

section \<open>Initialisation\<close>

text \<open>A later reward of the same address and type overwrites an earlier one.\<close>

definition indexReward :: "RewardStats \<Rightarrow> (address \<rightharpoonup> (RewardType \<rightharpoonup> int)) \<Rightarrow> (address \<rightharpoonup> (RewardType \<rightharpoonup> int))" where
  "indexReward reward m =
     (let byType = (case m (RS_Address reward) of None \<Rightarrow> Map.empty | Some t \<Rightarrow> t)
      in m(RS_Address reward \<mapsto> byType(RS_Type reward \<mapsto> RS_Balance reward + RS_Stake reward)))"

definition indexReportedFlip :: "ReportedFlipReward \<Rightarrow> (string \<rightharpoonup> string set) \<Rightarrow> (string \<rightharpoonup> string set)" where
  "indexReportedFlip r m = m(RFR_Address r \<mapsto>
     insert (RFR_Cid r) (case m (RFR_Address r) of None \<Rightarrow> {} | Some cids \<Rightarrow> cids))"

text \<open>
  The flips of a respondent that were reported by consensus. A flip that has statistics but no cid
  at its index panics; a cid that does not parse is skipped.
\<close>

fun reportConsensusFlips :: "ext \<Rightarrow> byte \<Rightarrow> ShardStats \<Rightarrow> nat list \<Rightarrow> string list option" where
  "reportConsensusFlips e gradeReported shard [] = Some []"
| "reportConsensusFlips e gradeReported shard (flip # flips) =
     (case map_of (ShS_FlipGrades shard) flip of
        Some grade \<Rightarrow>
          (if grade = gradeReported then
             (if flip < length (ShS_FlipCids shard) then
                (case X_cidParse e (ShS_FlipCids shard ! flip) of
                   None \<Rightarrow> reportConsensusFlips e gradeReported shard flips
                 | Some cid \<Rightarrow> map_option ((#) cid) (reportConsensusFlips e gradeReported shard flips))
              else None)
           else reportConsensusFlips e gradeReported shard flips)
      | None \<Rightarrow> reportConsensusFlips e gradeReported shard flips)"

fun indexRespondents :: "ext \<Rightarrow> byte \<Rightarrow> ShardStats \<Rightarrow> (address \<times> nat list) list \<Rightarrow>
    (address \<rightharpoonup> string list) \<Rightarrow> (address \<rightharpoonup> string list) option" where
  "indexRespondents e gradeReported shard [] m = Some m"
| "indexRespondents e gradeReported shard ((address, flips) # rest) m = do {
     cids \<leftarrow> reportConsensusFlips e gradeReported shard flips;
     indexRespondents e gradeReported shard rest (m(address \<mapsto> cids)) }"

fun indexShards :: "ext \<Rightarrow> byte \<Rightarrow> (uint32 \<times> ShardStats) list \<Rightarrow> (address \<rightharpoonup> string list) \<Rightarrow> (address \<rightharpoonup> string list) option" where
  "indexShards e gradeReported [] m = Some m"
| "indexShards e gradeReported ((shardId, shard) # shards) m = do {
     m1 \<leftarrow> indexRespondents e gradeReported shard (ShS_LongFlipsToSolve shard) m;
     indexShards e gradeReported shards m1 }"

definition calculatorInit :: "ext \<Rightarrow> byte \<Rightarrow> validationRewardSummariesCalculator \<Rightarrow>
    validationRewardSummariesCalculator option" where
  "calculatorInit e gradeReported c = do {
     respondents \<leftarrow> (case VC_validationStats c of None \<Rightarrow> Some Map.empty
        | Some shards \<Rightarrow> indexShards e gradeReported shards Map.empty);
     Some (c\<lparr>VC_rewardsByAddrAndType := fold indexReward (VC_rewards c) Map.empty,
       VC_rewardedReportedFlipsByAddr := fold indexReportedFlip (R_ReportedFlipRewards (VC_rewardsStats c)) Map.empty,
       VC_flipsWithReportConsensusByRespondent := respondents,
       VC_rewardedFlips := set (R_RewardedFlipCids (VC_rewardsStats c)),
       VC_rewardedExtraFlips := set (R_RewardedExtraFlipCids (VC_rewardsStats c))\<rparr>) }"

section \<open>One kind of reward\<close>

definition missedRewardReasonOrNil :: "byte \<Rightarrow> byte option" where
  "missedRewardReasonOrNil value = (if value = missedRewardReasonEmpty then None else Some value)"

definition positive :: "bigint \<Rightarrow> bool" where
  "positive v = (case v of None \<Rightarrow> False | Some n \<Rightarrow> n > 0)"

definition stakeWeight :: "ext \<Rightarrow> bigint \<Rightarrow> float32" where
  "stakeWeight e amount = X_f32 e (X_pow e (X_f64 e (X_convertToFloat e amount)) (X_f64 e (9 / 10)))"

definition getRewardedFlips :: "ext \<Rightarrow> bytes list \<Rightarrow> string set \<Rightarrow> byte" where
  "getRewardedFlips e identityFlips rewardedFlips = fold (\<lambda>cid res. case X_cidParse e cid of
       None \<Rightarrow> res
     | Some cidStr \<Rightarrow> if cidStr \<in> rewardedFlips then res + 1 else res) identityFlips 0"

definition calculateValidationRewardSummary :: "ext \<Rightarrow> bigint \<Rightarrow> identity_state \<Rightarrow> bool \<Rightarrow> uint16 \<Rightarrow> bigint \<Rightarrow>
    ValidationRewardSummary" where
  "calculateValidationRewardSummary e reward newState penalized age share =
     (let ageCoef = X_f32 e (X_pow e (of_nat (unat age)) (X_f64 e (1 / 3)));
          missed = (case share of
              Some sh \<Rightarrow> if \<not> X_newbieOrBetter e newState \<or> penalized
                then Some (X_toInt e (of_int sh * X_fromFloat32 e ageCoef)) else None
            | None \<Rightarrow> None);
          missedReason = (if positive missed
            then (if penalized then missedRewardReasonPenalty else missedRewardReasonNotValidated)
            else missedRewardReasonEmpty)
      in \<lparr>VRS_Earned = reward, VRS_Missed = missed, VRS_MissedReason = missedRewardReasonOrNil missedReason\<rparr>)"

definition calculateCandidateRewardSummary :: "ext \<Rightarrow> bigint \<Rightarrow> identity_state \<Rightarrow> identity_state \<Rightarrow> bool \<Rightarrow> bigint \<Rightarrow>
    ValidationRewardSummary" where
  "calculateCandidateRewardSummary e reward prevState newState penalized share =
     (let missed = (if share \<noteq> None \<and> prevState = CandidateSt \<and> (\<not> X_newbieOrBetter e newState \<or> penalized)
            then share else None);
          missedReason = (if positive missed
            then (if penalized then missedRewardReasonPenalty else missedRewardReasonNotValidated)
            else missedRewardReasonEmpty)
      in \<lparr>VRS_Earned = reward, VRS_Missed = missed, VRS_MissedReason = missedRewardReasonOrNil missedReason\<rparr>)"

definition calculateStakingRewardSummary :: "ext \<Rightarrow> bigint \<Rightarrow> identity_state \<Rightarrow> bool \<Rightarrow> bigint \<Rightarrow> bigint \<Rightarrow>
    ValidationRewardSummary" where
  "calculateStakingRewardSummary e reward newState penalized share stake =
     (let missed = (case share of
              Some sh \<Rightarrow> if positive stake \<and> (\<not> X_newbieOrBetter e newState \<or> penalized)
                then Some (X_toInt e (of_int sh * X_fromFloat32 e (stakeWeight e stake))) else None
            | None \<Rightarrow> None);
          missedReason = (if positive missed
            then (if penalized then missedRewardReasonPenalty else missedRewardReasonNotValidated)
            else missedRewardReasonEmpty)
      in \<lparr>VRS_Earned = reward, VRS_Missed = missed, VRS_MissedReason = missedRewardReasonOrNil missedReason\<rparr>)"

text \<open>The reason of missed flip rewards, shared by the two flip summaries.\<close>

definition missedFlipsReason :: "bigint \<Rightarrow> bool \<Rightarrow> bool \<Rightarrow> byte" where
  "missedFlipsReason missed penalized missedValidation =
     (if positive missed then
        (if penalized then missedRewardReasonPenalty
         else if missedValidation then missedRewardReasonMissedValidation
         else missedRewardReasonNotAllFlips)
      else missedRewardReasonEmpty)"

definition calculateFlipsRewardSummary :: "ext \<Rightarrow> bigint \<Rightarrow> bigint \<Rightarrow> byte \<Rightarrow> bytes list \<Rightarrow> string set \<Rightarrow> string set \<Rightarrow>
    bool \<Rightarrow> bool \<Rightarrow> bool \<Rightarrow> bool \<Rightarrow> ValidationRewardSummary" where
  "calculateFlipsRewardSummary e reward share availableFlips identityFlips rewardedFlips rewardedExtraFlips
       penalized missedValidation enableUpgrade10 enableUpgrade11 =
     (let rewardedFlipsCnt = getRewardedFlips e identityFlips rewardedFlips;
          missed = (case share of
              Some sh \<Rightarrow> if availableFlips > 0 then
                  (if enableUpgrade10 \<and> \<not> enableUpgrade11
                   then Some (sh * int (unat (requiredFlips - rewardedFlipsCnt)))
                   else Some (sh * int (unat (availableFlips -
                          (rewardedFlipsCnt + getRewardedFlips e identityFlips rewardedExtraFlips)))))
                else None
            | None \<Rightarrow> None)
      in \<lparr>VRS_Earned = reward, VRS_Missed = missed,
          VRS_MissedReason = missedRewardReasonOrNil (missedFlipsReason missed penalized missedValidation)\<rparr>)"

definition calculateExtraFlipsRewardSummary :: "ext \<Rightarrow> bigint \<Rightarrow> bigint \<Rightarrow> byte \<Rightarrow> bytes list \<Rightarrow> string set \<Rightarrow>
    bool \<Rightarrow> bool \<Rightarrow> bigint \<Rightarrow> ValidationRewardSummary" where
  "calculateExtraFlipsRewardSummary e reward share availableFlips identityFlips rewardedExtraFlips
       penalized missedValidation stake =
     (let rewardedFlipsCnt = getRewardedFlips e identityFlips rewardedExtraFlips;
          missed = (case share of
              Some sh \<Rightarrow> if positive stake \<and> availableFlips > requiredFlips
                then Some (X_toInt e (of_int sh * X_fromFloat32 e (stakeWeight e stake)) *
                       int (unat (availableFlips - requiredFlips - rewardedFlipsCnt)))
                else None
            | None \<Rightarrow> None)
      in \<lparr>VRS_Earned = reward, VRS_Missed = missed,
          VRS_MissedReason = missedRewardReasonOrNil (missedFlipsReason missed penalized missedValidation)\<rparr>)"

definition invitationRewardTypes :: "RewardType list" where
  "invitationRewardTypes = [RtInvitations, RtInvitations2, RtInvitations3, RtSavedInvite, RtSavedInviteWin]"

definition inviteeRewardTypes :: "RewardType list" where
  "inviteeRewardTypes = [RtInvitee1, RtInvitee2, RtInvitee3]"

definition earnedOfTypes :: "RewardType list \<Rightarrow> (RewardType \<rightharpoonup> int) \<Rightarrow> bigint" where
  "earnedOfTypes types rewards = fold (\<lambda>t earned. case rewards t of
       None \<Rightarrow> earned
     | Some reward \<Rightarrow> Some (zeroIfNil earned + reward)) types None"

definition calculateInvitationsRewardSummary :: "(RewardType \<rightharpoonup> int) \<Rightarrow> bool \<Rightarrow> ValidationRewardSummary" where
  "calculateInvitationsRewardSummary rewards penalized =
     \<lparr>VRS_Earned = earnedOfTypes invitationRewardTypes rewards, VRS_Missed = None,
      VRS_MissedReason = missedRewardReasonOrNil
        (if penalized then missedRewardReasonPenalty else missedRewardReasonEmpty)\<rparr>"

definition calculateInviteeRewardSummary :: "ext \<Rightarrow> (RewardType \<rightharpoonup> int) \<Rightarrow> bool \<Rightarrow> identity_state \<Rightarrow> ValidationRewardSummary" where
  "calculateInviteeRewardSummary e rewards penalized newState =
     \<lparr>VRS_Earned = earnedOfTypes inviteeRewardTypes rewards, VRS_Missed = None,
      VRS_MissedReason = missedRewardReasonOrNil
        (if penalized then missedRewardReasonPenalty
         else if \<not> X_newbieOrBetter e newState then missedRewardReasonNotValidated
         else missedRewardReasonEmpty)\<rparr>"

fun reportsLoop :: "bool \<Rightarrow> string set \<Rightarrow> string set \<Rightarrow> string list \<Rightarrow> nat \<Rightarrow> bool \<Rightarrow> nat \<times> bool" where
  "reportsLoop ignoredGrades reportedFlips rewardedReportedFlips [] missedReports hasIgnored = (missedReports, hasIgnored)"
| "reportsLoop ignoredGrades reportedFlips rewardedReportedFlips (flip # flips) missedReports hasIgnored =
     reportsLoop ignoredGrades reportedFlips rewardedReportedFlips flips
       (if flip \<notin> rewardedReportedFlips then missedReports + 1 else missedReports)
       (if ignoredGrades \<and> \<not> hasIgnored then flip \<in> reportedFlips else hasIgnored)"

definition calculateReportsRewardSummary :: "bigint \<Rightarrow> int \<Rightarrow> bool \<Rightarrow> bool \<Rightarrow> string set \<Rightarrow> string set \<Rightarrow> string list \<Rightarrow>
    ValidationRewardSummary" where
  "calculateReportsRewardSummary reward share penalized ignoredGrades reportedFlips rewardedReportedFlips
       flipsWithReportConsensus =
     (let (missedReports, hasIgnoredSuccessReport) =
            reportsLoop ignoredGrades reportedFlips rewardedReportedFlips flipsWithReportConsensus 0 False;
          missed = (if missedReports > 0 then Some (share * int missedReports) else None);
          missedReason = (if positive missed then
              (if penalized then missedRewardReasonPenalty
               else if hasIgnoredSuccessReport then missedRewardReasonIgnoredGrades
               else missedRewardReasonNotAllReports)
            else missedRewardReasonEmpty)
      in \<lparr>VRS_Earned = reward, VRS_Missed = missed, VRS_MissedReason = missedRewardReasonOrNil missedReason\<rparr>)"

section \<open>The summaries of an identity\<close>

text \<open>The share of a report: a fifth of the share of a flip where the statistics have none.\<close>

definition reportsShareOf :: "RewardsStats \<Rightarrow> int" where
  "reportsShareOf r = (case R_ReportsShare r of Some share \<Rightarrow> share | None \<Rightarrow> zeroIfNil (R_FlipsShare r) div 5)"

definition summariesOf :: "ext \<Rightarrow> validationRewardSummariesCalculator \<Rightarrow> address \<Rightarrow> uint32 \<Rightarrow> uint16 \<Rightarrow> bytes list \<Rightarrow>
    identity_state \<Rightarrow> identity_state \<Rightarrow> byte \<Rightarrow> bigint \<Rightarrow> bool \<Rightarrow> string set \<Rightarrow> ValidationRewardSummaries" where
  "summariesOf e c address shardId age identityFlips prevState newState availableFlips prevStake ignoredGrades reportedFlips =
     (let r = VC_rewardsStats c;
          rewardsByType = (case VC_rewardsByAddrAndType c address of None \<Rightarrow> Map.empty | Some m \<Rightarrow> m);
          penalized = (case R_ValidationResults r shardId of None \<Rightarrow> False
             | Some vr \<Rightarrow> map_of (VR_BadAuthors vr) address \<noteq> None);
          missedValidation = (case R_ValidationResults r shardId of None \<Rightarrow> False
             | Some vr \<Rightarrow> (case VR_GoodAuthors vr address of None \<Rightarrow> False | Some missed \<Rightarrow> missed));
          convertedAddress = ConvertAddress e address
      in \<lparr>VRSs_Address = convertedAddress, VRSs_PrevStake = prevStake,
          VRSs_Validation = calculateValidationRewardSummary e (rewardsByType RtValidation) newState penalized age (R_ValidationShare r),
          VRSs_Flips = calculateFlipsRewardSummary e (rewardsByType RtFlips) (R_FlipsShare r) availableFlips identityFlips
            (VC_rewardedFlips c) (VC_rewardedExtraFlips c) penalized missedValidation
            (EnableUpgrade10 (VC_consensusConfig c)) (EnableUpgrade11 (VC_consensusConfig c)),
          VRSs_ExtraFlips = calculateExtraFlipsRewardSummary e (rewardsByType RtExtraFlips) (R_FlipsExtraShare r) availableFlips
            identityFlips (VC_rewardedExtraFlips c) penalized missedValidation prevStake,
          VRSs_Invitations = calculateInvitationsRewardSummary rewardsByType penalized,
          VRSs_Reports = calculateReportsRewardSummary (rewardsByType RtReportedFlips) (reportsShareOf r) penalized ignoredGrades
            reportedFlips (case VC_rewardedReportedFlipsByAddr c convertedAddress of None \<Rightarrow> {} | Some cids \<Rightarrow> cids)
            (case VC_flipsWithReportConsensusByRespondent c address of None \<Rightarrow> [] | Some cids \<Rightarrow> cids),
          VRSs_Candidate = calculateCandidateRewardSummary e (rewardsByType RtCandidate) prevState newState penalized (R_CandidateShare r),
          VRSs_Staking = calculateStakingRewardSummary e (rewardsByType RtStaking) newState penalized (R_StakingShare r) prevStake,
          VRSs_Invitee = calculateInviteeRewardSummary e rewardsByType penalized newState\<rparr>)"

definition calculateValidationRewardSummaries :: "ext \<Rightarrow> byte \<Rightarrow> address \<Rightarrow> uint32 \<Rightarrow> uint16 \<Rightarrow> bytes list \<Rightarrow>
    identity_state \<Rightarrow> identity_state \<Rightarrow> byte \<Rightarrow> bigint \<Rightarrow> bool \<Rightarrow> string set \<Rightarrow> validationRewardSummariesCalculator \<Rightarrow>
    (ValidationRewardSummaries \<times> validationRewardSummariesCalculator) option" where
  "calculateValidationRewardSummaries e gradeReported address shardId age identityFlips prevState newState
       availableFlips prevStake ignoredGrades reportedFlips c = do {
     c1 \<leftarrow> (if VC_initialized c then Some c
        else map_option (\<lambda>c. c\<lparr>VC_initialized := True\<rparr>) (calculatorInit e gradeReported c));
     Some (summariesOf e c1 address shardId age identityFlips prevState newState availableFlips prevStake
       ignoredGrades reportedFlips, c1) }"

section \<open>What is earned adds up\<close>

definition rewardAt :: "(address \<rightharpoonup> (RewardType \<rightharpoonup> int)) \<Rightarrow> address \<Rightarrow> RewardType \<Rightarrow> int" where
  "rewardAt m a t = (case m a of None \<Rightarrow> 0 | Some byType \<Rightarrow> zeroIfNil (byType t))"

definition summaryTypes :: "RewardType list" where
  "summaryTypes = [RtValidation, RtFlips, RtExtraFlips, RtReportedFlips, RtCandidate, RtStaking] @
     invitationRewardTypes @ inviteeRewardTypes"

definition earnedTotal :: "ValidationRewardSummaries \<Rightarrow> int" where
  "earnedTotal v = sum_list (map (\<lambda>x. zeroIfNil (VRS_Earned x))
     [VRSs_Validation v, VRSs_Flips v, VRSs_ExtraFlips v, VRSs_Reports v, VRSs_Candidate v, VRSs_Staking v,
      VRSs_Invitations v, VRSs_Invitee v])"

lemma set_summaryTypes: "set summaryTypes = {t. countsInTotal t}" "distinct summaryTypes"
proof -
  have "t \<in> set summaryTypes \<longleftrightarrow> countsInTotal t" for t
    by (cases t) (simp_all add: summaryTypes_def invitationRewardTypes_def inviteeRewardTypes_def countsInTotal_def)
  then show "set summaryTypes = {t. countsInTotal t}" by blast
qed (simp add: summaryTypes_def invitationRewardTypes_def inviteeRewardTypes_def)

lemma rewardAt_index:
  "rewardAt (indexReward r m) a t =
     (if a = RS_Address r \<and> t = RS_Type r then RS_Balance r + RS_Stake r else rewardAt m a t)"
  by (simp add: rewardAt_def indexReward_def Let_def split: option.splits)

lemma rewardAt_index_sum:
  assumes "RS_Address r = a \<Longrightarrow> rewardAt m a (RS_Type r) = 0"
  shows "sum_list (map (rewardAt (indexReward r m) a) summaryTypes) =
    sum_list (map (rewardAt m a) summaryTypes) + reward_value a r"
proof (cases "RS_Address r = a \<and> countsInTotal (RS_Type r)")
  case True
  then have "sum_list (map (rewardAt (indexReward r m) a) summaryTypes) =
      sum_list (map (rewardAt m a) summaryTypes) + (rewardAt (indexReward r m) a (RS_Type r) - rewardAt m a (RS_Type r))"
    by (intro sum_list_map_change_one) (simp_all add: set_summaryTypes rewardAt_index)
  with True assms show ?thesis by (simp add: rewardAt_index reward_value_def)
next
  case False
  have "sum_list (map (rewardAt (indexReward r m) a) summaryTypes) = sum_list (map (rewardAt m a) summaryTypes)"
    by (rule sum_list_map_cong_le) (use False set_summaryTypes(1) in \<open>auto simp: rewardAt_index\<close>)
  with False show ?thesis by (auto simp: reward_value_def)
qed

definition typesOf :: "address \<Rightarrow> RewardStats list \<Rightarrow> RewardType list" where
  "typesOf a rewards = map RS_Type (filter (\<lambda>r. RS_Address r = a) rewards)"

lemma typesOf_Cons [simp]:
  "typesOf a [] = []"
  "typesOf a (r # rewards) = (if RS_Address r = a then RS_Type r # typesOf a rewards else typesOf a rewards)"
  by (simp_all add: typesOf_def)

lemma rewardAt_fold_sum:
  assumes "distinct (typesOf a rewards)" "\<And>t. t \<in> set (typesOf a rewards) \<Longrightarrow> rewardAt m a t = 0"
  shows "sum_list (map (rewardAt (fold indexReward rewards m) a) summaryTypes) =
    sum_list (map (rewardAt m a) summaryTypes) + sum_list (map (reward_value a) rewards)"
  using assms
proof (induction rewards arbitrary: m)
  case Nil
  then show ?case by simp
next
  case (Cons r rewards)
  have "sum_list (map (rewardAt (fold indexReward rewards (indexReward r m)) a) summaryTypes) =
      sum_list (map (rewardAt (indexReward r m) a) summaryTypes) + sum_list (map (reward_value a) rewards)"
    using Cons.prems by (intro Cons.IH) (auto simp: rewardAt_index split: if_splits)
  moreover have "sum_list (map (rewardAt (indexReward r m) a) summaryTypes) =
      sum_list (map (rewardAt m a) summaryTypes) + reward_value a r"
    using Cons.prems(2) by (intro rewardAt_index_sum) simp
  ultimately show ?case by simp
qed

lemma earnedOfTypes_fold:
  "zeroIfNil (fold (\<lambda>t earned. case rewards t of None \<Rightarrow> earned | Some reward \<Rightarrow> Some (zeroIfNil earned + reward)) types acc) =
     zeroIfNil acc + sum_list (map (\<lambda>t. zeroIfNil (rewards t)) types)"
  by (induction types arbitrary: acc) (simp_all split: option.splits)

lemma earnedOfTypes_sum:
  "zeroIfNil (earnedOfTypes types rewards) = sum_list (map (\<lambda>t. zeroIfNil (rewards t)) types)"
  by (simp add: earnedOfTypes_def earnedOfTypes_fold)

lemmas summary_defs = calculateValidationRewardSummary_def calculateCandidateRewardSummary_def
  calculateStakingRewardSummary_def calculateFlipsRewardSummary_def calculateExtraFlipsRewardSummary_def
  calculateInvitationsRewardSummary_def calculateInviteeRewardSummary_def calculateReportsRewardSummary_def

lemma summary_earned [simp]:
  "VRS_Earned (calculateValidationRewardSummary e rw n pen age sh) = rw"
  "VRS_Earned (calculateCandidateRewardSummary e rw p n pen sh) = rw"
  "VRS_Earned (calculateStakingRewardSummary e rw n pen sh st) = rw"
  "VRS_Earned (calculateFlipsRewardSummary e rw sh av fl rf rx pen mv u10 u11) = rw"
  "VRS_Earned (calculateExtraFlipsRewardSummary e rw sh av fl rx pen mv st) = rw"
  "VRS_Earned (calculateReportsRewardSummary rw share pen ig rep rrep cids) = rw"
  by (simp_all add: summary_defs Let_def split_beta)

lemma earnedTotal_summariesOf:
  "earnedTotal (summariesOf e c a shard age flips p n av st ig rep) =
     sum_list (map (rewardAt (VC_rewardsByAddrAndType c) a) summaryTypes)"
  by (simp add: earnedTotal_def summariesOf_def Let_def calculateInvitationsRewardSummary_def
      calculateInviteeRewardSummary_def earnedOfTypes_sum summaryTypes_def rewardAt_def
      invitationRewardTypes_def inviteeRewardTypes_def split: option.splits)

lemma calculate_fresh:
  assumes "calculateValidationRewardSummaries e g a shard age flips p n av st ig rep
      (newValidationRewardSummariesCalculator r rewards vs conf) = Some (v, c)"
  shows "VC_rewardsByAddrAndType c = fold indexReward rewards Map.empty"
    and "v = summariesOf e c a shard age flips p n av st ig rep"
    and "VC_initialized c"
  using assms
  by (auto simp: calculateValidationRewardSummaries_def newValidationRewardSummariesCalculator_def calculatorInit_def
      bind_Some_iff)

section \<open>Counting flips and reports\<close>

text \<open>The flips of an identity whose cid parses and is in a set of rewarded flips.\<close>

definition rewardedFlipCount :: "ext \<Rightarrow> bytes list \<Rightarrow> string set \<Rightarrow> nat" where
  "rewardedFlipCount e flips cids = length (filter (\<lambda>f. case X_cidParse e f of None \<Rightarrow> False | Some c \<Rightarrow> c \<in> cids) flips)"

lemma getRewardedFlips_fold:
  "fold (\<lambda>cid res. case X_cidParse e cid of None \<Rightarrow> res | Some c \<Rightarrow> if c \<in> cids then res + 1 else res) flips (acc :: byte) =
     acc + of_nat (rewardedFlipCount e flips cids)"
  by (induction flips arbitrary: acc) (auto simp: rewardedFlipCount_def split: option.splits)

lemma getRewardedFlips_count: "getRewardedFlips e flips cids = of_nat (rewardedFlipCount e flips cids)"
  by (simp add: getRewardedFlips_def getRewardedFlips_fold)

lemma uint_diff_of_nat:
  fixes x :: byte
  shows "int (unat (x - of_nat n)) = (int (unat x) - int n) mod 256"
proof -
  have a: "uint (x - of_nat n) = (uint x - uint (of_nat n :: byte)) mod 256"
    by (simp add: uint_word_ariths(2))
  have b: "uint (of_nat n :: byte) = int n mod 256"
    by (simp add: unsigned_of_nat take_bit_eq_mod zmod_int)
  show ?thesis unfolding uint_nat [symmetric] a b by (rule mod_diff_right_eq)
qed

lemma reportsLoop_count:
  "reportsLoop ig rep rew flips n h =
     (n + length (filter (\<lambda>f. f \<notin> rew) flips), h \<or> (ig \<and> (\<exists>f \<in> set flips. f \<in> rep)))"
  by (induction flips arbitrary: n h) auto

section \<open>Properties\<close>

lemma total_those:
  "those (map (deref st) refs) = Some xs \<Longrightarrow> total v st refs = sum_list (map v xs)"
  by (induction refs arbitrary: xs) (auto simp: total_def split: option.splits)

lemma those_nth:
  "those (map (deref st) refs) = Some xs \<Longrightarrow> length xs = length refs \<and> (\<forall>i < length refs. deref st (refs ! i) = Some (xs ! i))"
proof (induction refs arbitrary: xs)
  case Nil
  then show ?case by simp
next
  case (Cons r refs)
  then obtain y ys where "deref st r = Some y" "those (map (deref st) refs) = Some ys" "xs = y # ys"
    by (auto split: option.splits)
  with Cons.IH [OF this(2)] show ?case by (auto simp: nth_Cons split: nat.splits)
qed

lemma distinct_typesI:
  assumes "\<And>i j. i < length rewards \<Longrightarrow> j < length rewards \<Longrightarrow> RS_Address (rewards ! i) = a \<Longrightarrow> RS_Address (rewards ! j) = a
    \<Longrightarrow> RS_Type (rewards ! i) = RS_Type (rewards ! j) \<Longrightarrow> i = j"
  shows "distinct (typesOf a rewards)"
  using assms
proof (induction rewards)
  case Nil
  then show ?case by simp
next
  case (Cons r rewards)
  have "distinct (typesOf a rewards)"
    by (rule Cons.IH) (use Cons.prems [of "Suc _" "Suc _"] in simp)
  moreover have "RS_Type r \<notin> set (typesOf a rewards)" if "RS_Address r = a"
    using Cons.prems [of 0 "Suc _"] that by (force simp: typesOf_def in_set_conv_nth)
  ultimately show ?case by simp
qed

text \<open>
  An address has at most one reward object of each type that is not merged (candidate, staking
  and invitee rewards): the node adds these once per identity.
\<close>

definition unmerged_once :: "address \<Rightarrow> RewardStats list \<Rightarrow> bool" where
  "unmerged_once a rewards \<longleftrightarrow> (\<forall>i < length rewards. \<forall>j < length rewards.
     RS_Address (rewards ! i) = a \<and> RS_Address (rewards ! j) = a \<and> RS_Type (rewards ! i) = RS_Type (rewards ! j)
     \<and> \<not> mergesEpochRewards (RS_Type (rewards ! i)) \<longrightarrow> i = j)"

lemma ledger_types_distinct:
  assumes "ledger_inv s" "S_RewardsStats (stats s) = Some r"
    and "those (map (deref (rewardStore s)) (R_Rewards r)) = Some rewards" "unmerged_once a rewards"
  shows "distinct (typesOf a rewards)"
proof (rule distinct_typesI)
  fix i j assume ij: "i < length rewards" "j < length rewards" "RS_Address (rewards ! i) = a" "RS_Address (rewards ! j) = a"
    "RS_Type (rewards ! i) = RS_Type (rewards ! j)"
  have wf: "wf_index reward_key (R_Rewards r) (\<lambda>(t, a). ledger_index s t a) (rewardStore s)"
    using assms(1,2) by (simp add: ledger_inv_def ledger_wf_def ledger_refs_def rewardsOf_def)
  note nth = those_nth [OF assms(3)]
  show "i = j"
  proof (cases "mergesEpochRewards (RS_Type (rewards ! i))")
    case True
    have "R_Rewards r ! i = R_Rewards r ! j"
      by (rule wf_index_unique [OF wf, of _ "rewards ! i" _ "rewards ! j" "(RS_Type (rewards ! i), a)"])
        (use ij nth True in \<open>simp_all add: reward_key_def\<close>)
    then show ?thesis using ij(1,2) nth wf_indexD(1) [OF wf] by (simp add: nth_eq_iff_index_eq)
  next
    case False
    then show ?thesis using assms(4) ij unfolding unmerged_once_def by blast
  qed
qed




text \<open>a missed reward for reports counts every flip with a report consensus that was not
  rewarded, and its reason is the penalty, else the ignored grades when the identity reported one
  of these flips, else that not all were reported.\<close>

theorem reports_missed:
  "calculateReportsRewardSummary rw share pen ig rep rew flips =
     (let k = length (filter (\<lambda>f. f \<notin> rew) flips) in
      \<lparr>VRS_Earned = rw, VRS_Missed = (if k = 0 then None else Some (share * int k)),
       VRS_MissedReason = (if k = 0 \<or> share \<le> 0 then None
         else Some (if pen then 1 else if ig \<and> set flips \<inter> rep \<noteq> {} then 10 else 5))\<rparr>)"
  by (auto simp: calculateReportsRewardSummary_def reportsLoop_count Let_def positive_def missedRewardReasonOrNil_def
      missed_reasons zero_less_mult_iff mult_le_0_iff not_less)

text \<open>in the summaries of an identity a reason for a missed reward is given exactly when the
  missed amount is positive, for validation, candidate, staking, flips, extra flips and reports.\<close>

theorem missed_reason_iff_missed:
  "list_all (\<lambda>x. VRS_MissedReason x \<noteq> None \<longleftrightarrow> positive (VRS_Missed x))
     (let v = summariesOf e c a shard age flips p n av st ig rep
      in [VRSs_Validation v, VRSs_Candidate v, VRSs_Staking v, VRSs_Flips v, VRSs_ExtraFlips v, VRSs_Reports v])"
proof -
  have "VRS_MissedReason (calculateValidationRewardSummary e' b1 s1 b2 g sh) \<noteq> None \<longleftrightarrow>
      positive (VRS_Missed (calculateValidationRewardSummary e' b1 s1 b2 g sh))" for e' b1 s1 b2 g sh
    by (simp add: calculateValidationRewardSummary_def Let_def missedRewardReasonOrNil_def missed_reasons)
  moreover have "VRS_MissedReason (calculateCandidateRewardSummary e' b1 s0 s1 b2 sh) \<noteq> None \<longleftrightarrow>
      positive (VRS_Missed (calculateCandidateRewardSummary e' b1 s0 s1 b2 sh))" for e' b1 s0 s1 b2 sh
    by (simp add: calculateCandidateRewardSummary_def Let_def missedRewardReasonOrNil_def missed_reasons)
  moreover have "VRS_MissedReason (calculateStakingRewardSummary e' b1 s1 b2 sh sk) \<noteq> None \<longleftrightarrow>
      positive (VRS_Missed (calculateStakingRewardSummary e' b1 s1 b2 sh sk))" for e' b1 s1 b2 sh sk
    by (simp add: calculateStakingRewardSummary_def Let_def missedRewardReasonOrNil_def missed_reasons)
  moreover have "VRS_MissedReason (calculateFlipsRewardSummary e' b1 sh v fl rf rx b2 b3 u u') \<noteq> None \<longleftrightarrow>
      positive (VRS_Missed (calculateFlipsRewardSummary e' b1 sh v fl rf rx b2 b3 u u'))" for e' b1 sh v fl rf rx b2 b3 u u'
    by (simp add: calculateFlipsRewardSummary_def Let_def missedRewardReasonOrNil_def missedFlipsReason_def missed_reasons)
  moreover have "VRS_MissedReason (calculateExtraFlipsRewardSummary e' b1 sh v fl rx b2 b3 sk) \<noteq> None \<longleftrightarrow>
      positive (VRS_Missed (calculateExtraFlipsRewardSummary e' b1 sh v fl rx b2 b3 sk))" for e' b1 sh v fl rx b2 b3 sk
    by (simp add: calculateExtraFlipsRewardSummary_def Let_def missedRewardReasonOrNil_def missedFlipsReason_def missed_reasons)
  moreover have "VRS_MissedReason (calculateReportsRewardSummary b1 sh b2 b3 f1 f2 fl) \<noteq> None \<longleftrightarrow>
      positive (VRS_Missed (calculateReportsRewardSummary b1 sh b2 b3 f1 f2 fl))" for b1 sh b2 b3 f1 f2 fl
    by (simp add: calculateReportsRewardSummary_def Let_def split_beta missedRewardReasonOrNil_def missed_reasons)
  ultimately show ?thesis by (simp only: summariesOf_def Let_def list.pred_inject ValidationRewardSummaries.simps simp_thms)
qed

text \<open>the calculator initialises its indexes once, at its first use; the summaries of later
  identities are the ones a new calculator would give.\<close>

theorem calculator_reuse_is_transparent:
  assumes "calculateValidationRewardSummaries e g a1 shard1 age1 flips1 p1 n1 av1 st1 ig1 rep1
      (newValidationRewardSummariesCalculator r rewards vs conf) = Some (x, c)"
  shows "calculateValidationRewardSummaries e g a2 shard2 age2 flips2 p2 n2 av2 st2 ig2 rep2 c =
    calculateValidationRewardSummaries e g a2 shard2 age2 flips2 p2 n2 av2 st2 ig2 rep2
      (newValidationRewardSummariesCalculator r rewards vs conf)"
  using assms
  by (auto simp: calculateValidationRewardSummaries_def newValidationRewardSummariesCalculator_def bind_Some_iff)

theorem calculator_reuse_is_transparent_witness:
  "\<exists>x c. calculateValidationRewardSummaries sampleExt 1 7 1 2 [] Newbie Human 3 (Some 5) False {}
      (newValidationRewardSummariesCalculator emptyRewardsStats [] None sampleConf) = Some (x, c)
    \<and> calculateValidationRewardSummaries sampleExt 1 8 1 2 [] Newbie Human 3 (Some 5) False {} c =
      calculateValidationRewardSummaries sampleExt 1 8 1 2 [] Newbie Human 3 (Some 5) False {}
        (newValidationRewardSummariesCalculator emptyRewardsStats [] None sampleConf)"
proof -
  obtain x c where "calculateValidationRewardSummaries sampleExt 1 7 1 2 [] Newbie Human 3 (Some 5) False {}
      (newValidationRewardSummariesCalculator emptyRewardsStats [] None sampleConf) = Some (x, c)"
    by (simp add: calculateValidationRewardSummaries_def calculatorInit_def newValidationRewardSummariesCalculator_def)
  with calculator_reuse_is_transparent [OF this] show ?thesis by blast
qed

end
