(* ===== verification/Epoch_Result.thy ===== *)
theory Epoch_Result
  imports Tx_Conversion Epoch_Rewards Validation_Summary
begin

text \<open>
  The result of a validation, \<open>detectEpochResult\<close> of \<open>src/indexer/indexer.go\<close>: the rows of the
  flips and their answers, one row per identity of the previous state, the changes of the pools,
  birthdays, rewards and their summaries, and the identities killed by the validation. It joins the
  collected statistics (the session), the previous and the new state.
\<close>

section \<open>Rows\<close>

record Answer =
  An_Address :: string
  An_Answer :: byte
  An_Point :: float32
  An_Grade :: byte
  An_Index :: uint16
  An_Considered :: bool

record FlipStats =
  FS_Author :: string
  FS_Cid :: string
  FS_ShortAnswers :: "Answer list"
  FS_LongAnswers :: "Answer list"
  FS_Status :: byte
  FS_Answer :: byte
  FS_Grade :: byte
  FS_GradeScore :: decimal

record EpochIdentity =
  EI_Address :: string
  EI_State :: byte
  EI_ShortPoint :: float32
  EI_ShortFlips :: uint32
  EI_TotalShortPoint :: float32
  EI_TotalShortFlips :: uint32
  EI_LongPoint :: float32
  EI_LongFlips :: uint32
  EI_Approved :: bool
  EI_Missed :: bool
  EI_RequiredFlips :: byte
  EI_AvailableFlips :: byte
  EI_MadeFlips :: byte
  EI_NextEpochInvites :: byte
  EI_BirthEpoch :: uint64
  EI_ShortFlipCidsToSolve :: "string list"
  EI_LongFlipCidsToSolve :: "string list"
  EI_DelegateeAddress :: string
  EI_ShardId :: uint32
  EI_NewShardId :: uint32
  EI_WrongGradeReason :: byte

record Birthday =
  Bd_Address :: string
  Bd_BirthEpoch :: uint64

record MemPoolFlipKey =
  MFK_Address :: string
  MFK_Key :: string

record FlipStatusCount =
  FSC_Status :: byte
  FSC_Count :: uint64

record PoolSizeChange =
  PSC_Address :: address
  PSC_Old :: PoolSize
  PSC_New :: PoolSize

record EpochResult =
  Res_Identities :: "EpochIdentity list"
  Res_FlipStats :: "FlipStats list"
  Res_Birthdays :: "Birthday list"
  Res_MemPoolFlipKeys :: "MemPoolFlipKey list"
  Res_FailedValidation :: bool
  Res_EpochRewards :: "EpochRewards option"
  Res_MinScoreForInvite :: float32
  Res_RewardsBounds :: "RewardBounds list"
  Res_FlipStatuses :: "FlipStatusCount list"
  Res_ReportedFlips :: uint32
  Res_DelegateesEpochRewards :: "DelegateeEpochRewards list"
  Res_ValidationRewardSummaries :: "ValidationRewardSummaries list"
  Res_PoolSizeChanges :: "PoolSizeChange list"

text \<open>
  What is read from the node and from libraries, and the orders of iteration. \<open>EE_PublicFlipKey\<close> is
  the exported key of the keys pool, \<open>EE_FlipKeysToMigrate\<close> the secondary storage (\<open>None\<close> when there
  is none, when it fails or when it returns nil).
\<close>

record epoch_env =
  EE_it :: iteration
  EE_gradeReported :: byte
  EE_IdentityScores :: "bytes \<Rightarrow> float32 \<Rightarrow> uint32 \<Rightarrow> float32 \<times> uint32"
  EE_EncodeScore :: "float32 \<Rightarrow> uint32 \<Rightarrow> byte"
  EE_LastScoresCount :: nat
  EE_PublicFlipKey :: "address \<Rightarrow> bytes option"
  EE_FlipKeysToMigrate :: "uint16 \<Rightarrow> MemPoolFlipKey list option"
  EE_boundsOrder :: "(byte \<rightharpoonup> RewardBounds) \<Rightarrow> (byte \<times> RewardBounds) list"
  EE_addrsOrder :: "address set \<Rightarrow> address list"
  EE_conf :: ConsensusConf

section \<open>Flips and answers\<close>

definition convertStatsAnswer :: "ext \<Rightarrow> FlipAnswerStats \<Rightarrow> Answer" where
  "convertStatsAnswer e a = \<lparr>An_Address = ConvertAddress e (FAS_Respondent a), An_Answer = FAS_Answer a, An_Point = FAS_Point a,
     An_Grade = FAS_Grade a, An_Index = of_int (FAS_Index a), An_Considered = FAS_Considered a\<rparr>"

text \<open>The reports of a flip are added to the map when there is one (long answers).\<close>

fun convertStatsAnswers :: "ext \<Rightarrow> byte \<Rightarrow> FlipAnswerStats list \<Rightarrow> (address \<rightharpoonup> string set) option \<Rightarrow> string \<Rightarrow>
    Answer list \<times> (address \<rightharpoonup> string set) option" where
  "convertStatsAnswers e gradeReported [] reportedFlips flipCid = ([], reportedFlips)"
| "convertStatsAnswers e gradeReported (a # answers) reportedFlips flipCid =
     (let m1 = (case reportedFlips of None \<Rightarrow> None | Some m \<Rightarrow>
            if FAS_Grade a = gradeReported
            then Some (m(FAS_Respondent a \<mapsto> insert flipCid (case m (FAS_Respondent a) of None \<Rightarrow> {} | Some cids \<Rightarrow> cids)))
            else Some m);
          (rest, m2) = convertStatsAnswers e gradeReported answers m1 flipCid
      in (convertStatsAnswer e a # rest, m2))"

text \<open>
  The flips so far: \<open>EF_byCid\<close> maps a cid to the position of its (latest) row, because the rows are
  changed through the pointers of that map later.
\<close>

record epoch_flips =
  EF_stats :: "FlipStats list"
  EF_byCid :: "string \<rightharpoonup> nat"
  EF_statuses :: "(byte \<times> uint64) list"
  EF_reported :: uint32
  EF_reportedBy :: "address \<rightharpoonup> string set"

definition addFlip :: "ext \<Rightarrow> byte \<Rightarrow> string \<Rightarrow> NodeFlipStats \<Rightarrow> epoch_flips \<Rightarrow> epoch_flips" where
  "addFlip e gradeReported flipCid flip s =
     (let (longAnswers, reportedBy) = convertStatsAnswers e gradeReported (NFS_LongAnswers flip) (Some (EF_reportedBy s)) flipCid
      in \<lparr>EF_stats = EF_stats s @ [\<lparr>FS_Author = [], FS_Cid = flipCid,
             FS_ShortAnswers = fst (convertStatsAnswers e gradeReported (NFS_ShortAnswers flip) None flipCid),
             FS_LongAnswers = longAnswers, FS_Status = NFS_Status flip, FS_Answer = NFS_Answer flip,
             FS_Grade = NFS_Grade flip, FS_GradeScore = NFS_GradeScore flip\<rparr>],
          EF_byCid = (EF_byCid s)(flipCid \<mapsto> length (EF_stats s)),
          EF_statuses = AList.update (NFS_Status flip)
             ((case map_of (EF_statuses s) (NFS_Status flip) of None \<Rightarrow> 0 | Some n \<Rightarrow> n) + 1) (EF_statuses s),
          EF_reported = (if NFS_Grade flip = gradeReported then EF_reported s + 1 else EF_reported s),
          EF_reportedBy = (case reportedBy of None \<Rightarrow> Map.empty | Some m \<Rightarrow> m)\<rparr>)"

text \<open>A flip without a cid at its index panics; one whose cid does not parse is skipped.\<close>

fun shardFlips :: "ext \<Rightarrow> byte \<Rightarrow> bytes list \<Rightarrow> (nat \<times> NodeFlipStats) list \<Rightarrow> epoch_flips \<Rightarrow> epoch_flips option" where
  "shardFlips e gradeReported cids [] s = Some s"
| "shardFlips e gradeReported cids ((flipIdx, flip) # flips) s =
     (if flipIdx < length cids then
        (case X_cidParse e (cids ! flipIdx) of
           None \<Rightarrow> shardFlips e gradeReported cids flips s
         | Some flipCid \<Rightarrow> shardFlips e gradeReported cids flips (addFlip e gradeReported flipCid flip s))
      else None)"

fun shardsFlips :: "ext \<Rightarrow> byte \<Rightarrow> (uint32 \<times> ShardStats) list \<Rightarrow> epoch_flips \<Rightarrow> epoch_flips option" where
  "shardsFlips e gradeReported [] s = Some s"
| "shardsFlips e gradeReported ((shardId, shard) # shards) s = do {
     s1 \<leftarrow> shardFlips e gradeReported (ShS_FlipCids shard) (ShS_FlipsPerIdx shard) s;
     shardsFlips e gradeReported shards s1 }"

definition noFlips :: epoch_flips where
  "noFlips = \<lparr>EF_stats = [], EF_byCid = Map.empty, EF_statuses = [], EF_reported = 0, EF_reportedBy = Map.empty\<rparr>"

fun convertCids :: "ext \<Rightarrow> nat list \<Rightarrow> bytes list \<Rightarrow> string list" where
  "convertCids e [] cids = []"
| "convertCids e (idx # idxs) cids =
     (if idx \<ge> length cids then convertCids e idxs cids
      else case X_cidParse e (cids ! idx) of
        None \<Rightarrow> convertCids e idxs cids
      | Some c \<Rightarrow> c # convertCids e idxs cids)"

section \<open>Helpers of the identities\<close>

definition calculateNewTotalScore :: "epoch_env \<Rightarrow> bytes \<Rightarrow> float32 \<Rightarrow> uint32 \<Rightarrow> float32 \<Rightarrow> uint32 \<Rightarrow> float32 \<times> uint32" where
  "calculateNewTotalScore ee scores shortPoints shortFlipsCount totalShortPoints totalShortFlipsCount =
     (let newScores = scores @ [EE_EncodeScore ee shortPoints shortFlipsCount];
          lastScores = (if length newScores > EE_LastScoresCount ee
            then drop (length newScores - EE_LastScoresCount ee) newScores else newScores)
      in EE_IdentityScores ee lastScores totalShortPoints totalShortFlipsCount)"

definition detectBirthday :: "ext \<Rightarrow> address \<Rightarrow> uint16 \<Rightarrow> uint16 \<Rightarrow> Birthday option" where
  "detectBirthday e addr prevBirthday newBirthday = (if prevBirthday = newBirthday then None
     else Some \<lparr>Bd_Address = ConvertAddress e addr, Bd_BirthEpoch = ucast newBirthday\<rparr>)"

definition detectMemPoolFlipKey :: "ext \<Rightarrow> epoch_env \<Rightarrow> address \<Rightarrow> node_identity \<Rightarrow> MemPoolFlipKey option" where
  "detectMemPoolFlipKey e ee addr identity =
     (if NI_Flips identity = [] then None
      else case EE_PublicFlipKey ee addr of
        None \<Rightarrow> None
      | Some key \<Rightarrow> Some \<lparr>MFK_Address = ConvertAddress e addr, MFK_Key = hexEncode key\<rparr>)"

definition isPenalized :: "Stats \<Rightarrow> address \<Rightarrow> uint32 \<Rightarrow> bool" where
  "isPenalized st addr shardId = (case S_RewardsStats st of
       None \<Rightarrow> False
     | Some r \<Rightarrow> (case R_ValidationResults r shardId of
           None \<Rightarrow> False
         | Some vr \<Rightarrow> map_of (VR_BadAuthors vr) addr \<noteq> None))"

text \<open>The list of changes and the map to its elements: an association list in the order of the list.\<close>

type_synonym pool_changes = "(address \<times> PoolSizeChange) list"

definition newPoolChange :: "node_state \<Rightarrow> node_state \<Rightarrow> address \<Rightarrow> PoolSizeChange" where
  "newPoolChange prevState newState delegatee =
     \<lparr>PSC_Address = delegatee,
      PSC_Old = \<lparr>PS_Address = 0, PS_Size = of_int (Dl_PoolSize (NS_dl prevState) delegatee), PS_TotalDelegated = 0\<rparr>,
      PSC_New = \<lparr>PS_Address = 0, PS_Size = of_int (Dl_PoolSize (NS_dl newState) delegatee), PS_TotalDelegated = 0\<rparr>\<rparr>"

definition incTotal :: "bool \<Rightarrow> PoolSizeChange \<Rightarrow> PoolSizeChange" where
  "incTotal prev ch = (if prev
     then ch\<lparr>PSC_Old := (PSC_Old ch)\<lparr>PS_TotalDelegated := PS_TotalDelegated (PSC_Old ch) + 1\<rparr>\<rparr>
     else ch\<lparr>PSC_New := (PSC_New ch)\<lparr>PS_TotalDelegated := PS_TotalDelegated (PSC_New ch) + 1\<rparr>\<rparr>)"

definition incPoolSize :: "node_state \<Rightarrow> node_state \<Rightarrow> address \<Rightarrow> bool \<Rightarrow> pool_changes \<Rightarrow> pool_changes" where
  "incPoolSize prevState newState delegatee prev m =
     AList.update delegatee (incTotal prev
       (case map_of m delegatee of None \<Rightarrow> newPoolChange prevState newState delegatee | Some ch \<Rightarrow> ch)) m"

text \<open>The flips of an identity get their author.\<close>

fun setAuthors :: "ext \<Rightarrow> string \<Rightarrow> (string \<rightharpoonup> nat) \<Rightarrow> (bytes \<times> byte) list \<Rightarrow> FlipStats list \<Rightarrow> FlipStats list" where
  "setAuthors e author byCid [] rows = rows"
| "setAuthors e author byCid ((cid, pair) # flips) rows =
     (case X_cidParse e cid of
        None \<Rightarrow> setAuthors e author byCid flips rows
      | Some flipCid \<Rightarrow> setAuthors e author byCid flips (case byCid flipCid of
            None \<Rightarrow> rows
          | Some i \<Rightarrow> rows[i := (rows ! i)\<lparr>FS_Author := author\<rparr>]))"

section \<open>One identity\<close>

definition totalScore :: "ext \<Rightarrow> epoch_env \<Rightarrow> node_state \<Rightarrow> node_state \<Rightarrow> address \<Rightarrow> node_identity \<Rightarrow> IdentityStats option \<Rightarrow>
    float32 \<times> uint32" where
  "totalScore e ee prevState newState addr identity identityStats =
     (let newIdentityState = AS_GetIdentityState (NS_app newState) addr;
          prevScores = EE_IdentityScores ee (NI_Scores identity) (NS_shortFlipPoints prevState addr) (NS_qualifiedFlips prevState addr)
      in case identityStats of
        None \<Rightarrow> prevScores
      | Some ids \<Rightarrow>
          (if X_newbieOrBetter e newIdentityState \<or> newIdentityState = Suspended \<or> newIdentityState = Zombie
           then EE_IdentityScores ee (NS_scores newState addr) (NS_shortFlipPoints newState addr) (NS_qualifiedFlips newState addr)
           else if IdS_Missed ids then prevScores
           else calculateNewTotalScore ee (NI_Scores identity) (IdS_ShortPoint ids) (IdS_ShortFlips ids)
                  (NS_shortFlipPoints prevState addr) (NS_qualifiedFlips prevState addr)))"

definition birthEpochAt :: "node_state \<Rightarrow> node_identity \<Rightarrow> uint64" where
  "birthEpochAt prevState identity = (if NI_State identity = Invite \<or> NI_State identity = CandidateSt
     then ucast (NS_epoch prevState) else ucast (NI_Birthday identity))"

definition convertIdentity :: "ext \<Rightarrow> epoch_env \<Rightarrow> node_state \<Rightarrow> node_state \<Rightarrow> ShardStats option \<Rightarrow> address \<Rightarrow> node_identity \<Rightarrow>
    EpochIdentity" where
  "convertIdentity e ee prevState newState shard addr identity =
     (let identityStats = (case shard of None \<Rightarrow> None | Some sh \<Rightarrow> map_of (ShS_IdentitiesPerAddr sh) addr);
          wrongGrade = (case shard of None \<Rightarrow> None | Some sh \<Rightarrow> map_of (ShS_WrongGradeReasons sh) addr);
          cids = (case shard of None \<Rightarrow> [] | Some sh \<Rightarrow> ShS_FlipCids sh);
          total = totalScore e ee prevState newState addr identity identityStats
      in \<lparr>EI_Address = ConvertAddress e addr,
          EI_State = convertIdentityState (AS_GetIdentityState (NS_app newState) addr),
          EI_ShortPoint = (case identityStats of None \<Rightarrow> 0 | Some ids \<Rightarrow> IdS_ShortPoint ids),
          EI_ShortFlips = (case identityStats of None \<Rightarrow> 0 | Some ids \<Rightarrow> IdS_ShortFlips ids),
          EI_TotalShortPoint = fst total, EI_TotalShortFlips = snd total,
          EI_LongPoint = (case identityStats of None \<Rightarrow> 0 | Some ids \<Rightarrow> IdS_LongPoint ids),
          EI_LongFlips = (case identityStats of None \<Rightarrow> 0 | Some ids \<Rightarrow> IdS_LongFlips ids),
          EI_Approved = (case identityStats of None \<Rightarrow> False | Some ids \<Rightarrow> IdS_Approved ids),
          EI_Missed = (case identityStats of None \<Rightarrow> True | Some ids \<Rightarrow> IdS_Missed ids),
          EI_RequiredFlips = NS_requiredFlips prevState addr,
          EI_AvailableFlips = NI_AvailableFlips identity,
          EI_MadeFlips = NS_madeFlips prevState addr,
          EI_NextEpochInvites = NS_invites newState addr,
          EI_BirthEpoch = birthEpochAt prevState identity,
          EI_ShortFlipCidsToSolve = (case identityStats of None \<Rightarrow> [] | Some ids \<Rightarrow> convertCids e (IdS_ShortFlipsToSolve ids) cids),
          EI_LongFlipCidsToSolve = (case identityStats of None \<Rightarrow> [] | Some ids \<Rightarrow> convertCids e (IdS_LongFlipsToSolve ids) cids),
          EI_DelegateeAddress = (case NI_Delegatee identity of None \<Rightarrow> [] | Some d \<Rightarrow> ConvertAddress e d),
          EI_ShardId = NI_ShardId identity, EI_NewShardId = AS_ShardId (NS_app newState) addr,
          EI_WrongGradeReason = (case wrongGrade of None \<Rightarrow> 0 | Some reason \<Rightarrow> reason)\<rparr>)"

text \<open>The variables that the callback of the iteration over the identities updates.\<close>

record epoch_acc =
  EA_identities :: "EpochIdentity list"
  EA_birthdays :: "Birthday list"
  EA_summaries :: "ValidationRewardSummaries list"
  EA_calculator :: "validationRewardSummariesCalculator option"
  EA_pools :: pool_changes
  EA_flipKeys :: "MemPoolFlipKey list"
  EA_bounds :: "byte \<rightharpoonup> RewardBounds"
  EA_rewardAddrs :: "address set"
  EA_flips :: "FlipStats list"
  EA_killed :: "(address \<times> killedInfo) list"
  EA_delegatees :: delegateeEpochRewardsWrapper

definition delegateeStep :: "Stats \<Rightarrow> node_state \<Rightarrow> node_state \<Rightarrow> address \<Rightarrow> node_identity \<Rightarrow> epoch_acc \<Rightarrow> epoch_acc option" where
  "delegateeStep st prevState newState addr identity acc = do {
     acc1 \<leftarrow> (case NI_Delegatee identity of
         None \<Rightarrow> Some acc
       | Some delegatee \<Rightarrow> do {
           w \<leftarrow> (if isPenalized st addr (NI_ShardId identity)
              then incPenalizedDelegators delegatee (EA_delegatees acc) else Some (EA_delegatees acc));
           Some (acc\<lparr>EA_delegatees := w, EA_pools := incPoolSize prevState newState delegatee True (EA_pools acc)\<rparr>) });
     Some (case Dl_Delegatee (NS_dl newState) addr of
         None \<Rightarrow> acc1
       | Some (_, newDelegatee) \<Rightarrow> acc1\<lparr>EA_pools := incPoolSize prevState newState newDelegatee False (EA_pools acc1)\<rparr>) }"

definition boundsStep :: "Stats \<Rightarrow> node_state \<Rightarrow> node_state \<Rightarrow> address \<Rightarrow> node_identity \<Rightarrow> epoch_acc \<Rightarrow> epoch_acc option" where
  "boundsStep st prevState newState addr identity acc =
     (case S_RewardsStats st of
        None \<Rightarrow> Some acc
      | Some r \<Rightarrow> if addr = NS_godAddress prevState then Some acc
          else (case R_TotalRewardsByAddr r addr of
              None \<Rightarrow> Some acc
            | Some reward \<Rightarrow> map_option (\<lambda>b. acc\<lparr>EA_bounds := b\<rparr>)
                (addIfBound addr (ucast (NS_epoch newState) - birthEpochAt prevState identity) (Some reward) (EA_bounds acc))))"

definition rewardAge :: "node_state \<Rightarrow> node_state \<Rightarrow> node_identity \<Rightarrow> uint16" where
  "rewardAge prevState newState identity =
     (if NI_State identity \<in> {Undefined, Killed, Invite, CandidateSt} then 1
      else NS_epoch newState - ucast (birthEpochAt prevState identity))"

definition summaryStep :: "ext \<Rightarrow> epoch_env \<Rightarrow> node_state \<Rightarrow> node_state \<Rightarrow> bool \<Rightarrow> string set \<Rightarrow> address \<Rightarrow> node_identity \<Rightarrow>
    epoch_acc \<Rightarrow> epoch_acc option" where
  "summaryStep e ee prevState newState ignoredGrades reportedFlips addr identity acc =
     (case EA_calculator acc of
        None \<Rightarrow> Some acc
      | Some c \<Rightarrow> do {
          (summaries, c1) \<leftarrow> calculateValidationRewardSummaries e (EE_gradeReported ee) addr (NI_ShardId identity)
             (rewardAge prevState newState identity) (map fst (NI_Flips identity)) (NI_State identity)
             (AS_GetIdentityState (NS_app newState) addr) (NI_AvailableFlips identity) (NI_Stake identity)
             ignoredGrades reportedFlips c;
          Some (acc\<lparr>EA_summaries := EA_summaries acc @ [summaries], EA_calculator := Some c1\<rparr>) })"

definition killedByValidation :: "node_state \<Rightarrow> address \<Rightarrow> node_identity \<Rightarrow> bool" where
  "killedByValidation newState addr identity \<longleftrightarrow>
     NI_State identity \<noteq> Undefined \<and> NI_State identity \<noteq> Killed \<and>
     (AS_GetIdentityState (NS_app newState) addr = Killed \<or> AS_GetIdentityState (NS_app newState) addr = Undefined)"

definition identityStep :: "ext \<Rightarrow> epoch_env \<Rightarrow> Stats \<Rightarrow> node_state \<Rightarrow> node_state \<Rightarrow> (uint32 \<times> ShardStats) list \<Rightarrow> epoch_flips \<Rightarrow>
    bool \<Rightarrow> address \<times> node_identity \<Rightarrow> epoch_acc \<Rightarrow> epoch_acc option" where
  "identityStep e ee st prevState newState shards flips migrated = (\<lambda>(addr, identity) acc. do {
     let shard = map_of shards (NI_ShardId identity);
     acc1 \<leftarrow> delegateeStep st prevState newState addr identity acc;
     let acc2 = acc1\<lparr>EA_identities := EA_identities acc1 @ [convertIdentity e ee prevState newState shard addr identity],
        EA_rewardAddrs := EA_rewardAddrs acc1 - {addr},
        EA_birthdays := EA_birthdays acc1 @
          (case detectBirthday e addr (NI_Birthday identity) (NI_Birthday (NS_identity newState addr)) of None \<Rightarrow> [] | Some b \<Rightarrow> [b]),
        EA_flipKeys := EA_flipKeys acc1 @ (if migrated then [] else
          (case detectMemPoolFlipKey e ee addr identity of None \<Rightarrow> [] | Some k \<Rightarrow> [k])),
        EA_flips := setAuthors e (ConvertAddress e addr) (EF_byCid flips) (NI_Flips identity) (EA_flips acc1)\<rparr>;
     acc3 \<leftarrow> boundsStep st prevState newState addr identity acc2;
     let acc4 = (if killedByValidation newState addr identity
        then acc3\<lparr>EA_killed := AList.update addr \<lparr>KI_reason = killedReasonValidationFailure, KI_tx = None\<rparr> (EA_killed acc3)\<rparr> else acc3);
     summaryStep e ee prevState newState
        (case shard of None \<Rightarrow> False | Some sh \<Rightarrow> map_of (ShS_WrongGradeReasons sh) addr \<noteq> None)
        (case EF_reportedBy flips addr of None \<Rightarrow> {} | Some cids \<Rightarrow> cids) addr identity acc4 })"

section \<open>The whole result\<close>

text \<open>An identity row for a rewarded address that is no identity; its other fields are zero.\<close>

definition undefinedIdentity :: "ext \<Rightarrow> address \<Rightarrow> EpochIdentity" where
  "undefinedIdentity e addr = \<lparr>EI_Address = ConvertAddress e addr, EI_State = convertIdentityState Undefined,
     EI_ShortPoint = 0, EI_ShortFlips = 0, EI_TotalShortPoint = 0, EI_TotalShortFlips = 0, EI_LongPoint = 0, EI_LongFlips = 0,
     EI_Approved = False, EI_Missed = True, EI_RequiredFlips = 0, EI_AvailableFlips = 0, EI_MadeFlips = 0,
     EI_NextEpochInvites = 0, EI_BirthEpoch = 0, EI_ShortFlipCidsToSolve = [], EI_LongFlipCidsToSolve = [],
     EI_DelegateeAddress = [], EI_ShardId = 0, EI_NewShardId = 0, EI_WrongGradeReason = 0\<rparr>"

definition newCalculator :: "epoch_env \<Rightarrow> session \<Rightarrow> ValidationStats \<Rightarrow> validationRewardSummariesCalculator option option" where
  "newCalculator ee s v = (case S_RewardsStats (stats s) of
       None \<Rightarrow> Some None
     | Some r \<Rightarrow> map_option (\<lambda>rewards. Some (newValidationRewardSummariesCalculator r rewards (Some (VSt_Shards v)) (EE_conf ee)))
         (those (map (deref (rewardStore s)) (R_Rewards r))))"

definition detectEpochResult :: "ext \<Rightarrow> epoch_env \<Rightarrow> bool \<Rightarrow> session \<Rightarrow> node_state \<Rightarrow> node_state \<Rightarrow> conversionCollector \<Rightarrow>
    (EpochResult option \<times> conversionCollector) option" where
  "detectEpochResult e ee validationFinished s prevState newState collector =
     (if \<not> validationFinished then Some (None, collector)
      else do {
        v \<leftarrow> S_ValidationStats (stats s);
        calculator \<leftarrow> newCalculator ee s v;
        let toMigrate = EE_FlipKeysToMigrate ee (NS_epoch prevState);
        (epochRewards, rewardAddrs, delegatees) \<leftarrow> detectEpochRewards e (EE_it ee) True s;
        flips \<leftarrow> shardsFlips e (EE_gradeReported ee) (VSt_Shards v) noFlips;
        acc \<leftarrow> run_steps (identityStep e ee (stats s) prevState newState (VSt_Shards v) flips (toMigrate \<noteq> None))
          (NS_identities prevState)
          \<lparr>EA_identities = [], EA_birthdays = [], EA_summaries = [], EA_calculator = calculator, EA_pools = [],
           EA_flipKeys = (case toMigrate of None \<Rightarrow> [] | Some keys \<Rightarrow> keys), EA_bounds = Map.empty,
           EA_rewardAddrs = rewardAddrs, EA_flips = EF_stats flips, EA_killed = CC_killedAddrs collector,
           EA_delegatees = delegatees\<rparr>;
        Some (Some \<lparr>Res_Identities = EA_identities acc @ map (undefinedIdentity e) (EE_addrsOrder ee (EA_rewardAddrs acc)),
            Res_FlipStats = EA_flips acc,
            Res_Birthdays = EA_birthdays acc,
            Res_MemPoolFlipKeys = EA_flipKeys acc,
            Res_FailedValidation = VSt_Failed v,
            Res_EpochRewards = epochRewards,
            Res_MinScoreForInvite = (case S_MinScoreForInvite (stats s) of None \<Rightarrow> 0 | Some score \<Rightarrow> score),
            Res_RewardsBounds = boundsGetResult (EE_boundsOrder ee (EA_bounds acc)),
            Res_FlipStatuses = map (\<lambda>(status, n). \<lparr>FSC_Status = status, FSC_Count = n\<rparr>) (EF_statuses flips),
            Res_ReportedFlips = EF_reported flips,
            Res_DelegateesEpochRewards = W_rewards (EA_delegatees acc),
            Res_ValidationRewardSummaries = EA_summaries acc,
            Res_PoolSizeChanges = map snd (EA_pools acc)\<rparr>,
          collector\<lparr>CC_killedAddrs := EA_killed acc\<rparr>) })"

section \<open>What one identity adds\<close>

lemma delegateeStep_frame:
  assumes "delegateeStep st prevState newState addr identity acc = Some acc'"
  shows "EA_identities acc' = EA_identities acc" "EA_rewardAddrs acc' = EA_rewardAddrs acc"
    "EA_flips acc' = EA_flips acc" "EA_killed acc' = EA_killed acc"
  using assms by (auto simp: delegateeStep_def split: option.splits bind_splits if_splits)

lemma boundsStep_frame:
  assumes "boundsStep st prevState newState addr identity acc = Some acc'"
  shows "EA_identities acc' = EA_identities acc" "EA_rewardAddrs acc' = EA_rewardAddrs acc"
    "EA_flips acc' = EA_flips acc" "EA_killed acc' = EA_killed acc" "EA_pools acc' = EA_pools acc"
  using assms by (auto simp: boundsStep_def split: option.splits if_splits)

lemma summaryStep_frame:
  assumes "summaryStep e ee prevState newState ig rf addr identity acc = Some acc'"
  shows "EA_identities acc' = EA_identities acc" "EA_rewardAddrs acc' = EA_rewardAddrs acc"
    "EA_flips acc' = EA_flips acc" "EA_killed acc' = EA_killed acc" "EA_pools acc' = EA_pools acc"
  using assms by (auto simp: summaryStep_def split: option.splits bind_splits)

text \<open>The pools that an identity delegates to before (\<open>True\<close>) and after (\<open>False\<close>) the block.\<close>

definition identityPools :: "node_state \<Rightarrow> address \<times> node_identity \<Rightarrow> (address \<times> bool) list" where
  "identityPools newState = (\<lambda>(addr, identity).
     (case NI_Delegatee identity of None \<Rightarrow> [] | Some d \<Rightarrow> [(d, True)]) @
     (case Dl_Delegatee (NS_dl newState) addr of None \<Rightarrow> [] | Some (_, d) \<Rightarrow> [(d, False)]))"

definition incPools :: "node_state \<Rightarrow> node_state \<Rightarrow> (address \<times> bool) list \<Rightarrow> pool_changes \<Rightarrow> pool_changes" where
  "incPools prevState newState ps m = fold (\<lambda>(d, prev). incPoolSize prevState newState d prev) ps m"

lemma delegateeStep_pools:
  assumes "delegateeStep st prevState newState addr identity acc = Some acc'"
  shows "EA_pools acc' = incPools prevState newState (identityPools newState (addr, identity)) (EA_pools acc)"
  using assms
  by (auto simp: delegateeStep_def incPools_def identityPools_def split: option.splits bind_splits if_splits)

lemma identityStep_fields:
  assumes "identityStep e ee st prevState newState shards flips migrated (addr, identity) acc = Some acc'"
  shows "EA_identities acc' = EA_identities acc @
           [convertIdentity e ee prevState newState (map_of shards (NI_ShardId identity)) addr identity]"
    and "EA_rewardAddrs acc' = EA_rewardAddrs acc - {addr}"
    and "EA_flips acc' = setAuthors e (ConvertAddress e addr) (EF_byCid flips) (NI_Flips identity) (EA_flips acc)"
    and "EA_killed acc' = (if killedByValidation newState addr identity
           then AList.update addr \<lparr>KI_reason = killedReasonValidationFailure, KI_tx = None\<rparr> (EA_killed acc) else EA_killed acc)"
    and "EA_pools acc' = incPools prevState newState (identityPools newState (addr, identity)) (EA_pools acc)"
proof -
  from assms obtain acc1 acc3 where 1: "delegateeStep st prevState newState addr identity acc = Some acc1"
    and 3: "boundsStep st prevState newState addr identity (acc1\<lparr>EA_identities := EA_identities acc1 @
          [convertIdentity e ee prevState newState (map_of shards (NI_ShardId identity)) addr identity],
        EA_rewardAddrs := EA_rewardAddrs acc1 - {addr},
        EA_birthdays := EA_birthdays acc1 @
          (case detectBirthday e addr (NI_Birthday identity) (NI_Birthday (NS_identity newState addr)) of None \<Rightarrow> [] | Some b \<Rightarrow> [b]),
        EA_flipKeys := EA_flipKeys acc1 @ (if migrated then [] else
          (case detectMemPoolFlipKey e ee addr identity of None \<Rightarrow> [] | Some k \<Rightarrow> [k])),
        EA_flips := setAuthors e (ConvertAddress e addr) (EF_byCid flips) (NI_Flips identity) (EA_flips acc1)\<rparr>) = Some acc3"
    and 4: "summaryStep e ee prevState newState
        (case map_of shards (NI_ShardId identity) of None \<Rightarrow> False | Some sh \<Rightarrow> map_of (ShS_WrongGradeReasons sh) addr \<noteq> None)
        (case EF_reportedBy flips addr of None \<Rightarrow> {} | Some cids \<Rightarrow> cids) addr identity
        (if killedByValidation newState addr identity
        then acc3\<lparr>EA_killed := AList.update addr \<lparr>KI_reason = killedReasonValidationFailure, KI_tx = None\<rparr> (EA_killed acc3)\<rparr> else acc3) = Some acc'"
    unfolding identityStep_def Let_def by (auto split: bind_splits)
  note frames = delegateeStep_frame [OF 1] boundsStep_frame [OF 3] summaryStep_frame [OF 4]
  show "EA_identities acc' = EA_identities acc @
           [convertIdentity e ee prevState newState (map_of shards (NI_ShardId identity)) addr identity]"
    by (simp add: frames)
  show "EA_rewardAddrs acc' = EA_rewardAddrs acc - {addr}" by (simp add: frames)
  show "EA_flips acc' = setAuthors e (ConvertAddress e addr) (EF_byCid flips) (NI_Flips identity) (EA_flips acc)"
    by (simp add: frames)
  show "EA_killed acc' = (if killedByValidation newState addr identity
           then AList.update addr \<lparr>KI_reason = killedReasonValidationFailure, KI_tx = None\<rparr> (EA_killed acc) else EA_killed acc)"
    by (simp add: frames)
  show "EA_pools acc' = incPools prevState newState (identityPools newState (addr, identity)) (EA_pools acc)"
    using delegateeStep_pools [OF 1] by (simp add: frames)
qed

definition killStep :: "node_state \<Rightarrow> address \<times> node_identity \<Rightarrow> (address \<times> killedInfo) list \<Rightarrow> (address \<times> killedInfo) list" where
  "killStep newState = (\<lambda>(addr, identity) m. if killedByValidation newState addr identity
     then AList.update addr \<lparr>KI_reason = killedReasonValidationFailure, KI_tx = None\<rparr> m else m)"

definition authorStep :: "ext \<Rightarrow> epoch_flips \<Rightarrow> address \<times> node_identity \<Rightarrow> FlipStats list \<Rightarrow> FlipStats list" where
  "authorStep e flips = (\<lambda>(addr, identity). setAuthors e (ConvertAddress e addr) (EF_byCid flips) (NI_Flips identity))"

lemma incPools_append: "incPools p n (xs @ ys) m = incPools p n ys (incPools p n xs m)"
  by (simp add: incPools_def)

lemma run_identities:
  assumes "run_steps (identityStep e ee st prevState newState shards flips migrated) ids acc = Some acc'"
  shows "EA_identities acc' = EA_identities acc @
           map (\<lambda>(a, i). convertIdentity e ee prevState newState (map_of shards (NI_ShardId i)) a i) ids
    \<and> EA_rewardAddrs acc' = EA_rewardAddrs acc - fst ` set ids
    \<and> EA_flips acc' = fold (authorStep e flips) ids (EA_flips acc)
    \<and> EA_killed acc' = fold (killStep newState) ids (EA_killed acc)
    \<and> EA_pools acc' = incPools prevState newState (concat (map (identityPools newState) ids)) (EA_pools acc)"
  using assms
proof (induction ids arbitrary: acc)
  case Nil
  then show ?case by (simp add: incPools_def)
next
  case (Cons x ids)
  obtain addr identity where x: "x = (addr, identity)" by (cases x)
  from Cons.prems obtain acc1 where
    1: "identityStep e ee st prevState newState shards flips migrated (addr, identity) acc = Some acc1"
    and 2: "run_steps (identityStep e ee st prevState newState shards flips migrated) ids acc1 = Some acc'"
    by (auto simp: x split: option.splits)
  from Cons.IH [OF 2] show ?case
    by (auto simp: x identityStep_fields [OF 1] incPools_append killStep_def authorStep_def)
qed

section \<open>Pools\<close>

text \<open>How often a pool occurs, before and after the block.\<close>

definition poolCount :: "(address \<times> bool) list \<Rightarrow> bool \<Rightarrow> address \<Rightarrow> nat" where
  "poolCount ps prev d = length (filter (\<lambda>p. p = (d, prev)) ps)"

definition poolRow :: "node_state \<Rightarrow> node_state \<Rightarrow> (address \<times> bool) list \<Rightarrow> address \<Rightarrow> PoolSizeChange" where
  "poolRow prevState newState ps d =
     \<lparr>PSC_Address = d,
      PSC_Old = \<lparr>PS_Address = 0, PS_Size = of_int (Dl_PoolSize (NS_dl prevState) d), PS_TotalDelegated = of_nat (poolCount ps True d)\<rparr>,
      PSC_New = \<lparr>PS_Address = 0, PS_Size = of_int (Dl_PoolSize (NS_dl newState) d), PS_TotalDelegated = of_nat (poolCount ps False d)\<rparr>\<rparr>"

lemma incPools_rows:
  "map_of (incPools prevState newState ps []) d = (if d \<in> fst ` set ps then Some (poolRow prevState newState ps d) else None)"
proof (induction ps arbitrary: d rule: rev_induct)
  case Nil
  show ?case by (simp add: incPools_def)
next
  case (snoc p ps)
  obtain x prev where p: "p = (x, prev)" by (cases p)
  have none: "x \<notin> fst ` set ps \<Longrightarrow> poolCount ps b x = 0" for b
    by (force simp: poolCount_def filter_empty_conv)
  have step: "map_of (incPools prevState newState (ps @ [p]) []) =
      (map_of (incPools prevState newState ps []))(x \<mapsto> incTotal prev
        (case map_of (incPools prevState newState ps []) x of None \<Rightarrow> newPoolChange prevState newState x | Some ch \<Rightarrow> ch))"
    by (simp add: p incPools_def incPoolSize_def AList.update_conv')
  have row: "poolRow prevState newState (ps @ [p]) d = (if d = x then incTotal prev (poolRow prevState newState ps x)
      else poolRow prevState newState ps d)"
    by (cases prev) (auto simp: p poolRow_def incTotal_def poolCount_def)
  have new: "x \<notin> fst ` set ps \<Longrightarrow> poolRow prevState newState ps x = newPoolChange prevState newState x"
    by (simp add: poolRow_def newPoolChange_def none)
  have mem: "fst ` set (ps @ [p]) = insert x (fst ` set ps)" by (simp add: p)
  show ?case by (simp add: step row snoc.IH mem new del: set_append)
qed

lemma incPools_distinct: "distinct (map fst m) \<Longrightarrow> distinct (map fst (incPools prevState newState ps m))"
  by (induction ps arbitrary: m) (auto simp: incPools_def incPoolSize_def AList.distinct_update)

lemma counted_pools: "d \<in> fst ` set ps \<longleftrightarrow> poolCount ps True d \<noteq> 0 \<or> poolCount ps False d \<noteq> 0"
proof -
  have "poolCount ps b d \<noteq> 0 \<longleftrightarrow> (d, b) \<in> set ps" for b by (auto simp: poolCount_def filter_empty_conv)
  moreover have "d \<in> fst ` set ps \<longleftrightarrow> (d, True) \<in> set ps \<or> (d, False) \<in> set ps"
    by (subst ex_bool_eq [of "\<lambda>b. (d, b) \<in> set ps", symmetric]) force
  ultimately show ?thesis by simp
qed

lemma poolCount_identities:
  "poolCount (concat (map (identityPools newState) ids)) True d = length (filter (\<lambda>(a, i). NI_Delegatee i = Some d) ids)"
  "poolCount (concat (map (identityPools newState) ids)) False d =
     length (filter (\<lambda>(a, i). map_option snd (Dl_Delegatee (NS_dl newState) a) = Some d) ids)"
  by (induction ids) (auto simp: poolCount_def identityPools_def split: option.splits)

section \<open>Flips\<close>

text \<open>The counters agree with the rows: per status, and for reported flips.\<close>

definition statusCount :: "FlipStats list \<Rightarrow> byte \<Rightarrow> nat" where
  "statusCount rows status = length (filter (\<lambda>row. FS_Status row = status) rows)"

definition flips_ok :: "byte \<Rightarrow> epoch_flips \<Rightarrow> bool" where
  "flips_ok gradeReported s \<longleftrightarrow> distinct (map fst (EF_statuses s))
     \<and> (\<forall>status. map_of (EF_statuses s) status =
          (if statusCount (EF_stats s) status = 0 then None else Some (of_nat (statusCount (EF_stats s) status))))
     \<and> EF_reported s = of_nat (length (filter (\<lambda>row. FS_Grade row = gradeReported) (EF_stats s)))"

lemma statusCount_snoc: "statusCount (rows @ [row]) status = statusCount rows status + (if FS_Status row = status then 1 else 0)"
  by (simp add: statusCount_def)

lemma addFlip_fields:
  "EF_statuses (addFlip e g c flip s) = AList.update (NFS_Status flip)
     ((case map_of (EF_statuses s) (NFS_Status flip) of None \<Rightarrow> 0 | Some n \<Rightarrow> n) + 1) (EF_statuses s)"
  "EF_reported (addFlip e g c flip s) = (if NFS_Grade flip = g then EF_reported s + 1 else EF_reported s)"
  "\<exists>row. EF_stats (addFlip e g c flip s) = EF_stats s @ [row] \<and> FS_Status row = NFS_Status flip \<and> FS_Grade row = NFS_Grade flip"
  by (auto simp: addFlip_def Let_def split: prod.splits)

lemma addFlip_ok:
  assumes "flips_ok g s"
  shows "flips_ok g (addFlip e g c flip s)"
proof -
  obtain row where row: "EF_stats (addFlip e g c flip s) = EF_stats s @ [row]" "FS_Status row = NFS_Status flip" "FS_Grade row = NFS_Grade flip"
    using addFlip_fields(3) by blast
  have old: "distinct (map fst (EF_statuses s))"
    "map_of (EF_statuses s) status = (if statusCount (EF_stats s) status = 0 then None else Some (of_nat (statusCount (EF_stats s) status)))"
    "EF_reported s = of_nat (length (filter (\<lambda>row. FS_Grade row = g) (EF_stats s)))" for status
    using assms by (simp_all add: flips_ok_def)
  have "map_of (EF_statuses (addFlip e g c flip s)) status =
      (if statusCount (EF_stats (addFlip e g c flip s)) status = 0 then None
       else Some (of_nat (statusCount (EF_stats (addFlip e g c flip s)) status)))" for status
    by (simp add: addFlip_fields AList.update_conv' old row statusCount_snoc del: map_of_eq_Some_iff)
  then show ?thesis
    unfolding flips_ok_def by (simp add: addFlip_fields(1,2) AList.distinct_update old row)
qed

lemma shardFlips_ok: "flips_ok g s \<Longrightarrow> shardFlips e g cids flips s = Some s' \<Longrightarrow> flips_ok g s'"
proof (induction flips arbitrary: s)
  case (Cons x flips)
  obtain idx flip where x: "x = (idx, flip)" by (cases x)
  from Cons.prems(2) show ?case
    using Cons.IH [OF Cons.prems(1)] Cons.IH [OF addFlip_ok [OF Cons.prems(1)]] by (auto simp: x split: if_splits option.splits)
qed simp

lemma shardsFlips_ok: "flips_ok g s \<Longrightarrow> shardsFlips e g shards s = Some s' \<Longrightarrow> flips_ok g s'"
proof (induction shards arbitrary: s)
  case (Cons x shards)
  obtain shardId shard where x: "x = (shardId, shard)" by (cases x)
  from Cons.prems(2) obtain s1 where "shardFlips e g (ShS_FlipCids shard) (ShS_FlipsPerIdx shard) s = Some s1"
    "shardsFlips e g shards s1 = Some s'" by (auto simp: x split: bind_splits)
  then show ?case using Cons.IH [OF shardFlips_ok [OF Cons.prems(1)]] by blast
qed simp

lemma noFlips_ok: "flips_ok gradeReported noFlips"
  by (simp add: flips_ok_def noFlips_def statusCount_def)

lemma setAuthors_keeps:
  assumes "\<And>row a. f (row\<lparr>FS_Author := a\<rparr>) = f row"
  shows "map f (setAuthors e author byCid flips rows) = map f rows"
proof -
  have "map f (rows[i := (rows ! i)\<lparr>FS_Author := author\<rparr>]) = map f rows" for i rows
    by (cases "i < length rows") (auto simp: map_update assms list_update_same_conv list_update_beyond)
  then show ?thesis by (induction flips arbitrary: rows) (auto split: option.splits)
qed

lemma fold_authors_keeps:
  assumes "\<And>row a. f (row\<lparr>FS_Author := a\<rparr>) = f row"
  shows "map f (fold (authorStep e flips) ids rows) = map f rows"
  by (induction ids arbitrary: rows) (auto simp: authorStep_def setAuthors_keeps [of f, OF assms])

lemma filter_keeps:
  assumes "map f xs = map f ys"
  shows "length (filter (\<lambda>x. f x = v) xs) = length (filter (\<lambda>x. f x = v) ys)"
proof -
  have "length (filter (\<lambda>x. f x = v) zs) = length (filter (\<lambda>w. w = v) (map f zs))" for zs by (simp add: filter_map comp_def)
  then show ?thesis using assms by metis
qed

lemma set_of_map_of:
  assumes "distinct (map fst al)" "\<And>k. map_of al k = (if k \<in> S then Some (f k) else None)"
  shows "set al = (\<lambda>k. (k, f k)) ` S"
proof -
  have "(k, v) \<in> set al \<longleftrightarrow> (k, v) \<in> (\<lambda>k. (k, f k)) ` S" for k v
    using map_of_eq_Some_iff [OF assms(1), of k v] assms(2) [of k] by (auto split: if_splits)
  then show ?thesis by auto
qed

section \<open>Killed identities\<close>

lemma fold_kills:
  "distinct (map fst ids) \<Longrightarrow> map_of (fold (killStep newState) ids m) a =
     (case map_of ids a of
        None \<Rightarrow> map_of m a
      | Some identity \<Rightarrow> if killedByValidation newState a identity
          then Some \<lparr>KI_reason = killedReasonValidationFailure, KI_tx = None\<rparr> else map_of m a)"
proof (induction ids arbitrary: m)
  case (Cons x ids)
  obtain b i where x: "x = (b, i)" by (cases x)
  have "map_of (killStep newState (b, i) m) a = (if a = b \<and> killedByValidation newState b i
      then Some \<lparr>KI_reason = killedReasonValidationFailure, KI_tx = None\<rparr> else map_of m a)"
    by (auto simp: killStep_def AList.update_conv')
  moreover have "a = b \<Longrightarrow> map_of ids a = None"
    using Cons.prems by (auto simp: x map_of_eq_None_iff)
  ultimately show ?case using Cons.IH [of "killStep newState (b, i) m"] Cons.prems by (auto simp: x split: option.splits)
qed simp

section \<open>The parts of a result\<close>

lemma detectEpochResult_parts:
  assumes "detectEpochResult e ee True s prevState newState coll = Some (Some res, coll')"
  obtains v epochRewards rewardAddrs delegatees flips where
    "S_ValidationStats (stats s) = Some v"
    "detectEpochRewards e (EE_it ee) True s = Some (epochRewards, rewardAddrs, delegatees)"
    "shardsFlips e (EE_gradeReported ee) (VSt_Shards v) noFlips = Some flips"
    "Res_Identities res = map (\<lambda>(a, i). convertIdentity e ee prevState newState (map_of (VSt_Shards v) (NI_ShardId i)) a i) (NS_identities prevState)
       @ map (undefinedIdentity e) (EE_addrsOrder ee (rewardAddrs - fst ` set (NS_identities prevState)))"
    "Res_FlipStats res = fold (authorStep e flips) (NS_identities prevState) (EF_stats flips)"
    "Res_FlipStatuses res = map (\<lambda>(status, n). \<lparr>FSC_Status = status, FSC_Count = n\<rparr>) (EF_statuses flips)"
    "Res_ReportedFlips res = EF_reported flips"
    "Res_PoolSizeChanges res = map snd (incPools prevState newState (concat (map (identityPools newState) (NS_identities prevState))) [])"
    "coll' = coll\<lparr>CC_killedAddrs := fold (killStep newState) (NS_identities prevState) (CC_killedAddrs coll)\<rparr>"
proof -
  from assms obtain v calculator epochRewards rewardAddrs delegatees flips acc where
    parts: "S_ValidationStats (stats s) = Some v" "detectEpochRewards e (EE_it ee) True s = Some (epochRewards, rewardAddrs, delegatees)"
      "shardsFlips e (EE_gradeReported ee) (VSt_Shards v) noFlips = Some flips"
    and run: "run_steps (identityStep e ee (stats s) prevState newState (VSt_Shards v) flips
          (EE_FlipKeysToMigrate ee (NS_epoch prevState) \<noteq> None)) (NS_identities prevState)
          \<lparr>EA_identities = [], EA_birthdays = [], EA_summaries = [], EA_calculator = calculator, EA_pools = [],
           EA_flipKeys = (case EE_FlipKeysToMigrate ee (NS_epoch prevState) of None \<Rightarrow> [] | Some keys \<Rightarrow> keys), EA_bounds = Map.empty,
           EA_rewardAddrs = rewardAddrs, EA_flips = EF_stats flips, EA_killed = CC_killedAddrs coll,
           EA_delegatees = delegatees\<rparr> = Some acc"
    and res: "Res_Identities res = EA_identities acc @ map (undefinedIdentity e) (EE_addrsOrder ee (EA_rewardAddrs acc))"
      "Res_FlipStats res = EA_flips acc" "Res_FlipStatuses res = map (\<lambda>(status, n). \<lparr>FSC_Status = status, FSC_Count = n\<rparr>) (EF_statuses flips)"
      "Res_ReportedFlips res = EF_reported flips" "Res_PoolSizeChanges res = map snd (EA_pools acc)"
      "coll' = coll\<lparr>CC_killedAddrs := EA_killed acc\<rparr>"
    unfolding detectEpochResult_def Let_def by (auto split: bind_splits)
  show thesis using run_identities [OF run] res by (intro that [OF parts]) simp_all
qed

section \<open>A sample validation\<close>

definition sampleFlipStats :: NodeFlipStats where
  "sampleFlipStats = \<lparr>NFS_ShortAnswers = [], NFS_LongAnswers = [], NFS_Status = 2, NFS_Answer = 1, NFS_Grade = 1, NFS_GradeScore = 0\<rparr>"

definition sampleValidation :: ValidationStats where
  "sampleValidation = \<lparr>VSt_Shards = [(1, \<lparr>ShS_FlipCids = [[65], [66]], ShS_FlipsPerIdx = [(0, sampleFlipStats), (1, sampleFlipStats)],
     ShS_IdentitiesPerAddr = [], ShS_WrongGradeReasons = []\<rparr>)], VSt_Failed = False\<rparr>"

definition sampleEpochEnv :: epoch_env where
  "sampleEpochEnv = \<lparr>EE_it = sampleIteration, EE_gradeReported = 1, EE_IdentityScores = (\<lambda>_ p n. (p, n)), EE_EncodeScore = (\<lambda>_ _. 0),
     EE_LastScoresCount = 10, EE_PublicFlipKey = (\<lambda>_. None), EE_FlipKeysToMigrate = (\<lambda>_. None),
     EE_boundsOrder = (\<lambda>_. []), EE_addrsOrder = sorted_list_of_set, EE_conf = sampleConf\<rparr>"

text \<open>Two identities delegate to pool 8 before the block; none does after it, and one of them is killed.\<close>

definition samplePrevState :: node_state where
  "samplePrevState = sampleNodeState\<lparr>NS_identities := [(5, sampleNodeIdentity\<lparr>NI_Delegatee := Some 8, NI_Flips := [([65], 0)]\<rparr>),
     (6, sampleNodeIdentity\<lparr>NI_Delegatee := Some 8\<rparr>)]\<rparr>"

definition sampleNewState :: node_state where
  "sampleNewState = sampleNodeState\<lparr>NS_app := sampleApp\<lparr>AS_GetIdentityState := (\<lambda>a. if a = 6 then Killed else Newbie)\<rparr>\<rparr>"

definition sampleEpochSession :: session where
  "sampleEpochSession = SetValidation (Some sampleValidation) emptySession"

lemmas sample_epoch = sampleFlipStats_def sampleValidation_def sampleEpochEnv_def samplePrevState_def sampleNewState_def
  sampleEpochSession_def sampleNodeState_def sampleNodeIdentity_def sampleApp_def

lemma identityStep_defined:
  assumes "S_RewardsStats st = None" "EA_calculator acc = None"
  shows "\<exists>acc'. identityStep e ee st prevState newState shards flips migrated x acc = Some acc' \<and> EA_calculator acc' = None"
  using assms
  by (cases x) (auto simp: identityStep_def delegateeStep_def boundsStep_def summaryStep_def isPenalized_def Let_def split: option.splits)

lemma run_identities_defined:
  assumes "S_RewardsStats st = None" "EA_calculator acc = None"
  shows "\<exists>acc'. run_steps (identityStep e ee st prevState newState shards flips migrated) ids acc = Some acc'"
  using assms(2)
proof (induction ids arbitrary: acc)
  case (Cons x ids)
  obtain acc1 where "identityStep e ee st prevState newState shards flips migrated x acc = Some acc1" "EA_calculator acc1 = None"
    using identityStep_defined [OF assms(1) Cons.prems] by blast
  then show ?case using Cons.IH by simp
qed simp

lemma bind_result_ex:
  "\<exists>a. m = Some a \<Longrightarrow> \<exists>r c. Option.bind m (\<lambda>a. Some (Some (f a), g a)) = Some (Some r, c)"
  by auto

lemma sample_epoch_result:
  "\<exists>res coll'. detectEpochResult sampleExt sampleEpochEnv True sampleEpochSession samplePrevState sampleNewState emptyCollector
     = Some (Some res, coll')"
proof -
  have none: "S_RewardsStats (stats sampleEpochSession) = None" "S_ValidationStats (stats sampleEpochSession) = Some sampleValidation"
    by (simp_all add: sampleEpochSession_def SetValidation_def emptySession_def emptyStats_def)
  have "\<exists>flips. shardsFlips sampleExt (EE_gradeReported sampleEpochEnv) (VSt_Shards sampleValidation) noFlips = Some flips"
    by (simp add: sampleValidation_def sampleExt_def)
  then show ?thesis
    by (auto simp: detectEpochResult_def none newCalculator_def detectEpochRewards_def Let_def
        intro!: bind_result_ex run_identities_defined [OF none(1)])
qed

section \<open>Properties\<close>

text \<open>Ranging over a Go set visits every element once.\<close>

definition lists_sets :: "(address set \<Rightarrow> address list) \<Rightarrow> bool" where
  "lists_sets order \<longleftrightarrow> (\<forall>A. set (order A) = A \<and> distinct (order A))"

lemma sorted_lists_sets: "lists_sets sorted_list_of_set"
  by (simp add: lists_sets_def)



text \<open>The pool changes of a validation have one row per pool that an identity delegated to before
  or delegates to after the block; its totals are the numbers of these identities (as \<open>uint64\<close>).\<close>
theorem pool_changes_count_delegators:
  assumes "detectEpochResult e ee True s prevState newState coll = Some (Some res, coll')"
  shows "distinct (map PSC_Address (Res_PoolSizeChanges res))
    \<and> set (Res_PoolSizeChanges res) =
        (\<lambda>d. \<lparr>PSC_Address = d,
           PSC_Old = \<lparr>PS_Address = 0, PS_Size = of_int (Dl_PoolSize (NS_dl prevState) d), PS_TotalDelegated =
             of_nat (length (filter (\<lambda>(a, i). NI_Delegatee i = Some d) (NS_identities prevState)))\<rparr>,
           PSC_New = \<lparr>PS_Address = 0, PS_Size = of_int (Dl_PoolSize (NS_dl newState) d), PS_TotalDelegated =
             of_nat (length (filter (\<lambda>(a, i). map_option snd (Dl_Delegatee (NS_dl newState) a) = Some d) (NS_identities prevState)))\<rparr>\<rparr>) `
        {d. \<exists>(a, i) \<in> set (NS_identities prevState). NI_Delegatee i = Some d \<or> map_option snd (Dl_Delegatee (NS_dl newState) a) = Some d}"
proof -
  let ?ps = "concat (map (identityPools newState) (NS_identities prevState))"
  let ?m = "incPools prevState newState ?ps []"
  have rows: "Res_PoolSizeChanges res = map snd ?m" by (rule detectEpochResult_parts [OF assms], assumption)
  have dist: "distinct (map fst ?m)" by (rule incPools_distinct) simp
  have addr: "PSC_Address ch = d" if "(d, ch) \<in> set ?m" for d ch
  proof -
    have "map_of ?m d = Some ch" using that dist by simp
    then have "ch = poolRow prevState newState ?ps d" by (simp add: incPools_rows split: if_splits)
    then show ?thesis by (simp add: poolRow_def)
  qed
  have "map PSC_Address (map snd ?m) = map fst ?m" using addr by (auto simp: split_def)
  then have "distinct (map PSC_Address (Res_PoolSizeChanges res))" using dist by (simp only: rows)
  moreover have "set (map snd ?m) = poolRow prevState newState ?ps ` fst ` set ?ps"
  proof -
    have "set (map snd ?m) = ran (map_of ?m)" by (simp add: ran_distinct [OF dist])
    also have "\<dots> = poolRow prevState newState ?ps ` fst ` set ?ps" by (auto simp: ran_def incPools_rows)
    finally show ?thesis .
  qed
  moreover have "fst ` set ?ps = {d. \<exists>(a, i) \<in> set (NS_identities prevState).
      NI_Delegatee i = Some d \<or> map_option snd (Dl_Delegatee (NS_dl newState) a) = Some d}"
  proof (rule set_eqI)
    fix d
    show "d \<in> fst ` set ?ps \<longleftrightarrow> d \<in> {d. \<exists>(a, i) \<in> set (NS_identities prevState).
        NI_Delegatee i = Some d \<or> map_option snd (Dl_Delegatee (NS_dl newState) a) = Some d}"
      unfolding counted_pools poolCount_identities by (auto simp: filter_empty_conv)
  qed
  moreover have "poolRow prevState newState ?ps = (\<lambda>d. \<lparr>PSC_Address = d,
           PSC_Old = \<lparr>PS_Address = 0, PS_Size = of_int (Dl_PoolSize (NS_dl prevState) d), PS_TotalDelegated =
             of_nat (length (filter (\<lambda>(a, i). NI_Delegatee i = Some d) (NS_identities prevState)))\<rparr>,
           PSC_New = \<lparr>PS_Address = 0, PS_Size = of_int (Dl_PoolSize (NS_dl newState) d), PS_TotalDelegated =
             of_nat (length (filter (\<lambda>(a, i). map_option snd (Dl_Delegatee (NS_dl newState) a) = Some d) (NS_identities prevState)))\<rparr>\<rparr>)"
    by (rule ext) (simp only: poolRow_def poolCount_identities)
  ultimately show ?thesis by (simp only: rows simp_thms)
qed

theorem pool_changes_count_delegators_witness:
  "\<exists>res coll'. detectEpochResult sampleExt sampleEpochEnv True sampleEpochSession samplePrevState sampleNewState emptyCollector
       = Some (Some res, coll')
     \<and> PS_TotalDelegated ` PSC_Old ` set (Res_PoolSizeChanges res) = {2}"
proof -
  obtain res coll' where r: "detectEpochResult sampleExt sampleEpochEnv True sampleEpochSession samplePrevState sampleNewState emptyCollector
      = Some (Some res, coll')" using sample_epoch_result by blast
  have ids: "{d. \<exists>(a, i) \<in> set (NS_identities samplePrevState). NI_Delegatee i = Some d
      \<or> map_option snd (Dl_Delegatee (NS_dl sampleNewState) a) = Some d} = {8}"
    by (auto simp: samplePrevState_def sampleNewState_def sampleNodeState_def sampleDelegations_def)
  have "set (Res_PoolSizeChanges res) = (\<lambda>d. \<lparr>PSC_Address = d,
           PSC_Old = \<lparr>PS_Address = 0, PS_Size = of_int (Dl_PoolSize (NS_dl samplePrevState) d), PS_TotalDelegated =
             of_nat (length (filter (\<lambda>(a, i). NI_Delegatee i = Some d) (NS_identities samplePrevState)))\<rparr>,
           PSC_New = \<lparr>PS_Address = 0, PS_Size = of_int (Dl_PoolSize (NS_dl sampleNewState) d), PS_TotalDelegated =
             of_nat (length (filter (\<lambda>(a, i). map_option snd (Dl_Delegatee (NS_dl sampleNewState) a) = Some d) (NS_identities samplePrevState)))\<rparr>\<rparr>) ` {8}"
    using pool_changes_count_delegators [OF r] unfolding ids by blast
  then have "PS_TotalDelegated ` PSC_Old ` set (Res_PoolSizeChanges res) = {2}"
    by (simp add: samplePrevState_def)
  then show ?thesis using r by blast
qed

text \<open>The flip statistics of a validation are counted right: the status counts list every status
  that a flip row has exactly once, with the number of these rows (as \<open>uint64\<close>), and the number of
  reported flips is the number of rows with the grade "reported" (as \<open>uint32\<close>).\<close>
theorem flip_statuses_counted:
  assumes "detectEpochResult e ee True s prevState newState coll = Some (Some res, coll')"
  shows "distinct (map FSC_Status (Res_FlipStatuses res))
    \<and> set (Res_FlipStatuses res) = (\<lambda>status. \<lparr>FSC_Status = status,
          FSC_Count = of_nat (length (filter (\<lambda>row. FS_Status row = status) (Res_FlipStats res)))\<rparr>) ` FS_Status ` set (Res_FlipStats res)
    \<and> Res_ReportedFlips res = of_nat (length (filter (\<lambda>row. FS_Grade row = EE_gradeReported ee) (Res_FlipStats res)))"
proof -
  obtain v :: ValidationStats and flips where flips: "shardsFlips e (EE_gradeReported ee) (VSt_Shards v) noFlips = Some flips"
    and res: "Res_FlipStats res = fold (authorStep e flips) (NS_identities prevState) (EF_stats flips)"
      "Res_FlipStatuses res = map (\<lambda>(status, n). \<lparr>FSC_Status = status, FSC_Count = n\<rparr>) (EF_statuses flips)"
      "Res_ReportedFlips res = EF_reported flips"
    by (rule detectEpochResult_parts [OF assms], rule that, assumption+)
  have ok: "flips_ok (EE_gradeReported ee) flips" by (rule shardsFlips_ok [OF noFlips_ok flips])
  have keep: "map FS_Status (Res_FlipStats res) = map FS_Status (EF_stats flips)" "map FS_Grade (Res_FlipStats res) = map FS_Grade (EF_stats flips)"
    unfolding res(1) by (rule fold_authors_keeps, simp)+
  have count: "length (filter (\<lambda>row. FS_Status row = status) (Res_FlipStats res)) = statusCount (EF_stats flips) status" for status
    unfolding statusCount_def by (rule filter_keeps [OF keep(1)])
  have statuses: "FS_Status ` set (Res_FlipStats res) = FS_Status ` set (EF_stats flips)"
    using arg_cong [OF keep(1), of set] by simp
  have at: "map_of (EF_statuses flips) status = (if status \<in> FS_Status ` set (EF_stats flips)
      then Some (of_nat (statusCount (EF_stats flips) status)) else None)" for status
    using ok by (auto simp: flips_ok_def statusCount_def filter_empty_conv simp del: map_of_eq_Some_iff)
  have dist: "distinct (map fst (EF_statuses flips))" using ok by (simp add: flips_ok_def)
  have "set (EF_statuses flips) = (\<lambda>status. (status, of_nat (statusCount (EF_stats flips) status))) ` FS_Status ` set (EF_stats flips)"
    by (rule set_of_map_of [OF dist at])
  then show ?thesis
    using dist ok filter_keeps [OF keep(2), of "EE_gradeReported ee"]
    by (simp add: res(2,3) count statuses flips_ok_def split_def comp_def image_image)
qed

theorem flip_statuses_counted_witness:
  "\<exists>res coll'. detectEpochResult sampleExt sampleEpochEnv True sampleEpochSession samplePrevState sampleNewState emptyCollector
       = Some (Some res, coll')
     \<and> Res_ReportedFlips res = of_nat (length (filter (\<lambda>row. FS_Grade row = 1) (Res_FlipStats res)))
     \<and> distinct (map FSC_Status (Res_FlipStatuses res))"
proof -
  obtain res coll' where r: "detectEpochResult sampleExt sampleEpochEnv True sampleEpochSession samplePrevState sampleNewState emptyCollector
      = Some (Some res, coll')" using sample_epoch_result by blast
  from flip_statuses_counted [OF r] r show ?thesis by (simp add: sampleEpochEnv_def)
qed

end
