(* ===== verification/Upgrade_Voting.thy ===== *)
theory Upgrade_Voting
  imports Stats_Types "HOL-Library.AList"
begin

text \<open>
  Votes for network upgrades: the cache of \<open>src/core/holder/upgrade/voting.go\<close> and
  \<open>src/indexer/upgrade_voting.go\<close>. The clock, the node's configuration and the database are
  arguments; a failed database call is \<open>None\<close>. The conversions between an upgrade number and the
  node's type of consensus versions are arguments too.
\<close>

section \<open>Data\<close>

record Votes =
  Vt_Upgrade :: uint32
  Vt_Votes :: uint64

record UpgradeVotes =
  UV_Upgrade :: uint32
  UV_Votes :: uint64
  UV_Timestamp :: int

record UpgradeHistoryItem =
  UHI_BlockHeight :: uint64
  UHI_Votes :: uint64

record UpgradeVotingShortHistoryInfo =
  UHS_HistoryItems :: uint64
  UHS_LastStep :: uint32
  UHS_LastHeight :: uint64

record Upgrade =
  Up_Upgrade :: uint32
  Up_StartActivationDate :: int
  Up_EndActivationDate :: int

text \<open>What the code reads of a consensus configuration.\<close>

record activation =
  Ac_StartActivationDate :: int
  Ac_EndActivationDate :: int

section \<open>Counting the votes\<close>

fun countVotes :: "uint32 list \<Rightarrow> (uint32 \<times> uint64) list \<Rightarrow> (uint32 \<times> uint64) list" where
  "countVotes [] votesByUpgrade = votesByUpgrade"
| "countVotes (u # votes) votesByUpgrade =
     countVotes votes (AList.update u ((case map_of votesByUpgrade u of None \<Rightarrow> 0 | Some n \<Rightarrow> n) + 1) votesByUpgrade)"

definition updateVotes :: "uint32 list \<Rightarrow> Votes list" where
  "updateVotes votes = map (\<lambda>(u, n). \<lparr>Vt_Upgrade = u, Vt_Votes = n\<rparr>) (countVotes votes [])"

section \<open>Active votings\<close>

definition detectActiveUpgradeVotings :: "('v \<times> activation) list \<Rightarrow> int \<Rightarrow> 'v set" where
  "detectActiveUpgradeVotings versions timestamp =
     set (map fst (filter (\<lambda>(version, conf). \<not> (timestamp < Ac_StartActivationDate conf \<or> timestamp > Ac_EndActivationDate conf)) versions))"

fun detectUpgradeVotesLoop :: "(uint32 \<Rightarrow> 'v) \<Rightarrow> uint32 \<Rightarrow> 'v set \<Rightarrow> int \<Rightarrow> Votes list \<Rightarrow> UpgradeVotes list" where
  "detectUpgradeVotesLoop toVersion current active now [] = []"
| "detectUpgradeVotesLoop toVersion current active now (v # vs) =
     (if Vt_Upgrade v \<le> current then detectUpgradeVotesLoop toVersion current active now vs
      else if toVersion (Vt_Upgrade v) \<notin> active then detectUpgradeVotesLoop toVersion current active now vs
      else \<lparr>UV_Upgrade = Vt_Upgrade v, UV_Votes = Vt_Votes v, UV_Timestamp = now\<rparr>
        # detectUpgradeVotesLoop toVersion current active now vs)"

definition detectUpgradeVotes :: "(uint32 \<Rightarrow> 'v) \<Rightarrow> ('v \<Rightarrow> uint32) \<Rightarrow> ('v \<times> activation) list \<Rightarrow> int \<Rightarrow> Votes list \<Rightarrow> 'v \<Rightarrow>
    UpgradeVotes list" where
  "detectUpgradeVotes toVersion fromVersion versions now upgradesVotes currentVersion =
     (let active = detectActiveUpgradeVotings versions now
      in if active = {} then []
         else detectUpgradeVotesLoop toVersion (fromVersion currentVersion) active now upgradesVotes)"

definition updateUpgradesInfo :: "('v \<Rightarrow> uint32) \<Rightarrow> ('v \<times> activation) list \<Rightarrow> Upgrade list" where
  "updateUpgradesInfo fromVersion versions = map (\<lambda>(version, conf). \<lparr>Up_Upgrade = fromVersion version,
     Up_StartActivationDate = Ac_StartActivationDate conf, Up_EndActivationDate = Ac_EndActivationDate conf\<rparr>) versions"

section \<open>The short history of a voting\<close>

text \<open>\<open>math.Round\<close>: halves away from zero.\<close>

definition goRound :: "rat \<Rightarrow> int" where
  "goRound x = (if x < 0 then - \<lfloor>- x + 1 / 2\<rfloor> else \<lfloor>x + 1 / 2\<rfloor>)"

definition historyStep :: "ext \<Rightarrow> int \<Rightarrow> int \<Rightarrow> float32" where
  "historyStep e len itemCount =
     (if itemCount > 1 then X_f32 e (X_f32 e (of_int (len - 1)) / X_f32 e (of_int (itemCount - 1))) else 0)"

definition historyIndex :: "ext \<Rightarrow> float32 \<Rightarrow> nat \<Rightarrow> int" where
  "historyIndex e step i = goRound (X_f64 e (X_f64 e (of_nat i) * X_f64 e step))"

text \<open>The sampling loop; an index out of range panics. The last step is a \<open>uint32\<close>.\<close>

fun historyLoop :: "ext \<Rightarrow> float32 \<Rightarrow> int \<Rightarrow> UpgradeHistoryItem list \<Rightarrow> nat list \<Rightarrow> UpgradeHistoryItem list \<times> uint32 \<Rightarrow>
    (UpgradeHistoryItem list \<times> uint32) option" where
  "historyLoop e step itemCount votes [] acc = Some acc"
| "historyLoop e step itemCount votes (i # ixs) (summary, lastStep) =
     (let idx = historyIndex e step i
      in if 0 \<le> idx \<and> idx < int (length votes)
         then historyLoop e step itemCount votes ixs (summary @ [votes ! nat idx],
           if int i = itemCount - 2 then of_int idx
           else if int i = itemCount - 1 then of_int idx - lastStep else lastStep)
         else None)"

text \<open>
  The refresh of one voting: the outer option is a panic, the inner one tells whether the database
  is updated and with what.
\<close>

definition refreshUpgradeVotingHistorySummary :: "ext \<Rightarrow> int \<Rightarrow> int \<Rightarrow> UpgradeVotingShortHistoryInfo option \<Rightarrow>
    UpgradeHistoryItem list option \<Rightarrow> uint64 \<Rightarrow> (UpgradeHistoryItem list \<times> uint32 \<times> uint64) option option" where
  "refreshUpgradeVotingHistorySummary e itemCount minShift info history height =
     (case info of None \<Rightarrow> Some None | Some loaded \<Rightarrow>
        let shift = height - UHS_LastHeight loaded in
        if of_int itemCount \<ge> UHS_HistoryItems loaded \<or> shift < of_int minShift \<or> shift < ucast (UHS_LastStep loaded) then Some None
        else (case history of None \<Rightarrow> Some None | Some votes \<Rightarrow>
          if votes = [] \<or> int (length votes) \<le> itemCount then Some None
          else if itemCount < 0 then None
          else map_option (\<lambda>(summary, lastStep). Some (summary, lastStep, height))
            (historyLoop e (historyStep e (int (length votes)) itemCount) itemCount votes [0..<nat itemCount] ([], 0))))"

section \<open>Votes are counted\<close>

lemma countVotes_keys: "distinct (map fst m) \<Longrightarrow> distinct (map fst (countVotes vs m))"
  by (induction vs arbitrary: m) (simp_all add: distinct_update)

lemma countVotes_map_of:
  "map_of (countVotes vs m) u = (case map_of m u of
       None \<Rightarrow> if u \<in> set vs then Some (of_nat (count_list vs u)) else None
     | Some n \<Rightarrow> Some (n + of_nat (count_list vs u)))"
  by (induction vs arbitrary: m) (auto simp: update_conv' count_list_0_iff split: option.splits)

section \<open>Rounding\<close>

text \<open>
  IEEE arithmetic: a result is off by at most half a unit in the last place, and integers up to
  \<open>2 ^ 24\<close> are exact.
\<close>

definition float_ok :: "ext \<Rightarrow> bool" where
  "float_ok e \<longleftrightarrow> (\<forall>x \<ge> 0. \<bar>X_f32 e x - x\<bar> \<le> x / 2 ^ 24) \<and> (\<forall>x \<ge> 0. \<bar>X_f64 e x - x\<bar> \<le> x / 2 ^ 53)
     \<and> (\<forall>n :: nat. n \<le> 2 ^ 24 \<longrightarrow> X_f32 e (of_nat n) = of_nat n \<and> X_f64 e (of_nat n) = of_nat n)
     \<and> (\<forall>x. X_f64 e (X_f32 e x) = X_f32 e x)"

lemma float_okD:
  assumes "float_ok e"
  shows "0 \<le> x \<Longrightarrow> \<bar>X_f32 e x - x\<bar> \<le> x / 2 ^ 24"
    and "0 \<le> x \<Longrightarrow> \<bar>X_f64 e x - x\<bar> \<le> x / 2 ^ 53"
    and "n \<le> 2 ^ 24 \<Longrightarrow> X_f32 e (of_nat n) = of_nat n"
    and "n \<le> 2 ^ 24 \<Longrightarrow> X_f64 e (of_nat n) = of_nat n"
    and "X_f64 e (X_f32 e x) = X_f32 e x"
  using assms unfolding float_ok_def by blast+

lemma goRound_near: "\<bar>x - of_int n\<bar> < 1 / 2 \<Longrightarrow> 0 \<le> x \<Longrightarrow> goRound x = n"
  by (auto simp: goRound_def floor_eq_iff abs_if split: if_splits)

lemma goRound_bounds: "0 \<le> x \<Longrightarrow> x < of_int n + 1 / 2 \<Longrightarrow> 0 \<le> goRound x \<and> goRound x \<le> n"
  by (auto simp: goRound_def le_floor_iff floor_le_iff)

lemma goRound_mono: "0 \<le> x \<Longrightarrow> x \<le> y \<Longrightarrow> goRound x \<le> goRound y"
  by (simp add: goRound_def floor_mono)

text \<open>The computed position of a sample is within a quarter of the exact one.\<close>

definition samplePoint :: "ext \<Rightarrow> float32 \<Rightarrow> nat \<Rightarrow> rat" where
  "samplePoint e step i = X_f64 e (X_f64 e (of_nat i) * X_f64 e step)"

lemma two_roundings:
  fixes x s p :: rat
  assumes "0 \<le> y" "\<bar>s - x\<bar> \<le> x / 2 ^ 24" "0 \<le> x" "0 \<le> k" "y = k * x" "\<bar>p - k * s\<bar> \<le> k * s / 2 ^ 53"
  shows "\<bar>p - y\<bar> \<le> y / 2 ^ 23"
proof -
  have "\<bar>k * s - k * x\<bar> = k * \<bar>s - x\<bar>" using assms(4) by (simp add: abs_mult flip: right_diff_distrib)
  also have "\<dots> \<le> k * (x / 2 ^ 24)" using assms(2,4) by (rule mult_left_mono)
  finally have a: "\<bar>k * s - y\<bar> \<le> y / 2 ^ 24" using assms(5) by simp
  moreover have "y / 2 ^ 24 \<le> y" using assms(1) by simp
  ultimately have "k * s \<le> 2 * y" by linarith
  then have "\<bar>p - k * s\<bar> \<le> y / 2 ^ 52" using assms(6) by simp
  with a have "\<bar>p - y\<bar> \<le> y / 2 ^ 24 + y / 2 ^ 52" by linarith
  also have "\<dots> \<le> y / 2 ^ 23" using assms(1) by simp
  finally show ?thesis .
qed

lemma samplePoint_near:
  assumes "float_ok e" "1 < k" "k < len" "len \<le> 2 ^ 20" "i < k"
  defines "x \<equiv> (of_nat (len - 1) :: rat) / of_nat (k - 1)"
  shows "\<bar>samplePoint e (historyStep e (int len) (int k)) i - of_nat i * x\<bar> \<le> 1 / 4"
proof -
  have small: "len - 1 \<le> 2 ^ 24" "k - 1 \<le> 2 ^ 24" "i \<le> 2 ^ 24" using assms(3-5) by simp_all
  have step: "historyStep e (int len) (int k) = X_f32 e x"
  proof -
    have "(of_int (int len - 1) :: rat) = of_nat (len - 1)" "(of_int (int k - 1) :: rat) = of_nat (k - 1)"
      using assms(2,3) by (simp_all add: of_nat_diff)
    moreover have "int k > 1" using assms(2) by simp
    ultimately show ?thesis
      unfolding historyStep_def x_def by (simp only: if_True float_okD(3) [OF assms(1) small(1)] float_okD(3) [OF assms(1) small(2)])
  qed
  have x0: "0 \<le> x" by (simp add: x_def)
  have s: "\<bar>X_f32 e x - x\<bar> \<le> x / 2 ^ 24" by (rule float_okD(1) [OF assms(1) x0])
  moreover have "x / 2 ^ 24 \<le> x" using x0 by simp
  ultimately have s0: "0 \<le> of_nat i * X_f32 e x" by (intro mult_nonneg_nonneg) linarith+
  have pt: "samplePoint e (X_f32 e x) i = X_f64 e (of_nat i * X_f32 e x)"
    unfolding samplePoint_def float_okD(5) [OF assms(1)] float_okD(4) [OF assms(1) small(3)] by (rule refl)
  have "\<bar>samplePoint e (X_f32 e x) i - of_nat i * X_f32 e x\<bar> \<le> of_nat i * X_f32 e x / 2 ^ 53"
    unfolding pt by (rule float_okD(2) [OF assms(1) s0])
  then have near: "\<bar>samplePoint e (X_f32 e x) i - of_nat i * x\<bar> \<le> (of_nat i * x) / 2 ^ 23"
    by (rule two_roundings [OF _ s x0 _ refl, rotated 2]) (simp_all add: x0)
  have "of_nat i * x \<le> 2 ^ 20"
  proof -
    have "of_nat i * x \<le> of_nat (k - 1) * x" using assms(5) x0 by (intro mult_right_mono) auto
    also have "\<dots> = of_nat (len - 1)" using assms(2) by (simp add: x_def)
    also have "\<dots> \<le> of_nat (2 ^ 20)" using assms(4) by (intro of_nat_mono) simp
    finally show ?thesis by simp
  qed
  then have "of_nat i * x / 2 ^ 23 \<le> 2 ^ 20 / 2 ^ 23" by (rule divide_right_mono) simp
  then have "of_nat i * x / 2 ^ 23 \<le> 1 / 4" by (rule order_trans) simp
  with near show ?thesis unfolding step by (rule order_trans)
qed

text \<open>The sampled indexes: they start at 0, end at the last index and never decrease.\<close>

definition historyIndexes :: "ext \<Rightarrow> nat \<Rightarrow> nat \<Rightarrow> nat list" where
  "historyIndexes e len k = map (\<lambda>i. nat (historyIndex e (historyStep e (int len) (int k)) i)) [0..<k]"

lemma historyIndex_facts:
  assumes "float_ok e" "1 < k" "k < len" "len \<le> 2 ^ 20"
  defines "ix \<equiv> historyIndex e (historyStep e (int len) (int k))"
  shows "i < k \<Longrightarrow> 0 \<le> ix i \<and> ix i \<le> int (len - 1)"
    and "ix 0 = 0" and "ix (k - 1) = int (len - 1)"
    and "Suc i < k \<Longrightarrow> ix i \<le> ix (Suc i)"
proof -
  define pt where "pt = samplePoint e (historyStep e (int len) (int k))"
  define x where "x = (of_nat (len - 1) :: rat) / of_nat (k - 1)"
  have ix: "ix i = goRound (pt i)" for i by (simp add: ix_def historyIndex_def pt_def samplePoint_def)
  have near: "\<bar>pt i - of_nat i * x\<bar> \<le> 1 / 4" if "i < k" for i
    unfolding pt_def x_def by (rule samplePoint_near [OF assms(1-4) that])
  have x1: "1 \<le> x" using assms(2,3) by (simp add: x_def)
  have top: "of_nat (k - 1) * x = of_nat (len - 1)" using assms(2) by (simp add: x_def)
  have p0: "pt 0 = 0"
  proof -
    have "X_f64 e 0 = 0" using float_okD(4) [OF assms(1), of 0] by simp
    then show ?thesis by (simp add: pt_def samplePoint_def)
  qed
  have mono: "pt i \<le> pt (Suc i)" if "Suc i < k" for i
  proof -
    have "pt i \<le> of_nat i * x + 1 / 4" using near [of i] that unfolding abs_le_iff by linarith
    moreover have "of_nat (Suc i) * x - 1 / 4 \<le> pt (Suc i)" using near [OF that] unfolding abs_le_iff by linarith
    moreover have "of_nat (Suc i) * x = of_nat i * x + x" by (simp add: distrib_right)
    ultimately show ?thesis using x1 by linarith
  qed
  have nonneg: "0 \<le> pt i" if "i < k" for i
    using that by (induction i) (use p0 mono in \<open>auto dest: order_trans [OF _ mono]\<close>)
  show "ix 0 = 0" unfolding ix p0 by (rule goRound_near) simp_all
  show "ix (k - 1) = int (len - 1)"
    unfolding ix by (rule goRound_near) (use near [of "k - 1"] nonneg [of "k - 1"] top assms(2) in \<open>auto simp: abs_le_iff abs_less_iff\<close>)
  show "0 \<le> ix i \<and> ix i \<le> int (len - 1)" if "i < k"
  proof -
    have "of_nat i * x \<le> of_nat (k - 1) * x" using that x1 by (intro mult_right_mono) auto
    then have "pt i < of_nat (len - 1) + 1 / 2" using near [OF that] unfolding top abs_le_iff by linarith
    then show ?thesis unfolding ix using goRound_bounds [OF nonneg [OF that], of "int (len - 1)"] by simp
  qed
  show "ix i \<le> ix (Suc i)" if "Suc i < k"
    unfolding ix using that by (intro goRound_mono nonneg mono) simp_all
qed

lemma historyLoop_run:
  assumes "\<And>i. i \<in> set ixs \<Longrightarrow> 0 \<le> historyIndex e step i \<and> historyIndex e step i < int (length votes)"
  shows "\<exists>l. historyLoop e step k votes ixs (summary, lastStep) =
    Some (summary @ map (\<lambda>i. votes ! nat (historyIndex e step i)) ixs, l)"
  using assms
proof (induction ixs arbitrary: summary lastStep)
  case Nil
  then show ?case by simp
next
  case (Cons i ixs)
  have IH: "\<exists>l. historyLoop e step k votes ixs (summary', last') =
      Some (summary' @ map (\<lambda>i. votes ! nat (historyIndex e step i)) ixs, l)" for summary' last'
    using Cons by simp
  have "0 \<le> historyIndex e step i \<and> historyIndex e step i < int (length votes)" using Cons.prems by simp
  then show ?case
    using IH [of "summary @ [votes ! nat (historyIndex e step i)]"] by (simp only: historyLoop.simps Let_def if_True list.map append_assoc append_Cons append_Nil simp_thms)
qed

section \<open>Properties\<close>

text \<open>the refreshed vote cache has one entry per upgrade that somebody votes for, with the
  number of its votes (modulo \<open>2 ^ 64\<close>).\<close>

theorem upgrade_votes_counted:
  "distinct (map Vt_Upgrade (updateVotes votes))
   \<and> set (map (\<lambda>v. (Vt_Upgrade v, Vt_Votes v)) (updateVotes votes)) = {(u, of_nat (count_list votes u)) | u. u \<in> set votes}"
proof -
  have d: "distinct (map fst (countVotes votes []))" by (rule countVotes_keys) simp
  have "(u, n) \<in> set (countVotes votes []) \<longleftrightarrow> u \<in> set votes \<and> n = of_nat (count_list votes u)" for u n
    using map_of_eq_Some_iff [OF d, of u n] countVotes_map_of [of votes "[]" u] by (auto split: if_splits)
  moreover have "map (\<lambda>v. (Vt_Upgrade v, Vt_Votes v)) (updateVotes votes) = countVotes votes []"
    "map Vt_Upgrade (updateVotes votes) = map fst (countVotes votes [])"
    by (simp_all add: updateVotes_def comp_def split_beta)
  ultimately show ?thesis using d by auto
qed


definition sampleHistory :: "UpgradeHistoryItem list" where
  "sampleHistory = map (\<lambda>i. \<lparr>UHI_BlockHeight = of_nat i, UHI_Votes = of_nat i\<rparr>) [0..<6]"


end
