(* ===== verification/Block_Data.thy ===== *)
theory Block_Data
  imports Epoch_Result Upgrade_Voting
begin

text \<open>
  From a block to the data that is saved: \<open>convertIncomingData\<close>, \<open>convertBlock\<close>, \<open>getCoins\<close> and
  \<open>detectFirstAddresses\<close> of \<open>src/indexer/indexer.go\<close>, \<open>src/indexer/proposer.go\<close>,
  \<open>src/indexer/miners_history.go\<close>, \<open>src/indexer/oracle_voting.go\<close> and the state of
  \<open>src/indexer/state.go\<close>. It composes the conversions of the other theories on the statistics of the
  block and on the states before and after it.
\<close>

section \<open>The block\<close>

datatype block_flag = IdentityUpdate | FlipLotteryStarted | ShortSessionStarted | LongSessionStarted
  | AfterLongSessionStarted | ValidationFinished | Snapshot | OfflinePropose | OfflineCommit | NewGenesis

fun blockFlags :: "block_flag \<Rightarrow> string" where
  "blockFlags IdentityUpdate = ''IdentityUpdate''"
| "blockFlags FlipLotteryStarted = ''FlipLotteryStarted''"
| "blockFlags ShortSessionStarted = ''ShortSessionStarted''"
| "blockFlags LongSessionStarted = ''LongSessionStarted''"
| "blockFlags AfterLongSessionStarted = ''AfterLongSessionStarted''"
| "blockFlags ValidationFinished = ''ValidationFinished''"
| "blockFlags Snapshot = ''Snapshot''"
| "blockFlags OfflinePropose = ''OfflinePropose''"
| "blockFlags OfflineCommit = ''OfflineCommit''"
| "blockFlags NewGenesis = ''NewGenesis''"

text \<open>
  What is read of the node's block; \<open>B_Upgrade\<close> is \<open>None\<close> when the header has no proposed part,
  the sizes are those of the encoded body and block.
\<close>

record node_block =
  B_Height :: uint64
  B_Hash :: hash
  B_ParentHash :: hash
  B_Time :: int
  B_Txs :: "Transaction list"
  B_Flags :: "block_flag set"
  B_IsEmpty :: bool
  B_Coinbase :: address
  B_Upgrade :: "uint32 option"
  B_OfflineAddr :: "address option"
  B_BodySize :: nat
  B_FullSize :: nat

record DbBlock =
  Bl_ValidationFinished :: bool
  Bl_Height :: uint64
  Bl_Hash :: string
  Bl_Transactions :: "DbTransaction list"
  Bl_Time :: int
  Bl_Proposer :: string
  Bl_Flags :: "string list"
  Bl_IsEmpty :: bool
  Bl_BodySize :: nat
  Bl_FullSize :: nat
  Bl_VrfProposerThreshold :: rat
  Bl_OriginalValidatorsCount :: nat
  Bl_PoolValidatorsCount :: nat
  Bl_ProposerVrfScore :: rat
  Bl_FeeRate :: decimal
  Bl_Upgrade :: "uint32 option"
  Bl_OfflineAddress :: "string option"
  Bl_GasUsed :: uint64

text \<open>
  A proof in the node's map of pending proofs: \<open>None\<close> is a value of another type; the public key and
  the hash are the results of library functions that may fail.
\<close>

record proof_proposal =
  PP_Round :: uint64
  PP_PubKey :: "bytes option"
  PP_Hash :: "hash option"

record block_env =
  BE_ext :: ext
  BE_tx :: tx_env
  BE_epoch :: epoch_env
  BE_flagsOrder :: "block_flag list"
  BE_ProposerByRound :: "uint64 \<Rightarrow> (hash \<times> bytes) option"
  BE_PendingProofs :: "proof_proposal option list"
  BE_PubKeyToAddress :: "bytes \<Rightarrow> address"
  BE_HashToFloat :: "hash \<Rightarrow> int \<Rightarrow> rat"
  BE_SecondaryScore :: "(uint64 \<Rightarrow> rat option) option"
  BE_setBytes :: "bytes \<Rightarrow> address"
  BE_HexToAddress :: "string \<Rightarrow> address"
  BE_CanBeProlonged :: "address \<Rightarrow> node_state \<Rightarrow> node_block \<Rightarrow> bool"
  BE_upgradesVotes :: "UpgradeVotes list"
  BE_penaltiesOrder :: "(address \<rightharpoonup> Penalty) \<Rightarrow> (address \<times> Penalty) list"
  BE_disableDelegationHistory :: bool
  BE_genesisHash :: hash

definition getProposer :: "ext \<Rightarrow> node_block \<Rightarrow> string" where
  "getProposer e b = (if B_IsEmpty b then [] else ConvertAddress e (B_Coinbase b))"

definition getProposerScoreByRound :: "block_env \<Rightarrow> uint64 \<Rightarrow> address \<Rightarrow> hash option" where
  "getProposerScoreByRound be rnd addr = (case BE_ProposerByRound be rnd of
       None \<Rightarrow> None
     | Some (h, proposerPubKey) \<Rightarrow> if BE_PubKeyToAddress be proposerPubKey \<noteq> addr then None else Some h)"

fun searchProofsByHashVrfScore :: "block_env \<Rightarrow> uint64 \<Rightarrow> address \<Rightarrow> proof_proposal option list \<Rightarrow> hash option" where
  "searchProofsByHashVrfScore be rnd addr [] = None"
| "searchProofsByHashVrfScore be rnd addr (None # proofs) = searchProofsByHashVrfScore be rnd addr proofs"
| "searchProofsByHashVrfScore be rnd addr (Some p # proofs) =
     (if PP_Round p \<noteq> rnd then searchProofsByHashVrfScore be rnd addr proofs
      else case PP_PubKey p of
        None \<Rightarrow> searchProofsByHashVrfScore be rnd addr proofs
      | Some pubKey \<Rightarrow>
          if BE_PubKeyToAddress be pubKey = addr then
            (case PP_Hash p of
               None \<Rightarrow> searchProofsByHashVrfScore be rnd addr proofs
             | Some h \<Rightarrow> Some h)
          else searchProofsByHashVrfScore be rnd addr proofs)"

definition getProposerVrfScore :: "block_env \<Rightarrow> node_block \<Rightarrow> node_state \<Rightarrow> rat option" where
  "getProposerVrfScore be b prevState =
     (if B_Upgrade b = None then None
      else case BE_SecondaryScore be of
        Some score \<Rightarrow> score (B_Height b)
      | None \<Rightarrow>
          (case (case getProposerScoreByRound be (B_Height b) (B_Coinbase b) of
                   None \<Rightarrow> searchProofsByHashVrfScore be (B_Height b) (B_Coinbase b) (BE_PendingProofs be)
                 | Some h \<Rightarrow> Some h) of
             None \<Rightarrow> None
           | Some h \<Rightarrow> Some (BE_HashToFloat be h (Dl_PoolSize (NS_dl prevState) (B_Coinbase b)))))"

definition convertFlags :: "block_flag list \<Rightarrow> block_flag set \<Rightarrow> string list" where
  "convertFlags order flags = map blockFlags (filter (\<lambda>f. f \<in> flags) order)"

definition convertBlock :: "block_env \<Rightarrow> node_block \<Rightarrow> Stats \<Rightarrow> node_state \<Rightarrow> conversionCollector \<Rightarrow>
    (DbBlock \<times> conversionCollector) option" where
  "convertBlock be b st prevState collector = do {
     (txs, collector1) \<leftarrow> convertTransactions (BE_ext be) (BE_tx be) st prevState (B_Txs b) collector;
     Some (\<lparr>Bl_ValidationFinished = False, Bl_Height = B_Height b, Bl_Hash = ConvertHash (BE_ext be) (B_Hash b),
        Bl_Transactions = txs, Bl_Time = B_Time b, Bl_Proposer = getProposer (BE_ext be) b,
        Bl_Flags = convertFlags (BE_flagsOrder be) (B_Flags b), Bl_IsEmpty = B_IsEmpty b,
        Bl_BodySize = B_BodySize b, Bl_FullSize = B_FullSize b,
        Bl_VrfProposerThreshold = NS_vrfThreshold prevState,
        Bl_OriginalValidatorsCount = card (S_OriginalFinalCommittee st),
        Bl_PoolValidatorsCount = card (S_PoolFinalCommittee st),
        Bl_ProposerVrfScore = (case getProposerVrfScore be b prevState of None \<Rightarrow> 0 | Some score \<Rightarrow> score),
        Bl_FeeRate = X_convertToFloat (BE_ext be) (NS_feePerGas prevState),
        Bl_Upgrade = B_Upgrade b, Bl_OfflineAddress = map_option (ConvertAddress (BE_ext be)) (B_OfflineAddr b),
        Bl_GasUsed = S_BlockGasUsed st\<rparr>, collector1) }"

section \<open>The first block\<close>

definition initialChange :: "identity_state \<Rightarrow> AddressStateChange" where
  "initialChange st = \<lparr>ASC_PrevState = convertIdentityState Undefined, ASC_NewState = convertIdentityState st, ASC_TxHash = []\<rparr>"

text \<open>
  The iteration over the accounts stops at a nil key. The accumulator is the list of rows, the
  changes that have no account yet and whether the zero wallet was seen.
\<close>

fun accountAddresses :: "ext \<Rightarrow> (bytes \<Rightarrow> address) \<Rightarrow> bytes option list \<Rightarrow>
    DbAddress list \<times> (address \<times> AddressStateChange) list \<times> bool \<Rightarrow>
    (DbAddress list \<times> (address \<times> AddressStateChange) list \<times> bool) option" where
  "accountAddresses e setBytes [] acc = Some acc"
| "accountAddresses e setBytes (None # keys) acc = Some acc"
| "accountAddresses e setBytes (Some key # keys) (rows, changes, withZeroWallet) = do {
     addr \<leftarrow> BytesToAddr setBytes key;
     accountAddresses e setBytes keys
       (rows @ [\<lparr>DA_Address = ConvertAddress e addr, DA_IsTemporary = False,
          DA_StateChanges = (case map_of changes addr of None \<Rightarrow> [] | Some ch \<Rightarrow> [ch])\<rparr>],
        AList.delete addr changes, withZeroWallet \<or> addr = 0) }"

definition detectFirstAddresses :: "ext \<Rightarrow> (bytes \<Rightarrow> address) \<Rightarrow> bool \<Rightarrow> node_state \<Rightarrow> DbAddress list option" where
  "detectFirstAddresses e setBytes isFirstBlock newState =
     (if \<not> isFirstBlock then Some []
      else do {
        let changes = fold (\<lambda>(addr, identity). AList.update addr (initialChange (NI_State identity))) (NS_identities newState) [];
        (rows, rest, withZeroWallet) \<leftarrow> accountAddresses e setBytes (NS_accountKeys newState) ([], changes, False);
        Some (rows @ map (\<lambda>(addr, ch). \<lparr>DA_Address = ConvertAddress e addr, DA_IsTemporary = False, DA_StateChanges = [ch]\<rparr>) rest
          @ (if withZeroWallet then [] else
             [\<lparr>DA_Address = ConvertAddress e 0, DA_IsTemporary = False, DA_StateChanges = [initialChange Undefined]\<rparr>])) })"

definition addFirstAddress :: "DbAddress \<Rightarrow> (string \<times> DbAddress) list \<Rightarrow> (string \<times> DbAddress) list" where
  "addFirstAddress addr m = (case map_of m (DA_Address addr) of
       Some row \<Rightarrow> AList.update (DA_Address addr) (row\<lparr>DA_StateChanges := DA_StateChanges row @ DA_StateChanges addr\<rparr>) m
     | None \<Rightarrow> AList.update (DA_Address addr) addr m)"

section \<open>The state of the indexer and the coins\<close>

record indexerState =
  IS_lastIndexedHeight :: uint64
  IS_totalBalance :: bigint
  IS_totalStake :: bigint
  IS_actualOracleVotings :: "address set"

definition newActualOracleVotingHolder :: "address list \<Rightarrow> address set" where
  "newActualOracleVotingHolder contracts = fold insert contracts {}"

definition holderAdd :: "address list \<Rightarrow> address set \<Rightarrow> address set" where
  "holderAdd contracts h = fold insert contracts h"

definition holderRemove :: "address list \<Rightarrow> address set \<Rightarrow> address set" where
  "holderRemove contracts h = fold (\<lambda>c h. h - {c}) contracts h"

record Coins =
  Co_Minted :: decimal
  Co_Burnt :: decimal
  Co_TotalBalance :: decimal
  Co_TotalStake :: decimal

text \<open>A nil total is dereferenced by \<open>Add\<close>.\<close>

definition getCoins :: "ext \<Rightarrow> Stats \<Rightarrow> indexerState \<Rightarrow> bool \<Rightarrow> balanceDiff \<Rightarrow> (Coins \<times> int \<times> int) option" where
  "getCoins e st ixs isFirstBlock diff = do {
     balance \<leftarrow> IS_totalBalance ixs;
     stake \<leftarrow> IS_totalStake ixs;
     let minted = (if isFirstBlock then Some (zeroIfNil (S_MintedCoins st) + balance + stake) else S_MintedCoins st);
     let totalBalance = balance + Diff_balance diff;
     let totalStake = stake + Diff_stake diff;
     Some (\<lparr>Co_Minted = X_convertToFloat e minted, Co_Burnt = X_convertToFloat e (S_BurntCoins st),
        Co_TotalBalance = X_convertToFloat e (Some totalBalance), Co_TotalStake = X_convertToFloat e (Some totalStake)\<rparr>,
       totalBalance, totalStake) }"

record MinersHistoryItem =
  MHI_OnlineValidators :: uint64
  MHI_OnlineMiners :: uint64

definition detectMinersHistoryItem :: "node_state \<Rightarrow> node_state \<Rightarrow> MinersHistoryItem option" where
  "detectMinersHistoryItem prevState newState =
     (if NS_onlineSize prevState = NS_onlineSize newState \<and> NS_validatorsSize prevState = NS_validatorsSize newState then None
      else Some \<lparr>MHI_OnlineValidators = of_int (NS_onlineSize newState), MHI_OnlineMiners = of_int (NS_validatorsSize newState)\<rparr>)"

definition detectOracleVotingsToProlong :: "block_env \<Rightarrow> address list \<Rightarrow> node_state \<Rightarrow> node_block \<Rightarrow> address list" where
  "detectOracleVotingsToProlong be contracts newState b = filter (\<lambda>c. BE_CanBeProlonged be c newState b) contracts"

section \<open>The data of a block\<close>

record Data =
  D_Epoch :: uint64
  D_PrevStateRoot :: string
  D_ValidationTime :: int
  D_DiscriminationStakeThreshold :: bigint
  D_Block :: DbBlock
  D_ActivationTxTransfers :: "ActivationTxTransfer list"
  D_KillTxTransfers :: "KillTxTransfer list"
  D_KillInviteeTxTransfers :: "KillInviteeTxTransfer list"
  D_ActivationTxs :: "ActivationTx list"
  D_KillInviteeTxs :: "KillInviteeTx list"
  D_BecomeOnlineTxs :: "string list"
  D_BecomeOfflineTxs :: "string list"
  D_SubmittedFlips :: "Flip list"
  D_DeletedFlips :: "DeletedFlip list"
  D_FlipKeys :: "FlipKey list"
  D_FlipsWords :: "FlipWords list"
  D_Addresses :: "DbAddress list"
  D_ChangedBalances :: "DbBalance list"
  D_Coins :: Coins
  D_Penalties :: "DbPenalty list"
  D_MiningRewards :: "DbMiningReward list"
  D_BurntCoinsPerAddr :: "address \<rightharpoonup> BurntCoins list"
  D_BalanceUpdates :: "BalanceUpdate list"
  D_CommitteeRewardShare :: bigint
  D_Contracts :: "WasmContract list"
  D_OracleVotingContracts :: "OracleVotingContract list"
  D_OracleVotingContractCallStarts :: "OracleVotingContractCallStart list"
  D_OracleVotingContractCallVoteProofs :: "OracleVotingContractCallVoteProof list"
  D_OracleVotingContractCallVotes :: "OracleVotingContractCallVote list"
  D_OracleVotingContractCallFinishes :: "OracleVotingContractCallFinish list"
  D_OracleVotingContractCallProlongations :: "OracleVotingContractCallProlongation list"
  D_OracleVotingContractCallAddStakes :: "OracleVotingContractCallAddStake list"
  D_OracleVotingContractTerminations :: "OracleVotingContractTermination list"
  D_ClearOldEpochCommittees :: bool
  D_OracleLockContracts :: "OracleLockContract list"
  D_OracleLockContractCallCheckOracleVotings :: "OracleLockContractCallCheckOracleVoting list"
  D_OracleLockContractCallPushes :: "OracleLockContractCallPush list"
  D_OracleLockContractTerminations :: "OracleLockContractTermination list"
  D_RefundableOracleLockContracts :: "RefundableOracleLockContract list"
  D_RefundableOracleLockContractCallDeposits :: "RefundableOracleLockContractCallDeposit list"
  D_RefundableOracleLockContractCallPushes :: "RefundableOracleLockContractCallPush list"
  D_RefundableOracleLockContractCallRefunds :: "RefundableOracleLockContractCallRefund list"
  D_RefundableOracleLockContractTerminations :: "RefundableOracleLockContractTermination list"
  D_MultisigContracts :: "MultisigContract list"
  D_MultisigContractCallAdds :: "MultisigContractCallAdd list"
  D_MultisigContractCallSends :: "MultisigContractCallSend list"
  D_MultisigContractCallPushes :: "MultisigContractCallPush list"
  D_MultisigContractTerminations :: "MultisigContractTermination list"
  D_TimeLockContracts :: "TimeLockContract list"
  D_TimeLockContractCallTransfers :: "TimeLockContractCallTransfer list"
  D_TimeLockContractTerminations :: "TimeLockContractTermination list"
  D_TxReceipts :: "TxReceipt list"
  D_ContractTxsBalanceUpdates :: "ContractTxBalanceUpdates list"
  D_EpochResult :: "EpochResult option"
  D_DelegationSwitches :: "DelegationSwitch list"
  D_UpgradesVotes :: "UpgradeVotes list"
  D_PoolSizes :: "PoolSize list"
  D_MinersHistoryItem :: "MinersHistoryItem option"
  D_RemovedTransitiveDelegations :: "RemovedTransitiveDelegation list"
  D_EpochSummaryUpdate :: EpochSummaryUpdate
  D_OracleVotingContractsToProlong :: "address list"
  D_Tokens :: "DbToken list"
  D_TokenBalanceUpdates :: "TokenBalance list"
  D_DelegationHistoryUpdates :: "DelegationHistoryUpdate list"

text \<open>What the rest of the indexer needs besides the rows.\<close>

record resultData =
  RD_totalBalance :: int
  RD_totalStake :: int
  RD_flipTxs :: "flipTx list"
  RD_newActualOracleVotings :: "address list"
  RD_newNotActualOracleVotings :: "address list"

definition blockData :: "block_env \<Rightarrow> node_block \<Rightarrow> Stats \<Rightarrow> node_state \<Rightarrow> node_state \<Rightarrow> conversionCollector \<Rightarrow> DbBlock \<Rightarrow>
    EpochResult option \<Rightarrow> DbBalance list \<Rightarrow> Coins \<Rightarrow> MiningReward list \<Rightarrow> BalanceUpdate list \<Rightarrow> DelegationSwitch list \<Rightarrow>
    DelegationHistoryUpdate list \<Rightarrow> PoolSize list \<Rightarrow> address list \<Rightarrow> Data" where
  "blockData be b st prevState newState coll block epochResult balances coins mining updates switches history poolSizes toProlong =
    (let e = BE_ext be in
     \<lparr>D_Epoch = ucast (NS_epoch prevState), D_PrevStateRoot = ConvertHash e (NS_root prevState),
      D_ValidationTime = NS_nextValidationTime newState,
      D_DiscriminationStakeThreshold = NS_discriminationStakeThreshold newState, D_Block = block,
      D_ActivationTxTransfers = S_ActivationTxTransfers st, D_KillTxTransfers = S_KillTxTransfers st,
      D_KillInviteeTxTransfers = S_KillInviteeTxTransfers st, D_ActivationTxs = S_ActivationTxs st,
      D_KillInviteeTxs = CC_killInviteeTxs coll, D_BecomeOnlineTxs = CC_becomeOnlineTxs coll,
      D_BecomeOfflineTxs = CC_becomeOfflineTxs coll, D_SubmittedFlips = CC_submittedFlips coll,
      D_DeletedFlips = CC_deletedFlips coll, D_FlipKeys = CC_flipKeys coll, D_FlipsWords = CC_flipsWords coll,
      D_Addresses = getAddresses coll, D_ChangedBalances = balances, D_Coins = coins,
      D_Penalties = convertChargedPenalties e [] (BE_penaltiesOrder be (S_ChargedPenaltySecondsByAddr st)),
      D_MiningRewards = convertMiningRewards e mining, D_BurntCoinsPerAddr = S_BurntCoinsByAddr st,
      D_BalanceUpdates = updates, D_CommitteeRewardShare = S_CommitteeRewardShare st, D_Contracts = S_Contracts st,
      D_OracleVotingContracts = S_OracleVotingContracts st,
      D_OracleVotingContractCallStarts = S_OracleVotingContractCallStarts st,
      D_OracleVotingContractCallVoteProofs = S_OracleVotingContractCallVoteProofs st,
      D_OracleVotingContractCallVotes = S_OracleVotingContractCallVotes st,
      D_OracleVotingContractCallFinishes = S_OracleVotingContractCallFinishes st,
      D_OracleVotingContractCallProlongations = S_OracleVotingContractCallProlongations st,
      D_OracleVotingContractCallAddStakes = S_OracleVotingContractCallAddStakes st,
      D_OracleVotingContractTerminations = S_OracleVotingContractTerminations st,
      D_ClearOldEpochCommittees = B_Height b = NS_epochBlock prevState + 1,
      D_OracleLockContracts = S_OracleLockContracts st,
      D_OracleLockContractCallCheckOracleVotings = S_OracleLockContractCallCheckOracleVotings st,
      D_OracleLockContractCallPushes = S_OracleLockContractCallPushes st,
      D_OracleLockContractTerminations = S_OracleLockContractTerminations st,
      D_RefundableOracleLockContracts = S_RefundableOracleLockContracts st,
      D_RefundableOracleLockContractCallDeposits = S_RefundableOracleLockContractCallDeposits st,
      D_RefundableOracleLockContractCallPushes = S_RefundableOracleLockContractCallPushes st,
      D_RefundableOracleLockContractCallRefunds = S_RefundableOracleLockContractCallRefunds st,
      D_RefundableOracleLockContractTerminations = S_RefundableOracleLockContractTerminations st,
      D_MultisigContracts = S_MultisigContracts st, D_MultisigContractCallAdds = S_MultisigContractCallAdds st,
      D_MultisigContractCallSends = S_MultisigContractCallSends st,
      D_MultisigContractCallPushes = S_MultisigContractCallPushes st,
      D_MultisigContractTerminations = S_MultisigContractTerminations st, D_TimeLockContracts = S_TimeLockContracts st,
      D_TimeLockContractCallTransfers = S_TimeLockContractCallTransfers st,
      D_TimeLockContractTerminations = S_TimeLockContractTerminations st, D_TxReceipts = S_TxReceipts st,
      D_ContractTxsBalanceUpdates = S_ContractTxsBalanceUpdates st, D_EpochResult = epochResult,
      D_DelegationSwitches = switches, D_UpgradesVotes = BE_upgradesVotes be, D_PoolSizes = poolSizes,
      D_MinersHistoryItem = detectMinersHistoryItem prevState newState,
      D_RemovedTransitiveDelegations = S_RemovedTransitiveDelegations st, D_EpochSummaryUpdate = S_EpochSummaryUpdate st,
      D_OracleVotingContractsToProlong = toProlong, D_Tokens = S_Tokens st,
      D_TokenBalanceUpdates = S_TokenBalanceUpdates st,
      D_DelegationHistoryUpdates = (if BE_disableDelegationHistory be then [] else S_DelegationHistoryUpdates st @ history)\<rparr>)"

text \<open>Delegations removed because the pool became a delegator itself.\<close>

definition addRemovedDelegations :: "uint64 \<Rightarrow> RemovedTransitiveDelegation list \<Rightarrow> switches \<Rightarrow> switches" where
  "addRemovedDelegations height removed = (\<lambda>(sw, history).
     (sw @ map (\<lambda>r. \<lparr>DS_Delegator = RTD_Delegator r, DS_Delegatee = None, DS_BirthEpoch = None\<rparr>) removed,
      history @ map (\<lambda>r. \<lparr>DHU_DelegatorAddress = RTD_Delegator r, DHU_DelegationTx = None, DHU_DelegationBlockHeight = None,
        DHU_UndelegationReason = Some UndelegationReasonTransitionRemove, DHU_UndelegationTx = None,
        DHU_UndelegationBlockHeight = Some height\<rparr>) removed))"

text \<open>The identities that the node killed for inactivity are the first killed addresses.\<close>

definition inactiveCollector :: "address list \<Rightarrow> conversionCollector" where
  "inactiveCollector killed = emptyCollector\<lparr>CC_killedAddrs :=
     map (\<lambda>a. (a, \<lparr>KI_reason = killedReasonInactiveIdentity, KI_tx = None\<rparr>)) killed\<rparr>"

text \<open>
  \<open>convertIncomingData\<close>. The outer option is a panic, the inner one an error of the node's state.
  \<open>prevHeight\<close> is the height of the previous state: the block's own for the genesis block.
\<close>

definition convertIncomingData :: "block_env \<Rightarrow> (uint64 \<Rightarrow> node_state option) \<Rightarrow> indexerState \<Rightarrow> uint64 \<Rightarrow> session \<Rightarrow> node_block \<Rightarrow>
    (Data \<times> resultData) option option" where
  "convertIncomingData be readonly ixs firstBlockHeight s b =
     (let e = BE_ext be; st = stats s; isFirstBlock = (B_Height b = firstBlockHeight);
          order = EE_addrsOrder (BE_epoch be)
      in case readonly (if B_Hash b = BE_genesisHash be then B_Height b else B_Height b - 1) of None \<Rightarrow> Some None | Some prevState \<Rightarrow>
      case readonly (B_Height b) of None \<Rightarrow> Some None | Some newState \<Rightarrow>
      do {
        (block, coll1) \<leftarrow> convertBlock be b st prevState (inactiveCollector (order (S_KilledInactiveIdentities st)));
        (epochResult, coll2) \<leftarrow> detectEpochResult e (BE_epoch be) (ValidationFinished \<in> B_Flags b) s prevState newState coll1;
        firstAddresses \<leftarrow> detectFirstAddresses e (BE_setBytes be) isFirstBlock newState;
        let coll = coll2\<lparr>CC_addresses := fold addFirstAddress firstAddresses (CC_addresses coll2)\<rparr>;
        (balances, diff) \<leftarrow> determineBalanceUpdates e (BE_setBytes be) order isFirstBlock (Some (S_BalanceUpdateAddrs st))
           (NS_accountKeys prevState) (NS_app prevState) (NS_app newState);
        (coins, totalBalance, totalStake) \<leftarrow> getCoins e st ixs isFirstBlock diff;
        detected \<leftarrow> detectDelegationSwitches (IdentityUpdate \<in> B_Flags b) (B_Height b) (NS_dl prevState) (NS_dl newState)
           (CC_killedAddrs coll) (CC_switchDelegationTxs coll);
        let (switches, history) = addRemovedDelegations (B_Height b) (S_RemovedTransitiveDelegations st) detected;
        let poolSizes = detectPoolSizeUpdates (BE_HexToAddress be) switches (getAddresses coll)
           (case epochResult of None \<Rightarrow> [] | Some r \<Rightarrow> map EI_Address (Res_Identities r)) (NS_dl prevState) (NS_dl newState);
        let toProlong = detectOracleVotingsToProlong be (order (IS_actualOracleVotings ixs)) newState b;
        mining \<leftarrow> those (map (deref (miningStore s)) (S_MiningRewards st));
        updates \<leftarrow> those (map (deref (updateStore s)) (S_BalanceUpdates st));
        Some (Some (blockData be b st prevState newState coll block epochResult balances coins mining updates switches history poolSizes toProlong,
          \<lparr>RD_totalBalance = totalBalance, RD_totalStake = totalStake, RD_flipTxs = CC_flipTxs coll,
           RD_newActualOracleVotings = S_NewActualOracleVotingContracts st,
           RD_newNotActualOracleVotings = S_NewNotActualOracleVotingContracts st\<rparr>)) })"

section \<open>The parts of a conversion\<close>

lemma blockData_simps:
  "D_DelegationSwitches (blockData be b st p n coll block er bal coins mining updates switches history ps tp) = switches"
  "D_Block (blockData be b st p n coll block er bal coins mining updates switches history ps tp) = block"
  "D_Coins (blockData be b st p n coll block er bal coins mining updates switches history ps tp) = coins"
  "D_OracleVotingContractsToProlong (blockData be b st p n coll block er bal coins mining updates switches history ps tp) = tp"
  by (simp_all add: blockData_def Let_def)

lemma convertIncomingData_parts:
  assumes "convertIncomingData be readonly ixs firstBlockHeight s b = Some (Some (data, rd))"
  obtains prevState newState coll1 block epochResult coll2 firstAddresses balances diff coins detected where
    "readonly (if B_Hash b = BE_genesisHash be then B_Height b else B_Height b - 1) = Some prevState"
    "readonly (B_Height b) = Some newState"
    "convertBlock be b (stats s) prevState (inactiveCollector (EE_addrsOrder (BE_epoch be) (S_KilledInactiveIdentities (stats s)))) = Some (block, coll1)"
    "detectEpochResult (BE_ext be) (BE_epoch be) (ValidationFinished \<in> B_Flags b) s prevState newState coll1 = Some (epochResult, coll2)"
    "determineBalanceUpdates (BE_ext be) (BE_setBytes be) (EE_addrsOrder (BE_epoch be)) (B_Height b = firstBlockHeight)
       (Some (S_BalanceUpdateAddrs (stats s))) (NS_accountKeys prevState) (NS_app prevState) (NS_app newState) = Some (balances, diff)"
    "getCoins (BE_ext be) (stats s) ixs (B_Height b = firstBlockHeight) diff = Some (coins, RD_totalBalance rd, RD_totalStake rd)"
    "detectDelegationSwitches (IdentityUpdate \<in> B_Flags b) (B_Height b) (NS_dl prevState) (NS_dl newState)
       (CC_killedAddrs coll2) (CC_switchDelegationTxs coll2) = Some detected"
    "D_DelegationSwitches data = fst (addRemovedDelegations (B_Height b) (S_RemovedTransitiveDelegations (stats s)) detected)"
    "D_Block data = block" "D_Coins data = coins" "Bl_Height block = B_Height b"
    "D_OracleVotingContractsToProlong data = detectOracleVotingsToProlong be (EE_addrsOrder (BE_epoch be) (IS_actualOracleVotings ixs)) newState b"
    "RD_newActualOracleVotings rd = S_NewActualOracleVotingContracts (stats s)"
    "RD_newNotActualOracleVotings rd = S_NewNotActualOracleVotingContracts (stats s)"
proof -
  let ?order = "EE_addrsOrder (BE_epoch be)"
  from assms obtain prevState newState where states:
    "readonly (if B_Hash b = BE_genesisHash be then B_Height b else B_Height b - 1) = Some prevState"
    "readonly (B_Height b) = Some newState"
    by (auto simp: convertIncomingData_def Let_def split: option.splits)
  from assms obtain block coll1 epochResult coll2 firstAddresses balances diff coins tb ts detected mining updates where
    1: "convertBlock be b (stats s) prevState (inactiveCollector (?order (S_KilledInactiveIdentities (stats s)))) = Some (block, coll1)"
    and 2: "detectEpochResult (BE_ext be) (BE_epoch be) (ValidationFinished \<in> B_Flags b) s prevState newState coll1 = Some (epochResult, coll2)"
    and 3: "determineBalanceUpdates (BE_ext be) (BE_setBytes be) ?order (B_Height b = firstBlockHeight)
       (Some (S_BalanceUpdateAddrs (stats s))) (NS_accountKeys prevState) (NS_app prevState) (NS_app newState) = Some (balances, diff)"
    and 4: "getCoins (BE_ext be) (stats s) ixs (B_Height b = firstBlockHeight) diff = Some (coins, tb, ts)"
    and 5: "detectDelegationSwitches (IdentityUpdate \<in> B_Flags b) (B_Height b) (NS_dl prevState) (NS_dl newState)
       (CC_killedAddrs coll2) (CC_switchDelegationTxs coll2) = Some detected"
    and data: "D_DelegationSwitches data = fst (addRemovedDelegations (B_Height b) (S_RemovedTransitiveDelegations (stats s)) detected)"
      "D_Block data = block" "D_Coins data = coins"
      "D_OracleVotingContractsToProlong data = detectOracleVotingsToProlong be (?order (IS_actualOracleVotings ixs)) newState b"
    and rd: "RD_totalBalance rd = tb" "RD_totalStake rd = ts"
      "RD_newActualOracleVotings rd = S_NewActualOracleVotingContracts (stats s)"
      "RD_newNotActualOracleVotings rd = S_NewNotActualOracleVotingContracts (stats s)"
    unfolding convertIncomingData_def Let_def states
    by (auto simp: blockData_simps split_beta split: bind_splits)
  have "Bl_Height block = B_Height b" using 1 by (auto simp: convertBlock_def split: bind_splits)
  then show thesis using that [OF states 1 2 3 _ 5 data(1-3) _ data(4) rd(3,4)] 4 rd(1,2) by simp
qed

section \<open>Totals\<close>

text \<open>All the coins in the accounts and in the stakes of a state.\<close>

definition accountsTotal :: "app_state \<Rightarrow> int" where
  "accountsTotal st = (\<Sum>a \<in> UNIV. AS_GetBalance st a)"

definition stakesTotal :: "app_state \<Rightarrow> int" where
  "stakesTotal st = (\<Sum>a \<in> UNIV. AS_GetStakeBalance st a)"

text \<open>The collector was told of every account that the block changes.\<close>

definition changes_reported :: "app_state \<Rightarrow> app_state \<Rightarrow> address set \<Rightarrow> bool" where
  "changes_reported prevState newState addrs \<longleftrightarrow> (\<forall>a. a \<notin> addrs \<longrightarrow>
     AS_GetBalance newState a = AS_GetBalance prevState a \<and> AS_GetStakeBalance newState a = AS_GetStakeBalance prevState a)"

lemma collectAccounts_more: "collectAccounts setBytes keys addrs = Some addrs' \<Longrightarrow> addrs \<subseteq> addrs'"
  by (induction setBytes keys addrs rule: collectAccounts.induct) (auto split: bind_splits)

lemma determineBalanceUpdates_totals:
  assumes "determineBalanceUpdates e setBytes order first (Some addrs) keys prevState newState = Some (rows, diff)"
    and "lists_sets order" "changes_reported prevState newState addrs"
  shows "accountsTotal newState = accountsTotal prevState + Diff_balance diff"
    and "stakesTotal newState = stakesTotal prevState + Diff_stake diff"
proof -
  obtain A where A: "addrs \<subseteq> A" and run: "balanceLoop e prevState newState (order A) ([], \<lparr>Diff_balance = 0, Diff_stake = 0\<rparr>) = (rows, diff)"
    using assms(1) by (force simp: determineBalanceUpdates_def dest: collectAccounts_more split: if_splits bind_splits)
  have order: "distinct (order A)" "set (order A) = A" using assms(2) by (simp_all add: lists_sets_def)
  have diff: "diff = snd (balanceLoop e prevState newState (order A) ([], \<lparr>Diff_balance = 0, Diff_stake = 0\<rparr>))"
    using run by simp
  have "accountsTotal newState = accountsTotal prevState + sum_list (map (\<lambda>a. AS_GetBalance newState a - AS_GetBalance prevState a) (order A))"
    "stakesTotal newState = stakesTotal prevState + sum_list (map (\<lambda>a. AS_GetStakeBalance newState a - AS_GetStakeBalance prevState a) (order A))"
    unfolding accountsTotal_def stakesTotal_def
    using assms(3) A by (intro sum_changes; auto simp: order changes_reported_def)+
  then show "accountsTotal newState = accountsTotal prevState + Diff_balance diff"
    and "stakesTotal newState = stakesTotal prevState + Diff_stake diff"
    by (simp_all add: diff balanceLoop_diff)
qed

lemma getCoins_totals:
  assumes "getCoins e st ixs first diff = Some (coins, tb, ts)"
  shows "\<exists>bal stake. IS_totalBalance ixs = Some bal \<and> IS_totalStake ixs = Some stake \<and> tb = bal + Diff_balance diff \<and> ts = stake + Diff_stake diff"
    and "Co_TotalBalance coins = X_convertToFloat e (Some tb)" "Co_TotalStake coins = X_convertToFloat e (Some ts)"
  using assms by (auto simp: getCoins_def Let_def split: bind_splits)

section \<open>Killed identities\<close>

text \<open>How an address ended the block, when it is killed: by validation, by a transaction or for inactivity.\<close>

definition killedInBlock :: "Stats \<Rightarrow> node_block \<Rightarrow> node_state \<Rightarrow> node_state \<Rightarrow> address \<Rightarrow> killedInfo option" where
  "killedInBlock st b prevState newState a =
     (if ValidationFinished \<in> B_Flags b \<and> (\<exists>i. map_of (NS_identities prevState) a = Some i \<and> killedByValidation newState a i)
      then Some \<lparr>KI_reason = killedReasonValidationFailure, KI_tx = None\<rparr>
      else foldl killedBy (if a \<in> S_KilledInactiveIdentities st then Some \<lparr>KI_reason = killedReasonInactiveIdentity, KI_tx = None\<rparr> else None)
             (map (txChange st a) (B_Txs b)))"

lemma map_of_killed: "map_of (map (\<lambda>a. (a, v)) xs) a = (if a \<in> set xs then Some v else None)"
  by (induction xs) auto

lemma inactiveCollector_wf: "distinct killed \<Longrightarrow> collector_wf (inactiveCollector killed)"
  by (simp add: collector_wf_def inactiveCollector_def emptyCollector_def comp_def)

lemma detectEpochResult_killed:
  assumes "detectEpochResult e ee vf s prevState newState coll = Some (res, coll')" "distinct (map fst (NS_identities prevState))"
  shows "map_of (CC_killedAddrs coll') a =
      (if vf \<and> (\<exists>i. map_of (NS_identities prevState) a = Some i \<and> killedByValidation newState a i)
       then Some \<lparr>KI_reason = killedReasonValidationFailure, KI_tx = None\<rparr> else map_of (CC_killedAddrs coll) a)"
    and "distinct (map fst (CC_killedAddrs coll)) \<Longrightarrow> distinct (map fst (CC_killedAddrs coll'))"
proof -
  have fold_distinct: "distinct (map fst (fold (killStep newState) ids m))" if "distinct (map fst m)" for ids m
    using that by (induction ids arbitrary: m) (auto simp: killStep_def AList.distinct_update)
  consider (no) "\<not> vf" "coll' = coll" | (yes) r where "vf" "detectEpochResult e ee True s prevState newState coll = Some (Some r, coll')"
    using assms(1) by (cases vf; cases res) (auto simp: detectEpochResult_def Let_def split: bind_splits)
  then have "map_of (CC_killedAddrs coll') a =
      (if vf \<and> (\<exists>i. map_of (NS_identities prevState) a = Some i \<and> killedByValidation newState a i)
       then Some \<lparr>KI_reason = killedReasonValidationFailure, KI_tx = None\<rparr> else map_of (CC_killedAddrs coll) a)
    \<and> (distinct (map fst (CC_killedAddrs coll)) \<longrightarrow> distinct (map fst (CC_killedAddrs coll')))"
  proof cases
    case no
    then show ?thesis by simp
  next
    case yes
    have "coll' = coll\<lparr>CC_killedAddrs := fold (killStep newState) (NS_identities prevState) (CC_killedAddrs coll)\<rparr>"
      by (rule detectEpochResult_parts [OF yes(2)], assumption)
    then show ?thesis using yes(1) by (simp add: fold_kills [OF assms(2)] fold_distinct split: option.split)
  qed
  then show "map_of (CC_killedAddrs coll') a =
      (if vf \<and> (\<exists>i. map_of (NS_identities prevState) a = Some i \<and> killedByValidation newState a i)
       then Some \<lparr>KI_reason = killedReasonValidationFailure, KI_tx = None\<rparr> else map_of (CC_killedAddrs coll) a)"
    and "distinct (map fst (CC_killedAddrs coll)) \<Longrightarrow> distinct (map fst (CC_killedAddrs coll'))" by blast+
qed

lemma convertBlock_killed:
  assumes "convertBlock be b st prevState (inactiveCollector killed) = Some (block, coll1)" "inj (X_addrHex (BE_ext be))" "distinct killed"
  shows "map_of (CC_killedAddrs coll1) a = foldl killedBy
      (if a \<in> set killed then Some \<lparr>KI_reason = killedReasonInactiveIdentity, KI_tx = None\<rparr> else None) (map (txChange st a) (B_Txs b))"
    and "distinct (map fst (CC_killedAddrs coll1))"
proof -
  obtain rows where run: "convertTransactions (BE_ext be) (BE_tx be) st prevState (B_Txs b) (inactiveCollector killed) = Some (rows, coll1)"
    using assms(1) by (auto simp: convertBlock_def split: bind_splits)
  have start: "map_of (CC_killedAddrs (inactiveCollector killed)) a =
      (if a \<in> set killed then Some \<lparr>KI_reason = killedReasonInactiveIdentity, KI_tx = None\<rparr> else None)"
    by (simp add: inactiveCollector_def map_of_killed)
  show "map_of (CC_killedAddrs coll1) a = foldl killedBy
      (if a \<in> set killed then Some \<lparr>KI_reason = killedReasonInactiveIdentity, KI_tx = None\<rparr> else None) (map (txChange st a) (B_Txs b))"
    using convertTransactions_at(4) [OF run assms(2), of a] by (simp only: start)
  show "distinct (map fst (CC_killedAddrs coll1))"
    using convertTransactions_at(5) [OF run assms(2) inactiveCollector_wf [OF assms(3)]] by (simp add: collector_wf_def)
qed

text \<open>An address killed by a transaction comes with it, so no reason of an undelegation is undefined.\<close>

lemma killedBy_has_tx:
  assumes "\<forall>i. old = Some i \<longrightarrow> KI_reason i \<noteq> killedReasonTx \<or> KI_tx i \<noteq> None"
  shows "\<forall>i. foldl killedBy old changes = Some i \<longrightarrow> KI_reason i \<noteq> killedReasonTx \<or> KI_tx i \<noteq> None"
  using assms
proof (induction changes arbitrary: old)
  case (Cons c changes)
  have "\<forall>i. killedBy old c = Some i \<longrightarrow> KI_reason i \<noteq> killedReasonTx \<or> KI_tx i \<noteq> None"
    using Cons.prems by (auto simp: killedBy_def split: option.splits if_splits)
  then show ?case using Cons.IH by simp
qed simp

lemma killedInBlock_ok:
  assumes "distinct (map fst ks)" "\<And>a. map_of ks a = killedInBlock st b prevState newState a"
  shows "killed_ok dl ks"
proof -
  have "KI_reason i \<noteq> killedReasonTx \<or> KI_tx i \<noteq> None" if "(a, i) \<in> set ks" for a i
  proof -
    have "killedInBlock st b prevState newState a = Some i" using that assms by (metis map_of_eq_Some_iff)
    moreover have "\<forall>i. foldl killedBy (if a \<in> S_KilledInactiveIdentities st then Some \<lparr>KI_reason = killedReasonInactiveIdentity, KI_tx = None\<rparr> else None)
             (map (txChange st a) (B_Txs b)) = Some i \<longrightarrow> KI_reason i \<noteq> killedReasonTx \<or> KI_tx i \<noteq> None"
      by (rule killedBy_has_tx) (simp add: killed_reasons)
    ultimately show ?thesis by (auto simp: killedInBlock_def killed_reasons split: if_splits)
  qed
  then show ?thesis by (auto simp: killed_ok_def list_all_iff)
qed

lemma block_killed:
  assumes "convertBlock be b (stats s) prevState (inactiveCollector (EE_addrsOrder (BE_epoch be) (S_KilledInactiveIdentities (stats s)))) = Some (block, coll1)"
    and "detectEpochResult (BE_ext be) (BE_epoch be) (ValidationFinished \<in> B_Flags b) s prevState newState coll1 = Some (epochResult, coll2)"
    and "inj (X_addrHex (BE_ext be))" "lists_sets (EE_addrsOrder (BE_epoch be))" "distinct (map fst (NS_identities prevState))"
  shows "map_of (CC_killedAddrs coll2) a = killedInBlock (stats s) b prevState newState a"
    and "distinct (map fst (CC_killedAddrs coll2))"
proof -
  have order: "distinct (EE_addrsOrder (BE_epoch be) A)" "set (EE_addrsOrder (BE_epoch be) A) = A" for A
    using assms(4) by (simp_all add: lists_sets_def)
  note 1 = convertBlock_killed [OF assms(1,3) order(1)]
  show "map_of (CC_killedAddrs coll2) a = killedInBlock (stats s) b prevState newState a"
    unfolding killedInBlock_def detectEpochResult_killed(1) [OF assms(2,5), of a] 1(1) [of a] order by (rule refl)
  show "distinct (map fst (CC_killedAddrs coll2))" by (rule detectEpochResult_killed(2) [OF assms(2,5) 1(2)])
qed

section \<open>When a block converts\<close>

lemma collectAccounts_defined:
  "\<forall>key. Some key \<in> set keys \<longrightarrow> key \<noteq> [] \<Longrightarrow> \<exists>addrs'. collectAccounts setBytes keys addrs = Some addrs'"
  by (induction setBytes keys addrs rule: collectAccounts.induct) (auto simp: BytesToAddr_def split: list.splits)

lemma accountAddresses_defined:
  "\<forall>key. Some key \<in> set keys \<longrightarrow> key \<noteq> [] \<Longrightarrow> \<exists>acc'. accountAddresses e setBytes keys acc = Some acc'"
  by (induction e setBytes keys acc rule: accountAddresses.induct) (auto simp: BytesToAddr_def split: list.splits)

lemma detectFirstAddresses_defined:
  assumes "\<forall>key. Some key \<in> set (NS_accountKeys newState) \<longrightarrow> key \<noteq> []"
  shows "\<exists>rows. detectFirstAddresses e setBytes first newState = Some rows"
proof -
  obtain rows rest z where "accountAddresses e setBytes (NS_accountKeys newState)
      ([], fold (\<lambda>(addr, identity). AList.update addr (initialChange (NI_State identity))) (NS_identities newState) [], False) = Some (rows, rest, z)"
    using accountAddresses_defined [OF assms] by (metis prod_cases3)
  then show ?thesis by (simp add: detectFirstAddresses_def Let_def)
qed

lemma determineBalanceUpdates_defined:
  assumes "\<forall>key. Some key \<in> set keys \<longrightarrow> key \<noteq> []"
  shows "\<exists>rows diff. determineBalanceUpdates e setBytes order first (Some addrs) keys p n = Some (rows, diff)"
proof -
  obtain A where "collectAccounts setBytes keys addrs = Some A" using collectAccounts_defined [OF assms] by blast
  then show ?thesis by (simp add: determineBalanceUpdates_def)
qed

lemma detectDelegationSwitches_defined:
  "killed_ok p ks \<Longrightarrow> \<exists>detected. detectDelegationSwitches update h p n ks txs = Some detected"
proof (cases update)
  case True
  assume "killed_ok p ks"
  then show ?thesis using detectDelegationSwitches_list [of p ks h n txs] True by auto
qed (simp add: detectDelegationSwitches_def)

lemma those_Some: "\<forall>x \<in> set xs. x \<noteq> None \<Longrightarrow> \<exists>ys. those xs = Some ys"
  by (induction xs) auto

text \<open>What the conversion relies on: the objects of the session exist and no account key is empty.\<close>

definition convertible :: "session \<Rightarrow> node_state \<Rightarrow> node_state \<Rightarrow> bool" where
  "convertible s prevState newState \<longleftrightarrow>
     (\<forall>r \<in> set (S_MiningRewards (stats s)). r < length (miningStore s)) \<and>
     (\<forall>r \<in> set (S_BalanceUpdates (stats s)). r < length (updateStore s)) \<and>
     Some [] \<notin> set (NS_accountKeys prevState) \<and> Some [] \<notin> set (NS_accountKeys newState)"

lemma convertIncomingData_defined:
  assumes "readonly (if B_Hash b = BE_genesisHash be then B_Height b else B_Height b - 1) = Some prevState"
    and "readonly (B_Height b) = Some newState"
    and "inj (X_addrHex (BE_ext be))" "lists_sets (EE_addrsOrder (BE_epoch be))" "distinct (map fst (NS_identities prevState))"
    and "convertible s prevState newState"
    and "IS_totalBalance ixs = Some bal" "IS_totalStake ixs = Some stake"
    and "\<forall>tx \<in> set (B_Txs b). \<not> killInviteePanics prevState tx \<and> \<not> longAnswersPanic (BE_tx be) prevState tx"
    and "\<forall>coll. ValidationFinished \<in> B_Flags b \<longrightarrow> detectEpochResult (BE_ext be) (BE_epoch be) True s prevState newState coll \<noteq> None"
  shows "\<exists>data rd. convertIncomingData be readonly ixs firstBlockHeight s b = Some (Some (data, rd))"
proof -
  let ?order = "EE_addrsOrder (BE_epoch be)" and ?e = "BE_ext be"
  have keys: "\<forall>key. Some key \<in> set (NS_accountKeys prevState) \<longrightarrow> key \<noteq> []" "\<forall>key. Some key \<in> set (NS_accountKeys newState) \<longrightarrow> key \<noteq> []"
    using assms(6) by (auto simp: convertible_def)
  have "convertTransactions ?e (BE_tx be) (stats s) prevState (B_Txs b) (inactiveCollector (?order (S_KilledInactiveIdentities (stats s)))) \<noteq> None"
    unfolding convertTransactions_None using assms(9) by blast
  then obtain block coll1 where 1: "convertBlock be b (stats s) prevState (inactiveCollector (?order (S_KilledInactiveIdentities (stats s)))) = Some (block, coll1)"
    by (auto simp: convertBlock_def)
  have "detectEpochResult ?e (BE_epoch be) (ValidationFinished \<in> B_Flags b) s prevState newState coll1 \<noteq> None"
    using assms(10) by (cases "ValidationFinished \<in> B_Flags b") (simp_all add: detectEpochResult_def [where validationFinished = False])
  then obtain epochResult coll2 where 2: "detectEpochResult ?e (BE_epoch be) (ValidationFinished \<in> B_Flags b) s prevState newState coll1 = Some (epochResult, coll2)"
    by auto
  obtain firstAddresses where 3: "detectFirstAddresses ?e (BE_setBytes be) (B_Height b = firstBlockHeight) newState = Some firstAddresses"
    using detectFirstAddresses_defined [OF keys(2)] by blast
  obtain balances diff where 4: "determineBalanceUpdates ?e (BE_setBytes be) ?order (B_Height b = firstBlockHeight)
       (Some (S_BalanceUpdateAddrs (stats s))) (NS_accountKeys prevState) (NS_app prevState) (NS_app newState) = Some (balances, diff)"
    using determineBalanceUpdates_defined [OF keys(1)] by blast
  obtain coins tb ts where 5: "getCoins ?e (stats s) ixs (B_Height b = firstBlockHeight) diff = Some (coins, tb, ts)"
    using assms(7,8) by (simp add: getCoins_def Let_def)
  note killed = block_killed [OF 1 2 assms(3,4,5)]
  obtain detected where 6: "detectDelegationSwitches (IdentityUpdate \<in> B_Flags b) (B_Height b) (NS_dl prevState) (NS_dl newState)
       (CC_killedAddrs coll2) (CC_switchDelegationTxs coll2) = Some detected"
    using detectDelegationSwitches_defined [OF killedInBlock_ok [OF killed(2,1)]] by blast
  obtain mining where 7: "those (map (deref (miningStore s)) (S_MiningRewards (stats s))) = Some mining"
    using those_Some [of "map (deref (miningStore s)) (S_MiningRewards (stats s))"] assms(6) by (auto simp: convertible_def deref_def)
  obtain updates where 8: "those (map (deref (updateStore s)) (S_BalanceUpdates (stats s))) = Some updates"
    using those_Some [of "map (deref (updateStore s)) (S_BalanceUpdates (stats s))"] assms(6) by (auto simp: convertible_def deref_def)
  show ?thesis
    unfolding convertIncomingData_def Let_def assms(1,2) option.case 1 2 3 4 5 7 8 Option.bind.bind_lunit prod.case
    using 6 by (cases detected) (simp add: split_beta)
qed

lemma convertIncomingData_totals:
  assumes "convertIncomingData be readonly ixs firstBlockHeight s b = Some (Some (data, rd))"
    and "readonly (if B_Hash b = BE_genesisHash be then B_Height b else B_Height b - 1) = Some prevState"
    and "readonly (B_Height b) = Some newState"
    and "lists_sets (EE_addrsOrder (BE_epoch be))"
    and "changes_reported (NS_app prevState) (NS_app newState) (S_BalanceUpdateAddrs (stats s))"
    and "IS_totalBalance ixs = Some (accountsTotal (NS_app prevState))" "IS_totalStake ixs = Some (stakesTotal (NS_app prevState))"
  shows "RD_totalBalance rd = accountsTotal (NS_app newState) \<and> RD_totalStake rd = stakesTotal (NS_app newState)
    \<and> Co_TotalBalance (D_Coins data) = X_convertToFloat (BE_ext be) (Some (accountsTotal (NS_app newState)))
    \<and> Co_TotalStake (D_Coins data) = X_convertToFloat (BE_ext be) (Some (stakesTotal (NS_app newState)))"
proof -
  obtain p n balances diff coins where states: "readonly (if B_Hash b = BE_genesisHash be then B_Height b else B_Height b - 1) = Some p"
      "readonly (B_Height b) = Some n"
    and bal: "determineBalanceUpdates (BE_ext be) (BE_setBytes be) (EE_addrsOrder (BE_epoch be)) (B_Height b = firstBlockHeight)
       (Some (S_BalanceUpdateAddrs (stats s))) (NS_accountKeys p) (NS_app p) (NS_app n) = Some (balances, diff)"
    and coins: "getCoins (BE_ext be) (stats s) ixs (B_Height b = firstBlockHeight) diff = Some (coins, RD_totalBalance rd, RD_totalStake rd)"
      "D_Coins data = coins"
    by (rule convertIncomingData_parts [OF assms(1)], rule that, assumption+)
  have "p = prevState" "n = newState" using states assms(2,3) by simp_all
  then show ?thesis
    using determineBalanceUpdates_totals [OF bal assms(4)] assms(5) getCoins_totals [OF coins(1)] assms(6,7) coins(2) by auto
qed

section \<open>A sample block\<close>

definition sampleBlockEnv :: block_env where
  "sampleBlockEnv = \<lparr>BE_ext = sampleExt, BE_tx = sampleTxEnv, BE_epoch = sampleEpochEnv, BE_flagsOrder = [IdentityUpdate],
     BE_ProposerByRound = (\<lambda>_. None), BE_PendingProofs = [], BE_PubKeyToAddress = (\<lambda>_. 0), BE_HashToFloat = (\<lambda>_ _. 0),
     BE_SecondaryScore = None, BE_setBytes = (\<lambda>_. 0), BE_HexToAddress = (\<lambda>_. 0), BE_CanBeProlonged = (\<lambda>_ _ _. False),
     BE_upgradesVotes = [], BE_penaltiesOrder = (\<lambda>_. []), BE_disableDelegationHistory = False, BE_genesisHash = 0\<rparr>"

definition sampleBlock :: "uint64 \<Rightarrow> node_block" where
  "sampleBlock height = \<lparr>B_Height = height, B_Hash = 1, B_ParentHash = 2, B_Time = 0, B_Txs = [killTx], B_Flags = {IdentityUpdate},
     B_IsEmpty = False, B_Coinbase = 3, B_Upgrade = None, B_OfflineAddr = None, B_BodySize = 10, B_FullSize = 20\<rparr>"

text \<open>Identity 7 delegates to pool 8 in every state; its transaction of the sample block kills it.\<close>

definition sampleReadonly :: "uint64 \<Rightarrow> node_state option" where
  "sampleReadonly height = Some (sampleNodeState\<lparr>NS_dl := (sampleDelegations None)\<lparr>Dl_Delegatee := (\<lambda>a. if a = 7 then Some (0, 8) else None)\<rparr>\<rparr>)"

definition sampleIxState :: indexerState where
  "sampleIxState = \<lparr>IS_lastIndexedHeight = 1, IS_totalBalance = Some 0, IS_totalStake = Some 0, IS_actualOracleVotings = {}\<rparr>"

definition sampleBlockSession :: session where
  "sampleBlockSession = emptySession\<lparr>stats := killStats\<rparr>"

lemmas sample_block = sampleBlockEnv_def sampleBlock_def sampleReadonly_def sampleIxState_def sampleBlockSession_def

lemma sample_order: "lists_sets (EE_addrsOrder (BE_epoch sampleBlockEnv))"
  by (simp add: sampleBlockEnv_def sampleEpochEnv_def sorted_lists_sets)

lemma sample_block_converts:
  "\<exists>data rd. convertIncomingData sampleBlockEnv sampleReadonly (sampleIxState\<lparr>IS_lastIndexedHeight := h\<rparr>) fb sampleBlockSession (sampleBlock height)
     = Some (Some (data, rd))"
proof (rule convertIncomingData_defined)
  show "inj (X_addrHex (BE_ext sampleBlockEnv))" by (simp add: sampleBlockEnv_def sampleExt_inj)
  show "lists_sets (EE_addrsOrder (BE_epoch sampleBlockEnv))" by (rule sample_order)
qed (auto simp: sample_block convertible_def killStats_def emptyStats_def emptySession_def sampleNodeState_def killTx_def
    killInviteePanics_def longAnswersPanic_def)

section \<open>Properties\<close>

text \<open>The totals move with the accounts: when the indexer's totals are those of the state before a
  block, and the collector was told of every account the block changes, the totals after the
  conversion are those of the state after the block, and the coins row shows them.\<close>
theorem block_totals_follow_accounts:
  assumes "convertIncomingData be readonly ixs firstBlockHeight s b = Some (Some (data, rd))"
    and "readonly (if B_Hash b = BE_genesisHash be then B_Height b else B_Height b - 1) = Some prevState"
    and "readonly (B_Height b) = Some newState"
    and "lists_sets (EE_addrsOrder (BE_epoch be))"
    and "changes_reported (NS_app prevState) (NS_app newState) (S_BalanceUpdateAddrs (stats s))"
    and "IS_totalBalance ixs = Some (accountsTotal (NS_app prevState))" "IS_totalStake ixs = Some (stakesTotal (NS_app prevState))"
  shows "RD_totalBalance rd = accountsTotal (NS_app newState) \<and> RD_totalStake rd = stakesTotal (NS_app newState)
    \<and> Co_TotalBalance (D_Coins data) = X_convertToFloat (BE_ext be) (Some (accountsTotal (NS_app newState)))
    \<and> Co_TotalStake (D_Coins data) = X_convertToFloat (BE_ext be) (Some (stakesTotal (NS_app newState)))"
  by (rule convertIncomingData_totals [OF assms])

theorem block_totals_follow_accounts_witness:
  "\<exists>data rd. convertIncomingData sampleBlockEnv sampleReadonly (sampleIxState\<lparr>IS_lastIndexedHeight := 1\<rparr>) 0 sampleBlockSession (sampleBlock 2)
       = Some (Some (data, rd))
     \<and> RD_totalBalance rd = 0 \<and> Co_TotalStake (D_Coins data) = 0"
proof -
  obtain data rd where r: "convertIncomingData sampleBlockEnv sampleReadonly (sampleIxState\<lparr>IS_lastIndexedHeight := 1\<rparr>) 0 sampleBlockSession
      (sampleBlock 2) = Some (Some (data, rd))" using sample_block_converts by blast
  obtain st where st: "\<And>h. sampleReadonly h = Some st" "NS_app st = sampleApp"
    by (simp add: sampleReadonly_def sampleNodeState_def)
  have zero: "accountsTotal sampleApp = 0" "stakesTotal sampleApp = 0"
    by (simp_all add: accountsTotal_def stakesTotal_def sampleApp_def)
  have "RD_totalBalance rd = accountsTotal (NS_app st) \<and> RD_totalStake rd = stakesTotal (NS_app st)
    \<and> Co_TotalBalance (D_Coins data) = X_convertToFloat (BE_ext sampleBlockEnv) (Some (accountsTotal (NS_app st)))
    \<and> Co_TotalStake (D_Coins data) = X_convertToFloat (BE_ext sampleBlockEnv) (Some (stakesTotal (NS_app st)))"
    by (rule block_totals_follow_accounts [OF r st(1) st(1) sample_order])
      (simp_all add: changes_reported_def st zero sampleIxState_def)
  then show ?thesis using r by (simp add: st zero sampleBlockEnv_def sampleExt_def)
qed

text \<open>C12: In a block that updates identities, every identity that ends the block killed (by the
  validation, by a transaction or for inactivity) and was in a pool gets a switch row that takes it
  out of the pool.\<close>
theorem killed_identities_leave_pools:
  assumes "convertIncomingData be readonly ixs firstBlockHeight s b = Some (Some (data, rd))"
    and "readonly (if B_Hash b = BE_genesisHash be then B_Height b else B_Height b - 1) = Some prevState"
    and "readonly (B_Height b) = Some newState"
    and "inj (X_addrHex (BE_ext be))" "lists_sets (EE_addrsOrder (BE_epoch be))" "distinct (map fst (NS_identities prevState))"
    and "IdentityUpdate \<in> B_Flags b" "killedInBlock (stats s) b prevState newState a \<noteq> None" "Dl_Delegatee (NS_dl prevState) a \<noteq> None"
  shows "\<lparr>DS_Delegator = a, DS_Delegatee = None, DS_BirthEpoch = None\<rparr> \<in> set (D_DelegationSwitches data)"
proof -
  obtain p n coll1 block epochResult coll2 detected where
    states: "readonly (if B_Hash b = BE_genesisHash be then B_Height b else B_Height b - 1) = Some p" "readonly (B_Height b) = Some n"
    and 1: "convertBlock be b (stats s) p (inactiveCollector (EE_addrsOrder (BE_epoch be) (S_KilledInactiveIdentities (stats s)))) = Some (block, coll1)"
    and 2: "detectEpochResult (BE_ext be) (BE_epoch be) (ValidationFinished \<in> B_Flags b) s p n coll1 = Some (epochResult, coll2)"
    and 3: "detectDelegationSwitches (IdentityUpdate \<in> B_Flags b) (B_Height b) (NS_dl p) (NS_dl n)
       (CC_killedAddrs coll2) (CC_switchDelegationTxs coll2) = Some detected"
    and switches: "D_DelegationSwitches data = fst (addRemovedDelegations (B_Height b) (S_RemovedTransitiveDelegations (stats s)) detected)"
    by (rule convertIncomingData_parts [OF assms(1)], rule that, assumption+)
  have same: "p = prevState" "n = newState" using states assms(2,3) by simp_all
  note killed = block_killed [OF 1 2 assms(4,5) assms(6) [folded same]]
  have ok: "killed_ok (NS_dl p) (CC_killedAddrs coll2)" by (rule killedInBlock_ok [OF killed(2,1)])
  have "a \<in> fst ` set (CC_killedAddrs coll2)" using killed(1) [of a] assms(8) same by (metis map_of_eq_None_iff)
  then have a: "a \<in> set (filter (\<lambda>a. Dl_Delegatee (NS_dl p) a \<noteq> None) (map fst (CC_killedAddrs coll2)))"
    using assms(9) by (simp add: same)
  obtain rest where "fst detected = map (\<lambda>a. \<lparr>DS_Delegator = a, DS_Delegatee = None, DS_BirthEpoch = None\<rparr>)
      (filter (\<lambda>a. Dl_Delegatee (NS_dl p) a \<noteq> None) (map fst (CC_killedAddrs coll2))) @ rest"
    using detectDelegationSwitches_list [OF ok, of "B_Height b" "NS_dl n" "CC_switchDelegationTxs coll2"] 3 assms(7) by auto
  then have "\<lparr>DS_Delegator = a, DS_Delegatee = None, DS_BirthEpoch = None\<rparr> \<in> set (fst detected)"
    using a by (simp only: set_append set_map Un_iff image_eqI simp_thms)
  then show ?thesis by (simp add: switches addRemovedDelegations_def split_beta)
qed

theorem killed_identities_leave_pools_witness:
  "\<exists>data rd. convertIncomingData sampleBlockEnv sampleReadonly (sampleIxState\<lparr>IS_lastIndexedHeight := 1\<rparr>) 0 sampleBlockSession (sampleBlock 2)
       = Some (Some (data, rd))
     \<and> \<lparr>DS_Delegator = 7, DS_Delegatee = None, DS_BirthEpoch = None\<rparr> \<in> set (D_DelegationSwitches data)"
proof -
  obtain data rd where r: "convertIncomingData sampleBlockEnv sampleReadonly (sampleIxState\<lparr>IS_lastIndexedHeight := 1\<rparr>) 0 sampleBlockSession
      (sampleBlock 2) = Some (Some (data, rd))" using sample_block_converts by blast
  obtain st where st: "\<And>h. sampleReadonly h = Some st" "NS_identities st = []" "Dl_Delegatee (NS_dl st) 7 \<noteq> None"
    by (simp add: sampleReadonly_def sampleNodeState_def)
  have "\<lparr>DS_Delegator = 7, DS_Delegatee = None, DS_BirthEpoch = None\<rparr> \<in> set (D_DelegationSwitches data)"
  proof (rule killed_identities_leave_pools [OF r st(1) st(1) _ sample_order])
    show "killedInBlock (stats sampleBlockSession) (sampleBlock 2) st st 7 \<noteq> None"
      by (simp add: killedInBlock_def sampleBlock_def sampleBlockSession_def killStats_def killTx_def txChange_def txParties_def
          getIdentityStateChange_def killedBy_def)
  qed (simp_all add: st sampleBlockEnv_def sampleExt_inj sampleBlock_def)
  then show ?thesis using r by blast
qed

end
