(* ===== verification/Db_Rows.thy ===== *)
theory Db_Rows
  imports Db_Text Block_Data
begin

text \<open>
  The rows that the database layer hands to the stored procedures as composite values, the \<open>Value\<close>
  methods of \<open>src/db/postgres_types.go\<close> that build a text with \<open>fmt.Sprintf\<close>. The texts of decimals
  and floats, the JSON forms of the node's types and the numbers of its transaction types are made by
  libraries and are fields of \<open>db_env\<close>. A row \<open>None\<close> is SQL's null.
\<close>

record db_env =
  DE_ext :: ext
  DE_decimal :: "decimal \<Rightarrow> string"
  DE_float64 :: "rat \<Rightarrow> string"
  DE_float32 :: "float32 \<Rightarrow> string"
  DE_jsonAddr :: "address \<Rightarrow> string"
  DE_jsonHash :: "hash \<Rightarrow> string"
  DE_jsonFloat :: "rat \<Rightarrow> string"
  DE_txType :: "tx_type \<Rightarrow> uint16"

definition addrText :: "db_env \<Rightarrow> address \<Rightarrow> string" where
  "addrText d a = ConvertAddress (DE_ext d) a"

definition hashText :: "db_env \<Rightarrow> hash \<Rightarrow> string" where
  "hashText d h = ConvertHash (DE_ext d) h"

text \<open>A \<open>*big.Int\<close> amount, converted with \<open>blockchain.ConvertToFloat\<close>, and the text of an optional address.\<close>

definition amountText :: "db_env \<Rightarrow> bigint \<Rightarrow> string" where
  "amountText d v = DE_decimal d (X_convertToFloat (DE_ext d) v)"

definition optAddrText :: "db_env \<Rightarrow> address option \<Rightarrow> string" where
  "optAddrText d a = (case a of None \<Rightarrow> [] | Some addr \<Rightarrow> addrText d addr)"

section \<open>Balances and rewards\<close>

definition MiningReward_Value :: "db_env \<Rightarrow> DbMiningReward \<Rightarrow> string" where
  "MiningReward_Value d v = rowText [DMR_Address v, DE_decimal d (DMR_Balance v), DE_decimal d (DMR_Stake v),
     showBool (DMR_Proposer v), DE_float64 d (X_f64 (DE_ext d) (DMR_StakeWeight v))]"

definition Balance_Value :: "db_env \<Rightarrow> DbBalance \<Rightarrow> string" where
  "Balance_Value d v = rowText [DB_Address v, DE_decimal d (DB_Balance v), DE_decimal d (DB_Stake v)]"

definition BalanceUpdate_Value :: "db_env \<Rightarrow> BalanceUpdate \<Rightarrow> string" where
  "BalanceUpdate_Value d v =
     (let txHash = (case BU_TxHash v of None \<Rightarrow> [] | Some h \<Rightarrow> hashText d h);
          contractAddress = optAddrText d (BU_ContractAddress v)
      in rowText [addrText d (BU_Address v), amountText d (BU_BalanceOld v), amountText d (BU_StakeOld v),
           amountText d (BU_PenaltyOld v), showWord (BU_PenaltySecondsOld v), amountText d (BU_BalanceNew v),
           amountText d (BU_StakeNew v), amountText d (BU_PenaltyNew v), showWord (BU_PenaltySecondsNew v),
           amountText d (BU_PenaltyPayment v), txHash, showWord (BU_Reason v), contractAddress])"

definition Birthday_Value :: "db_env \<Rightarrow> Birthday \<Rightarrow> string" where
  "Birthday_Value d v = rowText [Bd_Address v, showWord (Bd_BirthEpoch v)]"

definition MemPoolFlipKey_Value :: "db_env \<Rightarrow> MemPoolFlipKey option \<Rightarrow> string option" where
  "MemPoolFlipKey_Value d v = (case v of None \<Rightarrow> None | Some k \<Rightarrow> Some (rowText [MFK_Address k, MFK_Key k]))"

definition ActivationTxTransfer_Value :: "db_env \<Rightarrow> ActivationTxTransfer \<Rightarrow> string" where
  "ActivationTxTransfer_Value d v = rowText [ATT_TxHash v, DE_decimal d (ATT_BalanceTransfer v)]"

definition KillTxTransfer_Value :: "db_env \<Rightarrow> KillTxTransfer \<Rightarrow> string" where
  "KillTxTransfer_Value d v = rowText [KTT_TxHash v, DE_decimal d (KTT_StakeTransfer v)]"

definition KillInviteeTxTransfer_Value :: "db_env \<Rightarrow> KillInviteeTxTransfer \<Rightarrow> string" where
  "KillInviteeTxTransfer_Value d v = rowText [KITT_TxHash v, DE_decimal d (KITT_StakeTransfer v)]"

definition ActivationTx_Value :: "db_env \<Rightarrow> ActivationTx \<Rightarrow> string" where
  "ActivationTx_Value d v = rowText [ATx_TxHash v, ATx_InviteTxHash v, showWord (ATx_ShardId v)]"

definition KillInviteeTx_Value :: "db_env \<Rightarrow> KillInviteeTx \<Rightarrow> string" where
  "KillInviteeTx_Value d v = rowText [KIT_TxHash v, KIT_InviteTxHash v]"

definition DeletedFlip_Value :: "db_env \<Rightarrow> DeletedFlip \<Rightarrow> string" where
  "DeletedFlip_Value d v = rowText [DF_TxHash v, DF_Cid v]"

definition BadAuthor_Value :: "db_env \<Rightarrow> BadAuthor \<Rightarrow> string" where
  "BadAuthor_Value d v = rowText [BA_Address v, showWord (BA_Reason v)]"

definition TotalRewards_Value :: "db_env \<Rightarrow> TotalRewards option \<Rightarrow> string option" where
  "TotalRewards_Value d rewards = (case rewards of
       None \<Rightarrow> None
     | Some v \<Rightarrow> Some (rowText (map (DE_decimal d)
         [TR_Total v, TR_Validation v, TR_Staking v, TR_Candidate v, TR_Flips v, TR_FlipsExtra v, TR_Invitations v,
          TR_FoundationPayouts v, TR_ZeroWalletFund v, TR_ValidationShare v, TR_StakingShare v, TR_CandidateShare v,
          TR_FlipsShare v, TR_FlipsExtraShare v, TR_InvitationsShare v, TR_Reports v, TR_ReportsShare v])))"

definition Reward_Value :: "db_env \<Rightarrow> Reward \<Rightarrow> string" where
  "Reward_Value d v = rowText [Rw_Address v, DE_decimal d (Rw_Balance v), DE_decimal d (Rw_Stake v), showWord (Rw_Type v)]"

definition RewardedInvite_Value :: "db_env \<Rightarrow> RewardedInvite \<Rightarrow> string" where
  "RewardedInvite_Value d v = rowText [RI_TxHash v, showWord (RI_Type v), showWord (RI_EpochHeight v)]"

definition RewardedInvitee_Value :: "db_env \<Rightarrow> RewardedInvitee \<Rightarrow> string" where
  "RewardedInvitee_Value d v = rowText [RIe_TxHash v, showWord (RIe_EpochHeight v)]"

definition SavedInviteRewards_Value :: "db_env \<Rightarrow> SavedInviteRewards \<Rightarrow> string" where
  "SavedInviteRewards_Value d v = rowText [SIR_Address v, showWord (SIR_Type v), showWord (SIR_Count v)]"

definition ReportedFlipReward_Value :: "db_env \<Rightarrow> ReportedFlipReward \<Rightarrow> string" where
  "ReportedFlipReward_Value d v =
     rowText [RFR_Address v, RFR_Cid v, DE_decimal d (RFR_Balance v), DE_decimal d (RFR_Stake v)]"

definition FlipWords_Value :: "db_env \<Rightarrow> FlipWords \<Rightarrow> string" where
  "FlipWords_Value d v = rowText [FW_Cid v, showWord (FW_Word1 v), showWord (FW_Word2 v), FW_TxHash v]"

record FailedFlipContent =
  FFC_Cid :: string
  FFC_AttemptsLimitReached :: bool
  FFC_NextAttemptTimestamp :: bigint

text \<open>\<open>Int64\<close> of a big integer keeps its low 64 bits.\<close>

definition toInt64 :: "int \<Rightarrow> int" where
  "toInt64 n = sint (of_int n :: uint64)"

definition FailedFlipContent_Value :: "db_env \<Rightarrow> FailedFlipContent \<Rightarrow> string" where
  "FailedFlipContent_Value d v =
     (let timestamp = (case FFC_NextAttemptTimestamp v of None \<Rightarrow> 0 | Some t \<Rightarrow> toInt64 t)
      in rowText [FFC_Cid v, showBool (FFC_AttemptsLimitReached v), showInt timestamp])"

section \<open>Contracts\<close>

definition negativeIfNil :: "db_env \<Rightarrow> bigint \<Rightarrow> decimal" where
  "negativeIfNil d v = (case v of None \<Rightarrow> -1 | Some n \<Rightarrow> X_convertToFloat (DE_ext d) (Some n))"

definition negativeIfNilByte :: "byte option \<Rightarrow> int" where
  "negativeIfNilByte v = (case v of None \<Rightarrow> -1 | Some b \<Rightarrow> uint b)"

text \<open>The conversion to \<open>int64\<close> wraps around.\<close>

definition negativeIfNilUint64 :: "uint64 option \<Rightarrow> int" where
  "negativeIfNilUint64 v = (case v of None \<Rightarrow> -1 | Some n \<Rightarrow> sint n)"

definition OracleVotingContract_Value :: "db_env \<Rightarrow> OracleVotingContract \<Rightarrow> string" where
  "OracleVotingContract_Value d v = rowText
     [hashText d (OVC_TxHash v), addrText d (OVC_ContractAddress v), amountText d (OVC_Stake v), showWord (OVC_StartTime v),
      showWord (OVC_VotingDuration v), DE_decimal d (negativeIfNil d (OVC_VotingMinPayment v)), hexEncode (OVC_Fact v),
      showWord (OVC_State v), showWord (OVC_PublicVotingDuration v), showWord (OVC_WinnerThreshold v),
      showWord (OVC_Quorum v), showWord (OVC_CommitteeSize v), showWord (OVC_OwnerFee v),
      DE_decimal d (negativeIfNil d (OVC_OwnerDeposit v)), DE_decimal d (negativeIfNil d (OVC_OracleRewardFund v)),
      optAddrText d (OVC_RefundRecipient v), hexEncode (OVC_Hash v), showWord (OVC_NetworkSize v)]"

definition OracleVotingContractCallVoteProof_Value :: "db_env \<Rightarrow> OracleVotingContractCallVoteProof \<Rightarrow> string" where
  "OracleVotingContractCallVoteProof_Value d v = rowText
     [hashText d (OVCProof_TxHash v), hexEncode (OVCProof_VoteHash v),
      showInt (negativeIfNilUint64 (OVCProof_NewSecretVotesCount v)), showBool (OVCProof_DiscriminatedNewbie v),
      showBool (OVCProof_DiscriminatedDelegation v), showBool (OVCProof_DiscriminatedStake v)]"

text \<open>\<open>IsEmpty\<close> of an address is that all its bytes are zero.\<close>

definition OracleVotingContractCallVote_Value :: "db_env \<Rightarrow> OracleVotingContractCallVote \<Rightarrow> string" where
  "OracleVotingContractCallVote_Value d v =
     (let delegatee = (case OVCVote_Delegatee v of None \<Rightarrow> [] | Some a \<Rightarrow> if a = 0 then [] else addrText d a)
      in rowText
        [hashText d (OVCVote_TxHash v), showWord (OVCVote_Vote v), hexEncode (OVCVote_Salt v),
         showInt (negativeIfNilUint64 (OVCVote_OptionVotes v)), showWord (OVCVote_OptionAllVotes v),
         showInt (negativeIfNilUint64 (OVCVote_SecretVotesCount v)), delegatee,
         showInt (negativeIfNilByte (OVCVote_PrevPoolVote v)), showInt (negativeIfNilUint64 (OVCVote_PrevOptionVotes v)),
         showBool (OVCVote_DiscriminatedNewbie v), showBool (OVCVote_DiscriminatedDelegation v),
         showBool (OVCVote_DiscriminatedStake v)])"

definition OracleVotingContractCallFinish_Value :: "db_env \<Rightarrow> OracleVotingContractCallFinish \<Rightarrow> string" where
  "OracleVotingContractCallFinish_Value d v = rowText
     [hashText d (OVCFinish_TxHash v), showWord (OVCFinish_State v), showInt (negativeIfNilByte (OVCFinish_Result v)),
      amountText d (OVCFinish_Fund v), amountText d (OVCFinish_OracleReward v), amountText d (OVCFinish_OwnerReward v)]"

definition OracleVotingContractCallAddStake_Value :: "db_env \<Rightarrow> OracleVotingContractCallAddStake \<Rightarrow> string" where
  "OracleVotingContractCallAddStake_Value d v = rowText [hashText d (OVCAddStake_TxHash v)]"

definition OracleVotingContractTermination_Value :: "db_env \<Rightarrow> OracleVotingContractTermination \<Rightarrow> string" where
  "OracleVotingContractTermination_Value d v = rowText
     [hashText d (OVCTerm_TxHash v), DE_decimal d (negativeIfNil d (OVCTerm_Fund v)),
      DE_decimal d (negativeIfNil d (OVCTerm_OracleReward v)), DE_decimal d (negativeIfNil d (OVCTerm_OwnerReward v))]"

definition OracleLockContract_Value :: "db_env \<Rightarrow> OracleLockContract \<Rightarrow> string" where
  "OracleLockContract_Value d v = rowText
     [hashText d (OLC_TxHash v), addrText d (OLC_ContractAddress v), amountText d (OLC_Stake v),
      addrText d (OLC_OracleVotingAddress v), showWord (OLC_ExpectedValue v), addrText d (OLC_SuccessAddress v),
      addrText d (OLC_FailAddress v)]"

definition OracleLockContractCallPush_Value :: "db_env \<Rightarrow> OracleLockContractCallPush \<Rightarrow> string" where
  "OracleLockContractCallPush_Value d v = rowText
     [hashText d (OLCPush_TxHash v), showBool (OLCPush_Success v), showWord (OLCPush_OracleVotingResult v),
      amountText d (OLCPush_Transfer v)]"

definition OracleLockContractCallCheckOracleVoting_Value :: "db_env \<Rightarrow> OracleLockContractCallCheckOracleVoting \<Rightarrow> string" where
  "OracleLockContractCallCheckOracleVoting_Value d v = rowText
     [hashText d (OLCCheck_TxHash v), showInt (negativeIfNilByte (OLCCheck_OracleVotingResult v))]"

definition OracleLockContractTermination_Value :: "db_env \<Rightarrow> OracleLockContractTermination \<Rightarrow> string" where
  "OracleLockContractTermination_Value d v = rowText [hashText d (OLCTerm_TxHash v), addrText d (OLCTerm_Dest v)]"

definition RefundableOracleLockContract_Value :: "db_env \<Rightarrow> RefundableOracleLockContract \<Rightarrow> string" where
  "RefundableOracleLockContract_Value d v = rowText
     [hashText d (ROLC_TxHash v), addrText d (ROLC_ContractAddress v), amountText d (ROLC_Stake v),
      addrText d (ROLC_OracleVotingAddress v), showWord (ROLC_ExpectedValue v), optAddrText d (ROLC_SuccessAddress v),
      optAddrText d (ROLC_FailAddress v), showWord (ROLC_RefundDelay v), showWord (ROLC_DepositDeadline v),
      showWord (ROLC_OracleVotingFeeOld v), showWord (ROLC_OracleVotingFee v)]"

definition RefundableOracleLockContractCallDeposit_Value :: "db_env \<Rightarrow> RefundableOracleLockContractCallDeposit \<Rightarrow> string" where
  "RefundableOracleLockContractCallDeposit_Value d v = rowText
     [hashText d (ROLCDeposit_TxHash v), amountText d (ROLCDeposit_OwnSum v), amountText d (ROLCDeposit_Sum v),
      amountText d (ROLCDeposit_Fee v)]"

definition RefundableOracleLockContractCallPush_Value :: "db_env \<Rightarrow> RefundableOracleLockContractCallPush \<Rightarrow> string" where
  "RefundableOracleLockContractCallPush_Value d v = rowText
     [hashText d (ROLCPush_TxHash v), showWord (ROLCPush_State v), showBool (ROLCPush_OracleVotingExists v),
      showInt (negativeIfNilByte (ROLCPush_OracleVotingResult v)), amountText d (ROLCPush_Transfer v),
      showWord (ROLCPush_RefundBlock v)]"

definition RefundableOracleLockContractCallRefund_Value :: "db_env \<Rightarrow> RefundableOracleLockContractCallRefund \<Rightarrow> string" where
  "RefundableOracleLockContractCallRefund_Value d v = rowText
     [hashText d (ROLCRefund_TxHash v), amountText d (ROLCRefund_Balance v), DE_float64 d (ROLCRefund_Coef v)]"

definition RefundableOracleLockContractTermination_Value :: "db_env \<Rightarrow> RefundableOracleLockContractTermination \<Rightarrow> string" where
  "RefundableOracleLockContractTermination_Value d v = rowText [hashText d (ROLCTerm_TxHash v), addrText d (ROLCTerm_Dest v)]"

definition TimeLockContract_Value :: "db_env \<Rightarrow> TimeLockContract \<Rightarrow> string" where
  "TimeLockContract_Value d v = rowText
     [hashText d (TLC_TxHash v), addrText d (TLC_ContractAddress v), amountText d (TLC_Stake v), showWord (TLC_Timestamp v)]"

definition TimeLockContractCallTransfer_Value :: "db_env \<Rightarrow> TimeLockContractCallTransfer \<Rightarrow> string" where
  "TimeLockContractCallTransfer_Value d v = rowText
     [hashText d (TLCTransfer_TxHash v), addrText d (TLCTransfer_Dest v), amountText d (TLCTransfer_Amount v)]"

definition TimeLockContractTermination_Value :: "db_env \<Rightarrow> TimeLockContractTermination \<Rightarrow> string" where
  "TimeLockContractTermination_Value d v = rowText [hashText d (TLCTerm_TxHash v), addrText d (TLCTerm_Dest v)]"

definition MultisigContract_Value :: "db_env \<Rightarrow> MultisigContract \<Rightarrow> string" where
  "MultisigContract_Value d v = rowText
     [hashText d (MC_TxHash v), addrText d (MC_ContractAddress v), amountText d (MC_Stake v), showWord (MC_MinVotes v),
      showWord (MC_MaxVotes v), showWord (MC_State v)]"

definition MultisigContractCallAdd_Value :: "db_env \<Rightarrow> MultisigContractCallAdd \<Rightarrow> string" where
  "MultisigContractCallAdd_Value d v = rowText
     [hashText d (MCAdd_TxHash v), addrText d (MCAdd_Address v), showInt (negativeIfNilByte (MCAdd_NewState v))]"

definition MultisigContractCallSend_Value :: "db_env \<Rightarrow> MultisigContractCallSend \<Rightarrow> string" where
  "MultisigContractCallSend_Value d v = rowText
     [hashText d (MCSend_TxHash v), addrText d (MCSend_Dest v), amountText d (MCSend_Amount v)]"

definition MultisigContractCallPush_Value :: "db_env \<Rightarrow> MultisigContractCallPush \<Rightarrow> string" where
  "MultisigContractCallPush_Value d v = rowText
     [hashText d (MCPush_TxHash v), addrText d (MCPush_Dest v), amountText d (MCPush_Amount v),
      showWord (MCPush_VoteAddressCnt v), showWord (MCPush_VoteAmountCnt v)]"

definition MultisigContractTermination_Value :: "db_env \<Rightarrow> MultisigContractTermination \<Rightarrow> string" where
  "MultisigContractTermination_Value d v = rowText [hashText d (MCTerm_TxHash v), addrText d (MCTerm_Dest v)]"

section \<open>Rows determine what they were made of\<close>

text \<open>
  What the rows rely on of the libraries that print hashes, addresses and numbers: their texts have no
  comma, and different hashes and addresses have different texts that are not empty.
\<close>

definition plain_texts :: "db_env \<Rightarrow> bool" where
  "plain_texts d \<longleftrightarrow> (\<forall>a. plain (addrText d a)) \<and> (\<forall>h. plain (hashText d h)) \<and> (\<forall>x. plain (DE_decimal d x)) \<and>
     (\<forall>x. plain (DE_float64 d x)) \<and> (\<forall>x. plain (DE_float32 d x))"

definition distinct_texts :: "db_env \<Rightarrow> bool" where
  "distinct_texts d \<longleftrightarrow> inj (addrText d) \<and> inj (hashText d) \<and> [] \<notin> range (addrText d) \<and> [] \<notin> range (hashText d)"

lemma plain_nil [simp]: "plain []"
  by (simp add: plain_def)

lemma plain_hexEncode [simp]: "plain (hexEncode bs)"
proof -
  have d: "\<forall>n \<in> set [0..<16]. hexDigits ! n \<noteq> CHR '',''" by code_simp
  have "hexDigits ! (unat b div 16) \<noteq> CHR '','' \<and> hexDigits ! (unat b mod 16) \<noteq> CHR '',''" for b :: byte
  proof -
    have "unat b < 256" using unsigned_less [of b] by simp
    then have "unat b div 16 < 16" "unat b mod 16 < 16" by auto
    then show ?thesis using d by simp
  qed
  then show ?thesis by (fastforce simp: hexEncode_def plain_def)
qed

lemma hexEncode_inject [simp]: "hexEncode a = hexEncode b \<longleftrightarrow> a = b"
  by (metis hexDecode_encode)

lemma showInt_inject [simp]: "showInt i = showInt j \<longleftrightarrow> i = j"
proof
  assume eq: "showInt i = showInt j"
  obtain c s where c: "showNat (nat i) = c # s" "c \<noteq> CHR ''-''" by (rule showNat_Cons)
  obtain c' s' where c': "showNat (nat j) = c' # s'" "c' \<noteq> CHR ''-''" by (rule showNat_Cons)
  show "i = j" using eq c c' by (auto simp: showInt_def split: if_splits simp del: showNat_inject)
     (metis showNat_inject int_nat_eq neg_le_0_iff_le less_le linorder_not_less minus_equation_iff nat_0_le)+
qed simp

lemma text_simps:
  assumes "plain_texts d"
  shows "plain (addrText d a)" "plain (hashText d h)" "plain (amountText d v)" "plain (DE_decimal d x)"
    "plain (DE_float64 d y)" "plain (optAddrText d oa)"
  using assms by (auto simp: plain_texts_def amountText_def optAddrText_def split: option.split)

lemma text_inject:
  assumes "distinct_texts d"
  shows "addrText d a = addrText d b \<longleftrightarrow> a = b" "hashText d h = hashText d k \<longleftrightarrow> h = k"
    "addrText d a \<noteq> []" "hashText d h \<noteq> []" "optAddrText d oa = optAddrText d ob \<longleftrightarrow> oa = ob"
proof -
  show *: "addrText d a = addrText d b \<longleftrightarrow> a = b" "hashText d h = hashText d k \<longleftrightarrow> h = k"
    "addrText d a \<noteq> []" "hashText d h \<noteq> []" for a b h k
    using assms by (auto simp: distinct_texts_def inj_eq) (metis rangeI)+
  show "optAddrText d oa = optAddrText d ob \<longleftrightarrow> oa = ob"
    using * by (auto simp: optAddrText_def split: option.splits) metis+
qed

lemma negativeIfNilByte_inject: "negativeIfNilByte v = negativeIfNilByte w \<longleftrightarrow> v = w"
proof -
  have "uint b \<noteq> -1" "- 1 \<noteq> uint b" for b :: byte using uint_ge_0 [of b] by linarith+
  then show ?thesis by (auto simp: negativeIfNilByte_def split: option.splits intro: unsigned_word_eqI)
qed

text \<open>A count of \<open>2 ^ 63\<close> or more is written as a negative number.\<close>

lemma negativeIfNilUint64_inject:
  assumes "\<forall>n. v = Some n \<longrightarrow> n < 2 ^ 63" "\<forall>n. w = Some n \<longrightarrow> n < 2 ^ 63"
  shows "negativeIfNilUint64 v = negativeIfNilUint64 w \<longleftrightarrow> v = w"
proof -
  have *: "sint n = uint n" if "n < 2 ^ 63" for n :: uint64
  proof -
    have "uint n < 2 ^ 63" using that by (simp add: word_less_def)
    moreover have "- (2 ^ 63) \<le> uint n" by (rule order_trans [of _ 0]) simp_all
    ultimately have "signed_take_bit 63 (uint n) = uint n" by (rule signed_take_bit_int_eq_self [rotated])
    then show ?thesis by (simp add: sint_uint)
  qed
  have "uint n \<noteq> -1" "-1 \<noteq> uint n" for n :: uint64 using uint_ge_0 [of n] by linarith+
  then show ?thesis using assms * by (auto simp: negativeIfNilUint64_def split: option.splits intro: unsigned_word_eqI)
qed

text \<open>The text of a vote for an oracle voting determines the vote: two votes with the same text agree in
  every field, as long as their counts are below \<open>2 ^ 63\<close> and an absent delegatee is not told from the
  zero address.\<close>

theorem vote_row_determines_vote:
  assumes "plain_texts d" "distinct_texts d"
    and "OracleVotingContractCallVote_Value d v = OracleVotingContractCallVote_Value d w"
    and "\<forall>u \<in> {v, w}. \<forall>n \<in> set_option (OVCVote_OptionVotes u) \<union> set_option (OVCVote_SecretVotesCount u) \<union>
      set_option (OVCVote_PrevOptionVotes u). n < 2 ^ 63"
    and "OVCVote_Delegatee v \<noteq> Some 0" "OVCVote_Delegatee w \<noteq> Some 0"
  shows "v = w"
proof -
  note t = text_simps [OF assms(1)] text_inject [OF assms(2)]
  note eq = assms(3) [unfolded OracleVotingContractCallVote_Value_def Let_def]
  have plain: "plain (case OVCVote_Delegatee u of None \<Rightarrow> [] | Some a \<Rightarrow> if a = 0 then [] else addrText d a)" for u
    by (simp add: t split: option.split)
  note cols = rowText_inject [OF eq]
  have all: "OVCVote_TxHash v = OVCVote_TxHash w \<and> OVCVote_Vote v = OVCVote_Vote w \<and> OVCVote_Salt v = OVCVote_Salt w \<and>
      negativeIfNilUint64 (OVCVote_OptionVotes v) = negativeIfNilUint64 (OVCVote_OptionVotes w) \<and>
      OVCVote_OptionAllVotes v = OVCVote_OptionAllVotes w \<and>
      negativeIfNilUint64 (OVCVote_SecretVotesCount v) = negativeIfNilUint64 (OVCVote_SecretVotesCount w) \<and>
      (case OVCVote_Delegatee v of None \<Rightarrow> [] | Some a \<Rightarrow> if a = 0 then [] else addrText d a) =
        (case OVCVote_Delegatee w of None \<Rightarrow> [] | Some a \<Rightarrow> if a = 0 then [] else addrText d a) \<and>
      negativeIfNilByte (OVCVote_PrevPoolVote v) = negativeIfNilByte (OVCVote_PrevPoolVote w) \<and>
      negativeIfNilUint64 (OVCVote_PrevOptionVotes v) = negativeIfNilUint64 (OVCVote_PrevOptionVotes w) \<and>
      OVCVote_DiscriminatedNewbie v = OVCVote_DiscriminatedNewbie w \<and>
      OVCVote_DiscriminatedDelegation v = OVCVote_DiscriminatedDelegation w \<and>
      OVCVote_DiscriminatedStake v = OVCVote_DiscriminatedStake w"
    using cols by (simp add: t plain)
  then have "(case OVCVote_Delegatee v of None \<Rightarrow> [] | Some a \<Rightarrow> if a = 0 then [] else addrText d a) =
        (case OVCVote_Delegatee w of None \<Rightarrow> [] | Some a \<Rightarrow> if a = 0 then [] else addrText d a)" by blast
  then have "OVCVote_Delegatee v = OVCVote_Delegatee w"
    using assms(5,6) by (auto simp: t t(9) [symmetric] split: option.splits)
  with all show ?thesis
    using assms(4) by (simp add: negativeIfNilByte_inject negativeIfNilUint64_inject)
qed

definition sampleDbEnv :: db_env where
  "sampleDbEnv = \<lparr>DE_ext = sampleExt\<lparr>X_addrHex := \<lambda>a. showWord a, X_hashHex := \<lambda>h. showWord h\<rparr>,
     DE_decimal = (\<lambda>x. showInt (floor x)), DE_float64 = (\<lambda>x. showInt (floor x)), DE_float32 = (\<lambda>x. showInt (floor x)),
     DE_jsonAddr = (\<lambda>a. showWord a), DE_jsonHash = (\<lambda>h. showWord h), DE_jsonFloat = (\<lambda>x. showInt (floor x)),
     DE_txType = (\<lambda>t. 0)\<rparr>"

lemma sample_texts: "plain_texts sampleDbEnv" "distinct_texts sampleDbEnv"
  by (auto simp: plain_texts_def distinct_texts_def sampleDbEnv_def addrText_def hashText_def ConvertAddress_def
      ConvertHash_def showWord_def inj_def image_def intro: unsigned_word_eqI dest: sym)

definition sampleVote :: "uint64 option \<Rightarrow> OracleVotingContractCallVote" where
  "sampleVote cnt = \<lparr>OVCVote_TxHash = 1, OVCVote_Vote = 2, OVCVote_Salt = [3], OVCVote_OptionVotes = cnt, OVCVote_OptionAllVotes = 5,
     OVCVote_SecretVotesCount = None, OVCVote_Delegatee = None, OVCVote_DiscriminatedNewbie = False,
     OVCVote_DiscriminatedDelegation = False, OVCVote_DiscriminatedStake = True, OVCVote_PrevPoolVote = None,
     OVCVote_PrevOptionVotes = None\<rparr>"

theorem vote_row_determines_vote_witness:
  "OracleVotingContractCallVote_Value sampleDbEnv (sampleVote (Some 7)) \<noteq>
   OracleVotingContractCallVote_Value sampleDbEnv (sampleVote None)"
  using vote_row_determines_vote [OF sample_texts, of "sampleVote (Some 7)" "sampleVote None"]
  by (auto simp: sampleVote_def)

end
