(* ===== verification/Restoring.thy ===== *)
theory Restoring
  imports Epoch_Result
begin

text \<open>
  Restoring of the rows that describe the current state, \<open>src/core/restore/restore.go\<close>: balances,
  birthdays, pools and delegations are read from the node's state and saved together. The outer
  option is a panic (a key without bytes), the inner one the error value. The database and the sleep
  are the world's, which is an argument; a loop gets fuel and may still be waiting when it is used up.
\<close>

record Delegation =
  De_Delegator :: address
  De_Delegatee :: address
  De_BirthEpoch :: "uint16 option"

record RestoredData =
  RsD_BlockHeight :: uint64
  RsD_Balances :: "DbBalance list"
  RsD_Birthdays :: "Birthday list"
  RsD_PoolSizes :: "PoolSize list"
  RsD_Delegations :: "Delegation list"

text \<open>\<open>head\<close> is the height of \<open>chain.Head\<close>, \<open>None\<close> when that is nil.\<close>

definition restoreHeight :: "uint64 option \<Rightarrow> uint64 option" where
  "restoreHeight head = (case head of
       None \<Rightarrow> None
     | Some height \<Rightarrow> if height = 0 then None else Some (height - 1))"

text \<open>The iteration over the accounts stops at a nil key.\<close>

fun restoredBalances :: "ext \<Rightarrow> (bytes \<Rightarrow> address) \<Rightarrow> app_state \<Rightarrow> bytes option list \<Rightarrow> DbBalance list option" where
  "restoredBalances e setBytes app [] = Some []"
| "restoredBalances e setBytes app (None # keys) = Some []"
| "restoredBalances e setBytes app (Some key # keys) = do {
     addr \<leftarrow> BytesToAddr setBytes key;
     rest \<leftarrow> restoredBalances e setBytes app keys;
     Some (\<lparr>DB_Address = ConvertAddress e addr, DB_TxHash = [],
        DB_Balance = X_convertToFloat e (Some (AS_GetBalance app addr)),
        DB_Stake = X_convertToFloat e (Some (AS_GetStakeBalance app addr))\<rparr> # rest) }"

definition collectRestoredBalances :: "ext \<Rightarrow> (bytes \<Rightarrow> address) \<Rightarrow> (uint64 \<Rightarrow> node_state option) \<Rightarrow> uint64 \<Rightarrow>
    DbBalance list option option" where
  "collectRestoredBalances e setBytes readonly height = (case readonly height of
       None \<Rightarrow> Some None
     | Some st \<Rightarrow> map_option Some (restoredBalances e setBytes (NS_app st) (NS_accountKeys st)))"

text \<open>
  The variables that the callback of the iteration over the identities updates. The two maps have the
  same keys; the pools of the result are ranged over in an unspecified order, here that of insertion.
\<close>

record identity_data =
  ID_birthdays :: "Birthday list"
  ID_poolSizes :: "(address \<times> uint64) list"
  ID_poolDelegators :: "(address \<times> uint64) list"
  ID_delegations :: "Delegation list"

definition restoredBirthEpoch :: "ext \<Rightarrow> node_identity \<Rightarrow> uint16 option" where
  "restoredBirthEpoch e identity =
     (if X_newbieOrBetter e (NI_State identity) \<or> NI_State identity = Suspended \<or> NI_State identity = Zombie
      then Some (NI_Birthday identity) else None)"

definition identityDataStep :: "ext \<Rightarrow> node_state \<Rightarrow> address \<times> node_identity \<Rightarrow> identity_data \<Rightarrow> identity_data" where
  "identityDataStep e st = (\<lambda>(addr, identity) d.
     (let d1 = d\<lparr>ID_birthdays := ID_birthdays d @ [\<lparr>Bd_Address = ConvertAddress e addr, Bd_BirthEpoch = ucast (NI_Birthday identity)\<rparr>]\<rparr>
      in case NI_Delegatee identity of
        None \<Rightarrow> d1
      | Some delegatee \<Rightarrow>
          d1\<lparr>ID_poolDelegators := AList.update delegatee
                ((case map_of (ID_poolDelegators d1) delegatee of None \<Rightarrow> 0 | Some n \<Rightarrow> n) + 1) (ID_poolDelegators d1),
             ID_poolSizes := (if map_of (ID_poolSizes d1) delegatee = None
                then AList.update delegatee (of_int (Dl_PoolSize (NS_dl st) delegatee)) (ID_poolSizes d1)
                else ID_poolSizes d1),
             ID_delegations := ID_delegations d1 @
                [\<lparr>De_Delegator = addr, De_Delegatee = delegatee, De_BirthEpoch = restoredBirthEpoch e identity\<rparr>]\<rparr>))"

definition identityData :: "ext \<Rightarrow> node_state \<Rightarrow> (address \<times> node_identity) list \<Rightarrow> identity_data" where
  "identityData e st ids = fold (identityDataStep e st) ids
     \<lparr>ID_birthdays = [], ID_poolSizes = [], ID_poolDelegators = [], ID_delegations = []\<rparr>"

definition collectIdentityData :: "ext \<Rightarrow> (uint64 \<Rightarrow> node_state option) \<Rightarrow> uint64 \<Rightarrow>
    (Birthday list \<times> PoolSize list \<times> Delegation list) option" where
  "collectIdentityData e readonly height = (case readonly height of
       None \<Rightarrow> None
     | Some st \<Rightarrow>
         (let d = identityData e st (NS_identities st)
          in Some (ID_birthdays d,
               map (\<lambda>(addr, size). \<lparr>PS_Address = addr,
                    PS_Size = (case map_of (ID_poolSizes d) addr of None \<Rightarrow> 0 | Some n \<Rightarrow> n), PS_TotalDelegated = size\<rparr>)
                 (ID_poolDelegators d),
               ID_delegations d)))"

text \<open>\<open>collectData\<close>, given the answer of \<open>GetLastHeight\<close>.\<close>

definition collectData :: "ext \<Rightarrow> (bytes \<Rightarrow> address) \<Rightarrow> (uint64 \<Rightarrow> node_state option) \<Rightarrow> uint64 option \<Rightarrow> uint64 option \<Rightarrow>
    RestoredData option option" where
  "collectData e setBytes readonly head lastHeight =
     (case lastHeight of None \<Rightarrow> Some None | Some indexedHeight \<Rightarrow>
      case restoreHeight head of None \<Rightarrow> Some None | Some stateHeight \<Rightarrow>
      case collectRestoredBalances e setBytes readonly stateHeight of
        None \<Rightarrow> None
      | Some None \<Rightarrow> Some None
      | Some (Some balances) \<Rightarrow>
          (case collectIdentityData e readonly stateHeight of
             None \<Rightarrow> Some None
           | Some (birthdays, poolSizes, delegations) \<Rightarrow>
               Some (Some \<lparr>RsD_BlockHeight = indexedHeight, RsD_Balances = balances, RsD_Birthdays = birthdays,
                 RsD_PoolSizes = poolSizes, RsD_Delegations = delegations\<rparr>)))"

section \<open>The loop\<close>

text \<open>How a call ends: with a value, with a panic, or it has not ended with the fuel it was given.\<close>

datatype 'a outcome = Returns 'a | Panics | Waiting

text \<open>
  The database calls of the indexer and of the restorer, with the clock's sleep, over an abstract
  state of the outside world. \<open>None\<close> and \<open>False\<close> are an error; \<open>'d\<close> are the data of a block and
  \<open>'a\<close> the answers to the queries of the balance check.
\<close>

record ('w, 'd, 'a) world =
  W_GetLastHeight :: "'w \<Rightarrow> uint64 option \<times> 'w"
  W_ActualOracleVotings :: "'w \<Rightarrow> address list option \<times> 'w"
  W_ResetTo :: "uint64 \<Rightarrow> 'w \<Rightarrow> bool \<times> 'w"
  W_Save :: "'d \<Rightarrow> 'w \<Rightarrow> bool \<times> 'w"
  W_SaveRestoredData :: "RestoredData \<Rightarrow> 'w \<Rightarrow> bool \<times> 'w"
  W_balanceAnswers :: "'w \<Rightarrow> 'a \<times> 'w"
  W_sleep :: "'w \<Rightarrow> 'w"

definition tryToRestore :: "ext \<Rightarrow> (bytes \<Rightarrow> address) \<Rightarrow> (uint64 \<Rightarrow> node_state option) \<Rightarrow> uint64 option \<Rightarrow> ('w, 'd, 'a) world \<Rightarrow>
    'w \<Rightarrow> bool option \<times> 'w" where
  "tryToRestore e setBytes readonly head ops w =
     (let (lastHeight, w1) = W_GetLastHeight ops w
      in case collectData e setBytes readonly head lastHeight of
        None \<Rightarrow> (None, w1)
      | Some None \<Rightarrow> (Some False, w1)
      | Some (Some data) \<Rightarrow> apfst Some (W_SaveRestoredData ops data w1))"

fun Restore :: "ext \<Rightarrow> (bytes \<Rightarrow> address) \<Rightarrow> (uint64 \<Rightarrow> node_state option) \<Rightarrow> uint64 option \<Rightarrow> ('w, 'd, 'a) world \<Rightarrow> nat \<Rightarrow>
    'w \<Rightarrow> unit outcome \<times> 'w" where
  "Restore e setBytes readonly head ops 0 w = (Waiting, w)"
| "Restore e setBytes readonly head ops (Suc n) w =
     (case tryToRestore e setBytes readonly head ops w of
        (None, w1) \<Rightarrow> (Panics, w1)
      | (Some True, w1) \<Rightarrow> (Returns (), w1)
      | (Some False, w1) \<Rightarrow> Restore e setBytes readonly head ops n (W_sleep ops w1))"

section \<open>What is restored\<close>

lemma restoredBalances_rows:
  assumes "restoredBalances e setBytes app keys = Some rows"
  shows "map DB_Address rows = map (\<lambda>k. ConvertAddress e (setBytes (tl (the k)))) (takeWhile (\<lambda>k. k \<noteq> None) keys)"
    and "map DB_Balance rows = map (\<lambda>k. X_convertToFloat e (Some (AS_GetBalance app (setBytes (tl (the k)))))) (takeWhile (\<lambda>k. k \<noteq> None) keys)"
    and "map DB_Stake rows = map (\<lambda>k. X_convertToFloat e (Some (AS_GetStakeBalance app (setBytes (tl (the k)))))) (takeWhile (\<lambda>k. k \<noteq> None) keys)"
  using assms
  by (induction e setBytes app keys arbitrary: rows rule: restoredBalances.induct)
    (auto simp: BytesToAddr_def split: bind_splits list.splits)

text \<open>The identities that delegate, and those that delegate to a pool.\<close>

definition delegatorsOf :: "(address \<times> node_identity) list \<Rightarrow> address \<Rightarrow> nat" where
  "delegatorsOf ids pool = length (filter (\<lambda>(addr, identity). NI_Delegatee identity = Some pool) ids)"

definition delegationRow :: "ext \<Rightarrow> address \<times> node_identity \<Rightarrow> Delegation option" where
  "delegationRow e = (\<lambda>(addr, identity). map_option (\<lambda>delegatee.
     \<lparr>De_Delegator = addr, De_Delegatee = delegatee, De_BirthEpoch = restoredBirthEpoch e identity\<rparr>) (NI_Delegatee identity))"

lemma identityData_run:
  "map_of (ID_poolDelegators (identityData e st ids)) = (\<lambda>a. if delegatorsOf ids a = 0 then None else Some (of_nat (delegatorsOf ids a)))
   \<and> map_of (ID_poolSizes (identityData e st ids)) = (\<lambda>a. if delegatorsOf ids a = 0 then None else Some (of_int (Dl_PoolSize (NS_dl st) a)))
   \<and> distinct (map fst (ID_poolDelegators (identityData e st ids)))
   \<and> ID_delegations (identityData e st ids) = List.map_filter (delegationRow e) ids
   \<and> ID_birthdays (identityData e st ids) =
       map (\<lambda>(addr, identity). \<lparr>Bd_Address = ConvertAddress e addr, Bd_BirthEpoch = ucast (NI_Birthday identity)\<rparr>) ids"
proof (induction ids rule: rev_induct)
  case Nil
  show ?case by (simp add: identityData_def delegatorsOf_def List.map_filter_def)
next
  case (snoc x ids)
  obtain addr identity where x: "x = (addr, identity)" by (cases x)
  have step: "identityData e st (ids @ [(addr, identity)]) = identityDataStep e st (addr, identity) (identityData e st ids)" by (simp add: identityData_def)
  have n: "delegatorsOf (ids @ [(addr, identity)]) a = (if NI_Delegatee identity = Some a then Suc (delegatorsOf ids a) else delegatorsOf ids a)" for a
    by (simp add: delegatorsOf_def)
  show ?case
  proof (cases "NI_Delegatee identity")
    case None
    with snoc.IH show ?thesis
      unfolding x step n identityDataStep_def by (simp add: List.map_filter_def delegationRow_def cong: if_cong)
  next
    case (Some pool)
    have cnt: "(case if delegatorsOf ids pool = 0 then None else Some (of_nat (delegatorsOf ids pool) :: uint64) of None \<Rightarrow> 0 | Some k \<Rightarrow> k) + 1
        = of_nat (Suc (delegatorsOf ids pool))" by simp
    show ?thesis
      unfolding x step n identityDataStep_def using snoc.IH cnt Some
      by (auto simp: Let_def AList.update_conv' AList.distinct_update List.map_filter_def delegationRow_def fun_eq_iff)
  qed
qed

section \<open>Properties\<close>

text \<open>The restored identity rows mirror the identities of the state: every identity has its birthday,
  exactly those with a pool have a delegation, and the pool rows are one per pool somebody delegates
  to, with the number of its delegators and its size.\<close>
theorem restored_identity_rows:
  assumes "collectIdentityData e readonly height = Some (birthdays, pools, delegations)" "readonly height = Some st"
  shows "distinct (map PS_Address pools)
    \<and> set pools = {\<lparr>PS_Address = pool, PS_Size = of_int (Dl_PoolSize (NS_dl st) pool),
         PS_TotalDelegated = of_nat (delegatorsOf (NS_identities st) pool)\<rparr> | pool. delegatorsOf (NS_identities st) pool > 0}
    \<and> delegations = List.map_filter (delegationRow e) (NS_identities st)
    \<and> map Bd_Address birthdays = map (ConvertAddress e \<circ> fst) (NS_identities st)"
proof -
  let ?d = "identityData e st (NS_identities st)" and ?n = "delegatorsOf (NS_identities st)"
  have parts: "birthdays = ID_birthdays ?d" "delegations = ID_delegations ?d"
    "pools = map (\<lambda>(addr, size). \<lparr>PS_Address = addr,
        PS_Size = (case map_of (ID_poolSizes ?d) addr of None \<Rightarrow> 0 | Some n \<Rightarrow> n), PS_TotalDelegated = size\<rparr>) (ID_poolDelegators ?d)"
    using assms by (simp_all add: collectIdentityData_def Let_def)
  note run = identityData_run [of e st "NS_identities st"]
  have mem: "(a, k) \<in> set (ID_poolDelegators ?d) \<longleftrightarrow> ?n a \<noteq> 0 \<and> k = of_nat (?n a)" for a k
    using run by (subst map_of_eq_Some_iff [symmetric]) auto
  have "map PS_Address pools = map fst (ID_poolDelegators ?d)" by (simp add: parts(3) split_def comp_def)
  moreover have "set pools = {\<lparr>PS_Address = pool, PS_Size = of_int (Dl_PoolSize (NS_dl st) pool), PS_TotalDelegated = of_nat (?n pool)\<rparr> | pool. ?n pool > 0}"
    using run by (auto simp: parts(3) mem image_iff Bex_def split_def)
  ultimately show ?thesis using run by (simp add: parts comp_def split_def)
qed

definition sampleRestored :: node_state where
  "sampleRestored = sampleNodeState\<lparr>NS_identities := [(5, sampleNodeIdentity), (6, sampleNodeIdentity\<lparr>NI_Delegatee := Some 8\<rparr>),
     (7, sampleNodeIdentity\<lparr>NI_Delegatee := Some 8\<rparr>)]\<rparr>"

theorem restored_identity_rows_witness:
  "\<exists>birthdays pools delegations. collectIdentityData sampleExt (\<lambda>_. Some sampleRestored) 4 = Some (birthdays, pools, delegations)
     \<and> (\<exists>size. \<lparr>PS_Address = 8, PS_Size = size, PS_TotalDelegated = 2\<rparr> \<in> set pools)"
proof -
  obtain birthdays pools delegations where
    r: "collectIdentityData sampleExt (\<lambda>_. Some sampleRestored) 4 = Some (birthdays, pools, delegations)"
    by (simp add: collectIdentityData_def Let_def)
  have "delegatorsOf (NS_identities sampleRestored) 8 = 2" by (simp add: delegatorsOf_def sampleRestored_def sampleNodeIdentity_def)
  then show ?thesis using r restored_identity_rows [OF r refl] by force
qed

end
