(* ===== verification/Db_Json.thy ===== *)
theory Db_Json
  imports Db_Rows Restoring Mempool_Timestamps
begin

text \<open>
  The structs of \<open>src/db/postgres_types.go\<close> that are handed to the stored procedures as JSON, and the
  conversions that fill them. \<open>json.Marshal\<close> is modelled up to the tree of values that the struct tags
  describe: an omitted field is left out, a nil slice that is not omitted is null. A decimal is a quoted
  number, \<open>bytes\<close> are hexadecimal.
\<close>

datatype json = JNull | JBool bool | JNum string | JStr string | JArr "json list" | JObj "(string \<times> json) list"

definition jWord :: "'a::len word \<Rightarrow> json" where "jWord w = JNum (showWord w)"

definition jInt :: "int \<Rightarrow> json" where "jInt i = JNum (showInt i)"

definition jDecimal :: "db_env \<Rightarrow> decimal \<Rightarrow> json" where "jDecimal d x = JStr (DE_decimal d x)"

definition jBytes :: "bytes \<Rightarrow> json" where "jBytes bs = JStr (hexEncode bs)"

definition jAddr :: "db_env \<Rightarrow> address \<Rightarrow> json" where "jAddr d a = JStr (DE_jsonAddr d a)"

definition jHash :: "db_env \<Rightarrow> hash \<Rightarrow> json" where "jHash d h = JStr (DE_jsonHash d h)"

text \<open>The tag \<open>omitempty\<close> on a slice, a pointer, a string and an integer.\<close>

definition omitEmpty :: "string \<Rightarrow> ('a \<Rightarrow> json) \<Rightarrow> 'a list \<Rightarrow> (string \<times> json) list" where
  "omitEmpty n f xs = (if xs = [] then [] else [(n, JArr (map f xs))])"

definition omitNil :: "string \<Rightarrow> ('a \<Rightarrow> json) \<Rightarrow> 'a option \<Rightarrow> (string \<times> json) list" where
  "omitNil n f v = (case v of None \<Rightarrow> [] | Some x \<Rightarrow> [(n, f x)])"

definition omitBlank :: "string \<Rightarrow> string \<Rightarrow> (string \<times> json) list" where
  "omitBlank n s = (if s = [] then [] else [(n, JStr s)])"

definition omitZero :: "string \<Rightarrow> int \<Rightarrow> (string \<times> json) list" where
  "omitZero n i = (if i = 0 then [] else [(n, jInt i)])"

text \<open>A pointer without the tag: nil is null.\<close>

definition jOption :: "('a \<Rightarrow> json) \<Rightarrow> 'a option \<Rightarrow> json" where
  "jOption f v = (case v of None \<Rightarrow> JNull | Some x \<Rightarrow> f x)"

section \<open>Contract calls\<close>

record oracleVotingContractCallStart =
  JStart_TxHash :: string
  JStart_State :: byte
  JStart_StartHeight :: uint64
  JStart_Epoch :: uint16
  JStart_VotingMinPayment :: "string option"
  JStart_VrfSeed :: bytes
  JStart_Committee :: "string list"
  JStart_CommitteeSize :: uint64

definition startJson :: "oracleVotingContractCallStart \<Rightarrow> json" where
  "startJson v = JObj ([(''txHash'', JStr (JStart_TxHash v)), (''state'', jWord (JStart_State v)),
     (''startBlockHeight'', jWord (JStart_StartHeight v)), (''epoch'', jWord (JStart_Epoch v))] @
     omitNil ''votingMinPayment'' JStr (JStart_VotingMinPayment v) @ [(''vrfSeed'', jBytes (JStart_VrfSeed v))] @
     omitEmpty ''committee'' JStr (JStart_Committee v) @ [(''committeeSize'', jWord (JStart_CommitteeSize v))])"

definition OracleVotingContractCallStart_Value :: "db_env \<Rightarrow> OracleVotingContractCallStart \<Rightarrow> json" where
  "OracleVotingContractCallStart_Value d v = startJson
     \<lparr>JStart_TxHash = hashText d (OVCStart_TxHash v), JStart_State = OVCStart_State v,
      JStart_StartHeight = OVCStart_StartHeight v, JStart_Epoch = OVCStart_Epoch v,
      JStart_VotingMinPayment = map_option (\<lambda>n. amountText d (Some n)) (OVCStart_VotingMinPayment v),
      JStart_VrfSeed = OVCStart_VrfSeed v, JStart_Committee = map (addrText d) (OVCStart_Committee v),
      JStart_CommitteeSize = OVCStart_CommitteeSize v\<rparr>"

record oracleVotingContractCallProlongation =
  JProlong_TxHash :: string
  JProlong_Epoch :: uint16
  JProlong_StartHeight :: "uint64 option"
  JProlong_VrfSeed :: bytes
  JProlong_EpochWithoutGrowth :: "byte option"
  JProlong_ProlongVoteCount :: "uint64 option"
  JProlong_Committee :: "string list"
  JProlong_CommitteeSize :: uint64

definition prolongationJson :: "oracleVotingContractCallProlongation \<Rightarrow> json" where
  "prolongationJson v = JObj ([(''txHash'', JStr (JProlong_TxHash v)), (''epoch'', jWord (JProlong_Epoch v)),
     (''startBlockHeight'', jOption jWord (JProlong_StartHeight v)), (''vrfSeed'', jBytes (JProlong_VrfSeed v)),
     (''epochWithoutGrowth'', jOption jWord (JProlong_EpochWithoutGrowth v)),
     (''prolongVoteCount'', jOption jWord (JProlong_ProlongVoteCount v))] @
     omitEmpty ''committee'' JStr (JProlong_Committee v) @ [(''committeeSize'', jWord (JProlong_CommitteeSize v))])"

definition OracleVotingContractCallProlongation_Value :: "db_env \<Rightarrow> OracleVotingContractCallProlongation \<Rightarrow> json" where
  "OracleVotingContractCallProlongation_Value d v = prolongationJson
     \<lparr>JProlong_TxHash = hashText d (OVCProlong_TxHash v), JProlong_Epoch = OVCProlong_Epoch v,
      JProlong_StartHeight = OVCProlong_StartBlock v, JProlong_VrfSeed = OVCProlong_VrfSeed v,
      JProlong_EpochWithoutGrowth = OVCProlong_EpochWithoutGrowth v,
      JProlong_ProlongVoteCount = OVCProlong_ProlongVoteCount v,
      JProlong_Committee = map (addrText d) (OVCProlong_Committee v), JProlong_CommitteeSize = OVCProlong_CommitteeSize v\<rparr>"

record contractTxBalanceUpdate =
  JUpd_Address :: string
  JUpd_BalanceOld :: "decimal option"
  JUpd_BalanceNew :: "decimal option"
  JUpd_ContractAddress :: string

record contractTxBalanceUpdates =
  JUpds_TxHash :: string
  JUpds_ContractAddress :: string
  JUpds_ContractCallMethod :: "byte option"
  JUpds_Updates :: "contractTxBalanceUpdate list"

definition updateJson :: "db_env \<Rightarrow> contractTxBalanceUpdate \<Rightarrow> json" where
  "updateJson d v = JObj ([(''address'', JStr (JUpd_Address v)), (''balanceOld'', jOption (jDecimal d) (JUpd_BalanceOld v)),
     (''balanceNew'', jOption (jDecimal d) (JUpd_BalanceNew v))] @ omitBlank ''contractAddress'' (JUpd_ContractAddress v))"

definition updatesJson :: "db_env \<Rightarrow> contractTxBalanceUpdates \<Rightarrow> json" where
  "updatesJson d v = JObj ([(''txHash'', JStr (JUpds_TxHash v)), (''contractAddress'', JStr (JUpds_ContractAddress v))] @
     omitNil ''contractCallMethod'' jWord (JUpds_ContractCallMethod v) @
     [(''updates'', JArr (map (updateJson d) (JUpds_Updates v)))])"

definition ContractTxBalanceUpdates_Value :: "db_env \<Rightarrow> ContractTxBalanceUpdates \<Rightarrow> json" where
  "ContractTxBalanceUpdates_Value d v = updatesJson d
     \<lparr>JUpds_TxHash = hashText d (CTBUs_TxHash v), JUpds_ContractAddress = addrText d (CTBUs_ContractAddress v),
      JUpds_ContractCallMethod = CTBUs_ContractCallMethod v,
      JUpds_Updates = map (\<lambda>update. \<lparr>JUpd_Address = addrText d (CTBU_Address update),
          JUpd_BalanceOld = map_option (\<lambda>n. X_convertToFloat (DE_ext d) (Some n)) (CTBU_BalanceOld update),
          JUpd_BalanceNew = map_option (\<lambda>n. X_convertToFloat (DE_ext d) (Some n)) (CTBU_BalanceNew update),
          JUpd_ContractAddress = optAddrText d (CTBU_ContractAddress update)\<rparr>) (CTBUs_Updates v)\<rparr>"

section \<open>Contents of flips\<close>

record FlipContent =
  FC_Cid :: string
  FC_Pics :: "bytes list"
  FC_Orders :: "byte list list"
  FC_Icon :: bytes

record flipContent =
  JFlip_Cid :: string
  JFlip_Pics :: "bytes list"
  JFlip_Orders :: "int list list"
  JFlip_Icon :: bytes

text \<open>
  The inner loop over one list of orders: with its first element a row of zeros is appended, and every
  element is stored into the row of the outer index, which need not exist.
\<close>

fun orderLoop :: "nat \<Rightarrow> nat \<Rightarrow> nat \<Rightarrow> byte list \<Rightarrow> int list list \<Rightarrow> int list list option" where
  "orderLoop i n j [] orders = Some orders"
| "orderLoop i n j (order # rest) orders =
     (let orders1 = (if j = 0 then orders @ [replicate n 0] else orders)
      in if i < length orders1 \<and> j < length (orders1 ! i)
         then orderLoop i n (Suc j) rest (orders1[i := (orders1 ! i)[j := uint order]])
         else None)"

fun ordersLoop :: "nat \<Rightarrow> byte list list \<Rightarrow> int list list \<Rightarrow> int list list option" where
  "ordersLoop i [] orders = Some orders"
| "ordersLoop i (answerOrders # rest) orders =
     orderLoop i (length answerOrders) 0 answerOrders orders \<bind> ordersLoop (Suc i) rest"

definition convertFlipContent :: "FlipContent \<Rightarrow> flipContent option" where
  "convertFlipContent v = map_option (\<lambda>orders. \<lparr>JFlip_Cid = FC_Cid v, JFlip_Pics = FC_Pics v, JFlip_Orders = orders,
     JFlip_Icon = FC_Icon v\<rparr>) (ordersLoop 0 (FC_Orders v) [])"

definition flipContentJson :: "flipContent \<Rightarrow> json" where
  "flipContentJson v = JObj ([(''cid'', JStr (JFlip_Cid v)),
     (''pics'', if JFlip_Pics v = [] then JNull else JArr (map jBytes (JFlip_Pics v)))] @
     omitEmpty ''orders'' (\<lambda>row. JArr (map jInt row)) (JFlip_Orders v) @
     (if JFlip_Icon v = [] then [] else [(''icon'', jBytes (JFlip_Icon v))]))"

definition FlipContent_Value :: "FlipContent \<Rightarrow> json option" where
  "FlipContent_Value v = map_option flipContentJson (convertFlipContent v)"

section \<open>The data of a block\<close>

record delegationSwitch =
  JDS_Delegator :: string
  JDS_Delegatee :: "string option"
  JDS_BirthEpoch :: "uint16 option"

record upgradeVotes =
  JUV_Upgrade :: uint32
  JUV_Votes :: uint64
  JUV_Timestamp :: int

record poolSize =
  JPS_Address :: string
  JPS_Size :: uint64
  JPS_TotalDelegated :: uint64

record removedTransitiveDelegation =
  JRTD_Delegator :: string
  JRTD_Delegatee :: string

record txEvent =
  JEv_EventName :: string
  JEv_Data :: "bytes list"

record txReceipt =
  JRc_ContractAddress :: string
  JRc_Success :: bool
  JRc_GasUsed :: uint64
  JRc_GasCost :: decimal
  JRc_From :: string
  JRc_TxHash :: string
  JRc_Error :: string
  JRc_Events :: "txEvent list"
  JRc_Method :: string
  JRc_ActionResult :: bytes

record contract =
  JCt_ContractAddress :: string
  JCt_TxHash :: string
  JCt_Code :: bytes

record data =
  Jd_Txs :: "DbTransaction list"
  Jd_DelegationSwitches :: "delegationSwitch list"
  Jd_UpgradesVotes :: "upgradeVotes list"
  Jd_PoolSizes :: "poolSize list"
  Jd_MinersHistoryItem :: "MinersHistoryItem option"
  Jd_RemovedTransitiveDelegations :: "removedTransitiveDelegation list"
  Jd_EpochSummaryUpdate :: EpochSummaryUpdate
  Jd_OracleVotingContractsToProlong :: "string list"
  Jd_TxReceipts :: "txReceipt list"
  Jd_Contracts :: "contract list"
  Jd_Tokens :: "DbToken list"
  Jd_TokenBalanceUpdates :: "TokenBalance list"
  Jd_DelegationHistoryUpdates :: "DelegationHistoryUpdate list"

definition convertTxEvent :: "TxEvent \<Rightarrow> txEvent" where
  "convertTxEvent event = \<lparr>JEv_EventName = Ev_EventName event, JEv_Data = Ev_Data event\<rparr>"

definition convertTxEvents :: "TxEvent list \<Rightarrow> txEvent list" where
  "convertTxEvents events = map convertTxEvent events"

definition convertTxReceipt :: "db_env \<Rightarrow> TxReceipt \<Rightarrow> txReceipt" where
  "convertTxReceipt d v =
     (let errorMsg = (case Rc_Error v of None \<Rightarrow> [] | Some msg \<Rightarrow> msg)
      in \<lparr>JRc_ContractAddress = addrText d (Rc_ContractAddress v), JRc_Success = Rc_Success v, JRc_GasUsed = Rc_GasUsed v,
          JRc_GasCost = X_convertToFloat (DE_ext d) (Rc_GasCost v), JRc_From = addrText d (Rc_From v),
          JRc_TxHash = hashText d (Rc_TxHash v), JRc_Error = errorMsg, JRc_Events = convertTxEvents (Rc_Events v),
          JRc_Method = Rc_Method v, JRc_ActionResult = Rc_ActionResult v\<rparr>)"

definition convertContract :: "db_env \<Rightarrow> WasmContract \<Rightarrow> contract" where
  "convertContract d v = \<lparr>JCt_ContractAddress = addrText d (Ct_ContractAddress v), JCt_TxHash = hashText d (Ct_TxHash v),
     JCt_Code = Ct_Code v\<rparr>"

text \<open>\<open>getData\<close> gets its thirteen arguments as the fields of the data of a block; the total of a pool stays zero.\<close>

definition getData :: "db_env \<Rightarrow> Data \<Rightarrow> data" where
  "getData d v = \<lparr>Jd_Txs = Bl_Transactions (D_Block v),
     Jd_DelegationSwitches = map (\<lambda>s. \<lparr>JDS_Delegator = addrText d (DS_Delegator s),
        JDS_Delegatee = map_option (addrText d) (DS_Delegatee s), JDS_BirthEpoch = DS_BirthEpoch s\<rparr>) (D_DelegationSwitches v),
     Jd_UpgradesVotes = map (\<lambda>u. \<lparr>JUV_Upgrade = UV_Upgrade u, JUV_Votes = UV_Votes u, JUV_Timestamp = UV_Timestamp u\<rparr>)
        (D_UpgradesVotes v),
     Jd_PoolSizes = map (\<lambda>p. \<lparr>JPS_Address = addrText d (PS_Address p), JPS_Size = PS_Size p, JPS_TotalDelegated = 0\<rparr>) (D_PoolSizes v),
     Jd_MinersHistoryItem = D_MinersHistoryItem v,
     Jd_RemovedTransitiveDelegations = map (\<lambda>r. \<lparr>JRTD_Delegator = addrText d (RTD_Delegator r),
        JRTD_Delegatee = addrText d (RTD_Delegatee r)\<rparr>) (D_RemovedTransitiveDelegations v),
     Jd_EpochSummaryUpdate = D_EpochSummaryUpdate v,
     Jd_OracleVotingContractsToProlong = map (addrText d) (D_OracleVotingContractsToProlong v),
     Jd_TxReceipts = map (convertTxReceipt d) (D_TxReceipts v),
     Jd_Contracts = map (convertContract d) (D_Contracts v),
     Jd_Tokens = D_Tokens v, Jd_TokenBalanceUpdates = D_TokenBalanceUpdates v,
     Jd_DelegationHistoryUpdates = D_DelegationHistoryUpdates v\<rparr>"

definition txJson :: "db_env \<Rightarrow> DbTransaction \<Rightarrow> json" where
  "txJson d v = JObj ([(''hash'', JStr (DT_Hash v)), (''type'', jWord (DE_txType d (DT_Type v))), (''from'', JStr (DT_From v)),
     (''to'', JStr (DT_To v)), (''amount'', jDecimal d (DT_Amount v)), (''tips'', jDecimal d (DT_Tips v)),
     (''maxFee'', jDecimal d (DT_MaxFee v)), (''fee'', jDecimal d (DT_Fee v)), (''size'', jInt (int (DT_Size v))),
     (''raw'', JStr (DT_Raw v)), (''nonce'', jWord (DT_Nonce v)), (''usedGas'', jWord (DT_UsedGas v))] @
     omitNil ''data'' (\<lambda>clientType. JObj [(''clientType'', jWord clientType)]) (DT_Data v))"

definition switchJson :: "delegationSwitch \<Rightarrow> json" where
  "switchJson v = JObj ([(''delegator'', JStr (JDS_Delegator v))] @ omitNil ''delegatee'' JStr (JDS_Delegatee v) @
     omitNil ''birthEpoch'' jWord (JDS_BirthEpoch v))"

definition votesJson :: "upgradeVotes \<Rightarrow> json" where
  "votesJson v = JObj [(''upgrade'', jWord (JUV_Upgrade v)), (''votes'', jWord (JUV_Votes v)), (''timestamp'', jInt (JUV_Timestamp v))]"

definition poolSizeJson :: "poolSize \<Rightarrow> json" where
  "poolSizeJson v = JObj [(''address'', JStr (JPS_Address v)), (''size'', jWord (JPS_Size v)), (''totalDelegated'', jWord (JPS_TotalDelegated v))]"

definition minersJson :: "MinersHistoryItem \<Rightarrow> json" where
  "minersJson v = JObj [(''onlineValidators'', jWord (MHI_OnlineValidators v)), (''onlineMiners'', jWord (MHI_OnlineMiners v))]"

definition removedJson :: "removedTransitiveDelegation \<Rightarrow> json" where
  "removedJson v = JObj [(''delegator'', JStr (JRTD_Delegator v)), (''delegatee'', JStr (JRTD_Delegatee v))]"

definition eventJson :: "txEvent \<Rightarrow> json" where
  "eventJson v = JObj ((''eventName'', JStr (JEv_EventName v)) # omitEmpty ''data'' jBytes (JEv_Data v))"

definition receiptJson :: "db_env \<Rightarrow> txReceipt \<Rightarrow> json" where
  "receiptJson d v = JObj ([(''contractAddress'', JStr (JRc_ContractAddress v)), (''success'', JBool (JRc_Success v)),
     (''gasUsed'', jWord (JRc_GasUsed v)), (''gasCost'', jDecimal d (JRc_GasCost v)), (''from'', JStr (JRc_From v)),
     (''txHash'', JStr (JRc_TxHash v))] @ omitBlank ''error'' (JRc_Error v) @ omitEmpty ''events'' eventJson (JRc_Events v) @
     omitBlank ''method'' (JRc_Method v) @
     (if JRc_ActionResult v = [] then [] else [(''actionResult'', jBytes (JRc_ActionResult v))]))"

definition contractJson :: "contract \<Rightarrow> json" where
  "contractJson v = JObj [(''contractAddress'', JStr (JCt_ContractAddress v)), (''txHash'', JStr (JCt_TxHash v)), (''code'', jBytes (JCt_Code v))]"

definition tokenJson :: "db_env \<Rightarrow> DbToken \<Rightarrow> json" where
  "tokenJson d v = JObj [(''contractAddress'', jAddr d (Tok_ContractAddress v)), (''name'', JStr (Tok_Name v)),
     (''symbol'', JStr (Tok_Symbol v)), (''decimals'', jWord (Tok_Decimals v))]"

definition tokenBalanceJson :: "db_env \<Rightarrow> TokenBalance \<Rightarrow> json" where
  "tokenBalanceJson d v = JObj [(''contractAddress'', jAddr d (TokB_ContractAddress v)), (''address'', jAddr d (TokB_Address v)),
     (''balance'', jOption jInt (TokB_Balance v))]"

definition historyUpdateJson :: "db_env \<Rightarrow> DelegationHistoryUpdate \<Rightarrow> json" where
  "historyUpdateJson d v = JObj ((''delegatorAddress'', jAddr d (DHU_DelegatorAddress v)) #
     omitNil ''delegationTx'' (jHash d) (DHU_DelegationTx v) @ omitNil ''delegationBlockHeight'' jWord (DHU_DelegationBlockHeight v) @
     omitNil ''undelegationReason'' jWord (DHU_UndelegationReason v) @ omitNil ''undelegationTx'' (jHash d) (DHU_UndelegationTx v) @
     omitNil ''undelegationBlockHeight'' jWord (DHU_UndelegationBlockHeight v))"

text \<open>The tag \<open>omitempty\<close> has no effect on a struct, as on the summary update.\<close>

definition data_Value :: "db_env \<Rightarrow> data \<Rightarrow> json" where
  "data_Value d v = JObj (omitEmpty ''txs'' (txJson d) (Jd_Txs v) @
     omitEmpty ''delegationSwitches'' switchJson (Jd_DelegationSwitches v) @
     omitEmpty ''upgradesVotes'' votesJson (Jd_UpgradesVotes v) @
     omitEmpty ''poolSizes'' poolSizeJson (Jd_PoolSizes v) @
     omitNil ''minersHistoryItem'' minersJson (Jd_MinersHistoryItem v) @
     omitEmpty ''removedTransitiveDelegations'' removedJson (Jd_RemovedTransitiveDelegations v) @
     [(''epochSummaryUpdate'', JObj (omitZero ''candidateCountDiff'' (ESU_CandidateCountDiff (Jd_EpochSummaryUpdate v))))] @
     omitEmpty ''oracleVotingContractsToProlong'' JStr (Jd_OracleVotingContractsToProlong v) @
     omitEmpty ''txReceipts'' (receiptJson d) (Jd_TxReceipts v) @
     omitEmpty ''contracts'' contractJson (Jd_Contracts v) @
     omitEmpty ''tokens'' (tokenJson d) (Jd_Tokens v) @
     omitEmpty ''tokenBalanceUpdates'' (tokenBalanceJson d) (Jd_TokenBalanceUpdates v) @
     omitEmpty ''delegationHistoryUpdates'' (historyUpdateJson d) (Jd_DelegationHistoryUpdates v))"

section \<open>The result of an epoch\<close>

record delegationEpochReward =
  JER_Total :: decimal
  JER_Validation :: "decimal option"
  JER_Flips :: "decimal option"
  JER_Invitations :: "decimal option"
  JER_Invitations2 :: "decimal option"
  JER_Invitations3 :: "decimal option"
  JER_SavedInvites :: "decimal option"
  JER_SavedInvitesWin :: "decimal option"
  JER_Reports :: "decimal option"
  JER_Candidate :: "decimal option"
  JER_Staking :: "decimal option"
  JER_ExtraFlips :: "decimal option"
  JER_Invitee1 :: "decimal option"
  JER_Invitee2 :: "decimal option"
  JER_Invitee3 :: "decimal option"

abbreviation validation :: byte where "validation \<equiv> 0"
abbreviation flips :: byte where "flips \<equiv> 1"
abbreviation invitations :: byte where "invitations \<equiv> 2"
abbreviation invitations2 :: byte where "invitations2 \<equiv> 5"
abbreviation invitations3 :: byte where "invitations3 \<equiv> 6"
abbreviation savedInvite :: byte where "savedInvite \<equiv> 7"
abbreviation savedInviteWin :: byte where "savedInviteWin \<equiv> 8"
abbreviation reportedFlips :: byte where "reportedFlips \<equiv> 9"
abbreviation staking :: byte where "staking \<equiv> 10"
abbreviation candidate :: byte where "candidate \<equiv> 11"
abbreviation extraFlips :: byte where "extraFlips \<equiv> 12"
abbreviation invitee1 :: byte where "invitee1 \<equiv> 13"
abbreviation invitee2 :: byte where "invitee2 \<equiv> 14"
abbreviation invitee3 :: byte where "invitee3 \<equiv> 15"

definition setEpochReward :: "byte \<Rightarrow> decimal \<Rightarrow> delegationEpochReward \<Rightarrow> delegationEpochReward" where
  "setEpochReward t balance res =
     (if t = validation then res\<lparr>JER_Validation := Some balance\<rparr>
      else if t = flips then res\<lparr>JER_Flips := Some balance\<rparr>
      else if t = invitations then res\<lparr>JER_Invitations := Some balance\<rparr>
      else if t = invitations2 then res\<lparr>JER_Invitations2 := Some balance\<rparr>
      else if t = invitations3 then res\<lparr>JER_Invitations3 := Some balance\<rparr>
      else if t = savedInvite then res\<lparr>JER_SavedInvites := Some balance\<rparr>
      else if t = savedInviteWin then res\<lparr>JER_SavedInvitesWin := Some balance\<rparr>
      else if t = reportedFlips then res\<lparr>JER_Reports := Some balance\<rparr>
      else if t = candidate then res\<lparr>JER_Candidate := Some balance\<rparr>
      else if t = staking then res\<lparr>JER_Staking := Some balance\<rparr>
      else if t = extraFlips then res\<lparr>JER_ExtraFlips := Some balance\<rparr>
      else if t = invitee1 then res\<lparr>JER_Invitee1 := Some balance\<rparr>
      else if t = invitee2 then res\<lparr>JER_Invitee2 := Some balance\<rparr>
      else if t = invitee3 then res\<lparr>JER_Invitee3 := Some balance\<rparr>
      else res)"

definition noEpochReward :: delegationEpochReward where
  "noEpochReward = \<lparr>JER_Total = 0, JER_Validation = None, JER_Flips = None, JER_Invitations = None, JER_Invitations2 = None,
     JER_Invitations3 = None, JER_SavedInvites = None, JER_SavedInvitesWin = None, JER_Reports = None, JER_Candidate = None,
     JER_Staking = None, JER_ExtraFlips = None, JER_Invitee1 = None, JER_Invitee2 = None, JER_Invitee3 = None\<rparr>"

text \<open>A balance that is nil cannot be added to the total.\<close>

fun epochRewardLoop :: "ext \<Rightarrow> DelegationEpochReward list \<Rightarrow> int \<times> delegationEpochReward \<Rightarrow> (int \<times> delegationEpochReward) option" where
  "epochRewardLoop e [] acc = Some acc"
| "epochRewardLoop e (item # items) (tot, res) = (case DER_Balance item of
       None \<Rightarrow> None
     | Some n \<Rightarrow> epochRewardLoop e items (tot + n, setEpochReward (DER_Type item) (X_convertToFloat e (Some n)) res))"

definition convertDelegationEpochRewards :: "ext \<Rightarrow> DelegationEpochReward list \<Rightarrow> delegationEpochReward option" where
  "convertDelegationEpochRewards e items =
     (if items = [] then Some noEpochReward
      else map_option (\<lambda>(tot, res). res\<lparr>JER_Total := X_convertToFloat e (Some tot)\<rparr>) (epochRewardLoop e items (0, noEpochReward)))"

definition epochRewardJson :: "db_env \<Rightarrow> delegationEpochReward \<Rightarrow> json" where
  "epochRewardJson d v = JObj ((''total'', jDecimal d (JER_Total v)) #
     omitNil ''validation'' (jDecimal d) (JER_Validation v) @ omitNil ''flips'' (jDecimal d) (JER_Flips v) @
     omitNil ''invitations'' (jDecimal d) (JER_Invitations v) @ omitNil ''invitations2'' (jDecimal d) (JER_Invitations2 v) @
     omitNil ''invitations3'' (jDecimal d) (JER_Invitations3 v) @ omitNil ''savedInvites'' (jDecimal d) (JER_SavedInvites v) @
     omitNil ''savedInvitesWin'' (jDecimal d) (JER_SavedInvitesWin v) @ omitNil ''reports'' (jDecimal d) (JER_Reports v) @
     omitNil ''candidate'' (jDecimal d) (JER_Candidate v) @ omitNil ''staking'' (jDecimal d) (JER_Staking v) @
     omitNil ''extraFlips'' (jDecimal d) (JER_ExtraFlips v) @ omitNil ''invitee1'' (jDecimal d) (JER_Invitee1 v) @
     omitNil ''invitee2'' (jDecimal d) (JER_Invitee2 v) @ omitNil ''invitee3'' (jDecimal d) (JER_Invitee3 v))"

record delegatorEpochReward =
  JDr_Address :: string
  JDr_TotalReward :: delegationEpochReward

record delegateeEpochRewards =
  JDe_Address :: string
  JDe_TotalReward :: delegationEpochReward
  JDe_DelegatorRewards :: "delegatorEpochReward list"
  JDe_PenalizedDelegators :: uint32

record rewardBounds =
  JRB_BoundType :: byte
  JRB_MinAmount :: decimal
  JRB_MinAddress :: string
  JRB_MaxAmount :: decimal
  JRB_MaxAddress :: string

record validationRewardSummary =
  JVS_Earned :: decimal
  JVS_Missed :: decimal
  JVS_MissedReason :: "byte option"

record validationRewardSummaries =
  JVSs_Address :: string
  JVSs_PrevStake :: decimal
  JVSs_Validation :: validationRewardSummary
  JVSs_Candidate :: validationRewardSummary
  JVSs_Staking :: validationRewardSummary
  JVSs_Flips :: validationRewardSummary
  JVSs_ExtraFlips :: validationRewardSummary
  JVSs_Invitations :: validationRewardSummary
  JVSs_Reports :: validationRewardSummary
  JVSs_Invitee :: validationRewardSummary

record epochResultData =
  JEd_FlipStatuses :: "FlipStatusCount list"
  JEd_RewardsBounds :: "rewardBounds list"
  JEd_ReportedFlips :: uint32
  JEd_DelegateesEpochRewards :: "delegateeEpochRewards list"
  JEd_ValidationRewardsSummaries :: "validationRewardSummaries list"
  JEd_PoolSizeChanges :: "PoolSizeChange list"

definition convertValidationRewardSummary :: "ext \<Rightarrow> ValidationRewardSummary \<Rightarrow> validationRewardSummary" where
  "convertValidationRewardSummary e v = \<lparr>JVS_Earned = X_convertToFloat e (VRS_Earned v), JVS_Missed = X_convertToFloat e (VRS_Missed v),
     JVS_MissedReason = VRS_MissedReason v\<rparr>"

text \<open>A bound without its minimum or maximum is dereferenced.\<close>

definition convertRewardBounds :: "db_env \<Rightarrow> RewardBounds \<Rightarrow> rewardBounds option" where
  "convertRewardBounds d b = do {
     lo \<leftarrow> RBs_Min b;
     hi \<leftarrow> RBs_Max b;
     Some \<lparr>JRB_BoundType = RBs_Type b, JRB_MinAmount = X_convertToFloat (DE_ext d) (RB_Amount lo), JRB_MinAddress = addrText d (RB_Address lo),
        JRB_MaxAmount = X_convertToFloat (DE_ext d) (RB_Amount hi), JRB_MaxAddress = addrText d (RB_Address hi)\<rparr> }"

definition convertDelegatorReward :: "db_env \<Rightarrow> DelegatorEpochReward \<Rightarrow> delegatorEpochReward option" where
  "convertDelegatorReward d item = map_option (\<lambda>r. \<lparr>JDr_Address = addrText d (DrER_Address item), JDr_TotalReward = r\<rparr>)
     (convertDelegationEpochRewards (DE_ext d) (DrER_TotalRewards item))"

definition convertDelegateeReward :: "db_env \<Rightarrow> DelegateeEpochRewards \<Rightarrow> delegateeEpochRewards option" where
  "convertDelegateeReward d item = do {
     tot \<leftarrow> convertDelegationEpochRewards (DE_ext d) (DeER_TotalRewards item);
     delegators \<leftarrow> those (map (convertDelegatorReward d) (DeER_DelegatorRewards item));
     Some \<lparr>JDe_Address = addrText d (DeER_Address item), JDe_TotalReward = tot, JDe_DelegatorRewards = delegators,
        JDe_PenalizedDelegators = DeER_PenalizedDelegators item\<rparr> }"

definition convertSummaries :: "ext \<Rightarrow> ValidationRewardSummaries \<Rightarrow> validationRewardSummaries" where
  "convertSummaries e v = \<lparr>JVSs_Address = VRSs_Address v, JVSs_PrevStake = X_convertToFloat e (VRSs_PrevStake v),
     JVSs_Validation = convertValidationRewardSummary e (VRSs_Validation v),
     JVSs_Candidate = convertValidationRewardSummary e (VRSs_Candidate v),
     JVSs_Staking = convertValidationRewardSummary e (VRSs_Staking v),
     JVSs_Flips = convertValidationRewardSummary e (VRSs_Flips v),
     JVSs_ExtraFlips = convertValidationRewardSummary e (VRSs_ExtraFlips v),
     JVSs_Invitations = convertValidationRewardSummary e (VRSs_Invitations v),
     JVSs_Reports = convertValidationRewardSummary e (VRSs_Reports v),
     JVSs_Invitee = convertValidationRewardSummary e (VRSs_Invitee v)\<rparr>"

definition getEpochResultData :: "db_env \<Rightarrow> EpochResult \<Rightarrow> epochResultData option" where
  "getEpochResultData d r = do {
     bounds \<leftarrow> those (map (convertRewardBounds d) (Res_RewardsBounds r));
     delegatees \<leftarrow> those (map (convertDelegateeReward d) (Res_DelegateesEpochRewards r));
     Some \<lparr>JEd_FlipStatuses = Res_FlipStatuses r, JEd_RewardsBounds = bounds, JEd_ReportedFlips = Res_ReportedFlips r,
        JEd_DelegateesEpochRewards = delegatees,
        JEd_ValidationRewardsSummaries = map (convertSummaries (DE_ext d)) (Res_ValidationRewardSummaries r),
        JEd_PoolSizeChanges = Res_PoolSizeChanges r\<rparr> }"

definition statusJson :: "FlipStatusCount \<Rightarrow> json" where
  "statusJson v = JObj [(''status'', jWord (FSC_Status v)), (''count'', jWord (FSC_Count v))]"

definition boundsJson :: "db_env \<Rightarrow> rewardBounds \<Rightarrow> json" where
  "boundsJson d v = JObj [(''boundType'', jWord (JRB_BoundType v)), (''minAmount'', jDecimal d (JRB_MinAmount v)),
     (''minAddress'', JStr (JRB_MinAddress v)), (''maxAmount'', jDecimal d (JRB_MaxAmount v)), (''maxAddress'', JStr (JRB_MaxAddress v))]"

definition delegatorJson :: "db_env \<Rightarrow> delegatorEpochReward \<Rightarrow> json" where
  "delegatorJson d v = JObj [(''address'', JStr (JDr_Address v)), (''totalReward'', epochRewardJson d (JDr_TotalReward v))]"

definition delegateeJson :: "db_env \<Rightarrow> delegateeEpochRewards \<Rightarrow> json" where
  "delegateeJson d v = JObj ([(''address'', JStr (JDe_Address v)), (''totalReward'', epochRewardJson d (JDe_TotalReward v))] @
     omitEmpty ''delegatorRewards'' (delegatorJson d) (JDe_DelegatorRewards v) @
     [(''penalizedDelegators'', jWord (JDe_PenalizedDelegators v))])"

definition summaryJson :: "db_env \<Rightarrow> validationRewardSummary \<Rightarrow> json" where
  "summaryJson d v = JObj ([(''earned'', jDecimal d (JVS_Earned v)), (''missed'', jDecimal d (JVS_Missed v))] @
     omitNil ''missedReason'' jWord (JVS_MissedReason v))"

definition summariesJson :: "db_env \<Rightarrow> validationRewardSummaries \<Rightarrow> json" where
  "summariesJson d v = JObj [(''address'', JStr (JVSs_Address v)), (''prevStake'', jDecimal d (JVSs_PrevStake v)),
     (''validation'', summaryJson d (JVSs_Validation v)), (''candidate'', summaryJson d (JVSs_Candidate v)),
     (''staking'', summaryJson d (JVSs_Staking v)), (''flips'', summaryJson d (JVSs_Flips v)),
     (''extraFlips'', summaryJson d (JVSs_ExtraFlips v)), (''invitations'', summaryJson d (JVSs_Invitations v)),
     (''reports'', summaryJson d (JVSs_Reports v)), (''invitee'', summaryJson d (JVSs_Invitee v))]"

text \<open>The address of a pool size has no tag in \<open>src/db/types.go\<close>, its key is the name of the field.\<close>

definition poolSizeRowJson :: "db_env \<Rightarrow> PoolSize \<Rightarrow> json" where
  "poolSizeRowJson d v = JObj [(''Address'', jAddr d (PS_Address v)), (''size'', jWord (PS_Size v)), (''totalDelegated'', jWord (PS_TotalDelegated v))]"

definition sizeChangeJson :: "db_env \<Rightarrow> PoolSizeChange \<Rightarrow> json" where
  "sizeChangeJson d v = JObj [(''address'', jAddr d (PSC_Address v)), (''old'', poolSizeRowJson d (PSC_Old v)), (''new'', poolSizeRowJson d (PSC_New v))]"

definition epochResultData_Value :: "db_env \<Rightarrow> epochResultData \<Rightarrow> json" where
  "epochResultData_Value d v = JObj (omitEmpty ''flipStatuses'' statusJson (JEd_FlipStatuses v) @
     omitEmpty ''rewardsBounds'' (boundsJson d) (JEd_RewardsBounds v) @ [(''reportedFlips'', jWord (JEd_ReportedFlips v))] @
     omitEmpty ''delegateeEpochRewards'' (delegateeJson d) (JEd_DelegateesEpochRewards v) @
     omitEmpty ''validationRewardsSummaries'' (summariesJson d) (JEd_ValidationRewardsSummaries v) @
     omitEmpty ''poolSizeChanges'' (sizeChangeJson d) (JEd_PoolSizeChanges v))"

section \<open>Restored data, upgrades and mem-pool data\<close>

record delegation =
  JDel_Delegator :: string
  JDel_Delegatee :: string
  JDel_BirthEpoch :: "uint16 option"

record restoredData =
  JRD_PoolSizes :: "poolSize list"
  JRD_Delegations :: "delegation list"

definition getRestoredData :: "db_env \<Rightarrow> RestoredData option \<Rightarrow> restoredData option" where
  "getRestoredData d v = map_option (\<lambda>data.
     \<lparr>JRD_PoolSizes = map (\<lambda>p. \<lparr>JPS_Address = addrText d (PS_Address p), JPS_Size = PS_Size p,
         JPS_TotalDelegated = PS_TotalDelegated p\<rparr>) (RsD_PoolSizes data),
      JRD_Delegations = map (\<lambda>x. \<lparr>JDel_Delegator = addrText d (De_Delegator x), JDel_Delegatee = addrText d (De_Delegatee x),
         JDel_BirthEpoch = De_BirthEpoch x\<rparr>) (RsD_Delegations data)\<rparr>) v"

definition delegationJson :: "delegation \<Rightarrow> json" where
  "delegationJson v = JObj ([(''delegator'', JStr (JDel_Delegator v)), (''delegatee'', JStr (JDel_Delegatee v))] @
     omitNil ''birthEpoch'' jWord (JDel_BirthEpoch v))"

definition restoredData_Value :: "restoredData option \<Rightarrow> json" where
  "restoredData_Value v = jOption (\<lambda>r. JObj (omitEmpty ''poolSizes'' poolSizeJson (JRD_PoolSizes r) @
     omitEmpty ''delegations'' delegationJson (JRD_Delegations r))) v"

definition upgradeVotingShortHistoryData_Value :: "uint32 \<Rightarrow> UpgradeHistoryItem list \<Rightarrow> uint32 \<Rightarrow> uint64 \<Rightarrow> json" where
  "upgradeVotingShortHistoryData_Value upgrade history lastStep lastHeight =
     JObj ([(''upgrade'', jWord upgrade), (''lastHeight'', jWord lastHeight), (''lastStep'', jWord lastStep)] @
       omitEmpty ''history'' (\<lambda>item. JObj [(''blockHeight'', jWord (UHI_BlockHeight item)), (''votes'', jWord (UHI_Votes item))]) history)"

definition upgradesData_Value :: "Upgrade list \<Rightarrow> json" where
  "upgradesData_Value upgrades = JObj [(''upgrades'', JArr (map (\<lambda>u. JObj [(''upgrade'', jWord (Up_Upgrade u)),
     (''startActivationDate'', jInt (Up_StartActivationDate u)), (''endActivationDate'', jInt (Up_EndActivationDate u))]) upgrades))]"

definition timestampJson :: "MemPoolActionTimestamp \<Rightarrow> json" where
  "timestampJson v = JObj [(''address'', JStr (MPT_Address v)), (''epoch'', jWord (MPT_Epoch v)), (''timestamp'', jInt (MPT_Time v))]"

definition MemPoolData_Value :: "MemPoolData \<Rightarrow> json" where
  "MemPoolData_Value v = JObj (
     omitEmpty ''flipPrivateKeysPackageTimestamps'' timestampJson (MPD_FlipPrivateKeysPackageTimestamps v) @
     omitEmpty ''flipKeyTimestamps'' timestampJson (MPD_FlipKeyTimestamps v) @
     omitEmpty ''answersHashTxTimestamps'' timestampJson (MPD_AnswersHashTxTimestamps v) @
     omitEmpty ''shortAnswersTxTimestamps'' timestampJson (MPD_ShortAnswersTxTimestamps v))"

section \<open>Orders of a flip\<close>

lemma orderLoop_rest:
  assumes "i = length orders" "done \<noteq> []"
  shows "orderLoop i n (length done) rest (orders @ [map uint done @ replicate (length rest) 0]) =
    Some (orders @ [map uint (done @ rest)])"
  using assms(2)
proof (induction rest arbitrary: "done")
  case (Cons order rest)
  have "(map uint done @ replicate (length (order # rest)) 0)[length done := uint order] =
      map uint (done @ [order]) @ replicate (length rest) 0"
    by (simp add: list_update_append)
  then show ?case
    using Cons.IH [of "done @ [order]"] Cons.prems assms(1) by (simp add: nth_append list_update_append)
qed simp

lemma orderLoop_row:
  assumes "row \<noteq> []" "length orders \<le> i"
  shows "orderLoop i (length row) 0 row orders = (if i = length orders then Some (orders @ [map uint row]) else None)"
proof (cases row)
  case (Cons order rest)
  show ?thesis
  proof (cases "i = length orders")
    case True
    have "orders @ [replicate (length row) 0] = orders @ [0 # replicate (length rest) 0]" using Cons by simp
    then show ?thesis
      using orderLoop_rest [OF True, of "[order]" "length row" rest] True Cons by simp
  next
    case False
    then show ?thesis using assms(2) Cons by simp
  qed
qed (use assms in simp)

definition trailingEmpty :: "'a list list \<Rightarrow> bool" where
  "trailingEmpty rows \<longleftrightarrow> concat (dropWhile (\<lambda>r. r \<noteq> []) rows) = []"

lemma ordersLoop_behind:
  "length orders < i \<Longrightarrow> ordersLoop i rows orders = (if concat rows = [] then Some orders else None)"
proof (induction rows arbitrary: i)
  case (Cons row rows)
  then show ?case using orderLoop_row [of row orders i] by (cases "row = []") (auto simp del: concat_eq_Nil_conv)
qed simp

lemma ordersLoop_rows:
  "ordersLoop (length orders) rows orders =
     (if trailingEmpty rows then Some (orders @ map (map uint) (takeWhile (\<lambda>r. r \<noteq> []) rows)) else None)"
proof (induction rows arbitrary: orders)
  case (Cons row rows)
  show ?case
  proof (cases "row = []")
    case True
    then show ?thesis
      using ordersLoop_behind [of orders "Suc (length orders)" rows]
      by (simp add: trailingEmpty_def del: concat_eq_Nil_conv)
  next
    case False
    have t: "trailingEmpty (row # rows) = trailingEmpty rows" using False by (simp add: trailingEmpty_def)
    have "orderLoop (length orders) (length row) 0 row orders = Some (orders @ [map uint row])"
      using orderLoop_row [OF False, of orders "length orders"] by simp
    then show ?thesis using t False Cons.IH [of "orders @ [map uint row]"] by simp
  qed
qed (simp add: trailingEmpty_def)

text \<open>C30: The content of a flip is written to the database with its orders exactly when no order with an
  element comes after an empty one; otherwise the conversion panics with an index out of range. The
  written orders are those before the first empty one.\<close>

theorem flip_content_panics_iff:
  "convertFlipContent v =
    (if trailingEmpty (FC_Orders v)
     then Some \<lparr>JFlip_Cid = FC_Cid v, JFlip_Pics = FC_Pics v,
       JFlip_Orders = map (map uint) (takeWhile (\<lambda>r. r \<noteq> []) (FC_Orders v)), JFlip_Icon = FC_Icon v\<rparr>
     else None)"
proof -
  have "ordersLoop 0 (FC_Orders v) [] =
      (if trailingEmpty (FC_Orders v) then Some (map (map uint) (takeWhile (\<lambda>r. r \<noteq> []) (FC_Orders v))) else None)"
    using ordersLoop_rows [of "[]" "FC_Orders v"] by (simp only: list.size append_Nil)
  then show ?thesis by (simp add: convertFlipContent_def del: takeWhile_eq_Nil_iff)
qed

section \<open>Rewards of a pool\<close>

text \<open>The field of each type of reward, by the names of the type and of the field.\<close>

fun epochField :: "RewardType \<Rightarrow> delegationEpochReward \<Rightarrow> decimal option" where
  "epochField RtValidation r = JER_Validation r"
| "epochField RtFlips r = JER_Flips r"
| "epochField RtInvitations r = JER_Invitations r"
| "epochField RtInvitations2 r = JER_Invitations2 r"
| "epochField RtInvitations3 r = JER_Invitations3 r"
| "epochField RtSavedInvite r = JER_SavedInvites r"
| "epochField RtSavedInviteWin r = JER_SavedInvitesWin r"
| "epochField RtReportedFlips r = JER_Reports r"
| "epochField RtStaking r = JER_Staking r"
| "epochField RtCandidate r = JER_Candidate r"
| "epochField RtExtraFlips r = JER_ExtraFlips r"
| "epochField RtInvitee1 r = JER_Invitee1 r"
| "epochField RtInvitee2 r = JER_Invitee2 r"
| "epochField RtInvitee3 r = JER_Invitee3 r"
| "epochField RtFoundationPayouts r = None"
| "epochField RtZeroWalletFund r = None"

lemma epochField_set:
  "epochField t (setEpochReward (convertRewardType s) b r) =
     (if s = t \<and> \<not> fundReward t then Some b else epochField t r)"
  by (cases s; cases t; simp add: setEpochReward_def fundReward_def)

lemma epochField_total [simp]: "epochField t (r\<lparr>JER_Total := x\<rparr>) = epochField t r"
  by (cases t) simp_all

lemma epochField_none [simp]: "epochField t noEpochReward = None"
  by (cases t) (simp_all add: noEpochReward_def)

lemma epochRewardLoop_rows:
  assumes "distinct (map fst xs)"
  shows "\<exists>r. epochRewardLoop e (map convertDelegationEpochReward xs) (tot, res) =
      Some (tot + (\<Sum>(t, er) \<leftarrow> xs. ER_Balance er), r) \<and>
    (\<forall>t. epochField t r = (case map_of xs t of
        Some er \<Rightarrow> if fundReward t then epochField t res else Some (X_convertToFloat e (Some (ER_Balance er)))
      | None \<Rightarrow> epochField t res))"
  using assms
proof (induction xs arbitrary: tot res)
  case (Cons x xs)
  obtain s er where x: "x = (s, er)" by fastforce
  have n: "map_of xs s = None" using Cons.prems x by (simp add: map_of_eq_None_iff)
  obtain r where r: "epochRewardLoop e (map convertDelegationEpochReward xs)
        (tot + ER_Balance er, setEpochReward (convertRewardType s) (X_convertToFloat e (Some (ER_Balance er))) res) =
      Some (tot + ER_Balance er + (\<Sum>(t, er) \<leftarrow> xs. ER_Balance er), r)"
    and f: "\<forall>t. epochField t r = (case map_of xs t of
        Some er' \<Rightarrow> if fundReward t then epochField t (setEpochReward (convertRewardType s) (X_convertToFloat e (Some (ER_Balance er))) res)
          else Some (X_convertToFloat e (Some (ER_Balance er')))
      | None \<Rightarrow> epochField t (setEpochReward (convertRewardType s) (X_convertToFloat e (Some (ER_Balance er))) res))"
    using Cons.IH [of "tot + ER_Balance er" "setEpochReward (convertRewardType s) (X_convertToFloat e (Some (ER_Balance er))) res"]
      Cons.prems by auto
  show ?case
    using r f n by (intro exI [of _ r]) (auto simp: x convertDelegationEpochReward_def epochField_set split: option.split)
qed simp

text \<open>The object of a pool's or a delegator's rewards has exactly the rewards it was made of: every type
  with a reward is in the field of its own, no other field is present, and the total is the sum of all
  balances. The conversion does not panic.\<close>

theorem pool_reward_object_exact:
  assumes "enumerates m (It_rewardTypes it m)"
  shows "\<exists>r. convertDelegationEpochRewards e (map convertDelegationEpochReward (It_rewardTypes it m)) = Some r \<and>
    (\<forall>t. \<not> fundReward t \<longrightarrow> epochField t r = map_option (\<lambda>er. X_convertToFloat e (Some (ER_Balance er))) (m t)) \<and>
    JER_Total r = (if m = Map.empty then 0 else X_convertToFloat e (Some (\<Sum>t \<in> dom m. ER_Balance (the (m t)))))"
proof -
  let ?xs = "It_rewardTypes it m"
  have m: "map_of ?xs = m" "distinct (map fst ?xs)" using assms by (simp_all add: enumerates_def)
  have sum: "(\<Sum>(t, er) \<leftarrow> ?xs. ER_Balance er) = (\<Sum>t \<in> dom m. ER_Balance (the (m t)))"
  proof -
    have "map (\<lambda>(t, er). ER_Balance er) ?xs = map (\<lambda>x. ER_Balance (the (m (fst x)))) ?xs"
      using map_of_eq_Some_iff [OF m(2), unfolded m(1), THEN iffD2] by fastforce
    then show ?thesis
      by (rule arg_cong [of _ _ sum_list, THEN trans]) (rule sum_list_enumerates [OF assms])
  qed
  obtain r where r: "epochRewardLoop e (map convertDelegationEpochReward ?xs) (0, noEpochReward) =
      Some ((\<Sum>(t, er) \<leftarrow> ?xs. ER_Balance er), r)"
    "\<forall>t. epochField t r = (case m t of
        Some er \<Rightarrow> if fundReward t then epochField t noEpochReward else Some (X_convertToFloat e (Some (ER_Balance er)))
      | None \<Rightarrow> epochField t noEpochReward)"
    using epochRewardLoop_rows [OF m(2), of e 0 noEpochReward] m(1) by auto
  show ?thesis
  proof (cases "?xs = []")
    case True
    then have "m = Map.empty" using m(1) by simp
    then show ?thesis using True by (simp add: convertDelegationEpochRewards_def noEpochReward_def [THEN arg_cong, of JER_Total])
  next
    case False
    then have "m \<noteq> Map.empty" using m(1) by (cases ?xs) auto
    then show ?thesis using False r sum by (simp add: convertDelegationEpochRewards_def split: option.split)
  qed
qed

theorem pool_reward_object_exact_witness:
  "\<exists>r. convertDelegationEpochRewards sampleExt (map convertDelegationEpochReward
      (It_rewardTypes sampleIteration [RtFlips \<mapsto> \<lparr>ER_Balance = 7, ER_Stake = 1\<rparr>])) = Some r \<and> JER_Flips r = Some 7 \<and>
      JER_Staking r = None \<and> JER_Total r = 7"
proof -
  have "enumerates [RtFlips \<mapsto> \<lparr>ER_Balance = 7, ER_Stake = 1\<rparr>]
      (It_rewardTypes sampleIteration [RtFlips \<mapsto> \<lparr>ER_Balance = 7, ER_Stake = 1\<rparr>])"
    by (auto simp: enumerates_def sampleIteration_def listing_def)
  from pool_reward_object_exact [OF this, of sampleExt]
  obtain r where r: "convertDelegationEpochRewards sampleExt (map convertDelegationEpochReward
      (It_rewardTypes sampleIteration [RtFlips \<mapsto> \<lparr>ER_Balance = 7, ER_Stake = 1\<rparr>])) = Some r"
    "\<forall>t. \<not> fundReward t \<longrightarrow> epochField t r = map_option (\<lambda>er. X_convertToFloat sampleExt (Some (ER_Balance er)))
       ([RtFlips \<mapsto> \<lparr>ER_Balance = 7, ER_Stake = 1\<rparr>] t)" "JER_Total r = 7"
    by (auto simp: sampleExt_def)
  show ?thesis using r(1,3) r(2) [rule_format, of RtFlips] r(2) [rule_format, of RtStaking]
    by (intro exI [of _ r]) (simp add: fundReward_def sampleExt_def)
qed

end
