(* ===== verification/Db_Arrays.thy ===== *)
theory Db_Arrays
  imports Db_Rows
begin

text \<open>
  The arrays of \<open>src/db/postgres_types.go\<close>: structs and functions that turn the maps and nested lists
  of a block or an epoch into lists of rows. A map that is ranged over is given as the list of its
  entries in the order of the iteration. \<open>go_error\<close> are the errors of the database layer with the
  wrapping of \<open>github.com/pkg/errors\<close>.
\<close>

section \<open>Errors\<close>

text \<open>The fields of \<open>pq.Error\<close> that are printed.\<close>

record pq_error =
  PE_Severity :: string
  PE_Code :: string
  PE_Message :: string
  PE_Detail :: string
  PE_Hint :: string
  PE_Position :: string
  PE_InternalPosition :: string
  PE_InternalQuery :: string
  PE_Where :: string
  PE_Schema :: string
  PE_Table :: string
  PE_Column :: string
  PE_DataTypeName :: string
  PE_Constraint :: string
  PE_File :: string
  PE_Line :: string
  PE_Routine :: string

datatype go_error = PgError pq_error | TextError string | WrapError string go_error

fun errorText :: "go_error \<Rightarrow> string" where
  "errorText (PgError e) = ''pq: '' @ PE_Message e"
| "errorText (TextError s) = s"
| "errorText (WrapError s e) = s @ '': '' @ errorText e"

fun errorCause :: "go_error \<Rightarrow> go_error" where
  "errorCause (WrapError s e) = errorCause e"
| "errorCause e = e"

section \<open>Burnt coins\<close>

text \<open>\<open>getTxId\<close> is the lookup of \<open>context.txId\<close>, an argument of the value.\<close>

record postgresAddrBurntCoins =
  PBC_coins :: BurntCoins
  PBC_address :: string

definition postgresAddrBurntCoins_Value :: "db_env \<Rightarrow> (string \<Rightarrow> go_error + int) \<Rightarrow> postgresAddrBurntCoins \<Rightarrow> go_error + string" where
  "postgresAddrBurntCoins_Value d getTxId v =
     (case (if BC_TxHash (PBC_coins v) \<noteq> [] then getTxId (BC_TxHash (PBC_coins v)) else Inr 0) of
        Inl err \<Rightarrow> Inl (WrapError ''unable to create db value'' err)
      | Inr txId \<Rightarrow> Inr (rowText [PBC_address v, DE_decimal d (BC_Amount (PBC_coins v)), showWord (BC_Reason (PBC_coins v)), showInt txId]))"

definition getPostgresBurntCoins :: "db_env \<Rightarrow> (address \<times> BurntCoins list) list \<Rightarrow> postgresAddrBurntCoins list" where
  "getPostgresBurntCoins d v = concat (map (\<lambda>(addr, coins). map (\<lambda>(i, c).
     \<lparr>PBC_coins = c, PBC_address = (if i = 0 then addrText d addr else [])\<rparr>) (enumerate 0 coins)) v)"

section \<open>Addresses\<close>

record postgresAddress =
  PA_address :: string
  PA_isTemporary :: bool

record postgresAddressStateChange =
  PAS_address :: string
  PAS_newState :: byte
  PAS_txHash :: string

definition postgresAddress_Value :: "postgresAddress \<Rightarrow> string" where
  "postgresAddress_Value v = rowText [PA_address v, showBool (PA_isTemporary v)]"

definition postgresAddressStateChange_Value :: "postgresAddressStateChange \<Rightarrow> string" where
  "postgresAddressStateChange_Value v = rowText [PAS_address v, showWord (PAS_newState v), PAS_txHash v]"

definition getPostgresAddressesAndAddressStateChangesArrays ::
    "DbAddress list \<Rightarrow> postgresAddress list \<times> postgresAddressStateChange list" where
  "getPostgresAddressesAndAddressStateChangesArrays addresses =
     (map (\<lambda>a. \<lparr>PA_address = DA_Address a, PA_isTemporary = DA_IsTemporary a\<rparr>) addresses,
      concat (map (\<lambda>a. map (\<lambda>c. \<lparr>PAS_address = DA_Address a, PAS_newState = ASC_NewState c, PAS_txHash = ASC_TxHash c\<rparr>)
        (DA_StateChanges a)) addresses))"

section \<open>Flips and answers\<close>

record postgresAnswer =
  PAn_flipCid :: string
  PAn_address :: string
  PAn_isShort :: bool
  PAn_answer :: byte
  PAn_point :: float32
  PAn_grade :: byte
  PAn_index :: uint16
  PAn_considered :: bool

definition postgresAnswer_Value :: "db_env \<Rightarrow> postgresAnswer \<Rightarrow> string" where
  "postgresAnswer_Value d v = rowText [PAn_flipCid v, PAn_address v, showBool (PAn_isShort v), showWord (PAn_answer v),
     DE_float32 d (PAn_point v), showWord (PAn_grade v), showWord (PAn_index v), showBool (PAn_considered v)]"

record postgresFlipsState =
  PFS_flipCid :: string
  PFS_answer :: byte
  PFS_status :: byte
  PFS_grade :: byte
  PFS_gradeScore :: float32

definition postgresFlipsState_Value :: "db_env \<Rightarrow> postgresFlipsState \<Rightarrow> string" where
  "postgresFlipsState_Value d v = rowText [PFS_flipCid v, showWord (PFS_answer v), showWord (PFS_status v),
     showWord (PFS_grade v), DE_float32 d (PFS_gradeScore v)]"

text \<open>A \<open>map[string]int\<close> that is incremented and looked up has zero for a missing key.\<close>

type_synonym counts = "string \<Rightarrow> int"

definition increment :: "string \<Rightarrow> counts \<Rightarrow> counts" where
  "increment k m = m(k := m k + 1)"

record flip_arrays =
  FA_answers :: "postgresAnswer list"
  FA_states :: "postgresFlipsState list"
  FA_shortCounts :: counts
  FA_longCounts :: counts
  FA_wrongWords :: counts

definition convertAnswer :: "bool \<Rightarrow> string \<Rightarrow> Answer \<Rightarrow> postgresAnswer" where
  "convertAnswer isShort flipCid a = \<lparr>PAn_flipCid = flipCid, PAn_address = An_Address a, PAn_isShort = isShort,
     PAn_answer = An_Answer a, PAn_point = An_Point a, PAn_grade = An_Grade a, PAn_index = An_Index a,
     PAn_considered = An_Considered a\<rparr>"

definition addShortAnswer :: "string \<Rightarrow> Answer \<Rightarrow> flip_arrays \<Rightarrow> flip_arrays" where
  "addShortAnswer cid a acc = acc\<lparr>FA_answers := FA_answers acc @ [convertAnswer True cid a],
     FA_shortCounts := increment (An_Address a) (FA_shortCounts acc)\<rparr>"

definition addLongAnswer :: "string \<Rightarrow> Answer \<Rightarrow> flip_arrays \<Rightarrow> flip_arrays" where
  "addLongAnswer cid a acc = acc\<lparr>FA_answers := FA_answers acc @ [convertAnswer False cid a],
     FA_longCounts := increment (An_Address a) (FA_longCounts acc)\<rparr>"

abbreviation gradeReported :: byte where "gradeReported \<equiv> 1"

definition flipStatsStep :: "ext \<Rightarrow> FlipStats \<Rightarrow> flip_arrays \<Rightarrow> flip_arrays" where
  "flipStatsStep e s acc =
     (let acc1 = fold (addLongAnswer (FS_Cid s)) (FS_LongAnswers s) (fold (addShortAnswer (FS_Cid s)) (FS_ShortAnswers s) acc);
          acc2 = acc1\<lparr>FA_states := FA_states acc1 @ [\<lparr>PFS_flipCid = FS_Cid s, PFS_answer = FS_Answer s, PFS_status = FS_Status s,
            PFS_grade = FS_Grade s, PFS_gradeScore = X_f32 e (X_f64 e (FS_GradeScore s))\<rparr>]\<rparr>
      in if FS_Grade s = gradeReported then acc2\<lparr>FA_wrongWords := increment (FS_Author s) (FA_wrongWords acc2)\<rparr> else acc2)"

definition getFlipStatsArrays :: "ext \<Rightarrow> FlipStats list \<Rightarrow> flip_arrays" where
  "getFlipStatsArrays e flipStats = fold (flipStatsStep e) flipStats
     \<lparr>FA_answers = [], FA_states = [], FA_shortCounts = (\<lambda>_. 0), FA_longCounts = (\<lambda>_. 0), FA_wrongWords = (\<lambda>_. 0)\<rparr>"

section \<open>Identities of an epoch\<close>

record postgresEpochIdentity =
  PEI_address :: string
  PEI_state :: byte
  PEI_shortPoint :: float32
  PEI_shortFlips :: uint32
  PEI_totalShortPoint :: float32
  PEI_totalShortFlips :: uint32
  PEI_longPoint :: float32
  PEI_longFlips :: uint32
  PEI_approved :: bool
  PEI_missed :: bool
  PEI_requiredFlips :: byte
  PEI_availableFlips :: byte
  PEI_madeFlips :: byte
  PEI_nextEpochInvites :: byte
  PEI_birthEpoch :: uint64
  PEI_shortAnswers :: uint32
  PEI_longAnswers :: uint32
  PEI_wrongWordsFlips :: byte
  PEI_delegateeAddress :: string
  PEI_shardId :: uint32
  PEI_newShardId :: uint32
  PEI_wrongGradeReason :: uint32

definition postgresEpochIdentity_Value :: "db_env \<Rightarrow> postgresEpochIdentity \<Rightarrow> string" where
  "postgresEpochIdentity_Value d v = rowText [PEI_address v, showWord (PEI_state v), DE_float32 d (PEI_shortPoint v),
     showWord (PEI_shortFlips v), DE_float32 d (PEI_totalShortPoint v), showWord (PEI_totalShortFlips v),
     DE_float32 d (PEI_longPoint v), showWord (PEI_longFlips v), showBool (PEI_approved v), showBool (PEI_missed v),
     showWord (PEI_requiredFlips v), showWord (PEI_availableFlips v), showWord (PEI_madeFlips v),
     showWord (PEI_nextEpochInvites v), showWord (PEI_birthEpoch v), showWord (PEI_shortAnswers v),
     showWord (PEI_longAnswers v), showWord (PEI_wrongWordsFlips v), PEI_delegateeAddress v, showWord (PEI_shardId v),
     showWord (PEI_newShardId v), showWord (PEI_wrongGradeReason v)]"

record postgresFlipToSolve =
  PFT_address :: string
  PFT_cid :: string
  PFT_isShort :: bool
  PFT_index :: uint16

definition postgresFlipToSolve_Value :: "postgresFlipToSolve \<Rightarrow> string" where
  "postgresFlipToSolve_Value v = rowText [PFT_address v, PFT_cid v, showBool (PFT_isShort v), showWord (PFT_index v)]"

definition convertFlipsToSolve :: "bool \<Rightarrow> string \<Rightarrow> string list \<Rightarrow> postgresFlipToSolve list" where
  "convertFlipsToSolve isShort addr cids = map (\<lambda>(i, cid). \<lparr>PFT_address = addr, PFT_cid = cid, PFT_isShort = isShort,
     PFT_index = of_nat i\<rparr>) (enumerate 0 cids)"

text \<open>A map of counts is nil when there are no flip statistics.\<close>

definition countOf :: "counts option \<Rightarrow> string \<Rightarrow> int" where
  "countOf m k = (case m of None \<Rightarrow> 0 | Some c \<Rightarrow> c k)"

definition convertEpochIdentity :: "counts option \<Rightarrow> counts option \<Rightarrow> counts option \<Rightarrow> EpochIdentity \<Rightarrow> postgresEpochIdentity" where
  "convertEpochIdentity shortCounts longCounts wrongWords i =
     \<lparr>PEI_address = EI_Address i, PEI_state = EI_State i, PEI_shortPoint = EI_ShortPoint i, PEI_shortFlips = EI_ShortFlips i,
      PEI_totalShortPoint = EI_TotalShortPoint i, PEI_totalShortFlips = EI_TotalShortFlips i, PEI_longPoint = EI_LongPoint i,
      PEI_longFlips = EI_LongFlips i, PEI_approved = EI_Approved i, PEI_missed = EI_Missed i,
      PEI_requiredFlips = EI_RequiredFlips i, PEI_availableFlips = EI_AvailableFlips i, PEI_madeFlips = EI_MadeFlips i,
      PEI_nextEpochInvites = EI_NextEpochInvites i, PEI_birthEpoch = EI_BirthEpoch i,
      PEI_shortAnswers = of_int (countOf shortCounts (EI_Address i)), PEI_longAnswers = of_int (countOf longCounts (EI_Address i)),
      PEI_wrongWordsFlips = of_int (countOf wrongWords (EI_Address i)), PEI_delegateeAddress = EI_DelegateeAddress i,
      PEI_shardId = EI_ShardId i, PEI_newShardId = EI_NewShardId i, PEI_wrongGradeReason = ucast (EI_WrongGradeReason i)\<rparr>"

definition getEpochIdentitiesArrays :: "EpochIdentity list \<Rightarrow> counts option \<Rightarrow> counts option \<Rightarrow> counts option \<Rightarrow>
    postgresEpochIdentity list \<times> postgresFlipToSolve list" where
  "getEpochIdentitiesArrays identities shortCounts longCounts wrongWords =
     (map (convertEpochIdentity shortCounts longCounts wrongWords) identities,
      concat (map (\<lambda>i. convertFlipsToSolve True (EI_Address i) (EI_ShortFlipCidsToSolve i) @
        convertFlipsToSolve False (EI_Address i) (EI_LongFlipCidsToSolve i)) identities))"

section \<open>Ages and stakes\<close>

record postgresRewardAge =
  PRA_address :: string
  PRA_age :: uint16

record postgresRewardStakedAmount =
  PRS_address :: string
  PRS_amount :: decimal

definition postgresRewardAge_Value :: "postgresRewardAge \<Rightarrow> string" where
  "postgresRewardAge_Value v = rowText [PRA_address v, showWord (PRA_age v)]"

definition postgresRewardStakedAmount_Value :: "db_env \<Rightarrow> postgresRewardStakedAmount \<Rightarrow> string" where
  "postgresRewardStakedAmount_Value d v = rowText [PRS_address v, DE_decimal d (PRS_amount v)]"

definition getRewardAgesArray :: "(string \<times> uint16) list \<Rightarrow> postgresRewardAge list" where
  "getRewardAgesArray ages = map (\<lambda>(addr, age). \<lparr>PRA_address = addr, PRA_age = age\<rparr>) ages"

definition getRewardStakedAmountsArray :: "ext \<Rightarrow> (string \<times> int) list \<Rightarrow> postgresRewardStakedAmount list" where
  "getRewardStakedAmountsArray e amounts =
     map (\<lambda>(addr, n). \<lparr>PRS_address = addr, PRS_amount = X_convertToFloat e (Some n)\<rparr>) amounts"

section \<open>Properties\<close>

text \<open>
  A reader of the rows of burnt coins takes the address of the last row that has one.
\<close>

fun fillDown :: "string \<Rightarrow> postgresAddrBurntCoins list \<Rightarrow> (string \<times> BurntCoins) list" where
  "fillDown addr [] = []"
| "fillDown addr (row # rows) =
     (let a = (if PBC_address row = [] then addr else PBC_address row) in (a, PBC_coins row) # fillDown a rows)"

lemma fillDown_blank:
  "fillDown a (map (\<lambda>(i, c). \<lparr>PBC_coins = c, PBC_address = (if i = 0 then x else [])\<rparr>) (enumerate (Suc n) coins) @ rows) =
     map (Pair a) coins @ fillDown a rows"
  by (induction coins arbitrary: n) simp_all

lemma fillDown_address:
  assumes "x \<noteq> []"
  shows "fillDown a (map (\<lambda>(i, c). \<lparr>PBC_coins = c, PBC_address = (if i = 0 then x else [])\<rparr>) (enumerate 0 coins) @ rows) =
     map (Pair x) coins @ (if coins = [] then fillDown a rows else fillDown x rows)"
  using assms fillDown_blank [of x x 0] by (cases coins) simp_all

text \<open>The rows of burnt coins give the address of an entry only with its first coin. Filling the blank
  addresses down gives back every coin of every entry with the address it was burnt by, in order, for
  whatever order the map is iterated in.\<close>

theorem burnt_rows_fill_down:
  assumes "distinct_texts d"
  shows "fillDown addr (getPostgresBurntCoins d entries) =
    concat (map (\<lambda>(a, coins). map (Pair (addrText d a)) coins) entries)"
proof (induction entries arbitrary: addr)
  case (Cons entry entries)
  obtain a coins where e: "entry = (a, coins)" by fastforce
  have "addrText d a \<noteq> []" using text_inject(3) [OF assms] .
  then show ?case
    using Cons fillDown_address [of "addrText d a" addr coins "getPostgresBurntCoins d entries"]
    by (simp add: e getPostgresBurntCoins_def)
qed (simp add: getPostgresBurntCoins_def)

definition coinOf :: "int \<Rightarrow> BurntCoins" where
  "coinOf n = \<lparr>BC_Amount = of_int n, BC_Reason = 2, BC_TxHash = []\<rparr>"

theorem burnt_rows_fill_down_witness:
  "fillDown [] (getPostgresBurntCoins sampleDbEnv [(7, [coinOf 1, coinOf 2]), (8, [coinOf 3])]) =
     [(''7'', coinOf 1), (''7'', coinOf 2), (''8'', coinOf 3)]"
proof -
  have "addrText sampleDbEnv 7 = ''7''" "addrText sampleDbEnv 8 = ''8''" by code_simp+
  then show ?thesis
    using burnt_rows_fill_down [OF sample_texts(2), of "[]" "[(7, [coinOf 1, coinOf 2]), (8, [coinOf 3])]"] by simp
qed

text \<open>What the counts of the answers and of the reported flips are.\<close>

definition countBy :: "('a \<Rightarrow> string) \<Rightarrow> 'a list \<Rightarrow> string \<Rightarrow> int" where
  "countBy f xs k = int (length (filter (\<lambda>x. f x = k) xs))"

lemma countBy_simps [simp]:
  "countBy f [] = (\<lambda>_. 0)" "countBy f (xs @ ys) k = countBy f xs k + countBy f ys k"
  "countBy f (x # xs) k = (if f x = k then 1 else 0) + countBy f xs k"
  by (auto simp: countBy_def)

lemma fold_short:
  "fold (addShortAnswer cid) as acc = acc\<lparr>FA_answers := FA_answers acc @ map (convertAnswer True cid) as,
     FA_shortCounts := (\<lambda>k. FA_shortCounts acc k + countBy An_Address as k)\<rparr>"
  by (induction as arbitrary: acc) (auto simp: addShortAnswer_def increment_def fun_eq_iff)

lemma fold_long:
  "fold (addLongAnswer cid) as acc = acc\<lparr>FA_answers := FA_answers acc @ map (convertAnswer False cid) as,
     FA_longCounts := (\<lambda>k. FA_longCounts acc k + countBy An_Address as k)\<rparr>"
  by (induction as arbitrary: acc) (auto simp: addLongAnswer_def increment_def fun_eq_iff)

lemma fold_flips:
  "FA_shortCounts (fold (flipStatsStep e) flipStats acc) k = FA_shortCounts acc k + countBy An_Address (concat (map FS_ShortAnswers flipStats)) k"
  "FA_longCounts (fold (flipStatsStep e) flipStats acc) k = FA_longCounts acc k + countBy An_Address (concat (map FS_LongAnswers flipStats)) k"
  "FA_wrongWords (fold (flipStatsStep e) flipStats acc) k =
     FA_wrongWords acc k + countBy FS_Author (filter (\<lambda>s. FS_Grade s = gradeReported) flipStats) k"
  "FA_answers (fold (flipStatsStep e) flipStats acc) = FA_answers acc @ concat (map (\<lambda>s.
     map (convertAnswer True (FS_Cid s)) (FS_ShortAnswers s) @ map (convertAnswer False (FS_Cid s)) (FS_LongAnswers s)) flipStats)"
  "map PFS_flipCid (FA_states (fold (flipStatsStep e) flipStats acc)) = map PFS_flipCid (FA_states acc) @ map FS_Cid flipStats"
  by (induction flipStats arbitrary: acc) (simp_all add: flipStatsStep_def Let_def fold_short fold_long increment_def)

text \<open>The row of an identity that is saved with an epoch counts the answers the identity gave in all
  flips of the epoch, short and long, modulo \<open>2 ^ 32\<close>, and its own flips that were reported, modulo
  \<open>256\<close>; and every answer of every flip has a row.\<close>

theorem epoch_identity_rows_count:
  assumes "getFlipStatsArrays e flipStats = arrays"
    and "getEpochIdentitiesArrays identities (Some (FA_shortCounts arrays)) (Some (FA_longCounts arrays))
      (Some (FA_wrongWords arrays)) = (rows, toSolve)"
  shows "map PEI_address rows = map EI_Address identities"
    and "map PEI_shortAnswers rows =
      map (\<lambda>i. of_int (countBy An_Address (concat (map FS_ShortAnswers flipStats)) (EI_Address i))) identities"
    and "map PEI_longAnswers rows =
      map (\<lambda>i. of_int (countBy An_Address (concat (map FS_LongAnswers flipStats)) (EI_Address i))) identities"
    and "map PEI_wrongWordsFlips rows =
      map (\<lambda>i. of_int (countBy FS_Author (filter (\<lambda>s. FS_Grade s = gradeReported) flipStats) (EI_Address i))) identities"
    and "length (FA_answers arrays) = (\<Sum>s \<leftarrow> flipStats. length (FS_ShortAnswers s) + length (FS_LongAnswers s))"
  using assms by (auto simp: getEpochIdentitiesArrays_def getFlipStatsArrays_def convertEpochIdentity_def countOf_def
      fold_flips length_concat comp_def)

definition sampleIdentityRow :: EpochIdentity where
  "sampleIdentityRow = \<lparr>EI_Address = ''a'', EI_State = 3, EI_ShortPoint = 0, EI_ShortFlips = 0, EI_TotalShortPoint = 0,
     EI_TotalShortFlips = 0, EI_LongPoint = 0, EI_LongFlips = 0, EI_Approved = True, EI_Missed = False, EI_RequiredFlips = 0,
     EI_AvailableFlips = 0, EI_MadeFlips = 0, EI_NextEpochInvites = 0, EI_BirthEpoch = 1, EI_ShortFlipCidsToSolve = [],
     EI_LongFlipCidsToSolve = [], EI_DelegateeAddress = [], EI_ShardId = 1, EI_NewShardId = 1, EI_WrongGradeReason = 0\<rparr>"

definition sampleFlip :: FlipStats where
  "sampleFlip = \<lparr>FS_Author = ''a'', FS_Cid = ''c'', FS_ShortAnswers = [\<lparr>An_Address = ''a'', An_Answer = 1, An_Point = 1,
     An_Grade = 0, An_Index = 0, An_Considered = True\<rparr>], FS_LongAnswers = [], FS_Status = 0, FS_Answer = 1,
     FS_Grade = gradeReported, FS_GradeScore = 0\<rparr>"

theorem epoch_identity_rows_count_witness:
  "\<exists>rows toSolve. getEpochIdentitiesArrays [sampleIdentityRow] (Some (FA_shortCounts (getFlipStatsArrays sampleExt [sampleFlip])))
      (Some (FA_longCounts (getFlipStatsArrays sampleExt [sampleFlip])))
      (Some (FA_wrongWords (getFlipStatsArrays sampleExt [sampleFlip]))) = (rows, toSolve) \<and>
    map PEI_shortAnswers rows = [1] \<and> map PEI_wrongWordsFlips rows = [1]"
proof -
  obtain rows toSolve where r: "getEpochIdentitiesArrays [sampleIdentityRow] (Some (FA_shortCounts (getFlipStatsArrays sampleExt [sampleFlip])))
      (Some (FA_longCounts (getFlipStatsArrays sampleExt [sampleFlip])))
      (Some (FA_wrongWords (getFlipStatsArrays sampleExt [sampleFlip]))) = (rows, toSolve)" by fastforce
  show ?thesis using epoch_identity_rows_count(2,4) [OF refl r] r
    by (simp add: sampleIdentityRow_def sampleFlip_def)
qed

end
