(* ===== verification/Monitoring.thy ===== *)
theory Monitoring
  imports Prelude
begin

text \<open>
  The performance monitor, \<open>src/monitoring/performance.go\<close>: nested measurements that are started and
  completed by name and reported every \<open>blocksToLog\<close> top-level records. The clock is a function of the
  number of readings. The empty monitor, which ignores all calls, is \<open>None\<close>.
\<close>

section \<open>State\<close>

datatype perf_record = PerfRecord (PR_name: string) (PR_duration: int) (PR_subRecords: "perf_record list")

record eventType =
  ET_name :: string
  ET_time :: int
  ET_subRecords :: "perf_record list"

text \<open>The last element of the slice of start times is the head of the list; a report is printed by a goroutine of its own.\<close>

record performanceMonitor =
  PM_records :: "perf_record list"
  PM_startTimes :: "eventType list"
  PM_blocksToLog :: nat
  PM_reports :: "perf_record list list"
  PM_clock :: "nat \<Rightarrow> int"
  PM_readings :: nat

definition NewPerformanceMonitor :: "nat \<Rightarrow> (nat \<Rightarrow> int) \<Rightarrow> performanceMonitor" where
  "NewPerformanceMonitor blocksToLog clock = \<lparr>PM_records = [], PM_startTimes = [], PM_blocksToLog = blocksToLog,
     PM_reports = [], PM_clock = clock, PM_readings = 0\<rparr>"

section \<open>Operations\<close>

definition now :: "performanceMonitor \<Rightarrow> int" where
  "now pm = PM_clock pm (PM_readings pm)"

definition startMonitor :: "string \<Rightarrow> performanceMonitor \<Rightarrow> performanceMonitor" where
  "startMonitor name pm = pm\<lparr>PM_startTimes := \<lparr>ET_name = name, ET_time = now pm, ET_subRecords = []\<rparr> # PM_startTimes pm,
     PM_readings := PM_readings pm + 1\<rparr>"

definition closeRecord :: "perf_record \<Rightarrow> performanceMonitor \<Rightarrow> performanceMonitor" where
  "closeRecord a pm = (case PM_startTimes pm of
       parent # rest \<Rightarrow> pm\<lparr>PM_startTimes := parent\<lparr>ET_subRecords := ET_subRecords parent @ [a]\<rparr> # rest\<rparr>
     | [] \<Rightarrow>
         (let records = PM_records pm @ [a]
          in if length records = PM_blocksToLog pm
             then pm\<lparr>PM_records := [], PM_reports := PM_reports pm @ [records]\<rparr>
             else pm\<lparr>PM_records := records\<rparr>))"

text \<open>Completing panics when nothing was started (an index out of range) and under another name.\<close>

definition completeMonitor :: "string \<Rightarrow> performanceMonitor \<Rightarrow> performanceMonitor option" where
  "completeMonitor name pm = (case PM_startTimes pm of
       [] \<Rightarrow> None
     | event # rest \<Rightarrow>
         (if ET_name event \<noteq> name then None
          else Some (closeRecord (PerfRecord name (now pm - ET_time event) (ET_subRecords event))
                 (pm\<lparr>PM_startTimes := rest, PM_readings := PM_readings pm + 1\<rparr>))))"

definition pmStart :: "string \<Rightarrow> performanceMonitor option \<Rightarrow> performanceMonitor option" where
  "pmStart name pm = map_option (startMonitor name) pm"

definition pmComplete :: "string \<Rightarrow> performanceMonitor option \<Rightarrow> performanceMonitor option option" where
  "pmComplete name pm = (case pm of None \<Rightarrow> Some None | Some m \<Rightarrow> map_option Some (completeMonitor name m))"

section \<open>The report\<close>

fun collectTotals :: "perf_record list \<Rightarrow> (string \<rightharpoonup> int) \<Rightarrow> string \<rightharpoonup> int" where
  "collectTotals [] totals = totals"
| "collectTotals (PerfRecord name duration subRecords # rest) totals =
     (let totals1 = totals(name \<mapsto> (case totals name of None \<Rightarrow> duration | Some t \<Rightarrow> t + duration))
      in collectTotals rest (collectTotals subRecords totals1))"

text \<open>A line has its level, name, total, number of blocks and the quotient, which Go truncates; a missing total is zero.\<close>

fun logRecords :: "(string \<rightharpoonup> int) \<Rightarrow> perf_record list \<Rightarrow> nat \<Rightarrow> nat \<Rightarrow> (nat \<times> string \<times> int \<times> nat \<times> int) list" where
  "logRecords totals [] level n = []"
| "logRecords totals (PerfRecord name duration subRecords # rest) level n =
     (let t = (case totals name of None \<Rightarrow> 0 | Some t \<Rightarrow> t)
      in (level, name, t, n, sgn t * (\<bar>t\<bar> div int n)) # logRecords totals subRecords (level + 1) n @ logRecords totals rest level n)"

definition logReport :: "perf_record list \<Rightarrow> (nat \<times> string \<times> int \<times> nat \<times> int) list" where
  "logReport records = logRecords (collectTotals records Map.empty) (take 1 records) 0 (length records)"

section \<open>Properties\<close>

text \<open>The names of the measurements under way, the innermost first.\<close>

definition openNames :: "performanceMonitor option \<Rightarrow> string list" where
  "openNames pm = (case pm of None \<Rightarrow> [] | Some m \<Rightarrow> map ET_name (PM_startTimes m))"

lemma openNames_start: "openNames (pmStart name pm) = (if pm = None then [] else name # openNames pm)"
  by (cases pm) (simp_all add: openNames_def pmStart_def startMonitor_def)

lemma openNames_close: "map ET_name (PM_startTimes (closeRecord a pm)) = map ET_name (PM_startTimes pm)"
  by (simp add: closeRecord_def Let_def split: list.split)

lemma pmComplete_iff:
  "pmComplete name pm = None \<longleftrightarrow> pm \<noteq> None \<and> (openNames pm = [] \<or> hd (openNames pm) \<noteq> name)"
  by (auto simp: pmComplete_def completeMonitor_def openNames_def split: option.split list.split)

lemma openNames_complete:
  "pmComplete name pm = Some pm1 \<Longrightarrow> openNames pm1 = tl (openNames pm) \<and> (pm1 = None \<longleftrightarrow> pm = None)"
  by (auto simp: pmComplete_def completeMonitor_def openNames_def openNames_close split: option.splits list.splits if_splits)

fun durations :: "string \<Rightarrow> perf_record list \<Rightarrow> int" where
  "durations n [] = 0"
| "durations n (PerfRecord name duration subRecords # rest) =
     (if name = n then duration else 0) + durations n subRecords + durations n rest"

fun recorded :: "string \<Rightarrow> perf_record list \<Rightarrow> bool" where
  "recorded n [] = False"
| "recorded n (PerfRecord name duration subRecords # rest) = (name = n \<or> recorded n subRecords \<or> recorded n rest)"

lemma unrecorded_zero: "\<not> recorded n records \<Longrightarrow> durations n records = 0"
  by (induction n records rule: durations.induct) auto

lemma collectTotals_run:
  "collectTotals records totals n =
     (if recorded n records then Some ((case totals n of None \<Rightarrow> 0 | Some t \<Rightarrow> t) + durations n records) else totals n)"
proof (induction records totals rule: collectTotals.induct)
  case (2 name duration subRecords rest totals)
  let ?t1 = "totals(name \<mapsto> (case totals name of None \<Rightarrow> duration | Some t \<Rightarrow> t + duration))"
  note sub = "2.IH"(1) [OF refl] and rest = "2.IH"(2) [OF refl]
  have here: "?t1 n = (if name = n then Some ((case totals n of None \<Rightarrow> 0 | Some t \<Rightarrow> t) + duration) else totals n)"
    by (simp split: option.split)
  have unrec: "durations n rs = 0" if "\<not> recorded n rs" for rs using that by (rule unrecorded_zero)
  show ?case
    unfolding collectTotals.simps Let_def rest sub here
    using unrec [of subRecords] unrec [of rest] by (cases "recorded n rest"; cases "recorded n subRecords"; cases "name = n") simp_all
qed simp

text \<open>The totals of a report are exact: for every name that was measured at any depth, the sum of the
  durations of all its measurements; a name that was not measured has none.\<close>

theorem report_totals_exact:
  "collectTotals records Map.empty n = (if recorded n records then Some (durations n records) else None)"
  by (simp add: collectTotals_run)

end
