(* ===== verification/Db_Save.thy ===== *)
theory Db_Save
  imports Db_Json Db_Arrays Monitoring
begin

text \<open>
  Saving the data of a block and of a restored state, \<open>src/db/postgres.go\<close>, \<open>postgres_context.go\<close> and
  \<open>postgres_restore.go\<close>: every statement with its arguments, the transaction around them, the wrapping of
  errors and the performance monitor. The driver is the record \<open>sql\<close> over an abstract state \<open>'w\<close> of the
  database and \<open>'s\<close> of an open transaction. A result \<open>None\<close> is a panic, \<open>Inl\<close> an error. Nil and empty slices
  are the same list, so the argument made of a list does not tell whether the driver writes it as null.
\<close>

section \<open>The driver\<close>

datatype sqlArg = ANull | AInt int | AFloat rat | ABool bool | AText string | ABytes bytes | ADecimal decimal
  | ATexts "string option list" | AJson json | AJsons "json list"

text \<open>The rows of a query and the error with which their iteration ended, if any.\<close>

record sql_rows =
  RW_rows :: "sqlArg list list"
  RW_err :: "go_error option"

record ('w, 's) sql =
  SQ_Begin :: "'w \<Rightarrow> (go_error + 's) \<times> 'w"
  SQ_Exec :: "string \<Rightarrow> sqlArg list \<Rightarrow> 's \<Rightarrow> (go_error + unit) \<times> 's"
  SQ_QueryRow :: "string \<Rightarrow> sqlArg list \<Rightarrow> 's \<Rightarrow> (go_error + string option list) \<times> 's"
  SQ_Commit :: "'s \<Rightarrow> 'w \<Rightarrow> (go_error + unit) \<times> 'w"
  SQ_Rollback :: "'s \<Rightarrow> 'w \<Rightarrow> 'w"
  SQ_dbExec :: "string \<Rightarrow> sqlArg list \<Rightarrow> 'w \<Rightarrow> (go_error + unit) \<times> 'w"
  SQ_dbQuery :: "string \<Rightarrow> sqlArg list \<Rightarrow> 'w \<Rightarrow> (go_error + sql_rows) \<times> 'w"

text \<open>
  What the accessor is configured with: the texts of the queries by name, the tables of the refreshed
  data and the orders in which the maps of a block are ranged over.
\<close>

record db_conf =
  DC_env :: db_env
  DC_queries :: "string \<rightharpoonup> string"
  DC_dataTable :: string
  DC_dataStateTable :: string
  DC_changesHistoryBlocksCount :: int
  DC_miningRewards :: bool
  DC_burntOrder :: "(address \<rightharpoonup> BurntCoins list) \<Rightarrow> (address \<times> BurntCoins list) list"
  DC_agesOrder :: "(string \<rightharpoonup> uint16) \<Rightarrow> (string \<times> uint16) list"
  DC_stakesOrder :: "(string \<rightharpoonup> int) \<Rightarrow> (string \<times> int) list"
  DC_HexToAddress :: "string \<Rightarrow> address"

section \<open>Errors\<close>

definition pgErrDetails :: "pq_error \<Rightarrow> string" where
  "pgErrDetails e = ''Severity: '' @ PE_Severity e @ '', Code: '' @ PE_Code e @ '', Message: '' @ PE_Message e @ '', Detail: '' @
     PE_Detail e @ '', Hint: '' @ PE_Hint e @ '', Position: '' @ PE_Position e @ '', InternalPosition: '' @ PE_InternalPosition e @
     '', InternalQuery: '' @ PE_InternalQuery e @ '', Where: '' @ PE_Where e @ '', Schema: '' @ PE_Schema e @ '', Table: '' @
     PE_Table e @ '', Column: '' @ PE_Column e @ '', DataTypeName: '' @ PE_DataTypeName e @ '', Constraint: '' @ PE_Constraint e @
     '', File: '' @ PE_File e @ '', Line: '' @ PE_Line e @ '', Routine: '' @ PE_Routine e"

definition getResultError :: "go_error \<Rightarrow> go_error" where
  "getResultError err = (case errorCause err of
       PgError pgErr \<Rightarrow> WrapError (errorText err) (TextError (pgErrDetails pgErr))
     | _ \<Rightarrow> err)"

section \<open>Statements\<close>

type_synonym ('s, 'a) action = "'s \<Rightarrow> (go_error + 'a) option \<times> 's"

definition sqlReturn :: "'a \<Rightarrow> ('s, 'a) action" where
  "sqlReturn x s = (Some (Inr x), s)"

definition sqlBind :: "('s, 'a) action \<Rightarrow> ('a \<Rightarrow> ('s, 'b) action) \<Rightarrow> ('s, 'b) action" where
  "sqlBind m f s = (case m s of
       (Some (Inr x), s1) \<Rightarrow> f x s1
     | (Some (Inl err), s1) \<Rightarrow> (Some (Inl err), s1)
     | (None, s1) \<Rightarrow> (None, s1))"

text \<open>\<open>errors.Wrap\<close> of nil is nil.\<close>

definition sqlWrap :: "string \<Rightarrow> ('s, 'a) action \<Rightarrow> ('s, 'a) action" where
  "sqlWrap msg m s = (case m s of
       (Some (Inl err), s1) \<Rightarrow> (Some (Inl (WrapError msg err)), s1)
     | r \<Rightarrow> r)"

text \<open>The text of a query is looked up first, a missing one panics; then the arguments are turned into values.\<close>

definition execTx :: "db_conf \<Rightarrow> ('w, 's) sql \<Rightarrow> string \<Rightarrow> (go_error + sqlArg list) option \<Rightarrow> ('s, unit) action" where
  "execTx conf ops query args s = (case DC_queries conf query of
       None \<Rightarrow> (None, s)
     | Some text \<Rightarrow>
         (case args of
            None \<Rightarrow> (None, s)
          | Some (Inl err) \<Rightarrow> (Some (Inl err), s)
          | Some (Inr values) \<Rightarrow> apfst Some (SQ_Exec ops text values s)))"

definition plainArgs :: "sqlArg list \<Rightarrow> (go_error + sqlArg list) option" where
  "plainArgs args = Some (Inr args)"

definition rowsArg :: "('a \<Rightarrow> string) \<Rightarrow> 'a list \<Rightarrow> sqlArg" where
  "rowsArg f xs = ATexts (map (\<lambda>x. Some (f x)) xs)"

definition wordArg :: "'a::len word \<Rightarrow> sqlArg" where
  "wordArg w = AInt (uint w)"

definition optArg :: "('a \<Rightarrow> sqlArg) \<Rightarrow> 'a option \<Rightarrow> sqlArg" where
  "optArg f v = (case v of None \<Rightarrow> ANull | Some x \<Rightarrow> f x)"

section \<open>The parts of a block\<close>

text \<open>\<open>context\<close> with the fields that the statements read.\<close>

record db_context =
  DX_epoch :: uint64
  DX_blockHeight :: uint64
  DX_txIdsPerHash :: "string \<rightharpoonup> int"

definition newContext :: "uint64 \<Rightarrow> uint64 \<Rightarrow> db_context" where
  "newContext epoch blockHeight = \<lparr>DX_epoch = epoch, DX_blockHeight = blockHeight, DX_txIdsPerHash = Map.empty\<rparr>"

definition txId :: "db_context \<Rightarrow> string \<Rightarrow> go_error + int" where
  "txId ctx h = (case DX_txIdsPerHash ctx h of
       None \<Rightarrow> Inl (TextError (''Id for tx '' @ h @ '' not found''))
     | Some i \<Rightarrow> Inr i)"

definition saveEpoch :: "db_conf \<Rightarrow> ('w, 's) sql \<Rightarrow> uint64 \<Rightarrow> int \<Rightarrow> string \<Rightarrow> bigint \<Rightarrow> ('s, unit) action" where
  "saveEpoch conf ops epoch validationTime stateRoot threshold =
     execTx conf ops ''insertEpoch.sql'' (plainArgs [wordArg epoch, AInt (toInt64 validationTime), AText stateRoot,
       optArg (\<lambda>n. ADecimal (X_convertToFloat (DE_ext (DC_env conf)) (Some n))) threshold])"

definition saveBlock :: "db_conf \<Rightarrow> ('w, 's) sql \<Rightarrow> db_context \<Rightarrow> DbBlock \<Rightarrow> ('s, unit) action" where
  "saveBlock conf ops ctx block = execTx conf ops ''insertBlock.sql'' (plainArgs
     [wordArg (Bl_Height block), AText (Bl_Hash block), wordArg (DX_epoch ctx), AInt (Bl_Time block), ABool (Bl_IsEmpty block),
      AInt (int (Bl_OriginalValidatorsCount block)), AInt (int (Bl_PoolValidatorsCount block)), AInt (int (Bl_BodySize block)),
      AFloat (Bl_VrfProposerThreshold block), AInt (int (Bl_FullSize block)), ADecimal (Bl_FeeRate block),
      optArg wordArg (Bl_Upgrade block), optArg AText (Bl_OfflineAddress block), rowsArg id (Bl_Flags block),
      wordArg (Bl_GasUsed block)])"

definition saveProposer :: "db_conf \<Rightarrow> ('w, 's) sql \<Rightarrow> db_context \<Rightarrow> string \<Rightarrow> ('s, unit) action" where
  "saveProposer conf ops ctx proposer =
     (if proposer = [] then sqlReturn ()
      else execTx conf ops ''insertBlockProposer.sql'' (plainArgs [wordArg (DX_blockHeight ctx), AText proposer]))"

definition saveProposerVrfScore :: "db_conf \<Rightarrow> ('w, 's) sql \<Rightarrow> db_context \<Rightarrow> rat \<Rightarrow> ('s, unit) action" where
  "saveProposerVrfScore conf ops ctx vrfScore =
     (if vrfScore = 0 then sqlReturn ()
      else execTx conf ops ''insertBlockProposerVrfScore.sql'' (plainArgs [wordArg (DX_blockHeight ctx), AFloat vrfScore]))"

text \<open>The text of the struct \<open>Coins\<close> with \<open>%v\<close>.\<close>

definition coinsText :: "db_env \<Rightarrow> Coins \<Rightarrow> string" where
  "coinsText d c = ''{'' @ DE_decimal d (Co_Minted c) @ '' '' @ DE_decimal d (Co_Burnt c) @ '' '' @ DE_decimal d (Co_TotalBalance c) @
     '' '' @ DE_decimal d (Co_TotalStake c) @ ''}''"

definition saveCoins :: "db_conf \<Rightarrow> ('w, 's) sql \<Rightarrow> db_context \<Rightarrow> Coins \<Rightarrow> ('s, unit) action" where
  "saveCoins conf ops ctx coins = sqlWrap (''unable to save coins '' @ coinsText (DC_env conf) coins)
     (execTx conf ops ''insertCoins.sql'' (plainArgs [wordArg (DX_blockHeight ctx), ADecimal (Co_Burnt coins),
        ADecimal (Co_Minted coins), ADecimal (Co_TotalBalance coins), ADecimal (Co_TotalStake coins)]))"

definition saveBalances :: "db_conf \<Rightarrow> ('w, 's) sql \<Rightarrow> uint64 \<Rightarrow> DbBalance list \<Rightarrow> BalanceUpdate list \<Rightarrow> bigint \<Rightarrow> ('s, unit) action" where
  "saveBalances conf ops blockHeight balances updates share =
     (let d = DC_env conf
      in execTx conf ops ''saveBalances.sql'' (plainArgs [wordArg blockHeight, rowsArg (Balance_Value d) balances,
        rowsArg (BalanceUpdate_Value d) updates, AInt (DC_changesHistoryBlocksCount conf),
        ADecimal (X_convertToFloat (DE_ext d) share)]))"

definition saveBirthdays :: "db_conf \<Rightarrow> ('w, 's) sql \<Rightarrow> Birthday list \<Rightarrow> ('s, unit) action" where
  "saveBirthdays conf ops birthdays =
     (if birthdays = [] then sqlReturn ()
      else execTx conf ops ''saveBirthdays.sql'' (plainArgs [rowsArg (Birthday_Value (DC_env conf)) birthdays]))"

text \<open>The rows of the answer are scanned one by one, the first that cannot be read is the error.\<close>

fun scanTxIds :: "string option list \<Rightarrow> (string \<rightharpoonup> int) \<Rightarrow> go_error + (string \<rightharpoonup> int)" where
  "scanTxIds [] ids = Inr ids"
| "scanTxIds (row # rows) ids = (case Scan row of
       Inl WrongTxHashId \<Rightarrow> Inl (TextError ''wrong txHashId'')
     | Inl (UnknownTxHashId s) \<Rightarrow> Inl (TextError (''unknown txHashId: '' @ s))
     | Inl (InvalidTxHashId s) \<Rightarrow> Inl (TextError (''invalid txHashId: '' @ s))
     | Inr v \<Rightarrow> scanTxIds rows (ids(TH_Hash v \<mapsto> TH_Id v)))"

definition addressesArgs :: "db_conf \<Rightarrow> db_context \<Rightarrow> Data \<Rightarrow> sqlArg list" where
  "addressesArgs conf ctx v =
     (let d = DC_env conf; (addressesArray, addressStateChangesArray) = getPostgresAddressesAndAddressStateChangesArrays (D_Addresses v)
      in [wordArg (DX_blockHeight ctx), AInt (DC_changesHistoryBlocksCount conf), rowsArg postgresAddress_Value addressesArray,
          rowsArg (ActivationTxTransfer_Value d) (D_ActivationTxTransfers v), rowsArg (KillTxTransfer_Value d) (D_KillTxTransfers v),
          rowsArg (KillInviteeTxTransfer_Value d) (D_KillInviteeTxTransfers v),
          rowsArg postgresAddressStateChange_Value addressStateChangesArray, rowsArg (DeletedFlip_Value d) (D_DeletedFlips v),
          rowsArg (ActivationTx_Value d) (D_ActivationTxs v), rowsArg (KillInviteeTx_Value d) (D_KillInviteeTxs v),
          rowsArg id (D_BecomeOnlineTxs v), rowsArg id (D_BecomeOfflineTxs v),
          rowsArg (OracleVotingContract_Value d) (D_OracleVotingContracts v),
          AJsons (map (OracleVotingContractCallStart_Value d) (D_OracleVotingContractCallStarts v)),
          rowsArg (OracleVotingContractCallVoteProof_Value d) (D_OracleVotingContractCallVoteProofs v),
          rowsArg (OracleVotingContractCallVote_Value d) (D_OracleVotingContractCallVotes v),
          rowsArg (OracleVotingContractCallFinish_Value d) (D_OracleVotingContractCallFinishes v),
          AJsons (map (OracleVotingContractCallProlongation_Value d) (D_OracleVotingContractCallProlongations v)),
          rowsArg (OracleVotingContractCallAddStake_Value d) (D_OracleVotingContractCallAddStakes v),
          rowsArg (OracleVotingContractTermination_Value d) (D_OracleVotingContractTerminations v),
          ABool (D_ClearOldEpochCommittees v), rowsArg (OracleLockContract_Value d) (D_OracleLockContracts v),
          rowsArg (OracleLockContractCallCheckOracleVoting_Value d) (D_OracleLockContractCallCheckOracleVotings v),
          rowsArg (OracleLockContractCallPush_Value d) (D_OracleLockContractCallPushes v),
          rowsArg (OracleLockContractTermination_Value d) (D_OracleLockContractTerminations v),
          rowsArg (RefundableOracleLockContract_Value d) (D_RefundableOracleLockContracts v),
          rowsArg (RefundableOracleLockContractCallDeposit_Value d) (D_RefundableOracleLockContractCallDeposits v),
          rowsArg (RefundableOracleLockContractCallPush_Value d) (D_RefundableOracleLockContractCallPushes v),
          rowsArg (RefundableOracleLockContractCallRefund_Value d) (D_RefundableOracleLockContractCallRefunds v),
          rowsArg (RefundableOracleLockContractTermination_Value d) (D_RefundableOracleLockContractTerminations v),
          rowsArg (TimeLockContract_Value d) (D_TimeLockContracts v),
          rowsArg (TimeLockContractCallTransfer_Value d) (D_TimeLockContractCallTransfers v),
          rowsArg (TimeLockContractTermination_Value d) (D_TimeLockContractTerminations v),
          rowsArg (MultisigContract_Value d) (D_MultisigContracts v),
          rowsArg (MultisigContractCallAdd_Value d) (D_MultisigContractCallAdds v),
          rowsArg (MultisigContractCallSend_Value d) (D_MultisigContractCallSends v),
          rowsArg (MultisigContractCallPush_Value d) (D_MultisigContractCallPushes v),
          rowsArg (MultisigContractTermination_Value d) (D_MultisigContractTerminations v),
          AJsons (map (ContractTxBalanceUpdates_Value d) (D_ContractTxsBalanceUpdates v)),
          AJson (data_Value d (getData d v))])"

definition saveAddressesAndTransactions :: "db_conf \<Rightarrow> ('w, 's) sql \<Rightarrow> db_context \<Rightarrow> Data \<Rightarrow> ('s, string \<rightharpoonup> int) action" where
  "saveAddressesAndTransactions conf ops ctx v s = sqlWrap ''unable to save addresses and transactions''
     (\<lambda>s. case DC_queries conf ''insertAddressesAndTransactions.sql'' of
        None \<Rightarrow> (None, s)
      | Some text \<Rightarrow>
          (case SQ_QueryRow ops text (addressesArgs conf ctx v) s of
             (Inl err, s1) \<Rightarrow> (Some (Inl err), s1)
           | (Inr rows, s1) \<Rightarrow> (Some (scanTxIds rows Map.empty), s1))) s"

definition saveSubmittedFlip :: "db_conf \<Rightarrow> ('w, 's) sql \<Rightarrow> int \<Rightarrow> Flip \<Rightarrow> ('s, unit) action" where
  "saveSubmittedFlip conf ops i f = sqlWrap (''unable to save flip '' @ Fl_Cid f)
     (execTx conf ops ''insertSubmittedFlip.sql'' (plainArgs [AText (Fl_Cid f), AInt i, wordArg (Fl_Pair f)]))"

fun saveSubmittedFlips :: "db_conf \<Rightarrow> ('w, 's) sql \<Rightarrow> db_context \<Rightarrow> Flip list \<Rightarrow> ('s, unit) action" where
  "saveSubmittedFlips conf ops ctx [] = sqlReturn ()"
| "saveSubmittedFlips conf ops ctx (f # fs) = (case txId ctx (Fl_TxHash f) of
       Inl err \<Rightarrow> (\<lambda>s. (Some (Inl err), s))
     | Inr i \<Rightarrow> sqlBind (saveSubmittedFlip conf ops i f) (\<lambda>_. saveSubmittedFlips conf ops ctx fs))"

definition saveFlipKey :: "db_conf \<Rightarrow> ('w, 's) sql \<Rightarrow> int \<Rightarrow> FlipKey \<Rightarrow> ('s, unit) action" where
  "saveFlipKey conf ops i key = sqlWrap (''unable to save flip key '' @ FK_Key key)
     (execTx conf ops ''insertFlipKey.sql'' (plainArgs [AInt i, AText (FK_Key key)]))"

fun saveFlipKeys :: "db_conf \<Rightarrow> ('w, 's) sql \<Rightarrow> db_context \<Rightarrow> FlipKey list \<Rightarrow> ('s, unit) action" where
  "saveFlipKeys conf ops ctx [] = sqlReturn ()"
| "saveFlipKeys conf ops ctx (key # keys) = (case txId ctx (FK_TxHash key) of
       Inl err \<Rightarrow> (\<lambda>s. (Some (Inl err), s))
     | Inr i \<Rightarrow> sqlBind (saveFlipKey conf ops i key) (\<lambda>_. saveFlipKeys conf ops ctx keys))"

definition saveFlipsWords :: "db_conf \<Rightarrow> ('w, 's) sql \<Rightarrow> db_context \<Rightarrow> FlipWords list \<Rightarrow> ('s, unit) action" where
  "saveFlipsWords conf ops ctx wordList =
     (if wordList = [] then sqlReturn ()
      else sqlWrap ''unable to save flips words''
        (execTx conf ops ''saveFlipsWords.sql'' (plainArgs [rowsArg (FlipWords_Value (DC_env conf)) wordList])))"

definition savePenalty :: "db_conf \<Rightarrow> ('w, 's) sql \<Rightarrow> db_context \<Rightarrow> DbPenalty \<Rightarrow> ('s, unit) action" where
  "savePenalty conf ops ctx penalty = sqlWrap ''unable to save penalty''
     (execTx conf ops ''insertPenalty.sql'' (plainArgs [AText (DP_Address penalty), ADecimal (DP_Penalty penalty),
        wordArg (DP_Seconds penalty), AText (DP_InheritedFrom penalty), wordArg (DX_blockHeight ctx)]))"

fun savePenalties :: "db_conf \<Rightarrow> ('w, 's) sql \<Rightarrow> db_context \<Rightarrow> DbPenalty list \<Rightarrow> ('s, unit) action" where
  "savePenalties conf ops ctx [] = sqlReturn ()"
| "savePenalties conf ops ctx (penalty # penalties) =
     sqlBind (sqlWrap ''unable to save penalties'' (savePenalty conf ops ctx penalty)) (\<lambda>_. savePenalties conf ops ctx penalties)"

definition saveMiningRewards :: "db_conf \<Rightarrow> ('w, 's) sql \<Rightarrow> db_context \<Rightarrow> DbMiningReward list \<Rightarrow> ('s, unit) action" where
  "saveMiningRewards conf ops ctx rewards =
     (if rewards = [] then sqlReturn ()
      else execTx conf ops ''insertMiningRewards.sql''
        (plainArgs [wordArg (DX_blockHeight ctx), rowsArg (MiningReward_Value (DC_env conf)) rewards]))"

text \<open>
  The value of a row with an unknown transaction is an error, which \<open>database/sql\<close> reports for the
  second argument.
\<close>

fun burntValues :: "db_env \<Rightarrow> (string \<Rightarrow> go_error + int) \<Rightarrow> postgresAddrBurntCoins list \<Rightarrow> go_error + string option list" where
  "burntValues d getTxId [] = Inr []"
| "burntValues d getTxId (v # vs) = (case postgresAddrBurntCoins_Value d getTxId v of
       Inl err \<Rightarrow> Inl (TextError (''sql: converting argument $2 type: '' @ errorText err))
     | Inr row \<Rightarrow> (case burntValues d getTxId vs of Inl err \<Rightarrow> Inl err | Inr rows \<Rightarrow> Inr (Some row # rows)))"

definition saveBurntCoins :: "db_conf \<Rightarrow> ('w, 's) sql \<Rightarrow> db_context \<Rightarrow> (address \<rightharpoonup> BurntCoins list) \<Rightarrow> ('s, unit) action" where
  "saveBurntCoins conf ops ctx burnt =
     (if DC_burntOrder conf burnt = [] then sqlReturn ()
      else sqlWrap ''unable to save burnt coins'' (execTx conf ops ''insertBurntCoins.sql''
        (Some (case burntValues (DC_env conf) (txId ctx) (getPostgresBurntCoins (DC_env conf) (DC_burntOrder conf burnt)) of
           Inl err \<Rightarrow> Inl err
         | Inr rows \<Rightarrow> Inr [wordArg (DX_blockHeight ctx), ATexts rows]))))"

section \<open>The result of an epoch\<close>

text \<open>An argument that was not set is null. The rewards are the thirteen arguments made of \<open>EpochRewards\<close>.\<close>

definition flipArgs :: "ext \<Rightarrow> EpochResult \<Rightarrow> flip_arrays option" where
  "flipArgs e r = (if Res_FlipStats r = [] then None else Some (getFlipStatsArrays e (Res_FlipStats r)))"

definition identityArgs :: "EpochResult \<Rightarrow> flip_arrays option \<Rightarrow> (postgresEpochIdentity list \<times> postgresFlipToSolve list) option" where
  "identityArgs r arrays =
     (if Res_Identities r = [] then None
      else Some (getEpochIdentitiesArrays (Res_Identities r) (map_option FA_shortCounts arrays)
             (map_option FA_longCounts arrays) (map_option FA_wrongWords arrays)))"

definition epochResultArgs :: "db_conf \<Rightarrow> uint64 \<Rightarrow> uint64 \<Rightarrow> EpochResult \<Rightarrow> json \<Rightarrow> sqlArg list" where
  "epochResultArgs conf epoch height r data =
     (let d = DC_env conf; e = DE_ext d; arrays = flipArgs e r; identities = identityArgs r arrays; rewards = Res_EpochRewards r
      in [wordArg epoch, wordArg height, rowsArg (Birthday_Value d) (Res_Birthdays r),
          optArg (\<lambda>(rows, _). rowsArg (postgresEpochIdentity_Value d) rows) identities,
          optArg (\<lambda>(_, rows). rowsArg postgresFlipToSolve_Value rows) identities,
          ATexts (map (\<lambda>k. MemPoolFlipKey_Value d (Some k)) (Res_MemPoolFlipKeys r)),
          optArg (\<lambda>a. rowsArg (postgresAnswer_Value d) (FA_answers a)) arrays,
          optArg (\<lambda>a. rowsArg (postgresFlipsState_Value d) (FA_states a)) arrays,
          optArg (\<lambda>w. rowsArg (BadAuthor_Value d) (EpR_BadAuthors w)) rewards,
          optArg (\<lambda>w. optArg AText (TotalRewards_Value d (EpR_Total w))) rewards,
          optArg (\<lambda>w. rowsArg (Reward_Value d) (EpR_ValidationRewards w)) rewards,
          optArg (\<lambda>w. rowsArg postgresRewardAge_Value (getRewardAgesArray (DC_agesOrder conf (EpR_AgesByAddress w)))) rewards,
          optArg (\<lambda>w. rowsArg (postgresRewardStakedAmount_Value d)
            (getRewardStakedAmountsArray e (DC_stakesOrder conf (EpR_StakedAmountsByAddress w)))) rewards,
          optArg (\<lambda>w. rowsArg (postgresRewardStakedAmount_Value d)
            (getRewardStakedAmountsArray e (DC_stakesOrder conf (EpR_FailedStakedAmountsByAddress w)))) rewards,
          optArg (\<lambda>w. rowsArg (Reward_Value d) (EpR_FundRewards w)) rewards,
          optArg (\<lambda>w. rowsArg id (EpR_RewardedFlipCids w)) rewards,
          optArg (\<lambda>w. rowsArg id (EpR_RewardedExtraFlipCids w)) rewards,
          optArg (\<lambda>w. rowsArg (RewardedInvite_Value d) (EpR_RewardedInvitations w)) rewards,
          optArg (\<lambda>w. rowsArg (SavedInviteRewards_Value d) (EpR_SavedInviteRewards w)) rewards,
          optArg (\<lambda>w. rowsArg (ReportedFlipReward_Value d) (EpR_ReportedFlipRewards w)) rewards,
          ABool (Res_FailedValidation r), AFloat (Res_MinScoreForInvite r),
          optArg (\<lambda>w. rowsArg (RewardedInvitee_Value d) (EpR_RewardedInvitees w)) rewards,
          AJson data])"

definition saveEpochResult :: "db_conf \<Rightarrow> ('w, 's) sql \<Rightarrow> uint64 \<Rightarrow> uint64 \<Rightarrow> EpochResult option \<Rightarrow> ('s, unit) action" where
  "saveEpochResult conf ops epoch height epochResult = (case epochResult of
       None \<Rightarrow> sqlReturn ()
     | Some r \<Rightarrow>
         (case getEpochResultData (DC_env conf) r of
            None \<Rightarrow> (\<lambda>s. (None, s))
          | Some data \<Rightarrow> sqlWrap ''unable to save epoch result'' (execTx conf ops ''saveEpochResult.sql''
              (plainArgs (epochResultArgs conf epoch height r (epochResultData_Value (DC_env conf) data))))))"

end
