(* ===== verification/Check_Balances.thy ===== *)
theory Check_Balances
  imports Stats_Types Token_Collector "HOL-Library.AList"
begin

text \<open>
  The comparison of the node's balances with the database after a block,
  \<open>src/indexer/check_balances.go\<close>. The answers of the database are arguments, \<open>None\<close> being an error;
  the accounts come in the order of the node's iteration. Every failure is a panic, so the result is
  whether the check passes.
\<close>

record balanceData =
  BD_address :: string
  BD_balance :: decimal

text \<open>\<open>toMap\<close> and the same loop over the accounts: a later entry of a key overwrites an earlier one.\<close>

definition toMap :: "(string \<times> decimal) list \<Rightarrow> (string \<times> balanceData) list" where
  "toMap rows = fold (\<lambda>(addr, balance). AList.update (toLower addr) \<lparr>BD_address = toLower addr, BD_balance = balance\<rparr>) rows []"

text \<open>
  \<open>check\<close>: the first loop deletes from both copies the entry it looks at; what is left of the second
  map must be zero. \<open>True\<close> is the nil error.
\<close>

fun checkFirst :: "(string \<times> balanceData) list \<Rightarrow> (string \<times> balanceData) list \<Rightarrow> (string \<times> balanceData) list option" where
  "checkFirst [] b2 = Some b2"
| "checkFirst ((addr, info1) # rest) b2 = (case map_of b2 addr of
       None \<Rightarrow> if BD_balance info1 = 0 then checkFirst rest b2 else None
     | Some info2 \<Rightarrow> if BD_balance info1 = BD_balance info2 then checkFirst rest (AList.delete addr b2) else None)"

definition balancesAgree :: "(string \<times> balanceData) list \<Rightarrow> (string \<times> balanceData) list \<Rightarrow> bool" where
  "balancesAgree b1 b2 = (case checkFirst b1 b2 of
       None \<Rightarrow> False
     | Some rest \<Rightarrow> list_all (\<lambda>(addr, info). BD_balance info = 0) rest)"

record balance_answers =
  BA_gapCnt :: "int option"
  BA_burntCnt :: "int option"
  BA_balances :: "(string \<times> decimal) list option"
  BA_latestUpdates :: "(string \<times> decimal) list option"

definition checkBalances :: "ext \<Rightarrow> (address \<times> bigint) list \<Rightarrow> balance_answers \<Rightarrow> bool" where
  "checkBalances e accounts db = (case (BA_gapCnt db, BA_burntCnt db, BA_balances db, BA_latestUpdates db) of
       (Some gapCnt, Some burntCnt, Some dbBalances, Some dbLatest) \<Rightarrow>
         \<not> gapCnt > 0 \<and> \<not> burntCnt > 0 \<and>
         (let stateBalances = toMap (map (\<lambda>(addr, balance). (X_addrHex e addr, X_convertToFloat e balance)) accounts)
          in balancesAgree stateBalances (toMap dbBalances) \<and> balancesAgree stateBalances (toMap dbLatest))
     | _ \<Rightarrow> False)"

section \<open>The check decides agreement\<close>

definition balanceAt :: "(string \<times> balanceData) list \<Rightarrow> string \<Rightarrow> decimal" where
  "balanceAt b a = (case map_of b a of None \<Rightarrow> 0 | Some info \<Rightarrow> BD_balance info)"

lemma checkFirst_iff:
  assumes "distinct (map fst b1)" "distinct (map fst b2)"
  shows "checkFirst b1 b2 = (if \<forall>a \<in> fst ` set b1. balanceAt b1 a = balanceAt b2 a
     then Some (filter (\<lambda>(a, _). a \<notin> fst ` set b1) b2) else None)"
  using assms
proof (induction b1 b2 rule: checkFirst.induct)
  case (1 b2)
  then show ?case by simp
next
  case (2 addr info1 rest b2)
  have rest: "distinct (map fst rest)" "addr \<notin> fst ` set rest" using "2.prems" by auto
  have del: "filter (\<lambda>(a, _). a \<notin> fst ` set rest) (AList.delete addr b2) = filter (\<lambda>(a, _). a \<notin> fst ` set ((addr, info1) # rest)) b2"
    by (auto simp: AList.delete_eq filter_filter split_def intro: filter_cong)
  have other: "balanceAt ((addr, info1) # rest) a = balanceAt rest a" "balanceAt (AList.delete addr b2) a = balanceAt b2 a"
    if "a \<in> fst ` set rest" for a
    using that rest(2) by (auto simp: balanceAt_def AList.delete_conv')
  show ?case
  proof (cases "map_of b2 addr")
    case None
    then have gone: "filter (\<lambda>(a, _). a \<notin> fst ` set rest) b2 = filter (\<lambda>(a, _). a \<notin> fst ` set ((addr, info1) # rest)) b2"
      by (intro filter_cong) (auto simp: map_of_eq_None_iff image_iff)
    show ?thesis
      using None "2.IH"(1) [OF None _ rest(1) "2.prems"(2)] gone other by (auto simp: balanceAt_def)
  next
    case (Some info2)
    have "distinct (map fst (AList.delete addr b2))" using "2.prems"(2) by (rule AList.distinct_delete)
    with Some "2.IH"(2) [OF Some _ rest(1)] del other show ?thesis by (auto simp: balanceAt_def)
  qed
qed

lemma toMap_distinct: "distinct (map fst (toMap rows))"
proof -
  have "distinct (map fst (fold (\<lambda>(addr, balance). AList.update (toLower addr) \<lparr>BD_address = toLower addr, BD_balance = balance\<rparr>) rows m))"
    if "distinct (map fst m)" for m
    using that by (induction rows arbitrary: m) (auto simp: AList.distinct_update)
  then show ?thesis by (simp add: toMap_def)
qed

lemma balancesAgree_iff:
  assumes "distinct (map fst b1)" "distinct (map fst b2)"
  shows "balancesAgree b1 b2 \<longleftrightarrow> balanceAt b1 = balanceAt b2"
proof -
  have rest: "(\<forall>(a, info) \<in> set b2. a \<notin> fst ` set b1 \<longrightarrow> BD_balance info = 0) \<longleftrightarrow> (\<forall>a. a \<notin> fst ` set b1 \<longrightarrow> balanceAt b2 a = 0)"
  proof
    assume h: "\<forall>(a, info) \<in> set b2. a \<notin> fst ` set b1 \<longrightarrow> BD_balance info = 0"
    show "\<forall>a. a \<notin> fst ` set b1 \<longrightarrow> balanceAt b2 a = 0"
      using h by (auto simp: balanceAt_def split: option.split dest: map_of_SomeD)
  next
    assume h: "\<forall>a. a \<notin> fst ` set b1 \<longrightarrow> balanceAt b2 a = 0"
    show "\<forall>(a, info) \<in> set b2. a \<notin> fst ` set b1 \<longrightarrow> BD_balance info = 0"
      using h assms(2) by (force simp: balanceAt_def)
  qed
  have zero: "balanceAt b1 a = 0" if "a \<notin> fst ` set b1" for a
    using that by (simp add: balanceAt_def map_of_eq_None_iff [THEN iffD2])
  have "balancesAgree b1 b2 \<longleftrightarrow> (\<forall>a \<in> fst ` set b1. balanceAt b1 a = balanceAt b2 a)
      \<and> (\<forall>(a, info) \<in> set b2. a \<notin> fst ` set b1 \<longrightarrow> BD_balance info = 0)"
    by (auto simp: balancesAgree_def checkFirst_iff [OF assms] list_all_iff)
  also have "\<dots> \<longleftrightarrow> balanceAt b1 = balanceAt b2"
    unfolding rest using zero by (metis ext)
  finally show ?thesis .
qed

section \<open>Properties\<close>

text \<open>C16: The check after a block passes exactly when the database answers all four queries, reports
  no gaps in the balance updates and no inconsistent burnt coins, and the node's balances agree,
  address by address and with an absent address counting as zero, with the stored balances and with
  the latest balance updates. (Addresses are compared in lower case.)\<close>
theorem balance_check_exact:
  "checkBalances e accounts db \<longleftrightarrow>
     (\<exists>gapCnt burntCnt dbBalances dbLatest. BA_gapCnt db = Some gapCnt \<and> gapCnt \<le> 0 \<and> BA_burntCnt db = Some burntCnt \<and> burntCnt \<le> 0
       \<and> BA_balances db = Some dbBalances \<and> BA_latestUpdates db = Some dbLatest
       \<and> balanceAt (toMap (map (\<lambda>(addr, balance). (X_addrHex e addr, X_convertToFloat e balance)) accounts)) = balanceAt (toMap dbBalances)
       \<and> balanceAt (toMap (map (\<lambda>(addr, balance). (X_addrHex e addr, X_convertToFloat e balance)) accounts)) = balanceAt (toMap dbLatest))"
  by (auto simp: checkBalances_def Let_def balancesAgree_iff [OF toMap_distinct toMap_distinct] split: option.splits)

end
