(* ===== verification/Indexer_Loop.thy ===== *)
theory Indexer_Loop
  imports Block_Data Check_Balances Restoring
begin

text \<open>
  The main loop of the indexer: \<open>indexBlock\<close> of \<open>src/indexer/indexer.go\<close> with everything it calls
  before and after the conversion of a block. The node calls it for every new block and does not go
  on before it returns, so what is read from the node is fixed during a call (\<open>index_conf\<close>); the
  database answers differently from call to call and is part of the world. A loop that waits for an
  answer gets fuel. The log and the snapshot files of the state trees are left out.
\<close>

section \<open>State\<close>

datatype event = NewEpochEvent uint16 uint64 | NewBlockEvent uint64 nat
  | CurrentEpochEvent uint16 uint64 uint64 nat

text \<open>
  The fields of \<open>Indexer\<close> that change. \<open>Ix_secondary\<close> is the last height of the secondary storage,
  \<open>None\<close> when there is none (any more); \<open>Ix_events\<close> are the published events, \<open>Ix_flipsToLoad\<close> what
  the flip loader was given, \<open>Ix_queue\<close> the channel of the upgrade votes.
\<close>

record Indexer =
  Ix_state :: "indexerState option"
  Ix_secondary :: "uint64 option"
  Ix_restore :: bool
  Ix_firstBlockHeight :: uint64
  Ix_firstBlockHeightInitialized :: bool
  Ix_collector :: statsCollector
  Ix_events :: "event list"
  Ix_flipsToLoad :: "flipTx list"
  Ix_queue :: "(UpgradeVotes list \<times> uint64) list"

text \<open>
  What the indexer is configured with and what it reads of the node during a call: \<open>IC_getBlock\<close> of
  the chain, \<open>IC_head\<close> the height of \<open>Blockchain.Head\<close>, the current epoch, its first block and the
  validation period, and the accounts of the current state.
\<close>

record index_conf =
  IC_enabled :: bool
  IC_checkBalances :: bool
  IC_env :: block_env
  IC_secondaryScore :: "uint64 \<Rightarrow> rat option"
  IC_secondaryFlipKeys :: "uint16 \<Rightarrow> MemPoolFlipKey list option"
  IC_readonly :: "uint64 \<Rightarrow> node_state option"
  IC_getBlock :: "hash \<Rightarrow> node_block option"
  IC_head :: "uint64 option"
  IC_epoch :: uint16
  IC_epochBlock :: uint64
  IC_period :: nat
  IC_accounts :: "(address \<times> bigint) list"

type_synonym 'w ops = "('w, Data, balance_answers) world"

section \<open>Heights and the state\<close>

definition getGenesisBlock :: "index_conf \<Rightarrow> node_block option" where
  "getGenesisBlock conf = IC_getBlock conf (BE_genesisHash (IC_env conf))"

definition isFirstBlockHeight :: "Indexer \<Rightarrow> uint64 \<Rightarrow> bool" where
  "isFirstBlockHeight ix height \<longleftrightarrow> height = Ix_firstBlockHeight ix"

fun loadState :: "'w ops \<Rightarrow> nat \<Rightarrow> 'w \<Rightarrow> indexerState outcome \<times> 'w" where
  "loadState ops 0 w = (Waiting, w)"
| "loadState ops (Suc n) w =
     (case W_GetLastHeight ops w of
        (None, w1) \<Rightarrow> loadState ops n (W_sleep ops w1)
      | (Some lastHeight, w1) \<Rightarrow>
          (case W_ActualOracleVotings ops w1 of
             (None, w2) \<Rightarrow> loadState ops n (W_sleep ops w2)
           | (Some actualVotings, w2) \<Rightarrow>
               (Returns \<lparr>IS_lastIndexedHeight = lastHeight, IS_totalBalance = None, IS_totalStake = None,
                  IS_actualOracleVotings = newActualOracleVotingHolder actualVotings\<rparr>, w2)))"

text \<open>\<open>None\<close> is a panic: the state, the genesis block or the head of the chain is nil.\<close>

definition initFirstBlockHeight :: "index_conf \<Rightarrow> Indexer \<Rightarrow> Indexer option" where
  "initFirstBlockHeight conf ix =
     (if Ix_firstBlockHeightInitialized ix then Some ix
      else do {
        st \<leftarrow> Ix_state ix;
        first \<leftarrow> (if IS_lastIndexedHeight st = 0 then map_option B_Height (getGenesisBlock conf) else Some 1);
        head \<leftarrow> IC_head conf;
        Some (ix\<lparr>Ix_firstBlockHeight := first, Ix_firstBlockHeightInitialized := True,
           Ix_events := Ix_events ix @ [CurrentEpochEvent (IC_epoch conf) (IC_epochBlock conf) head (IC_period conf)]\<rparr>) })"

text \<open>\<open>Returns True\<close> is a nil error.\<close>

definition resetTo :: "index_conf \<Rightarrow> 'w ops \<Rightarrow> nat \<Rightarrow> uint64 \<Rightarrow> Indexer \<Rightarrow> 'w \<Rightarrow> bool outcome \<times> Indexer \<times> 'w" where
  "resetTo conf ops n height ix w =
     (case W_ResetTo ops height w of
        (False, w1) \<Rightarrow> (Returns False, ix, w1)
      | (True, w1) \<Rightarrow>
          (case loadState ops n w1 of
             (Returns st, w2) \<Rightarrow>
               (case initFirstBlockHeight conf (ix\<lparr>Ix_state := Some st, Ix_firstBlockHeightInitialized := False\<rparr>) of
                  None \<Rightarrow> (Panics, ix\<lparr>Ix_state := Some st, Ix_firstBlockHeightInitialized := False\<rparr>, w2)
                | Some ix1 \<Rightarrow> (Returns True, ix1, w2))
           | (Panics, w2) \<Rightarrow> (Panics, ix, w2)
           | (Waiting, w2) \<Rightarrow> (Waiting, ix, w2)))"

definition getHeightToIndex :: "'w ops \<Rightarrow> nat \<Rightarrow> Indexer \<Rightarrow> 'w \<Rightarrow> uint64 outcome \<times> Indexer \<times> 'w" where
  "getHeightToIndex ops n ix w = (case Ix_state ix of
       Some st \<Rightarrow> (Returns (IS_lastIndexedHeight st + 1), ix, w)
     | None \<Rightarrow>
         (case loadState ops n w of
            (Returns st, w1) \<Rightarrow> (Returns (IS_lastIndexedHeight st + 1), ix\<lparr>Ix_state := Some st\<rparr>, w1)
          | (Panics, w1) \<Rightarrow> (Panics, ix, w1)
          | (Waiting, w1) \<Rightarrow> (Waiting, ix, w1)))"

text \<open>The totals of a state; the iteration over the accounts stops at a nil key.\<close>

fun sumAccounts :: "(bytes \<Rightarrow> address) \<Rightarrow> app_state \<Rightarrow> bytes option list \<Rightarrow> int \<times> int \<Rightarrow> (int \<times> int) option" where
  "sumAccounts toAddr app [] totals = Some totals"
| "sumAccounts toAddr app (None # keys) totals = Some totals"
| "sumAccounts toAddr app (Some key # keys) (totalBalance, totalStake) = do {
     addr \<leftarrow> BytesToAddr toAddr key;
     sumAccounts toAddr app keys (totalBalance + AS_GetBalance app addr, totalStake + AS_GetStakeBalance app addr) }"

text \<open>The error of an unavailable state ends in a panic of the caller.\<close>

definition initializeStateIfNeeded :: "index_conf \<Rightarrow> node_block \<Rightarrow> Indexer \<Rightarrow> Indexer option" where
  "initializeStateIfNeeded conf b ix = do {
     st \<leftarrow> Ix_state ix;
     if IS_totalStake st \<noteq> None \<and> IS_totalBalance st \<noteq> None then Some ix
     else do {
       prevState \<leftarrow> IC_readonly conf (B_Height b - 1);
       (totalBalance, totalStake) \<leftarrow> sumAccounts (BE_setBytes (IC_env conf)) (NS_app prevState) (NS_accountKeys prevState) (0, 0);
       Some (ix\<lparr>Ix_state := Some (st\<lparr>IS_totalBalance := Some totalBalance, IS_totalStake := Some totalStake\<rparr>)\<rparr>) } }"

section \<open>One block\<close>

text \<open>
  The conversion of a block with the indexer's state: the secondary storage is asked only while there
  is one, and a disabled collector hands out empty statistics. A panic and an error that the caller
  turns into a panic are both \<open>None\<close>.
\<close>

definition envOf :: "index_conf \<Rightarrow> Indexer \<Rightarrow> block_env" where
  "envOf conf ix = (IC_env conf)\<lparr>
     BE_SecondaryScore := (if Ix_secondary ix = None then None else Some (IC_secondaryScore conf)),
     BE_epoch := (BE_epoch (IC_env conf))\<lparr>EE_FlipKeysToMigrate :=
        (if Ix_secondary ix = None then (\<lambda>_. None) else IC_secondaryFlipKeys conf)\<rparr>\<rparr>"

definition collected :: "statsCollector \<Rightarrow> session option" where
  "collected c = (if SC_statsEnabled c then SC_session c else Some emptySession)"

definition convertWith :: "index_conf \<Rightarrow> Indexer \<Rightarrow> node_block \<Rightarrow> (Data \<times> resultData) option" where
  "convertWith conf ix b = do {
     st \<leftarrow> Ix_state ix;
     s \<leftarrow> collected (Ix_collector ix);
     res \<leftarrow> convertIncomingData (envOf conf ix) (IC_readonly conf) st (Ix_firstBlockHeight ix) s b;
     res }"

fun saveData :: "'w ops \<Rightarrow> Data \<Rightarrow> nat \<Rightarrow> 'w \<Rightarrow> unit outcome \<times> 'w" where
  "saveData ops data 0 w = (Waiting, w)"
| "saveData ops data (Suc n) w =
     (case W_Save ops data w of
        (True, w1) \<Rightarrow> (Returns (), w1)
      | (False, w1) \<Rightarrow> saveData ops data n (W_sleep ops w1))"

definition applyOnState :: "Data \<Rightarrow> resultData \<Rightarrow> indexerState \<Rightarrow> indexerState" where
  "applyOnState data rd st =
     \<lparr>IS_lastIndexedHeight = Bl_Height (D_Block data),
      IS_totalBalance = Some (RD_totalBalance rd), IS_totalStake = Some (RD_totalStake rd),
      IS_actualOracleVotings = holderRemove (D_OracleVotingContractsToProlong data)
        (holderRemove (RD_newNotActualOracleVotings rd) (holderAdd (RD_newActualOracleVotings rd) (IS_actualOracleVotings st)))\<rparr>"

text \<open>The channel holds five items; a sixth is dropped.\<close>

definition refreshUpgradeVotingHistorySummaries :: "UpgradeVotes list \<Rightarrow> uint64 \<Rightarrow> Indexer \<Rightarrow> Indexer" where
  "refreshUpgradeVotingHistorySummaries upgradesVotes height ix =
     (if length (Ix_queue ix) < 5 then ix\<lparr>Ix_queue := Ix_queue ix @ [(upgradesVotes, height)]\<rparr> else ix)"

text \<open>What happens after the data of a block is saved.\<close>

definition afterSave :: "index_conf \<Rightarrow> node_block \<Rightarrow> Data \<Rightarrow> resultData \<Rightarrow> Indexer \<Rightarrow> Indexer" where
  "afterSave conf b data rd ix =
     (let ix1 = ix\<lparr>Ix_flipsToLoad := Ix_flipsToLoad ix @ RD_flipTxs rd, Ix_state := map_option (applyOnState data rd) (Ix_state ix)\<rparr>;
          ix2 = (case Ix_secondary ix1 of
             None \<Rightarrow> ix1
           | Some lastHeight \<Rightarrow> if B_Height b \<ge> lastHeight then ix1\<lparr>Ix_secondary := None\<rparr> else ix1);
          ix3 = ix2\<lparr>Ix_events := Ix_events ix2 @
             (if ValidationFinished \<in> B_Flags b then [NewEpochEvent (ucast (D_Epoch data) + 1) (B_Height b)] else []) @
             [NewBlockEvent (B_Height b) (IC_period conf)]\<rparr>
      in refreshUpgradeVotingHistorySummaries (D_UpgradesVotes data) (B_Height b) ix3)"

definition setCollector :: "(statsCollector \<Rightarrow> statsCollector) \<Rightarrow> Indexer \<Rightarrow> Indexer" where
  "setCollector f ix = ix\<lparr>Ix_collector := f (Ix_collector ix)\<rparr>"

text \<open>The genesis block is converted with a disabled collector; only its rows are used.\<close>

definition indexGenesis :: "index_conf \<Rightarrow> 'w ops \<Rightarrow> nat \<Rightarrow> node_block option \<Rightarrow> Indexer \<Rightarrow> 'w \<Rightarrow> unit outcome \<times> Indexer \<times> 'w" where
  "indexGenesis conf ops n genesis ix w = (case genesis of
       None \<Rightarrow> (Returns (), ix, w)
     | Some g \<Rightarrow>
         (let ix1 = setCollector Disable ix
          in case convertWith conf ix1 g of
            None \<Rightarrow> (Panics, ix1, w)
          | Some (data, rd) \<Rightarrow> (let (r, w1) = saveData ops data n w in (r, ix1, w1))))"

definition restoreIfNeeded :: "index_conf \<Rightarrow> 'w ops \<Rightarrow> nat \<Rightarrow> Indexer \<Rightarrow> 'w \<Rightarrow> unit outcome \<times> Indexer \<times> 'w" where
  "restoreIfNeeded conf ops n ix w =
     (if Ix_restore ix
      then (case Restore (BE_ext (IC_env conf)) (BE_setBytes (IC_env conf)) (IC_readonly conf) (IC_head conf) ops n w of
          (Returns u, w1) \<Rightarrow> (Returns (), ix\<lparr>Ix_restore := False\<rparr>, w1)
        | (r, w1) \<Rightarrow> (r, ix, w1))
      else (Returns (), ix, w))"

definition indexCurrent :: "index_conf \<Rightarrow> 'w ops \<Rightarrow> nat \<Rightarrow> node_block \<Rightarrow> Indexer \<Rightarrow> 'w \<Rightarrow> unit outcome \<times> Indexer \<times> 'w" where
  "indexCurrent conf ops n b ix w =
     (let ix1 = setCollector Enable ix
      in case convertWith conf ix1 b of
        None \<Rightarrow> (Panics, ix1, w)
      | Some (data, rd) \<Rightarrow>
          (case saveData ops data n w of
             (Returns u, w1) \<Rightarrow>
               (let ix2 = afterSave conf b data rd ix1
                in if \<not> IC_checkBalances conf then (Returns (), ix2, w1)
                   else let (answers, w2) = W_balanceAnswers ops w1
                        in (if checkBalances (BE_ext (IC_env conf)) (IC_accounts conf) answers then Returns () else Panics, ix2, w2))
           | (r, w1) \<Rightarrow> (r, ix1, w1)))"

definition andThen :: "unit outcome \<times> Indexer \<times> 'w \<Rightarrow> (Indexer \<Rightarrow> 'w \<Rightarrow> unit outcome \<times> Indexer \<times> 'w) \<Rightarrow>
    unit outcome \<times> Indexer \<times> 'w" where
  "andThen r f = (case r of
       (Returns u, ix, w) \<Rightarrow> f ix w
     | (Panics, ix, w) \<Rightarrow> (Panics, ix, w)
     | (Waiting, ix, w) \<Rightarrow> (Waiting, ix, w))"

text \<open>The part of an iteration after the comparison of the heights.\<close>

definition processBlock :: "index_conf \<Rightarrow> 'w ops \<Rightarrow> nat \<Rightarrow> node_block \<Rightarrow> node_block option \<Rightarrow> Indexer \<Rightarrow> 'w \<Rightarrow>
    unit outcome \<times> Indexer \<times> 'w" where
  "processBlock conf ops n b genesis ix w = (case initializeStateIfNeeded conf b ix of
       None \<Rightarrow> (Panics, ix, w)
     | Some ix1 \<Rightarrow>
         andThen (andThen (indexGenesis conf ops n genesis ix1 w) (restoreIfNeeded conf ops n)) (indexCurrent conf ops n b))"

section \<open>The loop\<close>

text \<open>
  One comparison of the heights: the block is beyond the expected height, before it, or expected.
  \<open>retry genesis ix w\<close> is the next iteration.
\<close>

definition resetAndRetry :: "index_conf \<Rightarrow> 'w ops \<Rightarrow> nat \<Rightarrow> node_block \<Rightarrow> uint64 \<Rightarrow> (Indexer \<Rightarrow> 'w \<Rightarrow> unit outcome \<times> Indexer \<times> 'w) \<Rightarrow>
    Indexer \<Rightarrow> 'w \<Rightarrow> unit outcome \<times> Indexer \<times> 'w" where
  "resetAndRetry conf ops n b heightToReset retry ix w =
     (case resetTo conf ops n heightToReset ix w of
        (Returns True, ix1, w1) \<Rightarrow> retry (ix1\<lparr>Ix_restore := Ix_restore ix1 \<or> \<not> isFirstBlockHeight ix1 (B_Height b)\<rparr>) w1
      | (Returns False, ix1, w1) \<Rightarrow> retry ix1 (W_sleep ops w1)
      | (Panics, ix1, w1) \<Rightarrow> (Panics, ix1, w1)
      | (Waiting, ix1, w1) \<Rightarrow> (Waiting, ix1, w1))"

fun indexLoop :: "index_conf \<Rightarrow> 'w ops \<Rightarrow> nat \<Rightarrow> node_block \<Rightarrow> node_block option \<Rightarrow> Indexer \<Rightarrow> 'w \<Rightarrow>
    unit outcome \<times> Indexer \<times> 'w" where
  "indexLoop conf ops 0 b genesis ix w = (Waiting, ix, w)"
| "indexLoop conf ops (Suc n) b genesis ix w =
     (case getHeightToIndex ops n ix w of
        (Panics, ix1, w1) \<Rightarrow> (Panics, ix1, w1)
      | (Waiting, ix1, w1) \<Rightarrow> (Waiting, ix1, w1)
      | (Returns height, ix1, w1) \<Rightarrow>
          (let heightToIndex = (if genesis = None then height else height + 1) in
           if B_Height b > heightToIndex then
             (case getGenesisBlock conf of
                None \<Rightarrow> indexLoop conf ops n b None ix1 (W_sleep ops w1)
              | Some g \<Rightarrow>
                  if B_Height b \<noteq> B_Height g + 1 then (Panics, ix1, w1)
                  else processBlock conf ops n b (Some g) ix1 w1)
           else if B_Height b < heightToIndex then
             (if \<not> isFirstBlockHeight ix1 (B_Height b) \<and> B_ParentHash b = BE_genesisHash (IC_env conf) then
                (case getGenesisBlock conf of
                   None \<Rightarrow> indexLoop conf ops n b None ix1 (W_sleep ops w1)
                 | Some g \<Rightarrow> resetAndRetry conf ops n b (B_Height b - 2) (indexLoop conf ops n b (Some g)) ix1 w1)
              else resetAndRetry conf ops n b (B_Height b - 1) (indexLoop conf ops n b genesis) ix1 w1)
           else processBlock conf ops n b genesis ix1 w1))"

text \<open>A disabled indexer sleeps for ever.\<close>

definition indexBlock :: "index_conf \<Rightarrow> 'w ops \<Rightarrow> nat \<Rightarrow> node_block \<Rightarrow> Indexer \<Rightarrow> 'w \<Rightarrow> unit outcome \<times> Indexer \<times> 'w" where
  "indexBlock conf ops n b ix w =
     (if \<not> IC_enabled conf then (Waiting, ix, w)
      else case initFirstBlockHeight conf ix of
        None \<Rightarrow> (Panics, ix, w)
      | Some ix1 \<Rightarrow> indexLoop conf ops n b None ix1 w)"

text \<open>
  \<open>Start\<close> begins to listen at the height below the one to index; the other goroutines it starts are
  modelled in \<open>Mempool_Timestamps\<close> and \<open>Upgrade_Voting\<close>.
\<close>

definition Start :: "'w ops \<Rightarrow> nat \<Rightarrow> Indexer \<Rightarrow> 'w \<Rightarrow> uint64 outcome \<times> Indexer \<times> 'w" where
  "Start ops n ix w = (case getHeightToIndex ops n ix w of
       (Returns height, ix1, w1) \<Rightarrow> (Returns (height - 1), ix1, w1)
     | (Panics, ix1, w1) \<Rightarrow> (Panics, ix1, w1)
     | (Waiting, ix1, w1) \<Rightarrow> (Waiting, ix1, w1))"

end
