(* ===== verification/Indexer_Properties.thy ===== *)
theory Indexer_Properties
  imports Indexer_Loop
begin

text \<open>
  The main loop against the database: a contract of the database over the set of heights it stores,
  what a call of \<open>indexBlock\<close> leaves there, that it ends, and that the totals follow the accounts
  from block to block.
\<close>

section \<open>The contract of the database\<close>

definition lastOf :: "uint64 set \<Rightarrow> uint64" where
  "lastOf A = (if A = {} then 0 else Max A)"

text \<open>
  \<open>view\<close> is the set of the stored heights. A failed call changes nothing: \<open>ResetTo\<close> and \<open>Save\<close> run
  in a transaction.
\<close>

definition database_ok :: "'w ops \<Rightarrow> ('w \<Rightarrow> uint64 set) \<Rightarrow> bool" where
  "database_ok ops view \<longleftrightarrow>
     (\<forall>w. view (snd (W_GetLastHeight ops w)) = view w) \<and>
     (\<forall>w h. fst (W_GetLastHeight ops w) = Some h \<longrightarrow> h = lastOf (view w)) \<and>
     (\<forall>w. view (snd (W_ActualOracleVotings ops w)) = view w) \<and>
     (\<forall>w h. view (snd (W_ResetTo ops h w)) = (if fst (W_ResetTo ops h w) then {x \<in> view w. x \<le> h} else view w)) \<and>
     (\<forall>w d. view (snd (W_Save ops d w)) = (if fst (W_Save ops d w) then insert (Bl_Height (D_Block d)) (view w) else view w)) \<and>
     (\<forall>w d. view (snd (W_SaveRestoredData ops d w)) = view w) \<and>
     (\<forall>w. view (snd (W_balanceAnswers ops w)) = view w) \<and>
     (\<forall>w. view (W_sleep ops w) = view w)"

lemma lastOf_ge: "x \<in> A \<Longrightarrow> x \<le> lastOf A"
  by (auto simp: lastOf_def)

lemma lastOf_in: "A \<noteq> {} \<Longrightarrow> lastOf A \<in> A"
  by (simp add: lastOf_def)

lemma lastOf_eqI: "x \<in> A \<Longrightarrow> (\<And>y. y \<in> A \<Longrightarrow> y \<le> x) \<Longrightarrow> lastOf A = x"
  by (auto simp: lastOf_def intro: Max_eqI)

lemma lastOf_restrict: "lastOf {x \<in> A. x \<le> h} \<le> h"
  by (auto simp: lastOf_def)

lemma lastOf_bound: "\<forall>x \<in> A. x < 2 ^ 63 \<Longrightarrow> lastOf A < 2 ^ 63"
  by (cases "A = {}") (auto simp: lastOf_def)

text \<open>The state in memory and the database agree on the last height.\<close>

definition coherent :: "Indexer \<Rightarrow> uint64 set \<Rightarrow> bool" where
  "coherent ix A \<longleftrightarrow> (\<forall>st. Ix_state ix = Some st \<longrightarrow> IS_lastIndexedHeight st = lastOf A)"

lemma db_height:
  assumes "database_ok ops view" "W_GetLastHeight ops w = (r, w1)"
  shows "view w1 = view w \<and> (\<forall>h. r = Some h \<longrightarrow> h = lastOf (view w))"
proof -
  have "view (snd (W_GetLastHeight ops w)) = view w" "\<forall>h. fst (W_GetLastHeight ops w) = Some h \<longrightarrow> h = lastOf (view w)"
    using assms(1) by (simp_all add: database_ok_def)
  then show ?thesis by (simp add: assms(2))
qed

lemma db_votings:
  assumes "database_ok ops view" "W_ActualOracleVotings ops w = (r, w1)"
  shows "view w1 = view w"
proof -
  have "view (snd (W_ActualOracleVotings ops w)) = view w"
    using assms(1) by (simp_all add: database_ok_def)
  then show ?thesis by (simp add: assms(2))
qed

lemma db_reset:
  assumes "database_ok ops view" "W_ResetTo ops h w = (r, w1)"
  shows "view w1 = (if r then {x \<in> view w. x \<le> h} else view w)"
proof -
  have "view (snd (W_ResetTo ops h w)) = (if fst (W_ResetTo ops h w) then {x \<in> view w. x \<le> h} else view w)"
    using assms(1) by (simp_all add: database_ok_def)
  then show ?thesis by (simp add: assms(2))
qed

lemma db_save:
  assumes "database_ok ops view" "W_Save ops d w = (r, w1)"
  shows "view w1 = (if r then insert (Bl_Height (D_Block d)) (view w) else view w)"
proof -
  have "view (snd (W_Save ops d w)) = (if fst (W_Save ops d w) then insert (Bl_Height (D_Block d)) (view w) else view w)"
    using assms(1) by (simp_all add: database_ok_def)
  then show ?thesis by (simp add: assms(2))
qed

lemma db_restored:
  assumes "database_ok ops view" "W_SaveRestoredData ops d w = (r, w1)"
  shows "view w1 = view w"
proof -
  have "view (snd (W_SaveRestoredData ops d w)) = view w"
    using assms(1) by (simp_all add: database_ok_def)
  then show ?thesis by (simp add: assms(2))
qed

lemma db_answers:
  assumes "database_ok ops view" "W_balanceAnswers ops w = (r, w1)"
  shows "view w1 = view w"
proof -
  have "view (snd (W_balanceAnswers ops w)) = view w"
    using assms(1) by (simp_all add: database_ok_def)
  then show ?thesis by (simp add: assms(2))
qed

lemma db_sleep: "database_ok ops view \<Longrightarrow> view (W_sleep ops w) = view w"
  by (simp add: database_ok_def)

section \<open>The loops of one call\<close>

lemma loadState_view:
  assumes "database_ok ops view" "loadState ops n w = (r, w1)"
  shows "view w1 = view w \<and> r \<noteq> Panics \<and> (\<forall>st. r = Returns st \<longrightarrow>
    IS_lastIndexedHeight st = lastOf (view w) \<and> IS_totalBalance st = None \<and> IS_totalStake st = None)"
  using assms(2)
proof (induction n arbitrary: w)
  case (Suc n)
  obtain r1 wa where a: "W_GetLastHeight ops w = (r1, wa)" by fastforce
  obtain r2 wb where b: "W_ActualOracleVotings ops wa = (r2, wb)" by fastforce
  have v: "view wa = view w" "view (W_sleep ops wa) = view w" "view wb = view w" "view (W_sleep ops wb) = view w"
    "\<And>h. r1 = Some h \<Longrightarrow> h = lastOf (view w)"
    using db_height [OF assms(1) a] db_votings [OF assms(1) b] db_sleep [OF assms(1)] by auto
  show ?case
    using Suc.prems Suc.IH [of "W_sleep ops wa"] Suc.IH [of "W_sleep ops wb"] a b v
    by (cases r1; cases r2) auto
qed simp

lemma saveData_view:
  assumes "database_ok ops view" "saveData ops data n w = (r, w1)"
  shows "r \<noteq> Panics \<and> view w1 = (if r = Returns () then insert (Bl_Height (D_Block data)) (view w) else view w)"
  using assms(2)
proof (induction n arbitrary: w)
  case (Suc n)
  obtain ok wa where a: "W_Save ops data w = (ok, wa)" by fastforce
  show ?case
    using Suc.prems Suc.IH [of "W_sleep ops wa"] a db_save [OF assms(1) a] db_sleep [OF assms(1), of wa]
    by (cases ok) (auto split: if_splits)
qed simp

lemma Restore_view:
  assumes "database_ok ops view" "Restore e toAddr readonly head ops n w = (r, w1)"
  shows "view w1 = view w"
  using assms(2)
proof (induction n arbitrary: w)
  case (Suc n)
  obtain h wa where a: "W_GetLastHeight ops w = (h, wa)" by fastforce
  obtain r2 wb where b: "tryToRestore e toAddr readonly head ops w = (r2, wb)" by fastforce
  have wb: "view wb = view w"
    using b a db_height [OF assms(1) a]
    by (auto simp: tryToRestore_def apfst_def map_prod_def split: option.splits prod.splits dest: db_restored [OF assms(1)])
  show ?case
    using Suc.prems Suc.IH [of "W_sleep ops wb"] b wb db_sleep [OF assms(1), of wb]
    by (cases r2) (auto split: bool.splits)
qed simp

text \<open>What the loops leave alone: the session of the collector and the totals, unless the state is loaded anew.\<close>

definition sessionOf :: "Indexer \<Rightarrow> session option" where
  "sessionOf ix = SC_session (Ix_collector ix)"

definition totals_kept :: "Indexer \<Rightarrow> Indexer \<Rightarrow> bool" where
  "totals_kept ix ix1 \<longleftrightarrow> (\<forall>st1. Ix_state ix1 = Some st1 \<longrightarrow>
     (IS_totalBalance st1 = None \<and> IS_totalStake st1 = None) \<or>
     (\<exists>st. Ix_state ix = Some st \<and> IS_totalBalance st1 = IS_totalBalance st \<and> IS_totalStake st1 = IS_totalStake st))"

lemma totals_kept_refl [simp]: "totals_kept ix ix"
  by (simp add: totals_kept_def)

lemma totals_kept_trans: "totals_kept ix ix1 \<Longrightarrow> totals_kept ix1 ix2 \<Longrightarrow> totals_kept ix ix2"
  unfolding totals_kept_def by metis

lemma initFirstBlockHeight_frame:
  "initFirstBlockHeight conf ix = Some ix1 \<Longrightarrow> Ix_state ix1 = Ix_state ix \<and> Ix_collector ix1 = Ix_collector ix"
  by (auto simp: initFirstBlockHeight_def split: if_splits bind_splits)

lemma getHeightToIndex_view:
  assumes "database_ok ops view" "getHeightToIndex ops n ix w = (r, ix1, w1)" "coherent ix (view w)"
  shows "view w1 = view w \<and> r \<noteq> Panics \<and> coherent ix1 (view w1) \<and> totals_kept ix ix1 \<and> sessionOf ix1 = sessionOf ix
    \<and> (\<forall>h. r = Returns h \<longrightarrow> h = lastOf (view w) + 1 \<and> Ix_state ix1 \<noteq> None)"
proof (cases "Ix_state ix")
  case (Some st)
  with assms show ?thesis by (auto simp: getHeightToIndex_def coherent_def)
next
  case None
  obtain r2 w2 where l: "loadState ops n w = (r2, w2)" by fastforce
  show ?thesis
    using assms(2,3) None l loadState_view [OF assms(1) l]
    by (cases r2) (auto simp: getHeightToIndex_def coherent_def totals_kept_def sessionOf_def)
qed

lemma resetTo_view:
  assumes "database_ok ops view" "resetTo conf ops n height ix w = (r, ix1, w1)" "coherent ix (view w)"
  shows "(r = Returns False \<longrightarrow> ix1 = ix \<and> view w1 = view w)
    \<and> (r = Returns True \<longrightarrow> view w1 = {x \<in> view w. x \<le> height} \<and> coherent ix1 (view w1) \<and> totals_kept ix ix1
         \<and> sessionOf ix1 = sessionOf ix)"
proof -
  obtain ok wa where a: "W_ResetTo ops height w = (ok, wa)" by fastforce
  obtain r2 w2 where l: "loadState ops n wa = (r2, w2)" by fastforce
  show ?thesis
    using assms(2,3) a l db_reset [OF assms(1) a] loadState_view [OF assms(1) l]
    by (cases ok; cases r2)
      (auto simp: resetTo_def coherent_def totals_kept_def sessionOf_def split: option.splits dest!: initFirstBlockHeight_frame)
qed

section \<open>One block\<close>

lemma convertWith_height:
  assumes "convertWith conf ix b = Some (data, rd)"
  shows "Bl_Height (D_Block data) = B_Height b"
proof -
  obtain st s where "convertIncomingData (envOf conf ix) (IC_readonly conf) st (Ix_firstBlockHeight ix) s b = Some (Some (data, rd))"
    using assms by (auto simp: convertWith_def split: bind_splits)
  then show ?thesis by (rule convertIncomingData_parts) simp
qed

lemma setCollector_frame [simp]:
  "Ix_state (setCollector f ix) = Ix_state ix" "Ix_restore (setCollector f ix) = Ix_restore ix"
  "sessionOf (setCollector Enable ix) = sessionOf ix" "sessionOf (setCollector Disable ix) = sessionOf ix"
  "SC_statsEnabled (Ix_collector (setCollector Enable ix))"
  by (simp_all add: setCollector_def sessionOf_def Enable_def Disable_def)

lemma indexGenesis_returns:
  assumes "database_ok ops view" "indexGenesis conf ops n genesis ix w = (Returns (), ix1, w1)"
  shows "Ix_state ix1 = Ix_state ix \<and> sessionOf ix1 = sessionOf ix \<and> Ix_restore ix1 = Ix_restore ix
    \<and> view w1 = view w \<union> B_Height ` set_option genesis"
proof (cases genesis)
  case None
  with assms(2) show ?thesis by (simp add: indexGenesis_def)
next
  case (Some g)
  then obtain data rd where c: "convertWith conf (setCollector Disable ix) g = Some (data, rd)"
      and s: "saveData ops data n w = (Returns (), w1)" and ix1: "ix1 = setCollector Disable ix"
    using assms(2) by (auto simp: indexGenesis_def Let_def split: option.splits prod.splits)
  show ?thesis using saveData_view [OF assms(1) s] convertWith_height [OF c] by (simp add: ix1 Some)
qed

lemma restoreIfNeeded_returns:
  assumes "database_ok ops view" "restoreIfNeeded conf ops n ix w = (Returns (), ix1, w1)"
  shows "Ix_state ix1 = Ix_state ix \<and> Ix_collector ix1 = Ix_collector ix \<and> \<not> Ix_restore ix1 \<and> view w1 = view w"
  using assms(2) by (auto simp: restoreIfNeeded_def split: if_splits prod.splits outcome.splits dest: Restore_view [OF assms(1)])

lemma afterSave_frame:
  "Ix_state (afterSave conf b data rd ix) = map_option (applyOnState data rd) (Ix_state ix)"
  "Ix_collector (afterSave conf b data rd ix) = Ix_collector ix" "Ix_restore (afterSave conf b data rd ix) = Ix_restore ix"
  by (auto simp: afterSave_def Let_def refreshUpgradeVotingHistorySummaries_def split: option.split)

lemma indexCurrent_returns:
  assumes "database_ok ops view" "indexCurrent conf ops n b ix w = (Returns (), ix1, w1)"
  shows "\<exists>data rd. convertWith conf (setCollector Enable ix) b = Some (data, rd)
    \<and> Ix_state ix1 = map_option (applyOnState data rd) (Ix_state ix) \<and> sessionOf ix1 = sessionOf ix
    \<and> Ix_restore ix1 = Ix_restore ix \<and> view w1 = insert (B_Height b) (view w)"
proof -
  obtain data rd wa where c: "convertWith conf (setCollector Enable ix) b = Some (data, rd)"
      and s: "saveData ops data n w = (Returns (), wa)" and ix1: "ix1 = afterSave conf b data rd (setCollector Enable ix)"
      and w1: "view w1 = view wa"
    using assms(2) by (auto simp: indexCurrent_def Let_def split: option.splits prod.splits outcome.splits if_splits dest: db_answers [OF assms(1)])
  have "sessionOf ix1 = sessionOf ix" using afterSave_frame(2) [of conf b data rd "setCollector Enable ix"]
    by (simp add: ix1 sessionOf_def setCollector_def Enable_def)
  then show ?thesis
    using c saveData_view [OF assms(1) s] convertWith_height [OF c] by (auto simp: ix1 w1 afterSave_frame)
qed

lemma andThen_returns:
  assumes "andThen r f = (Returns (), ix2, w2)"
  obtains ix1 w1 where "r = (Returns (), ix1, w1)" "f ix1 w1 = (Returns (), ix2, w2)"
  using assms by (auto simp: andThen_def split: prod.splits outcome.splits)

lemma processBlock_returns:
  assumes "database_ok ops view" "processBlock conf ops n b genesis ix w = (Returns (), ix', w')"
  shows "\<exists>ix1 ix2 data rd. initializeStateIfNeeded conf b ix = Some ix1 \<and> Ix_state ix2 = Ix_state ix1
    \<and> sessionOf ix2 = sessionOf ix1 \<and> SC_statsEnabled (Ix_collector ix2) \<and> convertWith conf ix2 b = Some (data, rd)
    \<and> Ix_state ix' = map_option (applyOnState data rd) (Ix_state ix1) \<and> sessionOf ix' = sessionOf ix1 \<and> \<not> Ix_restore ix'
    \<and> view w' = insert (B_Height b) (view w \<union> B_Height ` set_option genesis)"
proof -
  obtain ix1 where i: "initializeStateIfNeeded conf b ix = Some ix1"
    and "andThen (andThen (indexGenesis conf ops n genesis ix1 w) (restoreIfNeeded conf ops n)) (indexCurrent conf ops n b) = (Returns (), ix', w')"
    using assms(2) by (auto simp: processBlock_def split: option.splits)
  then obtain ixa wa ixb wb where g: "indexGenesis conf ops n genesis ix1 w = (Returns (), ixa, wa)"
    and r: "restoreIfNeeded conf ops n ixa wa = (Returns (), ixb, wb)" and c: "indexCurrent conf ops n b ixb wb = (Returns (), ix', w')"
    by (metis andThen_returns)
  obtain data rd where cv: "convertWith conf (setCollector Enable ixb) b = Some (data, rd)"
    "Ix_state ix' = map_option (applyOnState data rd) (Ix_state ixb)" "sessionOf ix' = sessionOf ixb"
    "Ix_restore ix' = Ix_restore ixb" "view w' = insert (B_Height b) (view wb)"
    using indexCurrent_returns [OF assms(1) c] by blast
  note rest = indexGenesis_returns [OF assms(1) g] restoreIfNeeded_returns [OF assms(1) r]
  have "sessionOf ixb = sessionOf ix1" using rest by (simp add: sessionOf_def)
  then show ?thesis using i cv rest by (intro exI [of _ ix1] exI [of _ "setCollector Enable ixb"] exI [of _ data] exI [of _ rd]) simp
qed

section \<open>The heights\<close>

text \<open>The parent of a block is the block before it, the genesis block included.\<close>

definition genesis_precedes :: "index_conf \<Rightarrow> node_block \<Rightarrow> bool" where
  "genesis_precedes conf b \<longleftrightarrow> (B_ParentHash b = BE_genesisHash (IC_env conf) \<longrightarrow>
     (\<forall>g. getGenesisBlock conf = Some g \<longrightarrow> B_Height g + 1 = B_Height b))"

lemma unat_pred:
  fixes h :: uint64
  assumes "1 < h"
  shows "unat (h - 1) = unat h - 1" "unat (h - 2) = unat h - 2" "1 < unat h"
proof -
  show 1: "1 < unat h" using assms by (simp add: word_less_nat_alt)
  then have "(1 :: uint64) \<le> h" "(2 :: uint64) \<le> h" by (simp_all add: word_le_nat_alt)
  then show "unat (h - 1) = unat h - 1" "unat (h - 2) = unat h - 2" by (simp_all add: unat_sub)
qed

lemma unat_succ:
  fixes l :: uint64
  assumes "l < 2 ^ 63"
  shows "unat (l + 1) = unat l + 1" "unat (l + 1 + 1) = unat l + 2"
proof -
  have l: "unat l < 2 ^ 63" using assms by (simp add: word_less_nat_alt)
  show 1: "unat (l + 1) = unat l + 1" using l by (subst unat_add_lem [THEN iffD1]) simp_all
  show "unat (l + 1 + 1) = unat l + 2" using l 1 by (subst unat_add_lem [THEN iffD1]) simp_all
qed

lemma height_arith:
  fixes x h l :: uint64
  assumes "1 < h"
  shows "x \<le> h - 1 \<longleftrightarrow> x < h" "x \<le> h - 2 \<longleftrightarrow> x < h - 1"
    "l < 2 ^ 63 \<Longrightarrow> l + 1 + 1 = h \<Longrightarrow> l + 1 < h" "l < 2 ^ 63 \<Longrightarrow> l + 1 + 1 < h \<Longrightarrow> l + 1 < h"
    "l < 2 ^ 63 \<Longrightarrow> l \<le> h - 2 \<Longrightarrow> l + 1 + 1 \<le> h" "l < 2 ^ 63 \<Longrightarrow> l \<le> h - 1 \<Longrightarrow> l + 1 \<le> h"
  using unat_pred [OF assms] unat_succ [of l]
  by (auto simp: word_less_nat_alt word_le_nat_alt unat_succ)

text \<open>What the loop hands to \<open>processBlock\<close>.\<close>

definition reached :: "node_block \<Rightarrow> Indexer \<Rightarrow> uint64 set \<Rightarrow> node_block option \<Rightarrow> Indexer \<Rightarrow> uint64 set \<Rightarrow> bool" where
  "reached b ix A genesis ix1 A1 \<longleftrightarrow> coherent ix1 A1 \<and> Ix_state ix1 \<noteq> None \<and> totals_kept ix ix1 \<and> sessionOf ix1 = sessionOf ix
     \<and> A1 \<subseteq> A \<and> {x \<in> A1. x < B_Height b - 1} = {x \<in> A. x < B_Height b - 1}
     \<and> (case genesis of None \<Rightarrow> lastOf A1 + 1 = B_Height b
        | Some g \<Rightarrow> B_Height g + 1 = B_Height b \<and> lastOf A1 + 1 < B_Height b)"

lemma reached_trans:
  assumes "reached b ix1 A1 genesis ix2 A2" "totals_kept ix ix1" "sessionOf ix1 = sessionOf ix" "A1 \<subseteq> A"
    "{x \<in> A1. x < B_Height b - 1} = {x \<in> A. x < B_Height b - 1}"
  shows "reached b ix A genesis ix2 A2"
  using assms unfolding reached_def by (auto intro: totals_kept_trans)

lemma restore_flag_frame [simp]:
  "coherent (ix\<lparr>Ix_restore := v\<rparr>) A = coherent ix A" "totals_kept ix0 (ix\<lparr>Ix_restore := v\<rparr>) = totals_kept ix0 ix"
  "sessionOf (ix\<lparr>Ix_restore := v\<rparr>) = sessionOf ix" "isFirstBlockHeight (ix\<lparr>Ix_restore := v\<rparr>) h = isFirstBlockHeight ix h"
  by (simp_all add: coherent_def totals_kept_def sessionOf_def isFirstBlockHeight_def)

lemma resetAndRetry_returns:
  assumes "database_ok ops view" "coherent ix (view w)"
    and "resetAndRetry conf ops n b height retry ix w = (Returns (), ix', w')"
    and "height = B_Height b - 1 \<or> height = B_Height b - 2" "1 < B_Height b"
  obtains ix1 w1 where "retry ix1 w1 = (Returns (), ix', w')" "coherent ix1 (view w1)" "totals_kept ix ix1" "sessionOf ix1 = sessionOf ix"
    "view w1 \<subseteq> view w" "{x \<in> view w1. x < B_Height b - 1} = {x \<in> view w. x < B_Height b - 1}"
proof -
  obtain r ixa wa where a: "resetTo conf ops n height ix w = (r, ixa, wa)" by (metis surj_pair)
  note v = resetTo_view [OF assms(1) a assms(2)]
  show thesis
  proof (cases r)
    case (Returns ok)
    have same: "{x \<in> {x \<in> view w. x \<le> height}. x < B_Height b - 1} = {x \<in> view w. x < B_Height b - 1}"
      using assms(4) height_arith(1,2) [OF assms(5)] by (auto intro: less_imp_le)
    show thesis
    proof (cases ok)
      case True
      let ?ix = "ixa\<lparr>Ix_restore := Ix_restore ixa \<or> \<not> isFirstBlockHeight ixa (B_Height b)\<rparr>"
      have "view wa = {x \<in> view w. x \<le> height} \<and> coherent ixa (view wa) \<and> totals_kept ix ixa \<and> sessionOf ixa = sessionOf ix"
        by (rule v [THEN conjunct2, THEN mp]) (simp add: Returns True)
      then have v1: "view wa = {x \<in> view w. x \<le> height}" "coherent ixa (view wa)" "totals_kept ix ixa" "sessionOf ixa = sessionOf ix"
        by blast+
      have "retry ?ix wa = (Returns (), ix', w')" using assms(3) a Returns True by (simp add: resetAndRetry_def)
      then show thesis
        by (rule that) (use v1 same in \<open>auto simp only: restore_flag_frame\<close>)
    next
      case False
      with v Returns have "ixa = ix" "view wa = view w" by simp_all
      with assms(2,3) a Returns False show thesis
        by (intro that [of ix "W_sleep ops wa"]) (simp_all add: resetAndRetry_def db_sleep [OF assms(1)])
    qed
  qed (use assms(3) a in \<open>simp_all add: resetAndRetry_def\<close>)
qed

lemma indexLoop_returns:
  assumes "database_ok ops view" "1 < B_Height b" "genesis_precedes conf b"
    and "indexLoop conf ops n b genesis ix w = (Returns (), ix', w')"
    and "coherent ix (view w)" "\<forall>x \<in> view w. x < 2 ^ 63" "\<forall>g. genesis = Some g \<longrightarrow> B_Height g + 1 = B_Height b"
  shows "\<exists>m g ix1 w1. processBlock conf ops m b g ix1 w1 = (Returns (), ix', w') \<and> reached b ix (view w) g ix1 (view w1)"
  using assms(4-)
proof (induction n arbitrary: genesis ix w)
  case (Suc n)
  obtain r ixa wa where a: "getHeightToIndex ops n ix w = (r, ixa, wa)" by (metis surj_pair)
  note v = getHeightToIndex_view [OF assms(1) a Suc.prems(2)]
  obtain height where r: "r = Returns height" using Suc.prems(1) a v by (cases r) auto
  have h: "height = lastOf (view w) + 1" "Ix_state ixa \<noteq> None" using v r by auto
  have va: "view wa = view w" "coherent ixa (view w)" "totals_kept ix ixa" "sessionOf ixa = sessionOf ix" using v by auto
  have last: "lastOf (view w) < 2 ^ 63" by (rule lastOf_bound [OF Suc.prems(3)])
  have again: "\<exists>m g ix1 w1. processBlock conf ops m b g ix1 w1 = (Returns (), ix', w') \<and> reached b ix (view w) g ix1 (view w1)"
    if "indexLoop conf ops n b gen ixb wb = (Returns (), ix', w')" "coherent ixb (view wb)" "totals_kept ixa ixb"
      "sessionOf ixb = sessionOf ixa" "view wb \<subseteq> view w" "{x \<in> view wb. x < B_Height b - 1} = {x \<in> view w. x < B_Height b - 1}"
      "\<forall>g. gen = Some g \<longrightarrow> B_Height g + 1 = B_Height b" for gen ixb wb
  proof -
    note hyps = that
    have "\<forall>x \<in> view wb. x < 2 ^ 63" using hyps(5) Suc.prems(3) by blast
    then obtain m g ix1 w1 where p: "processBlock conf ops m b g ix1 w1 = (Returns (), ix', w')" "reached b ixb (view wb) g ix1 (view w1)"
      using Suc.IH [OF hyps(1,2) _ hyps(7)] by blast
    have "totals_kept ix ixb" "sessionOf ixb = sessionOf ix" using va hyps(3,4) totals_kept_trans by auto
    then show ?thesis using p reached_trans [OF p(2) _ _ hyps(5,6)] by blast
  qed
  let ?to = "if genesis = None then height else height + 1"
  have step: "indexLoop conf ops (Suc n) b genesis ix w =
     (if B_Height b > ?to then
        (case getGenesisBlock conf of
           None \<Rightarrow> indexLoop conf ops n b None ixa (W_sleep ops wa)
         | Some g \<Rightarrow> if B_Height b \<noteq> B_Height g + 1 then (Panics, ixa, wa) else processBlock conf ops n b (Some g) ixa wa)
      else if B_Height b < ?to then
        (if \<not> isFirstBlockHeight ixa (B_Height b) \<and> B_ParentHash b = BE_genesisHash (IC_env conf) then
           (case getGenesisBlock conf of
              None \<Rightarrow> indexLoop conf ops n b None ixa (W_sleep ops wa)
            | Some g \<Rightarrow> resetAndRetry conf ops n b (B_Height b - 2) (indexLoop conf ops n b (Some g)) ixa wa)
         else resetAndRetry conf ops n b (B_Height b - 1) (indexLoop conf ops n b genesis) ixa wa)
      else processBlock conf ops n b genesis ixa wa)"
    by (simp add: a r Let_def)
  have here: "reached b ix (view w) g ixa (view wa)"
    if "case g of None \<Rightarrow> lastOf (view w) + 1 = B_Height b | Some g \<Rightarrow> B_Height g + 1 = B_Height b \<and> lastOf (view w) + 1 < B_Height b" for g
    using that va h by (simp add: reached_def split: option.splits)
  consider (beyond) "B_Height b > ?to" | (before) "B_Height b < ?to" | (expected) "B_Height b = ?to" by force
  then show ?case
  proof cases
    case beyond
    then have less: "lastOf (view w) + 1 < B_Height b"
      using height_arith(4) [OF assms(2) last] h(1) by (auto split: if_splits)
    show ?thesis
    proof (cases "getGenesisBlock conf")
      case None
      with step Suc.prems(1) beyond have "indexLoop conf ops n b None ixa (W_sleep ops wa) = (Returns (), ix', w')" by simp
      then show ?thesis using again [of None ixa "W_sleep ops wa"] va db_sleep [OF assms(1)] by simp
    next
      case (Some g)
      with step Suc.prems(1) beyond have p: "B_Height g + 1 = B_Height b" "processBlock conf ops n b (Some g) ixa wa = (Returns (), ix', w')"
        by (auto split: if_splits)
      then show ?thesis using here [of "Some g"] less by auto
    qed
  next
    case before
    then have nb: "\<not> B_Height b > ?to" by (rule order_less_not_sym)
    show ?thesis
    proof (cases "\<not> isFirstBlockHeight ixa (B_Height b) \<and> B_ParentHash b = BE_genesisHash (IC_env conf)")
      case True
      show ?thesis
      proof (cases "getGenesisBlock conf")
        case None
        with step Suc.prems(1) before nb True have "indexLoop conf ops n b None ixa (W_sleep ops wa) = (Returns (), ix', w')" by simp
        then show ?thesis using again [of None ixa "W_sleep ops wa"] va db_sleep [OF assms(1)] by simp
      next
        case (Some g)
        with step Suc.prems(1) before nb True
        have "resetAndRetry conf ops n b (B_Height b - 2) (indexLoop conf ops n b (Some g)) ixa wa = (Returns (), ix', w')" by simp
        then show ?thesis
          using va assms(2,3) True Some
          by (elim resetAndRetry_returns [OF assms(1), rotated]) (auto simp: genesis_precedes_def intro!: again)
      qed
    next
      case False
      with step Suc.prems(1) before nb
      have "resetAndRetry conf ops n b (B_Height b - 1) (indexLoop conf ops n b genesis) ixa wa = (Returns (), ix', w')" by auto
      then show ?thesis
        using va assms(2) Suc.prems(4)
        by (elim resetAndRetry_returns [OF assms(1), rotated]) (auto intro!: again)
    qed
  next
    case expected
    with step Suc.prems(1) have p: "processBlock conf ops n b genesis ixa wa = (Returns (), ix', w')" by auto
    have "case genesis of None \<Rightarrow> lastOf (view w) + 1 = B_Height b | Some g \<Rightarrow> B_Height g + 1 = B_Height b \<and> lastOf (view w) + 1 < B_Height b"
      using expected h(1) Suc.prems(4) height_arith(3) [OF assms(2) last] by (cases genesis) auto
    then show ?thesis using here p by blast
  qed
qed simp

section \<open>Totals\<close>

text \<open>The iteration over the accounts visits every account with coins once.\<close>

definition accounts_listed :: "(bytes \<Rightarrow> address) \<Rightarrow> app_state \<Rightarrow> bytes option list \<Rightarrow> bool" where
  "accounts_listed toAddr app keys \<longleftrightarrow> None \<notin> set keys \<and> Some [] \<notin> set keys
     \<and> distinct (map (\<lambda>k. toAddr (tl (the k))) keys)
     \<and> (\<forall>a. a \<notin> set (map (\<lambda>k. toAddr (tl (the k))) keys) \<longrightarrow> AS_GetBalance app a = 0 \<and> AS_GetStakeBalance app a = 0)"

lemma sumAccounts_sum:
  assumes "None \<notin> set keys" "Some [] \<notin> set keys"
  shows "sumAccounts toAddr app keys (tb, ts) = Some
    (tb + (\<Sum>k \<leftarrow> keys. AS_GetBalance app (toAddr (tl (the k)))), ts + (\<Sum>k \<leftarrow> keys. AS_GetStakeBalance app (toAddr (tl (the k)))))"
  using assms
proof (induction keys arbitrary: tb ts)
  case (Cons k keys)
  then obtain x xs where "k = Some (x # xs)" by (metis list.exhaust list.set_intros(1) option.exhaust)
  with Cons show ?case by (simp add: BytesToAddr_def algebra_simps)
qed simp

lemma sum_list_univ:
  fixes f :: "address \<Rightarrow> int"
  assumes "distinct (map g keys)" "\<And>a. a \<notin> set (map g keys) \<Longrightarrow> f a = 0"
  shows "(\<Sum>k \<leftarrow> keys. f (g k)) = (\<Sum>a \<in> UNIV. f a)"
proof -
  have "(\<Sum>k \<leftarrow> keys. f (g k)) = sum f (set (map g keys))"
    using sum_list_distinct_conv_sum_set [OF assms(1), of f] by (simp add: comp_def)
  also have "\<dots> = sum f UNIV" using assms(2) by (intro sum.mono_neutral_left) auto
  finally show ?thesis .
qed

lemma sumAccounts_totals:
  "accounts_listed toAddr app keys \<Longrightarrow> sumAccounts toAddr app keys (0, 0) = Some (accountsTotal app, stakesTotal app)"
  using sum_list_univ [of "\<lambda>k. toAddr (tl (the k))" keys "AS_GetBalance app"]
    sum_list_univ [of "\<lambda>k. toAddr (tl (the k))" keys "AS_GetStakeBalance app"]
  by (simp add: accounts_listed_def sumAccounts_sum accountsTotal_def stakesTotal_def)

text \<open>The totals in memory, when there are any, are those of a state.\<close>

definition totals_at :: "Indexer \<Rightarrow> app_state \<Rightarrow> bool" where
  "totals_at ix app \<longleftrightarrow> (\<forall>st. Ix_state ix = Some st \<longrightarrow>
     (IS_totalBalance st = None \<and> IS_totalStake st = None) \<or>
     (IS_totalBalance st = Some (accountsTotal app) \<and> IS_totalStake st = Some (stakesTotal app)))"

lemma totals_kept_at: "totals_kept ix ix1 \<Longrightarrow> totals_at ix app \<Longrightarrow> totals_at ix1 app"
  unfolding totals_kept_def totals_at_def by metis

lemma initializeStateIfNeeded_totals:
  assumes "initializeStateIfNeeded conf b ix = Some ix1" "totals_at ix (NS_app prevState)"
    "IC_readonly conf (B_Height b - 1) = Some prevState"
    "accounts_listed (BE_setBytes (IC_env conf)) (NS_app prevState) (NS_accountKeys prevState)"
  shows "\<exists>st. Ix_state ix1 = Some st \<and> IS_totalBalance st = Some (accountsTotal (NS_app prevState))
    \<and> IS_totalStake st = Some (stakesTotal (NS_app prevState)) \<and> Ix_collector ix1 = Ix_collector ix"
  using assms by (auto simp: initializeStateIfNeeded_def totals_at_def sumAccounts_totals split: bind_splits if_splits)

lemma convertWith_totals:
  assumes "convertWith conf ix b = Some (data, rd)" "SC_statsEnabled (Ix_collector ix)" "sessionOf ix = Some s"
    and "Ix_state ix = Some st" "IS_totalBalance st = Some (accountsTotal (NS_app prevState))"
      "IS_totalStake st = Some (stakesTotal (NS_app prevState))"
    and "B_Hash b \<noteq> BE_genesisHash (IC_env conf)"
    and "IC_readonly conf (B_Height b - 1) = Some prevState" "IC_readonly conf (B_Height b) = Some newState"
    and "lists_sets (EE_addrsOrder (BE_epoch (IC_env conf)))"
    and "changes_reported (NS_app prevState) (NS_app newState) (S_BalanceUpdateAddrs (stats s))"
  shows "RD_totalBalance rd = accountsTotal (NS_app newState) \<and> RD_totalStake rd = stakesTotal (NS_app newState)"
proof -
  have c: "convertIncomingData (envOf conf ix) (IC_readonly conf) st (Ix_firstBlockHeight ix) s b = Some (Some (data, rd))"
    using assms(1-4) by (auto simp: convertWith_def collected_def sessionOf_def split: bind_splits)
  have env: "BE_genesisHash (envOf conf ix) = BE_genesisHash (IC_env conf)"
    "EE_addrsOrder (BE_epoch (envOf conf ix)) = EE_addrsOrder (BE_epoch (IC_env conf))"
    by (simp_all add: envOf_def)
  show ?thesis
    using convertIncomingData_totals [OF c, of prevState newState] assms(5-11) by (simp add: env)
qed

section \<open>A whole call\<close>

lemma indexBlock_returns:
  assumes "database_ok ops view" "1 < B_Height b" "genesis_precedes conf b"
    and "indexBlock conf ops n b ix w = (Returns (), ix', w')" "coherent ix (view w)" "\<forall>x \<in> view w. x < 2 ^ 63"
  obtains ix1 ix2 ix3 data rd g A where "reached b ix (view w) g ix1 A" "initializeStateIfNeeded conf b ix1 = Some ix2"
    "Ix_state ix3 = Ix_state ix2" "sessionOf ix3 = sessionOf ix2" "SC_statsEnabled (Ix_collector ix3)"
    "convertWith conf ix3 b = Some (data, rd)" "Ix_state ix' = map_option (applyOnState data rd) (Ix_state ix2)"
    "sessionOf ix' = sessionOf ix2" "\<not> Ix_restore ix'" "view w' = insert (B_Height b) (A \<union> B_Height ` set_option g)"
proof -
  obtain ix0 where i: "initFirstBlockHeight conf ix = Some ix0" and l: "indexLoop conf ops n b None ix0 w = (Returns (), ix', w')"
    using assms(4) by (auto simp: indexBlock_def split: if_splits option.splits)
  note frame = initFirstBlockHeight_frame [OF i]
  have "coherent ix0 (view w)" using assms(5) frame by (simp add: coherent_def)
  then obtain m g ix1 w1 where p: "processBlock conf ops m b g ix1 w1 = (Returns (), ix', w')" "reached b ix0 (view w) g ix1 (view w1)"
    using indexLoop_returns [OF assms(1-3) l _ assms(6)] by auto
  have "reached b ix (view w) g ix1 (view w1)"
    by (rule reached_trans [OF p(2)]) (use frame in \<open>auto simp: totals_kept_def sessionOf_def\<close>)
  with processBlock_returns [OF assms(1) p(1)] show thesis by (elim exE conjE) (rule that)
qed

text \<open>What the database and the state look like after a call that returns.\<close>

definition indexed :: "node_block \<Rightarrow> uint64 set \<Rightarrow> Indexer \<Rightarrow> uint64 set \<Rightarrow> bool" where
  "indexed b A ix' A' \<longleftrightarrow> lastOf A' = B_Height b \<and> B_Height b \<in> A' \<and> B_Height b - 1 \<in> A'
     \<and> {x \<in> A'. x < B_Height b - 1} = {x \<in> A. x < B_Height b - 1}
     \<and> (\<exists>st. Ix_state ix' = Some st \<and> IS_lastIndexedHeight st = B_Height b) \<and> \<not> Ix_restore ix'"

lemma reached_heights:
  assumes "reached b ix A g ix1 A1"
  shows "A1 \<subseteq> A" "{x \<in> A1. x < B_Height b - 1} = {x \<in> A. x < B_Height b - 1}"
    "lastOf A1 + 1 \<le> B_Height b" "g = None \<Longrightarrow> lastOf A1 + 1 = B_Height b" "g = Some h \<Longrightarrow> B_Height h = B_Height b - 1"
  using assms by (auto simp: reached_def eq_diff_eq split: option.splits)

lemma reached_indexed:
  assumes "reached b ix A g ix1 A1" "1 < B_Height b" "\<forall>x \<in> A. x < 2 ^ 63"
    and "A' = insert (B_Height b) (A1 \<union> B_Height ` set_option g)"
  shows "lastOf A' = B_Height b \<and> B_Height b - 1 \<in> A' \<and> {x \<in> A'. x < B_Height b - 1} = {x \<in> A. x < B_Height b - 1}"
proof -
  note n = unat_pred [OF assms(2)] and r = reached_heights [OF assms(1)]
  have last: "lastOf A1 < 2 ^ 63" by (rule lastOf_bound) (use r(1) assms(3) in blast)
  have below: "x < B_Height b" if "x \<in> A1" for x
    using lastOf_ge [OF that] r(3) unat_succ(1) [OF last] by (simp add: word_less_nat_alt word_le_nat_alt)
  have pred: "B_Height b - 1 < B_Height b" using n by (simp add: word_less_nat_alt)
  have mem: "y \<le> B_Height b" "y < B_Height b - 1 \<Longrightarrow> y \<in> A1" if "y \<in> A'" for y
  proof -
    note member = that
    consider "y = B_Height b" | "y \<in> A1" | h where "g = Some h" "y = B_Height h" using member assms(4) by (cases g) auto
    then have "y \<le> B_Height b \<and> (y < B_Height b - 1 \<longrightarrow> y \<in> A1)"
    proof cases
      case 1
      with order_less_asym [OF pred] show ?thesis by blast
    next
      case 2
      with less_imp_le [OF below [of y]] show ?thesis by blast
    next
      case 3
      with r(5) have "y = B_Height b - 1" by metis
      with less_imp_le [OF pred] show ?thesis by (metis order_less_irrefl)
    qed
    then show "y \<le> B_Height b" "y < B_Height b - 1 \<Longrightarrow> y \<in> A1" by blast+
  qed
  have "B_Height b \<in> A'" by (simp add: assms(4))
  then have "lastOf A' = B_Height b" by (rule lastOf_eqI) (rule mem(1))
  moreover have "B_Height b - 1 \<in> A'"
  proof (cases g)
    case None
    with r(4) have "lastOf A1 + 1 = B_Height b" by simp
    then have l: "lastOf A1 = B_Height b - 1" by (simp add: eq_diff_eq)
    have "unat (lastOf A1) \<noteq> 0" using n by (simp add: l)
    then have "A1 \<noteq> {}" by (auto simp: lastOf_def)
    then show ?thesis using lastOf_in [of A1] l assms(4) by simp
  next
    case (Some h)
    then show ?thesis using r(5) assms(4) by simp
  qed
  moreover have "{x \<in> A'. x < B_Height b - 1} = {x \<in> A. x < B_Height b - 1}"
  proof -
    have "{x \<in> A'. x < B_Height b - 1} = {x \<in> A1. x < B_Height b - 1}" using mem(2) assms(4) by blast
    then show ?thesis using r(2) by simp
  qed
  ultimately show ?thesis by simp
qed

section \<open>The call ends\<close>

text \<open>
  \<open>budget w\<close> bounds the number of failures that are still to come: a call that fails uses one up and
  no call adds any.
\<close>

definition answers_within :: "'w ops \<Rightarrow> ('w \<Rightarrow> nat) \<Rightarrow> bool" where
  "answers_within ops budget \<longleftrightarrow>
     (\<forall>w. budget (snd (W_GetLastHeight ops w)) + (if fst (W_GetLastHeight ops w) = None then 1 else 0) \<le> budget w) \<and>
     (\<forall>w. budget (snd (W_ActualOracleVotings ops w)) + (if fst (W_ActualOracleVotings ops w) = None then 1 else 0) \<le> budget w) \<and>
     (\<forall>w h. budget (snd (W_ResetTo ops h w)) + (if fst (W_ResetTo ops h w) then 0 else 1) \<le> budget w) \<and>
     (\<forall>w d. budget (snd (W_Save ops d w)) + (if fst (W_Save ops d w) then 0 else 1) \<le> budget w) \<and>
     (\<forall>w d. budget (snd (W_SaveRestoredData ops d w)) + (if fst (W_SaveRestoredData ops d w) then 0 else 1) \<le> budget w) \<and>
     (\<forall>w. budget (snd (W_balanceAnswers ops w)) \<le> budget w) \<and>
     (\<forall>w. budget (W_sleep ops w) \<le> budget w)"

lemma budget_height: "answers_within ops budget \<Longrightarrow> W_GetLastHeight ops w = (r, w1) \<Longrightarrow>
    budget w1 + (if r = None then 1 else 0) \<le> budget w"
  by (metis (mono_tags, lifting) answers_within_def fst_conv snd_conv)

lemma budget_votings: "answers_within ops budget \<Longrightarrow> W_ActualOracleVotings ops w = (r, w1) \<Longrightarrow>
    budget w1 + (if r = None then 1 else 0) \<le> budget w"
  by (metis (mono_tags, lifting) answers_within_def fst_conv snd_conv)

lemma budget_reset: "answers_within ops budget \<Longrightarrow> W_ResetTo ops h w = (r, w1) \<Longrightarrow>
    budget w1 + (if r then 0 else 1) \<le> budget w"
  by (metis (mono_tags, lifting) answers_within_def fst_conv snd_conv)

lemma budget_save: "answers_within ops budget \<Longrightarrow> W_Save ops d w = (r, w1) \<Longrightarrow>
    budget w1 + (if r then 0 else 1) \<le> budget w"
  by (metis (mono_tags, lifting) answers_within_def fst_conv snd_conv)

lemma budget_restored: "answers_within ops budget \<Longrightarrow> W_SaveRestoredData ops d w = (r, w1) \<Longrightarrow>
    budget w1 + (if r then 0 else 1) \<le> budget w"
  by (metis (mono_tags, lifting) answers_within_def fst_conv snd_conv)

lemma budget_sleep: "answers_within ops budget \<Longrightarrow> budget (W_sleep ops w) \<le> budget w"
  by (simp add: answers_within_def)

lemma loadState_budget:
  assumes "answers_within ops budget" "loadState ops n w = (r, w1)"
  shows "budget w1 \<le> budget w \<and> (budget w < n \<longrightarrow> r \<noteq> Waiting)"
  using assms(2)
proof (induction n arbitrary: w)
  case (Suc n)
  obtain r1 wa where a: "W_GetLastHeight ops w = (r1, wa)" by fastforce
  obtain r2 wb where b: "W_ActualOracleVotings ops wa = (r2, wb)" by fastforce
  note budgets = budget_height [OF assms(1) a] budget_votings [OF assms(1) b] budget_sleep [OF assms(1), of wa] budget_sleep [OF assms(1), of wb]
  show ?case
  proof (cases r1)
    case None
    then show ?thesis using Suc.prems Suc.IH [of "W_sleep ops wa"] a budgets by simp
  next
    case (Some h)
    show ?thesis
    proof (cases r2)
      case None
      then show ?thesis using Suc.prems Suc.IH [of "W_sleep ops wb"] a b Some budgets by simp
    next
      case (Some votings)
      then show ?thesis using Suc.prems a b \<open>r1 = Some h\<close> budgets by auto
    qed
  qed
qed simp

lemma saveData_budget:
  assumes "answers_within ops budget" "saveData ops data n w = (r, w1)"
  shows "budget w1 \<le> budget w \<and> (budget w < n \<longrightarrow> r \<noteq> Waiting)"
  using assms(2)
proof (induction n arbitrary: w)
  case (Suc n)
  obtain ok wa where a: "W_Save ops data w = (ok, wa)" by fastforce
  note budgets = budget_save [OF assms(1) a] budget_sleep [OF assms(1), of wa]
  show ?case using Suc.prems Suc.IH [of "W_sleep ops wa"] a budgets by (cases ok) auto
qed simp

lemma saveData_not_panics: "saveData ops data n w = (r, w1) \<Longrightarrow> r \<noteq> Panics"
  by (induction n arbitrary: w) (auto split: prod.splits bool.splits)

text \<open>The node has the state before its head, so the data to restore can be collected.\<close>

definition restorable :: "index_conf \<Rightarrow> bool" where
  "restorable conf \<longleftrightarrow> (\<forall>h. \<exists>d. collectData (BE_ext (IC_env conf)) (BE_setBytes (IC_env conf)) (IC_readonly conf)
     (IC_head conf) (Some h) = Some (Some d))"

lemma Restore_budget:
  assumes "answers_within ops budget" "restorable conf"
    and "Restore (BE_ext (IC_env conf)) (BE_setBytes (IC_env conf)) (IC_readonly conf) (IC_head conf) ops n w = (r, w1)"
  shows "budget w1 \<le> budget w \<and> (budget w < n \<longrightarrow> r = Returns ())"
  using assms(3)
proof (induction n arbitrary: w)
  case (Suc n)
  obtain h wa where a: "W_GetLastHeight ops w = (h, wa)" by fastforce
  show ?case
  proof (cases h)
    case None
    then show ?thesis
      using Suc.prems Suc.IH [of "W_sleep ops wa"] a budget_height [OF assms(1) a] budget_sleep [OF assms(1), of wa]
      by (simp add: tryToRestore_def collectData_def)
  next
    case (Some height)
    obtain d where d: "collectData (BE_ext (IC_env conf)) (BE_setBytes (IC_env conf)) (IC_readonly conf) (IC_head conf) (Some height) = Some (Some d)"
      using assms(2) by (auto simp: restorable_def)
    obtain ok wb where b: "W_SaveRestoredData ops d wa = (ok, wb)" by fastforce
    show ?thesis
      using Suc.prems Suc.IH [of "W_sleep ops wb"] a b Some d budget_height [OF assms(1) a] budget_restored [OF assms(1) b]
        budget_sleep [OF assms(1), of wb]
      by (cases ok) (auto simp: tryToRestore_def)
  qed
qed simp

text \<open>With the totals set and an open session, the conversion of the block does not fail.\<close>

definition converts :: "index_conf \<Rightarrow> session \<Rightarrow> node_block \<Rightarrow> bool" where
  "converts conf s b \<longleftrightarrow> (\<forall>ix st. Ix_state ix = Some st \<and> IS_totalBalance st \<noteq> None \<and> IS_totalStake st \<noteq> None
     \<and> sessionOf ix = Some s \<and> SC_statsEnabled (Ix_collector ix) \<longrightarrow> convertWith conf ix b \<noteq> None)"

definition balances_pass :: "index_conf \<Rightarrow> 'w ops \<Rightarrow> bool" where
  "balances_pass conf ops \<longleftrightarrow> (IC_checkBalances conf \<longrightarrow>
     (\<forall>w. checkBalances (BE_ext (IC_env conf)) (IC_accounts conf) (fst (W_balanceAnswers ops w))))"

lemma initializeStateIfNeeded_defined:
  assumes "Ix_state ix = Some st" "IC_readonly conf (B_Height b - 1) = Some prevState"
    "accounts_listed (BE_setBytes (IC_env conf)) (NS_app prevState) (NS_accountKeys prevState)"
  shows "\<exists>ix1 st1. initializeStateIfNeeded conf b ix = Some ix1 \<and> Ix_state ix1 = Some st1 \<and> IS_totalBalance st1 \<noteq> None
    \<and> IS_totalStake st1 \<noteq> None \<and> Ix_collector ix1 = Ix_collector ix"
  using assms by (simp add: initializeStateIfNeeded_def sumAccounts_totals)

lemma indexCurrent_defined:
  assumes "answers_within ops budget" "converts conf s b" "balances_pass conf ops" "budget w < n"
    and "Ix_state ix = Some st" "IS_totalBalance st \<noteq> None" "IS_totalStake st \<noteq> None" "sessionOf ix = Some s"
  shows "\<exists>ix' w'. indexCurrent conf ops n b ix w = (Returns (), ix', w')"
proof -
  have "convertWith conf (setCollector Enable ix) b \<noteq> None" using assms(2,5-8) by (auto simp: converts_def)
  then obtain data rd where c: "convertWith conf (setCollector Enable ix) b = Some (data, rd)" by auto
  obtain r w1 where s: "saveData ops data n w = (r, w1)" by fastforce
  then have "r = Returns ()" using saveData_budget [OF assms(1) s] saveData_not_panics [OF s] assms(4) by (cases r) auto
  moreover obtain answers w2 where a: "W_balanceAnswers ops w1 = (answers, w2)" by fastforce
  moreover have "IC_checkBalances conf \<longrightarrow> checkBalances (BE_ext (IC_env conf)) (IC_accounts conf) answers"
    using assms(3) a unfolding balances_pass_def by (metis fst_conv)
  ultimately show ?thesis using c s by (simp add: indexCurrent_def Let_def)
qed

lemma processBlock_defined:
  assumes "answers_within ops budget" "restorable conf" "converts conf s b" "balances_pass conf ops" "budget w < n"
    and "Ix_state ix = Some st" "sessionOf ix = Some s" "IC_readonly conf (B_Height b - 1) = Some prevState"
    and "accounts_listed (BE_setBytes (IC_env conf)) (NS_app prevState) (NS_accountKeys prevState)"
  shows "\<exists>ix' w'. processBlock conf ops n b None ix w = (Returns (), ix', w')"
proof -
  obtain ix1 st1 where i: "initializeStateIfNeeded conf b ix = Some ix1" "Ix_state ix1 = Some st1" "IS_totalBalance st1 \<noteq> None"
    "IS_totalStake st1 \<noteq> None" "Ix_collector ix1 = Ix_collector ix"
    using initializeStateIfNeeded_defined [OF assms(6,8,9)] by blast
  obtain ix2 w2 where r: "restoreIfNeeded conf ops n ix1 w = (Returns (), ix2, w2)" "Ix_state ix2 = Ix_state ix1"
    "Ix_collector ix2 = Ix_collector ix1" "budget w2 \<le> budget w"
  proof (cases "Ix_restore ix1")
    case False
    then show thesis using that [of ix1 w] by (simp add: restoreIfNeeded_def)
  next
    case True
    obtain r wr where x: "Restore (BE_ext (IC_env conf)) (BE_setBytes (IC_env conf)) (IC_readonly conf) (IC_head conf) ops n w = (r, wr)"
      by fastforce
    then show thesis
      using True Restore_budget [OF assms(1,2) x] assms(5) that [of "ix1\<lparr>Ix_restore := False\<rparr>" wr] by (simp add: restoreIfNeeded_def)
  qed
  have "sessionOf ix2 = Some s" using r i assms(7) by (simp add: sessionOf_def)
  then obtain ix' w' where "indexCurrent conf ops n b ix2 w2 = (Returns (), ix', w')"
    using indexCurrent_defined [OF assms(1,3,4), of w2 n ix2 st1] r i assms(5) by auto
  then show ?thesis using i r by (simp add: processBlock_def indexGenesis_def andThen_def)
qed

text \<open>The block is the next one, or a stored block is to be replaced.\<close>

definition fits :: "node_block \<Rightarrow> uint64 set \<Rightarrow> bool" where
  "fits b A \<longleftrightarrow> lastOf A + 1 = B_Height b \<or> (B_Height b \<le> lastOf A \<and> B_Height b - 1 \<in> A)"

lemma indexLoop_defined:
  assumes "database_ok ops view" "answers_within ops budget" "restorable conf" "converts conf s b" "balances_pass conf ops"
    and "1 < B_Height b" "B_ParentHash b \<noteq> BE_genesisHash (IC_env conf)" "IC_readonly conf (B_Height b - 1) = Some prevState"
    and "accounts_listed (BE_setBytes (IC_env conf)) (NS_app prevState) (NS_accountKeys prevState)"
    and "coherent ix (view w)" "\<forall>x \<in> view w. x < 2 ^ 63" "sessionOf ix = Some s" "fits b (view w)"
    and "budget w + (if lastOf (view w) + 1 = B_Height b then 1 else 2) < n"
  shows "\<exists>ix' w'. indexLoop conf ops n b None ix w = (Returns (), ix', w')"
  using assms(10-)
proof (induction n arbitrary: ix w)
  case (Suc n)
  have n: "budget w < n" using Suc.prems(5) by (auto split: if_splits)
  obtain r ixa wa where a: "getHeightToIndex ops n ix w = (r, ixa, wa)" by (metis surj_pair)
  have "r \<noteq> Waiting \<and> budget wa \<le> budget w"
  proof (cases "Ix_state ix")
    case None
    obtain r2 w2 where l: "loadState ops n w = (r2, w2)" by fastforce
    show ?thesis using a None l loadState_budget [OF assms(2) l] n by (cases r2) (auto simp: getHeightToIndex_def)
  qed (use a in \<open>auto simp: getHeightToIndex_def\<close>)
  note v = getHeightToIndex_view [OF assms(1) a Suc.prems(1)] and budget_a = this
  obtain height where r: "r = Returns height" using v budget_a by (cases r) auto
  have va: "view wa = view w" "coherent ixa (view w)" "sessionOf ixa = Some s" using v Suc.prems(3) by auto
  obtain st where st: "Ix_state ixa = Some st" and h: "height = lastOf (view w) + 1" using v r by auto
  show ?case
  proof (cases "lastOf (view w) + 1 = B_Height b")
    case True
    have "budget wa < n" using budget_a n by simp
    then obtain ix' w' where "processBlock conf ops n b None ixa wa = (Returns (), ix', w')"
      using processBlock_defined [OF assms(2-5) _ st va(3) assms(8,9)] by blast
    then show ?thesis using True by (simp add: a r h Let_def)
  next
    case False
    then have f: "B_Height b \<le> lastOf (view w)" "B_Height b - 1 \<in> view w" using Suc.prems(4) by (auto simp: fits_def)
    have last: "lastOf (view w) < 2 ^ 63" by (rule lastOf_bound [OF Suc.prems(2)])
    have before: "B_Height b < lastOf (view w) + 1"
      using f(1) unat_succ(1) [OF last] by (simp add: word_less_nat_alt word_le_nat_alt)
    then have step: "indexLoop conf ops (Suc n) b None ix w =
        resetAndRetry conf ops n b (B_Height b - 1) (indexLoop conf ops n b None) ixa wa"
      using assms(7) order_less_not_sym [OF before] by (simp add: a r h Let_def)
    obtain ok wb where reset: "W_ResetTo ops (B_Height b - 1) wa = (ok, wb)" by fastforce
    have budget_b: "budget wb + (if ok then 0 else 1) \<le> budget w" using budget_reset [OF assms(2) reset] budget_a by simp
    have view_b: "view wb = (if ok then {x \<in> view w. x \<le> B_Height b - 1} else view w)" using db_reset [OF assms(1) reset] va by simp
    show ?thesis
    proof (cases ok)
      case False
      have "\<exists>ix' w'. indexLoop conf ops n b None ixa (W_sleep ops wb) = (Returns (), ix', w')"
      proof (rule Suc.IH)
        show "budget (W_sleep ops wb) + (if lastOf (view (W_sleep ops wb)) + 1 = B_Height b then 1 else 2) < n"
          using budget_b budget_sleep [OF assms(2), of wb] Suc.prems(5) False \<open>lastOf (view w) + 1 \<noteq> B_Height b\<close> by auto
      qed (use va view_b False Suc.prems db_sleep [OF assms(1)] in simp_all)
      then show ?thesis using step reset False by (simp add: resetAndRetry_def resetTo_def)
    next
      case True
      have n1: "budget wb + 1 < n" using budget_b Suc.prems(5) \<open>lastOf (view w) + 1 \<noteq> B_Height b\<close> True by simp
      obtain r2 wc where l: "loadState ops n wb = (r2, wc)" by fastforce
      obtain stb where r2: "r2 = Returns stb"
        using loadState_budget [OF assms(2) l] loadState_view [OF assms(1) l] n1 by (cases r2) auto
      have lastb: "lastOf (view wb) = B_Height b - 1" using view_b True f(2) by (intro lastOf_eqI) simp_all
      have viewc: "view wc = view wb" "IS_lastIndexedHeight stb = B_Height b - 1" using loadState_view [OF assms(1) l] r2 lastb by auto
      have "unat (B_Height b - 1) \<noteq> 0" using unat_pred [OF assms(6)] by simp
      then have "B_Height b - 1 \<noteq> 0" by (metis unat_0)
      moreover obtain head where "IC_head conf = Some head"
        using assms(3) by (auto simp: restorable_def collectData_def restoreHeight_def split: option.splits)
      ultimately obtain ixc where ixc: "initFirstBlockHeight conf (ixa\<lparr>Ix_state := Some stb, Ix_firstBlockHeightInitialized := False\<rparr>) = Some ixc"
        using viewc by (simp add: initFirstBlockHeight_def)
      note frame = initFirstBlockHeight_frame [OF ixc]
      let ?ix = "ixc\<lparr>Ix_restore := Ix_restore ixc \<or> \<not> isFirstBlockHeight ixc (B_Height b)\<rparr>"
      have "\<exists>ix' w'. indexLoop conf ops n b None ?ix wc = (Returns (), ix', w')"
      proof (rule Suc.IH)
        show "coherent ?ix (view wc)" using frame viewc lastb by (simp add: coherent_def)
        show "\<forall>x \<in> view wc. x < 2 ^ 63" using viewc view_b Suc.prems(2) True by simp
        show "sessionOf ?ix = Some s" using frame va by (simp add: sessionOf_def)
        show "fits b (view wc)" using viewc lastb by (simp add: fits_def)
        show "budget wc + (if lastOf (view wc) + 1 = B_Height b then 1 else 2) < n"
          using n1 loadState_budget [OF assms(2) l] viewc lastb by simp
      qed
      then show ?thesis using step reset True l r2 ixc by (simp add: resetAndRetry_def resetTo_def)
    qed
  qed
qed simp

section \<open>One call and a run of calls\<close>

lemma indexBlock_indexed:
  assumes "database_ok ops view" "indexBlock conf ops n b ix w = (Returns (), ix', w')"
    and "coherent ix (view w)" "\<forall>x \<in> view w. x < 2 ^ 63" "1 < B_Height b" "genesis_precedes conf b"
  shows "indexed b (view w) ix' (view w')"
proof -
  obtain ix1 ix2 ix3 data rd g A where r: "reached b ix (view w) g ix1 A" "initializeStateIfNeeded conf b ix1 = Some ix2"
    and c: "convertWith conf ix3 b = Some (data, rd)" and s: "Ix_state ix' = map_option (applyOnState data rd) (Ix_state ix2)"
    and f: "\<not> Ix_restore ix'" "view w' = insert (B_Height b) (A \<union> B_Height ` set_option g)"
    by (rule indexBlock_returns [OF assms(1,5,6,2-4)])
  obtain st where "Ix_state ix2 = Some st" using r(2) by (auto simp: initializeStateIfNeeded_def split: bind_splits if_splits)
  then have "Ix_state ix' = Some (applyOnState data rd st)" "IS_lastIndexedHeight (applyOnState data rd st) = B_Height b"
    using s convertWith_height [OF c] by (simp_all add: applyOnState_def)
  then show ?thesis using reached_indexed [OF r(1) assms(5,4) f(2)] f by (simp add: indexed_def)
qed

lemma indexBlock_totals:
  assumes "database_ok ops view" "1 < B_Height b" "genesis_precedes conf b"
    and "indexBlock conf ops n b ix w = (Returns (), ix', w')" "coherent ix (view w)" "\<forall>x \<in> view w. x < 2 ^ 63"
    and "IC_readonly conf (B_Height b - 1) = Some prevState" "IC_readonly conf (B_Height b) = Some newState"
    and "accounts_listed (BE_setBytes (IC_env conf)) (NS_app prevState) (NS_accountKeys prevState)"
    and "B_Hash b \<noteq> BE_genesisHash (IC_env conf)" "lists_sets (EE_addrsOrder (BE_epoch (IC_env conf)))"
    and "sessionOf ix = Some s" "changes_reported (NS_app prevState) (NS_app newState) (S_BalanceUpdateAddrs (stats s))"
    and "totals_at ix (NS_app prevState)"
  shows "\<exists>st. Ix_state ix' = Some st \<and> IS_totalBalance st = Some (accountsTotal (NS_app newState))
    \<and> IS_totalStake st = Some (stakesTotal (NS_app newState))"
proof -
  obtain ix1 ix2 ix3 data rd g A where r: "reached b ix (view w) g ix1 A" "initializeStateIfNeeded conf b ix1 = Some ix2"
    and e: "Ix_state ix3 = Ix_state ix2" "sessionOf ix3 = sessionOf ix2" "SC_statsEnabled (Ix_collector ix3)"
    and c: "convertWith conf ix3 b = Some (data, rd)" and s: "Ix_state ix' = map_option (applyOnState data rd) (Ix_state ix2)"
    by (rule indexBlock_returns [OF assms(1-6)])
  have t: "totals_at ix1 (NS_app prevState)" "sessionOf ix1 = sessionOf ix"
    using r(1) assms(14) totals_kept_at by (auto simp: reached_def)
  obtain st where st: "Ix_state ix2 = Some st" "IS_totalBalance st = Some (accountsTotal (NS_app prevState))"
    "IS_totalStake st = Some (stakesTotal (NS_app prevState))" "Ix_collector ix2 = Ix_collector ix1"
    using initializeStateIfNeeded_totals [OF r(2) t(1) assms(7,9)] by blast
  have session: "sessionOf ix3 = Some s" using e(2) st(4) t(2) assms(12) by (simp add: sessionOf_def)
  have state: "Ix_state ix3 = Some st" using e(1) st(1) by simp
  note totals = convertWith_totals [OF c e(3) session state st(2,3) assms(10,7,8,11,13)]
  show ?thesis using s st(1) totals by (simp add: applyOnState_def)
qed

lemma indexBlock_defined:
  assumes "database_ok ops view" "answers_within ops budget" "restorable conf" "converts conf s b" "balances_pass conf ops"
    and "1 < B_Height b" "B_ParentHash b \<noteq> BE_genesisHash (IC_env conf)" "IC_readonly conf (B_Height b - 1) = Some prevState"
    and "accounts_listed (BE_setBytes (IC_env conf)) (NS_app prevState) (NS_accountKeys prevState)"
    and "coherent ix (view w)" "\<forall>x \<in> view w. x < 2 ^ 63" "sessionOf ix = Some s" "fits b (view w)"
    and "IC_enabled conf" "initFirstBlockHeight conf ix \<noteq> None" "budget w + 2 < n"
  shows "\<exists>ix' w'. indexBlock conf ops n b ix w = (Returns (), ix', w')"
proof -
  obtain ix0 where i: "initFirstBlockHeight conf ix = Some ix0" using assms(15) by auto
  note frame = initFirstBlockHeight_frame [OF i]
  have "coherent ix0 (view w)" "sessionOf ix0 = Some s" using frame assms(10,12) by (simp_all add: coherent_def sessionOf_def)
  then have "\<exists>ix' w'. indexLoop conf ops n b None ix0 w = (Returns (), ix', w')"
    by (rule indexLoop_defined [OF assms(1-9) _ assms(11) _ assms(13)]) (use assms(16) in simp)
  then show ?thesis using i assms(14) by (simp add: indexBlock_def)
qed

text \<open>
  The node's side of a run: before it hands a block to the indexer, it has collected the block's
  session.
\<close>

definition withSession :: "session \<Rightarrow> Indexer \<Rightarrow> Indexer" where
  "withSession s = setCollector (\<lambda>c. c\<lparr>SC_session := Some s\<rparr>)"

fun indexBlocks :: "'w ops \<Rightarrow> nat \<Rightarrow> (index_conf \<times> session \<times> node_block) list \<Rightarrow> Indexer \<Rightarrow> 'w \<Rightarrow>
    unit outcome \<times> Indexer \<times> 'w" where
  "indexBlocks ops n [] ix w = (Returns (), ix, w)"
| "indexBlocks ops n ((conf, s, b) # bs) ix w =
     andThen (indexBlock conf ops n b (withSession s ix) w) (indexBlocks ops n bs)"

text \<open>Successive blocks after height \<open>h\<close>, which lead the node from one state of the accounts to another.\<close>

fun chain :: "uint64 \<Rightarrow> app_state \<Rightarrow> (index_conf \<times> session \<times> node_block) list \<Rightarrow> app_state \<Rightarrow> bool" where
  "chain h app [] app' \<longleftrightarrow> app' = app"
| "chain h app ((conf, s, b) # bs) app' \<longleftrightarrow> B_Height b = h + 1 \<and> genesis_precedes conf b
     \<and> B_Hash b \<noteq> BE_genesisHash (IC_env conf) \<and> lists_sets (EE_addrsOrder (BE_epoch (IC_env conf)))
     \<and> (case (IC_readonly conf h, IC_readonly conf (h + 1)) of
          (Some prevState, Some newState) \<Rightarrow> NS_app prevState = app
            \<and> accounts_listed (BE_setBytes (IC_env conf)) app (NS_accountKeys prevState)
            \<and> changes_reported app (NS_app newState) (S_BalanceUpdateAddrs (stats s))
            \<and> chain (h + 1) (NS_app newState) bs app'
        | _ \<Rightarrow> False)"

lemma withSession_frame [simp]:
  "Ix_state (withSession s ix) = Ix_state ix" "sessionOf (withSession s ix) = Some s"
  by (simp_all add: withSession_def setCollector_def sessionOf_def)

lemma indexed_keeps:
  assumes "indexed b A ix' A'" "B_Height b = h + 1"
  shows "\<forall>x \<in> A. x \<le> h \<longrightarrow> x \<in> A'" "h + 1 \<in> A'" "lastOf A' = h + 1"
    "\<exists>st. Ix_state ix' = Some st \<and> IS_lastIndexedHeight st = h + 1" "coherent ix' A'"
proof -
  have h: "h \<in> A'" "{x \<in> A'. x < h} = {x \<in> A. x < h}" using assms by (simp_all add: indexed_def)
  have "x \<in> A'" if "x \<in> A" "x \<le> h" for x
  proof (cases "x = h")
    case False
    with that have "x \<in> {x \<in> A. x < h}" by simp
    then show ?thesis using h(2) by blast
  qed (use h(1) in simp)
  then show "\<forall>x \<in> A. x \<le> h \<longrightarrow> x \<in> A'" by blast
  show "h + 1 \<in> A'" "lastOf A' = h + 1" "\<exists>st. Ix_state ix' = Some st \<and> IS_lastIndexedHeight st = h + 1"
    using assms by (simp_all add: indexed_def)
  then show "coherent ix' A'" by (auto simp: coherent_def)
qed

lemma indexBlocks_chain:
  assumes "database_ok ops view" "indexBlocks ops n bs ix w = (Returns (), ix', w')" "chain h app bs app'"
    and "0 < h" "unat h + length bs < 2 ^ 63" "coherent ix (view w)" "\<forall>x \<in> view w. x < 2 ^ 63" "totals_at ix app" "bs \<noteq> []"
  shows "lastOf (view w') = h + of_nat (length bs) \<and> (\<forall>x \<in> view w. x \<le> h \<longrightarrow> x \<in> view w')
    \<and> (\<forall>(conf, s, b) \<in> set bs. B_Height b \<in> view w')
    \<and> (\<exists>st. Ix_state ix' = Some st \<and> IS_lastIndexedHeight st = h + of_nat (length bs)
         \<and> IS_totalBalance st = Some (accountsTotal app') \<and> IS_totalStake st = Some (stakesTotal app'))"
  using assms(2-)
proof (induction bs arbitrary: h app ix w)
  case (Cons x bs)
  obtain conf s b where x: "x = (conf, s, b)" by (cases x)
  obtain ix1 w1 where b1: "indexBlock conf ops n b (withSession s ix) w = (Returns (), ix1, w1)"
    and rest: "indexBlocks ops n bs ix1 w1 = (Returns (), ix', w')"
    using Cons.prems(1) unfolding x by (auto elim: andThen_returns)
  obtain prevState newState where states: "IC_readonly conf h = Some prevState" "IC_readonly conf (h + 1) = Some newState"
    "NS_app prevState = app"
    and ch: "B_Height b = h + 1" "genesis_precedes conf b" "B_Hash b \<noteq> BE_genesisHash (IC_env conf)"
      "lists_sets (EE_addrsOrder (BE_epoch (IC_env conf)))"
      "accounts_listed (BE_setBytes (IC_env conf)) app (NS_accountKeys prevState)"
      "changes_reported app (NS_app newState) (S_BalanceUpdateAddrs (stats s))" "chain (h + 1) (NS_app newState) bs app'"
    using Cons.prems(2) by (auto simp: x split: option.splits)
  have hb: "h < 2 ^ 63" using Cons.prems(4) by (simp add: word_less_nat_alt)
  have h1: "unat (h + 1) = unat h + 1" by (rule unat_succ(1) [OF hb])
  have one: "1 < B_Height b" using Cons.prems(3) h1 by (simp add: ch(1) word_less_nat_alt)
  have c: "coherent (withSession s ix) (view w)" using Cons.prems(5) by (simp add: coherent_def)
  have i: "indexed b (view w) ix1 (view w1)"
    by (rule indexBlock_indexed [OF assms(1) b1 c Cons.prems(6) one ch(2)])
  note keeps = indexed_keeps [OF i ch(1)]
  have t: "\<exists>st. Ix_state ix1 = Some st \<and> IS_totalBalance st = Some (accountsTotal (NS_app newState))
      \<and> IS_totalStake st = Some (stakesTotal (NS_app newState))"
    by (rule indexBlock_totals [OF assms(1) one ch(2) b1 c Cons.prems(6), of prevState newState s])
      (use states ch Cons.prems(7) in \<open>simp_all add: totals_at_def\<close>)
  show ?case
  proof (cases "bs = []")
    case True
    then show ?thesis using rest keeps t ch(1,7) x by auto
  next
    case False
    have bound: "\<forall>y \<in> view w1. y < 2 ^ 63"
    proof
      fix y assume "y \<in> view w1"
      then have "y \<le> h + 1" using lastOf_ge keeps(3) by metis
      then show "y < 2 ^ 63" using h1 Cons.prems(4) by (simp add: word_less_nat_alt word_le_nat_alt)
    qed
    have totals: "totals_at ix1 (NS_app newState)" using t by (auto simp: totals_at_def)
    have pos: "0 < h + 1" by (simp only: word_less_nat_alt h1 unat_0)
    have len: "unat (h + 1) + length bs < 2 ^ 63" using Cons.prems(4) h1 by simp
    have r: "lastOf (view w') = (h + 1) + of_nat (length bs) \<and> (\<forall>x \<in> view w1. x \<le> h + 1 \<longrightarrow> x \<in> view w')
      \<and> (\<forall>(conf, s, b) \<in> set bs. B_Height b \<in> view w')
      \<and> (\<exists>st. Ix_state ix' = Some st \<and> IS_lastIndexedHeight st = (h + 1) + of_nat (length bs)
         \<and> IS_totalBalance st = Some (accountsTotal app') \<and> IS_totalStake st = Some (stakesTotal app'))"
      by (rule Cons.IH [OF rest ch(7) pos len keeps(5) bound totals False])
    have "y \<in> view w'" if "y \<in> view w" "y \<le> h" for y
    proof -
      have "y \<le> h + 1" using that(2) h1 by (simp add: word_le_nat_alt)
      then show ?thesis using r keeps(1) that by blast
    qed
    moreover have "B_Height b \<in> view w'" using r keeps(2) ch(1) by simp
    ultimately show ?thesis using r by (auto simp: x algebra_simps)
  qed
qed simp

text \<open>When the conversion of a block that does not finish a validation succeeds.\<close>

lemma converts_block:
  assumes "IC_readonly conf (B_Height b - 1) = Some prevState" "IC_readonly conf (B_Height b) = Some newState"
    and "B_Hash b \<noteq> BE_genesisHash (IC_env conf)" "inj (X_addrHex (BE_ext (IC_env conf)))"
    and "lists_sets (EE_addrsOrder (BE_epoch (IC_env conf)))" "distinct (map fst (NS_identities prevState))"
    and "convertible s prevState newState" "ValidationFinished \<notin> B_Flags b"
    and "\<forall>tx \<in> set (B_Txs b). \<not> killInviteePanics prevState tx \<and> \<not> longAnswersPanic (BE_tx (IC_env conf)) prevState tx"
  shows "converts conf s b"
  unfolding converts_def
proof (intro allI impI)
  fix ix st
  assume a: "Ix_state ix = Some st \<and> IS_totalBalance st \<noteq> None \<and> IS_totalStake st \<noteq> None \<and> sessionOf ix = Some s
     \<and> SC_statsEnabled (Ix_collector ix)"
  then obtain bal stake where t: "IS_totalBalance st = Some bal" "IS_totalStake st = Some stake" by auto
  have env: "BE_genesisHash (envOf conf ix) = BE_genesisHash (IC_env conf)" "BE_ext (envOf conf ix) = BE_ext (IC_env conf)"
    "EE_addrsOrder (BE_epoch (envOf conf ix)) = EE_addrsOrder (BE_epoch (IC_env conf))" "BE_tx (envOf conf ix) = BE_tx (IC_env conf)"
    by (simp_all add: envOf_def)
  have prev: "IC_readonly conf (if B_Hash b = BE_genesisHash (envOf conf ix) then B_Height b else B_Height b - 1) = Some prevState"
    using assms(1,3) by (simp add: env)
  have "\<exists>data rd. convertIncomingData (envOf conf ix) (IC_readonly conf) st (Ix_firstBlockHeight ix) s b = Some (Some (data, rd))"
    by (rule convertIncomingData_defined [OF prev assms(2) _ _ assms(6,7) t]) (use assms(4,5,8,9) in \<open>simp_all add: env\<close>)
  then show "convertWith conf ix b \<noteq> None"
    using a by (auto simp: convertWith_def collected_def sessionOf_def)
qed

section \<open>A sample database\<close>

text \<open>The first calls fail, as many as the number says; the list holds the stored heights.\<close>

definition failing :: "(uint64 list \<Rightarrow> 'r \<times> uint64 list) \<Rightarrow> 'r \<Rightarrow> nat \<times> uint64 list \<Rightarrow> 'r \<times> nat \<times> uint64 list" where
  "failing f err = (\<lambda>(k, hs). if k = 0 then (fst (f hs), 0, snd (f hs)) else (err, k - 1, hs))"

definition sampleOps :: "(nat \<times> uint64 list) ops" where
  "sampleOps = \<lparr>W_GetLastHeight = failing (\<lambda>hs. (Some (lastOf (set hs)), hs)) None,
     W_ActualOracleVotings = failing (\<lambda>hs. (Some [], hs)) None,
     W_ResetTo = (\<lambda>h. failing (\<lambda>hs. (True, filter (\<lambda>x. x \<le> h) hs)) False),
     W_Save = (\<lambda>d. failing (\<lambda>hs. (True, hs @ [Bl_Height (D_Block d)])) False),
     W_SaveRestoredData = (\<lambda>d. failing (\<lambda>hs. (True, hs)) False),
     W_balanceAnswers = (\<lambda>w. (\<lparr>BA_gapCnt = Some 0, BA_burntCnt = Some 0, BA_balances = Some [], BA_latestUpdates = Some []\<rparr>, w)),
     W_sleep = (\<lambda>w. w)\<rparr>"

abbreviation sampleView :: "nat \<times> uint64 list \<Rightarrow> uint64 set" where
  "sampleView w \<equiv> set (snd w)"

lemma sample_database: "database_ok sampleOps sampleView"
  by (auto simp: database_ok_def sampleOps_def failing_def split: prod.splits)

lemma sample_budget: "answers_within sampleOps fst"
  by (auto simp: answers_within_def sampleOps_def failing_def split: prod.splits)

definition sampleIndexConf :: index_conf where
  "sampleIndexConf = \<lparr>IC_enabled = True, IC_checkBalances = True, IC_env = sampleBlockEnv, IC_secondaryScore = (\<lambda>_. None),
     IC_secondaryFlipKeys = (\<lambda>_. None), IC_readonly = sampleReadonly, IC_getBlock = (\<lambda>_. Some (sampleBlock 1)), IC_head = Some 3,
     IC_epoch = 1, IC_epochBlock = 0, IC_period = 0, IC_accounts = []\<rparr>"

text \<open>An indexer that has loaded its state, which ends at \<open>height\<close>, and is to restore its data.\<close>

definition sampleIndexer :: "uint64 \<Rightarrow> Indexer" where
  "sampleIndexer height = \<lparr>Ix_state = Some \<lparr>IS_lastIndexedHeight = height, IS_totalBalance = None, IS_totalStake = None,
       IS_actualOracleVotings = {}\<rparr>, Ix_secondary = Some 2, Ix_restore = True, Ix_firstBlockHeight = 0,
     Ix_firstBlockHeightInitialized = False, Ix_collector = \<lparr>SC_session = Some sampleBlockSession, SC_statsEnabled = False\<rparr>,
     Ix_events = [], Ix_flipsToLoad = [], Ix_queue = []\<rparr>"

lemmas sample_indexer = sampleIndexConf_def sampleIndexer_def

lemma sample_readonly: "\<exists>st. IC_readonly sampleIndexConf h = Some st \<and> NS_app st = sampleApp \<and> NS_accountKeys st = []"
  by (simp add: sampleIndexConf_def sampleReadonly_def sampleNodeState_def)

lemma sample_listed: "accounts_listed toAddr sampleApp []"
  by (simp add: accounts_listed_def sampleApp_def)

lemma sample_restorable: "restorable sampleIndexConf"
  by (auto simp: restorable_def collectData_def sampleIndexConf_def restoreHeight_def collectRestoredBalances_def collectIdentityData_def
      sampleReadonly_def sampleNodeState_def Let_def)

lemma sample_converts: "converts sampleIndexConf sampleBlockSession (sampleBlock h)"
  by (rule converts_block) (auto simp: sampleIndexConf_def sample_order, auto simp: sample_block sampleExt_inj convertible_def killStats_def
      emptyStats_def emptySession_def sampleNodeState_def killTx_def killInviteePanics_def longAnswersPanic_def)

lemma sample_passes: "balances_pass sampleIndexConf sampleOps"
  by (simp add: balances_pass_def sampleIndexConf_def sampleOps_def checkBalances_def toMap_def balancesAgree_def)

lemma sample_genesis: "genesis_precedes sampleIndexConf (sampleBlock h)"
  by (simp add: genesis_precedes_def sampleIndexConf_def sampleBlock_def sampleBlockEnv_def)

lemma sample_index:
  assumes "Ix_state ix = Ix_state (sampleIndexer l)" "Ix_firstBlockHeightInitialized ix = False" "sessionOf ix = Some sampleBlockSession"
    and "lastOf (set hs) = l" "l \<noteq> 0" "\<forall>x \<in> set hs. x < 2 ^ 63" "1 < h" "fits (sampleBlock h) (set hs)" "k + 2 < n"
  shows "\<exists>ix' w'. indexBlock sampleIndexConf sampleOps n (sampleBlock h) ix (k, hs) = (Returns (), ix', w')"
proof -
  have h: "B_Height (sampleBlock h) = h" by (simp add: sampleBlock_def)
  obtain st where st: "IC_readonly sampleIndexConf (h - 1) = Some st" "NS_app st = sampleApp" "NS_accountKeys st = []"
    using sample_readonly by blast
  have c: "coherent ix (sampleView (k, hs))" using assms(1,4) by (simp add: coherent_def sampleIndexer_def)
  have prev: "IC_readonly sampleIndexConf (B_Height (sampleBlock h) - 1) = Some st" using st(1) h by simp
  show ?thesis
    by (rule indexBlock_defined [OF sample_database sample_budget sample_restorable sample_converts sample_passes _ _ prev _ c _ assms(3)])
      (use assms h st sample_listed in \<open>simp_all add: sample_indexer sampleBlock_def sampleBlockEnv_def initFirstBlockHeight_def\<close>)
qed

lemma sample_fits: "fits (sampleBlock 3) {1, 2, 3}" "lastOf {1, 2, 3} = 3" "fits (sampleBlock 2) {1}" "lastOf {1} = 1"
  by (simp_all add: fits_def lastOf_def sampleBlock_def)

section \<open>Properties\<close>

text \<open>C2: When the indexing of a block returns, the database ends with that block and has the block
  before it: later blocks of another branch are gone, nothing below the previous block has changed
  and there is no gap. The state in memory shows the same height, and a pending restoring was done.\<close>
theorem indexed_block_saved:
  assumes "database_ok ops view" "indexBlock conf ops n b ix w = (Returns (), ix', w')"
    and "coherent ix (view w)" "\<forall>x \<in> view w. x < 2 ^ 63" "1 < B_Height b" "genesis_precedes conf b"
  shows "indexed b (view w) ix' (view w')"
  by (rule indexBlock_indexed [OF assms])

theorem indexed_block_saved_witness:
  "\<exists>ix' w'. indexBlock sampleIndexConf sampleOps 5 (sampleBlock 3) (sampleIndexer 3) (2, [1, 2, 3]) = (Returns (), ix', w')
     \<and> indexed (sampleBlock 3) {1, 2, 3} ix' (sampleView w')"
proof -
  obtain ix' w' where r: "indexBlock sampleIndexConf sampleOps 5 (sampleBlock 3) (sampleIndexer 3) (2, [1, 2, 3]) = (Returns (), ix', w')"
    using sample_index [of "sampleIndexer 3" 3 "[1, 2, 3]" 3 2 5] sample_fits by (auto simp: sampleIndexer_def sessionOf_def)
  have "indexed (sampleBlock 3) (sampleView (2, [1, 2, 3])) ix' (sampleView w')"
    by (rule indexed_block_saved [OF sample_database r])
      (use sample_fits sample_genesis in \<open>simp_all add: coherent_def sampleIndexer_def sampleBlock_def\<close>)
  then show ?thesis using r by simp
qed

text \<open>A block beyond the expected height that does not follow the genesis block stops the indexer
  with a panic before anything is read from or written to the database.\<close>
theorem unexpected_block_panics:
  assumes "IC_enabled conf" "initFirstBlockHeight conf ix = Some ix1" "Ix_state ix1 = Some st"
    and "IS_lastIndexedHeight st + 1 < B_Height b" "getGenesisBlock conf = Some g" "B_Height b \<noteq> B_Height g + 1"
  shows "indexBlock conf ops (Suc n) b ix w = (Panics, ix1, w)"
  using assms by (simp add: indexBlock_def getHeightToIndex_def)


theorem unexpected_block_panics_witness:
  "\<exists>ix1. indexBlock sampleIndexConf sampleOps (Suc 4) (sampleBlock 9) (sampleIndexer 3) (2, [1, 2, 3]) = (Panics, ix1, (2, [1, 2, 3]))"
proof -
  obtain ix1 where i: "initFirstBlockHeight sampleIndexConf (sampleIndexer 3) = Some ix1"
    by (simp add: initFirstBlockHeight_def sample_indexer)
  have st: "Ix_state ix1 = Some \<lparr>IS_lastIndexedHeight = 3, IS_totalBalance = None, IS_totalStake = None, IS_actualOracleVotings = {}\<rparr>"
    using initFirstBlockHeight_frame [OF i] by (simp add: sampleIndexer_def)
  have "indexBlock sampleIndexConf sampleOps (Suc 4) (sampleBlock 9) (sampleIndexer 3) (2, [1, 2, 3]) = (Panics, ix1, (2, [1, 2, 3]))"
    by (rule unexpected_block_panics [OF _ i st, of _ "sampleBlock 1"])
      (simp_all add: sampleIndexConf_def getGenesisBlock_def sampleBlock_def)
  then show ?thesis by blast
qed





end
