(* ===== verification/Db_Accessor.thy ===== *)
theory Db_Accessor
  imports Db_Save Indexer_Properties
begin

text \<open>
  The operations of the database accessor, \<open>src/db/postgres.go\<close>, \<open>postgres_restore.go\<close>,
  \<open>postgres_balances.go\<close>, \<open>postgres_actual_voting_loader.go\<close>, \<open>postgres_flip.go\<close>, \<open>postgres_mempool.go\<close>,
  \<open>postgres_peers.go\<close> and \<open>postgres_upgrades_history.go\<close>: transactions with their rollback, queries with
  the scanning of their rows, and single statements. The monitor is threaded through \<open>Save\<close>, the only
  operation that measures.
\<close>

section \<open>Saving a block\<close>

text \<open>
  A measured step: an error or a panic leaves the measurement open. An error of PostgreSQL is given its
  details before it is returned.
\<close>

definition timed :: "string \<Rightarrow> ('s, 'a) action \<Rightarrow> ('s \<times> performanceMonitor option, 'a) action" where
  "timed name m = (\<lambda>(s, pm). case m s of
       (None, s1) \<Rightarrow> (None, s1, pmStart name pm)
     | (Some (Inl err), s1) \<Rightarrow> (Some (Inl (getResultError err)), s1, pmStart name pm)
     | (Some (Inr x), s1) \<Rightarrow>
         (case pmComplete name (pmStart name pm) of
            None \<Rightarrow> (None, s1, pmStart name pm)
          | Some pm1 \<Rightarrow> (Some (Inr x), s1, pm1)))"

definition saveSteps :: "db_conf \<Rightarrow> ('w, 's) sql \<Rightarrow> Data \<Rightarrow> ('s \<times> performanceMonitor option, unit) action" where
  "saveSteps conf ops v =
     (let ctx = newContext (D_Epoch v) (Bl_Height (D_Block v)) in
      sqlBind (timed ''saveEpoch'' (saveEpoch conf ops (D_Epoch v) (D_ValidationTime v) (D_PrevStateRoot v) (D_DiscriminationStakeThreshold v))) (\<lambda>_.
      sqlBind (timed ''saveBlock'' (saveBlock conf ops ctx (D_Block v))) (\<lambda>_.
      sqlBind (timed ''saveAddressesAndTransactions'' (saveAddressesAndTransactions conf ops ctx v)) (\<lambda>ids.
      let ctx = ctx\<lparr>DX_txIdsPerHash := ids\<rparr> in
      sqlBind (timed ''saveProposer'' (saveProposer conf ops ctx (Bl_Proposer (D_Block v)))) (\<lambda>_.
      sqlBind (timed ''saveProposerVrfScore'' (saveProposerVrfScore conf ops ctx (Bl_ProposerVrfScore (D_Block v)))) (\<lambda>_.
      sqlBind (timed ''saveCoins'' (saveCoins conf ops ctx (D_Coins v))) (\<lambda>_.
      sqlBind (timed ''saveBalances'' (saveBalances conf ops (DX_blockHeight ctx) (D_ChangedBalances v) (D_BalanceUpdates v)
        (D_CommitteeRewardShare v))) (\<lambda>_.
      sqlBind (timed ''saveSubmittedFlips'' (saveSubmittedFlips conf ops ctx (D_SubmittedFlips v))) (\<lambda>_.
      sqlBind (timed ''saveFlipKeys'' (saveFlipKeys conf ops ctx (D_FlipKeys v))) (\<lambda>_.
      sqlBind (timed ''saveFlipsWords'' (saveFlipsWords conf ops ctx (D_FlipsWords v))) (\<lambda>_.
      sqlBind (timed ''savePenalties'' (savePenalties conf ops ctx (D_Penalties v))) (\<lambda>_.
      sqlBind (if DC_miningRewards conf then timed ''saveMiningRewards'' (saveMiningRewards conf ops ctx (D_MiningRewards v))
               else sqlReturn ()) (\<lambda>_.
      sqlBind (timed ''saveBurntCoins'' (saveBurntCoins conf ops ctx (D_BurntCoinsPerAddr v))) (\<lambda>_.
      timed ''saveEpochResult'' (saveEpochResult conf ops (DX_epoch ctx) (DX_blockHeight ctx) (D_EpochResult v))))))))))))))))"

text \<open>
  The deferred rollback has an effect on every way out but the last, where the transaction has ended;
  the completion of \<open>CommitTx\<close> is deferred behind the commit.
\<close>

definition Save :: "db_conf \<Rightarrow> ('w, 's) sql \<Rightarrow> Data \<Rightarrow> ('w \<times> performanceMonitor option, unit) action" where
  "Save conf ops v = (\<lambda>(w, pm).
     let pm1 = pmStart ''InitTx'' pm
     in case SQ_Begin ops w of
       (Inl err, w1) \<Rightarrow> (Some (Inl (getResultError err)), w1, pm1)
     | (Inr s, w1) \<Rightarrow>
         (case pmComplete ''InitTx'' pm1 of
            None \<Rightarrow> (None, SQ_Rollback ops s w1, pm1)
          | Some pm2 \<Rightarrow>
              (case saveSteps conf ops v (s, pmStart ''RunTx'' pm2) of
                 (None, s1, pm3) \<Rightarrow> (None, SQ_Rollback ops s1 w1, pm3)
               | (Some (Inl err), s1, pm3) \<Rightarrow> (Some (Inl err), SQ_Rollback ops s1 w1, pm3)
               | (Some (Inr _), s1, pm3) \<Rightarrow>
                   (case pmComplete ''RunTx'' pm3 of
                      None \<Rightarrow> (None, SQ_Rollback ops s1 w1, pm3)
                    | Some pm4 \<Rightarrow>
                        (let pm5 = pmStart ''CommitTx'' pm4; (r, w2) = SQ_Commit ops s1 w1
                         in case pmComplete ''CommitTx'' pm5 of
                              None \<Rightarrow> (None, w2, pm5)
                            | Some pm6 \<Rightarrow> (Some r, w2, pm6))))))"

section \<open>Other transactions\<close>

text \<open>\<open>Begin\<close>, the deferred rollback and the commit around the statements of a transaction.\<close>

definition inTx :: "('w, 's) sql \<Rightarrow> (go_error \<Rightarrow> go_error) \<Rightarrow> ('s, unit) action \<Rightarrow> ('w, unit) action" where
  "inTx ops beginError m w = (case SQ_Begin ops w of
       (Inl err, w1) \<Rightarrow> (Some (Inl (beginError err)), w1)
     | (Inr s, w1) \<Rightarrow>
         (case m s of
            (None, s1) \<Rightarrow> (None, SQ_Rollback ops s1 w1)
          | (Some (Inl err), s1) \<Rightarrow> (Some (Inl err), SQ_Rollback ops s1 w1)
          | (Some (Inr _), s1) \<Rightarrow> apfst Some (SQ_Commit ops s1 w1)))"

definition saveRestoredData :: "db_conf \<Rightarrow> ('w, 's) sql \<Rightarrow> RestoredData \<Rightarrow> ('s, unit) action" where
  "saveRestoredData conf ops v = sqlWrap ''unable to save restored data''
     (execTx conf ops ''saveRestoredData.sql'' (plainArgs [AJson (restoredData_Value (getRestoredData (DC_env conf) (Some v)))]))"

definition SaveRestoredData :: "db_conf \<Rightarrow> ('w, 's) sql \<Rightarrow> RestoredData \<Rightarrow> ('w, unit) action" where
  "SaveRestoredData conf ops v = inTx ops id
     (sqlBind (saveBalances conf ops (RsD_BlockHeight v) (RsD_Balances v) [] None) (\<lambda>_.
      sqlBind (saveBirthdays conf ops (RsD_Birthdays v)) (\<lambda>_.
      saveRestoredData conf ops v)))"

section \<open>Single statements\<close>

definition execDb :: "db_conf \<Rightarrow> ('w, 's) sql \<Rightarrow> string \<Rightarrow> (go_error + sqlArg list) option \<Rightarrow> ('w, unit) action" where
  "execDb conf ops query args w = (case DC_queries conf query of
       None \<Rightarrow> (None, w)
     | Some text \<Rightarrow>
         (case args of
            None \<Rightarrow> (None, w)
          | Some (Inl err) \<Rightarrow> (Some (Inl err), w)
          | Some (Inr values) \<Rightarrow> apfst Some (SQ_dbExec ops text values w)))"

definition detailed :: "('s, 'a) action \<Rightarrow> ('s, 'a) action" where
  "detailed m s = (case m s of
       (Some (Inl err), s1) \<Rightarrow> (Some (Inl (getResultError err)), s1)
     | r \<Rightarrow> r)"

definition ResetTo :: "db_conf \<Rightarrow> ('w, 's) sql \<Rightarrow> uint64 \<Rightarrow> ('w, unit) action" where
  "ResetTo conf ops height = detailed (execDb conf ops ''resetToBlock.sql'' (plainArgs [wordArg height]))"

definition SaveMemPoolData :: "db_conf \<Rightarrow> ('w, 's) sql \<Rightarrow> MemPoolData \<Rightarrow> ('w, unit) action" where
  "SaveMemPoolData conf ops v = detailed (execDb conf ops ''saveMemPoolData.sql'' (plainArgs [AJson (MemPoolData_Value v)]))"

text \<open>The time is given in seconds of the epoch.\<close>

definition SavePeersCount :: "db_conf \<Rightarrow> ('w, 's) sql \<Rightarrow> int \<Rightarrow> int \<Rightarrow> ('w, unit) action" where
  "SavePeersCount conf ops n timestamp = detailed (execDb conf ops ''savePeersCount.sql'' (plainArgs [AInt timestamp, AInt n]))"

definition SaveFlipSize :: "db_conf \<Rightarrow> ('w, 's) sql \<Rightarrow> string \<Rightarrow> int \<Rightarrow> ('w, unit) action" where
  "SaveFlipSize conf ops flipCid n = sqlWrap (''unable to save flip size (cid '' @ flipCid @ '', size '' @ showInt n @ '')'')
     (execDb conf ops ''updateFlipSize.sql'' (plainArgs [AInt n, AText flipCid]))"

text \<open>The conversion of a content that cannot be written panics, see \<open>Db_Json\<close>.\<close>

definition contentArgs :: "db_env \<Rightarrow> FailedFlipContent list \<Rightarrow> FlipContent list \<Rightarrow> (go_error + sqlArg list) option" where
  "contentArgs d failedFlips flipsContent =
     map_option (\<lambda>contents. Inr [rowsArg (FailedFlipContent_Value d) failedFlips, AJsons contents])
       (those (map FlipContent_Value flipsContent))"

definition SaveFlipsContent :: "db_conf \<Rightarrow> ('w, 's) sql \<Rightarrow> FailedFlipContent list \<Rightarrow> FlipContent list \<Rightarrow> ('w, unit) action" where
  "SaveFlipsContent conf ops failedFlips flipsContent =
     (if failedFlips = [] \<and> flipsContent = [] then sqlReturn ()
      else sqlWrap ''unable to save flips content'' (execDb conf ops ''saveFlipsContent.sql''
        (contentArgs (DC_env conf) failedFlips flipsContent)))"

definition UpdateUpgradeVotingShortHistory :: "db_conf \<Rightarrow> ('w, 's) sql \<Rightarrow> uint32 \<Rightarrow> UpgradeHistoryItem list \<Rightarrow> uint32 \<Rightarrow> uint64 \<Rightarrow>
    ('w, unit) action" where
  "UpdateUpgradeVotingShortHistory conf ops upgrade history lastStep lastHeight =
     sqlWrap ''unable to update upgrade voting short history'' (execDb conf ops ''updateUpgradeVotingShortHistory.sql''
       (plainArgs [AJson (upgradeVotingShortHistoryData_Value upgrade history lastStep lastHeight)]))"

definition UpdateUpgrades :: "db_conf \<Rightarrow> ('w, 's) sql \<Rightarrow> Upgrade list \<Rightarrow> ('w, unit) action" where
  "UpdateUpgrades conf ops upgrades = sqlWrap ''unable to update upgrades''
     (execDb conf ops ''updateUpgrades.sql'' (plainArgs [AJson (upgradesData_Value upgrades)]))"

section \<open>Queries\<close>

text \<open>Scanning a column: a value of another type than the destination's is an error.\<close>

definition scanError :: "go_error + 'a" where
  "scanError = Inl (TextError ''sql: Scan error'')"

definition scanInt :: "sqlArg \<Rightarrow> go_error + int" where
  "scanInt v = (case v of AInt n \<Rightarrow> Inr n | _ \<Rightarrow> scanError)"

definition scanText :: "sqlArg \<Rightarrow> go_error + string" where
  "scanText v = (case v of AText s \<Rightarrow> Inr s | _ \<Rightarrow> scanError)"

definition scanDecimal :: "sqlArg \<Rightarrow> go_error + decimal" where
  "scanDecimal v = (case v of ADecimal x \<Rightarrow> Inr x | _ \<Rightarrow> scanError)"

definition resultBind :: "go_error + 'a \<Rightarrow> ('a \<Rightarrow> go_error + 'b) \<Rightarrow> go_error + 'b" where
  "resultBind r f = (case r of Inl err \<Rightarrow> Inl err | Inr x \<Rightarrow> f x)"

text \<open>The loop over the rows: it ends at the first row that cannot be scanned.\<close>

fun scanRows :: "(sqlArg list \<Rightarrow> go_error + 'a) \<Rightarrow> sqlArg list list \<Rightarrow> 'a list \<Rightarrow> go_error + 'a list" where
  "scanRows f [] res = Inr res"
| "scanRows f (row # rows) res = (case f row of Inl err \<Rightarrow> Inl err | Inr item \<Rightarrow> scanRows f rows (res @ [item]))"

text \<open>A query of several rows: \<open>rows.Next\<close> is false at the end and when the iteration fails, and the code does not ask which.\<close>

definition queryText :: "('w, 's) sql \<Rightarrow> string \<Rightarrow> sqlArg list \<Rightarrow> (sqlArg list \<Rightarrow> go_error + 'a) \<Rightarrow> 'w \<Rightarrow> (go_error + 'a list) \<times> 'w" where
  "queryText ops text args f w = (case SQ_dbQuery ops text args w of
       (Inl err, w1) \<Rightarrow> (Inl err, w1)
     | (Inr rows, w1) \<Rightarrow> (scanRows f (RW_rows rows) [], w1))"

definition queryDb :: "db_conf \<Rightarrow> ('w, 's) sql \<Rightarrow> string \<Rightarrow> sqlArg list \<Rightarrow> (sqlArg list \<Rightarrow> go_error + 'a) \<Rightarrow> ('w, 'a list) action" where
  "queryDb conf ops query args f w = (case DC_queries conf query of
       None \<Rightarrow> (None, w)
     | Some text \<Rightarrow> apfst Some (queryText ops text args f w))"

text \<open>\<open>QueryRow\<close> with \<open>Scan\<close> takes the first row; here the library reports the error of the iteration.\<close>

definition queryRowText :: "('w, 's) sql \<Rightarrow> string \<Rightarrow> sqlArg list \<Rightarrow> (sqlArg list \<Rightarrow> go_error + 'a) \<Rightarrow> 'w \<Rightarrow> (go_error + 'a) \<times> 'w" where
  "queryRowText ops text args f w = (case SQ_dbQuery ops text args w of
       (Inl err, w1) \<Rightarrow> (Inl err, w1)
     | (Inr rows, w1) \<Rightarrow>
         (case RW_rows rows of
            [] \<Rightarrow> (Inl (case RW_err rows of Some err \<Rightarrow> err | None \<Rightarrow> TextError ''sql: no rows in result set''), w1)
          | row # _ \<Rightarrow> (f row, w1)))"

definition queryRowDb :: "db_conf \<Rightarrow> ('w, 's) sql \<Rightarrow> string \<Rightarrow> sqlArg list \<Rightarrow> (sqlArg list \<Rightarrow> go_error + 'a) \<Rightarrow> ('w, 'a) action" where
  "queryRowDb conf ops query args f w = (case DC_queries conf query of
       None \<Rightarrow> (None, w)
     | Some text \<Rightarrow> apfst Some (queryRowText ops text args f w))"

definition scan1 :: "(sqlArg \<Rightarrow> go_error + 'a) \<Rightarrow> sqlArg list \<Rightarrow> go_error + 'a" where
  "scan1 f row = (case row of [v] \<Rightarrow> f v | _ \<Rightarrow> scanError)"

definition scan2 :: "(sqlArg \<Rightarrow> go_error + 'a) \<Rightarrow> (sqlArg \<Rightarrow> go_error + 'b) \<Rightarrow> sqlArg list \<Rightarrow> go_error + 'a \<times> 'b" where
  "scan2 f g row = (case row of [u, v] \<Rightarrow> resultBind (f u) (\<lambda>x. resultBind (g v) (\<lambda>y. Inr (x, y))) | _ \<Rightarrow> scanError)"

definition scan3 :: "(sqlArg \<Rightarrow> go_error + 'a) \<Rightarrow> (sqlArg \<Rightarrow> go_error + 'b) \<Rightarrow> (sqlArg \<Rightarrow> go_error + 'c) \<Rightarrow> sqlArg list \<Rightarrow>
    go_error + 'a \<times> 'b \<times> 'c" where
  "scan3 f g h row = (case row of
       [u, v, x] \<Rightarrow> resultBind (f u) (\<lambda>a. resultBind (g v) (\<lambda>b. resultBind (h x) (\<lambda>c. Inr (a, b, c))))
     | _ \<Rightarrow> scanError)"

text \<open>A number that does not fit its destination is an error of the scan.\<close>

definition scanWord :: "sqlArg \<Rightarrow> go_error + 'a::len word" where
  "scanWord v = resultBind (scanInt v) (\<lambda>n. if 0 \<le> n \<and> n < 2 ^ LENGTH('a) then Inr (word_of_int n) else scanError)"

definition GetLastHeight :: "db_conf \<Rightarrow> ('w, 's) sql \<Rightarrow> ('w, uint64) action" where
  "GetLastHeight conf ops = queryRowDb conf ops ''maxHeight.sql'' []
     (scan1 (\<lambda>v. resultBind (scanInt v) (\<lambda>maxHeight. Inr (word_of_int maxHeight))))"

definition ActualOracleVotings :: "db_conf \<Rightarrow> ('w, 's) sql \<Rightarrow> ('w, address list) action" where
  "ActualOracleVotings conf ops = queryDb conf ops ''selectActualOracleVotings.sql'' []
     (scan1 (\<lambda>v. resultBind (scanText v) (\<lambda>item. Inr (DC_HexToAddress conf item))))"

definition GetEpochFlipsWithoutSize :: "db_conf \<Rightarrow> ('w, 's) sql \<Rightarrow> uint64 \<Rightarrow> int \<Rightarrow> ('w, string list) action" where
  "GetEpochFlipsWithoutSize conf ops epoch limit =
     queryDb conf ops ''selectEpochFlipsWithoutSize.sql'' [wordArg epoch, AInt limit] (scan1 scanText)"

record FlipToLoadContent =
  FTL_Cid :: string
  FTL_Key :: string
  FTL_Attempts :: int

definition GetFlipsToLoadContent :: "db_conf \<Rightarrow> ('w, 's) sql \<Rightarrow> int \<Rightarrow> int \<Rightarrow> ('w, FlipToLoadContent list) action" where
  "GetFlipsToLoadContent conf ops timestamp limit =
     queryDb conf ops ''selectFlipsToLoadContent.sql'' [AInt (toInt64 timestamp), AInt limit]
       (\<lambda>row. resultBind (scan3 scanText scanText scanInt row)
          (\<lambda>(c, k, n). Inr \<lparr>FTL_Cid = c, FTL_Key = k, FTL_Attempts = n\<rparr>))"

definition GetUpgradeVotingShortHistoryInfo :: "db_conf \<Rightarrow> ('w, 's) sql \<Rightarrow> uint32 \<Rightarrow> ('w, UpgradeVotingShortHistoryInfo) action" where
  "GetUpgradeVotingShortHistoryInfo conf ops upgrade =
     queryRowDb conf ops ''getUpgradeVotingShortHistoryInfo.sql'' [wordArg upgrade]
       (\<lambda>row. resultBind (scan3 scanWord scanWord scanWord row)
          (\<lambda>(items, height, step). Inr \<lparr>UHS_HistoryItems = items, UHS_LastStep = step, UHS_LastHeight = height\<rparr>))"

definition GetUpgradeVotingHistory :: "db_conf \<Rightarrow> ('w, 's) sql \<Rightarrow> uint32 \<Rightarrow> ('w, UpgradeHistoryItem list) action" where
  "GetUpgradeVotingHistory conf ops upgrade = queryDb conf ops ''getUpgradeVotingHistory.sql'' [wordArg upgrade]
     (\<lambda>row. resultBind (scan2 scanWord scanWord row) (\<lambda>(height, votes). Inr \<lparr>UHI_BlockHeight = height, UHI_Votes = votes\<rparr>))"

section \<open>The queries of the balance check\<close>

text \<open>The texts of these queries are constants of the code; here they are the argument \<open>texts\<close>.\<close>

record balance_texts =
  BT_balances :: string
  BT_latestUpdates :: string
  BT_gap :: string
  BT_inconsistency1 :: string
  BT_inconsistency2 :: string

definition Balances :: "('w, 's) sql \<Rightarrow> balance_texts \<Rightarrow> 'w \<Rightarrow> (go_error + (string \<times> decimal) list) \<times> 'w" where
  "Balances ops texts = queryText ops (BT_balances texts) [] (scan2 scanText scanDecimal)"

definition LatestBalanceUpdates :: "('w, 's) sql \<Rightarrow> balance_texts \<Rightarrow> 'w \<Rightarrow> (go_error + (string \<times> decimal) list) \<times> 'w" where
  "LatestBalanceUpdates ops texts = queryText ops (BT_latestUpdates texts) [] (scan2 scanText scanDecimal)"

definition cnt :: "('w, 's) sql \<Rightarrow> string \<Rightarrow> 'w \<Rightarrow> (go_error + int) \<times> 'w" where
  "cnt ops query = queryRowText ops query [] (scan1 scanInt)"

definition BalanceUpdateGapCnt :: "('w, 's) sql \<Rightarrow> balance_texts \<Rightarrow> 'w \<Rightarrow> (go_error + int) \<times> 'w" where
  "BalanceUpdateGapCnt ops texts = cnt ops (BT_gap texts)"

definition BurntCoinsInconsistencyCnt :: "('w, 's) sql \<Rightarrow> balance_texts \<Rightarrow> 'w \<Rightarrow> (go_error + int) \<times> 'w" where
  "BurntCoinsInconsistencyCnt ops texts w = (case cnt ops (BT_inconsistency1 texts) w of
       (Inl err, w1) \<Rightarrow> (Inl err, w1)
     | (Inr res1, w1) \<Rightarrow>
         (case cnt ops (BT_inconsistency2 texts) w1 of
            (Inl err, w2) \<Rightarrow> (Inl err, w2)
          | (Inr res2, w2) \<Rightarrow> (Inr (res1 + res2), w2)))"

end
