(* ===== verification/Db_Contract.thy ===== *)
theory Db_Contract
  imports Db_Accessor
begin

text \<open>
  What the accessor promises to the indexer: a block is saved as a whole or not at all, and its
  operations satisfy the contract of the database that the theory \<open>Indexer_Properties\<close> works with. The
  laws of the driver are the predicates \<open>transactional\<close> and \<open>driver_ok\<close>.
\<close>

section \<open>The laws of the driver\<close>

text \<open>
  Opening a transaction, rolling it back and a commit that fails leave the stored content alone.
\<close>

definition transactional :: "('w, 's) sql \<Rightarrow> ('w \<Rightarrow> 'c) \<Rightarrow> bool" where
  "transactional ops content \<longleftrightarrow>
     (\<forall>w. content (snd (SQ_Begin ops w)) = content w) \<and>
     (\<forall>s w. content (SQ_Rollback ops s w) = content w) \<and>
     (\<forall>s w. fst (SQ_Commit ops s w) \<noteq> Inr () \<longrightarrow> content (snd (SQ_Commit ops s w)) = content w)"

lemma transactionalD:
  assumes "transactional ops content"
  shows "SQ_Begin ops w = (b, w1) \<Longrightarrow> content w1 = content w"
    and "content (SQ_Rollback ops s w) = content w"
    and "SQ_Commit ops s w = (r, w1) \<Longrightarrow> r \<noteq> Inr () \<Longrightarrow> content w1 = content w"
  using assms unfolding transactional_def by (metis snd_conv, metis, metis fst_conv snd_conv)

definition heightArg :: "sqlArg list \<Rightarrow> uint64" where
  "heightArg args = (case args of AInt h # _ \<Rightarrow> word_of_int h | _ \<Rightarrow> 0)"

text \<open>
  The heights of the stored blocks, \<open>view\<close>, and those a transaction has inserted, \<open>pend\<close>: only the
  query \<open>insertBlock.sql\<close> inserts a height, its first argument; \<open>resetToBlock.sql\<close> deletes those above
  its argument, and no other statement outside a transaction changes them; \<open>maxHeight.sql\<close> answers with
  the greatest one. The content is the rest of what is stored.
\<close>

definition driver_ok :: "db_conf \<Rightarrow> ('w, 's) sql \<Rightarrow> ('w \<Rightarrow> uint64 set) \<Rightarrow> ('s \<Rightarrow> uint64 set) \<Rightarrow> bool" where
  "driver_ok conf ops view pend \<longleftrightarrow>
     transactional ops view \<and>
     (\<forall>query. query \<noteq> ''insertBlock.sql'' \<longrightarrow> DC_queries conf query \<noteq> None \<longrightarrow>
        DC_queries conf query \<noteq> DC_queries conf ''insertBlock.sql'') \<and>
     (\<forall>w s w1. SQ_Begin ops w = (Inr s, w1) \<longrightarrow> pend s = {}) \<and>
     (\<forall>q args s s1. SQ_Exec ops q args s = (Inr (), s1) \<longrightarrow>
        pend s1 = (if DC_queries conf ''insertBlock.sql'' = Some q then {heightArg args} else {}) \<union> pend s) \<and>
     (\<forall>q args s rows s1. SQ_QueryRow ops q args s = (Inr rows, s1) \<longrightarrow> pend s1 = pend s) \<and>
     (\<forall>s w w1. SQ_Commit ops s w = (Inr (), w1) \<longrightarrow> view w1 = pend s \<union> view w) \<and>
     (\<forall>q args w. DC_queries conf ''resetToBlock.sql'' = Some q \<longrightarrow>
        view (snd (SQ_dbExec ops q args w)) =
          (if fst (SQ_dbExec ops q args w) = Inr () then {x \<in> view w. x \<le> heightArg args} else view w)) \<and>
     (\<forall>q args w. view (snd (SQ_dbQuery ops q args w)) = view w) \<and>
     (\<forall>q w rows w1 row rest. DC_queries conf ''maxHeight.sql'' = Some q \<longrightarrow> SQ_dbQuery ops q [] w = (Inr rows, w1) \<longrightarrow>
        RW_rows rows = row # rest \<longrightarrow> row = [AInt (uint (lastOf (view w)))])"

named_theorems steps_intro

lemma driver_okD:
  assumes "driver_ok conf ops view pend"
  shows "transactional ops view"
    and "query \<noteq> ''insertBlock.sql'' \<Longrightarrow> DC_queries conf query \<noteq> None \<Longrightarrow>
      DC_queries conf query \<noteq> DC_queries conf ''insertBlock.sql''"
    and "SQ_Begin ops w = (Inr s, w1) \<Longrightarrow> pend s = {}"
    and "SQ_Exec ops q args s = (Inr (), s1) \<Longrightarrow>
      pend s1 = (if DC_queries conf ''insertBlock.sql'' = Some q then {heightArg args} else {}) \<union> pend s"
    and "SQ_QueryRow ops q args s = (Inr rows, s1) \<Longrightarrow> pend s1 = pend s"
    and "SQ_Commit ops s w = (Inr (), w1) \<Longrightarrow> view w1 = pend s \<union> view w"
    and "DC_queries conf ''resetToBlock.sql'' = Some q \<Longrightarrow> view (snd (SQ_dbExec ops q args w)) =
      (if fst (SQ_dbExec ops q args w) = Inr () then {x \<in> view w. x \<le> heightArg args} else view w)"
    and "view (snd (SQ_dbQuery ops q args w)) = view w"
    and "DC_queries conf ''maxHeight.sql'' = Some q \<Longrightarrow> SQ_dbQuery ops q [] w = (Inr result, w1) \<Longrightarrow>
      RW_rows result = row # rest \<Longrightarrow> row = [AInt (uint (lastOf (view w)))]"
proof -
  note laws = assms [unfolded driver_ok_def]
  show "transactional ops view" by (rule conjunct1 [OF laws])
  note l = conjunct2 [OF laws]
  show "query \<noteq> ''insertBlock.sql'' \<Longrightarrow> DC_queries conf query \<noteq> None \<Longrightarrow>
      DC_queries conf query \<noteq> DC_queries conf ''insertBlock.sql''" by (rule conjunct1 [OF l, rule_format])
  note l = conjunct2 [OF l]
  show "SQ_Begin ops w = (Inr s, w1) \<Longrightarrow> pend s = {}" by (rule conjunct1 [OF l, rule_format])
  note l = conjunct2 [OF l]
  show "SQ_Exec ops q args s = (Inr (), s1) \<Longrightarrow>
      pend s1 = (if DC_queries conf ''insertBlock.sql'' = Some q then {heightArg args} else {}) \<union> pend s"
    by (rule conjunct1 [OF l, rule_format])
  note l = conjunct2 [OF l]
  show "SQ_QueryRow ops q args s = (Inr rows, s1) \<Longrightarrow> pend s1 = pend s" by (rule conjunct1 [OF l, rule_format])
  note l = conjunct2 [OF l]
  show "SQ_Commit ops s w = (Inr (), w1) \<Longrightarrow> view w1 = pend s \<union> view w" by (rule conjunct1 [OF l, rule_format])
  note l = conjunct2 [OF l]
  show "DC_queries conf ''resetToBlock.sql'' = Some q \<Longrightarrow> view (snd (SQ_dbExec ops q args w)) =
      (if fst (SQ_dbExec ops q args w) = Inr () then {x \<in> view w. x \<le> heightArg args} else view w)"
    by (rule conjunct1 [OF l, rule_format])
  note l = conjunct2 [OF l]
  show "view (snd (SQ_dbQuery ops q args w)) = view w" by (rule conjunct1 [OF l, rule_format])
  show "DC_queries conf ''maxHeight.sql'' = Some q \<Longrightarrow> SQ_dbQuery ops q [] w = (Inr result, w1) \<Longrightarrow>
      RW_rows result = row # rest \<Longrightarrow> row = [AInt (uint (lastOf (view w)))]"
    by (rule conjunct2 [OF l, rule_format])
qed

lemma driver_other:
  "driver_ok conf ops view pend \<Longrightarrow> DC_queries conf query = Some q \<Longrightarrow> query \<noteq> ''insertBlock.sql'' \<Longrightarrow>
    DC_queries conf ''insertBlock.sql'' \<noteq> Some q"
  using driver_okD(2) [of conf ops view pend query] by auto

section \<open>What a step inserts\<close>

definition adds :: "('s \<Rightarrow> uint64 set) \<Rightarrow> uint64 set \<Rightarrow> ('s, 'a) action \<Rightarrow> bool" where
  "adds pend A m \<longleftrightarrow> (\<forall>s x s1. m s = (Some (Inr x), s1) \<longrightarrow> pend s1 = A \<union> pend s)"

lemma adds_return [steps_intro]: "adds pend {} (sqlReturn x)"
  by (simp add: adds_def sqlReturn_def)

lemma adds_fail [steps_intro]: "adds pend A (\<lambda>s. (Some (Inl err), s))" "adds pend A (\<lambda>s. (None, s))"
  by (simp_all add: adds_def)

lemma adds_bind: "adds pend A m \<Longrightarrow> (\<And>x. adds pend B (f x)) \<Longrightarrow> adds pend (A \<union> B) (sqlBind m f)"
  by (fastforce simp: adds_def sqlBind_def split: prod.splits option.splits sum.splits)

lemma adds_bind_none [steps_intro]: "adds pend {} m \<Longrightarrow> (\<And>x. adds pend {} (f x)) \<Longrightarrow> adds pend {} (sqlBind m f)"
  using adds_bind [of pend "{}" m "{}" f] by simp

lemma adds_wrap [steps_intro]: "adds pend A m \<Longrightarrow> adds pend A (sqlWrap msg m)"
  by (fastforce simp: adds_def sqlWrap_def split: prod.splits option.splits sum.splits)

lemma adds_if [steps_intro]: "adds pend A m \<Longrightarrow> adds pend A k \<Longrightarrow> adds pend A (if b then m else k)"
  by simp

lemma execTx_returns:
  "execTx conf ops query args s = (Some (Inr x), s1) \<longleftrightarrow>
    (\<exists>q vals. DC_queries conf query = Some q \<and> args = Some (Inr vals) \<and> SQ_Exec ops q vals s = (Inr x, s1))"
  by (auto simp: execTx_def apfst_def map_prod_def split: option.splits sum.splits prod.splits)

lemma adds_exec [steps_intro]:
  assumes "driver_ok conf ops view pend" "query \<noteq> ''insertBlock.sql''"
  shows "adds pend {} (execTx conf ops query args)"
  unfolding adds_def execTx_returns
  using driver_okD(4) [OF assms(1)] driver_other [OF assms(1) _ assms(2)] by fastforce

lemma adds_exec_block:
  assumes "driver_ok conf ops view pend"
  shows "adds pend {heightArg args} (execTx conf ops ''insertBlock.sql'' (plainArgs args))"
  unfolding adds_def execTx_returns plainArgs_def using driver_okD(4) [OF assms] by fastforce

lemma adds_saveBlock: "driver_ok conf ops view pend \<Longrightarrow> adds pend {Bl_Height block} (saveBlock conf ops ctx block)"
  unfolding saveBlock_def
  using adds_exec_block [of conf ops view pend "wordArg (Bl_Height block) # rest" for rest] by (simp add: heightArg_def wordArg_def)

lemma adds_submitted [steps_intro]: "driver_ok conf ops view pend \<Longrightarrow> adds pend {} (saveSubmittedFlips conf ops ctx fs)"
  by (induction fs) (auto intro!: steps_intro simp: saveSubmittedFlip_def split: sum.split)

lemma adds_flipKeys [steps_intro]: "driver_ok conf ops view pend \<Longrightarrow> adds pend {} (saveFlipKeys conf ops ctx ks)"
  by (induction ks) (auto intro!: steps_intro simp: saveFlipKey_def split: sum.split)

lemma adds_penalties [steps_intro]: "driver_ok conf ops view pend \<Longrightarrow> adds pend {} (savePenalties conf ops ctx penalties)"
  by (induction penalties) (auto intro!: steps_intro simp: savePenalty_def)

lemma adds_addresses [steps_intro]:
  "driver_ok conf ops view pend \<Longrightarrow> adds pend {} (saveAddressesAndTransactions conf ops ctx v)"
  unfolding saveAddressesAndTransactions_def adds_def sqlWrap_def
  using driver_okD(5) by (fastforce split: option.splits sum.splits prod.splits)

lemma adds_epochResult [steps_intro]: "driver_ok conf ops view pend \<Longrightarrow> adds pend {} (saveEpochResult conf ops epoch height r)"
  by (auto intro!: steps_intro simp: saveEpochResult_def split: option.split)

lemmas save_defs = saveEpoch_def saveProposer_def saveProposerVrfScore_def saveCoins_def saveBalances_def saveFlipsWords_def
  saveMiningRewards_def saveBurntCoins_def saveBirthdays_def saveRestoredData_def

lemma adds_parts [steps_intro]:
  assumes "driver_ok conf ops view pend"
  shows "adds pend {} (saveEpoch conf ops epoch validationTime stateRoot threshold)"
    and "adds pend {} (saveProposer conf ops ctx proposer)"
    and "adds pend {} (saveProposerVrfScore conf ops ctx score)"
    and "adds pend {} (saveCoins conf ops ctx coins)"
    and "adds pend {} (saveBalances conf ops height balances updates share)"
    and "adds pend {} (saveFlipsWords conf ops ctx wordList)"
    and "adds pend {} (saveMiningRewards conf ops ctx rewards)"
    and "adds pend {} (saveBurntCoins conf ops ctx burnt)"
    and "adds pend {} (saveBirthdays conf ops birthdays)"
    and "adds pend {} (saveRestoredData conf ops restored)"
  using assms by (auto intro!: steps_intro simp: save_defs Let_def)

section \<open>Measured steps\<close>

text \<open>
  A measured step keeps the monitor's open measurements when it succeeds, and leaves one more of them
  when it fails. \<open>A\<close> is what it inserts.
\<close>

definition measured :: "('s \<Rightarrow> uint64 set) \<Rightarrow> uint64 set \<Rightarrow> ('s \<times> performanceMonitor option, 'a) action \<Rightarrow> bool" where
  "measured pend A m \<longleftrightarrow> (\<forall>s pm r s1 pm1. m (s, pm) = (r, s1, pm1) \<longrightarrow>
     (pm1 = None \<longleftrightarrow> pm = None) \<and>
     (case r of
        None \<Rightarrow> True
      | Some (Inl err) \<Rightarrow> pm \<noteq> None \<longrightarrow> (\<exists>n. n \<noteq> ''Save'' \<and> openNames pm1 = n # openNames pm)
      | Some (Inr x) \<Rightarrow> pend s1 = A \<union> pend s \<and> openNames pm1 = openNames pm))"

lemma started_none: "pmStart name pm = None \<longleftrightarrow> pm = None"
  by (simp add: pmStart_def)

lemma openNames_none: "openNames None = []"
  by (simp add: openNames_def)

lemma complete_started:
  assumes "pmComplete name (pmStart name pm) = Some pm1"
  shows "openNames pm1 = openNames pm \<and> (pm1 = None \<longleftrightarrow> pm = None)"
proof (cases "pm = None")
  case True
  then show ?thesis using assms by (simp add: pmStart_def pmComplete_def)
next
  case False
  then show ?thesis using openNames_complete [OF assms] openNames_start [of name pm] by (auto simp: started_none)
qed

lemma complete_defined: "pmComplete name (pmStart name pm) \<noteq> None"
  using openNames_start [of name pm] by (auto simp: pmComplete_iff started_none)

lemma measured_timed:
  assumes "adds pend A m" "name \<noteq> ''Save''"
  shows "measured pend A (timed name m)"
  using assms complete_started [of name] openNames_start [of name]
  by (fastforce simp: measured_def timed_def adds_def started_none split: prod.splits option.splits sum.splits)

lemma measured_return: "measured pend {} (sqlReturn x)"
  by (simp add: measured_def sqlReturn_def)

lemma measured_bind:
  assumes "measured pend A m" "\<And>x. measured pend B (f x)"
  shows "measured pend (A \<union> B) (sqlBind m f)"
  unfolding measured_def
proof (intro allI impI)
  fix s pm r s1 pm1
  assume run: "sqlBind m f (s, pm) = (r, s1, pm1)"
  obtain r0 s0 pm0 where m: "m (s, pm) = (r0, s0, pm0)" by (metis prod.collapse)
  note first = assms(1) [unfolded measured_def, rule_format, OF m]
  show "(pm1 = None \<longleftrightarrow> pm = None) \<and>
     (case r of
        None \<Rightarrow> True
      | Some (Inl err) \<Rightarrow> pm \<noteq> None \<longrightarrow> (\<exists>n. n \<noteq> ''Save'' \<and> openNames pm1 = n # openNames pm)
      | Some (Inr x) \<Rightarrow> pend s1 = (A \<union> B) \<union> pend s \<and> openNames pm1 = openNames pm)"
  proof (cases "\<exists>x. r0 = Some (Inr x)")
    case True
    then obtain x where x: "r0 = Some (Inr x)" by blast
    then have "f x (s0, pm0) = (r, s1, pm1)" using run m by (simp add: sqlBind_def)
    from assms(2) [unfolded measured_def, rule_format, OF this] first x
    show ?thesis by (auto split: option.splits sum.splits)
  next
    case False
    then have "r1 = map_option (map_sum id undefined) r0 \<Longrightarrow> s1 = s0 \<and> pm1 = pm0 \<and> (r = None \<longleftrightarrow> r0 = None) \<and>
        (\<forall>x. r \<noteq> Some (Inr x))" for r1
      using run m by (auto simp: sqlBind_def split: option.splits sum.splits)
    with first False show ?thesis by (auto split: option.splits sum.splits)
  qed
qed

lemma measured_bind_none: "measured pend {} m \<Longrightarrow> (\<And>x. measured pend {} (f x)) \<Longrightarrow> measured pend {} (sqlBind m f)"
  using measured_bind [of pend "{}" m "{}" f] by simp

lemma measured_if: "measured pend A m \<Longrightarrow> measured pend A k \<Longrightarrow> measured pend A (if b then m else k)"
  by simp

lemma measured_steps:
  assumes "driver_ok conf ops view pend"
  shows "measured pend {Bl_Height (D_Block v)} (saveSteps conf ops v)"
proof -
  have b: "measured pend {Bl_Height (D_Block v)} (sqlBind m (\<lambda>_. sqlBind k f))"
    if "measured pend {} m" "measured pend {Bl_Height (D_Block v)} k" "\<And>x. measured pend {} (f x)" for m k f
    using measured_bind [OF that(1), of "{Bl_Height (D_Block v)}" "\<lambda>_. sqlBind k f"] measured_bind [OF that(2), of "{}" f] that(3)
    by simp
  show ?thesis
    unfolding saveSteps_def Let_def
    by (rule b; (intro measured_bind_none measured_if measured_return)?;
        (rule measured_timed; (intro adds_saveBlock steps_intro assms | simp))?) (rule assms)+
qed

lemma adds_nothing: "adds (\<lambda>s. {}) {} m"
  by (simp add: adds_def)

lemma measured_names: "measured (\<lambda>s. {}) {} (saveSteps conf ops v)"
  unfolding saveSteps_def Let_def
  by (intro measured_bind_none measured_if measured_return) (rule measured_timed [OF adds_nothing], simp)+

section \<open>The whole save\<close>

lemma Save_cases:
  assumes "Save conf ops v (w, pm) = (r, w1, pm1)"
  obtains (unopened) err where "SQ_Begin ops w = (Inl err, w1)" "r = Some (Inl (getResultError err))" "pm1 = pmStart ''InitTx'' pm"
  | (rolledBack) s w0 pm0 s1 where "SQ_Begin ops w = (Inr s, w0)" "openNames pm0 = openNames pm" "pm0 = None \<longleftrightarrow> pm = None"
      "saveSteps conf ops v (s, pmStart ''RunTx'' pm0) = (r, s1, pm1)" "\<And>x. r \<noteq> Some (Inr x)" "w1 = SQ_Rollback ops s1 w0"
  | (finished) s w0 pm0 s1 pm3 r2 where "SQ_Begin ops w = (Inr s, w0)" "openNames pm0 = openNames pm" "pm0 = None \<longleftrightarrow> pm = None"
      "saveSteps conf ops v (s, pmStart ''RunTx'' pm0) = (Some (Inr ()), s1, pm3)"
      "case pmComplete ''RunTx'' pm3 of None \<Rightarrow> r = None \<and> w1 = SQ_Rollback ops s1 w0
        | Some pm4 \<Rightarrow> SQ_Commit ops s1 w0 = (r2, w1) \<and> r = Some r2 \<and> openNames pm1 = openNames pm4 \<and> (pm1 = None \<longleftrightarrow> pm4 = None)"
      "pmComplete ''InitTx'' (pmStart ''InitTx'' pm) = Some pm0"
proof (cases "SQ_Begin ops w")
  case (Pair b w0)
  show ?thesis
  proof (cases b)
    case (Inl err)
    then show ?thesis using unopened assms Pair by (simp add: Save_def Let_def)
  next
    case (Inr s)
    obtain pm0 where pm0: "pmComplete ''InitTx'' (pmStart ''InitTx'' pm) = Some pm0" using complete_defined by blast
    note p = complete_started [OF pm0]
    obtain r1 s1 pm3 where steps: "saveSteps conf ops v (s, pmStart ''RunTx'' pm0) = (r1, s1, pm3)" by (metis prod.collapse)
    note run = assms [unfolded Save_def, simplified Pair Inr pm0 steps Let_def prod.case sum.case option.case]
    show ?thesis
    proof (cases "\<exists>x. r1 = Some (Inr x)")
      case True
      then have r1: "r1 = Some (Inr ())" by simp
      show ?thesis
      proof (cases "pmComplete ''RunTx'' pm3")
        case None
        then show ?thesis using finished [of s w0 pm0 s1 pm3] Pair Inr p pm0 steps r1 run by auto
      next
        case (Some pm4)
        obtain r2 w2 where c: "SQ_Commit ops s1 w0 = (r2, w2)" by (metis prod.collapse)
        obtain pm6 where pm6: "pmComplete ''CommitTx'' (pmStart ''CommitTx'' pm4) = Some pm6" using complete_defined by blast
        show ?thesis
          using finished [of s w0 pm0 s1 pm3 r2] Pair Inr p pm0 steps r1 run Some c pm6 complete_started [OF pm6] by simp
      qed
    next
      case False
      then show ?thesis using rolledBack [of s w0 pm0 s1] Pair Inr p steps run by (auto split: option.splits sum.splits)
    qed
  qed
qed

text \<open>The attempt ends with an error before the commit.\<close>

definition failsBeforeCommit :: "db_conf \<Rightarrow> ('w, 's) sql \<Rightarrow> Data \<Rightarrow> 'w \<times> performanceMonitor option \<Rightarrow> bool" where
  "failsBeforeCommit conf ops v = (\<lambda>(w, pm). case SQ_Begin ops w of
       (Inl err, w1) \<Rightarrow> True
     | (Inr s, w1) \<Rightarrow>
         (case pmComplete ''InitTx'' (pmStart ''InitTx'' pm) of
            None \<Rightarrow> False
          | Some pm0 \<Rightarrow> (case fst (saveSteps conf ops v (s, pmStart ''RunTx'' pm0)) of Some (Inl err) \<Rightarrow> True | _ \<Rightarrow> False)))"

lemma Save_names:
  assumes "Save conf ops v (w, pm) = (r, w1, pm1)"
  shows "pm1 = None \<longleftrightarrow> pm = None"
    and "r = Some (Inr ()) \<Longrightarrow> openNames pm1 = openNames pm"
    and "r = Some x \<Longrightarrow> openNames pm1 = openNames pm \<or> (\<exists>n ns. n \<noteq> ''Save'' \<and> openNames pm1 = n # ns)"
    and "r = Some x \<Longrightarrow> pm \<noteq> None \<Longrightarrow> failsBeforeCommit conf ops v (w, pm) \<Longrightarrow> \<exists>n ns. n \<noteq> ''Save'' \<and> openNames pm1 = n # ns"
    and "r = None \<Longrightarrow> \<exists>s pm0. fst (saveSteps conf ops v (s, pm0)) = None"
proof -
  have m: "(pm3 = None \<longleftrightarrow> pm0 = None) \<and> (case r1 of None \<Rightarrow> True
      | Some (Inl err) \<Rightarrow> pm0 \<noteq> None \<longrightarrow> (\<exists>n. n \<noteq> ''Save'' \<and> openNames pm3 = n # openNames (pmStart ''RunTx'' pm0))
      | Some (Inr u) \<Rightarrow> openNames pm3 = openNames (pmStart ''RunTx'' pm0))"
    if "saveSteps conf ops v (s, pmStart ''RunTx'' pm0) = (r1, s1, pm3)" for r1 s s1 pm0 pm3
    using measured_names [of conf ops v, unfolded measured_def, rule_format, OF that]
    by (auto simp: started_none split: option.splits sum.splits)
  have "(pm1 = None \<longleftrightarrow> pm = None) \<and> (r = Some (Inr ()) \<longrightarrow> openNames pm1 = openNames pm) \<and>
      (r = Some x \<longrightarrow> openNames pm1 = openNames pm \<or> (\<exists>n ns. n \<noteq> ''Save'' \<and> openNames pm1 = n # ns)) \<and>
      (r = Some x \<longrightarrow> pm \<noteq> None \<longrightarrow> failsBeforeCommit conf ops v (w, pm) \<longrightarrow> (\<exists>n ns. n \<noteq> ''Save'' \<and> openNames pm1 = n # ns)) \<and>
      (r = None \<longrightarrow> (\<exists>s pm0. fst (saveSteps conf ops v (s, pm0)) = None))"
  using assms
  proof (cases rule: Save_cases)
    case (unopened err)
    then show ?thesis using openNames_start [of "''InitTx''" pm] by (cases "pm = None") (auto simp: started_none pmStart_def)
  next
    case (rolledBack s w0 pm0 s1)
    show ?thesis
    proof (cases r)
      case None
      have "fst (saveSteps conf ops v (s, pmStart ''RunTx'' pm0)) = None" using rolledBack(4) None by simp
      then show ?thesis using None rolledBack(3) m [OF rolledBack(4)] by auto
    next
      case (Some y)
      then obtain err where "y = Inl err" using rolledBack(5) by (cases y) auto
      then show ?thesis
        using Some rolledBack(3) m [OF rolledBack(4)] rolledBack(2) openNames_none by (cases "pm = None") auto
    qed
  next
    case (finished s w0 pm0 s1 pm3 r2)
    note step = m [OF finished(4), simplified]
    have names: "openNames pm3 = (if pm = None then [] else ''RunTx'' # openNames pm)"
      using step openNames_start [of "''RunTx''" pm0] finished(2,3) by simp
    then have "pmComplete ''RunTx'' pm3 \<noteq> None" using step finished(3) by (auto simp: pmComplete_iff)
    then obtain pm4 where pm4: "pmComplete ''RunTx'' pm3 = Some pm4" by blast
    note fin = finished(5) [unfolded pm4 option.case]
    have n: "openNames pm1 = openNames pm" "pm1 = None \<longleftrightarrow> pm = None"
      using openNames_complete [OF pm4] names fin step finished(3) openNames_none by (cases "pm = None"; simp)+
    have "\<not> failsBeforeCommit conf ops v (w, pm)"
      using finished(1,4,6) by (simp add: failsBeforeCommit_def)
    then show ?thesis using n fin by simp
  qed
  note all = this
  show "pm1 = None \<longleftrightarrow> pm = None" by (rule conjunct1 [OF all])
  note all = conjunct2 [OF all]
  show "r = Some (Inr ()) \<Longrightarrow> openNames pm1 = openNames pm" by (rule conjunct1 [OF all, rule_format])
  note all = conjunct2 [OF all]
  show "r = Some x \<Longrightarrow> openNames pm1 = openNames pm \<or> (\<exists>n ns. n \<noteq> ''Save'' \<and> openNames pm1 = n # ns)"
    by (rule conjunct1 [OF all, rule_format])
  note all = conjunct2 [OF all]
  show "r = Some x \<Longrightarrow> pm \<noteq> None \<Longrightarrow> failsBeforeCommit conf ops v (w, pm) \<Longrightarrow> \<exists>n ns. n \<noteq> ''Save'' \<and> openNames pm1 = n # ns"
    by (rule conjunct1 [OF all, rule_format])
  show "r = None \<Longrightarrow> \<exists>s pm0. fst (saveSteps conf ops v (s, pm0)) = None" by (rule conjunct2 [OF all, rule_format])
qed

lemma Save_effect:
  assumes "driver_ok conf ops view pend" "Save conf ops v (w, pm) = (r, w1, pm1)"
  shows "view w1 = (if r = Some (Inr ()) then insert (Bl_Height (D_Block v)) (view w) else view w)"
  using assms(2)
proof (cases rule: Save_cases)
  case (finished s w0 pm0 s1 pm3 r2)
  note tr = transactionalD [OF driver_okD(1) [OF assms(1)]]
  have "pend s1 = {Bl_Height (D_Block v)} \<union> pend s"
    using measured_steps [OF assms(1), of v, unfolded measured_def, rule_format, OF finished(4)] by simp
  then show ?thesis
    using finished(5) driver_okD(6) [OF assms(1), of s1 w0 w1] driver_okD(3) [OF assms(1) finished(1)] tr(1) [OF finished(1)] tr(2)
      tr(3) [of s1 w0 r2 w1]
    by (cases "r2 = Inr ()") (auto split: option.splits)
qed (use transactionalD(1,2) [OF driver_okD(1) [OF assms(1)]] in auto)

lemma Save_keeps:
  assumes "transactional ops content" "Save conf ops v (w, pm) = (r, w1, pm1)" "r \<noteq> Some (Inr ())"
  shows "content w1 = content w"
  using assms(2)
proof (cases rule: Save_cases)
  case (finished s w0 pm0 s1 pm3 r2)
  then show ?thesis
    using assms(3) transactionalD(1,2) [OF assms(1)] transactionalD(3) [OF assms(1), of s1 w0 r2 w1]
    by (auto split: option.splits)
qed (use transactionalD(1,2) [OF assms(1)] in auto)

section \<open>The accessor as the indexer's database\<close>

text \<open>
  The indexer's view of the accessor: errors without their text. The state is that of the database and
  of the monitor.
\<close>

definition asAnswer :: "(go_error + 'a) option \<times> 'w \<Rightarrow> 'm \<Rightarrow> 'a option \<times> 'w \<times> 'm" where
  "asAnswer r pm = ((case fst r of Some (Inr x) \<Rightarrow> Some x | _ \<Rightarrow> None), snd r, pm)"

definition asSuccess :: "(go_error + unit) option \<Rightarrow> bool" where
  "asSuccess r \<longleftrightarrow> r = Some (Inr ())"

definition toOption :: "go_error + 'a \<Rightarrow> 'a option" where
  "toOption r = (case r of Inl err \<Rightarrow> None | Inr x \<Rightarrow> Some x)"

definition balanceAnswers :: "('w, 's) sql \<Rightarrow> balance_texts \<Rightarrow> 'w \<Rightarrow> balance_answers \<times> 'w" where
  "balanceAnswers ops texts w =
     (let (gap, w1) = BalanceUpdateGapCnt ops texts w; (burnt, w2) = BurntCoinsInconsistencyCnt ops texts w1;
          (rows, w3) = Balances ops texts w2; (latest, w4) = LatestBalanceUpdates ops texts w3
      in (\<lparr>BA_gapCnt = toOption gap, BA_burntCnt = toOption burnt, BA_balances = toOption rows,
            BA_latestUpdates = toOption latest\<rparr>, w4))"

definition accessorWorld :: "db_conf \<Rightarrow> ('w, 's) sql \<Rightarrow> balance_texts \<Rightarrow> ('w \<Rightarrow> 'w) \<Rightarrow> ('w \<times> performanceMonitor option) ops" where
  "accessorWorld conf ops texts sleep =
     \<lparr>W_GetLastHeight = (\<lambda>(w, pm). asAnswer (GetLastHeight conf ops w) pm),
      W_ActualOracleVotings = (\<lambda>(w, pm). asAnswer (ActualOracleVotings conf ops w) pm),
      W_ResetTo = (\<lambda>h (w, pm). case ResetTo conf ops h w of (r, w1) \<Rightarrow> (asSuccess r, w1, pm)),
      W_Save = (\<lambda>v st. apfst asSuccess (Save conf ops v st)),
      W_SaveRestoredData = (\<lambda>v (w, pm). case SaveRestoredData conf ops v w of (r, w1) \<Rightarrow> (asSuccess r, w1, pm)),
      W_balanceAnswers = (\<lambda>(w, pm). case balanceAnswers ops texts w of (a, w1) \<Rightarrow> (a, w1, pm)),
      W_sleep = (\<lambda>(w, pm). (sleep w, pm))\<rparr>"

lemma queryText_view: "driver_ok conf ops view pend \<Longrightarrow> queryText ops q args f w = (r, w1) \<Longrightarrow> view w1 = view w"
  using driver_okD(8) [of conf ops view pend q args w] by (auto simp: queryText_def split: prod.splits sum.splits)

lemma queryRowText_view: "driver_ok conf ops view pend \<Longrightarrow> queryRowText ops q args f w = (r, w1) \<Longrightarrow> view w1 = view w"
  using driver_okD(8) [of conf ops view pend q args w]
  by (auto simp: queryRowText_def split: prod.splits sum.splits list.splits)

lemma queryDb_view: "driver_ok conf ops view pend \<Longrightarrow> view (snd (queryDb conf ops query args f w)) = view w"
  by (auto simp: queryDb_def apfst_def map_prod_def split: option.splits prod.splits dest: queryText_view)

lemma queryRowDb_view: "driver_ok conf ops view pend \<Longrightarrow> view (snd (queryRowDb conf ops query args f w)) = view w"
  by (auto simp: queryRowDb_def apfst_def map_prod_def split: option.splits prod.splits dest: queryRowText_view)

lemma balanceAnswers_view:
  assumes "driver_ok conf ops view pend" "balanceAnswers ops texts w = (a, w1)"
  shows "view w1 = view w"
  using assms(2)
  by (auto simp: balanceAnswers_def BalanceUpdateGapCnt_def BurntCoinsInconsistencyCnt_def cnt_def Balances_def
      LatestBalanceUpdates_def Let_def split: prod.splits sum.splits
      dest!: queryRowText_view [OF assms(1)] queryText_view [OF assms(1)])

lemma GetLastHeight_view:
  assumes "driver_ok conf ops view pend" "GetLastHeight conf ops w = (Some (Inr h), w1)"
  shows "h = lastOf (view w)"
proof -
  obtain q result row rest where q: "DC_queries conf ''maxHeight.sql'' = Some q" "SQ_dbQuery ops q [] w = (Inr result, w1)"
      "RW_rows result = row # rest" and h: "scan1 (\<lambda>v. resultBind (scanInt v) (\<lambda>maxHeight. Inr (word_of_int maxHeight))) row = Inr h"
    using assms(2) by (auto simp: GetLastHeight_def queryRowDb_def queryRowText_def apfst_def map_prod_def
        split: option.splits prod.splits sum.splits list.splits)
  show ?thesis
    using h driver_okD(9) [OF assms(1) q] by (simp add: scan1_def scanInt_def resultBind_def)
qed

lemma ResetTo_view:
  assumes "driver_ok conf ops view pend" "ResetTo conf ops h w = (r, w1)"
  shows "view w1 = (if r = Some (Inr ()) then {x \<in> view w. x \<le> h} else view w)"
proof (cases "DC_queries conf ''resetToBlock.sql''")
  case None
  then show ?thesis using assms(2) by (simp add: ResetTo_def detailed_def execDb_def)
next
  case (Some q)
  have "heightArg [wordArg h] = h" by (simp add: heightArg_def wordArg_def)
  then show ?thesis
    using assms(2) Some driver_okD(7) [OF assms(1) Some, of "[wordArg h]" w]
    by (auto simp: ResetTo_def detailed_def execDb_def plainArgs_def apfst_def map_prod_def split: prod.splits sum.splits)
qed

lemma inTx_view:
  assumes "driver_ok conf ops view pend" "adds pend {} m" "inTx ops g m w = (r, w1)"
  shows "view w1 = view w"
proof (cases "SQ_Begin ops w")
  case (Pair b w0)
  note tr = transactionalD [OF driver_okD(1) [OF assms(1)]]
  show ?thesis
  proof (cases "\<exists>s x s1. b = Inr s \<and> m s = (Some (Inr x), s1)")
    case True
    then obtain s s1 where s: "b = Inr s" "m s = (Some (Inr ()), s1)" by auto
    obtain r2 where c: "SQ_Commit ops s1 w0 = (r2, w1)"
      using assms(3) Pair s by (auto simp: inTx_def apfst_def map_prod_def split: prod.splits)
    have "pend s1 = {}" using assms(2) s(2) driver_okD(3) [OF assms(1), of w s w0] Pair s(1) by (auto simp: adds_def)
    then show ?thesis
      using c tr(1) [OF Pair] tr(3) [OF c] driver_okD(6) [OF assms(1), of s1 w0 w1] by (cases "r2 = Inr ()") simp_all
  next
    case False
    then show ?thesis
      using assms(3) Pair tr(1) [OF Pair] tr(2) by (auto simp: inTx_def split: sum.splits prod.splits option.splits)
  qed
qed

lemma SaveRestoredData_view:
  "driver_ok conf ops view pend \<Longrightarrow> SaveRestoredData conf ops v w = (r, w1) \<Longrightarrow> view w1 = view w"
  unfolding SaveRestoredData_def by (rule inTx_view) (auto intro!: steps_intro)

lemma accessor_contract:
  assumes "driver_ok conf ops view pend" "\<And>w. view (sleep w) = view w"
  shows "database_ok (accessorWorld conf ops texts sleep) (\<lambda>st. view (fst st))"
proof -
  have h: "view (snd (GetLastHeight conf ops w)) = view w" for w
    unfolding GetLastHeight_def by (rule queryRowDb_view [OF assms(1)])
  have hl: "h = lastOf (view w)" if "fst (GetLastHeight conf ops w) = Some (Inr h)" for w h
    using GetLastHeight_view [OF assms(1), of w h "snd (GetLastHeight conf ops w)"] that by (metis prod.collapse)
  have v: "view (snd (ActualOracleVotings conf ops w)) = view w" for w
    unfolding ActualOracleVotings_def by (rule queryDb_view [OF assms(1)])
  note facts = ResetTo_view [OF assms(1)] SaveRestoredData_view [OF assms(1)] balanceAnswers_view [OF assms(1)]
    Save_effect(1) [OF assms(1)]
  show ?thesis
    unfolding database_ok_def
    by (intro conjI) (auto simp: accessorWorld_def asAnswer_def asSuccess_def apfst_def map_prod_def h v assms(2)
        split: prod.splits option.splits sum.splits if_splits dest: hl facts)
qed

end
