(* ===== verification/Db_Properties.thy ===== *)
theory Db_Properties
  imports Db_Contract
begin

text \<open>
  The properties of the accessor: a failed save changes nothing, the accessor is a database in the
  indexer's sense, a save does not panic when its queries exist, the error of an interrupted query is
  lost, and a save that is repeated ends in a panic of the performance monitor.
\<close>

section \<open>A save does not panic\<close>

definition saveQueries :: "string list" where
  "saveQueries = [''insertEpoch.sql'', ''insertBlock.sql'', ''insertAddressesAndTransactions.sql'', ''insertBlockProposer.sql'',
     ''insertBlockProposerVrfScore.sql'', ''insertCoins.sql'', ''saveBalances.sql'', ''insertSubmittedFlip.sql'', ''insertFlipKey.sql'',
     ''saveFlipsWords.sql'', ''insertPenalty.sql'', ''insertMiningRewards.sql'', ''insertBurntCoins.sql'', ''saveEpochResult.sql'']"

text \<open>The queries exist and the result of an epoch can be converted, see \<open>pool_reward_object_exact\<close>.\<close>

definition saveable :: "db_conf \<Rightarrow> Data \<Rightarrow> bool" where
  "saveable conf v \<longleftrightarrow> (\<forall>query \<in> set saveQueries. DC_queries conf query \<noteq> None) \<and>
     (case D_EpochResult v of None \<Rightarrow> True | Some r \<Rightarrow> getEpochResultData (DC_env conf) r \<noteq> None)"

definition safe :: "('s, 'a) action \<Rightarrow> bool" where
  "safe m \<longleftrightarrow> (\<forall>s s1. m s \<noteq> (None, s1))"

named_theorems safe_intro

lemma safe_basic [safe_intro]: "safe (sqlReturn x)" "safe (\<lambda>s. (Some r, s))"
  by (simp_all add: safe_def sqlReturn_def)

lemma safe_bind [safe_intro]: "safe m \<Longrightarrow> (\<And>x. safe (f x)) \<Longrightarrow> safe (sqlBind m f)"
  by (fastforce simp: safe_def sqlBind_def split: prod.splits option.splits sum.splits)

lemma safe_wrap [safe_intro]: "safe m \<Longrightarrow> safe (sqlWrap msg m)"
  by (fastforce simp: safe_def sqlWrap_def split: prod.splits option.splits sum.splits)

lemma safe_if [safe_intro]: "safe m \<Longrightarrow> safe k \<Longrightarrow> safe (if b then m else k)"
  by simp

lemma safe_timed [safe_intro]: "safe m \<Longrightarrow> safe (timed name m)"
  by (auto simp: safe_def timed_def complete_defined split: prod.splits option.splits sum.splits)

lemma safe_exec [safe_intro]:
  "\<forall>query \<in> set saveQueries. DC_queries conf query \<noteq> None \<Longrightarrow> query \<in> set saveQueries \<Longrightarrow> safe (execTx conf ops query (Some args))"
  by (auto simp: safe_def execTx_def apfst_def map_prod_def split: option.splits sum.splits prod.splits)

lemmas safe_args = plainArgs_def saveQueries_def

lemma safe_loops [safe_intro]:
  assumes "\<forall>query \<in> set saveQueries. DC_queries conf query \<noteq> None"
  shows "safe (saveSubmittedFlips conf ops ctx fs)" "safe (saveFlipKeys conf ops ctx ks)" "safe (savePenalties conf ops ctx ps)"
proof -
  note exec = safe_exec [OF assms]
  show "safe (saveSubmittedFlips conf ops ctx fs)"
    by (induction fs) (auto intro!: safe_basic safe_bind safe_wrap exec simp: saveSubmittedFlip_def safe_args split: sum.split)
  show "safe (saveFlipKeys conf ops ctx ks)"
    by (induction ks) (auto intro!: safe_basic safe_bind safe_wrap exec simp: saveFlipKey_def safe_args split: sum.split)
  show "safe (savePenalties conf ops ctx ps)"
    by (induction ps) (auto intro!: safe_basic safe_bind safe_wrap exec simp: savePenalty_def safe_args)
qed

lemma safe_parts [safe_intro]:
  assumes "\<forall>query \<in> set saveQueries. DC_queries conf query \<noteq> None"
  shows "safe (saveEpoch conf ops epoch validationTime stateRoot threshold)"
    and "safe (saveBlock conf ops ctx block)"
    and "safe (saveProposer conf ops ctx proposer)"
    and "safe (saveProposerVrfScore conf ops ctx score)"
    and "safe (saveCoins conf ops ctx coins)"
    and "safe (saveBalances conf ops height balances updates share)"
    and "safe (saveFlipsWords conf ops ctx wordList)"
    and "safe (saveMiningRewards conf ops ctx rewards)"
    and "safe (saveBurntCoins conf ops ctx burnt)"
  by (auto intro!: safe_basic safe_wrap safe_exec [OF assms] simp: saveEpoch_def saveBlock_def saveProposer_def saveProposerVrfScore_def
      saveCoins_def saveBalances_def saveFlipsWords_def saveMiningRewards_def saveBurntCoins_def Let_def safe_args)

lemma safe_addresses [safe_intro]:
  assumes "\<forall>query \<in> set saveQueries. DC_queries conf query \<noteq> None"
  shows "safe (saveAddressesAndTransactions conf ops ctx v)"
proof -
  have "DC_queries conf ''insertAddressesAndTransactions.sql'' \<noteq> None" using assms by (simp add: saveQueries_def)
  then show ?thesis
    by (auto simp: safe_def saveAddressesAndTransactions_def sqlWrap_def split: option.splits sum.splits prod.splits)
qed

lemma safe_epochResult:
  assumes "\<forall>query \<in> set saveQueries. DC_queries conf query \<noteq> None"
    and "case result of None \<Rightarrow> True | Some r \<Rightarrow> getEpochResultData (DC_env conf) r \<noteq> None"
  shows "safe (saveEpochResult conf ops epoch height result)"
  using assms(2)
  by (auto intro!: safe_basic safe_wrap safe_exec [OF assms(1)] simp: saveEpochResult_def safe_args split: option.splits)

lemma safe_steps: "saveable conf v \<Longrightarrow> safe (saveSteps conf ops v)"
  unfolding saveable_def saveSteps_def Let_def by (intro safe_intro safe_epochResult) (auto intro: safe_intro)

section \<open>Repeated saves\<close>

text \<open>\<open>saveData\<close> of \<open>src/indexer/indexer.go\<close> over the accessor, and the measurement that \<open>indexBlock\<close> puts around it.\<close>

fun retrySave :: "db_conf \<Rightarrow> ('w, 's) sql \<Rightarrow> ('w \<Rightarrow> 'w) \<Rightarrow> Data \<Rightarrow> nat \<Rightarrow> 'w \<times> performanceMonitor option \<Rightarrow>
    unit outcome \<times> 'w \<times> performanceMonitor option" where
  "retrySave conf ops sleep v 0 st = (Waiting, st)"
| "retrySave conf ops sleep v (Suc n) st = (case Save conf ops v st of
       (None, st1) \<Rightarrow> (Panics, st1)
     | (Some (Inr _), st1) \<Rightarrow> (Returns (), st1)
     | (Some (Inl err), w1, pm1) \<Rightarrow> retrySave conf ops sleep v n (sleep w1, pm1))"

definition measuredSave :: "db_conf \<Rightarrow> ('w, 's) sql \<Rightarrow> ('w \<Rightarrow> 'w) \<Rightarrow> Data \<Rightarrow> nat \<Rightarrow> 'w \<times> performanceMonitor option \<Rightarrow>
    unit outcome \<times> 'w \<times> performanceMonitor option" where
  "measuredSave conf ops sleep v n = (\<lambda>(w, pm). case retrySave conf ops sleep v n (w, pmStart ''Save'' pm) of
       (Returns _, w1, pm1) \<Rightarrow>
         (case pmComplete ''Save'' pm1 of None \<Rightarrow> (Panics, w1, pm1) | Some pm2 \<Rightarrow> (Returns (), w1, pm2))
     | (r, st1) \<Rightarrow> (r, st1))"

text \<open>The innermost open measurement is not the caller's.\<close>

definition stuck :: "performanceMonitor option \<Rightarrow> bool" where
  "stuck pm \<longleftrightarrow> (\<exists>n ns. n \<noteq> ''Save'' \<and> openNames pm = n # ns)"

lemma retrySave_stuck:
  "stuck (snd st) \<Longrightarrow> retrySave conf ops sleep v n st = (Returns (), w1, pm1) \<Longrightarrow> stuck pm1"
proof (induction n arbitrary: st)
  case (Suc n)
  obtain w pm where st: "st = (w, pm)" by (cases st)
  obtain r w0 pm0 where s: "Save conf ops v (w, pm) = (r, w0, pm0)" by (metis prod.collapse)
  have "stuck pm0" if "r = Some x" for x
    using Save_names(3) [OF s that] Suc.prems(1) st by (auto simp: stuck_def)
  then show ?case
    using Suc.IH [of "(sleep w0, pm0)"] Suc.prems(2) s st by (auto split: option.splits sum.splits)
qed simp

lemma stuck_panics: "stuck pm \<Longrightarrow> pmComplete ''Save'' pm = None"
  unfolding pmComplete_iff stuck_def by (metis list.distinct(1) list.sel(1) openNames_none)

section \<open>A sample driver\<close>

text \<open>The first transactions cannot be opened, as many as the number says; the list holds the stored heights.\<close>

definition sampleSql :: "(nat \<times> uint64 list, uint64 list) sql" where
  "sampleSql = \<lparr>SQ_Begin = (\<lambda>(k, hs). if k = 0 then (Inr [], 0, hs) else (Inl (TextError ''connection refused''), k - 1, hs)),
     SQ_Exec = (\<lambda>q args s. (Inr (), if q = ''insertBlock.sql'' then s @ [heightArg args] else s)),
     SQ_QueryRow = (\<lambda>q args s. (Inr [], s)),
     SQ_Commit = (\<lambda>s (k, hs). (Inr (), k, hs @ s)),
     SQ_Rollback = (\<lambda>s w. w),
     SQ_dbExec = (\<lambda>q args (k, hs). (Inr (), k, if q = ''resetToBlock.sql'' then filter (\<lambda>x. x \<le> heightArg args) hs else hs)),
     SQ_dbQuery = (\<lambda>q args (k, hs). (Inr \<lparr>RW_rows = (if q = ''maxHeight.sql'' then [[AInt (uint (lastOf (set hs)))]]
        else if q = ''selectActualOracleVotings.sql'' then [[AText ''0x1'']] else []),
        RW_err = Some (TextError ''connection reset'')\<rparr>, k, hs))\<rparr>"

definition sampleDbConf :: db_conf where
  "sampleDbConf = \<lparr>DC_env = sampleDbEnv, DC_queries = Some, DC_dataTable = ''dynamic.data'', DC_dataStateTable = ''dynamic.data_state'',
     DC_changesHistoryBlocksCount = 100, DC_miningRewards = True, DC_burntOrder = (\<lambda>m. []), DC_agesOrder = (\<lambda>m. []),
     DC_stakesOrder = (\<lambda>m. []), DC_HexToAddress = (\<lambda>s. of_nat (length s))\<rparr>"

definition sampleDbBlock :: "uint64 \<Rightarrow> DbBlock" where
  "sampleDbBlock h = \<lparr>Bl_ValidationFinished = False, Bl_Height = h, Bl_Hash = [], Bl_Transactions = [], Bl_Time = 0, Bl_Proposer = [],
     Bl_Flags = [], Bl_IsEmpty = False, Bl_BodySize = 0, Bl_FullSize = 0, Bl_VrfProposerThreshold = 0,
     Bl_OriginalValidatorsCount = 0, Bl_PoolValidatorsCount = 0, Bl_ProposerVrfScore = 0, Bl_FeeRate = 0,
     Bl_Upgrade = None, Bl_OfflineAddress = None, Bl_GasUsed = 0\<rparr>"

definition sampleData :: "uint64 \<Rightarrow> Data" where
  "sampleData h = \<lparr>D_Epoch = 0, D_PrevStateRoot = [], D_ValidationTime = 0, D_DiscriminationStakeThreshold = None,
     D_Block = sampleDbBlock h, D_ActivationTxTransfers = [], D_KillTxTransfers = [], D_KillInviteeTxTransfers = [],
     D_ActivationTxs = [], D_KillInviteeTxs = [], D_BecomeOnlineTxs = [], D_BecomeOfflineTxs = [], D_SubmittedFlips = [],
     D_DeletedFlips = [], D_FlipKeys = [], D_FlipsWords = [], D_Addresses = [], D_ChangedBalances = [],
     D_Coins = \<lparr>Co_Minted = 0, Co_Burnt = 0, Co_TotalBalance = 0, Co_TotalStake = 0\<rparr>, D_Penalties = [],
     D_MiningRewards = [], D_BurntCoinsPerAddr = Map.empty, D_BalanceUpdates = [], D_CommitteeRewardShare = None,
     D_Contracts = [], D_OracleVotingContracts = [], D_OracleVotingContractCallStarts = [],
     D_OracleVotingContractCallVoteProofs = [], D_OracleVotingContractCallVotes = [],
     D_OracleVotingContractCallFinishes = [], D_OracleVotingContractCallProlongations = [],
     D_OracleVotingContractCallAddStakes = [], D_OracleVotingContractTerminations = [], D_ClearOldEpochCommittees = False,
     D_OracleLockContracts = [], D_OracleLockContractCallCheckOracleVotings = [], D_OracleLockContractCallPushes = [],
     D_OracleLockContractTerminations = [], D_RefundableOracleLockContracts = [],
     D_RefundableOracleLockContractCallDeposits = [], D_RefundableOracleLockContractCallPushes = [],
     D_RefundableOracleLockContractCallRefunds = [], D_RefundableOracleLockContractTerminations = [],
     D_MultisigContracts = [], D_MultisigContractCallAdds = [], D_MultisigContractCallSends = [],
     D_MultisigContractCallPushes = [], D_MultisigContractTerminations = [], D_TimeLockContracts = [],
     D_TimeLockContractCallTransfers = [], D_TimeLockContractTerminations = [], D_TxReceipts = [],
     D_ContractTxsBalanceUpdates = [], D_EpochResult = None, D_DelegationSwitches = [], D_UpgradesVotes = [],
     D_PoolSizes = [], D_MinersHistoryItem = None, D_RemovedTransitiveDelegations = [],
     D_EpochSummaryUpdate = \<lparr>ESU_CandidateCountDiff = 0\<rparr>, D_OracleVotingContractsToProlong = [],
     D_Tokens = [], D_TokenBalanceUpdates = [], D_DelegationHistoryUpdates = []\<rparr>"

lemma sample_driver: "driver_ok sampleDbConf sampleSql (\<lambda>w. set (snd w)) set"
  unfolding driver_ok_def transactional_def sampleSql_def sampleDbConf_def
  by (intro conjI) (auto split: if_splits prod.splits)

lemma sample_transactional: "transactional sampleSql snd"
  by (auto simp: transactional_def sampleSql_def split: prod.splits)

section \<open>Properties\<close>

text \<open>C4: Saving is atomic: when \<open>Save\<close> returns an error or panics, at whatever statement, the stored content
  is what it was before the call.\<close>

theorem failed_save_changes_nothing:
  assumes "transactional ops content" "Save conf ops v (w, pm) = (r, w1, pm1)" "r \<noteq> Some (Inr ())"
  shows "content w1 = content w"
  by (rule Save_keeps [OF assms])

theorem failed_save_changes_nothing_witness:
  "snd (fst (snd (Save sampleDbConf sampleSql (sampleData 4) ((2, [1, 2]), None)))) = [1, 2]"
proof -
  have s: "Save sampleDbConf sampleSql (sampleData 4) ((2, [1, 2]), None) =
      (Some (Inl (TextError ''connection refused'')), (1, [1, 2]), None)"
    by (simp add: Save_def sampleSql_def pmStart_def getResultError_def)
  show ?thesis using failed_save_changes_nothing [OF sample_transactional s] s by simp
qed

text \<open>C3: The accessor refines the database that the indexer works with: over a driver whose statements do what
  their queries say, \<open>Save\<close> adds exactly the block's height when it succeeds and nothing otherwise, \<open>ResetTo\<close>
  deletes the heights above, the other operations change none, and \<open>GetLastHeight\<close> answers with the greatest.\<close>

theorem accessor_meets_contract:
  assumes "driver_ok conf ops view pend" "\<And>w. view (sleep w) = view w"
  shows "database_ok (accessorWorld conf ops texts sleep) (\<lambda>st. view (fst st))"
  by (rule accessor_contract [OF assms])

theorem accessor_meets_contract_witness:
  "database_ok (accessorWorld sampleDbConf sampleSql \<lparr>BT_balances = ''b'', BT_latestUpdates = ''u'', BT_gap = ''g'',
     BT_inconsistency1 = ''i'', BT_inconsistency2 = ''j''\<rparr> id) (\<lambda>st. set (snd (fst st)))"
  using accessor_meets_contract [OF sample_driver, of id] by simp

text \<open>C7: \<open>Save\<close> never panics when its queries were read from the scripts and the result of an epoch, if there is
  one, can be converted: whatever the driver answers, it returns nil or an error.\<close>

theorem save_never_panics:
  assumes "saveable conf v"
  shows "fst (Save conf ops v st) \<noteq> None"
proof -
  obtain w pm r w1 pm1 where s: "st = (w, pm)" "Save conf ops v (w, pm) = (r, w1, pm1)" by (metis prod.collapse)
  show ?thesis
    using Save_names(5) [OF s(2)] safe_steps [OF assms, of ops] s unfolding safe_def by (metis fst_conv prod.collapse)
qed

theorem save_never_panics_witness: "fst (Save sampleDbConf sampleSql (sampleData 4) ((0, []), None)) \<noteq> None"
  by (rule save_never_panics) (simp add: saveable_def sampleDbConf_def sampleData_def)

text \<open>C15: The error that interrupts a query is lost: the active oracle votings are those of the rows read so far, as if
  there were no more, whether the iteration ended with an error or not.\<close>

theorem interrupted_query_succeeds:
  assumes "DC_queries conf ''selectActualOracleVotings.sql'' = Some q"
    and "SQ_dbQuery ops q [] w = (Inr \<lparr>RW_rows = map (\<lambda>item. [AText item]) items, RW_err = failure\<rparr>, w1)"
  shows "ActualOracleVotings conf ops w = (Some (Inr (map (DC_HexToAddress conf) items)), w1)"
proof -
  have "scanRows (scan1 (\<lambda>v. resultBind (scanText v) (\<lambda>item. Inr (DC_HexToAddress conf item)))) (map (\<lambda>item. [AText item]) items) res =
      Inr (res @ map (DC_HexToAddress conf) items)" for res
    by (induction items arbitrary: res) (simp_all add: scan1_def scanText_def resultBind_def)
  then show ?thesis using assms by (simp add: ActualOracleVotings_def queryDb_def queryText_def)
qed

theorem interrupted_query_succeeds_witness:
  "ActualOracleVotings sampleDbConf sampleSql (0, []) = (Some (Inr [3]), 0, []) \<and>
   RW_err (projr (fst (SQ_dbQuery sampleSql ''selectActualOracleVotings.sql'' [] (0, [])))) \<noteq> None"
  using interrupted_query_succeeds [of sampleDbConf "''selectActualOracleVotings.sql''" sampleSql "(0, [])" "[''0x1'']"]
  by (simp add: sampleDbConf_def sampleSql_def)

text \<open>C8: With the performance monitor switched on, a block whose first save fails before the commit and that is saved
  by a later attempt ends in a panic of the indexer: the failed attempt leaves its measurement open, and the
  completion of \<open>Save\<close> finds another name.\<close>

theorem repeated_save_panics:
  assumes "failsBeforeCommit conf ops v (w, pmStart ''Save'' pm)" "pm \<noteq> None"
  shows "fst (measuredSave conf ops sleep v n (w, pm)) =
    (if fst (retrySave conf ops sleep v n (w, pmStart ''Save'' pm)) = Returns () then Panics
     else fst (retrySave conf ops sleep v n (w, pmStart ''Save'' pm)))"
proof -
  obtain r w1 pm1 where run: "retrySave conf ops sleep v n (w, pmStart ''Save'' pm) = (r, w1, pm1)" by (metis prod.collapse)
  have "pmComplete ''Save'' pm1 = None" if r: "r = Returns ()"
  proof (cases n)
    case 0
    then show ?thesis using run r by simp
  next
    case (Suc k)
    obtain r0 w0 pm0 where s: "Save conf ops v (w, pmStart ''Save'' pm) = (r0, w0, pm0)" by (metis prod.collapse)
    have stuck: "stuck pm0" if "r0 = Some x" for x
      using Save_names(4) [OF s that] assms by (auto simp: stuck_def started_none)
    have "stuck pm1"
      using stuck retrySave_stuck [of "(sleep w0, pm0)" conf ops sleep v k w1 pm1] run r Suc s
      by (auto split: option.splits sum.splits)
    then show ?thesis by (rule stuck_panics)
  qed
  then show ?thesis using run by (cases r) (simp_all add: measuredSave_def)
qed

theorem repeated_save_panics_witness:
  "fst (measuredSave sampleDbConf sampleSql id (sampleData 3) 2 ((1, [1, 2]), Some (NewPerformanceMonitor 10 int))) \<noteq> Returns ()"
proof -
  have "failsBeforeCommit sampleDbConf sampleSql (sampleData 3) ((1, [1, 2]), pmStart ''Save'' (Some (NewPerformanceMonitor 10 int)))"
    by (simp add: failsBeforeCommit_def sampleSql_def)
  from repeated_save_panics [OF this, of id 2] show ?thesis by simp
qed

end
