(* ===== verification/Db_Data.thy ===== *)
theory Db_Data
  imports Db_Accessor
begin

text \<open>
  The tables of refreshed data, \<open>src/db/postgres_data.go\<close>, and the quoting of the configured names of
  tables and procedures, \<open>src/db/postgres_identifiers.go\<close>. A time is the number of its nanoseconds since
  1970. \<open>pq.QuoteIdentifier\<close>, the name of an error code, \<open>%q\<close> and the node's conversion of a timestamp are
  the fields of \<open>refresh_env\<close>.
\<close>

section \<open>Identifiers\<close>

record refresh_env =
  RE_QuoteIdentifier :: "string \<Rightarrow> string"
  RE_codeName :: "string \<Rightarrow> string"
  RE_q :: "string \<Rightarrow> string"
  RE_TimestampToTime :: "int \<Rightarrow> int"

definition isLetter :: "char \<Rightarrow> bool" where
  "isLetter c \<longleftrightarrow> (let n = of_char c :: nat in 65 \<le> n \<and> n \<le> 90 \<or> 97 \<le> n \<and> n \<le> 122)"

text \<open>The pattern \<open>^[A-Za-z_][A-Za-z0-9_$]*$\<close>.\<close>

definition identifierPattern :: "string \<Rightarrow> bool" where
  "identifierPattern s = (case s of
       [] \<Rightarrow> False
     | c # rest \<Rightarrow> (isLetter c \<or> c = CHR ''_'') \<and> list_all (\<lambda>x. isLetter x \<or> isDigit x \<or> x = CHR ''_'' \<or> x = CHR ''$'') rest)"

fun splitDots :: "string \<Rightarrow> string list" where
  "splitDots [] = [[]]"
| "splitDots (c # s) =
     (if c = CHR ''.'' then [] # splitDots s
      else (case splitDots s of [] \<Rightarrow> [[c]] | x # xs \<Rightarrow> (c # x) # xs))"

fun joinDots :: "string list \<Rightarrow> string" where
  "joinDots [] = []"
| "joinDots [x] = x"
| "joinDots (x # xs) = x @ CHR ''.'' # joinDots xs"

fun quoteParts :: "refresh_env \<Rightarrow> string list \<Rightarrow> go_error + string list" where
  "quoteParts env [] = Inr []"
| "quoteParts env (part # rest) =
     (if \<not> identifierPattern part then Inl (TextError (''invalid identifier segment '' @ RE_q env part))
      else (case quoteParts env rest of
          Inl err \<Rightarrow> Inl err
        | Inr quoted \<Rightarrow> Inr (RE_QuoteIdentifier env (toLower part) # quoted)))"

definition quoteQualifiedIdentifier :: "refresh_env \<Rightarrow> string \<Rightarrow> go_error + string" where
  "quoteQualifiedIdentifier env value =
     (let parts = splitDots value
      in if length parts = 0 then Inl (TextError ''identifier is empty'')
         else map_sum id joinDots (quoteParts env parts))"

section \<open>The tables\<close>

record DataItem =
  DI_Name :: string
  DI_RefreshProcedure :: "string option"
  DI_RefreshPeriod :: "string option"
  DI_RefreshDelay :: "int option"
  DI_RefreshTime :: "int option"
  DI_RefreshEpoch :: "uint16 option"

definition wrapped :: "string \<Rightarrow> go_error + 'a \<Rightarrow> go_error + 'a" where
  "wrapped msg r = map_sum (WrapError msg) id r"

definition quotedTables :: "db_conf \<Rightarrow> refresh_env \<Rightarrow> go_error + string \<times> string" where
  "quotedTables conf env =
     resultBind (wrapped ''invalid data table'' (quoteQualifiedIdentifier env (DC_dataTable conf))) (\<lambda>dataTable.
     resultBind (wrapped ''invalid data state table'' (quoteQualifiedIdentifier env (DC_dataStateTable conf))) (\<lambda>dataStateTable.
     Inr (dataTable, dataStateTable)))"

definition createDataTables :: "db_conf \<Rightarrow> refresh_env \<Rightarrow> ('w, 's) sql \<Rightarrow> 'w \<Rightarrow> (go_error + unit) \<times> 'w" where
  "createDataTables conf env ops w = (case quotedTables conf env of
       Inl err \<Rightarrow> (Inl err, w)
     | Inr (dataTable, dataStateTable) \<Rightarrow> SQ_dbExec ops (''CREATE TABLE IF NOT EXISTS '' @ dataTable @
         '' (name character varying(30) NOT NULL, refresh_procedure character varying(30), refresh_period character varying(1), refresh_delay_minutes smallint, endpoint_method character varying(30), \"limit\" smallint); CREATE TABLE IF NOT EXISTS '' @
         dataStateTable @ '' (name character varying(100) NOT NULL, refresh_time bigint, refresh_epoch smallint, last_refresh_time bigint, CONSTRAINT data_state_pkey PRIMARY KEY (name));'')
         [] w)"

text \<open>A column that may be null.\<close>

definition scanNull :: "(sqlArg \<Rightarrow> go_error + 'a) \<Rightarrow> sqlArg \<Rightarrow> go_error + 'a option" where
  "scanNull f v = (if v = ANull then Inr None else map_sum id Some (f v))"

definition scanDataItem :: "refresh_env \<Rightarrow> sqlArg list \<Rightarrow> go_error + DataItem" where
  "scanDataItem env row = (case row of
       [name, refreshProcedure, refreshPeriod, delayMinutes, refreshTime, refreshEpoch] \<Rightarrow>
         resultBind (scanText name) (\<lambda>name.
         resultBind (scanNull scanText refreshProcedure) (\<lambda>refreshProcedure.
         resultBind (scanNull scanText refreshPeriod) (\<lambda>refreshPeriod.
         resultBind (scanNull scanInt delayMinutes) (\<lambda>delayMinutes.
         resultBind (scanNull scanInt refreshTime) (\<lambda>refreshTime.
         resultBind (scanNull scanInt refreshEpoch) (\<lambda>refreshEpoch.
           Inr \<lparr>DI_Name = name, DI_RefreshProcedure = refreshProcedure, DI_RefreshPeriod = refreshPeriod,
                 DI_RefreshDelay = map_option (\<lambda>m. m * (60 * 10 ^ 9)) delayMinutes,
                 DI_RefreshTime = map_option (RE_TimestampToTime env) refreshTime,
                 DI_RefreshEpoch = map_option word_of_int refreshEpoch\<rparr>))))))
     | _ \<Rightarrow> scanError)"

text \<open>
  A missing table is created and the query repeated, but the branch returns its error, which is nil
  then, and no data.
\<close>

definition GetDataList :: "db_conf \<Rightarrow> refresh_env \<Rightarrow> ('w, 's) sql \<Rightarrow> 'w \<Rightarrow> (go_error + DataItem list) \<times> 'w" where
  "GetDataList conf env ops w = (case quotedTables conf env of
       Inl err \<Rightarrow> (Inl err, w)
     | Inr (dataTable, dataStateTable) \<Rightarrow>
         (let query = ''SELECT v.name, v.refresh_procedure, v.refresh_period, v.refresh_delay_minutes, vs.refresh_time, vs.refresh_epoch FROM '' @
            dataTable @ '' v LEFT JOIN '' @ dataStateTable @ '' vs ON vs.name = v.name''
          in case SQ_dbQuery ops query [] w of
            (Inr rows, w1) \<Rightarrow> (scanRows (scanDataItem env) (RW_rows rows) [], w1)
          | (Inl err, w1) \<Rightarrow>
              (case err of
                 PgError pqErr \<Rightarrow>
                   (if RE_codeName env (PE_Code pqErr) = ''undefined_table''
                    then (case createDataTables conf env ops w1 of
                        (Inl err2, w2) \<Rightarrow> (Inl (WrapError ''unable to create table'' err2), w2)
                      | (Inr _, w2) \<Rightarrow>
                          (case SQ_dbQuery ops query [] w2 of
                             (Inl err3, w3) \<Rightarrow> (Inl err3, w3)
                           | (Inr rows, w3) \<Rightarrow> (Inr [], w3)))
                    else (Inl err, w1))
               | _ \<Rightarrow> (Inl err, w1))))"

definition unix :: "int \<Rightarrow> int" where
  "unix t = t div 10 ^ 9"

definition UpdateRefreshTime :: "db_conf \<Rightarrow> refresh_env \<Rightarrow> ('w, 's) sql \<Rightarrow> string \<Rightarrow> int \<Rightarrow> 'w \<Rightarrow> (go_error + unit) \<times> 'w" where
  "UpdateRefreshTime conf env ops dataName refreshTime w =
     (case wrapped ''invalid data state table'' (quoteQualifiedIdentifier env (DC_dataStateTable conf)) of
        Inl err \<Rightarrow> (Inl err, w)
      | Inr dataStateTable \<Rightarrow> SQ_dbExec ops (''INSERT INTO '' @ dataStateTable @
          '' VALUES ($2, $1, null) ON CONFLICT (name) DO UPDATE SET refresh_time = $1'') [AInt (unix refreshTime), AText dataName] w)"

definition refreshStatements :: "('w, 's) sql \<Rightarrow> string \<Rightarrow> string \<Rightarrow> sqlArg list \<Rightarrow> ('s, unit) action" where
  "refreshStatements ops callText updateText args =
     sqlBind (detailed (\<lambda>s. apfst Some (SQ_Exec ops callText [] s))) (\<lambda>_. detailed (\<lambda>s. apfst Some (SQ_Exec ops updateText args s)))"

definition Refresh :: "db_conf \<Rightarrow> refresh_env \<Rightarrow> ('w, 's) sql \<Rightarrow> string \<Rightarrow> string \<Rightarrow> int \<Rightarrow> int option \<Rightarrow> uint16 option \<Rightarrow> ('w, unit) action" where
  "Refresh conf env ops dataName refreshProcedure t nextRefreshTime refreshEpoch w =
     (case resultBind (wrapped ''invalid refresh procedure'' (quoteQualifiedIdentifier env refreshProcedure)) (\<lambda>quoted.
           resultBind (wrapped ''invalid data state table'' (quoteQualifiedIdentifier env (DC_dataStateTable conf))) (\<lambda>dataStateTable.
           Inr (quoted, dataStateTable))) of
        Inl err \<Rightarrow> (Some (Inl err), w)
      | Inr (quoted, dataStateTable) \<Rightarrow> inTx ops getResultError (refreshStatements ops (''CALL '' @ quoted @ ''()'')
          (''INSERT INTO '' @ dataStateTable @
           '' VALUES ($3, $1, $2, $4) ON CONFLICT (name) DO UPDATE SET refresh_time = $1, refresh_epoch = $2, last_refresh_time = $4'')
          [optArg (\<lambda>x. AInt (unix x)) nextRefreshTime, optArg wordArg refreshEpoch, AText dataName, AInt (unix t)]) w)"

section \<open>Properties\<close>

text \<open>Every character of an accepted identifier is harmless.\<close>

definition harmless :: "char \<Rightarrow> bool" where
  "harmless c \<longleftrightarrow> isLetter c \<or> isDigit c \<or> c = CHR ''_'' \<or> c = CHR ''$''"

definition quotes_plainly :: "refresh_env \<Rightarrow> bool" where
  "quotes_plainly env \<longleftrightarrow> (\<forall>s. list_all harmless s \<longrightarrow> RE_QuoteIdentifier env s = CHR 0x22 # s @ [CHR 0x22])"

lemma identifier_harmless: "identifierPattern s \<Longrightarrow> list_all harmless s"
  by (auto simp: identifierPattern_def harmless_def list_all_iff split: list.splits)

lemma lowerChar_letter:
  assumes "isLetter c"
  shows "isLetter (lowerChar c)"
proof -
  have "of_char (char_of (n + 32) :: char) = n + 32" if "n \<le> 90" for n :: nat
    using that by simp
  then show ?thesis using assms by (auto simp: lowerChar_def isLetter_def Let_def)
qed

lemma lowerChar_other: "\<not> isLetter c \<Longrightarrow> lowerChar c = c"
  by (auto simp: lowerChar_def isLetter_def Let_def)

lemma harmless_lower: "harmless c \<Longrightarrow> harmless (lowerChar c)"
  using lowerChar_letter lowerChar_other by (cases "isLetter c") (auto simp: harmless_def)

lemma harmless_not_quote: "harmless c \<Longrightarrow> c \<noteq> CHR 0x22"
  by (auto simp: harmless_def isLetter_def isDigit_def Let_def)

lemma split_nonempty: "splitDots s \<noteq> []"
  by (cases s) (auto split: list.split)

lemma split_join: "joinDots (splitDots s) = s"
proof (induction s)
  case (Cons c s)
  obtain x xs where s: "splitDots s = x # xs" using split_nonempty [of s] by (cases "splitDots s") auto
  show ?case using Cons.IH s by (cases xs) auto
qed simp

lemma quoteParts_result:
  assumes "quotes_plainly env" "quoteParts env parts = Inr quoted"
  shows "list_all identifierPattern parts \<and> quoted = map (\<lambda>x. CHR 0x22 # toLower x @ [CHR 0x22]) parts"
  using assms(2)
proof (induction parts arbitrary: quoted)
  case (Cons part rest)
  have "identifierPattern part \<Longrightarrow> RE_QuoteIdentifier env (toLower part) = CHR 0x22 # toLower part @ [CHR 0x22]"
    using assms(1) identifier_harmless [of part] harmless_lower unfolding quotes_plainly_def
    by (auto simp: toLower_def list_all_iff)
  then show ?case using Cons by (auto split: if_splits sum.splits)
qed simp

lemma unquote_join:
  "list_all (list_all harmless) xs \<Longrightarrow>
    filter (\<lambda>c. c \<noteq> CHR 0x22) (joinDots (map (\<lambda>x. CHR 0x22 # toLower x @ [CHR 0x22]) xs)) = toLower (joinDots xs)"
proof (induction xs rule: joinDots.induct)
  case 1
  show ?case by (simp add: toLower_def)
next
  case (2 x)
  have "\<forall>c \<in> set x. lowerChar c \<noteq> CHR 0x22" using 2 harmless_lower harmless_not_quote by (auto simp: list_all_iff)
  then show ?case by (simp add: toLower_def filter_id_conv)
next
  case (3 x y xs)
  have x: "\<forall>c \<in> set x. lowerChar c \<noteq> CHR 0x22" using 3(2) harmless_lower harmless_not_quote by (auto simp: list_all_iff)
  have dot: "lowerChar (CHR ''.'') = CHR ''.''" by (simp add: lowerChar_def)
  have "toLower (joinDots (x # y # xs)) = toLower x @ CHR ''.'' # toLower (joinDots (y # xs))" using dot by (simp add: toLower_def)
  then show ?case using 3(1) 3(2) x by (simp add: toLower_def filter_id_conv)
qed

lemma chars_join:
  "c \<in> set (joinDots (map (\<lambda>x. CHR 0x22 # toLower x @ [CHR 0x22]) xs)) \<Longrightarrow> list_all (list_all harmless) xs \<Longrightarrow>
    harmless c \<or> c = CHR 0x22 \<or> c = CHR ''.''"
  by (induction xs rule: joinDots.induct) (auto simp: toLower_def list_all_iff intro: harmless_lower)

text \<open>A configured name of a table or procedure cannot smuggle SQL into a statement: an accepted name consists of
  letters, digits, underscores, dollar signs and dots, and without its quotes it is the name in lower case.\<close>

theorem accepted_identifier_harmless:
  assumes "quotes_plainly env" "quoteQualifiedIdentifier env value = Inr quoted"
  shows "filter (\<lambda>c. c \<noteq> CHR 0x22) quoted = toLower value"
    and "\<forall>c \<in> set quoted. harmless c \<or> c = CHR 0x22 \<or> c = CHR ''.''"
proof -
  obtain parts where p: "quoteParts env (splitDots value) = Inr parts" "quoted = joinDots parts"
    using assms(2) by (auto simp: quoteQualifiedIdentifier_def Let_def split: if_splits) (cases "quoteParts env (splitDots value)"; auto)
  note q = quoteParts_result [OF assms(1) p(1)]
  have h: "list_all (list_all harmless) (splitDots value)"
    using q identifier_harmless by (auto simp: list_all_iff)
  show "filter (\<lambda>c. c \<noteq> CHR 0x22) quoted = toLower value"
    using unquote_join [OF h] q p(2) split_join by simp
  show "\<forall>c \<in> set quoted. harmless c \<or> c = CHR 0x22 \<or> c = CHR ''.''"
    using chars_join [OF _ h] q p(2) by auto
qed

definition sampleRefreshEnv :: refresh_env where
  "sampleRefreshEnv = \<lparr>RE_QuoteIdentifier = (\<lambda>s. CHR 0x22 # s @ [CHR 0x22]), RE_codeName = (\<lambda>c. ''undefined_table''),
     RE_q = (\<lambda>s. s), RE_TimestampToTime = (\<lambda>n. n * 10 ^ 9)\<rparr>"

theorem accepted_identifier_harmless_witness:
  "\<exists>quoted. quoteQualifiedIdentifier sampleRefreshEnv ''Report.Refresh_Coins$Daily'' = Inr quoted \<and>
    filter (\<lambda>c. c \<noteq> CHR 0x22) quoted = ''report.refresh_coins$daily''"
proof -
  have q: "\<exists>quoted. quoteQualifiedIdentifier sampleRefreshEnv ''Report.Refresh_Coins$Daily'' = Inr quoted"
    by (simp add: quoteQualifiedIdentifier_def sampleRefreshEnv_def identifierPattern_def isLetter_def isDigit_def)
  have env: "quotes_plainly sampleRefreshEnv" by (simp add: quotes_plainly_def sampleRefreshEnv_def)
  have "toLower ''Report.Refresh_Coins$Daily'' = ''report.refresh_coins$daily''" by code_simp
  then show ?thesis using q accepted_identifier_harmless(1) [OF env] by auto
qed

text \<open>The rows of a query that is repeated after the tables were created are dropped: the list is empty whatever
  the second query answers.\<close>

theorem created_tables_give_nothing:
  assumes "quotedTables conf env = Inr tables" "createDataTables conf env ops w1 = (Inr (), w2)"
    and "\<And>q. SQ_dbQuery ops q [] w = (Inl (PgError pqErr), w1)" "RE_codeName env (PE_Code pqErr) = ''undefined_table''"
    and "\<And>q. SQ_dbQuery ops q [] w2 = (Inr rows, w3)"
  shows "GetDataList conf env ops w = (Inr [], w3)"
  using assms by (cases tables) (simp add: GetDataList_def Let_def)

end
