(* ===== verification/Data_Service.thy ===== *)
theory Data_Service
  imports Db_Data
begin

text \<open>
  The service that refreshes derived data by a schedule, \<open>src/data/service.go\<close> and \<open>src/data/types.go\<close>: the
  state it keeps of the indexer's events, the decision for one item and one round over the list. A time
  is the number of its nanoseconds since 1970; the first round and the sleep between two are left out.
\<close>

section \<open>State\<close>

record service_state =
  SS_epoch :: uint16
  SS_epochHeight :: uint64
  SS_height :: uint64
  SS_epochPeriod :: nat

text \<open>The handlers of the events; without a state the fields are set through a nil pointer.\<close>

fun onEvent :: "event \<Rightarrow> service_state option \<Rightarrow> service_state option option" where
  "onEvent (CurrentEpochEvent epoch epochHeight height period) st =
     Some (Some \<lparr>SS_epoch = epoch, SS_epochHeight = epochHeight, SS_height = height, SS_epochPeriod = period\<rparr>)"
| "onEvent (NewEpochEvent epoch epochHeight) st =
     (case st of None \<Rightarrow> None | Some s \<Rightarrow> Some (Some (s\<lparr>SS_epoch := epoch, SS_epochHeight := epochHeight\<rparr>)))"
| "onEvent (NewBlockEvent height period) st =
     (case st of None \<Rightarrow> None | Some s \<Rightarrow> Some (Some (s\<lparr>SS_height := height, SS_epochPeriod := period\<rparr>)))"

fun onEvents :: "event list \<Rightarrow> service_state option \<Rightarrow> service_state option option" where
  "onEvents [] st = Some st"
| "onEvents (e # es) st = (case onEvent e st of None \<Rightarrow> None | Some st1 \<Rightarrow> onEvents es st1)"

section \<open>One item\<close>

abbreviation minute :: int where "minute \<equiv> 60 * 10 ^ 9"
abbreviation hour :: int where "hour \<equiv> 60 * minute"

text \<open>\<open>Truncate\<close> of a time in UTC: days and hours are counted from an instant that is a midnight.\<close>

definition truncateTime :: "int \<Rightarrow> int \<Rightarrow> int" where
  "truncateTime t period = t - t mod period"

definition periodOf :: "string \<Rightarrow> int option" where
  "periodOf p = (if p = ''d'' then Some (24 * hour) else if p = ''h'' then Some hour else None)"

definition isValidation :: "nat \<Rightarrow> service_state \<Rightarrow> bool" where
  "isValidation flipLottery st \<longleftrightarrow> SS_epochPeriod st \<ge> flipLottery \<or> SS_height st - SS_epochHeight st < 90"

text \<open>The calls of the database with their arguments; a period that is not known is only logged.\<close>

datatype refresh_call = Skip | CallUpdate string int | CallRefresh string string int "int option" "uint16 option"

text \<open>\<open>t0\<close> is the time at the beginning of the round, \<open>t1\<close> the later reading for the call.\<close>

definition handlePeriod :: "nat \<Rightarrow> service_state \<Rightarrow> int \<Rightarrow> int \<Rightarrow> DataItem \<Rightarrow> string \<Rightarrow> int \<Rightarrow> refresh_call" where
  "handlePeriod flipLottery st t0 t1 item procedure period =
     (let truncatedNow = truncateTime t0 period in
      if DI_RefreshTime item = None \<and> DI_RefreshDelay item \<noteq> None
      then CallUpdate (DI_Name item) (truncatedNow + the (DI_RefreshDelay item))
      else if (case DI_RefreshTime item of None \<Rightarrow> True | Some t \<Rightarrow> t < t0)
      then (if isValidation flipLottery st then CallUpdate (DI_Name item) (t0 + minute * 30)
            else CallRefresh (DI_Name item) procedure t1
              (Some (truncatedNow + period + (case DI_RefreshDelay item of None \<Rightarrow> 0 | Some delay \<Rightarrow> delay))) None)
      else Skip)"

definition handleEpoch :: "service_state \<Rightarrow> int \<Rightarrow> int \<Rightarrow> DataItem \<Rightarrow> string \<Rightarrow> refresh_call" where
  "handleEpoch st t0 t1 item procedure =
     (if (case DI_RefreshEpoch item of None \<Rightarrow> True | Some e \<Rightarrow> SS_epoch st \<ge> e)
      then (if DI_RefreshTime item = None \<and> DI_RefreshDelay item \<noteq> None
            then CallUpdate (DI_Name item) (t0 + the (DI_RefreshDelay item))
            else if (case DI_RefreshTime item of None \<Rightarrow> True | Some t \<Rightarrow> t < t0)
            then CallRefresh (DI_Name item) procedure t1 None (Some (SS_epoch st + 1))
            else Skip)
      else Skip)"

definition handleItem :: "nat \<Rightarrow> service_state \<Rightarrow> int \<Rightarrow> int \<Rightarrow> DataItem \<Rightarrow> refresh_call" where
  "handleItem flipLottery st t0 t1 item = (case (DI_RefreshPeriod item, DI_RefreshProcedure item) of
       (Some p, Some procedure) \<Rightarrow>
         (case periodOf p of
            Some period \<Rightarrow> handlePeriod flipLottery st t0 t1 item procedure period
          | None \<Rightarrow> if p = ''e'' then handleEpoch st t0 t1 item procedure else Skip)
     | _ \<Rightarrow> Skip)"

section \<open>One round\<close>

text \<open>An error is logged and the next item taken.\<close>

definition perform :: "db_conf \<Rightarrow> refresh_env \<Rightarrow> ('w, 's) sql \<Rightarrow> refresh_call \<Rightarrow> ('w, unit) action" where
  "perform conf env ops c w = (case c of
       Skip \<Rightarrow> (Some (Inr ()), w)
     | CallUpdate name t \<Rightarrow> apfst Some (UpdateRefreshTime conf env ops name t w)
     | CallRefresh name procedure t next epoch \<Rightarrow> Refresh conf env ops name procedure t next epoch w)"

fun handleItems :: "db_conf \<Rightarrow> refresh_env \<Rightarrow> ('w, 's) sql \<Rightarrow> nat \<Rightarrow> service_state \<Rightarrow> int \<Rightarrow> (DataItem \<times> int) list \<Rightarrow> 'w \<Rightarrow>
    unit option \<times> 'w" where
  "handleItems conf env ops flipLottery st t0 [] w = (Some (), w)"
| "handleItems conf env ops flipLottery st t0 ((item, t1) # items) w =
     (case perform conf env ops (handleItem flipLottery st t0 t1 item) w of
        (None, w1) \<Rightarrow> (None, w1)
      | (Some _, w1) \<Rightarrow> handleItems conf env ops flipLottery st t0 items w1)"

text \<open>\<open>clock\<close> gives the readings for the items in their order.\<close>

definition observeOnce :: "db_conf \<Rightarrow> refresh_env \<Rightarrow> ('w, 's) sql \<Rightarrow> nat \<Rightarrow> service_state option \<Rightarrow> int \<Rightarrow> (nat \<Rightarrow> int) \<Rightarrow> 'w \<Rightarrow>
    unit option \<times> 'w" where
  "observeOnce conf env ops flipLottery state t0 clock w = (case state of
       None \<Rightarrow> (Some (), w)
     | Some st \<Rightarrow>
         (case GetDataList conf env ops w of
            (Inl err, w1) \<Rightarrow> (Some (), w1)
          | (Inr dataList, w1) \<Rightarrow>
              handleItems conf env ops flipLottery st t0 (map (\<lambda>(i, item). (item, clock i)) (enumerate 0 dataList)) w1))"

section \<open>Properties\<close>

lemma periodOf_cases: "periodOf p = Some period \<Longrightarrow> period = 24 * hour \<or> period = hour"
  by (auto simp: periodOf_def split: if_splits)

lemma truncate_bounds: "0 < period \<Longrightarrow> truncateTime t period \<le> t \<and> t < truncateTime t period + period"
  by (simp add: truncateTime_def pos_mod_bound)

lemma handleItem_refresh:
  assumes "DI_RefreshPeriod item = Some p" "periodOf p = Some period"
    and "handleItem flipLottery st t0 t1 item = CallRefresh name procedure t next epoch"
  shows "\<not> isValidation flipLottery st" "epoch = None" "case DI_RefreshTime item of None \<Rightarrow> True | Some x \<Rightarrow> x < t0"
    and "next = Some (truncateTime t0 period + period + (case DI_RefreshDelay item of None \<Rightarrow> 0 | Some delay \<Rightarrow> delay))"
  using assms by (auto simp: handleItem_def handlePeriod_def Let_def split: option.splits if_splits)

lemma handleItem_waits:
  assumes "DI_RefreshPeriod item = Some p" "periodOf p = Some period" "DI_RefreshTime item = Some next" "t0 \<le> next"
  shows "handleItem flipLottery st t0 t1 item = Skip"
  using assms by (auto simp: handleItem_def handlePeriod_def Let_def split: option.splits)

text \<open>C33: Daily and hourly data is refreshed once per period and not around a validation: a refresh happens only outside
  of a validation, it schedules the next one after the present time and within a period and the delay, and with that
  time stored no later round up to then does anything for the item.\<close>

theorem refreshed_once_per_period:
  assumes "DI_RefreshPeriod item = Some p" "periodOf p = Some period" "case DI_RefreshDelay item of None \<Rightarrow> True | Some d \<Rightarrow> 0 \<le> d"
    and "handleItem flipLottery st t0 t1 item = CallRefresh name procedure t next epoch"
  shows "\<not> isValidation flipLottery st \<and>
    (\<exists>due. next = Some due \<and> t0 < due \<and> due \<le> t0 + period + (case DI_RefreshDelay item of None \<Rightarrow> 0 | Some d \<Rightarrow> d) \<and>
       (\<forall>st2 t2 t3. t2 \<le> due \<longrightarrow> handleItem flipLottery st2 t2 t3 (item\<lparr>DI_RefreshTime := next\<rparr>) = Skip))"
proof -
  note r = handleItem_refresh [OF assms(1,2,4)]
  have "0 < period" using periodOf_cases [OF assms(2)] by auto
  note b = truncate_bounds [OF this, of t0]
  have d: "0 \<le> (case DI_RefreshDelay item of None \<Rightarrow> 0 | Some d \<Rightarrow> d)" using assms(3) by (cases "DI_RefreshDelay item") auto
  have w: "handleItem flipLottery st2 t2 t3 (item\<lparr>DI_RefreshTime := Some due\<rparr>) = Skip" if "t2 \<le> due" for st2 t2 t3 due
    by (rule handleItem_waits [OF _ assms(2) _ that]) (simp_all add: assms(1))
  show ?thesis using r b d w by auto
qed

definition sampleItem :: "string \<Rightarrow> DataItem" where
  "sampleItem p = \<lparr>DI_Name = ''coins'', DI_RefreshProcedure = Some ''refresh_coins'', DI_RefreshPeriod = Some p,
     DI_RefreshDelay = Some (5 * minute), DI_RefreshTime = Some 0, DI_RefreshEpoch = Some 7\<rparr>"

definition sampleService :: service_state where
  "sampleService = \<lparr>SS_epoch = 7, SS_epochHeight = 100, SS_height = 300, SS_epochPeriod = 0\<rparr>"

theorem refreshed_once_per_period_witness:
  "handleItem 1 sampleService (30 * minute) (31 * minute) (sampleItem ''h'') =
     CallRefresh ''coins'' ''refresh_coins'' (31 * minute) (Some (65 * minute)) None \<and>
   handleItem 1 sampleService (60 * minute) 0 ((sampleItem ''h'')\<lparr>DI_RefreshTime := Some (65 * minute)\<rparr>) = Skip"
proof -
  have r: "handleItem 1 sampleService (30 * minute) (31 * minute) (sampleItem ''h'') =
      CallRefresh ''coins'' ''refresh_coins'' (31 * minute) (Some (65 * minute)) None"
    by (simp add: handleItem_def handlePeriod_def sampleItem_def sampleService_def periodOf_def isValidation_def truncateTime_def Let_def)
  show ?thesis
    using refreshed_once_per_period [OF _ _ _ r, of "''h''" hour] r by (auto simp: sampleItem_def periodOf_def)
qed

text \<open>Data of an epoch is refreshed once in it: with the next epoch stored, no round in the same epoch does anything
  for the item again. The last number of an epoch is excepted, its successor being zero.\<close>

theorem refreshed_once_per_epoch:
  assumes "DI_RefreshPeriod item = Some ''e''" "SS_epoch st \<noteq> -1"
    and "handleItem flipLottery st t0 t1 item = CallRefresh name procedure t next epoch"
    and "SS_epoch st2 = SS_epoch st"
  shows "handleItem flipLottery st2 t2 t3 (item\<lparr>DI_RefreshTime := next, DI_RefreshEpoch := epoch\<rparr>) = Skip"
proof -
  have e: "epoch = Some (SS_epoch st + 1)"
    using assms(1,3) by (auto simp: handleItem_def periodOf_def handleEpoch_def Let_def split: option.splits if_splits)
  have "SS_epoch st < SS_epoch st + 1" by (rule word_successor_less [OF assms(2)])
  then show ?thesis
    using e assms(1,4) by (auto simp: handleItem_def periodOf_def handleEpoch_def split: option.splits)
qed

theorem refreshed_once_per_epoch_witness:
  "handleItem 1 sampleService 9 10 ((sampleItem ''e'')\<lparr>DI_RefreshTime := None, DI_RefreshEpoch := Some 8\<rparr>) = Skip"
proof -
  have "handleItem 1 sampleService 5 6 (sampleItem ''e'') = CallRefresh ''coins'' ''refresh_coins'' 6 None (Some 8)"
    by (simp add: handleItem_def handleEpoch_def sampleItem_def sampleService_def periodOf_def)
  from refreshed_once_per_epoch [OF _ _ this, of sampleService 9 10] show ?thesis
    by (simp add: sampleItem_def sampleService_def)
qed



end
