(* ===== verification/Flip_Loading.thy ===== *)
theory Flip_Loading
  imports Db_Accessor
begin

text \<open>
  Loading of flips: the sizes of new flips, \<open>src/core/flip/flip_loader.go\<close>, and their contents,
  \<open>src/core/flip/flip_content_loader.go\<close>. What the loaders use of the node and of the libraries - keys,
  content identifiers, the raw flips of the network, RLP, images - are the fields of \<open>flip_env\<close>. A time
  is the number of its nanoseconds since 1970; sleeps are left out. \<open>None\<close> is a panic of the goroutine.
\<close>

section \<open>Environment\<close>

text \<open>What \<open>rlp.DecodeBytes\<close> makes of a value of an interface type.\<close>

datatype rlp = RBytes bytes | RList "rlp list"

record ('k, 'img) flip_env =
  FE_importKey :: "bytes \<Rightarrow> 'k option"
  FE_cidBytes :: "string \<Rightarrow> bytes"
  FE_parseCid :: "bytes \<Rightarrow> string option"
  FE_rawFlip :: "bytes \<Rightarrow> (bytes \<times> bytes) option"
  FE_decrypt :: "'k \<Rightarrow> bytes \<Rightarrow> bytes option"
  FE_decode :: "bytes \<Rightarrow> rlp list option"
  FE_decodeImage :: "bytes \<Rightarrow> (int \<times> int \<times> 'img) option"
  FE_encodeScaled :: "'img \<Rightarrow> int \<Rightarrow> int \<Rightarrow> bytes option"
  FE_ext :: ext

section \<open>Parsing a flip\<close>

text \<open>The type assertions \<open>x.([]byte)\<close> and \<open>x.([]interface{})\<close> panic on the other kind.\<close>

definition asBytes :: "rlp \<Rightarrow> bytes option" where
  "asBytes x = (case x of RBytes b \<Rightarrow> Some b | RList xs \<Rightarrow> None)"

definition asList :: "rlp \<Rightarrow> rlp list option" where
  "asList x = (case x of RBytes b \<Rightarrow> None | RList xs \<Rightarrow> Some xs)"

definition parseOrder :: "rlp \<Rightarrow> byte option" where
  "parseOrder bb = map_option (\<lambda>b. case b of [] \<Rightarrow> 0 | x # _ \<Rightarrow> x) (asBytes bb)"

definition parseOrders :: "rlp \<Rightarrow> byte list option" where
  "parseOrders b = asList b \<bind> (\<lambda>xs. those (map parseOrder xs))"

text \<open>The side lengths of an icon; \<open>int\<close> of a float cuts off.\<close>

definition shorterSide :: "ext \<Rightarrow> int \<Rightarrow> int \<Rightarrow> int" where
  "shorterSide e short long = \<lfloor>X_f32 e (X_f32 e (X_f32 e (of_int short) / X_f32 e (of_int long)) * 64)\<rfloor>"

definition iconSize :: "ext \<Rightarrow> int \<Rightarrow> int \<Rightarrow> int \<times> int" where
  "iconSize e maxX maxY = (if maxX > maxY then (64, shorterSide e maxY maxX) else (shorterSide e maxX maxY, 64))"

definition compressPic :: "('k, 'img) flip_env \<Rightarrow> bytes \<Rightarrow> bytes option" where
  "compressPic env src = (case FE_decodeImage env src of
       None \<Rightarrow> None
     | Some (maxX, maxY, img) \<Rightarrow>
         (case (case iconSize (FE_ext env) maxX maxY of (x, y) \<Rightarrow> FE_encodeScaled env img x y) of
            None \<Rightarrow> None
          | Some res \<Rightarrow> if res = [] then None else Some res))"

text \<open>The outer option is a panic, the inner one an error. Nothing decoded and no error is an empty content.\<close>

definition parseFlip :: "('k, 'img) flip_env \<Rightarrow> string \<Rightarrow> bytes \<Rightarrow> FlipContent option option" where
  "parseFlip env flipCid data = (case FE_decode env data of
       None \<Rightarrow> Some None
     | Some [] \<Rightarrow> Some (Some \<lparr>FC_Cid = [], FC_Pics = [], FC_Orders = [], FC_Icon = []\<rparr>)
     | Some (first # rest) \<Rightarrow> do {
         items \<leftarrow> asList first;
         pics \<leftarrow> those (map asBytes items);
         allOrders \<leftarrow> (case rest of [] \<Rightarrow> Some [] | second # _ \<Rightarrow> asList second \<bind> (\<lambda>xs. those (map parseOrders xs)));
         Some (Some \<lparr>FC_Cid = flipCid, FC_Pics = pics, FC_Orders = allOrders,
           FC_Icon = (case pics of [] \<Rightarrow> [] | p # _ \<Rightarrow> (case compressPic env p of None \<Rightarrow> [] | Some icon \<Rightarrow> icon))\<rparr>) })"

section \<open>The content of a flip\<close>

definition isHex :: "string \<Rightarrow> bool" where
  "isHex s \<longleftrightarrow> even (length s) \<and> list_all (\<lambda>c. lowerChar c \<in> set hexDigits) s"

definition convertKey :: "('k, 'img) flip_env \<Rightarrow> string \<Rightarrow> 'k option" where
  "convertKey env keyHex = (if isHex keyHex then FE_importKey env (hexDecode (toLower keyHex)) else None)"

definition getFlipData :: "('k, 'img) flip_env \<Rightarrow> bytes \<Rightarrow> 'k \<Rightarrow> bytes option" where
  "getFlipData env cidBytes encryptionKey = (case FE_rawFlip env cidBytes of
       None \<Rightarrow> None
     | Some (publicPart, privatePart) \<Rightarrow> FE_decrypt env encryptionKey publicPart)"

definition getFlipContent :: "('k, 'img) flip_env \<Rightarrow> FlipToLoadContent \<Rightarrow> FlipContent option option" where
  "getFlipContent env f = (case convertKey env (FTL_Key f) of
       None \<Rightarrow> Some None
     | Some encryptionKey \<Rightarrow>
         (case getFlipData env (FE_cidBytes env (FTL_Cid f)) encryptionKey of
            None \<Rightarrow> Some None
          | Some flipData \<Rightarrow> parseFlip env (FTL_Cid f) flipData))"

definition failedContent :: "int \<Rightarrow> int \<Rightarrow> int \<Rightarrow> FlipToLoadContent \<Rightarrow> FailedFlipContent" where
  "failedContent attemptsLimit retryInterval t f =
     (let reached = FTL_Attempts f + 1 = attemptsLimit
      in \<lparr>FFC_Cid = FTL_Cid f, FFC_AttemptsLimitReached = reached,
          FFC_NextAttemptTimestamp = (if reached then None else Some ((t + retryInterval) div 10 ^ 9))\<rparr>)"

text \<open>Each flip comes with the time at which its failure would be noted.\<close>

fun handleFlips :: "('k, 'img) flip_env \<Rightarrow> int \<Rightarrow> int \<Rightarrow> (FlipToLoadContent \<times> int) list \<Rightarrow>
    (FailedFlipContent list \<times> FlipContent list) option" where
  "handleFlips env attemptsLimit retryInterval [] = Some ([], [])"
| "handleFlips env attemptsLimit retryInterval ((f, t) # fs) = do {
     content \<leftarrow> getFlipContent env f;
     (failed, contents) \<leftarrow> handleFlips env attemptsLimit retryInterval fs;
     Some (case content of
         None \<Rightarrow> (failedContent attemptsLimit retryInterval t f # failed, contents)
       | Some c \<Rightarrow> (failed, c # contents)) }"

text \<open>One round of \<open>loop\<close>: what is loaded is what the database selects; \<open>clock\<close> gives the times of the flips.\<close>

definition contentRound :: "db_conf \<Rightarrow> ('w, 's) sql \<Rightarrow> ('k, 'img) flip_env \<Rightarrow> int \<Rightarrow> int \<Rightarrow> int \<Rightarrow> int \<Rightarrow> (nat \<Rightarrow> int) \<Rightarrow> 'w \<Rightarrow>
    unit option \<times> 'w" where
  "contentRound conf ops env batchSize attemptsLimit retryInterval t0 clock w =
     (case GetFlipsToLoadContent conf ops (t0 div 10 ^ 9) batchSize w of
        (None, w1) \<Rightarrow> (None, w1)
      | (Some (Inl err), w1) \<Rightarrow> (Some (), w1)
      | (Some (Inr selected), w1) \<Rightarrow>
          (if selected = [] then (Some (), w1)
           else case handleFlips env attemptsLimit retryInterval (map (\<lambda>(i, f). (f, clock i)) (enumerate 0 selected)) of
             None \<Rightarrow> (None, w1)
           | Some (failed, contents) \<Rightarrow>
               (case SaveFlipsContent conf ops failed contents w1 of
                  (None, w2) \<Rightarrow> (None, w2)
                | (Some r, w2) \<Rightarrow> (Some (), w2))))"

section \<open>The size of a flip\<close>

record flipHeader =
  FH_cidBytes :: bytes
  FH_txHash :: hash

definition loadFlip :: "('k, 'img) flip_env \<Rightarrow> flipHeader \<Rightarrow> (string \<times> bytes \<times> bytes) option" where
  "loadFlip env header = (case FE_parseCid env (FH_cidBytes header) of
       None \<Rightarrow> None
     | Some cidStr \<Rightarrow> map_option (\<lambda>parts. (cidStr, parts)) (FE_rawFlip env (FH_cidBytes header)))"

text \<open>Errors are logged.\<close>

definition processHeader :: "db_conf \<Rightarrow> ('w, 's) sql \<Rightarrow> ('k, 'img) flip_env \<Rightarrow> flipHeader \<Rightarrow> 'w \<Rightarrow> unit option \<times> 'w" where
  "processHeader conf ops env header w = (case loadFlip env header of
       None \<Rightarrow> (Some (), w)
     | Some (cidStr, publicPart, privatePart) \<Rightarrow>
         (case SaveFlipSize conf ops cidStr (int (length publicPart) + int (length privatePart)) w of
            (None, w1) \<Rightarrow> (None, w1)
          | (Some r, w1) \<Rightarrow> (Some (), w1)))"

text \<open>The headers that a round of \<open>loadLoop\<close> sends to be tried again.\<close>

definition retryHeaders :: "db_conf \<Rightarrow> ('w, 's) sql \<Rightarrow> ('k, 'img) flip_env \<Rightarrow> bool \<Rightarrow> uint64 \<Rightarrow> 'w \<Rightarrow> flipHeader list option \<times> 'w" where
  "retryHeaders conf ops env enabledRetry epoch w =
     (if \<not> enabledRetry then (Some [], w)
      else case GetEpochFlipsWithoutSize conf ops epoch 50 w of
        (None, w1) \<Rightarrow> (None, w1)
      | (Some (Inl err), w1) \<Rightarrow> (Some [], w1)
      | (Some (Inr cids), w1) \<Rightarrow> (Some (map (\<lambda>c. \<lparr>FH_cidBytes = FE_cidBytes env c, FH_txHash = 0\<rparr>) cids), w1))"

text \<open>
  The channels of the loader: \<open>SubmitToLoad\<close> blocks while ten new headers wait, and one header to retry is
  handed over at a time. A retry is taken when the loop found no new header, although one may have come
  in between.
\<close>

record loader_state =
  LS_headers :: "flipHeader list"
  LS_toRetry :: "flipHeader list"
  LS_processed :: "flipHeader list"

inductive loaderStep :: "loader_state \<Rightarrow> loader_state \<Rightarrow> bool" where
  submit: "length (LS_headers s) < 10 \<Longrightarrow> loaderStep s (s\<lparr>LS_headers := LS_headers s @ [h]\<rparr>)"
| processNew: "LS_headers s = h # hs \<Longrightarrow> loaderStep s (s\<lparr>LS_headers := hs, LS_processed := LS_processed s @ [h]\<rparr>)"
| processRetry: "LS_toRetry s = h # hs \<Longrightarrow> loaderStep s (s\<lparr>LS_toRetry := hs, LS_processed := LS_processed s @ [h]\<rparr>)"
| retryRound: "LS_toRetry s = [] \<Longrightarrow> loaderStep s (s\<lparr>LS_toRetry := hs\<rparr>)"

section \<open>Properties\<close>

lemma those_none: "those (map f xs) = None \<longleftrightarrow> (\<exists>x \<in> set xs. f x = None)"
  by (induction xs) (auto split: option.splits)

text \<open>The shape of a flip: a list of byte strings, and if there is a second element a list of lists of byte strings.\<close>

definition flipShape :: "rlp list \<Rightarrow> bool" where
  "flipShape arr \<longleftrightarrow> (case arr of [] \<Rightarrow> True
     | first # rest \<Rightarrow>
         (\<exists>pics. first = RList (map RBytes pics)) \<and>
         (case rest of [] \<Rightarrow> True | second # _ \<Rightarrow> (\<exists>orders. second = RList (map (\<lambda>row. RList (map RBytes row)) orders))))"

lemma those_some: "those (map f xs) = Some ys \<longleftrightarrow> length ys = length xs \<and> (\<forall>i < length xs. f (xs ! i) = Some (ys ! i))"
  by (induction xs arbitrary: ys) (auto simp: nth_Cons less_Suc_eq_0_disj length_Suc_conv split: option.splits nat.splits)

lemma all_some: "(\<forall>x \<in> set xs. \<exists>y. x = g y) \<longleftrightarrow> (\<exists>ys. xs = map g ys)"
  by (metis ex_map_conv)

lemma pics_panic: "those (map asBytes items) = None \<longleftrightarrow> \<not> (\<exists>pics. items = map RBytes pics)"
  unfolding those_none all_some [symmetric] by (auto simp: asBytes_def split: rlp.split)

lemma parseOrder_panic: "parseOrder x = None \<longleftrightarrow> \<not> (\<exists>b. x = RBytes b)"
  by (auto simp: parseOrder_def asBytes_def split: rlp.split)

lemma parseOrders_panic: "parseOrders x = None \<longleftrightarrow> \<not> (\<exists>row. x = RList (map RBytes row))"
proof (cases x)
  case (RList xs)
  have "those (map parseOrder xs) = None \<longleftrightarrow> \<not> (\<exists>row. xs = map RBytes row)"
    unfolding those_none all_some [symmetric] by (auto simp: parseOrder_panic)
  then show ?thesis using RList by (simp add: parseOrders_def asList_def)
qed (simp add: parseOrders_def asList_def)

lemma orders_panic:
  "asList second \<bind> (\<lambda>xs. those (map parseOrders xs)) = None \<longleftrightarrow> \<not> (\<exists>orders. second = RList (map (\<lambda>row. RList (map RBytes row)) orders))"
proof (cases second)
  case (RList xs)
  have "those (map parseOrders xs) = None \<longleftrightarrow> \<not> (\<exists>orders. xs = map (\<lambda>row. RList (map RBytes row)) orders)"
    unfolding those_none all_some [symmetric] by (auto simp: parseOrders_panic)
  then show ?thesis using RList by (simp add: asList_def)
qed (simp add: asList_def)


text \<open>A flip whose list is empty is taken for loaded, with an empty identifier in place of its own.\<close>

lemma empty_flip_loses_cid:
  "FE_decode env data = Some [] \<Longrightarrow> \<exists>c. parseFlip env flipCid data = Some (Some c) \<and> FC_Cid c = []"
  by (simp add: parseFlip_def)

text \<open>Every selected flip is accounted for once, in order: those that could not be loaded are noted as failed with the
  number of their attempts against the limit, the others have their content saved.\<close>

theorem flips_accounted_for:
  assumes "handleFlips env attemptsLimit retryInterval fs = Some (failed, contents)"
  shows "failed = map (\<lambda>(f, t). failedContent attemptsLimit retryInterval t f) (filter (\<lambda>(f, t). getFlipContent env f = Some None) fs)"
    and "map (\<lambda>c. Some (Some c)) contents = map (\<lambda>(f, t). getFlipContent env f) (filter (\<lambda>(f, t). getFlipContent env f \<noteq> Some None) fs)"
    and "length failed + length contents = length fs"
  using assms by (induction fs arbitrary: failed contents) (auto split: bind_splits option.splits)

text \<open>
  The database counts the attempts of a flip that failed. A flip that always fails is given up in the
  end exactly when its attempts are below the limit.
\<close>

lemma given_up_iff:
  "(\<exists>n :: nat. FFC_AttemptsLimitReached (failedContent attemptsLimit r t (f\<lparr>FTL_Attempts := FTL_Attempts f + int n\<rparr>))) \<longleftrightarrow>
    FTL_Attempts f < attemptsLimit"
proof
  assume "FTL_Attempts f < attemptsLimit"
  then show "\<exists>n :: nat. FFC_AttemptsLimitReached (failedContent attemptsLimit r t (f\<lparr>FTL_Attempts := FTL_Attempts f + int n\<rparr>))"
    by (intro exI [of _ "nat (attemptsLimit - FTL_Attempts f - 1)"]) (simp add: failedContent_def Let_def)
qed (auto simp: failedContent_def Let_def)

lemma headers_bounded: "loaderStep\<^sup>*\<^sup>* s s1 \<Longrightarrow> length (LS_headers s) \<le> 10 \<Longrightarrow> length (LS_headers s1) \<le> 10"
  by (induction rule: rtranclp_induct) (auto elim!: loaderStep.cases)

text \<open>The icon of a flip fits into 64 by 64: whatever the proportions of the picture and the rounding of the floats,
  its longer side is 64 and the other one lies between 0 and 64.\<close>

theorem icon_fits:
  assumes "float_ok e" "0 < maxX" "0 < maxY"
  shows "case iconSize e maxX maxY of (x, y) \<Rightarrow> 0 \<le> x \<and> x \<le> 64 \<and> 0 \<le> y \<and> y \<le> 64 \<and> (x = 64 \<or> y = 64)"
proof -
  have side: "0 \<le> shorterSide e short long \<and> shorterSide e short long \<le> 64" if "0 < short" "short \<le> long" for short long
  proof -
    have near: "x * (1 - 1 / 2 ^ 24) \<le> X_f32 e x" "X_f32 e x \<le> x * (1 + 1 / 2 ^ 24)" if "0 \<le> x" for x
      using float_okD(1) [OF assms(1) that] unfolding abs_le_iff by (simp_all add: distrib_left right_diff_distrib)
    let ?s = "X_f32 e (of_int short)" and ?l = "X_f32 e (of_int long)"
    let ?c = "1 + 1 / 2 ^ 24 :: rat" and ?d = "1 - 1 / 2 ^ 24 :: rat" and ?g = "1 + 1 / 2 ^ 22 :: rat"
    have pos: "(0 :: rat) < of_int short" "(of_int short :: rat) \<le> of_int long" using that by simp_all
    have "0 < of_int short * ?d" "0 < of_int long * ?d" using pos by simp_all
    then have s: "0 < ?s" and l: "0 < ?l"
      using near(1) [of "of_int short"] near(1) [of "of_int long"] pos by linarith+
    have "?s \<le> of_int short * ?c" using near(2) [of "of_int short"] pos by simp
    also have "\<dots> \<le> of_int long * ?c" by (rule mult_right_mono [OF pos(2)]) simp
    also have "\<dots> \<le> ?g * (of_int long * ?d)" using pos by simp
    also have "\<dots> \<le> ?g * ?l" by (rule mult_left_mono) (use near(1) [of "of_int long"] pos in simp_all)
    finally have q: "?s / ?l \<le> ?g" "0 \<le> ?s / ?l" using l s by (simp_all add: pos_divide_le_eq)
    let ?q = "X_f32 e (?s / ?l)"
    have "0 \<le> ?s / ?l * ?d" using q(2) by simp
    then have q0: "0 \<le> ?q" using near(1) [OF q(2)] by linarith
    have "?q \<le> ?s / ?l * ?c" by (rule near(2) [OF q(2)])
    also have "\<dots> \<le> ?g * ?c" by (rule mult_right_mono [OF q(1)]) simp
    finally have q1: "?q \<le> ?g * ?c" .
    have p0: "0 \<le> ?q * 64" using q0 by simp
    have "0 \<le> ?q * 64 * ?d" using p0 by simp
    then have "0 \<le> X_f32 e (?q * 64)" using near(1) [OF p0] by linarith
    moreover have "X_f32 e (?q * 64) < 65"
    proof -
      have "X_f32 e (?q * 64) \<le> ?q * 64 * ?c" by (rule near(2) [OF p0])
      also have "\<dots> \<le> ?g * ?c * 64 * ?c" using q1 by (intro mult_right_mono) simp_all
      also have "\<dots> < 65" by simp
      finally show ?thesis .
    qed
    ultimately show ?thesis by (simp add: shorterSide_def floor_le_iff le_floor_iff)
  qed
  then show ?thesis using assms(2,3) by (auto simp: iconSize_def)
qed

theorem icon_fits_witness: "iconSize sampleExt 640 480 = (64, 48) \<and> 0 \<le> (48 :: int) \<and> (48 :: int) \<le> 64"
proof -
  have i: "iconSize sampleExt 640 480 = (64, 48)" by (simp add: iconSize_def shorterSide_def sampleExt_def)
  have "float_ok sampleExt" by (simp add: float_ok_def sampleExt_def)
  from icon_fits [OF this, of 640 480] show ?thesis using i by simp
qed

definition sampleFlipEnv :: "(nat, unit) flip_env" where
  "sampleFlipEnv = \<lparr>FE_importKey = (\<lambda>k. Some (length k)), FE_cidBytes = (\<lambda>c. [1]), FE_parseCid = (\<lambda>b. Some ''c''),
     FE_rawFlip = (\<lambda>b. Some ([1, 2], [3])), FE_decrypt = (\<lambda>k b. Some b),
     FE_decode = (\<lambda>b. Some [RList [RBytes [7]], RList [RList [RBytes [], RBytes [1]]]]), FE_decodeImage = (\<lambda>b. None),
     FE_encodeScaled = (\<lambda>img x y. None), FE_ext = sampleExt\<rparr>"

definition sampleFlipBytes :: "string \<Rightarrow> FlipToLoadContent" where
  "sampleFlipBytes key = \<lparr>FTL_Cid = ''f'', FTL_Key = key, FTL_Attempts = 2\<rparr>"

theorem flips_accounted_for_witness:
  "\<exists>failed contents. handleFlips sampleFlipEnv 3 60 [(sampleFlipBytes ''0g'', 5), (sampleFlipBytes ''0a'', 6)] = Some (failed, contents) \<and>
    failed = [\<lparr>FFC_Cid = ''f'', FFC_AttemptsLimitReached = True, FFC_NextAttemptTimestamp = None\<rparr>] \<and>
    length failed + length contents = 2"
proof -
  have k: "convertKey sampleFlipEnv ''0g'' = None" "convertKey sampleFlipEnv ''0a'' \<noteq> None"
    by (simp_all add: convertKey_def isHex_def hexDigits_def lowerChar_def sampleFlipEnv_def)
  then have g: "getFlipContent sampleFlipEnv (sampleFlipBytes ''0g'') = Some None" "\<exists>c. getFlipContent sampleFlipEnv (sampleFlipBytes ''0a'') = Some (Some c)"
    by (auto simp: getFlipContent_def getFlipData_def sampleFlipBytes_def parseFlip_def asList_def asBytes_def parseOrders_def
        parseOrder_def sampleFlipEnv_def)
  then obtain failed contents where h: "handleFlips sampleFlipEnv 3 60 [(sampleFlipBytes ''0g'', 5), (sampleFlipBytes ''0a'', 6)] = Some (failed, contents)"
    by auto
  show ?thesis using flips_accounted_for(1,3) [OF h] g h by (auto simp: failedContent_def sampleFlipBytes_def)
qed

end
