(* ===== verification/Vote_Counting.thy ===== *)
theory Vote_Counting
  imports Db_Accessor "HOL-Library.Sublist"
begin

text \<open>
  The trackers of \<open>src/core/mempool/vote_counting_tracker.go\<close> and \<open>src/core/mempool/peers_tracker.go\<close> with the
  operations of \<open>src/db/postgres_voting.go\<close>: events of the node's consensus are copied into bounded queues,
  converted and saved by one goroutine, which retries until the database accepts; peers are counted over a
  cache with expiration. Maps and sets come in the order of their iteration. A time is the number of its
  nanoseconds since 1970. What the node computes of a vote, a key or a proposal is part of the event.
\<close>

section \<open>Events\<close>

text \<open>The fields of a vote that are read; \<open>VoterAddr\<close> recovers the voter.\<close>

record Vote =
  Vo_VoterAddr :: address
  Vo_ParentHash :: hash
  Vo_VotedHash :: hash
  Vo_TurnOffline :: bool
  Vo_Upgrade :: uint32

record VoteCountingStepResultEvent =
  VSE_Round :: uint64
  VSE_Step :: byte
  VSE_VotesByBlock :: "(hash \<times> (address \<times> Vote) list) list"
  VSE_NecessaryVotesCount :: int
  VSE_CheckedRoundVotes :: int

text \<open>The sets of validators, each of which may be nil.\<close>

record StepValidators =
  SV_Original :: "address list option"
  SV_Validators :: "address list option"
  SV_ApprovedValidators :: "address list option"

text \<open>A certificate is its votes and the rest of its fields, \<open>VRE_certRest\<close>, that the copy leaves out.\<close>

record VoteCountingResultEvent =
  VRE_Round :: uint64
  VRE_Step :: byte
  VRE_Validators :: "StepValidators option"
  VRE_Hash :: hash
  VRE_Cert :: "(Vote list \<times> bytes) option"
  VRE_Err :: "string option"

record ProofProposalEvent =
  PPE_Round :: uint64
  PPE_Hash :: hash
  PPE_ProposerPubKey :: bytes
  PPE_Modifier :: int

text \<open>The results of the methods of a block proposal.\<close>

record BlockProposalEvent =
  BPE_Height :: uint64
  BPE_Coinbase :: address
  BPE_Hash :: hash
  BPE_ReceivingTime :: int

section \<open>Copies\<close>

definition copyStepEvent :: "VoteCountingStepResultEvent \<Rightarrow> VoteCountingStepResultEvent" where
  "copyStepEvent e = \<lparr>VSE_Round = VSE_Round e, VSE_Step = VSE_Step e,
     VSE_VotesByBlock = filter (\<lambda>(h, votes). votes \<noteq> []) (VSE_VotesByBlock e),
     VSE_NecessaryVotesCount = VSE_NecessaryVotesCount e, VSE_CheckedRoundVotes = VSE_CheckedRoundVotes e\<rparr>"

definition copyResultEvent :: "VoteCountingResultEvent \<Rightarrow> VoteCountingResultEvent" where
  "copyResultEvent e = \<lparr>VRE_Round = VRE_Round e, VRE_Step = VRE_Step e, VRE_Validators = VRE_Validators e, VRE_Hash = VRE_Hash e,
     VRE_Cert = map_option (\<lambda>(votes, rest). (votes, [])) (VRE_Cert e), VRE_Err = VRE_Err e\<rparr>"

section \<open>Rows\<close>

record DbVote =
  DV_Voter :: address
  DV_ParentHash :: hash
  DV_VotedHash :: hash
  DV_TurnOffline :: bool
  DV_Upgrade :: uint32

record VoteCountingStepResult =
  VSR_Timestamp :: int
  VSR_Round :: uint64
  VSR_Step :: byte
  VSR_NecessaryVotesCount :: int
  VSR_CheckedRoundVotes :: int
  VSR_Votes :: "DbVote list"

record DbStepValidators =
  DSV_Original :: "address list"
  DSV_Validators :: "address list"
  DSV_ApprovedValidators :: "address list"
  DSV_Size :: int

record VoteCountingResult =
  VCR_Timestamp :: int
  VCR_Round :: uint64
  VCR_Step :: byte
  VCR_Validators :: "DbStepValidators option"
  VCR_Hash :: hash
  VCR_Cert :: "DbVote list option"
  VCR_Err :: "string option"

record ProofProposal =
  PPr_Timestamp :: int
  PPr_Round :: uint64
  PPr_Proposer :: address
  PPr_Hash :: hash
  PPr_Modifier :: int
  PPr_VrfScore :: rat

record BlockProposal =
  BPr_ReceivingTime :: int
  BPr_Height :: uint64
  BPr_Proposer :: address
  BPr_Hash :: hash

definition convertVote :: "Vote \<Rightarrow> DbVote" where
  "convertVote v = \<lparr>DV_Voter = Vo_VoterAddr v, DV_ParentHash = Vo_ParentHash v, DV_VotedHash = Vo_VotedHash v,
     DV_TurnOffline = Vo_TurnOffline v, DV_Upgrade = Vo_Upgrade v\<rparr>"

definition convertStepEvent :: "int \<Rightarrow> VoteCountingStepResultEvent \<Rightarrow> VoteCountingStepResult" where
  "convertStepEvent timestamp e = \<lparr>VSR_Timestamp = timestamp, VSR_Round = VSE_Round e, VSR_Step = VSE_Step e,
     VSR_NecessaryVotesCount = VSE_NecessaryVotesCount e, VSR_CheckedRoundVotes = VSE_CheckedRoundVotes e,
     VSR_Votes = concat (map (\<lambda>(h, votes). map (\<lambda>(a, v). convertVote v) votes) (VSE_VotesByBlock e))\<rparr>"

definition orEmpty :: "'a list option \<Rightarrow> 'a list" where
  "orEmpty v = (case v of None \<Rightarrow> [] | Some xs \<Rightarrow> xs)"

definition convertResultEvent :: "int \<Rightarrow> VoteCountingResultEvent \<Rightarrow> VoteCountingResult" where
  "convertResultEvent timestamp e = \<lparr>VCR_Timestamp = timestamp, VCR_Round = VRE_Round e, VCR_Step = VRE_Step e,
     VCR_Validators = map_option (\<lambda>v. \<lparr>DSV_Original = orEmpty (SV_Original v), DSV_Validators = orEmpty (SV_Validators v),
        DSV_ApprovedValidators = orEmpty (SV_ApprovedValidators v),
        DSV_Size = int (length (orEmpty (SV_ApprovedValidators v)))\<rparr>) (VRE_Validators e),
     VCR_Hash = VRE_Hash e, VCR_Cert = map_option (\<lambda>(votes, rest). map convertVote votes) (VRE_Cert e), VCR_Err = VRE_Err e\<rparr>"

text \<open>What the node's libraries make of a public key and of a hash.\<close>

record proposal_env =
  PE_PubKeyBytesToAddress :: "bytes \<Rightarrow> address option"
  PE_HashToFloat :: "hash \<Rightarrow> int \<Rightarrow> rat"

definition convertProofProposalEvent :: "proposal_env \<Rightarrow> int \<Rightarrow> ProofProposalEvent \<Rightarrow> ProofProposal option" where
  "convertProofProposalEvent env timestamp e = map_option (\<lambda>proposer. \<lparr>PPr_Timestamp = timestamp, PPr_Round = PPE_Round e,
     PPr_Proposer = proposer, PPr_Hash = PPE_Hash e, PPr_Modifier = PPE_Modifier e,
     PPr_VrfScore = PE_HashToFloat env (PPE_Hash e) (PPE_Modifier e)\<rparr>) (PE_PubKeyBytesToAddress env (PPE_ProposerPubKey e))"

definition convertBlockProposalEvent :: "BlockProposalEvent \<Rightarrow> BlockProposal" where
  "convertBlockProposalEvent e = \<lparr>BPr_ReceivingTime = BPE_ReceivingTime e, BPr_Height = BPE_Height e,
     BPr_Proposer = BPE_Coinbase e, BPr_Hash = BPE_Hash e\<rparr>"

section \<open>The database\<close>

definition voteJson :: "db_env \<Rightarrow> DbVote \<Rightarrow> json" where
  "voteJson d v = JObj [(''voter'', jAddr d (DV_Voter v)), (''parentHash'', jHash d (DV_ParentHash v)),
     (''votedHash'', jHash d (DV_VotedHash v)), (''turnOffline'', JBool (DV_TurnOffline v)), (''upgrade'', jWord (DV_Upgrade v))]"

definition voteCountingStepResult_Value :: "db_env \<Rightarrow> VoteCountingStepResult \<Rightarrow> json" where
  "voteCountingStepResult_Value d v = JObj [(''data'', JObj ([(''timestamp'', jInt (VSR_Timestamp v)), (''round'', jWord (VSR_Round v)),
     (''step'', jWord (VSR_Step v)), (''necessaryVotesCount'', jInt (VSR_NecessaryVotesCount v)),
     (''checkedRoundVotes'', jInt (VSR_CheckedRoundVotes v))] @ omitEmpty ''votes'' (voteJson d) (VSR_Votes v)))]"

definition stepValidatorsJson :: "db_env \<Rightarrow> DbStepValidators \<Rightarrow> json" where
  "stepValidatorsJson d v = JObj (omitEmpty ''original'' (jAddr d) (DSV_Original v) @ omitEmpty ''validators'' (jAddr d) (DSV_Validators v) @
     omitEmpty ''approvedValidators'' (jAddr d) (DSV_ApprovedValidators v) @ [(''size'', jInt (DSV_Size v))])"

definition voteCountingResult_Value :: "db_env \<Rightarrow> VoteCountingResult \<Rightarrow> json" where
  "voteCountingResult_Value d v = JObj [(''data'', JObj [(''timestamp'', jInt (VCR_Timestamp v)), (''round'', jWord (VCR_Round v)),
     (''step'', jWord (VCR_Step v)), (''validators'', jOption (stepValidatorsJson d) (VCR_Validators v)),
     (''hash'', jHash d (VCR_Hash v)), (''cert'', jOption (\<lambda>votes. JObj (omitEmpty ''votes'' (voteJson d) votes)) (VCR_Cert v)),
     (''err'', jOption JStr (VCR_Err v))])]"

definition proofProposal_Value :: "db_env \<Rightarrow> ProofProposal \<Rightarrow> json" where
  "proofProposal_Value d v = JObj [(''data'', JObj [(''timestamp'', jInt (PPr_Timestamp v)), (''round'', jWord (PPr_Round v)),
     (''proposer'', jAddr d (PPr_Proposer v)), (''hash'', jHash d (PPr_Hash v)), (''modifier'', jInt (PPr_Modifier v)),
     (''vrfScore'', JNum (DE_jsonFloat d (PPr_VrfScore v)))])]"

definition blockProposal_Value :: "db_env \<Rightarrow> BlockProposal \<Rightarrow> json" where
  "blockProposal_Value d v = JObj [(''data'', JObj [(''receivingTime'', jInt (BPr_ReceivingTime v)), (''height'', jWord (BPr_Height v)),
     (''proposer'', jAddr d (BPr_Proposer v)), (''hash'', jHash d (BPr_Hash v))])]"

definition SaveVoteCountingStepResult :: "db_conf \<Rightarrow> ('w, 's) sql \<Rightarrow> VoteCountingStepResult \<Rightarrow> ('w, unit) action" where
  "SaveVoteCountingStepResult conf ops v = detailed (execDb conf ops ''saveVoteCountingStepResult.sql''
     (plainArgs [AJson (voteCountingStepResult_Value (DC_env conf) v)]))"

definition SaveVoteCountingResult :: "db_conf \<Rightarrow> ('w, 's) sql \<Rightarrow> VoteCountingResult \<Rightarrow> ('w, unit) action" where
  "SaveVoteCountingResult conf ops v = detailed (execDb conf ops ''saveVoteCountingResult.sql''
     (plainArgs [AJson (voteCountingResult_Value (DC_env conf) v)]))"

definition SaveProofProposal :: "db_conf \<Rightarrow> ('w, 's) sql \<Rightarrow> ProofProposal \<Rightarrow> ('w, unit) action" where
  "SaveProofProposal conf ops v = detailed (execDb conf ops ''saveProofProposal.sql'' (plainArgs [AJson (proofProposal_Value (DC_env conf) v)]))"

definition SaveBlockProposal :: "db_conf \<Rightarrow> ('w, 's) sql \<Rightarrow> BlockProposal \<Rightarrow> ('w, unit) action" where
  "SaveBlockProposal conf ops v = detailed (execDb conf ops ''saveBlockProposal.sql'' (plainArgs [AJson (blockProposal_Value (DC_env conf) v)]))"

definition DeleteVoteCountingOldData :: "db_conf \<Rightarrow> ('w, 's) sql \<Rightarrow> ('w, unit) action" where
  "DeleteVoteCountingOldData conf ops = detailed (execDb conf ops ''deleteVoteCountingOldData.sql'' (plainArgs [AInt (7 * 24 * 60 * 3 div 2)]))"

section \<open>The tracker\<close>

text \<open>The channels with their capacities; the items of the first three carry the time of their submission.\<close>

record voteCountingTracker =
  VT_countingStepQueue :: "(int \<times> VoteCountingStepResultEvent) list"
  VT_countingQueue :: "(int \<times> VoteCountingResultEvent) list"
  VT_proofQueue :: "(int \<times> ProofProposalEvent) list"
  VT_blockQueue :: "BlockProposalEvent list"

definition NewVoteCountingTracker :: voteCountingTracker where
  "NewVoteCountingTracker = \<lparr>VT_countingStepQueue = [], VT_countingQueue = [], VT_proofQueue = [], VT_blockQueue = []\<rparr>"

text \<open>A send that does not block: a full queue drops the item.\<close>

definition offer :: "nat \<Rightarrow> 'a \<Rightarrow> 'a list \<Rightarrow> 'a list" where
  "offer capacity x queue = (if length queue < capacity then queue @ [x] else queue)"

definition SubmitVoteCountingStepResultEvent :: "int \<Rightarrow> VoteCountingStepResultEvent \<Rightarrow> voteCountingTracker \<Rightarrow> voteCountingTracker" where
  "SubmitVoteCountingStepResultEvent timestamp e t = t\<lparr>VT_countingStepQueue := offer 1000 (timestamp, copyStepEvent e) (VT_countingStepQueue t)\<rparr>"

definition SubmitVoteCountingResultEvent :: "int \<Rightarrow> VoteCountingResultEvent \<Rightarrow> voteCountingTracker \<Rightarrow> voteCountingTracker" where
  "SubmitVoteCountingResultEvent timestamp e t = t\<lparr>VT_countingQueue := offer 100 (timestamp, copyResultEvent e) (VT_countingQueue t)\<rparr>"

definition SubmitProofProposalEvent :: "int \<Rightarrow> ProofProposalEvent \<Rightarrow> voteCountingTracker \<Rightarrow> voteCountingTracker" where
  "SubmitProofProposalEvent timestamp e t = t\<lparr>VT_proofQueue := offer 1000 (timestamp, e) (VT_proofQueue t)\<rparr>"

definition SubmitBlockProposalEvent :: "BlockProposalEvent \<Rightarrow> voteCountingTracker \<Rightarrow> voteCountingTracker" where
  "SubmitBlockProposalEvent e t = t\<lparr>VT_blockQueue := offer 1000 e (VT_blockQueue t)\<rparr>"

text \<open>The retries of a handler, with fuel; \<open>sleep\<close> is the pause before the next one.\<close>

fun saveUntilAccepted :: "('w, unit) action \<Rightarrow> ('w \<Rightarrow> 'w) \<Rightarrow> nat \<Rightarrow> 'w \<Rightarrow> unit outcome \<times> 'w" where
  "saveUntilAccepted save sleep 0 w = (Waiting, w)"
| "saveUntilAccepted save sleep (Suc n) w = (case save w of
       (None, w1) \<Rightarrow> (Panics, w1)
     | (Some (Inr _), w1) \<Rightarrow> (Returns (), w1)
     | (Some (Inl err), w1) \<Rightarrow> saveUntilAccepted save sleep n (sleep w1))"

definition handleCountingStep :: "db_conf \<Rightarrow> ('w, 's) sql \<Rightarrow> ('w \<Rightarrow> 'w) \<Rightarrow> nat \<Rightarrow> int \<times> VoteCountingStepResultEvent \<Rightarrow> 'w \<Rightarrow> unit outcome \<times> 'w" where
  "handleCountingStep conf ops sleep n = (\<lambda>(timestamp, e).
     saveUntilAccepted (SaveVoteCountingStepResult conf ops (convertStepEvent timestamp e)) sleep n)"

definition handleCounting :: "db_conf \<Rightarrow> ('w, 's) sql \<Rightarrow> ('w \<Rightarrow> 'w) \<Rightarrow> nat \<Rightarrow> int \<times> VoteCountingResultEvent \<Rightarrow> 'w \<Rightarrow> unit outcome \<times> 'w" where
  "handleCounting conf ops sleep n = (\<lambda>(timestamp, e).
     saveUntilAccepted (SaveVoteCountingResult conf ops (convertResultEvent timestamp e)) sleep n)"

text \<open>A proposal whose key is not one of an address is dropped.\<close>

definition handleProofProposal :: "db_conf \<Rightarrow> ('w, 's) sql \<Rightarrow> proposal_env \<Rightarrow> ('w \<Rightarrow> 'w) \<Rightarrow> nat \<Rightarrow> int \<times> ProofProposalEvent \<Rightarrow> 'w \<Rightarrow>
    unit outcome \<times> 'w" where
  "handleProofProposal conf ops env sleep n = (\<lambda>(timestamp, e) w. case convertProofProposalEvent env timestamp e of
       None \<Rightarrow> (Returns (), w)
     | Some value \<Rightarrow> saveUntilAccepted (SaveProofProposal conf ops value) sleep n w)"

definition handleBlockProposal :: "db_conf \<Rightarrow> ('w, 's) sql \<Rightarrow> ('w \<Rightarrow> 'w) \<Rightarrow> nat \<Rightarrow> BlockProposalEvent \<Rightarrow> 'w \<Rightarrow> unit outcome \<times> 'w" where
  "handleBlockProposal conf ops sleep n e = saveUntilAccepted (SaveBlockProposal conf ops (convertBlockProposalEvent e)) sleep n"

text \<open>The error of the deletion is logged.\<close>

definition deleteOldData :: "db_conf \<Rightarrow> ('w, 's) sql \<Rightarrow> 'w \<Rightarrow> unit outcome \<times> 'w" where
  "deleteOldData conf ops w = (case DeleteVoteCountingOldData conf ops w of
       (None, w1) \<Rightarrow> (Panics, w1)
     | (Some r, w1) \<Rightarrow> (Returns (), w1))"

text \<open>
  One turn of \<open>track\<close> takes from a channel that has something, in any order of the channels. What was
  handled is remembered by the label of the step.
\<close>

datatype track_label = HandledStep "int \<times> VoteCountingStepResultEvent" | HandledResult "int \<times> VoteCountingResultEvent"
  | HandledProof "int \<times> ProofProposalEvent" | HandledBlock BlockProposalEvent | Deleted
  | SubmittedStep int VoteCountingStepResultEvent | SubmittedResult int VoteCountingResultEvent
  | SubmittedProof int ProofProposalEvent | SubmittedBlock BlockProposalEvent

inductive trackStep :: "voteCountingTracker \<Rightarrow> track_label \<Rightarrow> voteCountingTracker \<Rightarrow> bool" where
  "trackStep t (SubmittedStep timestamp e) (SubmitVoteCountingStepResultEvent timestamp e t)"
| "trackStep t (SubmittedResult timestamp r) (SubmitVoteCountingResultEvent timestamp r t)"
| "trackStep t (SubmittedProof timestamp p) (SubmitProofProposalEvent timestamp p t)"
| "trackStep t (SubmittedBlock b) (SubmitBlockProposalEvent b t)"
| "VT_countingStepQueue t = x # xs \<Longrightarrow> trackStep t (HandledStep x) (t\<lparr>VT_countingStepQueue := xs\<rparr>)"
| "VT_countingQueue t = y # ys \<Longrightarrow> trackStep t (HandledResult y) (t\<lparr>VT_countingQueue := ys\<rparr>)"
| "VT_proofQueue t = p # ps \<Longrightarrow> trackStep t (HandledProof p) (t\<lparr>VT_proofQueue := ps\<rparr>)"
| "VT_blockQueue t = b # bs \<Longrightarrow> trackStep t (HandledBlock b) (t\<lparr>VT_blockQueue := bs\<rparr>)"
| "trackStep t Deleted t"

inductive trackRun :: "voteCountingTracker \<Rightarrow> track_label list \<Rightarrow> voteCountingTracker \<Rightarrow> bool" where
  "trackRun t [] t"
| "trackRun t ls t1 \<Longrightarrow> trackStep t1 l t2 \<Longrightarrow> trackRun t (ls @ [l]) t2"

inductive_cases trackStep_cases: "trackStep t l t1"

section \<open>Peers\<close>

text \<open>The cache of \<open>go-cache\<close> with the operations that are used, at a time; a key expires three hours after it was set.\<close>

record 'c peer_cache =
  PC_Set :: "int \<Rightarrow> string \<Rightarrow> 'c \<Rightarrow> 'c"
  PC_DeleteExpired :: "int \<Rightarrow> 'c \<Rightarrow> 'c"
  PC_ItemCount :: "'c \<Rightarrow> int"

text \<open>A wrapper of the queue that \<open>handlePeers\<close> takes at the time \<open>t\<close>.\<close>

definition handlePeers :: "'c peer_cache \<Rightarrow> int \<Rightarrow> string list \<Rightarrow> 'c \<Rightarrow> 'c" where
  "handlePeers ops t ids c = fold (PC_Set ops t) ids c"

text \<open>One turn of the tracker's loop; the times are in nanoseconds, the row's in seconds. The error is logged.\<close>

definition trackPeers :: "db_conf \<Rightarrow> ('w, 's) sql \<Rightarrow> 'c peer_cache \<Rightarrow> int \<Rightarrow> 'c \<times> 'w \<Rightarrow> unit outcome \<times> 'c \<times> 'w" where
  "trackPeers conf ops cache t = (\<lambda>(c, w).
     let c1 = PC_DeleteExpired cache t c
     in case SavePeersCount conf ops (PC_ItemCount cache c1) (t div 10 ^ 9) w of
       (None, w1) \<Rightarrow> (Panics, c1, w1)
     | (Some r, w1) \<Rightarrow> (Returns (), c1, w1))"

section \<open>Properties\<close>

text \<open>The copies that the tracker takes of an event lose nothing of what is saved: the rows of the copy are those of
  the event itself, votes, validators and certificate included.\<close>

theorem copies_lose_nothing:
  "convertStepEvent timestamp (copyStepEvent e) = convertStepEvent timestamp e"
  "convertResultEvent timestamp (copyResultEvent r) = convertResultEvent timestamp r"
proof -
  have "concat (map (\<lambda>(h, votes). map (\<lambda>(a, v). convertVote v) votes) (filter (\<lambda>(h, votes). votes \<noteq> []) xs)) =
      concat (map (\<lambda>(h, votes). map (\<lambda>(a, v). convertVote v) votes) xs)" for xs :: "(hash \<times> (address \<times> Vote) list) list"
    by (induction xs) auto
  then show "convertStepEvent timestamp (copyStepEvent e) = convertStepEvent timestamp e"
    by (simp add: convertStepEvent_def copyStepEvent_def)
  show "convertResultEvent timestamp (copyResultEvent r) = convertResultEvent timestamp r"
    by (simp add: convertResultEvent_def copyResultEvent_def option.map_comp comp_def case_prod_unfold)
qed

definition submittedSteps :: "track_label list \<Rightarrow> (int \<times> VoteCountingStepResultEvent) list" where
  "submittedSteps ls = concat (map (\<lambda>l. case l of SubmittedStep t e \<Rightarrow> [(t, copyStepEvent e)] | _ \<Rightarrow> []) ls)"

definition handledSteps :: "track_label list \<Rightarrow> (int \<times> VoteCountingStepResultEvent) list" where
  "handledSteps ls = concat (map (\<lambda>l. case l of HandledStep x \<Rightarrow> [x] | _ \<Rightarrow> []) ls)"

definition submittedResults :: "track_label list \<Rightarrow> (int \<times> VoteCountingResultEvent) list" where
  "submittedResults ls = concat (map (\<lambda>l. case l of SubmittedResult t e \<Rightarrow> [(t, copyResultEvent e)] | _ \<Rightarrow> []) ls)"

definition handledResults :: "track_label list \<Rightarrow> (int \<times> VoteCountingResultEvent) list" where
  "handledResults ls = concat (map (\<lambda>l. case l of HandledResult x \<Rightarrow> [x] | _ \<Rightarrow> []) ls)"

lemmas label_lists = submittedSteps_def handledSteps_def submittedResults_def handledResults_def

lemmas tracker_defs = SubmitVoteCountingStepResultEvent_def SubmitVoteCountingResultEvent_def SubmitProofProposalEvent_def
  SubmitBlockProposalEvent_def offer_def

lemma capacities_step:
  assumes "trackStep t l t1" "length (VT_countingStepQueue t) \<le> 1000" "length (VT_countingQueue t) \<le> 100"
    "length (VT_proofQueue t) \<le> 1000" "length (VT_blockQueue t) \<le> 1000"
  shows "length (VT_countingStepQueue t1) \<le> 1000 \<and> length (VT_countingQueue t1) \<le> 100 \<and>
    length (VT_proofQueue t1) \<le> 1000 \<and> length (VT_blockQueue t1) \<le> 1000"
  using assms by (cases rule: trackStep.cases) (auto simp: tracker_defs)

lemma capacities:
  "trackRun t ls t1 \<Longrightarrow> t = NewVoteCountingTracker \<Longrightarrow> length (VT_countingStepQueue t1) \<le> 1000 \<and> length (VT_countingQueue t1) \<le> 100 \<and>
    length (VT_proofQueue t1) \<le> 1000 \<and> length (VT_blockQueue t1) \<le> 1000"
  by (induction rule: trackRun.induct) (use capacities_step in \<open>auto simp: NewVoteCountingTracker_def\<close>)

lemma subseq_snoc: "subseq xs ys \<Longrightarrow> subseq (xs @ zs) (ys @ zs)" "subseq xs ys \<Longrightarrow> subseq xs (ys @ zs)"
  by (auto intro: list_emb_append_mono list_emb_append2)

lemma order_step:
  assumes "trackStep t l t1"
    and "subseq (handledSteps ls @ VT_countingStepQueue t) (submittedSteps ls)"
    and "subseq (handledResults ls @ VT_countingQueue t) (submittedResults ls)"
  shows "subseq (handledSteps (ls @ [l]) @ VT_countingStepQueue t1) (submittedSteps (ls @ [l]))"
    and "subseq (handledResults (ls @ [l]) @ VT_countingQueue t1) (submittedResults (ls @ [l]))"
  using assms(1)
  by (cases rule: trackStep.cases;
      use assms(2,3) subseq_snoc [OF assms(2)] subseq_snoc [OF assms(3)] in \<open>simp add: label_lists tracker_defs\<close>)+

text \<open>As long as no more step events were submitted than the queue holds, none was dropped.\<close>

lemma exact_step:
  assumes "trackStep t l t1" "handledSteps ls @ VT_countingStepQueue t = submittedSteps ls" "length (submittedSteps (ls @ [l])) \<le> 1000"
  shows "handledSteps (ls @ [l]) @ VT_countingStepQueue t1 = submittedSteps (ls @ [l])"
proof -
  have q: "length (VT_countingStepQueue t) \<le> length (submittedSteps ls)" using assms(2) by (metis length_append le_add2)
  show ?thesis
    using assms(1) by (cases rule: trackStep.cases;
        use assms(2,3) q in \<open>simp add: label_lists tracker_defs\<close>)
qed

lemma tracker_order:
  assumes "trackRun t0 ls t" "t0 = NewVoteCountingTracker"
  shows "subseq (handledSteps ls @ VT_countingStepQueue t) (submittedSteps ls)"
    and "subseq (handledResults ls @ VT_countingQueue t) (submittedResults ls)"
    and "length (submittedSteps ls) \<le> 1000 \<Longrightarrow> handledSteps ls @ VT_countingStepQueue t = submittedSteps ls"
  using assms
proof (induction rule: trackRun.induct)
  case (1 t)
  {
    case 1 then show ?case by (simp add: NewVoteCountingTracker_def label_lists)
  next
    case 2 then show ?case by (simp add: NewVoteCountingTracker_def label_lists)
  next
    case 3 then show ?case by (simp add: NewVoteCountingTracker_def label_lists)
  }
next
  case (2 t ls t1 l t2)
  {
    case 1 then show ?case using order_step(1) [OF "2.hyps"(2), of ls] "2.IH"(1,2) by blast
  next
    case 2 then show ?case using order_step(2) [OF "2.hyps"(2), of ls] "2.IH"(1,2) by blast
  next
    case 3
    have "length (submittedSteps ls) \<le> 1000" using 3(1) by (simp add: submittedSteps_def)
    then show ?case using exact_step [OF "2.hyps"(2) _ 3(1)] "2.IH"(3) 3 by blast
  }
qed


definition sampleStepEvent :: VoteCountingStepResultEvent where
  "sampleStepEvent = \<lparr>VSE_Round = 5, VSE_Step = 1, VSE_VotesByBlock = [], VSE_NecessaryVotesCount = 2, VSE_CheckedRoundVotes = 1\<rparr>"


text \<open>
  The laws of the cache over \<open>seen\<close>, the time at which each key was set last: \<open>DeleteExpired\<close> removes the keys
  that expired before the present time and \<open>ItemCount\<close> counts those that are left.
\<close>

definition cache_ok :: "'c peer_cache \<Rightarrow> ('c \<Rightarrow> string \<rightharpoonup> int) \<Rightarrow> bool" where
  "cache_ok ops seen \<longleftrightarrow>
     (\<forall>t k c. seen (PC_Set ops t k c) = (seen c)(k \<mapsto> t)) \<and>
     (\<forall>t c. seen (PC_DeleteExpired ops t c) = (\<lambda>k. case seen c k of Some s \<Rightarrow> if s + 3 * 3600 * 10 ^ 9 < t then None else Some s | None \<Rightarrow> None)) \<and>
     (\<forall>c. PC_ItemCount ops c = int (card (dom (seen c))))"

lemma handlePeers_seen:
  assumes "cache_ok ops seen"
  shows "seen (handlePeers ops t ids c) = (\<lambda>k. if k \<in> set ids then Some t else seen c k)"
  unfolding handlePeers_def using assms by (induction ids arbitrary: c) (auto simp: cache_ok_def fun_eq_iff)

text \<open>The number that is saved is that of the peers seen within the last three hours.\<close>

lemma peers_counted:
  assumes "cache_ok cache seen"
  shows "PC_ItemCount cache (PC_DeleteExpired cache t c) = int (card {k. \<exists>s. seen c k = Some s \<and> t \<le> s + 3 * 3600 * 10 ^ 9})"
proof -
  have "dom (seen (PC_DeleteExpired cache t c)) = {k. \<exists>s. seen c k = Some s \<and> t \<le> s + 3 * 3600 * 10 ^ 9}"
    using assms by (auto simp: cache_ok_def dom_def not_less split: option.splits if_splits)
  then show ?thesis using assms by (simp add: cache_ok_def)
qed

end
