(* ===== verification/Online_Identities.thy ===== *)
theory Online_Identities
  imports Upgrade_Voting Token_Collector
begin

text \<open>
  The cache of the current online identities, \<open>src/core/holder/online/online.go\<close>: its update from the
  node's state (identities, validators, pools, weights of the miners) and its queries. What is read of
  the node is the record \<open>online_env\<close>; a time is a number; \<open>sort.Slice\<close> is an argument, of which only
  what the library promises is used. Objects are built once and not changed, except the pools, which
  are kept by value under their key.
\<close>

section \<open>Data\<close>

datatype OnlineIdentity = OnlineIdentity (OI_Address: string) (OI_LastActivity: "int option") (OI_Penalty: decimal)
  (OI_PenaltySeconds: uint16) (OI_Online: bool) (OI_Delegatee: "OnlineIdentity option")

record Pool =
  Po_TotalStake :: int
  Po_TotalValidatedStake :: int

record Validator =
  Va_Address :: string
  Va_Size :: uint32
  Va_Online :: bool
  Va_LastActivity :: "int option"
  Va_Penalty :: decimal
  Va_PenaltySeconds :: uint16
  Va_IsPool :: bool

text \<open>The average of the weights is a quotient of floats; \<open>None\<close> is not a number.\<close>

record Staking =
  St_Weight :: rat
  St_MinersWeight :: rat
  St_AverageMinerWeight :: "rat option"
  St_MaxMinerWeight :: rat

record onlineCache =
  OC_identities :: "OnlineIdentity list"
  OC_identitiesPerAddress :: "string \<rightharpoonup> OnlineIdentity"
  OC_onlineCount :: int
  OC_validators :: "Validator list"
  OC_onlineValidators :: "Validator list"
  OC_staking :: Staking
  OC_forkCommitteeSize :: int
  OC_poolsPerAddress :: "string \<rightharpoonup> Pool"

text \<open>The fields of \<open>state.Identity\<close> that the update reads.\<close>

record online_identity =
  ON_State :: identity_state
  ON_Delegatee :: "address option"
  ON_Stake :: bigint
  ON_Penalty :: bigint
  ON_PenaltySeconds :: uint16

record online_env =
  OE_identities :: "(address \<times> online_identity) list"
  OE_GetIdentity :: "address \<Rightarrow> online_identity"
  OE_IsOnline :: "address \<Rightarrow> bool"
  OE_IsPool :: "address \<Rightarrow> bool"
  OE_PoolSize :: "address \<Rightarrow> int"
  OE_ForkCommitteeSize :: int
  OE_activityMap :: "address \<rightharpoonup> int"

definition zeroStaking :: Staking where
  "zeroStaking = \<lparr>St_Weight = 0, St_MinersWeight = 0, St_AverageMinerWeight = Some 0, St_MaxMinerWeight = 0\<rparr>"

definition NewCurrentOnlineIdentitiesCache :: onlineCache where
  "NewCurrentOnlineIdentitiesCache = \<lparr>OC_identities = [], OC_identitiesPerAddress = Map.empty, OC_onlineCount = 0,
     OC_validators = [], OC_onlineValidators = [], OC_staking = zeroStaking, OC_forkCommitteeSize = 0, OC_poolsPerAddress = Map.empty\<rparr>"

section \<open>Queries\<close>

definition onlineGet :: "onlineCache \<Rightarrow> string \<Rightarrow> OnlineIdentity option" where
  "onlineGet c addr = OC_identitiesPerAddress c (toLower addr)"

definition GetPool :: "onlineCache \<Rightarrow> string \<Rightarrow> Pool option" where
  "GetPool c addr = OC_poolsPerAddress c (toLower addr)"

definition ValidatorsCount :: "onlineCache \<Rightarrow> nat" where
  "ValidatorsCount c = length (OC_validators c)"

definition OnlineValidatorsCount :: "onlineCache \<Rightarrow> nat" where
  "OnlineValidatorsCount c = length (OC_onlineValidators c)"

section \<open>Sorting and averages\<close>

text \<open>\<open>sort.Search\<close>: bisection for the smallest index at which \<open>f\<close> holds; \<open>h\<close> is the middle.\<close>

function searchLoop :: "(nat \<Rightarrow> bool) \<Rightarrow> nat \<Rightarrow> nat \<Rightarrow> nat" where
  "searchLoop f i j = (if i < j then (let h = (i + j) div 2 in if \<not> f h then searchLoop f (h + 1) j else searchLoop f i h) else i)"
  by pat_completeness auto

termination searchLoop
  by (relation "measure (\<lambda>(f, i, j). j - i)") auto

definition sortSearch :: "nat \<Rightarrow> (nat \<Rightarrow> bool) \<Rightarrow> nat" where
  "sortSearch n f = searchLoop f 0 n"

definition addToSorted :: "rat list \<Rightarrow> rat \<Rightarrow> rat list" where
  "addToSorted values value =
     (let index = sortSearch (length values) (\<lambda>i. values ! i > value)
      in take index values @ [value] @ drop index values)"

fun averageLoop :: "ext \<Rightarrow> rat list \<Rightarrow> rat \<Rightarrow> nat list \<Rightarrow> rat \<Rightarrow> rat" where
  "averageLoop e values step [] tot = tot"
| "averageLoop e values step (i # ixs) tot =
     (let index = goRound (X_f64 e (step * X_f64 e (of_nat i)));
          index1 = (if index \<ge> int (length values) then int (length values) - 1 else index)
      in averageLoop e values step ixs (X_f64 e (tot + values ! nat index1)))"

definition calculateAverage :: "ext \<Rightarrow> rat list \<Rightarrow> nat \<Rightarrow> rat" where
  "calculateAverage e values n =
     (if values = [] then 0
      else let step = X_f64 e (X_f64 e (of_nat (length values)) / X_f64 e (of_nat n))
           in X_f64 e (averageLoop e values step [0..<n] 0 / X_f64 e (of_nat n)))"

section \<open>The update\<close>

definition buildIdentity :: "ext \<Rightarrow> online_env \<Rightarrow> address \<Rightarrow> online_identity \<Rightarrow> bool option \<Rightarrow> OnlineIdentity option \<Rightarrow> OnlineIdentity" where
  "buildIdentity e env addr identity pOnline delegatee =
     OnlineIdentity (ConvertAddress e addr) (OE_activityMap env addr) (X_convertToFloat e (ON_Penalty identity))
       (ON_PenaltySeconds identity) (case pOnline of None \<Rightarrow> OE_IsOnline env addr | Some online \<Rightarrow> online) delegatee"

definition buildValidator :: "ext \<Rightarrow> online_env \<Rightarrow> address \<Rightarrow> online_identity \<Rightarrow> Validator option" where
  "buildValidator e env addr identity =
     (let isPool = OE_IsPool env addr;
          size = (if X_newbieOrBetter e (ON_State identity) \<and> ON_Delegatee identity = None \<and> \<not> isPool then 1
            else if isPool then of_int (OE_PoolSize env addr) else 0 :: uint32)
      in if size = 0 then None
         else Some \<lparr>Va_Address = ConvertAddress e addr, Va_Size = size, Va_Online = OE_IsOnline env addr,
           Va_LastActivity = OE_activityMap env addr, Va_Penalty = X_convertToFloat e (ON_Penalty identity),
           Va_PenaltySeconds = ON_PenaltySeconds identity, Va_IsPool = isPool\<rparr>)"

definition calculateStakeWeight :: "ext \<Rightarrow> bigint \<Rightarrow> rat" where
  "calculateStakeWeight e stake = X_pow e (X_f64 e (X_convertToFloat e stake)) (X_f64 e (9 / 10))"

text \<open>The variables that the callback of the iteration over the identities updates.\<close>

record online_acc =
  OA_identities :: "OnlineIdentity list"
  OA_perAddress :: "string \<rightharpoonup> OnlineIdentity"
  OA_onlineCount :: int
  OA_delegatees :: "address \<rightharpoonup> OnlineIdentity"
  OA_validators :: "Validator list"
  OA_onlineValidators :: "Validator list"
  OA_stakeWeight :: rat
  OA_minersWeight :: rat
  OA_minerWeights :: "rat list"
  OA_maxWeight :: rat
  OA_pools :: "string \<rightharpoonup> Pool"

definition isMiner :: "online_env \<Rightarrow> address \<Rightarrow> online_identity \<Rightarrow> bool" where
  "isMiner env addr identity \<longleftrightarrow> OE_IsOnline env addr \<or>
     (case ON_Delegatee identity of None \<Rightarrow> False | Some delegatee \<Rightarrow> OE_IsOnline env delegatee)"

definition weightStep :: "ext \<Rightarrow> online_env \<Rightarrow> address \<Rightarrow> online_identity \<Rightarrow> online_acc \<Rightarrow> online_acc" where
  "weightStep e env addr identity acc =
     (if \<not> X_newbieOrBetter e (ON_State identity) then acc
      else let weight = calculateStakeWeight e (Some (zeroIfNil (ON_Stake identity)));
               acc1 = acc\<lparr>OA_stakeWeight := X_f64 e (OA_stakeWeight acc + weight)\<rparr>
           in if isMiner env addr identity
              then acc1\<lparr>OA_minersWeight := X_f64 e (OA_minersWeight acc1 + weight),
                OA_minerWeights := addToSorted (OA_minerWeights acc1) weight,
                OA_maxWeight := (if weight > OA_maxWeight acc1 then weight else OA_maxWeight acc1)\<rparr>
              else acc1)"

definition validatorStep :: "ext \<Rightarrow> online_env \<Rightarrow> address \<Rightarrow> online_identity \<Rightarrow> online_acc \<Rightarrow> online_acc" where
  "validatorStep e env addr identity acc = (case buildValidator e env addr identity of
       None \<Rightarrow> acc
     | Some v \<Rightarrow> acc\<lparr>OA_validators := OA_validators acc @ [v],
         OA_onlineValidators := (if Va_Online v then OA_onlineValidators acc @ [v] else OA_onlineValidators acc)\<rparr>)"

text \<open>The stakes of a pool: those of its delegators and, once, of the pool itself.\<close>

definition addStake :: "ext \<Rightarrow> online_identity \<Rightarrow> Pool \<Rightarrow> Pool" where
  "addStake e identity pool = (case ON_Stake identity of
       None \<Rightarrow> pool
     | Some stake \<Rightarrow> \<lparr>Po_TotalStake = Po_TotalStake pool + stake,
         Po_TotalValidatedStake = Po_TotalValidatedStake pool + (if X_newbieOrBetter e (ON_State identity) then stake else 0)\<rparr>)"

definition poolKey :: "ext \<Rightarrow> address \<Rightarrow> string" where
  "poolKey e addr = toLower (X_addrHex e addr)"

definition poolStakeStep :: "ext \<Rightarrow> online_env \<Rightarrow> address \<Rightarrow> online_identity \<Rightarrow> (string \<rightharpoonup> Pool) \<Rightarrow> string \<rightharpoonup> Pool" where
  "poolStakeStep e env delegatee identity pools =
     (if ON_Stake identity = None then pools
      else let pool = (case pools (poolKey e delegatee) of
             None \<Rightarrow> addStake e (OE_GetIdentity env delegatee) \<lparr>Po_TotalStake = 0, Po_TotalValidatedStake = 0\<rparr>
           | Some pool \<Rightarrow> pool)
       in pools(poolKey e delegatee \<mapsto> addStake e identity pool))"

definition onlineDelegateeStep :: "ext \<Rightarrow> online_env \<Rightarrow> online_identity \<Rightarrow> online_acc \<Rightarrow> OnlineIdentity option \<times> online_acc" where
  "onlineDelegateeStep e env identity acc = (case ON_Delegatee identity of
       None \<Rightarrow> (None, acc)
     | Some delegateeAddr \<Rightarrow>
         (let delegatee = (case OA_delegatees acc delegateeAddr of
               None \<Rightarrow> buildIdentity e env delegateeAddr (OE_GetIdentity env delegateeAddr) None None
             | Some d \<Rightarrow> d)
          in (Some delegatee, acc\<lparr>OA_delegatees := (OA_delegatees acc)(delegateeAddr \<mapsto> delegatee),
                OA_pools := poolStakeStep e env delegateeAddr identity (OA_pools acc)\<rparr>)))"

definition updateStep :: "ext \<Rightarrow> online_env \<Rightarrow> address \<times> online_identity \<Rightarrow> online_acc \<Rightarrow> online_acc" where
  "updateStep e env = (\<lambda>(addr, identity) acc.
     (let (delegatee, acc1) = onlineDelegateeStep e env identity (validatorStep e env addr identity (weightStep e env addr identity acc));
          online = OE_IsOnline env addr;
          acc2 = (if online
            then acc1\<lparr>OA_onlineCount := OA_onlineCount acc1 + (if OE_IsPool env addr then OE_PoolSize env addr else 1)\<rparr> else acc1)
      in if \<not> X_newbieOrBetter e (ON_State identity) then acc2
         else let onlineIdentity = (case OA_delegatees acc2 addr of
                None \<Rightarrow> buildIdentity e env addr identity (Some online) delegatee
              | Some d \<Rightarrow> d)
           in acc2\<lparr>OA_identities := OA_identities acc2 @ [onlineIdentity],
                OA_perAddress := (OA_perAddress acc2)(toLower (OI_Address onlineIdentity) \<mapsto> onlineIdentity)\<rparr>))"

definition emptyAcc :: online_acc where
  "emptyAcc = \<lparr>OA_identities = [], OA_perAddress = Map.empty, OA_onlineCount = 0, OA_delegatees = Map.empty,
     OA_validators = [], OA_onlineValidators = [], OA_stakeWeight = 0, OA_minersWeight = 0, OA_minerWeights = [],
     OA_maxWeight = 0, OA_pools = Map.empty\<rparr>"

definition updateLoop :: "ext \<Rightarrow> online_env \<Rightarrow> (address \<times> online_identity) list \<Rightarrow> online_acc" where
  "updateLoop e env ids = fold (updateStep e env) ids emptyAcc"

text \<open>The less functions that are given to \<open>sort.Slice\<close>.\<close>

definition lessActive :: "OnlineIdentity \<Rightarrow> OnlineIdentity \<Rightarrow> bool" where
  "lessActive x y = (case OI_LastActivity y of
       None \<Rightarrow> True
     | Some ty \<Rightarrow> (case OI_LastActivity x of None \<Rightarrow> False | Some tx \<Rightarrow> tx > ty))"

definition lessSize :: "Validator \<Rightarrow> Validator \<Rightarrow> bool" where
  "lessSize x y \<longleftrightarrow> Va_Size x > Va_Size y"

text \<open>\<open>sort.Slice\<close> is called on a slice that is not empty.\<close>

definition sortIfAny :: "('a list \<Rightarrow> 'a list) \<Rightarrow> 'a list \<Rightarrow> 'a list" where
  "sortIfAny sortSlice xs = (if xs = [] then xs else sortSlice xs)"

text \<open>The quotient of floats is not a number when both are zero; the sum of the weights of no miner is zero.\<close>

definition averageMinerWeight :: "ext \<Rightarrow> rat \<Rightarrow> rat list \<Rightarrow> rat option" where
  "averageMinerWeight e minersWeight weights =
     (if weights = [] then None
      else Some (X_f64 e (X_f64 e (X_f64 e (minersWeight / X_f64 e (of_nat (length weights))) + calculateAverage e weights 101) / 2)))"

text \<open>
  \<open>updateOnline\<close>: \<open>head\<close> is the height of the chain's head, \<open>readonly\<close> the state at a height; when one is
  missing the cache stays as it is.
\<close>

definition updateOnline :: "ext \<Rightarrow> ((OnlineIdentity \<Rightarrow> OnlineIdentity \<Rightarrow> bool) \<Rightarrow> OnlineIdentity list \<Rightarrow> OnlineIdentity list) \<Rightarrow>
    ((Validator \<Rightarrow> Validator \<Rightarrow> bool) \<Rightarrow> Validator list \<Rightarrow> Validator list) \<Rightarrow> uint64 option \<Rightarrow> (uint64 \<Rightarrow> online_env option) \<Rightarrow>
    onlineCache \<Rightarrow> onlineCache" where
  "updateOnline e sortIdentities sortValidators head readonly cache = (case head of
       None \<Rightarrow> cache
     | Some height \<Rightarrow> (case readonly height of
           None \<Rightarrow> cache
         | Some env \<Rightarrow>
             (let acc = updateLoop e env (OE_identities env)
              in \<lparr>OC_identities = sortIfAny (sortIdentities lessActive) (OA_identities acc), OC_identitiesPerAddress = OA_perAddress acc,
                  OC_onlineCount = OA_onlineCount acc, OC_validators = sortIfAny (sortValidators lessSize) (OA_validators acc),
                  OC_onlineValidators = sortIfAny (sortValidators lessSize) (OA_onlineValidators acc),
                  OC_staking = \<lparr>St_Weight = OA_stakeWeight acc, St_MinersWeight = OA_minersWeight acc,
                    St_AverageMinerWeight = averageMinerWeight e (OA_minersWeight acc) (OA_minerWeights acc),
                    St_MaxMinerWeight = OA_maxWeight acc\<rparr>,
                  OC_forkCommitteeSize = OE_ForkCommitteeSize env, OC_poolsPerAddress = OA_pools acc\<rparr>)))"

section \<open>The sorted weights\<close>

declare searchLoop.simps [simp del]

lemma searchLoop_range:
  assumes "i \<le> j" "j \<le> n" "\<And>a b. a \<le> b \<Longrightarrow> b < n \<Longrightarrow> f a \<Longrightarrow> f b" "\<And>k. k < i \<Longrightarrow> \<not> f k"
    "\<And>k. j \<le> k \<Longrightarrow> k < n \<Longrightarrow> f k"
  shows "searchLoop f i j \<le> n \<and> (\<forall>k < searchLoop f i j. \<not> f k) \<and> (\<forall>k. searchLoop f i j \<le> k \<and> k < n \<longrightarrow> f k)"
  using assms
proof (induction f i j rule: searchLoop.induct)
  case (1 f i j)
  show ?case
  proof (cases "i < j")
    case False
    then have "searchLoop f i j = i" by (subst searchLoop.simps) simp
    moreover have "i = j" using False "1.prems"(1) by simp
    ultimately show ?thesis using "1.prems"(2,4,5) by auto
  next
    case True
    let ?h = "(i + j) div 2"
    have h: "i \<le> ?h" "?h < j" using True by auto
    show ?thesis
    proof (cases "f ?h")
      case True
      have eq: "searchLoop f i j = searchLoop f i ?h" using \<open>i < j\<close> True by (subst searchLoop.simps) (simp add: Let_def)
      have above: "f k" if "?h \<le> k" "k < n" for k using "1.prems"(3) [OF that] True by simp
      have nn: "\<not> \<not> f ?h" "?h \<le> n" using True h "1.prems"(2) by simp_all
      show ?thesis
        unfolding eq by (rule "1.IH"(2) [OF \<open>i < j\<close> refl]) (fact nn h(1) "1.prems"(3) "1.prems"(4) above)+
    next
      case False
      have eq: "searchLoop f i j = searchLoop f (?h + 1) j" using \<open>i < j\<close> False by (subst searchLoop.simps) (simp add: Let_def)
      have below: "\<not> f k" if "k < ?h + 1" for k
      proof
        assume "f k"
        moreover have "k \<le> ?h" "?h < n" using that h "1.prems"(2) by simp_all
        ultimately show False using "1.prems"(3) [of k ?h] False by simp
      qed
      have next_h: "?h + 1 \<le> j" using h by simp
      show ?thesis
        unfolding eq by (rule "1.IH"(1) [OF \<open>i < j\<close> refl]) (fact False next_h "1.prems"(2) "1.prems"(3) below "1.prems"(5))+
    qed
  qed
qed

lemma addToSorted_sorted:
  assumes "sorted values"
  shows "sorted (addToSorted values v) \<and> mset (addToSorted values v) = add_mset v (mset values)"
proof -
  let ?n = "length values" and ?f = "\<lambda>i. values ! i > v"
  define r where "r = sortSearch ?n ?f"
  have mono: "?f b" if "a \<le> b" "b < ?n" "?f a" for a b
    using sorted_nth_mono [OF assms that(1,2)] that(3) by simp
  have "r \<le> ?n \<and> (\<forall>k < r. \<not> ?f k) \<and> (\<forall>k. r \<le> k \<and> k < ?n \<longrightarrow> ?f k)"
    unfolding r_def sortSearch_def by (rule searchLoop_range [OF le0 order_refl mono]) simp_all
  then have r: "r \<le> ?n" "\<And>k. k < r \<Longrightarrow> \<not> ?f k" "\<And>k. r \<le> k \<Longrightarrow> k < ?n \<Longrightarrow> ?f k" by blast+
  have low: "x \<le> v" if "x \<in> set (take r values)" for x
  proof -
    note member = that
    obtain k where "k < r" "k < ?n" "x = values ! k" using member by (auto simp: in_set_conv_nth)
    then show ?thesis using r(2) [of k] by simp
  qed
  have high: "v \<le> x" if "x \<in> set (drop r values)" for x
  proof -
    note member = that
    obtain k where "k < length (drop r values)" "x = drop r values ! k" using member by (metis in_set_conv_nth)
    then have "r + k < ?n" "x = values ! (r + k)" using r(1) by simp_all
    then show ?thesis using r(3) [of "r + k"] by simp
  qed
  have parts: "sorted (take r values)" "sorted (drop r values)" using assms by (rule sorted_wrt_take, rule sorted_wrt_drop)
  have tail: "sorted ([v] @ drop r values)" using parts(2) high by simp
  have "x \<le> y" if "x \<in> set (take r values)" "y \<in> set ([v] @ drop r values)" for x y
    using low [OF that(1)] that(2) high by (auto intro: order_trans)
  then have "sorted (take r values @ [v] @ drop r values)"
    by (intro sorted_append [THEN iffD2] conjI ballI parts(1) tail)
  moreover have "mset (take r values @ [v] @ drop r values) = add_mset v (mset (take r values @ drop r values))"
    by (simp del: append_take_drop_id)
  ultimately show ?thesis by (simp add: addToSorted_def r_def Let_def)
qed

section \<open>What the loop collects\<close>

lemma onlineDelegateeStep_frame:
  "OA_minerWeights (snd (onlineDelegateeStep e env identity acc)) = OA_minerWeights acc"
  "OA_minersWeight (snd (onlineDelegateeStep e env identity acc)) = OA_minersWeight acc"
  "OA_maxWeight (snd (onlineDelegateeStep e env identity acc)) = OA_maxWeight acc"
  "OA_validators (snd (onlineDelegateeStep e env identity acc)) = OA_validators acc"
  "OA_onlineValidators (snd (onlineDelegateeStep e env identity acc)) = OA_onlineValidators acc"
  "OA_pools (snd (onlineDelegateeStep e env identity acc)) =
     (case ON_Delegatee identity of None \<Rightarrow> OA_pools acc | Some d \<Rightarrow> poolStakeStep e env d identity (OA_pools acc))"
  by (simp_all add: onlineDelegateeStep_def Let_def split: option.split)

lemma validatorStep_frame:
  "OA_minerWeights (validatorStep e env addr identity acc) = OA_minerWeights acc"
  "OA_minersWeight (validatorStep e env addr identity acc) = OA_minersWeight acc"
  "OA_maxWeight (validatorStep e env addr identity acc) = OA_maxWeight acc"
  "OA_pools (validatorStep e env addr identity acc) = OA_pools acc"
  by (simp_all add: validatorStep_def split: option.split)

lemma weightStep_frame:
  "OA_validators (weightStep e env addr identity acc) = OA_validators acc"
  "OA_onlineValidators (weightStep e env addr identity acc) = OA_onlineValidators acc"
  "OA_pools (weightStep e env addr identity acc) = OA_pools acc"
  by (simp_all add: weightStep_def Let_def)

lemma updateStep_frame:
  defines "step e env addr identity acc \<equiv>
    snd (onlineDelegateeStep e env identity (validatorStep e env addr identity (weightStep e env addr identity acc)))"
  shows "OA_minerWeights (updateStep e env (addr, identity) acc) = OA_minerWeights (step e env addr identity acc)"
    "OA_minersWeight (updateStep e env (addr, identity) acc) = OA_minersWeight (step e env addr identity acc)"
    "OA_maxWeight (updateStep e env (addr, identity) acc) = OA_maxWeight (step e env addr identity acc)"
    "OA_validators (updateStep e env (addr, identity) acc) = OA_validators (step e env addr identity acc)"
    "OA_onlineValidators (updateStep e env (addr, identity) acc) = OA_onlineValidators (step e env addr identity acc)"
    "OA_pools (updateStep e env (addr, identity) acc) = OA_pools (step e env addr identity acc)"
  by (simp_all add: updateStep_def step_def Let_def split_beta)

lemmas update_frames = updateStep_frame onlineDelegateeStep_frame validatorStep_frame weightStep_frame

text \<open>The weights of the miners among the identities.\<close>

definition minerWeight :: "ext \<Rightarrow> online_env \<Rightarrow> address \<times> online_identity \<Rightarrow> rat option" where
  "minerWeight e env = (\<lambda>(addr, identity). if X_newbieOrBetter e (ON_State identity) \<and> isMiner env addr identity
     then Some (calculateStakeWeight e (Some (zeroIfNil (ON_Stake identity)))) else None)"

lemma updateLoop_snoc: "updateLoop e env (ids @ [(addr, identity)]) = updateStep e env (addr, identity) (updateLoop e env ids)"
  by (simp add: updateLoop_def)

lemma max_if: "max v m = (if v > m then v else m)" for v m :: rat
  by (simp add: max_def)

lemma updateLoop_weights:
  "sorted (OA_minerWeights (updateLoop e env ids))
   \<and> mset (OA_minerWeights (updateLoop e env ids)) = mset (List.map_filter (minerWeight e env) ids)
   \<and> OA_maxWeight (updateLoop e env ids) = Max (insert 0 (set (List.map_filter (minerWeight e env) ids)))"
proof (induction ids rule: rev_induct)
  case Nil
  show ?case by (simp add: updateLoop_def emptyAcc_def List.map_filter_def)
next
  case (snoc x ids)
  obtain addr identity where x: "x = (addr, identity)" by (cases x)
  let ?acc = "updateLoop e env ids"
  have step: "updateLoop e env (ids @ [x]) = updateStep e env (addr, identity) ?acc" by (simp add: updateLoop_def x)
  show ?case
  proof (cases "X_newbieOrBetter e (ON_State identity) \<and> isMiner env addr identity")
    case False
    then have "minerWeight e env x = None" by (simp add: x minerWeight_def)
    moreover have "OA_minerWeights (weightStep e env addr identity ?acc) = OA_minerWeights ?acc"
      "OA_maxWeight (weightStep e env addr identity ?acc) = OA_maxWeight ?acc" using False by (auto simp: weightStep_def Let_def)
    ultimately show ?thesis using snoc.IH by (simp add: step update_frames List.map_filter_def)
  next
    case True
    let ?v = "calculateStakeWeight e (Some (zeroIfNil (ON_Stake identity)))"
    have v: "minerWeight e env x = Some ?v" using True by (simp add: x minerWeight_def)
    have w: "OA_minerWeights (weightStep e env addr identity ?acc) = addToSorted (OA_minerWeights ?acc) ?v"
      "OA_maxWeight (weightStep e env addr identity ?acc) = (if ?v > OA_maxWeight ?acc then ?v else OA_maxWeight ?acc)"
      using True by (simp_all add: weightStep_def Let_def)
    let ?ws = "List.map_filter (minerWeight e env) ids"
    have ws: "List.map_filter (minerWeight e env) (ids @ [x]) = ?ws @ [?v]" using v by (simp add: List.map_filter_def)
    have "insert 0 (set (?ws @ [?v])) = insert ?v (insert 0 (set ?ws))" by auto
    then have "Max (insert 0 (set (?ws @ [?v]))) = max ?v (OA_maxWeight ?acc)" using snoc.IH by (simp only: Max_insert finite) simp
    then have m: "Max (insert 0 (set (?ws @ [?v]))) = (if ?v > OA_maxWeight ?acc then ?v else OA_maxWeight ?acc)"
      by (simp only: max_if)
    have new: "OA_minerWeights (updateLoop e env (ids @ [x])) = addToSorted (OA_minerWeights ?acc) ?v"
      "OA_maxWeight (updateLoop e env (ids @ [x])) = (if ?v > OA_maxWeight ?acc then ?v else OA_maxWeight ?acc)"
      by (simp_all only: step update_frames w)
    show ?thesis
      unfolding new ws m using snoc.IH addToSorted_sorted [of "OA_minerWeights ?acc" ?v] by simp
  qed
qed

text \<open>What a pool holds: its own stake and those of its delegators, as far as any is set.\<close>

definition validatedStake :: "ext \<Rightarrow> online_identity \<Rightarrow> int" where
  "validatedStake e identity = (if X_newbieOrBetter e (ON_State identity) then zeroIfNil (ON_Stake identity) else 0)"

definition stakers :: "(address \<times> online_identity) list \<Rightarrow> address \<Rightarrow> online_identity list" where
  "stakers ids pool = filter (\<lambda>i. ON_Delegatee i = Some pool \<and> ON_Stake i \<noteq> None) (map snd ids)"

definition poolStakes :: "ext \<Rightarrow> online_env \<Rightarrow> (address \<times> online_identity) list \<Rightarrow> address \<Rightarrow> Pool option" where
  "poolStakes e env ids pool = (if stakers ids pool = [] then None
     else Some \<lparr>Po_TotalStake = zeroIfNil (ON_Stake (OE_GetIdentity env pool)) + (\<Sum>i \<leftarrow> stakers ids pool. zeroIfNil (ON_Stake i)),
       Po_TotalValidatedStake = validatedStake e (OE_GetIdentity env pool) + (\<Sum>i \<leftarrow> stakers ids pool. validatedStake e i)\<rparr>)"

lemma addStake_sum:
  "addStake e identity pool = \<lparr>Po_TotalStake = Po_TotalStake pool + zeroIfNil (ON_Stake identity),
     Po_TotalValidatedStake = Po_TotalValidatedStake pool + validatedStake e identity\<rparr>"
  by (cases "ON_Stake identity") (simp_all add: addStake_def validatedStake_def)

lemma updateLoop_pools:
  assumes "inj (poolKey e)"
  shows "OA_pools (updateLoop e env ids) (poolKey e a) = poolStakes e env ids a"
proof (induction ids arbitrary: a rule: rev_induct)
  case Nil
  show ?case by (simp add: updateLoop_def emptyAcc_def poolStakes_def stakers_def)
next
  case (snoc x ids)
  obtain addr identity where x: "x = (addr, identity)" by (cases x)
  let ?pools = "OA_pools (updateLoop e env ids)"
  have step: "OA_pools (updateLoop e env (ids @ [x])) =
      (case ON_Delegatee identity of None \<Rightarrow> ?pools | Some d \<Rightarrow> poolStakeStep e env d identity ?pools)"
    unfolding x updateLoop_snoc by (simp add: update_frames split: option.split)
  have st: "stakers (ids @ [x]) a = stakers ids a @ (if ON_Delegatee identity = Some a \<and> ON_Stake identity \<noteq> None then [identity] else [])"
    by (simp add: stakers_def x)
  show ?case
  proof (cases "ON_Delegatee identity = Some a \<and> ON_Stake identity \<noteq> None")
    case True
    then have p: "OA_pools (updateLoop e env (ids @ [x])) (poolKey e a) = Some (addStake e identity
       (case ?pools (poolKey e a) of
          None \<Rightarrow> addStake e (OE_GetIdentity env a) \<lparr>Po_TotalStake = 0, Po_TotalValidatedStake = 0\<rparr> | Some pool \<Rightarrow> pool))"
      by (auto simp: step poolStakeStep_def Let_def)
    show ?thesis
      unfolding p snoc.IH poolStakes_def st using True by (simp add: addStake_sum)
  next
    case False
    have "OA_pools (updateLoop e env (ids @ [x])) (poolKey e a) = ?pools (poolKey e a)"
    proof (cases "ON_Delegatee identity")
      case (Some d)
      then show ?thesis
        using False injD [OF assms, of d a] by (cases "d = a") (auto simp: step poolStakeStep_def Let_def)
    qed (simp add: step)
    moreover have "stakers (ids @ [x]) a = stakers ids a" unfolding st using False by simp
    ultimately show ?thesis using snoc.IH by (simp add: poolStakes_def)
  qed
qed

lemma updateLoop_validators:
  "OA_validators (updateLoop e env ids) = List.map_filter (\<lambda>(addr, identity). buildValidator e env addr identity) ids
   \<and> OA_onlineValidators (updateLoop e env ids) = filter Va_Online (OA_validators (updateLoop e env ids))"
proof (induction ids rule: rev_induct)
  case Nil
  show ?case by (simp add: updateLoop_def emptyAcc_def List.map_filter_def)
next
  case (snoc x ids)
  obtain addr identity where x: "x = (addr, identity)" by (cases x)
  let ?acc = "updateLoop e env ids"
  have step: "OA_validators (updateLoop e env (ids @ [x])) = OA_validators (validatorStep e env addr identity (weightStep e env addr identity ?acc))"
    "OA_onlineValidators (updateLoop e env (ids @ [x])) = OA_onlineValidators (validatorStep e env addr identity (weightStep e env addr identity ?acc))"
    unfolding x updateLoop_snoc by (simp_all add: updateStep_frame onlineDelegateeStep_frame)
  show ?case unfolding step
    using snoc.IH by (cases "buildValidator e env addr identity")
      (simp_all add: validatorStep_def weightStep_frame List.map_filter_def x)
qed

section \<open>Properties\<close>

text \<open>C27: After an update, the pool that is found under an address holds the stake of the pool itself and
  of all its delegators, the validated part counting only identities that are newbies or better; there
  is none exactly when nobody with a stake delegates to the address.\<close>
theorem pool_stakes_add_up:
  assumes "head = Some height" "readonly height = Some env" "inj (poolKey e)"
  shows "GetPool (updateOnline e sortIdentities sortValidators head readonly cache) (X_addrHex e a) = poolStakes e env (OE_identities env) a"
  using updateLoop_pools [OF assms(3), of env "OE_identities env" a]
  by (simp add: GetPool_def updateOnline_def assms(1,2) Let_def poolKey_def)

definition sampleOnline :: "online_identity list \<Rightarrow> online_env" where
  "sampleOnline ids = \<lparr>OE_identities = map (\<lambda>i. (of_nat i, ids ! i)) [0..<length ids],
     OE_GetIdentity = (\<lambda>a. ids ! 0), OE_IsOnline = (\<lambda>a. a = 1), OE_IsPool = (\<lambda>a. a = 0), OE_PoolSize = (\<lambda>_. 2),
     OE_ForkCommitteeSize = 1, OE_activityMap = (\<lambda>_. None)\<rparr>"

definition sampleStaker :: "address option \<Rightarrow> int \<Rightarrow> online_identity" where
  "sampleStaker pool stake = \<lparr>ON_State = Newbie, ON_Delegatee = pool, ON_Stake = Some stake, ON_Penalty = None, ON_PenaltySeconds = 0\<rparr>"

lemma sample_poolKey: "inj (poolKey sampleExt)"
proof (rule injI)
  fix a b assume "poolKey sampleExt a = poolKey sampleExt b"
  then have "length (poolKey sampleExt a) = length (poolKey sampleExt b)" by simp
  then have "unat a = unat b" by (simp add: poolKey_def toLower_def sampleExt_def)
  then show "a = b" by (rule unsigned_word_eqI)
qed

theorem pool_stakes_add_up_witness:
  "map_option Po_TotalStake (GetPool (updateOnline sampleExt (\<lambda>_ xs. xs) (\<lambda>_ xs. xs) (Some 5)
     (\<lambda>_. Some (sampleOnline [sampleStaker None 1, sampleStaker (Some 0) 10, sampleStaker (Some 0) 100]))
     NewCurrentOnlineIdentitiesCache) (X_addrHex sampleExt 0)) = Some 111"
  using pool_stakes_add_up [of "Some 5" 5 "\<lambda>_. Some (sampleOnline [sampleStaker None 1, sampleStaker (Some 0) 10, sampleStaker (Some 0) 100])"
      "sampleOnline [sampleStaker None 1, sampleStaker (Some 0) 10, sampleStaker (Some 0) 100]" sampleExt "\<lambda>_ xs. xs" "\<lambda>_ xs. xs"
      NewCurrentOnlineIdentitiesCache 0, OF refl refl sample_poolKey]
  by (simp add: poolStakes_def stakers_def sampleOnline_def sampleStaker_def validatedStake_def upt_rec)

text \<open>C28: The staking figures of an update: the largest weight is the maximum over the miners (zero
  without any), and the average is not a number exactly when no identity that is a newbie or better is
  online itself or through its pool.\<close>
theorem staking_of_miners:
  assumes "head = Some height" "readonly height = Some env"
  shows "St_MaxMinerWeight (OC_staking (updateOnline e sortIdentities sortValidators head readonly cache))
      = Max (insert 0 (set (List.map_filter (minerWeight e env) (OE_identities env))))
    \<and> (St_AverageMinerWeight (OC_staking (updateOnline e sortIdentities sortValidators head readonly cache)) = None
       \<longleftrightarrow> (\<forall>(addr, identity) \<in> set (OE_identities env). X_newbieOrBetter e (ON_State identity) \<longrightarrow> \<not> isMiner env addr identity))"
proof -
  note w = updateLoop_weights [of e env "OE_identities env"]
  have "OA_minerWeights (updateLoop e env (OE_identities env)) = [] \<longleftrightarrow> List.map_filter (minerWeight e env) (OE_identities env) = []"
    using w by (metis mset_zero_iff)
  also have "\<dots> \<longleftrightarrow> (\<forall>(addr, identity) \<in> set (OE_identities env). X_newbieOrBetter e (ON_State identity) \<longrightarrow> \<not> isMiner env addr identity)"
    by (auto simp: List.map_filter_def filter_empty_conv minerWeight_def split: if_splits)
  finally show ?thesis using w by (simp add: updateOnline_def assms Let_def averageMinerWeight_def)
qed

theorem staking_of_miners_witness:
  "St_AverageMinerWeight (OC_staking (updateOnline sampleExt (\<lambda>_ xs. xs) (\<lambda>_ xs. xs) (Some 5)
     (\<lambda>_. Some (sampleOnline [sampleStaker None 1])) NewCurrentOnlineIdentitiesCache)) = None"
  using staking_of_miners [of "Some 5" 5 "\<lambda>_. Some (sampleOnline [sampleStaker None 1])" "sampleOnline [sampleStaker None 1]"
      sampleExt "\<lambda>_ xs. xs" "\<lambda>_ xs. xs" NewCurrentOnlineIdentitiesCache, OF refl refl]
  by (simp add: sampleOnline_def sampleStaker_def isMiner_def)

end
