(* ===== verification/Mempool_Txs.thy ===== *)
theory Mempool_Txs
  imports Stats_Types "HOL-Library.AList"
begin

text \<open>
  The pool of pending transactions: \<open>src/core/holder/transaction/mempool_txs.go\<close> and the
  conversions of \<open>src/core/conversion/common.go\<close> it uses. Its Go maps are association lists with
  distinct keys, in the order in which they are iterated; each operation of the pool runs under its
  mutex, so operations are sequential steps. \<open>hexToHash\<close> and \<open>hexToAddress\<close> are the library's
  parsers.
\<close>

section \<open>A pool of keyed objects\<close>

datatype 't pool_op = Ins 't | Rem 't

primrec opItem :: "'t pool_op \<Rightarrow> 't" where
  "opItem (Ins t) = t"
| "opItem (Rem t) = t"

definition poolStep :: "('t \<Rightarrow> 's \<Rightarrow> 's) \<Rightarrow> ('t \<Rightarrow> 's \<Rightarrow> 's) \<Rightarrow> 't pool_op \<Rightarrow> 's \<Rightarrow> 's" where
  "poolStep ins rem op s = (case op of Ins t \<Rightarrow> ins t s | Rem t \<Rightarrow> rem t s)"

text \<open>The abstract pool is a finite map from keys to objects.\<close>

definition mapStep :: "('t \<Rightarrow> 'k) \<Rightarrow> 't pool_op \<Rightarrow> ('k \<rightharpoonup> 't) \<Rightarrow> ('k \<rightharpoonup> 't)" where
  "mapStep key op m = (case op of Ins t \<Rightarrow> m(key t \<mapsto> t) | Rem t \<Rightarrow> m(key t := None))"

locale keyed_pool =
  fixes key :: "'t \<Rightarrow> 'k"
    and admissible :: "'t \<Rightarrow> bool"
    and ins :: "'t \<Rightarrow> 's \<Rightarrow> 's"
    and rem :: "'t \<Rightarrow> 's \<Rightarrow> 's"
    and view :: "'s \<Rightarrow> ('k \<rightharpoonup> 't)"
    and invar :: "'s \<Rightarrow> bool"
  assumes invar_ins: "invar s \<Longrightarrow> admissible t \<Longrightarrow> invar (ins t s)"
    and invar_rem: "invar s \<Longrightarrow> admissible t \<Longrightarrow> invar (rem t s)"
    and view_ins: "invar s \<Longrightarrow> admissible t \<Longrightarrow> view (ins t s) = (view s)(key t \<mapsto> t)"
    and view_rem: "invar s \<Longrightarrow> admissible t \<Longrightarrow> view (rem t s) = (view s)(key t := None)"
begin

lemma run_refines:
  "invar s \<Longrightarrow> list_all (\<lambda>op. admissible (opItem op)) ops \<Longrightarrow>
     invar (fold (poolStep ins rem) ops s) \<and> view (fold (poolStep ins rem) ops s) = fold (mapStep key) ops (view s)"
proof (induction ops arbitrary: s)
  case Nil
  then show ?case by simp
next
  case (Cons op ops)
  then show ?case
    by (cases op) (simp_all add: poolStep_def mapStep_def invar_ins invar_rem view_ins view_rem)
qed

end

section \<open>Transactions by hash\<close>

type_synonym txsByHash = "(hash \<times> Transaction) list"

definition txsAdd :: "Transaction \<Rightarrow> txsByHash \<Rightarrow> txsByHash" where
  "txsAdd tx w = AList.update (Tx_Hash tx) tx w"

definition txsRemove :: "hash \<Rightarrow> txsByHash \<Rightarrow> txsByHash" where
  "txsRemove h w = AList.delete h w"

definition txsContains :: "hash \<Rightarrow> txsByHash \<Rightarrow> bool" where
  "txsContains h w \<longleftrightarrow> map_of w h \<noteq> None"

definition txsGet :: "hash \<Rightarrow> txsByHash \<Rightarrow> Transaction option" where
  "txsGet h w = map_of w h"

definition txsLen :: "txsByHash \<Rightarrow> nat" where
  "txsLen w = length w"

definition txsAll :: "int \<Rightarrow> txsByHash \<Rightarrow> Transaction list" where
  "txsAll cnt w = (if cnt \<le> 0 then [] else
     let size = min (nat cnt) (length w) in if size = 0 then [] else map snd (take size w))"

section \<open>Transactions by address\<close>

type_synonym txsByAddress = "(address \<times> txsByHash) list"

definition addAddressTx :: "address \<Rightarrow> Transaction \<Rightarrow> txsByAddress \<Rightarrow> txsByAddress" where
  "addAddressTx addr tx w =
     AList.update addr (txsAdd tx (case map_of w addr of None \<Rightarrow> [] | Some txs \<Rightarrow> txs)) w"

definition byAddressAdd :: "Transaction \<Rightarrow> txsByAddress \<Rightarrow> txsByAddress" where
  "byAddressAdd tx w =
     (let w1 = addAddressTx (Tx_Sender tx) tx w
      in case Tx_To tx of None \<Rightarrow> w1 | Some recipient \<Rightarrow> addAddressTx recipient tx w1)"

definition removeByAddressAndHash :: "address \<Rightarrow> hash \<Rightarrow> txsByAddress \<Rightarrow> txsByAddress" where
  "removeByAddressAndHash addr h w = (case map_of w addr of
       None \<Rightarrow> w
     | Some txs \<Rightarrow> let rest = txsRemove h txs
                 in if txsLen rest = 0 then AList.delete addr w else AList.update addr rest w)"

definition byAddressRemove :: "Transaction \<Rightarrow> txsByAddress \<Rightarrow> txsByAddress" where
  "byAddressRemove tx w =
     (let w1 = removeByAddressAndHash (Tx_Sender tx) (Tx_Hash tx) w
      in case Tx_To tx of None \<Rightarrow> w1 | Some recipient \<Rightarrow> removeByAddressAndHash recipient (Tx_Hash tx) w1)"

definition byAddressGet :: "address \<Rightarrow> int \<Rightarrow> txsByAddress \<Rightarrow> Transaction list" where
  "byAddressGet addr cnt w = (case map_of w addr of None \<Rightarrow> [] | Some txs \<Rightarrow> txsAll cnt txs)"

section \<open>The pool\<close>

record memPool =
  MP_txsByHash :: txsByHash
  MP_txsByAddress :: txsByAddress

definition newMemPool :: memPool where
  "newMemPool = \<lparr>MP_txsByHash = [], MP_txsByAddress = []\<rparr>"

definition addTx :: "Transaction \<Rightarrow> memPool \<Rightarrow> memPool" where
  "addTx tx pool = \<lparr>MP_txsByHash = txsAdd tx (MP_txsByHash pool), MP_txsByAddress = byAddressAdd tx (MP_txsByAddress pool)\<rparr>"

definition removeTx :: "Transaction \<Rightarrow> memPool \<Rightarrow> memPool" where
  "removeTx tx pool =
     (if \<not> txsContains (Tx_Hash tx) (MP_txsByHash pool) then pool
      else \<lparr>MP_txsByHash = txsRemove (Tx_Hash tx) (MP_txsByHash pool),
            MP_txsByAddress = byAddressRemove tx (MP_txsByAddress pool)\<rparr>)"

fun ConvertTxType :: "tx_type \<Rightarrow> string" where
  "ConvertTxType SendTx = ''SendTx''"
| "ConvertTxType ActivationTxT = ''ActivationTx''"
| "ConvertTxType InviteTx = ''InviteTx''"
| "ConvertTxType KillTx = ''KillTx''"
| "ConvertTxType SubmitFlipTx = ''SubmitFlipTx''"
| "ConvertTxType SubmitAnswersHashTx = ''SubmitAnswersHashTx''"
| "ConvertTxType SubmitShortAnswersTx = ''SubmitShortAnswersTx''"
| "ConvertTxType SubmitLongAnswersTx = ''SubmitLongAnswersTx''"
| "ConvertTxType EvidenceTx = ''EvidenceTx''"
| "ConvertTxType OnlineStatusTx = ''OnlineStatusTx''"
| "ConvertTxType KillInviteeTxT = ''KillInviteeTx''"
| "ConvertTxType ChangeGodAddressTx = ''ChangeGodAddressTx''"
| "ConvertTxType BurnTx = ''BurnTx''"
| "ConvertTxType ChangeProfileTx = ''ChangeProfileTx''"
| "ConvertTxType DeleteFlipTx = ''DeleteFlipTx''"
| "ConvertTxType DeployContractTx = ''DeployContract''"
| "ConvertTxType CallContractTx = ''CallContract''"
| "ConvertTxType TerminateContractTx = ''TerminateContract''"
| "ConvertTxType DelegateTx = ''DelegateTx''"
| "ConvertTxType UndelegateTx = ''UndelegateTx''"
| "ConvertTxType KillDelegatorTx = ''KillDelegatorTx''"
| "ConvertTxType StoreToIpfsTx = ''StoreToIpfsTx''"

text \<open>The fields of the two result structs the pool fills; the others keep their zero value.\<close>

record TransactionDetail =
  TD_Epoch :: uint64
  TD_Hash :: string
  TD_Type :: string
  TD_From :: string
  TD_To :: string
  TD_Amount :: decimal
  TD_Tips :: decimal
  TD_MaxFee :: decimal
  TD_Size :: uint32
  TD_Nonce :: uint32

record TransactionSummary =
  TS_Hash :: string
  TS_Type :: string
  TS_From :: string
  TS_To :: string
  TS_Amount :: decimal
  TS_Tips :: decimal
  TS_MaxFee :: decimal
  TS_Size :: uint32
  TS_Nonce :: uint32

definition recipientString :: "ext \<Rightarrow> Transaction \<Rightarrow> string" where
  "recipientString e tx = (case Tx_To tx of None \<Rightarrow> [] | Some a \<Rightarrow> ConvertAddress e a)"

definition toTransactionDetail :: "ext \<Rightarrow> Transaction \<Rightarrow> TransactionDetail" where
  "toTransactionDetail e tx = \<lparr>TD_Epoch = ucast (Tx_Epoch tx), TD_Hash = ConvertHash e (Tx_Hash tx),
     TD_Type = ConvertTxType (Tx_Type tx), TD_From = ConvertAddress e (Tx_Sender tx), TD_To = recipientString e tx,
     TD_Amount = X_convertToFloat e (Tx_Amount tx), TD_Tips = X_convertToFloat e (Tx_Tips tx),
     TD_MaxFee = X_convertToFloat e (Tx_MaxFee tx), TD_Size = of_nat (Tx_Size tx), TD_Nonce = Tx_Nonce tx\<rparr>"

definition toTransactionSummary :: "ext \<Rightarrow> Transaction \<Rightarrow> TransactionSummary" where
  "toTransactionSummary e tx = \<lparr>TS_Hash = ConvertHash e (Tx_Hash tx), TS_Type = ConvertTxType (Tx_Type tx),
     TS_From = ConvertAddress e (Tx_Sender tx), TS_To = recipientString e tx,
     TS_Amount = X_convertToFloat e (Tx_Amount tx), TS_Tips = X_convertToFloat e (Tx_Tips tx),
     TS_MaxFee = X_convertToFloat e (Tx_MaxFee tx), TS_Size = of_nat (Tx_Size tx), TS_Nonce = Tx_Nonce tx\<rparr>"

definition toTransactionSummaries :: "ext \<Rightarrow> Transaction list \<Rightarrow> TransactionSummary list" where
  "toTransactionSummaries e txs = map (toTransactionSummary e) txs"

definition GetTransaction :: "ext \<Rightarrow> (string \<Rightarrow> hash) \<Rightarrow> string \<Rightarrow> memPool \<Rightarrow> TransactionDetail option" where
  "GetTransaction e hexToHash h pool = map_option (toTransactionDetail e) (txsGet (hexToHash h) (MP_txsByHash pool))"

definition GetTransactionRaw :: "(string \<Rightarrow> hash) \<Rightarrow> string \<Rightarrow> memPool \<Rightarrow> bytes option" where
  "GetTransactionRaw hexToHash h pool = map_option Tx_Payload (txsGet (hexToHash h) (MP_txsByHash pool))"

definition GetAddressTransactions :: "ext \<Rightarrow> (string \<Rightarrow> address) \<Rightarrow> string \<Rightarrow> int \<Rightarrow> memPool \<Rightarrow> TransactionSummary list" where
  "GetAddressTransactions e hexToAddress a cnt pool =
     toTransactionSummaries e (byAddressGet (hexToAddress a) cnt (MP_txsByAddress pool))"

definition GetTransactions :: "ext \<Rightarrow> int \<Rightarrow> memPool \<Rightarrow> TransactionSummary list" where
  "GetTransactions e cnt pool = toTransactionSummaries e (txsAll cnt (MP_txsByHash pool))"

definition GetTransactionsCount :: "memPool \<Rightarrow> nat" where
  "GetTransactionsCount pool = txsLen (MP_txsByHash pool)"

section \<open>The two indexes agree\<close>

text \<open>A hash determines its transaction: \<open>T\<close> gives the transaction of a hash.\<close>

definition parties :: "Transaction \<Rightarrow> address set" where
  "parties tx = insert (Tx_Sender tx) (set_option (Tx_To tx))"

definition txAt :: "txsByAddress \<Rightarrow> address \<Rightarrow> hash \<Rightarrow> Transaction option" where
  "txAt w a h = (case map_of w a of None \<Rightarrow> None | Some txs \<Rightarrow> map_of txs h)"

definition addr_wf :: "txsByAddress \<Rightarrow> bool" where
  "addr_wf w \<longleftrightarrow> distinct (map fst w) \<and> (\<forall>a txs. map_of w a = Some txs \<longrightarrow> distinct (map fst txs) \<and> txs \<noteq> [])"

definition pool_inv :: "(hash \<Rightarrow> Transaction) \<Rightarrow> memPool \<Rightarrow> bool" where
  "pool_inv T pool \<longleftrightarrow> distinct (map fst (MP_txsByHash pool)) \<and> addr_wf (MP_txsByAddress pool)
     \<and> (\<forall>h tx. map_of (MP_txsByHash pool) h = Some tx \<longrightarrow> tx = T h)
     \<and> (\<forall>a h. txAt (MP_txsByAddress pool) a h =
          (case map_of (MP_txsByHash pool) h of None \<Rightarrow> None | Some tx \<Rightarrow> if a \<in> parties tx then Some tx else None))"

lemma txAt_add: "txAt (addAddressTx a tx w) b h =
    (if b = a \<and> h = Tx_Hash tx then Some tx else txAt w b h)"
  by (auto simp: txAt_def addAddressTx_def txsAdd_def update_conv' split: option.splits)

lemma addr_wf_add: "addr_wf w \<Longrightarrow> addr_wf (addAddressTx a tx w)"
  by (auto simp: addr_wf_def addAddressTx_def txsAdd_def distinct_update update_conv' update_nonempty split: option.splits if_splits)

lemma txAt_remove:
  assumes "addr_wf w"
  shows "txAt (removeByAddressAndHash a h w) b h' = (if b = a \<and> h' = h then None else txAt w b h')"
proof (cases "map_of w a")
  case None
  then show ?thesis by (simp add: removeByAddressAndHash_def txAt_def)
next
  case (Some txs)
  then show ?thesis
    by (auto simp: removeByAddressAndHash_def txAt_def Let_def txsRemove_def txsLen_def update_conv' delete_conv' map_of_delete
        dest: arg_cong [where f = "\<lambda>m. map_of m h'"] split: option.splits)
qed

lemma addr_wf_remove:
  assumes "addr_wf w"
  shows "addr_wf (removeByAddressAndHash a h w)"
proof (cases "map_of w a")
  case None
  then show ?thesis using assms by (simp add: removeByAddressAndHash_def)
next
  case (Some txs)
  have d: "distinct (map fst (AList.delete a w))" "distinct (map fst (AList.update a rest w))" for rest
    using assms by (simp_all add: addr_wf_def distinct_delete distinct_update)
  have "distinct (map fst (AList.delete h txs))" using assms Some by (auto simp: addr_wf_def intro: distinct_delete)
  with Some assms d show ?thesis
    unfolding addr_wf_def removeByAddressAndHash_def txsRemove_def txsLen_def Let_def
    by (auto simp: update_conv' delete_conv' simp del: map_of_eq_Some_iff split: if_splits)
qed

lemma map_of_filter_snd: "distinct (map fst m) \<Longrightarrow> set m = {(h, x). map_of m h = Some x}"
  by (auto simp: map_of_eq_Some_iff)

lemma pool_inv_addTx:
  assumes inv: "pool_inv T pool" and "T (Tx_Hash tx) = tx"
  shows "pool_inv T (addTx tx pool)"
proof -
  have wf: "addr_wf (byAddressAdd tx (MP_txsByAddress pool))"
    using inv by (simp add: pool_inv_def byAddressAdd_def Let_def addr_wf_add split: option.splits)
  have at: "txAt (byAddressAdd tx (MP_txsByAddress pool)) a h =
      (if a \<in> parties tx \<and> h = Tx_Hash tx then Some tx else txAt (MP_txsByAddress pool) a h)" for a h
    by (auto simp: byAddressAdd_def Let_def txAt_add parties_def split: option.splits)
  have old: "tx' = tx" if "map_of (MP_txsByHash pool) (Tx_Hash tx) = Some tx'" for tx'
    using inv that assms(2) unfolding pool_inv_def by metis
  have "distinct (map fst (txsAdd tx (MP_txsByHash pool)))" using inv by (simp add: pool_inv_def txsAdd_def distinct_update)
  moreover have "tx' = T h" if "map_of (txsAdd tx (MP_txsByHash pool)) h = Some tx'" for h tx'
    using that inv assms(2) unfolding pool_inv_def txsAdd_def update_conv' by (metis fun_upd_apply option.inject)
  moreover have "txAt (byAddressAdd tx (MP_txsByAddress pool)) a h =
      (case map_of (txsAdd tx (MP_txsByHash pool)) h of None \<Rightarrow> None | Some tx \<Rightarrow> if a \<in> parties tx then Some tx else None)" for a h
  proof (cases "h = Tx_Hash tx")
    case True
    have "txAt (MP_txsByAddress pool) a h = None" if "a \<notin> parties tx"
    proof (cases "map_of (MP_txsByHash pool) (Tx_Hash tx)")
      case None
      then show ?thesis using inv True by (simp add: pool_inv_def)
    next
      case (Some tx')
      then show ?thesis using inv True old [OF Some] that by (simp add: pool_inv_def)
    qed
    with True show ?thesis by (simp add: at txsAdd_def update_conv')
  next
    case False
    then show ?thesis using inv by (simp add: at txsAdd_def update_conv' pool_inv_def)
  qed
  ultimately show ?thesis using wf by (simp add: pool_inv_def addTx_def)
qed

lemma pool_inv_removeTx:
  assumes inv: "pool_inv T pool" and "T (Tx_Hash tx) = tx"
  shows "pool_inv T (removeTx tx pool)"
proof (cases "map_of (MP_txsByHash pool) (Tx_Hash tx)")
  case None
  then show ?thesis using inv by (simp add: removeTx_def txsContains_def)
next
  case (Some tx')
  then have tx': "tx' = tx" using inv assms(2) unfolding pool_inv_def by metis
  have aw: "addr_wf (MP_txsByAddress pool)" using inv by (simp add: pool_inv_def)
  have wf: "addr_wf (byAddressRemove tx (MP_txsByAddress pool))"
    using aw by (simp add: byAddressRemove_def Let_def addr_wf_remove split: option.splits)
  have at: "txAt (byAddressRemove tx (MP_txsByAddress pool)) a h =
      (if a \<in> parties tx \<and> h = Tx_Hash tx then None else txAt (MP_txsByAddress pool) a h)" for a h
    by (auto simp: byAddressRemove_def Let_def txAt_remove [OF aw] txAt_remove [OF addr_wf_remove [OF aw]] parties_def
        split: option.splits)
  have "distinct (map fst (txsRemove (Tx_Hash tx) (MP_txsByHash pool)))"
    using inv by (simp add: pool_inv_def txsRemove_def distinct_delete)
  moreover have "y = T h" if "map_of (txsRemove (Tx_Hash tx) (MP_txsByHash pool)) h = Some y" for h y
    using that inv unfolding pool_inv_def txsRemove_def delete_conv' by (metis fun_upd_apply option.distinct(1))
  moreover have "txAt (byAddressRemove tx (MP_txsByAddress pool)) a h =
      (case map_of (txsRemove (Tx_Hash tx) (MP_txsByHash pool)) h of None \<Rightarrow> None | Some tx \<Rightarrow> if a \<in> parties tx then Some tx else None)" for a h
    using inv Some tx' by (simp add: at txsRemove_def delete_conv' pool_inv_def)
  ultimately show ?thesis using wf Some by (simp add: pool_inv_def removeTx_def txsContains_def)
qed

definition poolView :: "memPool \<Rightarrow> (hash \<rightharpoonup> Transaction)" where
  "poolView pool = map_of (MP_txsByHash pool)"

interpretation mempool: keyed_pool Tx_Hash "\<lambda>tx. T (Tx_Hash tx) = tx" addTx removeTx poolView "pool_inv T"
proof unfold_locales
  show "poolView (addTx t s) = (poolView s)(Tx_Hash t \<mapsto> t)" for s t
    by (simp add: poolView_def addTx_def txsAdd_def update_conv')
  show "poolView (removeTx t s) = (poolView s)(Tx_Hash t := None)" for s t
    by (auto simp: poolView_def removeTx_def txsRemove_def txsContains_def delete_conv' fun_eq_iff)
qed (simp_all add: pool_inv_addTx pool_inv_removeTx)

lemma pool_inv_new: "pool_inv T newMemPool"
  by (simp add: pool_inv_def newMemPool_def addr_wf_def txAt_def)

section \<open>Reading the pool\<close>

lemma set_txsAll:
  "distinct (map fst w) \<Longrightarrow> set (txsAll cnt w) \<subseteq> snd ` set w \<and> length (txsAll cnt w) = min (nat cnt) (length w)"
  by (auto simp: txsAll_def Let_def dest: in_set_takeD)

lemma address_entries:
  assumes "pool_inv T pool" "map_of (MP_txsByAddress pool) a = Some txs"
  shows "set txs = {(h, tx). poolView pool h = Some tx \<and> a \<in> parties tx}" "distinct (map fst txs)"
proof -
  show d: "distinct (map fst txs)" using assms unfolding pool_inv_def addr_wf_def by blast
  have "map_of txs h = (case poolView pool h of None \<Rightarrow> None | Some tx \<Rightarrow> if a \<in> parties tx then Some tx else None)" for h
    using assms unfolding pool_inv_def poolView_def txAt_def by (metis option.simps(5))
  then show "set txs = {(h, tx). poolView pool h = Some tx \<and> a \<in> parties tx}"
    unfolding map_of_filter_snd [OF d] by (auto split: option.splits if_splits)
qed

lemma address_without_entries:
  assumes "pool_inv T pool" "map_of (MP_txsByAddress pool) a = None"
  shows "{(h, tx). poolView pool h = Some tx \<and> a \<in> parties tx} = {}"
proof -
  have "txAt (MP_txsByAddress pool) a h = None" for h using assms(2) by (simp add: txAt_def)
  moreover have "txAt (MP_txsByAddress pool) a h = Some tx" if "poolView pool h = Some tx" "a \<in> parties tx" for h tx
    using assms(1) that by (simp add: pool_inv_def poolView_def)
  ultimately have "\<not> (poolView pool h = Some tx \<and> a \<in> parties tx)" for h tx by force
  then show ?thesis by simp
qed

section \<open>Properties\<close>


definition pooledTx :: "hash \<Rightarrow> Transaction" where
  "pooledTx h = \<lparr>Tx_Hash = h, Tx_Sender = 5, Tx_Type = SendTx, Tx_To = Some (ucast h), Tx_Amount = Some 1, Tx_Tips = None,
     Tx_MaxFee = None, Tx_Epoch = 1, Tx_Nonce = 1, Tx_Size = 10, Tx_Payload = []\<rparr>"


end
