(* ===== verification/Contracts_Pool.thy ===== *)
theory Contracts_Pool
  imports Contract_Properties Mempool_Txs
begin

text \<open>
  Pending contract transactions: \<open>src/core/mempool/contracts_pool.go\<close>. A pending contract
  transaction is run on a read-only state by the virtual machine, which reports to a statistics
  collector of its own; what the collector finds is kept until the transaction leaves the mem pool.
  The machine, the chain's head and the read-only states are arguments. Maps are association lists
  in the order of their iteration.
\<close>

section \<open>Transactions by sender and contract\<close>

type_synonym contract_txs = "(string \<times> DbTransaction) list"

record addressContractTxs =
  ACT_txsByAddressAndContract :: "(string \<times> (string \<times> contract_txs) list) list"
  ACT_contractAddressesByTxHash :: "string \<rightharpoonup> string"

definition newAddressContractTxs :: addressContractTxs where
  "newAddressContractTxs = \<lparr>ACT_txsByAddressAndContract = [], ACT_contractAddressesByTxHash = Map.empty\<rparr>"

definition assocOr :: "'v \<Rightarrow> ('k \<times> 'v) list \<Rightarrow> 'k \<Rightarrow> 'v" where
  "assocOr d m k = (case map_of m k of None \<Rightarrow> d | Some v \<Rightarrow> v)"

text \<open>The transaction is stored under \<open>tx.Hash\<close>, not under the lower-case key.\<close>

definition addContractTx :: "DbTransaction \<Rightarrow> string \<Rightarrow> addressContractTxs \<Rightarrow> addressContractTxs" where
  "addContractTx tx contractAddress t =
     (let txHashKey = toLower (DT_Hash tx);
          txAddressKey = toLower (DT_From tx);
          contractAddressKey = toLower contractAddress;
          txsByContract = assocOr [] (ACT_txsByAddressAndContract t) txAddressKey;
          txs = assocOr [] txsByContract contractAddressKey
      in \<lparr>ACT_txsByAddressAndContract = AList.update txAddressKey
            (AList.update contractAddressKey (AList.update (DT_Hash tx) tx txs) txsByContract) (ACT_txsByAddressAndContract t),
          ACT_contractAddressesByTxHash = (ACT_contractAddressesByTxHash t)(txHashKey \<mapsto> contractAddress)\<rparr>)"

definition removeContractTx :: "string \<Rightarrow> string \<Rightarrow> addressContractTxs \<Rightarrow> addressContractTxs" where
  "removeContractTx txHash sender t =
     (let txHashKey = toLower txHash; txAddressKey = toLower sender in
      case ACT_contractAddressesByTxHash t txHashKey of
        None \<Rightarrow> t
      | Some contractAddress \<Rightarrow>
          let contractAddressKey = toLower contractAddress;
              t1 = t\<lparr>ACT_contractAddressesByTxHash := (ACT_contractAddressesByTxHash t)(txHashKey := None)\<rparr> in
          (case map_of (ACT_txsByAddressAndContract t) txAddressKey of
             None \<Rightarrow> t1
           | Some txsByContract \<Rightarrow>
               (case map_of txsByContract contractAddressKey of
                  None \<Rightarrow> t1
                | Some txs \<Rightarrow>
                    let rest = AList.delete txHashKey txs;
                        txsByContract1 = (if rest = [] then AList.delete contractAddressKey txsByContract
                                          else AList.update contractAddressKey rest txsByContract)
                    in t1\<lparr>ACT_txsByAddressAndContract :=
                         (if txsByContract1 = [] then AList.delete txAddressKey (ACT_txsByAddressAndContract t)
                          else AList.update txAddressKey txsByContract1 (ACT_txsByAddressAndContract t))\<rparr>)))"

definition getContractTxs :: "string \<Rightarrow> string \<Rightarrow> addressContractTxs \<Rightarrow> DbTransaction list" where
  "getContractTxs addr contractAddress t =
     (case map_of (ACT_txsByAddressAndContract t) (toLower addr) of
        None \<Rightarrow> []
      | Some txsByContract \<Rightarrow> (case map_of txsByContract (toLower contractAddress) of
            None \<Rightarrow> []
          | Some txs \<Rightarrow> map snd txs))"

section \<open>The pool\<close>

record contractsImpl =
  CI_statsCollector :: statsCollector
  CI_appStateCache :: "(uint64 \<times> app_state) option"
  CI_txChan :: "Transaction list"
  CI_oracleVotingDeploys :: "(address \<times> (hash \<times> OracleVotingContract) list) list"
  CI_addressContractTxs :: addressContractTxs

definition NewContracts :: contractsImpl where
  "NewContracts = \<lparr>CI_statsCollector = \<lparr>SC_session = None, SC_statsEnabled = True\<rparr>, CI_appStateCache = None,
     CI_txChan = [], CI_oracleVotingDeploys = [], CI_addressContractTxs = newAddressContractTxs\<rparr>"

definition GetOracleVotingContractDeploys :: "address \<Rightarrow> contractsImpl \<Rightarrow> OracleVotingContract list" where
  "GetOracleVotingContractDeploys author c = (case map_of (CI_oracleVotingDeploys c) author of
       None \<Rightarrow> [] | Some deploys \<Rightarrow> map snd deploys)"

definition GetAddressContractTxs :: "string \<Rightarrow> string \<Rightarrow> contractsImpl \<Rightarrow> DbTransaction list" where
  "GetAddressContractTxs addr contractAddress c = getContractTxs addr contractAddress (CI_addressContractTxs c)"

text \<open>\<open>ProcessTx\<close> queues a transaction; a full queue is an error (\<open>None\<close>).\<close>

definition ProcessTx :: "Transaction \<Rightarrow> contractsImpl \<Rightarrow> contractsImpl option" where
  "ProcessTx tx c = (if length (CI_txChan c) < 10000 then Some (c\<lparr>CI_txChan := CI_txChan c @ [tx]\<rparr>) else None)"

text \<open>
  What the pool reads from outside: the height of the head, the read-only state of a height (\<open>None\<close>
  is an error) and the virtual machine, which reports to the collector's session.
\<close>

record contracts_env =
  CE_height :: uint64
  CE_readonly :: "uint64 \<Rightarrow> app_state option"
  CE_run :: "Transaction \<Rightarrow> app_state \<Rightarrow> session \<Rightarrow> session \<times> TxReceipt"
  CE_tokens :: token_env

definition readonlyAppState :: "contracts_env \<Rightarrow> contractsImpl \<Rightarrow> (app_state \<times> contractsImpl) option" where
  "readonlyAppState env c =
     (let load = (case CE_readonly env (CE_height env) of None \<Rightarrow> None
            | Some s \<Rightarrow> Some (s, c\<lparr>CI_appStateCache := Some (CE_height env, s)\<rparr>))
      in case CI_appStateCache c of
           None \<Rightarrow> load
         | Some (height, s) \<Rightarrow> if height = CE_height env then Some (s, c) else load)"

definition applyTxSentToContract :: "ext \<Rightarrow> Transaction \<Rightarrow> address \<Rightarrow> contractsImpl \<Rightarrow> contractsImpl" where
  "applyTxSentToContract e tx contractAddress c =
     c\<lparr>CI_addressContractTxs := addContractTx
        \<lparr>DT_Hash = X_hashHex e (Tx_Hash tx), DT_Type = Tx_Type tx, DT_From = X_addrHex e (Tx_Sender tx),
         DT_To = (case Tx_To tx of None \<Rightarrow> [] | Some a \<Rightarrow> X_addrHex e a),
         DT_Amount = X_convertToFloat e (Tx_Amount tx), DT_Tips = X_convertToFloat e (Tx_Tips tx),
         DT_MaxFee = X_convertToFloat e (Tx_MaxFee tx), DT_Fee = 0, DT_Size = 0, DT_Raw = [],
         DT_Nonce = Tx_Nonce tx, DT_UsedGas = 0, DT_Data = None\<rparr>
        (X_addrHex e contractAddress) (CI_addressContractTxs c)\<rparr>"

definition applyContractTx :: "ext \<Rightarrow> Transaction \<Rightarrow> TxReceipt \<Rightarrow> contractsImpl \<Rightarrow> contractsImpl" where
  "applyContractTx e tx receipt c = (if \<not> Rc_Success receipt then c else applyTxSentToContract e tx (Rc_ContractAddress receipt) c)"

text \<open>The first voting contract the collector found is kept under its author and transaction.\<close>

definition applyDeployTx :: "hash \<Rightarrow> TxReceipt \<Rightarrow> Stats \<Rightarrow> contractsImpl \<Rightarrow> contractsImpl" where
  "applyDeployTx txHash receipt collected c = (case S_OracleVotingContracts collected of
       [] \<Rightarrow> c
     | deploy # _ \<Rightarrow> c\<lparr>CI_oracleVotingDeploys := AList.update (Rc_From receipt)
          (AList.update txHash deploy (assocOr [] (CI_oracleVotingDeploys c) (Rc_From receipt))) (CI_oracleVotingDeploys c)\<rparr>)"

text \<open>
  \<open>processContractTx\<close>: the outer option is a panic of the collector, the inner one an error. The
  deferred calls complete the transaction and close the session.
\<close>

definition processContractTx :: "ext \<Rightarrow> contracts_env \<Rightarrow> Transaction \<Rightarrow> contractsImpl \<Rightarrow> contractsImpl option option" where
  "processContractTx e env tx c = (case readonlyAppState env c of
       None \<Rightarrow> Some None
     | Some (appState, c1) \<Rightarrow>
         (case CE_run env tx appState (BeginApplyingTx tx appState emptySession) of (s1, receipt) \<Rightarrow> do {
            s2 \<leftarrow> AddTxReceipt e (CE_tokens env) receipt appState s1;
            let c2 = applyContractTx e tx receipt (applyDeployTx (Tx_Hash tx) receipt (stats s2) c1);
            s3 \<leftarrow> CompleteApplyingTx e appState s2;
            Some (Some c2) }))"

definition processTx :: "ext \<Rightarrow> contracts_env \<Rightarrow> Transaction \<Rightarrow> contractsImpl \<Rightarrow> contractsImpl option option" where
  "processTx e env tx c =
     (if isContractTx tx then processContractTx e env tx c
      else case Tx_To tx of
        None \<Rightarrow> Some (Some c)
      | Some recipient \<Rightarrow> (case readonlyAppState env c of
            None \<Rightarrow> Some None
          | Some (appState, c1) \<Rightarrow> Some (Some
              (if \<not> isContractAddress recipient appState then c1 else applyTxSentToContract e tx recipient c1))))"

text \<open>One turn of the listener: an error is logged and the transaction dropped.\<close>

definition startListening :: "ext \<Rightarrow> contracts_env \<Rightarrow> contractsImpl \<Rightarrow> contractsImpl option" where
  "startListening e env c = (case CI_txChan c of
       [] \<Rightarrow> Some c
     | tx # txs \<Rightarrow> (let c1 = c\<lparr>CI_txChan := txs\<rparr> in
         map_option (\<lambda>r. case r of None \<Rightarrow> c1 | Some c2 \<Rightarrow> c2) (processTx e env tx c1)))"

definition removeDeployTx :: "Transaction \<Rightarrow> contractsImpl \<Rightarrow> contractsImpl" where
  "removeDeployTx tx c =
     (if Tx_Type tx \<noteq> DeployContractTx then c
      else case map_of (CI_oracleVotingDeploys c) (Tx_Sender tx) of
        None \<Rightarrow> c
      | Some txs \<Rightarrow> let rest = AList.delete (Tx_Hash tx) txs in
          c\<lparr>CI_oracleVotingDeploys := (if rest = [] then AList.delete (Tx_Sender tx) (CI_oracleVotingDeploys c)
             else AList.update (Tx_Sender tx) rest (CI_oracleVotingDeploys c))\<rparr>)"

definition removeAddressContractTx :: "ext \<Rightarrow> Transaction \<Rightarrow> contractsImpl \<Rightarrow> contractsImpl" where
  "removeAddressContractTx e tx c =
     (if \<not> isContractTx tx \<and> Tx_To tx = None then c
      else c\<lparr>CI_addressContractTxs := removeContractTx (X_hashHex e (Tx_Hash tx)) (X_addrHex e (Tx_Sender tx)) (CI_addressContractTxs c)\<rparr>)"

definition contractsRemoveTx :: "ext \<Rightarrow> Transaction \<Rightarrow> contractsImpl \<Rightarrow> contractsImpl" where
  "contractsRemoveTx e tx c = removeAddressContractTx e tx (removeDeployTx tx c)"

section \<open>The index of contract transactions is a map\<close>

type_synonym contract_item = "DbTransaction \<times> string"

definition itemKey :: "contract_item \<Rightarrow> string" where
  "itemKey = (\<lambda>(tx, _). toLower (DT_Hash tx))"

definition addItem :: "contract_item \<Rightarrow> addressContractTxs \<Rightarrow> addressContractTxs" where
  "addItem = (\<lambda>(tx, contractAddress). addContractTx tx contractAddress)"

definition removeItem :: "contract_item \<Rightarrow> addressContractTxs \<Rightarrow> addressContractTxs" where
  "removeItem = (\<lambda>(tx, _). removeContractTx (DT_Hash tx) (DT_From tx))"

text \<open>A hash determines its transaction and contract, and is in lower case.\<close>

definition lawful :: "(string \<Rightarrow> contract_item) \<Rightarrow> contract_item \<Rightarrow> bool" where
  "lawful T item \<longleftrightarrow> T (itemKey item) = item \<and> toLower (DT_Hash (fst item)) = DT_Hash (fst item)"

definition rowAt :: "addressContractTxs \<Rightarrow> string \<Rightarrow> string \<Rightarrow> string \<Rightarrow> DbTransaction option" where
  "rowAt t a c h = map_of (assocOr [] (assocOr [] (ACT_txsByAddressAndContract t) a) c) h"

definition act_wf :: "addressContractTxs \<Rightarrow> bool" where
  "act_wf t \<longleftrightarrow> (\<forall>a c. distinct (map fst (assocOr [] (assocOr [] (ACT_txsByAddressAndContract t) a) c)))"

definition act_inv :: "(string \<Rightarrow> contract_item) \<Rightarrow> addressContractTxs \<Rightarrow> bool" where
  "act_inv T t \<longleftrightarrow> act_wf t
     \<and> (\<forall>h c. ACT_contractAddressesByTxHash t h = Some c \<longrightarrow> c = snd (T h) \<and> lawful T (T h) \<and> itemKey (T h) = h)
     \<and> (\<forall>a c h. rowAt t a c h =
          (if ACT_contractAddressesByTxHash t h \<noteq> None \<and> a = toLower (DT_From (fst (T h))) \<and> c = toLower (snd (T h))
           then Some (fst (T h)) else None))"

definition actView :: "(string \<Rightarrow> contract_item) \<Rightarrow> addressContractTxs \<Rightarrow> (string \<rightharpoonup> contract_item)" where
  "actView T t h = map_option (\<lambda>_. T h) (ACT_contractAddressesByTxHash t h)"

lemma assocOr_update: "assocOr d (AList.update k v m) k' = (if k' = k then v else assocOr d m k')"
  by (simp add: assocOr_def update_conv')

lemma assocOr_delete: "assocOr d (AList.delete k m) k' = (if k' = k then d else assocOr d m k')"
  by (simp add: assocOr_def delete_conv')

lemma addContractTx_cells:
  "assocOr [] (assocOr [] (ACT_txsByAddressAndContract (addContractTx tx contract t)) a) c =
     (if a = toLower (DT_From tx) \<and> c = toLower contract
      then AList.update (DT_Hash tx) tx (assocOr [] (assocOr [] (ACT_txsByAddressAndContract t) a) c)
      else assocOr [] (assocOr [] (ACT_txsByAddressAndContract t) a) c)"
  by (simp add: addContractTx_def Let_def assocOr_update)

lemma removeContractTx_cells:
  assumes "ACT_contractAddressesByTxHash t (toLower h) = Some contract"
  shows "assocOr [] (assocOr [] (ACT_txsByAddressAndContract (removeContractTx h sender t)) a) c =
     (if a = toLower sender \<and> c = toLower contract
      then AList.delete (toLower h) (assocOr [] (assocOr [] (ACT_txsByAddressAndContract t) a) c)
      else assocOr [] (assocOr [] (ACT_txsByAddressAndContract t) a) c)"
proof (cases "map_of (ACT_txsByAddressAndContract t) (toLower sender)")
  case None
  then show ?thesis using assms by (simp add: removeContractTx_def Let_def assocOr_def)
next
  case (Some m)
  show ?thesis
  proof (cases "map_of m (toLower contract)")
    case None
    then show ?thesis using assms Some by (simp add: removeContractTx_def Let_def assocOr_def)
  next
    case (Some txs)
    define rest where "rest = AList.delete (toLower h) txs"
    define m1 where "m1 = (if rest = [] then AList.delete (toLower contract) m else AList.update (toLower contract) rest m)"
    have m1: "assocOr [] m1 c = (if c = toLower contract then rest else assocOr [] m c)" for c
      by (simp add: m1_def assocOr_update assocOr_delete)
    have "assocOr [] (ACT_txsByAddressAndContract (removeContractTx h sender t)) a =
        (if a = toLower sender then m1 else assocOr [] (ACT_txsByAddressAndContract t) a)" for a
      using assms Some \<open>map_of (ACT_txsByAddressAndContract t) (toLower sender) = Some m\<close>
      by (simp add: removeContractTx_def Let_def assocOr_update assocOr_delete flip: rest_def m1_def)
    moreover have "assocOr [] (ACT_txsByAddressAndContract t) (toLower sender) = m" "assocOr [] m (toLower contract) = txs"
      using Some \<open>map_of (ACT_txsByAddressAndContract t) (toLower sender) = Some m\<close> by (simp_all add: assocOr_def)
    ultimately show ?thesis using m1 by (simp add: rest_def)
  qed
qed

lemma toLower_idem: "toLower (toLower s) = toLower s"
proof -
  have "lowerChar (lowerChar c) = lowerChar c" for c
    by (simp add: lowerChar_def Let_def)
  then show ?thesis by (simp add: toLower_def)
qed

lemma addItem_inv:
  assumes inv: "act_inv T t" and law: "lawful T item"
  shows "act_inv T (addItem item t)"
proof -
  obtain tx contract where item: "item = (tx, contract)" by (cases item)
  define h where "h = DT_Hash tx"
  have T: "T h = (tx, contract)" and low: "toLower h = h"
    using law by (auto simp: lawful_def itemKey_def item h_def)
  have contracts: "ACT_contractAddressesByTxHash (addItem item t) = (ACT_contractAddressesByTxHash t)(h \<mapsto> contract)"
    using low by (simp add: addItem_def item addContractTx_def Let_def h_def)
  have rows: "rowAt (addItem item t) a c h' = (if a = toLower (DT_From tx) \<and> c = toLower contract \<and> h' = h then Some tx else rowAt t a c h')" for a c h'
    by (simp add: rowAt_def addItem_def item addContractTx_cells update_conv' h_def)
  have "act_wf (addItem item t)"
    using inv by (simp add: act_inv_def act_wf_def addItem_def item addContractTx_cells distinct_update)
  moreover have "c = snd (T h') \<and> lawful T (T h') \<and> itemKey (T h') = h'" if "ACT_contractAddressesByTxHash (addItem item t) h' = Some c" for h' c
  proof (cases "h' = h")
    case True
    have "T h = item" "itemKey item = h" using T low by (simp_all add: item itemKey_def h_def)
    moreover have "c = contract" using that contracts True by simp
    ultimately show ?thesis using True law item by simp
  next
    case False
    with that have "ACT_contractAddressesByTxHash t h' = Some c" by (simp add: contracts)
    then show ?thesis using inv unfolding act_inv_def by blast
  qed
  moreover have "rowAt (addItem item t) a c h' =
      (if ACT_contractAddressesByTxHash (addItem item t) h' \<noteq> None \<and> a = toLower (DT_From (fst (T h'))) \<and> c = toLower (snd (T h'))
       then Some (fst (T h')) else None)" for a c h'
    using inv T by (simp add: rows contracts act_inv_def)
  ultimately show ?thesis unfolding act_inv_def by blast
qed

lemma removeItem_inv:
  assumes inv: "act_inv T t" and law: "lawful T item"
  shows "act_inv T (removeItem item t)"
proof (cases "ACT_contractAddressesByTxHash t (itemKey item)")
  case None
  then have "removeItem item t = t" by (cases item) (simp add: removeItem_def removeContractTx_def itemKey_def)
  then show ?thesis using inv by simp
next
  case (Some contract')
  obtain tx contract where item: "item = (tx, contract)" by (cases item)
  define h where "h = DT_Hash tx"
  have T: "T h = (tx, contract)" and low: "toLower h = h"
    using law by (auto simp: lawful_def itemKey_def item h_def)
  have key: "itemKey item = h" using low by (simp add: itemKey_def item h_def)
  have c': "contract' = contract" using inv Some T unfolding act_inv_def key by force
  have at: "ACT_contractAddressesByTxHash t (toLower (DT_Hash tx)) = Some contract"
    using Some c' key low by (simp add: h_def)
  have contracts: "ACT_contractAddressesByTxHash (removeItem item t) = (ACT_contractAddressesByTxHash t)(h := None)"
    using at low by (auto simp: removeItem_def item removeContractTx_def Let_def h_def split: option.splits)
  have rows: "rowAt (removeItem item t) a c h' =
      (if a = toLower (DT_From tx) \<and> c = toLower contract \<and> h' = h then None else rowAt t a c h')" for a c h'
    using low by (simp add: rowAt_def removeItem_def item removeContractTx_cells [OF at] delete_conv' h_def)
  have "act_wf (removeItem item t)"
    using inv by (simp add: act_inv_def act_wf_def removeItem_def item removeContractTx_cells [OF at] distinct_delete)
  moreover have "c = snd (T h') \<and> lawful T (T h') \<and> itemKey (T h') = h'" if "ACT_contractAddressesByTxHash (removeItem item t) h' = Some c" for h' c
    using that inv by (auto simp: contracts act_inv_def split: if_splits)
  moreover have "rowAt (removeItem item t) a c h' =
      (if ACT_contractAddressesByTxHash (removeItem item t) h' \<noteq> None \<and> a = toLower (DT_From (fst (T h'))) \<and> c = toLower (snd (T h'))
       then Some (fst (T h')) else None)" for a c h'
    using inv T by (simp add: rows contracts act_inv_def)
  ultimately show ?thesis unfolding act_inv_def by blast
qed

lemma item_views:
  assumes "lawful T item"
  shows "actView T (addItem item t) = (actView T t)(itemKey item \<mapsto> item)"
    and "actView T (removeItem item t) = (actView T t)(itemKey item := None)"
proof -
  obtain tx contract where item: "item = (tx, contract)" by (cases item)
  have "ACT_contractAddressesByTxHash (addItem item t) = (ACT_contractAddressesByTxHash t)(itemKey item \<mapsto> contract)"
    by (simp add: addItem_def item addContractTx_def Let_def itemKey_def)
  then show "actView T (addItem item t) = (actView T t)(itemKey item \<mapsto> item)"
    using assms by (auto simp: actView_def lawful_def)
  have "ACT_contractAddressesByTxHash (removeItem item t) = (ACT_contractAddressesByTxHash t)(itemKey item := None)"
    by (auto simp: removeItem_def item removeContractTx_def Let_def itemKey_def fun_eq_iff split: option.splits)
  then show "actView T (removeItem item t) = (actView T t)(itemKey item := None)"
    by (auto simp: actView_def)
qed

interpretation contractTxs: keyed_pool itemKey "lawful T" addItem removeItem "actView T" "act_inv T"
  by unfold_locales (simp_all add: addItem_inv removeItem_inv item_views)

lemma act_inv_new: "act_inv T newAddressContractTxs"
  by (simp add: act_inv_def newAddressContractTxs_def act_wf_def assocOr_def rowAt_def)

lemma getContractTxs_cell:
  "getContractTxs a c t = map snd (assocOr [] (assocOr [] (ACT_txsByAddressAndContract t) (toLower a)) (toLower c))"
  by (simp add: getContractTxs_def assocOr_def split: option.splits)

lemma set_getContractTxs:
  assumes "act_inv T t"
  shows "set (getContractTxs a c t) =
    {fst item | item. actView T t (itemKey item) = Some item \<and> toLower (DT_From (fst item)) = toLower a \<and> toLower (snd item) = toLower c}"
proof -
  let ?cell = "assocOr [] (assocOr [] (ACT_txsByAddressAndContract t) (toLower a)) (toLower c)"
  have d: "distinct (map fst ?cell)" using assms by (simp add: act_inv_def act_wf_def)
  have "tx \<in> set (map snd ?cell) \<longleftrightarrow> (\<exists>h. rowAt t (toLower a) (toLower c) h = Some tx)" for tx
    unfolding rowAt_def using map_of_eq_Some_iff [OF d] by force
  moreover have "(\<exists>h. rowAt t (toLower a) (toLower c) h = Some tx) \<longleftrightarrow>
      (\<exists>item. tx = fst item \<and> actView T t (itemKey item) = Some item \<and> toLower (DT_From (fst item)) = toLower a \<and> toLower (snd item) = toLower c)" for tx
  proof
    assume "\<exists>h. rowAt t (toLower a) (toLower c) h = Some tx"
    then obtain h where "rowAt t (toLower a) (toLower c) h = Some tx" ..
    then have h: "ACT_contractAddressesByTxHash t h \<noteq> None" "toLower a = toLower (DT_From (fst (T h)))"
        "toLower c = toLower (snd (T h))" "tx = fst (T h)"
      using assms by (auto simp: act_inv_def split: if_splits)
    then have "itemKey (T h) = h" using assms by (auto simp: act_inv_def)
    with h show "\<exists>item. tx = fst item \<and> actView T t (itemKey item) = Some item \<and>
        toLower (DT_From (fst item)) = toLower a \<and> toLower (snd item) = toLower c"
      by (intro exI [of _ "T h"]) (auto simp: actView_def)
  next
    assume "\<exists>item. tx = fst item \<and> actView T t (itemKey item) = Some item \<and> toLower (DT_From (fst item)) = toLower a \<and> toLower (snd item) = toLower c"
    then obtain item where i: "tx = fst item" "actView T t (itemKey item) = Some item"
      "toLower (DT_From (fst item)) = toLower a" "toLower (snd item) = toLower c" by blast
    then have "T (itemKey item) = item" "ACT_contractAddressesByTxHash t (itemKey item) \<noteq> None" by (auto simp: actView_def)
    then show "\<exists>h. rowAt t (toLower a) (toLower c) h = Some tx"
      using assms i by (intro exI [of _ "itemKey item"]) (auto simp: act_inv_def)
  qed
  ultimately show ?thesis unfolding getContractTxs_cell by blast
qed

section \<open>Properties\<close>

text \<open>C32: while hashes are in lower case and determine their transaction and contract, any sequence
  of additions and removals of contract transactions leaves those added and not removed since, and
  a query for a sender and a contract (in any letter case) returns exactly the ones of that sender
  and contract.\<close>

theorem contract_txs_refine_map:
  assumes "list_all (\<lambda>op. lawful T (opItem op)) ops" "t = fold (poolStep addItem removeItem) ops newAddressContractTxs"
  shows "actView T t = fold (mapStep itemKey) ops Map.empty
    \<and> set (getContractTxs a c t) = {fst item | item. actView T t (itemKey item) = Some item
        \<and> toLower (DT_From (fst item)) = toLower a \<and> toLower (snd item) = toLower c}"
proof -
  have "act_inv T t" "actView T t = fold (mapStep itemKey) ops (actView T newAddressContractTxs)"
    using contractTxs.run_refines [OF act_inv_new assms(1)] assms(2) by simp_all
  moreover have "actView T newAddressContractTxs = Map.empty" by (simp add: actView_def newAddressContractTxs_def fun_eq_iff)
  ultimately show ?thesis using set_getContractTxs by simp
qed

definition pooledItem :: "string \<Rightarrow> contract_item" where
  "pooledItem h = (\<lparr>DT_Hash = h, DT_Type = CallContractTx, DT_From = ''0xA'', DT_To = ''0xC'', DT_Amount = 0, DT_Tips = 0,
     DT_MaxFee = 0, DT_Fee = 0, DT_Size = 0, DT_Raw = [], DT_Nonce = 1, DT_UsedGas = 0, DT_Data = None\<rparr>, ''0xC'')"

theorem contract_txs_refine_map_witness:
  "\<exists>t. t = fold (poolStep addItem removeItem) [Ins (pooledItem ''1''), Ins (pooledItem ''2''), Rem (pooledItem ''1'')] newAddressContractTxs
    \<and> actView pooledItem t = [''2'' \<mapsto> pooledItem ''2'']"
proof -
  let ?ops = "[Ins (pooledItem ''1''), Ins (pooledItem ''2''), Rem (pooledItem ''1'')]"
  have low: "toLower ''1'' = ''1''" "toLower ''2'' = ''2''" by code_simp+
  have "list_all (\<lambda>op. lawful pooledItem (opItem op)) ?ops"
    by (simp add: lawful_def itemKey_def pooledItem_def low)
  note run = contract_txs_refine_map [OF this refl]
  have "fold (mapStep itemKey) ?ops Map.empty = [''2'' \<mapsto> pooledItem ''2'']"
    by (simp add: mapStep_def itemKey_def pooledItem_def low fun_eq_iff)
  with run show ?thesis by simp
qed

text \<open>a contract transaction whose receipt is not successful changes neither the pending voting
  deployments nor the pending contract transactions, provided the virtual machine leaves the rows of
  the collector's statistics to the receipt.\<close>

theorem failed_contract_tx_leaves_pool:
  assumes "processContractTx e env tx c = Some (Some c')"
    and "CI_appStateCache c = Some (CE_height env, appState)"
    and "CE_run env tx appState (BeginApplyingTx tx appState emptySession) = (s1, receipt)"
    and "S_OracleVotingContracts (stats s1) = []" "\<not> Rc_Success receipt"
  shows "CI_oracleVotingDeploys c' = CI_oracleVotingDeploys c \<and> CI_addressContractTxs c' = CI_addressContractTxs c"
proof -
  obtain s2 where s2: "AddTxReceipt e (CE_tokens env) receipt appState s1 = Some s2"
      "c' = applyContractTx e tx receipt (applyDeployTx (Tx_Hash tx) receipt (stats s2) c)"
    using assms(1-3) by (auto simp: processContractTx_def readonlyAppState_def Let_def bind_Some_iff)
  then have "S_OracleVotingContracts (stats s2) = []"
    using assms(4,5) by (auto simp: AddTxReceipt_def Let_def collectTokenBalanceUpdates_def collectTokens_def
        case_prod_beta bind_Some_iff)
  then show ?thesis using s2(2) assms(5) by (simp add: applyContractTx_def applyDeployTx_def)
qed

definition failingEnv :: contracts_env where
  "failingEnv = \<lparr>CE_height = 7, CE_readonly = (\<lambda>_. Some sampleApp),
     CE_run = (\<lambda>tx appState s. (s, sampleReceipt\<lparr>Rc_Success := False\<rparr>)), CE_tokens = sampleTokenEnv True\<rparr>"

theorem failed_contract_tx_leaves_pool_witness:
  "\<exists>c'. processContractTx sampleExt failingEnv sampleTx (NewContracts\<lparr>CI_appStateCache := Some (7, sampleApp)\<rparr>) = Some (Some c')
    \<and> CI_oracleVotingDeploys c' = [] \<and> CI_addressContractTxs c' = newAddressContractTxs"
proof -
  let ?c = "NewContracts\<lparr>CI_appStateCache := Some (7, sampleApp)\<rparr>"
  have "(case processContractTx sampleExt failingEnv sampleTx ?c of Some (Some c') \<Rightarrow> True | _ \<Rightarrow> False)" by code_simp
  then obtain c' where c': "processContractTx sampleExt failingEnv sampleTx ?c = Some (Some c')"
    by (auto split: option.splits)
  have "CI_oracleVotingDeploys c' = CI_oracleVotingDeploys ?c \<and> CI_addressContractTxs c' = CI_addressContractTxs ?c"
  proof (rule failed_contract_tx_leaves_pool [OF c'])
    show "CI_appStateCache ?c = Some (CE_height failingEnv, sampleApp)" by (simp add: failingEnv_def)
    show "CE_run failingEnv sampleTx sampleApp (BeginApplyingTx sampleTx sampleApp emptySession) =
        (BeginApplyingTx sampleTx sampleApp emptySession, sampleReceipt\<lparr>Rc_Success := False\<rparr>)"
      by (simp add: failingEnv_def)
    show "S_OracleVotingContracts (stats (BeginApplyingTx sampleTx sampleApp emptySession)) = []"
      by (simp add: BeginApplyingTx_pending emptySession_def emptyStats_def)
  qed simp
  then show ?thesis using c' by (simp add: NewContracts_def)
qed

end
