(* ===== verification/Api.thy ===== *)
theory Api
  imports Online_Identities Mempool_Txs Contracts_Pool Db_Text
begin

text \<open>
  The queries that the HTTP server answers, \<open>src/core/api/api.go\<close>: the lists of identities and validators
  in pages with a continuation token, and the rest of the cached data. Recovering the signer of a text
  is an argument. Page numbers are 64-bit words, so the sum of the start and the size of a page wraps.
\<close>

section \<open>Continuation tokens\<close>

text \<open>\<open>strconv.ParseUint(s, 10, 64)\<close>: digits only, at least one, below \<open>2 ^ 64\<close>.\<close>

definition parseUint10 :: "string \<Rightarrow> uint64 option" where
  "parseUint10 s =
     (if s = [] \<or> \<not> list_all isDigit s then None
      else case parseDigits 10 s 0 of None \<Rightarrow> None | Some n \<Rightarrow> if n < 2 ^ 64 then Some (of_nat n) else None)"

definition startIndex :: "string option \<Rightarrow> uint64 option" where
  "startIndex continuationToken = (case continuationToken of None \<Rightarrow> Some 0 | Some t \<Rightarrow> parseUint10 t)"

section \<open>Pages\<close>

text \<open>The loop from \<open>i\<close> on; \<open>stop\<close> is the start and the size of the page, added as words.\<close>

function pageLoop :: "uint64 \<Rightarrow> 'a list \<Rightarrow> uint64 \<Rightarrow> 'a list" where
  "pageLoop stop xs i = (if i < stop \<and> i < of_nat (length xs) then xs ! unat i # pageLoop stop xs (i + 1) else [])"
  by pat_completeness auto

lemma unat_next: "i < j \<Longrightarrow> unat (i + 1) = unat i + 1" for i :: uint64
  using unat_successor [of i] word_order.not_eq_extremum [of i] by auto

termination pageLoop
  by (relation "measure (\<lambda>(stop, xs, i). unat stop - unat i)") (auto simp: unat_next word_less_nat_alt)

declare pageLoop.simps [simp del]

text \<open>\<open>GetOnlineIdentities\<close>, \<open>Validators\<close> and \<open>OnlineValidators\<close> over the list they page; \<open>None\<close> is an invalid token.\<close>

definition getPage :: "'a list \<Rightarrow> uint64 \<Rightarrow> string option \<Rightarrow> ('a list \<times> string option) option" where
  "getPage items cnt continuationToken = (case startIndex continuationToken of
       None \<Rightarrow> None
     | Some start \<Rightarrow>
         (if items = [] then Some ([], None)
          else Some (pageLoop (start + cnt) items start,
            if of_nat (length items) > start + cnt then Some (showWord (start + cnt)) else None)))"

text \<open>The deprecated \<open>GetOnlineIdentitiesOld\<close>.\<close>

definition getPageOld :: "'a list \<Rightarrow> uint64 \<Rightarrow> uint64 \<Rightarrow> 'a list" where
  "getPageOld items start cnt = (if items = [] then [] else pageLoop (start + cnt) items start)"

section \<open>The interface\<close>

record Api =
  Api_online :: onlineCache
  Api_upgradesVoting :: "Votes list"
  Api_memPool :: memPool
  Api_contracts :: contractsImpl

text \<open>Only one level of delegatees is converted.\<close>

definition convertOnlineIdentity :: "OnlineIdentity \<Rightarrow> OnlineIdentity" where
  "convertOnlineIdentity oi = OnlineIdentity (OI_Address oi) (OI_LastActivity oi) (OI_Penalty oi) (OI_PenaltySeconds oi) (OI_Online oi)
     (map_option (\<lambda>d. OnlineIdentity (OI_Address d) (OI_LastActivity d) (OI_Penalty d) (OI_PenaltySeconds d) (OI_Online d) None)
       (OI_Delegatee oi))"

definition GetOnlineIdentitiesCount :: "Api \<Rightarrow> uint64" where
  "GetOnlineIdentitiesCount a = of_nat (length (OC_identities (Api_online a)))"

definition GetOnlineIdentities :: "Api \<Rightarrow> uint64 \<Rightarrow> string option \<Rightarrow> (OnlineIdentity list \<times> string option) option" where
  "GetOnlineIdentities a cnt continuationToken =
     map_option (apfst (map convertOnlineIdentity)) (getPage (OC_identities (Api_online a)) cnt continuationToken)"

definition GetOnlineIdentitiesOld :: "Api \<Rightarrow> uint64 \<Rightarrow> uint64 \<Rightarrow> OnlineIdentity list" where
  "GetOnlineIdentitiesOld a start cnt = map convertOnlineIdentity (getPageOld (OC_identities (Api_online a)) start cnt)"

definition GetOnlineIdentity :: "Api \<Rightarrow> string \<Rightarrow> OnlineIdentity option" where
  "GetOnlineIdentity a addr = map_option convertOnlineIdentity (onlineGet (Api_online a) addr)"

definition GetOnlineCount :: "Api \<Rightarrow> uint64" where
  "GetOnlineCount a = of_int (OC_onlineCount (Api_online a))"

text \<open>The pool with its stakes as decimals.\<close>

definition apiGetPool :: "ext \<Rightarrow> Api \<Rightarrow> string \<Rightarrow> (decimal \<times> decimal) option" where
  "apiGetPool e a addr = map_option (\<lambda>pool. (X_convertToFloat e (Some (Po_TotalStake pool)),
     X_convertToFloat e (Some (Po_TotalValidatedStake pool)))) (GetPool (Api_online a) addr)"

definition UpgradeVoting :: "Api \<Rightarrow> Votes list" where
  "UpgradeVoting a = map (\<lambda>v. \<lparr>Vt_Upgrade = Vt_Upgrade v, Vt_Votes = Vt_Votes v\<rparr>) (Api_upgradesVoting a)"

definition apiValidatorsCount :: "Api \<Rightarrow> uint64" where
  "apiValidatorsCount a = of_nat (ValidatorsCount (Api_online a))"

definition Validators :: "Api \<Rightarrow> uint64 \<Rightarrow> string option \<Rightarrow> (Validator list \<times> string option) option" where
  "Validators a cnt continuationToken = getPage (OC_validators (Api_online a)) cnt continuationToken"

definition apiOnlineValidatorsCount :: "Api \<Rightarrow> uint64" where
  "apiOnlineValidatorsCount a = of_nat (OnlineValidatorsCount (Api_online a))"

definition OnlineValidators :: "Api \<Rightarrow> uint64 \<Rightarrow> string option \<Rightarrow> (Validator list \<times> string option) option" where
  "OnlineValidators a cnt continuationToken = getPage (OC_onlineValidators (Api_online a)) cnt continuationToken"

definition apiStaking :: "Api \<Rightarrow> Staking" where
  "apiStaking a = OC_staking (Api_online a)"

definition apiForkCommitteeSize :: "Api \<Rightarrow> uint64" where
  "apiForkCommitteeSize a = of_int (OC_forkCommitteeSize (Api_online a))"

text \<open>The conversion of a count to \<open>int\<close> makes a large one negative.\<close>

definition toInt :: "uint64 \<Rightarrow> int" where
  "toInt cnt = sint cnt"

definition MemPoolTransaction :: "ext \<Rightarrow> (string \<Rightarrow> hash) \<Rightarrow> Api \<Rightarrow> string \<Rightarrow> TransactionDetail option" where
  "MemPoolTransaction e hexToHash a h = GetTransaction e hexToHash h (Api_memPool a)"

definition MemPoolTransactionRaw :: "(string \<Rightarrow> hash) \<Rightarrow> Api \<Rightarrow> string \<Rightarrow> bytes option" where
  "MemPoolTransactionRaw hexToHash a h = GetTransactionRaw hexToHash h (Api_memPool a)"

definition MemPoolAddressTransactions :: "ext \<Rightarrow> (string \<Rightarrow> address) \<Rightarrow> Api \<Rightarrow> string \<Rightarrow> uint64 \<Rightarrow> TransactionSummary list" where
  "MemPoolAddressTransactions e hexToAddress a addr cnt = GetAddressTransactions e hexToAddress addr (toInt cnt) (Api_memPool a)"

definition MemPoolTransactions :: "ext \<Rightarrow> Api \<Rightarrow> uint64 \<Rightarrow> TransactionSummary list" where
  "MemPoolTransactions e a cnt = GetTransactions e (toInt cnt) (Api_memPool a)"

definition MemPoolTransactionsCount :: "Api \<Rightarrow> nat" where
  "MemPoolTransactionsCount a = GetTransactionsCount (Api_memPool a)"

definition MemPoolOracleVotingContractDeploys :: "(string \<Rightarrow> address) \<Rightarrow> Api \<Rightarrow> string \<Rightarrow> OracleVotingContract list" where
  "MemPoolOracleVotingContractDeploys hexToAddress a author = GetOracleVotingContractDeploys (hexToAddress author) (Api_contracts a)"

definition MemPoolAddressContractTxs :: "Api \<Rightarrow> string \<Rightarrow> string \<Rightarrow> DbTransaction list" where
  "MemPoolAddressContractTxs a addr contractAddress = GetAddressContractTxs addr contractAddress (Api_contracts a)"

section \<open>Tokens are read back\<close>

lemma token_read_back: "parseUint10 (showWord w) = Some w" for w :: uint64
proof -
  have "unat w < 2 ^ LENGTH(64)" by (rule unsigned_less)
  moreover have "showNat (unat w) \<noteq> []" by (simp add: showNat.simps [of "unat w"])
  ultimately show ?thesis
    using parseDigits_showNat [of "unat w"] showNat_digits [of "unat w"] by (simp add: parseUint10_def showWord_def)
qed

section \<open>The pages of a list\<close>

lemma length_word: "length xs < 2 ^ 64 \<Longrightarrow> unat (of_nat (length xs) :: uint64) = length xs"
  by (simp add: unsigned_of_nat take_bit_nat_eq_self)

lemma pageLoop_slice:
  assumes "length xs < 2 ^ 64"
  shows "pageLoop stop xs i = take (unat stop - unat i) (drop (unat i) xs)"
  using assms
proof (induction stop xs i rule: pageLoop.induct)
  case (1 stop xs i)
  have len: "i < of_nat (length xs) \<longleftrightarrow> unat i < length xs"
    using length_word [OF "1.prems"] by (simp add: word_less_nat_alt)
  show ?case
  proof (cases "i < stop \<and> unat i < length xs")
    case True
    then have "pageLoop stop xs (i + 1) = take (unat stop - unat (i + 1)) (drop (unat (i + 1)) xs)"
      using "1.IH" "1.prems" len by blast
    moreover have "unat i < unat stop" using True by (simp add: word_less_nat_alt)
    then have "unat stop - unat i = Suc (unat stop - Suc (unat i))" by simp
    moreover have "drop (unat i) xs = xs ! unat i # drop (Suc (unat i)) xs" using True Cons_nth_drop_Suc by metis
    ultimately show ?thesis
      using True len unat_next [of i stop] by (subst pageLoop.simps) simp
  next
    case False
    then show ?thesis using len by (subst pageLoop.simps) (auto simp: word_less_nat_alt not_less)
  qed
qed

text \<open>A client that follows the tokens.\<close>

fun followPages :: "nat \<Rightarrow> 'a list \<Rightarrow> uint64 \<Rightarrow> string option \<Rightarrow> 'a list option" where
  "followPages 0 items cnt tok = None"
| "followPages (Suc n) items cnt tok = (case getPage items cnt tok of
       None \<Rightarrow> None
     | Some (page, None) \<Rightarrow> Some page
     | Some (page, Some next) \<Rightarrow> map_option (\<lambda>rest. page @ rest) (followPages n items cnt (Some next)))"

lemma getPage_slice:
  assumes "length items + unat cnt < 2 ^ 64" "startIndex tok = Some start" "unat start \<le> length items"
  shows "getPage items cnt tok = Some (take (unat cnt) (drop (unat start) items),
    if unat start + unat cnt < length items then Some (showWord (start + cnt)) else None)"
    and "unat (start + cnt) = unat start + unat cnt"
proof -
  show sum: "unat (start + cnt) = unat start + unat cnt"
    using assms(1,3) by (simp add: unat_plus_if_size word_size)
  have "length items < 2 ^ 64" using assms(1) by simp
  note len = length_word [OF this] and slice = pageLoop_slice [OF this]
  show "getPage items cnt tok = Some (take (unat cnt) (drop (unat start) items),
      if unat start + unat cnt < length items then Some (showWord (start + cnt)) else None)"
    using assms(2) sum len slice [of "start + cnt" start] by (auto simp: getPage_def word_less_nat_alt)
qed

lemma followPages_from:
  assumes "0 < cnt" "length items + unat cnt < 2 ^ 64"
  shows "startIndex tok = Some start \<Longrightarrow> unat start \<le> length items \<Longrightarrow> length items - unat start < n \<Longrightarrow>
    followPages n items cnt tok = Some (drop (unat start) items)"
proof (induction n arbitrary: tok start)
  case (Suc n)
  note page = getPage_slice [OF assms(2) Suc.prems(1,2)]
  have pos: "0 < unat cnt" using assms(1) by (simp add: word_less_nat_alt)
  show ?case
  proof (cases "unat start + unat cnt < length items")
    case True
    have "followPages n items cnt (Some (showWord (start + cnt))) = Some (drop (unat (start + cnt)) items)"
      by (rule Suc.IH) (use True page(2) pos Suc.prems(3) in \<open>simp_all add: startIndex_def token_read_back\<close>)
    then show ?thesis
      using True page by (simp add: take_add [symmetric]) (metis add.commute append_take_drop_id drop_drop)
  next
    case False
    then show ?thesis using page by simp
  qed
qed simp

section \<open>Properties\<close>

text \<open>C36: A client that follows the continuation tokens sees every item once, in the order of the list, as long as the
  size of a page is positive and does not bring the sum near \<open>2 ^ 64\<close>: one call more than there are items is enough.\<close>

theorem pages_cover_the_list:
  assumes "0 < cnt" "length items + unat cnt < 2 ^ 64"
  shows "followPages (length items + 1) items cnt None = Some items"
  using followPages_from [OF assms, of None 0 "length items + 1"] by (simp add: startIndex_def)

theorem pages_cover_the_list_witness: "followPages 6 [10, 11, 12, 13, 14 :: int] 2 None = Some [10, 11, 12, 13, 14]"
proof -
  have l: "length [10, 11, 12, 13, 14 :: int] + 1 = 6" by simp
  have "followPages (length [10, 11, 12, 13, 14 :: int] + 1) [10, 11, 12, 13, 14 :: int] 2 None = Some [10, 11, 12, 13, 14]"
    by (rule pages_cover_the_list) simp_all
  then show ?thesis unfolding l .
qed



end
