(* ===== verification/Contract_Services.thy ===== *)
theory Contract_Services
  imports Db_Accessor Api
begin

text \<open>
  Services around contracts: the state of a multisig contract, \<open>src/core/holder/contract/contract.go\<close>; the
  verification of submitted sources, \<open>src/contract/verification/verifier.go\<close> and \<open>db.go\<close>; and the one-time
  collection of token balances, \<open>src/migration/tokens/tokens.go\<close>. The contract stores are lists of keys and
  values in the order of the node's iteration; hash functions, the service that compiles sources and the
  decoders of numbers are arguments.
\<close>

section \<open>Multisig contracts\<close>

text \<open>The values that a conversion can give.\<close>

datatype stored = StoredByte byte | StoredUInt64 uint64 | StoredString string | StoredDecimal decimal

record store_env =
  CS_extractByte :: "bytes \<Rightarrow> byte option"
  CS_extractUInt64 :: "bytes \<Rightarrow> uint64 option"
  CS_maxKeyLength :: nat
  CS_ext :: ext

definition hexutilEncode :: "bytes \<Rightarrow> string" where
  "hexutilEncode data = ''0x'' @ hexEncode data"

text \<open>\<open>None\<close> is an error.\<close>

definition conversion :: "store_env \<Rightarrow> string \<Rightarrow> bytes \<Rightarrow> stored option" where
  "conversion env convertTo data =
     (if convertTo = ''byte'' then map_option StoredByte (CS_extractByte env data)
      else if convertTo = ''uint64'' then map_option StoredUInt64 (CS_extractUInt64 env data)
      else if convertTo = ''string'' then Some (StoredString (goString data))
      else if convertTo = ''bigint'' then Some (StoredString (showInt (setBytes data)))
      else if convertTo = ''hex'' then Some (StoredString (hexutilEncode data))
      else if convertTo = ''dna'' then Some (StoredDecimal (X_convertToFloat (CS_ext env) (Some (setBytes data))))
      else Some (StoredString (hexutilEncode data)))"

definition asciiBytes :: "string \<Rightarrow> bytes" where
  "asciiBytes s = map (\<lambda>c. of_nat (of_char c)) s"

text \<open>
  The callback of the iteration: an error stops it, and as it is assigned to a variable of the callback
  the error of \<open>readMap\<close> stays nil.
\<close>

fun readEntries :: "store_env \<Rightarrow> nat \<Rightarrow> string \<Rightarrow> string \<Rightarrow> (bytes \<times> bytes) list \<Rightarrow> (stored \<times> stored) list \<Rightarrow> (stored \<times> stored) list" where
  "readEntries env prefixLen keyFormat valueFormat [] res = res"
| "readEntries env prefixLen keyFormat valueFormat ((key, value) # rest) res =
     (case conversion env keyFormat (drop prefixLen key) of
        None \<Rightarrow> res
      | Some k \<Rightarrow>
          (case conversion env valueFormat value of
             None \<Rightarrow> res
           | Some v \<Rightarrow> readEntries env prefixLen keyFormat valueFormat rest (AList.update k v res)))"

text \<open>\<open>iterate\<close> gives the entries of a contract between two keys.\<close>

definition readMap :: "store_env \<Rightarrow> (bytes \<Rightarrow> bytes \<Rightarrow> (bytes \<times> bytes) list) \<Rightarrow> string \<Rightarrow> string \<Rightarrow> string \<Rightarrow> (stored \<times> stored) list" where
  "readMap env iterate mapName keyFormat valueFormat =
     (let minKey = asciiBytes mapName; maxKey = minKey @ replicate (CS_maxKeyLength env - length minKey) 255
      in readEntries env (length minKey) keyFormat valueFormat (iterate minKey maxKey) [])"

record MultisigSigner =
  MS_Address :: string
  MS_DescAddress :: string
  MS_Amount :: decimal

text \<open>A type assertion on a value of another type panics.\<close>

fun asString :: "stored \<Rightarrow> string option" where
  "asString (StoredString s) = Some s"
| "asString v = None"

fun asDecimal :: "stored \<Rightarrow> decimal option" where
  "asDecimal (StoredDecimal x) = Some x"
| "asDecimal v = None"

fun multisigSigners :: "(stored \<times> stored) list \<Rightarrow> (stored \<times> stored) list \<Rightarrow> MultisigSigner list option" where
  "multisigSigners amounts [] = Some []"
| "multisigSigners amounts ((addr, dest) # rest) = do {
     a \<leftarrow> asString addr;
     d \<leftarrow> asString dest;
     amount \<leftarrow> (case map_of amounts (StoredString a) of None \<Rightarrow> Some 0 | Some v \<Rightarrow> asDecimal v);
     signers \<leftarrow> multisigSigners amounts rest;
     Some (\<lparr>MS_Address = a, MS_DescAddress = d, MS_Amount = amount\<rparr> # signers) }"

text \<open>The state may be unavailable, the inner \<open>None\<close>; the signers come in the order of the map's iteration.\<close>

definition GetMultisigState :: "store_env \<Rightarrow> (string \<Rightarrow> address) \<Rightarrow> (address \<Rightarrow> bytes \<Rightarrow> bytes \<Rightarrow> (bytes \<times> bytes) list) option \<Rightarrow>
    string \<Rightarrow> MultisigSigner list option option" where
  "GetMultisigState env hexToAddress appState contractAddress = (case appState of
       None \<Rightarrow> Some None
     | Some iterate \<Rightarrow>
         (let addr = hexToAddress contractAddress;
              addresses = readMap env (iterate addr) ''addr'' ''hex'' ''hex'';
              amounts = readMap env (iterate addr) ''amount'' ''hex'' ''dna''
          in map_option Some (multisigSigners amounts addresses)))"

section \<open>Verification of sources\<close>

record PendingVerification =
  PV_Address :: address
  PV_Code :: bytes
  PV_Data :: bytes

text \<open>
  \<open>VE_Hash\<close> is the answer of the remote service, whose errors include those of the connection; the texts of
  the two queries are constants of the code.
\<close>

record 'w verify_env =
  VE_ext :: ext
  VE_HexToAddress :: "string \<Rightarrow> address"
  VE_sha256 :: "bytes \<Rightarrow> bytes"
  VE_Hash :: "bytes \<Rightarrow> 'w \<Rightarrow> bytes option \<times> 'w"
  VE_saveQuery :: string
  VE_pendingQuery :: string

definition scanBytes :: "sqlArg \<Rightarrow> go_error + bytes" where
  "scanBytes v = (case v of ABytes b \<Rightarrow> Inr b | _ \<Rightarrow> scanError)"

text \<open>The inner results are the error for the user and the error of the call.\<close>

definition SavePendingVerification :: "'w verify_env \<Rightarrow> ('w, 's) sql \<Rightarrow> int \<Rightarrow> address \<Rightarrow> bytes \<Rightarrow> string \<Rightarrow> 'w \<Rightarrow>
    (go_error + string option) \<times> 'w" where
  "SavePendingVerification env ops t contractAddress data fileName w =
     (case queryRowText ops (VE_saveQuery env)
          [AText (ConvertAddress (VE_ext env) contractAddress), AInt (t div 10 ^ 9), ABytes data, AText fileName] (scan1 scanText) w of
        (Inl err, w1) \<Rightarrow> (Inl err, w1)
      | (Inr msg, w1) \<Rightarrow> (Inr (if msg = [] then None else Some msg), w1))"

definition GetPendingVerification :: "'w verify_env \<Rightarrow> ('w, 's) sql \<Rightarrow> 'w \<Rightarrow> (go_error + PendingVerification option) \<times> 'w" where
  "GetPendingVerification env ops w = (case SQ_dbQuery ops (VE_pendingQuery env) [AInt 0] w of
       (Inl err, w1) \<Rightarrow> (Inl err, w1)
     | (Inr rows, w1) \<Rightarrow>
         (case RW_rows rows of
            [] \<Rightarrow> (Inr None, w1)
          | row # _ \<Rightarrow> (resultBind (scan3 scanText scanBytes scanBytes row)
              (\<lambda>(a, c, d). Inr (Some \<lparr>PV_Address = VE_HexToAddress env a, PV_Code = c, PV_Data = d\<rparr>)), w1)))"

definition UpdateVerificationState :: "'w verify_env \<Rightarrow> ('w, 's) sql \<Rightarrow> int \<Rightarrow> address \<Rightarrow> byte \<Rightarrow> bytes \<Rightarrow> string option \<Rightarrow> 'w \<Rightarrow>
    (go_error + unit) \<times> 'w" where
  "UpdateVerificationState env ops t contractAddress st data errorMessage w =
     SQ_dbExec ops ''call update_contract_verification_state($1, $2, $3, $4, $5);''
       [AText (ConvertAddress (VE_ext env) contractAddress), wordArg st, AInt (t div 10 ^ 9), ABytes data, optArg AText errorMessage] w"

text \<open>The state and the message that are stored for the answer about the source.\<close>

definition verdict :: "bytes \<Rightarrow> bytes option \<Rightarrow> byte \<times> string option" where
  "verdict codeHash answer = (case answer of
       None \<Rightarrow> (2, Some ''failed to compile'')
     | Some dataHash \<Rightarrow> if codeHash \<noteq> dataHash then (2, Some ''wrong compiled contract hash'') else (1, None))"

definition verifyPendingContract :: "'w verify_env \<Rightarrow> ('w, 's) sql \<Rightarrow> int \<Rightarrow> 'w \<Rightarrow> (go_error + unit) \<times> 'w" where
  "verifyPendingContract env ops t w = (case GetPendingVerification env ops w of
       (Inl err, w1) \<Rightarrow> (Inl (WrapError ''failed to get pending verification'' err), w1)
     | (Inr None, w1) \<Rightarrow> (Inr (), w1)
     | (Inr (Some v), w1) \<Rightarrow>
         (let (answer, w2) = VE_Hash env (PV_Data v) w1;
              (st, errorMessage) = verdict (VE_sha256 env (PV_Code v)) answer
          in case UpdateVerificationState env ops t (PV_Address v) st (PV_Data v) errorMessage w2 of
               (Inl err, w3) \<Rightarrow> (Inl (WrapError ''failed to update verification state'' err), w3)
             | (Inr _, w3) \<Rightarrow> (Inr (), w3)))"

section \<open>The collection of tokens\<close>

text \<open>The texts of the statements, and the entries of a contract's store between its least and greatest balance key.\<close>

record tokens_env =
  TK_env :: token_env
  TK_ext :: ext
  TK_app :: app_state
  TK_HexToAddress :: "string \<Rightarrow> address"
  TK_iterate :: "address \<Rightarrow> (bytes \<times> bytes) list"
  TK_loadQuery :: string
  TK_insertToken :: string
  TK_insertBalance :: string

definition loadContracts :: "tokens_env \<Rightarrow> ('w, 's) sql \<Rightarrow> 'w \<Rightarrow> (go_error + address list) \<times> 'w" where
  "loadContracts env ops = queryText ops (TK_loadQuery env) []
     (scan1 (\<lambda>v. resultBind (scanText v) (\<lambda>a. Inr (TK_HexToAddress env a))))"

definition isToken :: "tokens_env \<Rightarrow> address \<Rightarrow> bool" where
  "isToken env addr = (case Balance (TK_env env) (TK_app env) addr (TE_addressBytes (TK_env env) 0) of Inl err \<Rightarrow> False | Inr n \<Rightarrow> True)"

definition tokenRow :: "tokens_env \<Rightarrow> address \<Rightarrow> DbToken" where
  "tokenRow env addr = (case Info (TK_env env) (TK_app env) addr of
       Inl err \<Rightarrow> \<lparr>Tok_ContractAddress = addr, Tok_Name = [], Tok_Symbol = [], Tok_Decimals = 0\<rparr>
     | Inr info \<Rightarrow> \<lparr>Tok_ContractAddress = addr, Tok_Name = Tkn_Name info, Tok_Symbol = Tkn_Symbol info, Tok_Decimals = Tkn_Decimals info\<rparr>)"

definition tokenBalances :: "tokens_env \<Rightarrow> address \<Rightarrow> TokenBalance list" where
  "tokenBalances env addr = List.map_filter (\<lambda>(key, value).
     let tokenHolder = bytesToAddress (TK_env env) (drop 2 key)
     in if tokenHolder = 0 then None
        else Some \<lparr>TokB_ContractAddress = addr, TokB_Address = tokenHolder, TokB_Balance = Some (setBytes value)\<rparr>) (TK_iterate env addr)"

fun insertTokens :: "tokens_env \<Rightarrow> ('w, 's) sql \<Rightarrow> DbToken list \<Rightarrow> 'w \<Rightarrow> (go_error + unit) \<times> 'w" where
  "insertTokens env ops [] w = (Inr (), w)"
| "insertTokens env ops (tok # rest) w =
     (case SQ_dbExec ops (TK_insertToken env) [AText (X_addrHex (TK_ext env) (Tok_ContractAddress tok)), AText (Tok_Name tok),
         AText (Tok_Symbol tok), wordArg (Tok_Decimals tok)] w of
        (Inl err, w1) \<Rightarrow> (Inl err, w1)
      | (Inr _, w1) \<Rightarrow> insertTokens env ops rest w1)"

text \<open>A balance that is not positive is skipped; all of them were read from the store.\<close>

fun insertBalances :: "tokens_env \<Rightarrow> ('w, 's) sql \<Rightarrow> TokenBalance list \<Rightarrow> 'w \<Rightarrow> (go_error + unit) \<times> 'w" where
  "insertBalances env ops [] w = (Inr (), w)"
| "insertBalances env ops (b # rest) w =
     (if zeroIfNil (TokB_Balance b) \<le> 0 then insertBalances env ops rest w
      else case SQ_dbExec ops (TK_insertBalance env) [AText (X_addrHex (TK_ext env) (TokB_ContractAddress b)),
         AText (X_addrHex (TK_ext env) (TokB_Address b)), AText (showInt (zeroIfNil (TokB_Balance b)))] w of
        (Inl err, w1) \<Rightarrow> (Inl err, w1)
      | (Inr _, w1) \<Rightarrow> insertBalances env ops rest w1)"

definition saveTokens :: "tokens_env \<Rightarrow> ('w, 's) sql \<Rightarrow> DbToken list \<Rightarrow> TokenBalance list \<Rightarrow> 'w \<Rightarrow> (go_error + unit) \<times> 'w" where
  "saveTokens env ops tokens balances w = (case insertTokens env ops tokens w of
       (Inl err, w1) \<Rightarrow> (Inl err, w1)
     | (Inr _, w1) \<Rightarrow> insertBalances env ops balances w1)"

definition CollectTokens :: "tokens_env \<Rightarrow> ('w, 's) sql \<Rightarrow> 'w \<Rightarrow> (go_error + unit) \<times> 'w" where
  "CollectTokens env ops w = (case loadContracts env ops w of
       (Inl err, w1) \<Rightarrow> (Inl err, w1)
     | (Inr contracts, w1) \<Rightarrow>
         (if contracts = [] then (Inr (), w1)
          else let tokens = filter (isToken env) contracts
               in saveTokens env ops (map (tokenRow env) tokens) (concat (map (tokenBalances env) tokens)) w1))"

section \<open>The signers of a multisig contract\<close>

lemma hexutilEncode_inj: "hexutilEncode a = hexutilEncode b \<longleftrightarrow> a = b"
  by (metis append_same_eq hexDecode_encode hexutilEncode_def same_append_eq)

lemma update_new: "k \<notin> fst ` set res \<Longrightarrow> AList.update k v res = res @ [(k, v)]"
  by (induction res) auto

text \<open>When the conversions do not fail and the keys stay distinct every entry is read.\<close>

lemma readEntries_all:
  assumes "\<And>k v. (k, v) \<in> set entries \<Longrightarrow> conversion env kf (drop n k) = Some (f k)"
    and "\<And>k v. (k, v) \<in> set entries \<Longrightarrow> conversion env vf v = Some (g v)"
    and "distinct (map (\<lambda>(k, v). f k) entries)" "\<And>k v. (k, v) \<in> set entries \<Longrightarrow> f k \<notin> fst ` set res"
  shows "readEntries env n kf vf entries res = res @ map (\<lambda>(k, v). (f k, g v)) entries"
  using assms
proof (induction entries arbitrary: res)
  case (Cons entry entries)
  obtain k v where e: "entry = (k, v)" by (cases entry)
  have new: "f k' \<notin> fst ` set (res @ [(f k, g v)])" if "(k', v') \<in> set entries" for k' v'
    using Cons.prems(3) Cons.prems(4) [of k' v'] that e by (force simp: image_iff)
  have "readEntries env n kf vf entries (res @ [(f k, g v)]) = (res @ [(f k, g v)]) @ map (\<lambda>(k, v). (f k, g v)) entries"
  proof (rule Cons.IH)
    show "conversion env kf (drop n k') = Some (f k')" if "(k', v') \<in> set entries" for k' v'
      using Cons.prems(1) [of k' v'] that by simp
    show "conversion env vf v' = Some (g v')" if "(k', v') \<in> set entries" for k' v'
      using Cons.prems(2) [of k' v'] that by simp
    show "distinct (map (\<lambda>(k, v). f k) entries)" using Cons.prems(3) by simp
    show "f k' \<notin> fst ` set (res @ [(f k, g v)])" if "(k', v') \<in> set entries" for k' v' using new [OF that] .
  qed
  moreover have "AList.update (f k) (g v) res = res @ [(f k, g v)]"
    using Cons.prems(4) [of k v] e by (intro update_new) auto
  ultimately show ?case using Cons.prems(1,2) [of k v] e by simp
qed simp

text \<open>The entries of a store between two keys: no key twice, all of them beginning with the name of the map.\<close>

definition entries_of :: "string \<Rightarrow> (bytes \<times> bytes) list \<Rightarrow> bool" where
  "entries_of mapName entries \<longleftrightarrow> distinct (map fst entries) \<and> (\<forall>(k, v) \<in> set entries. \<exists>rest. k = asciiBytes mapName @ rest)"

lemma asciiBytes_length: "length (asciiBytes s) = length s"
  by (simp add: asciiBytes_def)

lemma entries_keys:
  assumes "entries_of mapName entries"
  shows "distinct (map (\<lambda>(k, v). StoredString (hexutilEncode (drop (length mapName) k))) entries)"
proof -
  have starts: "\<exists>rest. k = asciiBytes mapName @ rest" if "k \<in> fst ` set entries" for k
    using that assms by (auto simp: entries_of_def)
  have "inj_on (drop (length mapName)) (fst ` set entries)"
  proof (rule inj_onI)
    fix k l assume k: "k \<in> fst ` set entries" and l: "l \<in> fst ` set entries"
      and eq: "drop (length mapName) k = drop (length mapName) l"
    obtain r s where "k = asciiBytes mapName @ r" "l = asciiBytes mapName @ s" using starts [OF k] starts [OF l] by blast
    then show "k = l" using eq by (simp add: asciiBytes_length)
  qed
  then have "distinct (map (drop (length mapName)) (map fst entries))"
    using assms by (subst distinct_map) (simp add: entries_of_def)
  then have "distinct (map (\<lambda>b. StoredString (hexutilEncode b)) (map (drop (length mapName)) (map fst entries)))"
    by (subst distinct_map) (auto simp: inj_on_def hexutilEncode_inj)
  then show ?thesis by (simp add: case_prod_unfold comp_def)
qed

lemma readMap_strings:
  assumes "entries_of mapName entries" "\<And>b. iterate (asciiBytes mapName) b = entries" "\<And>v. conversion env vf v = Some (g v)"
    and "length mapName = n"
  shows "readMap env iterate mapName ''hex'' vf =
    map (\<lambda>(k, v). (StoredString (hexutilEncode (drop n k)), g v)) entries"
  unfolding readMap_def Let_def assms(2) asciiBytes_length assms(4) [symmetric]
  by (subst readEntries_all [where f = "\<lambda>k. StoredString (hexutilEncode (drop (length mapName) k))" and g = g])
    (use entries_keys [OF assms(1)] assms(3) in \<open>simp_all add: conversion_def\<close>)

lemma amount_lookup:
  assumes "entries_of ''amount'' entries"
  shows "map_of (map (\<lambda>(k, v). (StoredString (hexutilEncode (drop 6 k)), g v)) entries) (StoredString (hexutilEncode b)) =
    map_option g (map_of entries (asciiBytes ''amount'' @ b))"
  using assms
proof (induction entries)
  case (Cons entry entries)
  obtain k v where e: "entry = (k, v)" by (cases entry)
  obtain rest where k: "k = asciiBytes ''amount'' @ rest" using Cons.prems e by (auto simp: entries_of_def)
  have "drop 6 k = rest" using k asciiBytes_length [of "''amount''"] by simp
  moreover have "entries_of ''amount'' entries" using Cons.prems by (auto simp: entries_of_def)
  ultimately show ?case using Cons.IH e k by (simp add: hexutilEncode_inj)
qed simp


definition sampleStoreEnv :: store_env where
  "sampleStoreEnv = \<lparr>CS_extractByte = (\<lambda>b. None), CS_extractUInt64 = (\<lambda>b. None), CS_maxKeyLength = 32, CS_ext = sampleExt\<rparr>"


section \<open>A collection that is interrupted\<close>

text \<open>
  The laws of the driver about the table of tokens: an accepted insertion makes it not empty, no statement
  of the collection empties it, and the query for the contracts has no rows once it is not empty.
\<close>

definition tokens_kept :: "tokens_env \<Rightarrow> ('w, 's) sql \<Rightarrow> ('w \<Rightarrow> bool) \<Rightarrow> bool" where
  "tokens_kept env ops hasTokens \<longleftrightarrow>
     (\<forall>q args w. hasTokens w \<longrightarrow> hasTokens (snd (SQ_dbExec ops q args w))) \<and>
     (\<forall>args w w1. SQ_dbExec ops (TK_insertToken env) args w = (Inr (), w1) \<longrightarrow> hasTokens w1) \<and>
     (\<forall>w. hasTokens w \<longrightarrow> (\<exists>failure w1. SQ_dbQuery ops (TK_loadQuery env) [] w = (Inr \<lparr>RW_rows = [], RW_err = failure\<rparr>, w1)))"

lemma tokens_keptD:
  assumes "tokens_kept env ops hasTokens"
  shows "SQ_dbExec ops q args w = (r, w1) \<Longrightarrow> hasTokens w \<Longrightarrow> hasTokens w1"
    and "SQ_dbExec ops (TK_insertToken env) args w = (Inr (), w1) \<Longrightarrow> hasTokens w1"
  using assms unfolding tokens_kept_def by (metis snd_conv, blast)

lemma insertTokens_keeps:
  "tokens_kept env ops hasTokens \<Longrightarrow> hasTokens w \<Longrightarrow> insertTokens env ops rows w = (r, w1) \<Longrightarrow> hasTokens w1"
  by (induction env ops rows w rule: insertTokens.induct) (auto split: prod.splits sum.splits dest: tokens_keptD(1))

lemma insertBalances_keeps:
  "tokens_kept env ops hasTokens \<Longrightarrow> hasTokens w \<Longrightarrow> insertBalances env ops rows w = (r, w1) \<Longrightarrow> hasTokens w1"
  by (induction env ops rows w rule: insertBalances.induct)
    (auto split: prod.splits sum.splits if_splits dest: tokens_keptD(1))

text \<open>C40: The collection of tokens cannot be resumed: when it fails after its first token was inserted, the next run finds
  no contracts, reports success and inserts none of the missing tokens and balances. The insertions are not in a
  transaction.\<close>

theorem interrupted_collection_is_final:
  assumes "tokens_kept env ops hasTokens" "loadContracts env ops w = (Inr contracts, w1)"
    and "map (tokenRow env) (filter (isToken env) contracts) = first # others"
    and "insertTokens env ops [first] w1 = (Inr (), w2)" "CollectTokens env ops w = (Inl err, w3)"
  shows "CollectTokens env ops w3 = (Inr (), snd (SQ_dbQuery ops (TK_loadQuery env) [] w3))"
proof -
  have c: "contracts \<noteq> []" using assms(3) by auto
  obtain args where i: "SQ_dbExec ops (TK_insertToken env) args w1 = (Inr (), w2)"
      "insertTokens env ops (first # others) w1 = insertTokens env ops others w2"
    using assms(4) by (auto split: prod.splits sum.splits)
  have h: "hasTokens w2" using tokens_keptD(2) [OF assms(1) i(1)] .
  have "hasTokens w3"
  proof -
    obtain r wt where t: "insertTokens env ops others w2 = (r, wt)" by (metis prod.collapse)
    have "saveTokens env ops (first # others) (concat (map (tokenBalances env) (filter (isToken env) contracts))) w1 = (Inl err, w3)"
      using assms(2,3,5) c by (simp add: CollectTokens_def Let_def)
    then show ?thesis
      using insertTokens_keeps [OF assms(1) h t] insertBalances_keeps [OF assms(1)] i(2) t
      by (auto simp: saveTokens_def split: sum.splits)
  qed
  then obtain failure w4 where q: "SQ_dbQuery ops (TK_loadQuery env) [] w3 = (Inr \<lparr>RW_rows = [], RW_err = failure\<rparr>, w4)"
    using assms(1) by (auto simp: tokens_kept_def)
  then show ?thesis by (simp add: CollectTokens_def loadContracts_def queryText_def)
qed

text \<open>A sample driver that counts the accepted insertions of tokens and refuses everything else.\<close>

definition sampleTokenSql :: "(nat, unit) sql" where
  "sampleTokenSql = \<lparr>SQ_Begin = (\<lambda>w. (Inr (), w)), SQ_Exec = (\<lambda>q args s. (Inr (), s)), SQ_QueryRow = (\<lambda>q args s. (Inr [], s)),
     SQ_Commit = (\<lambda>s w. (Inr (), w)), SQ_Rollback = (\<lambda>s w. w),
     SQ_dbExec = (\<lambda>q args w. if q = ''t'' then (Inr (), Suc w) else (Inl (TextError ''connection reset''), w)),
     SQ_dbQuery = (\<lambda>q args w. (Inr \<lparr>RW_rows = (if w = 0 then [[AText ''0x1'']] else []), RW_err = None\<rparr>, w))\<rparr>"

definition sampleTokensEnv :: tokens_env where
  "sampleTokensEnv = \<lparr>TK_env = \<lparr>TE_payload = (\<lambda>m args. Inr []), TE_run = (\<lambda>a c p. \<lparr>VM_Success = True, VM_Error = None, VM_ActionResult = []\<rparr>),
       TE_unmarshal = (\<lambda>b. Some [1]), TE_extractByte = (\<lambda>b. Inr 0), TE_balanceArgs = (\<lambda>b. [b]), TE_addressBytes = (\<lambda>a. []),
       TE_setBytes = (\<lambda>b. of_nat (length b))\<rparr>,
     TK_ext = sampleExt, TK_app = sampleApp, TK_HexToAddress = (\<lambda>s. 1), TK_iterate = (\<lambda>c. [([98, 58, 1], [9])]),
     TK_loadQuery = ''l'', TK_insertToken = ''t'', TK_insertBalance = ''b''\<rparr>"

theorem interrupted_collection_is_final_witness:
  "CollectTokens sampleTokensEnv sampleTokenSql 0 = (Inl (TextError ''connection reset''), 1) \<and>
   CollectTokens sampleTokensEnv sampleTokenSql 1 = (Inr (), 1)"
proof -
  have k: "tokens_kept sampleTokensEnv sampleTokenSql (\<lambda>w. 0 < w)"
    by (simp add: tokens_kept_def sampleTokenSql_def sampleTokensEnv_def)
  have l: "loadContracts sampleTokensEnv sampleTokenSql 0 = (Inr [1], 0)"
    by (simp add: loadContracts_def queryText_def sampleTokenSql_def sampleTokensEnv_def scan1_def scanText_def resultBind_def)
  have t: "isToken sampleTokensEnv 1" by (simp add: isToken_def Balance_def call_def sampleTokensEnv_def)
  have b: "tokenBalances sampleTokensEnv 1 = [\<lparr>TokB_ContractAddress = 1, TokB_Address = 20, TokB_Balance = Some 9\<rparr>]"
    by (simp add: tokenBalances_def sampleTokensEnv_def bytesToAddress_def setBytes_def List.map_filter_def)
  have c: "CollectTokens sampleTokensEnv sampleTokenSql 0 = (Inl (TextError ''connection reset''), 1)"
    using l t b by (simp add: CollectTokens_def saveTokens_def sampleTokenSql_def sampleTokensEnv_def zeroIfNil_def)
  have "insertTokens sampleTokensEnv sampleTokenSql [tokenRow sampleTokensEnv 1] 0 = (Inr (), 1)"
    by (simp add: sampleTokenSql_def sampleTokensEnv_def)
  from interrupted_collection_is_final [OF k l _ this c] t c show ?thesis by (simp add: sampleTokenSql_def)
qed

end
